(* ===== verification/Prelude.thy ===== *)
theory Prelude
  imports Main
begin

text \<open>
  Shared vocabulary of the development: the error values the Go code returns, the result
  type of a fallible operation, the error-propagating bind that renders
  \<open>if err != nil { return err }\<close>, Go's 64-bit integers as range-checked or wrapped
  \<open>int\<close>s, and the generic facts on lists and maps that several components use.
\<close>

named_theorems err_simps \<open>unfolding of the error-propagating combinators\<close>
named_theorems frame_simps \<open>what an operation leaves unchanged\<close>

section \<open>Error values\<close>

text \<open>
  The sentinel errors of the packages keep their Go names. The first group are the errors of
  the SQL driver and of MySQL: a failed call, \<open>sql.ErrNoRows\<close>, error 1062 (duplicate key)
  and error 1690 (BIGINT value out of range). \<open>EMsg\<close> is an error made with
  \<open>errors.New\<close> or \<open>fmt.Errorf\<close> at the place of the return.
\<close>

datatype go_err =
    EDriver | ENoRows | EDuplicate | EOutOfRange
  | EMsg string
  | EUserNotFound nat
  | ErrInsufficient | ErrConflict
  | ErrCodeNotFound | ErrCodeUsed | ErrCodeExpired | ErrInvalidCredits | ErrInvalidQuantity
  | ErrPackageUnavailable | ErrChannelDisabled | ErrOrderNotFound | ErrOrderStateInvalid
  | ErrRechargeDisabled | ErrAmountOutOfRange | ErrDailyLimitExceeded
  | ErrNotFound | ErrInvalidSign
  | ErrDisabled
  | ErrNotAcquired | ErrNoAvailable | ErrNoRoute
  | ErrCtxDone
  | ErrKeyCountLimit

section \<open>Results and sequencing\<close>

type_synonym 'a result = "go_err + 'a"

type_synonym ('w, 'a) action = "'w \<Rightarrow> 'a result \<times> 'w"

definition okE :: "'a \<Rightarrow> ('w, 'a) action" where
  "okE x w = (Inr x, w)"

definition failE :: "go_err \<Rightarrow> ('w, 'a) action" where
  "failE e w = (Inl e, w)"

definition bindE :: "('w, 'a) action \<Rightarrow> ('a \<Rightarrow> ('w, 'b) action) \<Rightarrow> ('w, 'b) action" where
  "bindE m f w = (case m w of (Inl e, w') \<Rightarrow> (Inl e, w') | (Inr x, w') \<Rightarrow> f x w')"

text \<open>Translating an error on its way out, as \<open>errors.Is(err, sql.ErrNoRows)\<close> branches do.\<close>

definition mapErr :: "(go_err \<Rightarrow> go_err) \<Rightarrow> ('w, 'a) action \<Rightarrow> ('w, 'a) action" where
  "mapErr g m w = (case m w of (Inl e, w') \<Rightarrow> (Inl (g e), w') | (Inr x, w') \<Rightarrow> (Inr x, w'))"

text \<open>A pure result, an error handed to the continuation, and a clean-up whose own error is dropped.\<close>

definition liftE :: "'b result \<Rightarrow> ('w, 'b) action" where
  "liftE r w = (r, w)"

definition catchE :: "('w, 'b) action \<Rightarrow> ('b result \<Rightarrow> ('w, 'c) action) \<Rightarrow> ('w, 'c) action" where
  "catchE m k w = (case m w of (r, w') \<Rightarrow> k r w')"

definition cleanup_fail :: "('w, unit) action \<Rightarrow> go_err \<Rightarrow> ('w, 'b) action" where
  "cleanup_fail m e = catchE m (\<lambda>_. failE e)"

lemma mapErr_InrD: "mapErr g m w = (Inr x, w') \<Longrightarrow> m w = (Inr x, w')"
  by (auto simp: mapErr_def split: prod.splits sum.splits)

lemma okE_apply [err_simps]: "okE x w = (Inr x, w)"
  by (simp add: okE_def)

lemma failE_apply [err_simps]: "failE e w = (Inl e, w)"
  by (simp add: failE_def)

lemma bindE_okE [simp]: "bindE (okE x) f = f x"
  by (simp add: bindE_def okE_def fun_eq_iff)

lemma bindE_failE [simp]: "bindE (failE e) f = failE e"
  by (simp add: bindE_def failE_def fun_eq_iff)

lemma bindE_assoc: "bindE (bindE m f) g = bindE m (\<lambda>x. bindE (f x) g)"
  by (auto simp: bindE_def fun_eq_iff split: prod.splits sum.splits)

text \<open>Inversion: a sequence succeeds only when both halves do.\<close>

lemma bindE_InrE:
  assumes "bindE m f w = (Inr y, w')"
  obtains x w1 where "m w = (Inr x, w1)" and "f x w1 = (Inr y, w')"
  using assms by (auto simp: bindE_def split: prod.splits sum.splits)

lemma bindE_InlE:
  assumes "bindE m f w = (Inl e, w')"
  obtains (first) "m w = (Inl e, w')"
  | (second) x w1 where "m w = (Inr x, w1)" and "f x w1 = (Inl e, w')"
  using assms by (auto simp: bindE_def split: prod.splits sum.splits)

lemma bindE_Inr: "m w = (Inr x, w1) \<Longrightarrow> bindE m f w = f x w1"
  by (simp add: bindE_def)

lemma bindE_Inl: "m w = (Inl e, w1) \<Longrightarrow> bindE m f w = (Inl e, w1)"
  by (simp add: bindE_def)

lemma liftE_Inr: "liftE r s = (Inr v, s') \<longleftrightarrow> r = Inr v \<and> s' = s"
  by (auto simp: liftE_def)

lemma catchE_cases:
  assumes "catchE m k s = (r, s')"
  obtains x s1 where "m s = (x, s1)" and "k x s1 = (r, s')"
  using assms by (auto simp: catchE_def split: prod.splits)

section \<open>Go's 64-bit integers\<close>

text \<open>
  An \<open>int64\<close> is an \<open>int\<close> in \<open>[-2^63, 2^63)\<close>. Go's arithmetic wraps around
  (\<open>wrap64\<close>); MySQL's BIGINT arithmetic raises error 1690 instead, which the SQL layer
  checks with \<open>in_i64\<close>.
\<close>

definition in_i64 :: "int \<Rightarrow> bool" where
  "in_i64 x \<longleftrightarrow> - (2 ^ 63) \<le> x \<and> x < 2 ^ 63"

definition wrap64 :: "int \<Rightarrow> int" where
  "wrap64 x = (x + 2 ^ 63) mod 2 ^ 64 - 2 ^ 63"

lemma wrap64_in_i64: "in_i64 (wrap64 x)"
proof -
  have "0 \<le> (x + 2 ^ 63) mod 2 ^ 64" "(x + 2 ^ 63) mod 2 ^ 64 < (2 ^ 64 :: int)"
    by simp_all
  then show ?thesis by (simp add: in_i64_def wrap64_def)
qed

lemma wrap64_id [simp]: "in_i64 x \<Longrightarrow> wrap64 x = x"
  by (simp add: in_i64_def wrap64_def)

lemma in_i64_uminus: "in_i64 x \<Longrightarrow> 0 \<le> x \<Longrightarrow> in_i64 (- x)"
  by (simp add: in_i64_def)

lemma in_i64_diff: "in_i64 x \<Longrightarrow> in_i64 y \<Longrightarrow> 0 \<le> x \<Longrightarrow> 0 \<le> y \<Longrightarrow> in_i64 (x - y)"
  by (simp add: in_i64_def)

lemma in_i64_0 [simp]: "in_i64 0"
  by (simp add: in_i64_def)

text \<open>Go's integer division truncates towards zero.\<close>

definition go_div :: "int \<Rightarrow> int \<Rightarrow> int" where
  "go_div a b = sgn a * sgn b * (\<bar>a\<bar> div \<bar>b\<bar>)"

lemma go_div_nonneg: "0 \<le> a \<Longrightarrow> 0 < b \<Longrightarrow> go_div a b = a div b"
  by (cases "a = 0") (simp_all add: go_div_def sgn_if)

section \<open>Runs of operations\<close>

text \<open>
  The contract shared by every group of operations on a state: each admissible operation keeps
  the invariant. A whole run, whatever the operations and their order, then keeps it.
\<close>

primrec admissible_run :: "('op \<Rightarrow> 's \<Rightarrow> bool) \<Rightarrow> ('op \<Rightarrow> 's \<Rightarrow> 's) \<Rightarrow> 'op list \<Rightarrow> 's \<Rightarrow> bool" where
  "admissible_run adm step [] s = True"
| "admissible_run adm step (a # as) s = (adm a s \<and> admissible_run adm step as (step a s))"

locale inv_system =
  fixes step :: "'op \<Rightarrow> 's \<Rightarrow> 's"
    and admissible :: "'op \<Rightarrow> 's \<Rightarrow> bool"
    and inv :: "'s \<Rightarrow> bool"
  assumes step_inv: "inv s \<Longrightarrow> admissible a s \<Longrightarrow> inv (step a s)"
begin

lemma run_inv: "inv s \<Longrightarrow> admissible_run admissible step as s \<Longrightarrow> inv (fold step as s)"
  by (induction as arbitrary: s) (auto intro: step_inv)

end

section \<open>Lists and maps\<close>

lemma sum_list_filter_snoc:
  "sum_list (map f (filter P (xs @ [x]))) =
   sum_list (map f (filter P xs)) + (if P x then f x else (0 :: int))"
  by simp

lemma find_snoc:
  "find P (xs @ [x]) = (case find P xs of Some y \<Rightarrow> Some y | None \<Rightarrow> if P x then Some x else None)"
  by (induction xs) auto

lemma map_upd_same_key: "m k = Some v \<Longrightarrow> dom (m(k \<mapsto> w)) = dom m"
  by auto

end
