(* ===== verification/Sql_Tx.thy ===== *)
theory Sql_Tx
  imports Prelude
begin

text \<open>
  The transaction layer under every DAO: a session is a database together with the outcomes
  the driver will report for the calls to come. A call may succeed, fail without effect, or
  lose its reply (the server has executed it, the client sees an error). Statements inside a
  transaction act on the transaction's private copy; \<open>runTx\<close> (billing/engine.go) discards
  that copy on an error and installs it on commit. Column-length and constraint violations
  that the models do not raise themselves are covered by \<open>DFail\<close>.
\<close>

section \<open>Driver outcomes\<close>

datatype drv = DOk | DFail | DLost

type_synonym 'd sess = "'d \<times> drv list"

fun next_drv :: "drv list \<Rightarrow> drv \<times> drv list" where
  "next_drv [] = (DOk, [])"
| "next_drv (x # xs) = (x, xs)"

text \<open>One statement: the effect of the SQL on the database, if the driver delivers it.\<close>

definition stmt :: "('d \<Rightarrow> 'a result \<times> 'd) \<Rightarrow> ('d sess, 'a) action" where
  "stmt f s =
     (case next_drv (snd s) of
        (DOk, fs) \<Rightarrow> (let (r, d') = f (fst s) in (r, (d', fs)))
      | (DFail, fs) \<Rightarrow> (Inl EDriver, (fst s, fs))
      | (DLost, fs) \<Rightarrow> (Inl EDriver, (snd (f (fst s)), fs)))"

text \<open>
  \<open>BeginTxx\<close>, the body, then \<open>Rollback\<close> on an error and \<open>Commit\<close> otherwise.
  A commit whose reply is lost has taken effect although the caller is told it failed.
\<close>

definition commit :: "'d \<Rightarrow> 'a \<Rightarrow> ('d sess, 'a) action" where
  "commit d0 x s =
     (case next_drv (snd s) of
        (DOk, fs) \<Rightarrow> (Inr x, (fst s, fs))
      | (DFail, fs) \<Rightarrow> (Inl EDriver, (d0, fs))
      | (DLost, fs) \<Rightarrow> (Inl EDriver, (fst s, fs)))"

definition begin_tx :: "('d sess, unit) action" where
  "begin_tx s =
     (case next_drv (snd s) of
        (DOk, fs) \<Rightarrow> (Inr (), (fst s, fs))
      | (_, fs) \<Rightarrow> (Inl EDriver, (fst s, fs)))"

definition runTx :: "('d sess, 'a) action \<Rightarrow> ('d sess, 'a) action" where
  "runTx fn s =
     (case begin_tx s of
        (Inl e, s1) \<Rightarrow> (Inl e, s1)
      | (Inr _, s1) \<Rightarrow>
          (case fn s1 of
             (Inl e, s2) \<Rightarrow> (Inl e, (fst s, snd s2))
           | (Inr x, s2) \<Rightarrow> commit (fst s) x s2))"

text \<open>What a \<open>DATETIME\<close> column makes of an instant (milliseconds): it keeps whole seconds.\<close>

definition datetime :: "int \<Rightarrow> int" where
  "datetime t = (t + 500) div 1000 * 1000"

section \<open>Statements\<close>

lemma stmt_no_faults [simp]: "stmt f (d, []) = (fst (f d), (snd (f d), []))"
  by (simp add: stmt_def split: prod.splits)

lemma stmt_InrE:
  assumes "stmt f s = (Inr x, s')"
  obtains "f (fst s) = (Inr x, fst s')"
  using assms
  by (auto simp: stmt_def split: prod.splits drv.splits)

text \<open>
  Whatever the driver does, a statement either leaves the database alone or has the effect
  its SQL has.
\<close>

lemma stmt_db: "fst (snd (stmt f s)) = fst s \<or> fst (snd (stmt f s)) = snd (f (fst s))"
  by (auto simp: stmt_def split: prod.splits drv.splits)

text \<open>Read-only actions: they leave the database alone whatever the driver does.\<close>

definition reads :: "('d sess, 'a) action \<Rightarrow> bool" where
  "reads m \<longleftrightarrow> (\<forall>s. fst (snd (m s)) = fst s)"

lemma reads_okE [intro]: "reads (okE x)"
  by (simp add: reads_def okE_def)

lemma reads_failE [intro]: "reads (failE e)"
  by (simp add: reads_def failE_def)

lemma reads_stmt [intro]: "(\<And>d. snd (f d) = d) \<Longrightarrow> reads (stmt f)"
  using stmt_db by (fastforce simp: reads_def)

lemma reads_bindE [intro]:
  assumes "reads m" and "\<And>x. reads (f x)"
  shows "reads (bindE m f)"
  unfolding reads_def
proof
  fix s
  obtain r s1 where m: "m s = (r, s1)" by (rule prod.exhaust)
  have "fst s1 = fst s" using assms(1) m by (metis reads_def fst_conv snd_conv)
  moreover have "fst (snd (f x s1)) = fst s1" for x
    using assms(2) [of x] unfolding reads_def by (rule spec)
  ultimately show "fst (snd (bindE m f s)) = fst s"
    by (cases r) (simp_all add: bindE_def m)
qed

lemma reads_if [intro]: "(c \<Longrightarrow> reads a) \<Longrightarrow> (\<not> c \<Longrightarrow> reads b) \<Longrightarrow> reads (if c then a else b)"
  by simp

lemma reads_case_sum [intro]:
  "(\<And>e. x = Inl e \<Longrightarrow> reads (f e)) \<Longrightarrow> (\<And>y. x = Inr y \<Longrightarrow> reads (g y)) \<Longrightarrow>
     reads (case x of Inl e \<Rightarrow> f e | Inr y \<Rightarrow> g y)"
  by (cases x) simp_all

lemma reads_case_option [intro]:
  "(x = None \<Longrightarrow> reads a) \<Longrightarrow> (\<And>y. x = Some y \<Longrightarrow> reads (g y)) \<Longrightarrow>
     reads (case x of None \<Rightarrow> a | Some y \<Rightarrow> g y)"
  by (cases x) simp_all

lemmas reads_intros = reads_okE reads_failE reads_bindE reads_if reads_case_sum reads_case_option

lemma reads_liftE [intro]: "reads (liftE r)"
  by (simp add: reads_def liftE_def)

lemma reads_catchE [intro]:
  assumes "reads m" and "\<And>x. reads (k x)"
  shows "reads (catchE m k)"
  unfolding reads_def
proof
  fix s
  obtain r s1 where m: "m s = (r, s1)" by (rule prod.exhaust)
  have "fst s1 = fst s" using assms(1) m by (metis reads_def fst_conv snd_conv)
  moreover have "fst (snd (k x s1)) = fst s1" for x
    using assms(2) [of x] unfolding reads_def by (rule spec)
  ultimately show "fst (snd (catchE m k s)) = fst s" by (simp add: catchE_def m)
qed

lemma readsD: "reads m \<Longrightarrow> m s = (r, s') \<Longrightarrow> fst s' = fst s"
  by (metis reads_def fst_conv snd_conv)

section \<open>Transactions\<close>

text \<open>
  Atomicity: the database after \<open>runTx\<close> is the one before, or the one the whole body
  produced. In the second case the body succeeded, and the caller sees its result or, when
  the reply to the commit was lost, a driver error.
\<close>

lemma runTx_cases [consumes 1, case_names unchanged applied]:
  assumes "runTx fn s = (r, s')"
  obtains (unchanged) e where "r = Inl e" and "fst s' = fst s"
  | (applied) x fs1 fs2 where "fn (fst s, fs1) = (Inr x, (fst s', fs2))"
      and "r = Inr x \<or> r = Inl EDriver"
proof -
  obtain o1 fs1 where n: "next_drv (snd s) = (o1, fs1)" by (cases "next_drv (snd s)")
  show ?thesis
  proof (cases "o1 = DOk")
    case False
    with n assms have "r = Inl EDriver" "fst s' = fst s"
      by (auto simp: runTx_def begin_tx_def split: drv.splits)
    then show ?thesis by (rule unchanged)
  next
    case True
    obtain r2 s2 where f: "fn (fst s, fs1) = (r2, s2)" by (cases "fn (fst s, fs1)")
    show ?thesis
    proof (cases r2)
      case (Inl e)
      with f n True assms have "r = Inl e" "fst s' = fst s"
        by (auto simp: runTx_def begin_tx_def)
      then show ?thesis by (rule unchanged)
    next
      case (Inr x)
      obtain o2 fs2 where n2: "next_drv (snd s2) = (o2, fs2)" by (cases "next_drv (snd s2)")
      have run: "(r, s') = commit (fst s) x s2"
        using assms f n True Inr by (simp add: runTx_def begin_tx_def)
      show ?thesis
      proof (cases "o2 = DFail")
        case True
        with run n2 have "r = Inl EDriver" "fst s' = fst s" by (auto simp: commit_def)
        then show ?thesis by (rule unchanged)
      next
        case False
        with run n2 have r: "r = Inr x \<or> r = Inl EDriver" and s': "fst s' = fst s2"
          by (auto simp: commit_def split: drv.splits)
        from f Inr s' have "fn (fst s, fs1) = (Inr x, (fst s', snd s2))" by simp
        then show ?thesis using r by (rule applied)
      qed
    qed
  qed
qed

lemma runTx_InrE:
  assumes "runTx fn s = (Inr x, s')"
  obtains fs1 fs2 where "fn (fst s, fs1) = (Inr x, (fst s', fs2))"
  using assms by (cases rule: runTx_cases) auto

text \<open>An error other than the driver's comes from the body.\<close>

lemma runTx_InlE:
  assumes "runTx fn s = (Inl e, s')" and "e \<noteq> EDriver"
  obtains fs1 s2 where "fn (fst s, fs1) = (Inl e, s2)"
  using assms
  by (auto simp: runTx_def begin_tx_def commit_def split: prod.splits sum.splits drv.splits)

lemma stmt_InlE:
  assumes "stmt f s = (Inl e, s')" and "e \<noteq> EDriver"
  obtains "f (fst s) = (Inl e, fst s')"
  using assms by (auto simp: stmt_def split: prod.splits drv.splits)

lemma runTx_no_faults:
  "runTx fn (d, []) =
     (case fn (d, []) of
        (Inl e, s2) \<Rightarrow> (Inl e, (d, snd s2))
      | (Inr x, s2) \<Rightarrow> commit d x s2)"
  by (simp add: runTx_def begin_tx_def split: prod.splits sum.splits)

lemma commit_no_faults [simp]: "commit d x (d', []) = (Inr x, (d', []))"
  by (simp add: commit_def)

text \<open>
  A transaction keeps any property of the database that its body keeps on success: the
  failure cases need no proof, because they roll back.
\<close>

lemma runTx_preserves:
  assumes body: "\<And>fs x d' fs'. fn (fst s, fs) = (Inr x, (d', fs')) \<Longrightarrow> P d'"
    and start: "P (fst s)"
  shows "P (fst (snd (runTx fn s)))"
proof -
  obtain r s' where run: "runTx fn s = (r, s')" by (cases "runTx fn s")
  from run show ?thesis
  proof (cases rule: runTx_cases)
    case (unchanged e)
    with run start show ?thesis by simp
  next
    case (applied x fs1 fs2)
    from body [OF applied(1)] show ?thesis using run by simp
  qed
qed

section \<open>Invariants of actions\<close>

text \<open>An action preserves a property of the database, whatever the driver does.\<close>

definition preserves :: "('d \<Rightarrow> bool) \<Rightarrow> ('d sess, 'a) action \<Rightarrow> bool" where
  "preserves I m \<longleftrightarrow> (\<forall>s. I (fst s) \<longrightarrow> I (fst (snd (m s))))"

lemma preservesD: "preserves I m \<Longrightarrow> m s = (r, s') \<Longrightarrow> I (fst s) \<Longrightarrow> I (fst s')"
  by (metis preserves_def snd_conv)

lemma preserves_snd: "preserves I m \<Longrightarrow> I (fst s) \<Longrightarrow> I (fst (snd (m s)))"
  unfolding preserves_def by blast

lemma preserves_okE [intro]: "preserves I (okE x)"
  by (simp add: preserves_def okE_def)

lemma preserves_failE [intro]: "preserves I (failE e)"
  by (simp add: preserves_def failE_def)

lemma preserves_stmt: "(\<And>d. I d \<Longrightarrow> I (snd (f d))) \<Longrightarrow> preserves I (stmt f)"
  unfolding preserves_def using stmt_db [of f] by (metis (no_types))

lemma preserves_reads: "reads m \<Longrightarrow> preserves I m"
  by (simp add: preserves_def reads_def)

lemma preserves_mapErr: "preserves I m \<Longrightarrow> preserves I (mapErr g m)"
  by (auto simp: preserves_def mapErr_def split: prod.splits sum.splits) (metis fst_conv snd_conv)+

lemma reads_mapErr [intro]: "reads m \<Longrightarrow> reads (mapErr g m)"
  by (auto simp: reads_def mapErr_def split: prod.splits sum.splits) (metis fst_conv snd_conv)+

lemma preserves_bindE:
  fixes m :: "('d sess, 'a) action"
  assumes "preserves I m" and "\<And>x. preserves I (f x)"
  shows "preserves I (bindE m f)"
  unfolding preserves_def
proof (intro allI impI)
  fix s :: "'d sess" assume i: "I (fst s)"
  obtain r s1 where m: "m s = (r, s1)" by (rule prod.exhaust)
  have i1: "I (fst s1)" by (rule preservesD [OF assms(1) m i])
  have "I (fst (snd (f x s1)))" for x
    using assms(2) [of x] i1 unfolding preserves_def by blast
  with i1 show "I (fst (snd (bindE m f s)))" by (cases r) (simp_all add: bindE_def m)
qed

lemma preserves_runTx:
  fixes m :: "('d sess, 'a) action"
  shows "preserves I m \<Longrightarrow> preserves I (runTx m)"
  unfolding preserves_def
proof (intro allI impI)
  fix s :: "'d sess" assume "\<forall>s. I (fst s) \<longrightarrow> I (fst (snd (m s)))" and i: "I (fst s)"
  then have body: "I (fst (snd (m (fst s, fs))))" for fs by simp
  show "I (fst (snd (runTx m s)))"
  proof (rule runTx_preserves)
    show "I d'" if "m (fst s, fs) = (Inr x, (d', fs'))" for fs x d' fs'
      using body [of fs] that by simp
  qed (rule i)
qed

lemma preserves_catchE:
  fixes m :: "('d sess, 'b) action"
  assumes "preserves I m" and "\<And>x. preserves I (k x)"
  shows "preserves I (catchE m k)"
  unfolding preserves_def
proof (intro allI impI)
  fix s :: "'d sess" assume i: "I (fst s)"
  obtain r s1 where m: "m s = (r, s1)" by (rule prod.exhaust)
  have "I (fst s1)" by (rule preservesD [OF assms(1) m i])
  with assms(2) [of r] show "I (fst (snd (catchE m k s)))" by (simp add: catchE_def m preserves_snd)
qed

lemma preserves_if: "(c \<Longrightarrow> preserves I a) \<Longrightarrow> (\<not> c \<Longrightarrow> preserves I b) \<Longrightarrow> preserves I (if c then a else b)"
  by simp

lemma preserves_case_option:
  "(x = None \<Longrightarrow> preserves I a) \<Longrightarrow> (\<And>y. x = Some y \<Longrightarrow> preserves I (g y)) \<Longrightarrow>
     preserves I (case x of None \<Rightarrow> a | Some y \<Rightarrow> g y)"
  by (cases x) simp_all

lemmas preserves_intros =
  preserves_okE preserves_failE preserves_bindE preserves_runTx preserves_if preserves_case_option preserves_mapErr

end
