(* ===== verification/Go_Base.thy ===== *)
theory Go_Base
  imports Prelude "HOL-Library.Char_ord" "HOL-Library.List_Lexorder"
begin

text \<open>
  The parts of Go's standard library the modelled code relies on: byte strings
  (\<open>strings\<close>), decimal and hexadecimal rendering (\<open>strconv\<close>, \<open>fmt\<close>,
  \<open>encoding/hex\<close>). A Go string is a list of bytes; case mapping and white space are the
  ASCII ones, which is what the code's own inputs (sizes, codes, keys, URLs) use.
\<close>

section \<open>Characters\<close>

definition byte_val :: "char \<Rightarrow> nat" where
  "byte_val c = of_char c"

definition is_space :: "char \<Rightarrow> bool" where
  "is_space c \<longleftrightarrow> byte_val c \<in> {9, 10, 11, 12, 13, 32}"

definition is_digit :: "char \<Rightarrow> bool" where
  "is_digit c \<longleftrightarrow> 48 \<le> byte_val c \<and> byte_val c \<le> 57"

definition lower_char :: "char \<Rightarrow> char" where
  "lower_char c = (if 65 \<le> byte_val c \<and> byte_val c \<le> 90 then char_of (byte_val c + 32) else c)"

definition upper_char :: "char \<Rightarrow> char" where
  "upper_char c = (if 97 \<le> byte_val c \<and> byte_val c \<le> 122 then char_of (byte_val c - 32) else c)"

definition digit_char :: "nat \<Rightarrow> char" where
  "digit_char n = char_of (48 + n)"

lemma code_char_of [simp]: "n < 256 \<Longrightarrow> byte_val (char_of n) = n"
  by (simp add: byte_val_def)

lemma code_bound: "byte_val c < 256"
  by (simp add: byte_val_def)

lemma upper_char_idem [simp]: "upper_char (upper_char c) = upper_char c"
proof (cases "97 \<le> byte_val c \<and> byte_val c \<le> 122")
  case True
  then have "byte_val c - 32 < 256" by arith
  then have "byte_val (char_of (byte_val c - 32)) = byte_val c - 32" by (rule code_char_of)
  moreover have "\<not> 97 \<le> byte_val c - 32" using True by arith
  ultimately show ?thesis using True by (simp add: upper_char_def)
qed (auto simp: upper_char_def)

lemma lower_char_idem [simp]: "lower_char (lower_char c) = lower_char c"
proof (cases "65 \<le> byte_val c \<and> byte_val c \<le> 90")
  case True
  then have "byte_val (char_of (byte_val c + 32)) = byte_val c + 32" by simp
  with True show ?thesis by (simp add: lower_char_def)
qed (auto simp: lower_char_def)

lemma is_space_upper [simp]: "is_space (upper_char c) = is_space c"
proof (cases "97 \<le> byte_val c \<and> byte_val c \<le> 122")
  case True
  then have "byte_val c - 32 < 256" by arith
  then have "byte_val (upper_char c) = byte_val c - 32" using True by (simp add: upper_char_def)
  with True show ?thesis by (auto simp: is_space_def)
qed (auto simp: upper_char_def)

section \<open>Strings\<close>

definition ToUpper :: "string \<Rightarrow> string" where "ToUpper s = map upper_char s"

definition ToLower :: "string \<Rightarrow> string" where "ToLower s = map lower_char s"

definition TrimSpace :: "string \<Rightarrow> string" where
  "TrimSpace s = rev (dropWhile is_space (rev (dropWhile is_space s)))"

definition EqualFold :: "string \<Rightarrow> string \<Rightarrow> bool" where
  "EqualFold a b \<longleftrightarrow> ToLower a = ToLower b"

definition HasPrefix :: "string \<Rightarrow> string \<Rightarrow> bool" where
  "HasPrefix s p \<longleftrightarrow> take (length p) s = p"

definition HasSuffix :: "string \<Rightarrow> string \<Rightarrow> bool" where
  "HasSuffix s p = HasPrefix (rev s) (rev p)"

text \<open>\<open>strings.Split\<close> on a one-byte separator.\<close>

fun split_on :: "char \<Rightarrow> string \<Rightarrow> string list" where
  "split_on c [] = [[]]"
| "split_on c (x # xs) =
     (if x = c then [] # split_on c xs
      else (case split_on c xs of [] \<Rightarrow> [[x]] | p # ps \<Rightarrow> (x # p) # ps))"

text \<open>\<open>strings.Index\<close>.\<close>

fun Index :: "string \<Rightarrow> string \<Rightarrow> nat option" where
  "Index s p =
     (if HasPrefix s p then Some 0
      else (case s of [] \<Rightarrow> None | _ # t \<Rightarrow> map_option Suc (Index t p)))"

declare Index.simps [simp del]

definition Contains :: "string \<Rightarrow> string \<Rightarrow> bool" where
  "Contains s p \<longleftrightarrow> Index s p \<noteq> None"

text \<open>A text given by its bytes.\<close>

definition utf :: "nat list \<Rightarrow> string" where "utf bs = map char_of bs"

lemma dropWhile_rev_id:
  "dropWhile P (rev (dropWhile P (rev (dropWhile P s)))) = rev (dropWhile P (rev (dropWhile P s)))"
proof -
  define t where "t = dropWhile P s"
  obtain zs where zs: "t = rev (dropWhile P (rev t)) @ zs"
    by (metis rev_append rev_rev_ident takeWhile_dropWhile_id)
  have hd: "\<not> P x" if "t = x # xs" for x xs
    using that unfolding t_def by (auto simp: dropWhile_eq_Cons_conv)
  have "dropWhile P (rev (dropWhile P (rev t))) = rev (dropWhile P (rev t))"
  proof (cases "rev (dropWhile P (rev t))")
    case (Cons x xs)
    then have "t = x # xs @ zs" using zs by simp
    from hd [OF this] show ?thesis using Cons by simp
  next
    case Nil
    show ?thesis unfolding Nil by simp
  qed
  then show ?thesis by (simp add: t_def)
qed

lemma TrimSpace_idem [simp]: "TrimSpace (TrimSpace s) = TrimSpace s"
  by (simp add: TrimSpace_def dropWhile_rev_id)

lemma dropWhile_map_upper: "dropWhile is_space (map upper_char s) = map upper_char (dropWhile is_space s)"
  by (induction s) auto

lemma TrimSpace_ToUpper: "TrimSpace (ToUpper s) = ToUpper (TrimSpace s)"
  by (simp add: TrimSpace_def ToUpper_def dropWhile_map_upper rev_map)

lemma ToUpper_idem [simp]: "ToUpper (ToUpper s) = ToUpper s"
  by (simp add: ToUpper_def)

lemma split_on_nonempty: "split_on c s \<noteq> []"
  by (induction s) (auto split: list.splits)

lemma split_on_no_sep: "c \<notin> set s \<Longrightarrow> split_on c s = [s]"
  by (induction s) auto

lemma split_on_append: "c \<notin> set a \<Longrightarrow> split_on c (a @ c # b) = a # split_on c b"
  by (induction a) auto

section \<open>Decimal numbers\<close>

fun dec_nat :: "nat \<Rightarrow> string" where
  "dec_nat n = (if n < 10 then [digit_char n] else dec_nat (n div 10) @ [digit_char (n mod 10)])"

declare dec_nat.simps [simp del]

definition dec_int :: "int \<Rightarrow> string" where
  "dec_int i = (if i < 0 then CHR ''-'' # dec_nat (nat (- i)) else dec_nat (nat i))"

fun parse_digits :: "nat \<Rightarrow> string \<Rightarrow> nat option" where
  "parse_digits acc [] = Some acc"
| "parse_digits acc (c # cs) =
     (if is_digit c then parse_digits (acc * 10 + (byte_val c - 48)) cs else None)"

text \<open>\<open>strconv.Atoi\<close>: an optional sign, at least one digit, the int64 range.\<close>

definition Atoi :: "string \<Rightarrow> int option" where
  "Atoi s =
     (let (neg, ds) = (case s of [] \<Rightarrow> (False, [])
                       | c # cs \<Rightarrow> if c = CHR ''-'' then (True, cs)
                                   else if c = CHR ''+'' then (False, cs) else (False, s)) in
      if ds = [] then None
      else case parse_digits 0 ds of
             None \<Rightarrow> None
           | Some n \<Rightarrow> (let i = (if neg then - int n else int n) in
                        if in_i64 i then Some i else None))"

lemma code_digit_char: "n < 10 \<Longrightarrow> byte_val (digit_char n) = 48 + n"
  by (simp add: digit_char_def)

lemma is_digit_digit_char: "n < 10 \<Longrightarrow> is_digit (digit_char n)"
  by (simp add: is_digit_def code_digit_char)

lemma parse_digits_append:
  "parse_digits acc (xs @ ys) = Option.bind (parse_digits acc xs) (\<lambda>a. parse_digits a ys)"
  by (induction xs arbitrary: acc) auto

lemma parse_dec_nat: "parse_digits 0 (dec_nat n) = Some n"
proof (induction n rule: dec_nat.induct)
  case (1 n)
  show ?case
  proof (cases "n < 10")
    case True
    then show ?thesis by (simp add: dec_nat.simps [of n] is_digit_digit_char code_digit_char)
  next
    case False
    with "1.IH" have "parse_digits 0 (dec_nat (n div 10)) = Some (n div 10)" by simp
    with False show ?thesis
      by (simp add: dec_nat.simps [of n] parse_digits_append is_digit_digit_char code_digit_char)
  qed
qed

lemma dec_nat_digits: "c \<in> set (dec_nat n) \<Longrightarrow> is_digit c"
proof (induction n rule: dec_nat.induct)
  case (1 n)
  then show ?case
    by (cases "n < 10") (auto simp: dec_nat.simps [of n] is_digit_digit_char)
qed

lemma dec_nat_nonempty [simp]: "dec_nat n \<noteq> []"
  by (simp add: dec_nat.simps [of n])

lemma dec_nat_inj: "dec_nat m = dec_nat n \<Longrightarrow> m = n"
  by (metis option.inject parse_dec_nat)

text \<open>Rendering then parsing gives the number back.\<close>

lemma Atoi_dec_int:
  assumes "in_i64 i"
  shows "Atoi (dec_int i) = Some i"
proof (cases "i < 0")
  case True
  with assms show ?thesis by (simp add: Atoi_def dec_int_def parse_dec_nat)
next
  case False
  obtain c cs where c: "dec_nat (nat i) = c # cs" by (cases "dec_nat (nat i)") auto
  then have "is_digit c" using dec_nat_digits [of c "nat i"] by simp
  then have "c \<noteq> CHR ''-''" "c \<noteq> CHR ''+''" by (auto simp: is_digit_def byte_val_def)
  with c False assms show ?thesis
    using parse_dec_nat [of "nat i"] by (simp add: Atoi_def dec_int_def)
qed

section \<open>Hexadecimal\<close>

definition hex_digit :: "nat \<Rightarrow> char" where
  "hex_digit n = (if n < 10 then char_of (48 + n) else char_of (87 + n))"

definition hex_byte :: "nat \<Rightarrow> string" where
  "hex_byte b = [hex_digit (b div 16), hex_digit (b mod 16)]"

definition EncodeToString :: "nat list \<Rightarrow> string" where
  "EncodeToString bs = concat (map hex_byte bs)"

definition hex_val :: "char \<Rightarrow> nat option" where
  "hex_val c =
     (let v = byte_val c in
      if 48 \<le> v \<and> v \<le> 57 then Some (v - 48)
      else if 97 \<le> v \<and> v \<le> 102 then Some (v - 87)
      else if 65 \<le> v \<and> v \<le> 70 then Some (v - 55)
      else None)"

lemma length_EncodeToString [simp]: "length (EncodeToString bs) = 2 * length bs"
  by (induction bs) (simp_all add: EncodeToString_def hex_byte_def)

end
