(* ===== verification/Billing_Engine.thy ===== *)
theory Billing_Engine
  imports Sql_Tx Go_Base
begin

text \<open>
  The credit engine (internal/billing/engine.go and admin.go): a user row holds an available
  balance and a frozen amount, every change appends to \<open>credit_transactions\<close>, and every
  operation runs in one transaction. The engine's tables form an extensible record, so that
  the packages that call the engine inside their own transaction (redeem, checkin) extend it
  with their tables.
\<close>

section \<open>Tables\<close>

datatype kind =
    KindFreeze | KindUnfreeze | KindConsume | KindRefund
  | KindRecharge | KindRedeem | KindCheckin | KindAdjust

record user_row =
  credit_balance :: int
  credit_frozen :: int
  version :: nat
  deleted_at :: "int option"

record credit_tx =
  ct_user_id :: nat
  ct_key_id :: nat
  ct_type :: kind
  ct_amount :: int
  ct_balance_after :: int
  ct_ref_id :: string
  ct_remark :: string

record billing_db =
  users :: "nat \<rightharpoonup> user_row"
  ledger :: "credit_tx list"

text \<open>BIGINT columns for the two amounts, BIGINT UNSIGNED for the version.\<close>

definition row_fits :: "user_row \<Rightarrow> bool" where
  "row_fits u \<longleftrightarrow> in_i64 (credit_balance u) \<and> in_i64 (credit_frozen u) \<and> version u < 2 ^ 64"

section \<open>The SQL the engine issues\<close>

text \<open>
  \<open>UPDATE users SET ... WHERE id = ? AND cond AND deleted_at IS NULL\<close>. The condition is
  an option because evaluating it can itself leave the BIGINT range. The result is
  \<open>RowsAffected\<close>; the version column changes with every update, so a matched row is a
  changed row.
\<close>

definition update_users ::
  "nat \<Rightarrow> (user_row \<Rightarrow> bool option) \<Rightarrow> (user_row \<Rightarrow> user_row) \<Rightarrow>
   'a billing_db_scheme \<Rightarrow> nat result \<times> 'a billing_db_scheme" where
  "update_users uid cond upd d =
     (case users d uid of
        None \<Rightarrow> (Inr 0, d)
      | Some u \<Rightarrow>
          if deleted_at u \<noteq> None then (Inr 0, d)
          else (case cond u of
                  None \<Rightarrow> (Inl EOutOfRange, d)
                | Some c \<Rightarrow>
                    if \<not> c then (Inr 0, d)
                    else if row_fits (upd u) then (Inr 1, d\<lparr>users := (users d)(uid \<mapsto> upd u)\<rparr>)
                    else (Inl EOutOfRange, d)))"

definition select_balance :: "nat \<Rightarrow> 'a billing_db_scheme \<Rightarrow> int result \<times> 'a billing_db_scheme" where
  "select_balance uid d =
     (case users d uid of None \<Rightarrow> (Inl ENoRows, d) | Some u \<Rightarrow> (Inr (credit_balance u), d))"

definition insert_tx :: "credit_tx \<Rightarrow> 'a billing_db_scheme \<Rightarrow> unit result \<times> 'a billing_db_scheme" where
  "insert_tx t d = (Inr (), d\<lparr>ledger := ledger d @ [t]\<rparr>)"

text \<open>\<open>credit_balance + b, credit_frozen + f, version + 1\<close>.\<close>

definition move :: "int \<Rightarrow> int \<Rightarrow> user_row \<Rightarrow> user_row" where
  "move b f u = u\<lparr>credit_balance := credit_balance u + b,
                  credit_frozen := credit_frozen u + f,
                  version := version u + 1\<rparr>"

definition mk_tx :: "nat \<Rightarrow> nat \<Rightarrow> kind \<Rightarrow> int \<Rightarrow> int \<Rightarrow> string \<Rightarrow> string \<Rightarrow> credit_tx" where
  "mk_tx uid kid k amount after ref remark =
     \<lparr>ct_user_id = uid, ct_key_id = kid, ct_type = k, ct_amount = amount,
      ct_balance_after = after, ct_ref_id = ref, ct_remark = remark\<rparr>"

section \<open>Operations\<close>

definition Balance :: "nat \<Rightarrow> ('a billing_db_scheme sess, int \<times> int) action" where
  "Balance userID s =
     (case stmt (\<lambda>d. (case users d userID of
                        None \<Rightarrow> (Inl ENoRows, d)
                      | Some u \<Rightarrow> if deleted_at u \<noteq> None then (Inl ENoRows, d)
                                 else (Inr (credit_balance u, credit_frozen u), d))) s of
        (Inl ENoRows, s') \<Rightarrow> (Inl (EUserNotFound userID), s')
      | r \<Rightarrow> r)"

definition PreDeduct ::
  "nat \<Rightarrow> nat \<Rightarrow> int \<Rightarrow> string \<Rightarrow> string \<Rightarrow> ('a billing_db_scheme sess, unit) action" where
  "PreDeduct userID keyID amount refID remark =
     (if amount \<le> 0 then okE ()
      else runTx
        (bindE (stmt (update_users userID (\<lambda>u. Some (credit_balance u \<ge> amount))
                        (move (- amount) amount))) (\<lambda>n.
         if n = 0 then failE ErrInsufficient
         else bindE (stmt (select_balance userID)) (\<lambda>balanceAfter.
              stmt (insert_tx (mk_tx userID keyID KindFreeze (- amount) balanceAfter refID remark))))))"

definition Settle ::
  "nat \<Rightarrow> nat \<Rightarrow> int \<Rightarrow> int \<Rightarrow> string \<Rightarrow> string \<Rightarrow> ('a billing_db_scheme sess, unit) action" where
  "Settle userID keyID expected actual0 refID remark =
     (if expected \<le> 0 \<and> actual0 \<le> 0 then okE ()
      else let actual = (if actual0 < 0 then 0 else actual0) in runTx
        (let refund = wrap64 (expected - actual);
             frozenDelta = wrap64 (- expected);
             balanceDelta = refund in
         bindE (stmt (update_users userID
                        (\<lambda>u. if in_i64 (credit_frozen u + frozenDelta)
                             then Some (credit_frozen u + frozenDelta \<ge> 0) else None)
                        (move balanceDelta frozenDelta))) (\<lambda>n.
         if n = 0 then failE ErrConflict
         else bindE (stmt (select_balance userID)) (\<lambda>balanceAfter.
              bindE (if expected > 0
                     then stmt (insert_tx (mk_tx userID keyID KindUnfreeze expected balanceAfter refID remark))
                     else okE ()) (\<lambda>_.
              if actual > 0
              then stmt (insert_tx (mk_tx userID keyID KindConsume (- actual) balanceAfter refID remark))
              else okE ())))))"

definition Refund ::
  "nat \<Rightarrow> nat \<Rightarrow> int \<Rightarrow> string \<Rightarrow> string \<Rightarrow> ('a billing_db_scheme sess, unit) action" where
  "Refund userID keyID expected refID remark =
     (if expected \<le> 0 then okE ()
      else runTx
        (bindE (stmt (update_users userID (\<lambda>u. Some (credit_frozen u \<ge> expected))
                        (move expected (- expected)))) (\<lambda>n.
         if n = 0 then failE ErrConflict
         else bindE (stmt (select_balance userID)) (\<lambda>balanceAfter.
              stmt (insert_tx (mk_tx userID keyID KindRefund expected balanceAfter refID remark))))))"

text \<open>\<open>Recharge\<close> ignores the number of affected rows.\<close>

definition Recharge ::
  "nat \<Rightarrow> int \<Rightarrow> string \<Rightarrow> string \<Rightarrow> ('a billing_db_scheme sess, unit) action" where
  "Recharge userID amount refID remark =
     (if amount \<le> 0 then failE (EMsg ''amount must be positive'')
      else runTx
        (bindE (stmt (update_users userID (\<lambda>u. Some True) (move amount 0))) (\<lambda>_.
         bindE (stmt (select_balance userID)) (\<lambda>balanceAfter.
         stmt (insert_tx (mk_tx userID 0 KindRecharge amount balanceAfter refID remark))))))"

definition creditTx ::
  "nat \<Rightarrow> int \<Rightarrow> kind \<Rightarrow> string \<Rightarrow> string \<Rightarrow> ('a billing_db_scheme sess, int) action" where
  "creditTx userID amount k refID remark =
     (if amount \<le> 0 then failE (EMsg ''amount must be positive'')
      else bindE (stmt (update_users userID (\<lambda>u. Some True) (move amount 0))) (\<lambda>n.
           if n = 0 then failE (EUserNotFound userID)
           else bindE (stmt (select_balance userID)) (\<lambda>balanceAfter.
                bindE (stmt (insert_tx (mk_tx userID 0 k amount balanceAfter refID remark))) (\<lambda>_.
                okE balanceAfter))))"

definition AwardCheckinTx ::
  "nat \<Rightarrow> int \<Rightarrow> string \<Rightarrow> string \<Rightarrow> ('a billing_db_scheme sess, int) action" where
  "AwardCheckinTx userID amount refID remark = creditTx userID amount KindCheckin refID remark"

definition RedeemTx ::
  "nat \<Rightarrow> int \<Rightarrow> string \<Rightarrow> string \<Rightarrow> ('a billing_db_scheme sess, int) action" where
  "RedeemTx userID amount refID remark = creditTx userID amount KindRedeem refID remark"

definition fullRemark :: "nat \<Rightarrow> string \<Rightarrow> string" where
  "fullRemark actorID remark =
     (if actorID > 0 then ''[by admin='' @ dec_nat actorID @ ''] '' @ remark else remark)"

definition AdminAdjust ::
  "nat \<Rightarrow> nat \<Rightarrow> int \<Rightarrow> string \<Rightarrow> string \<Rightarrow> ('a billing_db_scheme sess, int) action" where
  "AdminAdjust targetUserID actorID delta refID remark =
     (if delta = 0 then failE (EMsg ''delta must not be zero'')
      else runTx
        (let neg = wrap64 (- delta) in
         bindE (if delta > 0
                then stmt (update_users targetUserID (\<lambda>u. Some True) (move delta 0))
                else stmt (update_users targetUserID (\<lambda>u. Some (credit_balance u \<ge> neg))
                             (move (- neg) 0))) (\<lambda>n.
         if n = 0 then (if delta < 0 then failE ErrInsufficient else failE (EUserNotFound targetUserID))
         else bindE (stmt (select_balance targetUserID)) (\<lambda>balanceAfter.
              bindE (stmt (insert_tx (mk_tx targetUserID 0 KindAdjust delta balanceAfter refID
                                        (fullRemark actorID remark))))
                (\<lambda>_. okE balanceAfter)))))"

section \<open>What one committed operation does\<close>

text \<open>
  The shape of every successful engine transaction: a live user's row moves by a balance and a
  frozen amount, and entries are appended to the ledger. Nothing else in the database changes.
\<close>

definition posted ::
  "nat \<Rightarrow> int \<Rightarrow> int \<Rightarrow> (int \<Rightarrow> credit_tx list) \<Rightarrow>
   'a billing_db_scheme \<Rightarrow> 'a billing_db_scheme \<Rightarrow> bool" where
  "posted uid b f txs d d' \<longleftrightarrow>
     (\<exists>u. users d uid = Some u \<and> deleted_at u = None \<and> row_fits (move b f u) \<and>
          d' = d\<lparr>users := (users d)(uid \<mapsto> move b f u),
                 ledger := ledger d @ txs (credit_balance u + b)\<rparr>)"

definition live :: "nat \<Rightarrow> 'a billing_db_scheme \<Rightarrow> user_row option" where
  "live uid d = (case users d uid of None \<Rightarrow> None
                 | Some u \<Rightarrow> if deleted_at u = None then Some u else None)"

lemma live_Some [simp]: "live uid d = Some u \<longleftrightarrow> users d uid = Some u \<and> deleted_at u = None"
  by (auto simp: live_def split: option.splits)

lemma move_simps [simp]:
  "credit_balance (move b f u) = credit_balance u + b"
  "credit_frozen (move b f u) = credit_frozen u + f"
  "version (move b f u) = version u + 1"
  "deleted_at (move b f u) = deleted_at u"
  by (simp_all add: move_def)

lemma update_users_Inr:
  assumes "update_users uid cond upd d = (Inr n, d')"
  obtains (none) "n = 0" and "d' = d" and "live uid d = None \<or> (\<exists>u. live uid d = Some u \<and> cond u = Some False)"
  | (one) u where "n = 1" and "users d uid = Some u" and "deleted_at u = None" and "cond u = Some True"
      and "row_fits (upd u)" and "d' = d\<lparr>users := (users d)(uid \<mapsto> upd u)\<rparr>"
  using assms by (auto simp: update_users_def live_def split: option.splits if_splits)

lemma update_users_InlD: "update_users uid cond upd d = (Inl e, d') \<Longrightarrow> e = EOutOfRange \<and> d' = d"
  by (auto simp: update_users_def split: option.splits if_splits)

lemma select_balance_Inr:
  "select_balance uid d = (Inr b, d') \<Longrightarrow> \<exists>u. users d uid = Some u \<and> b = credit_balance u \<and> d' = d"
  by (auto simp: select_balance_def split: option.splits)

text \<open>
  The common body of the engine's transactions: update, read the balance back, record. On
  success it has posted the movement with the entries its last part appends.
\<close>

lemma update_select_posted:
  assumes run: "bindE (stmt (update_users uid cond (move b f))) (\<lambda>n.
                  if n = 0 then failE e else bindE (stmt (select_balance uid)) k) s = (Inr x, s')"
    and rec: "\<And>after s1. k after s1 = (Inr x, s') \<Longrightarrow>
                fst s' = (fst s1)\<lparr>ledger := ledger (fst s1) @ txs after\<rparr>"
  shows "\<exists>u. live uid (fst s) = Some u \<and> cond u = Some True \<and> posted uid b f txs (fst s) (fst s')"
proof -
  from run obtain n s1 where up: "stmt (update_users uid cond (move b f)) s = (Inr n, s1)"
    and rest: "(if n = 0 then failE e else bindE (stmt (select_balance uid)) k) s1 = (Inr x, s')"
    by (rule bindE_InrE)
  from rest have n: "n \<noteq> 0" by (auto simp: failE_def split: if_splits)
  with rest obtain after s2 where sel: "stmt (select_balance uid) s1 = (Inr after, s2)"
    and k: "k after s2 = (Inr x, s')" by (auto elim: bindE_InrE)
  from up have "update_users uid cond (move b f) (fst s) = (Inr n, fst s1)" by (rule stmt_InrE)
  then obtain u where u: "users (fst s) uid = Some u" "deleted_at u = None" "cond u = Some True"
    "row_fits (move b f u)" and d1: "fst s1 = (fst s)\<lparr>users := (users (fst s))(uid \<mapsto> move b f u)\<rparr>"
    using n by (cases rule: update_users_Inr) auto
  from sel have "select_balance uid (fst s1) = (Inr after, fst s2)" by (rule stmt_InrE)
  then have "after = credit_balance u + b" and "fst s2 = fst s1"
    using d1 by (auto simp: select_balance_def)
  with rec [OF k] u d1 show ?thesis by (auto simp: posted_def)
qed

lemma stmt_insert_tx:
  "stmt (insert_tx t) s = (Inr x, s') \<Longrightarrow> fst s' = (fst s)\<lparr>ledger := ledger (fst s) @ [t]\<rparr>"
  by (auto elim!: stmt_InrE simp: insert_tx_def)

text \<open>Lifting the shape of the body to the transaction around it.\<close>

lemma runTx_posted:
  assumes run: "runTx fn s = (r, s')"
    and body: "\<And>fs1 x s2. fn (fst s, fs1) = (Inr x, s2) \<Longrightarrow> Q (fst s2)"
  shows "(\<exists>e. r = Inl e) \<and> fst s' = fst s \<or> Q (fst s')"
  using run
proof (cases rule: runTx_cases)
  case (applied x fs1 fs2)
  from body [OF applied(1)] show ?thesis by simp
qed auto

section \<open>Each operation\<close>

lemma PreDeduct_db:
  assumes run: "PreDeduct uid kid amount ref remark s = (r, s')" and pos: "0 < amount"
  shows "(\<exists>e. r = Inl e) \<and> fst s' = fst s \<or>
         (\<exists>u. live uid (fst s) = Some u \<and> amount \<le> credit_balance u \<and>
              posted uid (- amount) amount
                (\<lambda>after. [mk_tx uid kid KindFreeze (- amount) after ref remark]) (fst s) (fst s'))"
proof -
  have "runTx (bindE (stmt (update_users uid (\<lambda>u. Some (credit_balance u \<ge> amount)) (move (- amount) amount)))
          (\<lambda>n. if n = 0 then failE ErrInsufficient
               else bindE (stmt (select_balance uid)) (\<lambda>balanceAfter.
                 stmt (insert_tx (mk_tx uid kid KindFreeze (- amount) balanceAfter ref remark))))) s = (r, s')"
    using run pos by (simp add: PreDeduct_def)
  then show ?thesis
    by (rule runTx_posted) (auto dest!: update_select_posted dest: stmt_insert_tx)
qed

definition settle_txs :: "nat \<Rightarrow> nat \<Rightarrow> int \<Rightarrow> int \<Rightarrow> string \<Rightarrow> string \<Rightarrow> int \<Rightarrow> credit_tx list" where
  "settle_txs uid kid expected actual ref remark after =
     (if expected > 0 then [mk_tx uid kid KindUnfreeze expected after ref remark] else []) @
     (if actual > 0 then [mk_tx uid kid KindConsume (- actual) after ref remark] else [])"

lemma Settle_db:
  assumes run: "Settle uid kid expected actual ref remark s = (r, s')"
    and pos: "0 < expected \<or> 0 < actual"
  shows "(\<exists>e. r = Inl e) \<and> fst s' = fst s \<or>
         (\<exists>u. live uid (fst s) = Some u \<and> 0 \<le> credit_frozen u + wrap64 (- expected) \<and>
              posted uid (wrap64 (expected - max 0 actual)) (wrap64 (- expected))
                (settle_txs uid kid expected actual ref remark) (fst s) (fst s'))"
proof -
  let ?a = "max 0 actual"
  have a: "(if actual < 0 then 0 else actual) = ?a" by simp
  have "runTx (bindE (stmt (update_users uid
            (\<lambda>u. if in_i64 (credit_frozen u + wrap64 (- expected))
                 then Some (credit_frozen u + wrap64 (- expected) \<ge> 0) else None)
            (move (wrap64 (expected - ?a)) (wrap64 (- expected)))))
          (\<lambda>n. if n = 0 then failE ErrConflict
               else bindE (stmt (select_balance uid)) (\<lambda>balanceAfter.
                 bindE (if expected > 0
                     then stmt (insert_tx (mk_tx uid kid KindUnfreeze expected balanceAfter ref remark))
                     else okE ()) (\<lambda>_.
                 if ?a > 0
                 then stmt (insert_tx (mk_tx uid kid KindConsume (- ?a) balanceAfter ref remark))
                 else okE ())))) s = (r, s')"
    using run pos unfolding Settle_def a Let_def by auto
  then show ?thesis
  proof (rule runTx_posted)
    fix fs1 x s2
    assume body: "bindE (stmt (update_users uid
            (\<lambda>u. if in_i64 (credit_frozen u + wrap64 (- expected))
                 then Some (credit_frozen u + wrap64 (- expected) \<ge> 0) else None)
            (move (wrap64 (expected - ?a)) (wrap64 (- expected)))))
          (\<lambda>n. if n = 0 then failE ErrConflict
               else bindE (stmt (select_balance uid)) (\<lambda>balanceAfter.
                 bindE (if expected > 0
                     then stmt (insert_tx (mk_tx uid kid KindUnfreeze expected balanceAfter ref remark))
                     else okE ()) (\<lambda>_.
                 if ?a > 0
                 then stmt (insert_tx (mk_tx uid kid KindConsume (- ?a) balanceAfter ref remark))
                 else okE ()))) (fst s, fs1) = (Inr x, s2)"
    have "\<exists>u. live uid (fst (fst s, fs1)) = Some u \<and>
        (if in_i64 (credit_frozen u + wrap64 (- expected))
         then Some (credit_frozen u + wrap64 (- expected) \<ge> 0) else None) = Some True \<and>
        posted uid (wrap64 (expected - ?a)) (wrap64 (- expected))
          (settle_txs uid kid expected actual ref remark) (fst (fst s, fs1)) (fst s2)"
      by (rule update_select_posted [OF body])
         (auto elim!: bindE_InrE dest!: stmt_insert_tx
               simp: settle_txs_def okE_def max_def split: if_splits)
    then show "\<exists>u. live uid (fst s) = Some u \<and> 0 \<le> credit_frozen u + wrap64 (- expected) \<and>
        posted uid (wrap64 (expected - ?a)) (wrap64 (- expected))
          (settle_txs uid kid expected actual ref remark) (fst s) (fst s2)"
      by (auto split: if_splits)
  qed
qed

lemma Refund_db:
  assumes run: "Refund uid kid expected ref remark s = (r, s')" and pos: "0 < expected"
  shows "(\<exists>e. r = Inl e) \<and> fst s' = fst s \<or>
         (\<exists>u. live uid (fst s) = Some u \<and> expected \<le> credit_frozen u \<and>
              posted uid expected (- expected)
                (\<lambda>after. [mk_tx uid kid KindRefund expected after ref remark]) (fst s) (fst s'))"
proof -
  have "runTx (bindE (stmt (update_users uid (\<lambda>u. Some (credit_frozen u \<ge> expected)) (move expected (- expected))))
          (\<lambda>n. if n = 0 then failE ErrConflict
               else bindE (stmt (select_balance uid)) (\<lambda>balanceAfter.
                 stmt (insert_tx (mk_tx uid kid KindRefund expected balanceAfter ref remark))))) s = (r, s')"
    using run pos by (simp add: Refund_def)
  then show ?thesis
    by (rule runTx_posted) (auto dest!: update_select_posted dest: stmt_insert_tx)
qed

lemma creditTx_posted:
  assumes run: "creditTx uid amount k ref remark s = (Inr after, s')"
  shows "0 < amount \<and> posted uid amount 0
           (\<lambda>after. [mk_tx uid 0 k amount after ref remark]) (fst s) (fst s') \<and>
         (\<exists>u. live uid (fst s) = Some u \<and> after = credit_balance u + amount)"
proof -
  let ?k = "\<lambda>balanceAfter. bindE (stmt (insert_tx (mk_tx uid 0 k amount balanceAfter ref remark)))
                (\<lambda>_. okE balanceAfter)"
  from run have pos: "0 < amount" by (auto simp: creditTx_def failE_def split: if_splits)
  with run have body: "bindE (stmt (update_users uid (\<lambda>u. Some True) (move amount 0)))
      (\<lambda>n. if n = 0 then failE (EUserNotFound uid) else bindE (stmt (select_balance uid)) ?k) s
      = (Inr after, s')"
    by (simp add: creditTx_def)
  have rec: "\<And>a s1. ?k a s1 = (Inr after, s') \<Longrightarrow>
      fst s' = (fst s1)\<lparr>ledger := ledger (fst s1) @ [mk_tx uid 0 k amount a ref remark]\<rparr>"
    by (auto elim!: bindE_InrE dest: stmt_insert_tx simp: okE_def)
  have p: "posted uid amount 0 (\<lambda>after. [mk_tx uid 0 k amount after ref remark]) (fst s) (fst s')"
    using update_select_posted [OF body, where txs = "\<lambda>a. [mk_tx uid 0 k amount a ref remark]", OF rec]
    by blast
  have "\<exists>u. live uid (fst s) = Some u \<and> after = credit_balance u + amount"
    using body
    by (auto elim!: bindE_InrE stmt_InrE simp: okE_def failE_def update_users_def select_balance_def
             split: if_splits option.splits)
  with pos p show ?thesis by simp
qed

lemma Recharge_db:
  assumes run: "Recharge uid amount ref remark s = (r, s')"
  shows "(\<exists>e. r = Inl e) \<and> fst s' = fst s \<or>
         0 < amount \<and>
         (posted uid amount 0 (\<lambda>after. [mk_tx uid 0 KindRecharge amount after ref remark]) (fst s) (fst s') \<or>
          (\<exists>u. users (fst s) uid = Some u \<and> deleted_at u \<noteq> None \<and>
               fst s' = (fst s)\<lparr>ledger := ledger (fst s) @
                           [mk_tx uid 0 KindRecharge amount (credit_balance u) ref remark]\<rparr>))"
proof (cases "amount \<le> 0")
  case True
  with run show ?thesis by (auto simp: Recharge_def failE_def)
next
  case False
  then have "runTx (bindE (stmt (update_users uid (\<lambda>u. Some True) (move amount 0))) (\<lambda>_.
         bindE (stmt (select_balance uid)) (\<lambda>balanceAfter.
         stmt (insert_tx (mk_tx uid 0 KindRecharge amount balanceAfter ref remark))))) s = (r, s')"
    using run by (simp add: Recharge_def)
  then show ?thesis
    by (rule runTx_posted)
       (use False in \<open>auto elim!: bindE_InrE stmt_InrE simp: update_users_def select_balance_def
          insert_tx_def posted_def split: if_splits option.splits\<close>)
qed

lemma AdminAdjust_db:
  assumes run: "AdminAdjust uid actor delta ref remark s = (r, s')" and i64: "in_i64 delta"
  shows "(\<exists>e. r = Inl e) \<and> fst s' = fst s \<or>
         (\<exists>u remark'. live uid (fst s) = Some u \<and>
              (delta < 0 \<and> in_i64 (- delta) \<longrightarrow> 0 \<le> credit_balance u + delta) \<and>
              posted uid (if delta > 0 then delta else - wrap64 (- delta)) 0
                (\<lambda>after. [mk_tx uid 0 KindAdjust delta after ref remark']) (fst s) (fst s'))"
proof (cases "delta = 0")
  case True
  with run show ?thesis by (auto simp: AdminAdjust_def failE_def)
next
  case False
  let ?fr = "fullRemark actor remark"
  let ?cond = "\<lambda>u. Some (delta > 0 \<or> credit_balance u \<ge> wrap64 (- delta))"
  let ?b = "if delta > 0 then delta else - wrap64 (- delta)"
  let ?k = "\<lambda>balanceAfter. bindE (stmt (insert_tx (mk_tx uid 0 KindAdjust delta balanceAfter ref ?fr)))
              (\<lambda>_. okE balanceAfter)"
  have "runTx (bindE (stmt (update_users uid ?cond (move ?b 0)))
      (\<lambda>n. if n = 0 then failE (if delta < 0 then ErrInsufficient else EUserNotFound uid)
           else bindE (stmt (select_balance uid)) ?k)) s = (r, s')"
  proof (cases "delta > 0")
    case True
    then show ?thesis using run by (simp add: AdminAdjust_def Let_def cong: if_cong)
  next
    case neg: False
    with False have "delta < 0" by simp
    then show ?thesis using run neg by (simp add: AdminAdjust_def Let_def cong: if_cong)
  qed
  then show ?thesis
  proof (rule runTx_posted)
    fix fs1 x s2
    assume body: "bindE (stmt (update_users uid ?cond (move ?b 0)))
      (\<lambda>n. if n = 0 then failE (if delta < 0 then ErrInsufficient else EUserNotFound uid)
           else bindE (stmt (select_balance uid)) ?k) (fst s, fs1) = (Inr x, s2)"
    have rec: "\<And>a s1. ?k a s1 = (Inr x, s2) \<Longrightarrow>
      fst s2 = (fst s1)\<lparr>ledger := ledger (fst s1) @ [mk_tx uid 0 KindAdjust delta a ref ?fr]\<rparr>"
      by (auto elim!: bindE_InrE dest: stmt_insert_tx simp: okE_def)
    have "\<exists>u. live uid (fst (fst s, fs1)) = Some u \<and> ?cond u = Some True \<and>
        posted uid ?b 0 (\<lambda>a. [mk_tx uid 0 KindAdjust delta a ref ?fr]) (fst (fst s, fs1)) (fst s2)"
      using update_select_posted [OF body, where txs = "\<lambda>a. [mk_tx uid 0 KindAdjust delta a ref ?fr]", OF rec]
      by blast
    then show "\<exists>u remark'. live uid (fst s) = Some u \<and>
        (delta < 0 \<and> in_i64 (- delta) \<longrightarrow> 0 \<le> credit_balance u + delta) \<and>
        posted uid ?b 0 (\<lambda>after. [mk_tx uid 0 KindAdjust delta after ref remark']) (fst s) (fst s2)"
      by (auto simp: i64)
  qed
qed

end
