(* ===== verification/Billing_Laws.thy ===== *)
theory Billing_Laws
  imports Billing_Engine
begin

text \<open>
  What the credit engine guarantees over arbitrary runs: the ledger explains the balance, the
  frozen amount never becomes negative, amounts stay in the BIGINT range, and the detailed
  transactions refine an abstract wallet. All of it holds for every driver behaviour.
\<close>

section \<open>Runs of engine operations\<close>

datatype bill_op =
    OpPreDeduct nat nat int string string
  | OpSettle nat nat int int string string
  | OpRefund nat nat int string string
  | OpRecharge nat int string string
  | OpCredit nat int kind string string
  | OpAdjust nat nat int string string

definition drop_result :: "('w, 'a) action \<Rightarrow> ('w, unit) action" where
  "drop_result m = bindE m (\<lambda>_. okE ())"

text \<open>
  \<open>OpCredit\<close> is a redeem or check-in credit: the engine's \<open>creditTx\<close> inside the
  caller's transaction.
\<close>

fun exec_op :: "bill_op \<Rightarrow> ('a billing_db_scheme sess, unit) action" where
  "exec_op (OpPreDeduct u k a ref rem) = PreDeduct u k a ref rem"
| "exec_op (OpSettle u k e a ref rem) = Settle u k e a ref rem"
| "exec_op (OpRefund u k e ref rem) = Refund u k e ref rem"
| "exec_op (OpRecharge u a ref rem) = Recharge u a ref rem"
| "exec_op (OpCredit u a kd ref rem) = drop_result (runTx (creditTx u a kd ref rem))"
| "exec_op (OpAdjust u act delta ref rem) = drop_result (AdminAdjust u act delta ref rem)"

definition bill_step :: "bill_op \<Rightarrow> 'a billing_db_scheme sess \<Rightarrow> 'a billing_db_scheme sess" where
  "bill_step a s = snd (exec_op a s)"

fun op_user :: "bill_op \<Rightarrow> nat" where
  "op_user (OpPreDeduct u k a ref rem) = u"
| "op_user (OpSettle u k e a ref rem) = u"
| "op_user (OpRefund u k e ref rem) = u"
| "op_user (OpRecharge u a ref rem) = u"
| "op_user (OpCredit u a kd ref rem) = u"
| "op_user (OpAdjust u act delta ref rem) = u"

text \<open>The kinds of ledger entries an operation may append.\<close>

fun op_kinds :: "bill_op \<Rightarrow> kind set" where
  "op_kinds (OpPreDeduct u k a ref rem) = {KindFreeze}"
| "op_kinds (OpSettle u k e a ref rem) = {KindUnfreeze, KindConsume}"
| "op_kinds (OpRefund u k e ref rem) = {KindRefund}"
| "op_kinds (OpRecharge u a ref rem) = {KindRecharge}"
| "op_kinds (OpCredit u a kd ref rem) = {kd}"
| "op_kinds (OpAdjust u act delta ref rem) = {KindAdjust}"

section \<open>The abstract wallet\<close>

type_synonym wallets = "nat \<Rightarrow> (int \<times> int) option"

definition wallet_of :: "'a billing_db_scheme \<Rightarrow> wallets" where
  "wallet_of d uid = map_option (\<lambda>u. (credit_balance u, credit_frozen u)) (live uid d)"

definition shift :: "nat \<Rightarrow> int \<Rightarrow> int \<Rightarrow> wallets \<Rightarrow> wallets" where
  "shift uid b f w = w(uid := map_option (\<lambda>(a, h). (a + b, h + f)) (w uid))"

text \<open>The movement each operation stands for: available, frozen.\<close>

fun op_delta :: "bill_op \<Rightarrow> int \<times> int" where
  "op_delta (OpPreDeduct u k a ref rem) = (if a \<le> 0 then (0, 0) else (- a, a))"
| "op_delta (OpSettle u k e a ref rem) =
     (if e \<le> 0 \<and> a \<le> 0 then (0, 0) else (e - max 0 a, - e))"
| "op_delta (OpRefund u k e ref rem) = (if e \<le> 0 then (0, 0) else (e, - e))"
| "op_delta (OpRecharge u a ref rem) = (a, 0)"
| "op_delta (OpCredit u a kd ref rem) = (a, 0)"
| "op_delta (OpAdjust u act delta ref rem) = (delta, 0)"

text \<open>
  The inputs the callers of the engine supply: int64 amounts, a pre-deduction that is not
  negative, and a recharge of an account that has not been deleted.
\<close>

fun op_ok :: "bill_op \<Rightarrow> 'a billing_db_scheme sess \<Rightarrow> bool" where
  "op_ok (OpSettle u k e a ref rem) s = (in_i64 e \<and> in_i64 a \<and> 0 \<le> e)"
| "op_ok (OpRecharge u a ref rem) s =
     (\<forall>row. users (fst s) u = Some row \<longrightarrow> deleted_at row = None)"
| "op_ok (OpAdjust u act delta ref rem) s = (in_i64 delta \<and> in_i64 (- delta))"
| "op_ok _ s = True"

section \<open>Balance and ledger\<close>

definition ledger_sum :: "'a billing_db_scheme \<Rightarrow> nat \<Rightarrow> int" where
  "ledger_sum d uid = sum_list (map ct_amount (filter (\<lambda>t. ct_user_id t = uid) (ledger d)))"

definition reconciles :: "(nat \<Rightarrow> int) \<Rightarrow> 'a billing_db_scheme \<Rightarrow> bool" where
  "reconciles start d \<longleftrightarrow>
     (\<forall>uid u. users d uid = Some u \<longrightarrow> credit_balance u = start uid + ledger_sum d uid)"

definition rows_ok :: "'a billing_db_scheme \<Rightarrow> bool" where
  "rows_ok d \<longleftrightarrow> (\<forall>uid u. users d uid = Some u \<longrightarrow> row_fits u \<and> 0 \<le> credit_frozen u)"

text \<open>
  With a settlement that charges at most what was frozen, no operation can overdraw.
\<close>

fun op_covered :: "bill_op \<Rightarrow> 'a billing_db_scheme sess \<Rightarrow> bool" where
  "op_covered (OpSettle u k e a ref rem) s = (in_i64 e \<and> in_i64 a \<and> 0 \<le> e \<and> a \<le> e)"
| "op_covered (OpRecharge u a ref rem) s =
     (\<forall>row. users (fst s) u = Some row \<longrightarrow> deleted_at row = None)"
| "op_covered (OpAdjust u act delta ref rem) s = (in_i64 delta \<and> in_i64 (- delta))"
| "op_covered _ s = True"

definition balances_ok :: "'a billing_db_scheme \<Rightarrow> bool" where
  "balances_ok d \<longleftrightarrow> (\<forall>uid u. users d uid = Some u \<longrightarrow> 0 \<le> credit_balance u)"

section \<open>One operation\<close>

text \<open>
  The common law: an admissible operation leaves the database as it was, or posts its movement
  with entries of its user that add up to the change of the balance.
\<close>

lemma mk_tx_simps [simp]:
  "ct_user_id (mk_tx u k kd a after ref rem) = u"
  "ct_amount (mk_tx u k kd a after ref rem) = a"
  "ct_type (mk_tx u k kd a after ref rem) = kd"
  "ct_balance_after (mk_tx u k kd a after ref rem) = after"
  "ct_ref_id (mk_tx u k kd a after ref rem) = ref"
  by (simp_all add: mk_tx_def)

definition explains :: "nat \<Rightarrow> int \<Rightarrow> kind set \<Rightarrow> (int \<Rightarrow> credit_tx list) \<Rightarrow> bool" where
  "explains uid b K txs \<longleftrightarrow>
     (\<forall>after. (\<forall>t \<in> set (txs after). ct_user_id t = uid \<and> ct_type t \<in> K \<and> ct_balance_after t = after) \<and>
              sum_list (map ct_amount (txs after)) = b)"

lemma explains_single [simp]: "explains uid b {kd} (\<lambda>after. [mk_tx uid k kd b after ref rem])"
  by (simp add: explains_def)

lemma explains_settle:
  "0 \<le> e \<Longrightarrow> explains uid (e - max 0 a) {KindUnfreeze, KindConsume} (settle_txs uid k e a ref rem)"
  by (auto simp: explains_def settle_txs_def max_def)

lemma settle_wraps:
  assumes "in_i64 e" "in_i64 a" "0 \<le> e"
  shows "wrap64 (e - max 0 a) = e - max 0 a" and "wrap64 (- e) = - e"
  using assms by (auto intro!: wrap64_id simp: in_i64_def max_def)

lemma drop_result_eq: "drop_result m s = (case m s of (r, s') \<Rightarrow> (map_sum id (\<lambda>_. ()) r, s'))"
  by (simp add: drop_result_def bindE_def okE_def split: prod.splits sum.splits)

lemma exec_op_posted:
  assumes run: "exec_op a s = (r, s')" and ok: "op_ok a s"
  obtains (unchanged) "fst s' = fst s" and "(\<exists>e. r = Inl e) \<or> op_delta a = (0, 0)"
  | (posted) txs where "posted (op_user a) (fst (op_delta a)) (snd (op_delta a)) txs (fst s) (fst s')"
      and "explains (op_user a) (fst (op_delta a)) (op_kinds a) txs"
      and "\<And>u. live (op_user a) (fst s) = Some u \<Longrightarrow> 0 \<le> credit_frozen u \<Longrightarrow>
             0 \<le> credit_frozen u + snd (op_delta a)"
proof (cases a)
  case (OpPreDeduct u k x ref rem)
  show ?thesis
  proof (cases "x \<le> 0")
    case True
    with run OpPreDeduct have "fst s' = fst s" "op_delta a = (0, 0)"
      by (auto simp: PreDeduct_def okE_def)
    then show ?thesis using unchanged by blast
  next
    case False
    with run OpPreDeduct PreDeduct_db [of u k x ref rem s r s'] show ?thesis
      by (auto intro: unchanged posted)
  qed
next
  case (OpSettle u k e x ref rem)
  show ?thesis
  proof (cases "e \<le> 0 \<and> x \<le> 0")
    case True
    with run OpSettle have "fst s' = fst s" "op_delta a = (0, 0)"
      by (auto simp: Settle_def okE_def)
    then show ?thesis using unchanged by blast
  next
    case False
    with OpSettle ok have w: "wrap64 (e - max 0 x) = e - max 0 x" "wrap64 (- e) = - e"
      using settle_wraps [of e x] by simp_all
    have d: "op_delta a = (e - max 0 x, - e)" "op_user a = u"
        "op_kinds a = {KindUnfreeze, KindConsume}" and e: "0 \<le> e"
      using False OpSettle ok by auto
    have "Settle u k e x ref rem s = (r, s')" and "0 < e \<or> 0 < x" using run OpSettle False by auto
    from Settle_db [OF this] show ?thesis
    proof
      assume "(\<exists>e. r = Inl e) \<and> fst s' = fst s"
      then show ?thesis by (auto intro: unchanged)
    next
      assume "\<exists>row. live u (fst s) = Some row \<and> 0 \<le> credit_frozen row + wrap64 (- e) \<and>
        posted u (wrap64 (e - max 0 x)) (wrap64 (- e)) (settle_txs u k e x ref rem) (fst s) (fst s')"
      then show ?thesis
        by (intro posted [of "settle_txs u k e x ref rem"])
           (use w d explains_settle [OF e, of u x k ref rem] in auto)
    qed
  qed
next
  case (OpRefund u k e ref rem)
  show ?thesis
  proof (cases "e \<le> 0")
    case True
    with run OpRefund have "fst s' = fst s" "op_delta a = (0, 0)"
      by (auto simp: Refund_def okE_def)
    then show ?thesis using unchanged by blast
  next
    case False
    with run OpRefund Refund_db [of u k e ref rem s r s'] show ?thesis
      by (auto intro: unchanged posted)
  qed
next
  case (OpRecharge u x ref rem)
  with run ok Recharge_db [of u x ref rem s r s'] show ?thesis
    by (auto intro: unchanged posted)
next
  case (OpCredit u x kd ref rem)
  then obtain r0 where tx: "runTx (creditTx u x kd ref rem) s = (r0, s')" and r: "r = map_sum id (\<lambda>_. ()) r0"
    using run by (auto simp: drop_result_eq split: prod.splits)
  from tx show ?thesis
  proof (cases rule: runTx_cases)
    case (applied y fs1 fs2)
    then show ?thesis using OpCredit creditTx_posted [OF applied(1)] by (auto intro: posted)
  qed (use r in \<open>auto intro: unchanged\<close>)
next
  case (OpAdjust u act x ref rem)
  then obtain r0 where tx: "AdminAdjust u act x ref rem s = (r0, s')" and r: "r = map_sum id (\<lambda>_. ()) r0"
    using run by (auto simp: drop_result_eq split: prod.splits)
  have w: "(if x > 0 then x else - wrap64 (- x)) = x" using ok OpAdjust by auto
  from ok OpAdjust AdminAdjust_db [OF tx] r w show ?thesis
    by (auto intro: unchanged posted)
qed

section \<open>Laws of a posted movement\<close>

lemma posted_ledger_sum:
  assumes "posted uid b f txs d d'" and "explains uid b K txs"
  shows "ledger_sum d' v = ledger_sum d v + (if v = uid then b else 0)"
proof -
  from assms(1) obtain u where d': "d' = d\<lparr>users := (users d)(uid \<mapsto> move b f u),
      ledger := ledger d @ txs (credit_balance u + b)\<rparr>"
    by (auto simp: posted_def)
  let ?ts = "txs (credit_balance u + b)"
  have t: "\<forall>t \<in> set ?ts. ct_user_id t = uid" and sum: "sum_list (map ct_amount ?ts) = b"
    using assms(2) by (auto simp: explains_def)
  have "filter (\<lambda>t. ct_user_id t = v) ?ts = (if v = uid then ?ts else [])"
    using t by (auto simp: filter_empty_conv intro!: filter_True)
  then show ?thesis using sum by (simp add: ledger_sum_def d')
qed

lemma posted_reconciles:
  assumes "posted uid b f txs d d'" and "explains uid b K txs" and "reconciles start d"
  shows "reconciles start d'"
  unfolding reconciles_def posted_ledger_sum [OF assms(1,2)]
  using assms(1,3) by (auto simp: posted_def reconciles_def)

lemma posted_rows_ok:
  assumes "posted uid b f txs d d'" and "rows_ok d"
    and "\<And>u. live uid d = Some u \<Longrightarrow> 0 \<le> credit_frozen u \<Longrightarrow> 0 \<le> credit_frozen u + f"
  shows "rows_ok d'"
  using assms by (auto simp: posted_def rows_ok_def split: if_splits)

lemma posted_wallet:
  assumes "posted uid b f txs d d'"
  shows "wallet_of d' = shift uid b f (wallet_of d)"
  using assms by (auto simp: posted_def wallet_of_def shift_def fun_eq_iff live_def)

lemma shift_zero [simp]: "shift uid 0 0 w = w"
  by (auto simp: shift_def fun_eq_iff option.map_id0 map_option_cong split: option.splits)

section \<open>Invariants of whole runs\<close>

interpretation ledger_inv:
  inv_system bill_step op_ok "\<lambda>s. reconciles start (fst s)" for start
proof
  fix s :: "'a billing_db_scheme sess" and a
  assume inv: "reconciles start (fst s)" and ok: "op_ok a s"
  obtain r s' where run: "exec_op a s = (r, s')" by (cases "exec_op a s")
  from run ok inv show "reconciles start (fst (bill_step a s))"
    by (cases rule: exec_op_posted) (auto simp: bill_step_def run intro: posted_reconciles)
qed

interpretation rows_inv:
  inv_system bill_step op_ok "\<lambda>s. rows_ok (fst s)"
proof
  fix s :: "'a billing_db_scheme sess" and a
  assume inv: "rows_ok (fst s)" and ok: "op_ok a s"
  obtain r s' where run: "exec_op a s = (r, s')" by (cases "exec_op a s")
  from run ok show "rows_ok (fst (bill_step a s))"
    by (cases rule: exec_op_posted) (auto simp: bill_step_def run inv intro: posted_rows_ok)
qed

lemma op_covered_ok: "op_covered a s \<Longrightarrow> op_ok a s"
  by (cases a) auto

lemma posted_balances_ok:
  assumes "posted uid b f txs d d'" and "balances_ok d"
    and "\<And>u. live uid d = Some u \<Longrightarrow> 0 \<le> credit_balance u \<Longrightarrow> 0 \<le> credit_balance u + b"
  shows "balances_ok d'"
  using assms by (auto simp: posted_def balances_ok_def split: if_splits)

text \<open>
  The two operations that lower the balance test it in the same statement; every other
  movement of the balance is not negative.
\<close>

lemma bill_step_balances_ok:
  assumes inv: "balances_ok (fst s)" and cov: "op_covered a s"
  shows "balances_ok (fst (bill_step a s))"
proof (cases a)
  case (OpPreDeduct u k x ref rem)
  show ?thesis
  proof (cases "x \<le> 0")
    case True
    with OpPreDeduct inv show ?thesis by (simp add: bill_step_def PreDeduct_def okE_def)
  next
    case False
    obtain r s' where run: "PreDeduct u k x ref rem s = (r, s')" by (rule prod.exhaust)
    from False PreDeduct_db [OF run] inv have "balances_ok (fst s')"
      by (auto elim!: posted_balances_ok)
    with run OpPreDeduct show ?thesis by (simp add: bill_step_def)
  qed
next
  case (OpAdjust u act x ref rem)
  obtain r s' where run: "AdminAdjust u act x ref rem s = (r, s')" by (rule prod.exhaust)
  have w: "(if x > 0 then x else - wrap64 (- x)) = x" using cov OpAdjust by auto
  have x: "in_i64 x" "in_i64 (- x)" using cov OpAdjust by auto
  from AdminAdjust_db [OF run x(1), unfolded w] have "balances_ok (fst s')"
  proof (elim disjE exE conjE)
    fix v remark'
    assume v: "live u (fst s) = Some v" and g: "x < 0 \<and> in_i64 (- x) \<longrightarrow> 0 \<le> credit_balance v + x"
      and p: "posted u x 0 (\<lambda>after. [mk_tx u 0 KindAdjust x after ref remark']) (fst s) (fst s')"
    show ?thesis by (rule posted_balances_ok [OF p inv]) (use v g x in auto)
  qed (simp add: inv)
  with run OpAdjust show ?thesis by (simp add: bill_step_def drop_result_eq)
next
  case (OpCredit u x kd ref rem)
  obtain r s' where run: "runTx (creditTx u x kd ref rem) s = (r, s')" by (rule prod.exhaust)
  from run have "balances_ok (fst s')"
  proof (cases rule: runTx_cases)
    case (applied y fs1 fs2)
    with inv creditTx_posted [OF applied(1)] show ?thesis by (auto elim: posted_balances_ok)
  qed (simp add: inv)
  with run OpCredit show ?thesis by (simp add: bill_step_def drop_result_eq)
next
  case (OpRecharge u x ref rem)
  obtain r s' where run: "Recharge u x ref rem s = (r, s')" by (rule prod.exhaust)
  from Recharge_db [OF run] cov OpRecharge inv have "balances_ok (fst s')"
    by (auto elim: posted_balances_ok)
  with run OpRecharge show ?thesis by (simp add: bill_step_def)
next
  case (OpSettle u k e x ref rem)
  obtain r s' where run: "exec_op a s = (r, s')" by (rule prod.exhaust)
  from run op_covered_ok [OF cov] have "balances_ok (fst s')"
    by (cases rule: exec_op_posted)
       (use OpSettle cov inv in \<open>auto elim!: posted_balances_ok\<close>)
  with run show ?thesis by (simp add: bill_step_def)
next
  case (OpRefund u k e ref rem)
  obtain r s' where run: "exec_op a s = (r, s')" by (rule prod.exhaust)
  from run op_covered_ok [OF cov] have "balances_ok (fst s')"
    by (cases rule: exec_op_posted)
       (use OpRefund inv in \<open>auto elim!: posted_balances_ok\<close>)
  with run show ?thesis by (simp add: bill_step_def)
qed

interpretation balance_inv:
  inv_system bill_step op_covered "\<lambda>s. balances_ok (fst s)"
  by unfold_locales (rule bill_step_balances_ok)

section \<open>Evaluation on a responsive database\<close>

text \<open>
  With no driver failure ahead, each operation is a case analysis on the row: the reference
  description of the operation, branch by branch.
\<close>

definition post ::
  "nat \<Rightarrow> int \<Rightarrow> int \<Rightarrow> user_row \<Rightarrow> credit_tx list \<Rightarrow> 'a billing_db_scheme \<Rightarrow> 'a billing_db_scheme" where
  "post uid b f u txs d = d\<lparr>users := (users d)(uid \<mapsto> move b f u), ledger := ledger d @ txs\<rparr>"

lemmas tx_eval_simps =
  runTx_no_faults bindE_def okE_def failE_def update_users_def select_balance_def insert_tx_def
  live_def post_def

lemma PreDeduct_eval:
  "PreDeduct uid kid amount ref rem (d, []) =
     (if amount \<le> 0 then (Inr (), (d, []))
      else case live uid d of
          None \<Rightarrow> (Inl ErrInsufficient, (d, []))
        | Some u \<Rightarrow>
            if credit_balance u < amount then (Inl ErrInsufficient, (d, []))
            else if row_fits (move (- amount) amount u)
            then (Inr (), (post uid (- amount) amount u
                    [mk_tx uid kid KindFreeze (- amount) (credit_balance u - amount) ref rem] d, []))
            else (Inl EOutOfRange, (d, [])))"
  by (auto simp: PreDeduct_def tx_eval_simps split: option.splits)

lemma Recharge_eval:
  assumes "0 < amount" and "live uid d = Some u" and "row_fits (move amount 0 u)"
  shows "Recharge uid amount ref rem (d, []) =
     (Inr (), (post uid amount 0 u [mk_tx uid 0 KindRecharge amount (credit_balance u + amount) ref rem] d, []))"
proof -
  from assms(2) have "users d uid = Some u" "deleted_at u = None" by simp_all
  with assms(1,3) show ?thesis by (simp add: Recharge_def tx_eval_simps)
qed

lemma Refund_eval:
  "Refund uid kid e ref rem (d, []) =
     (if e \<le> 0 then (Inr (), (d, []))
      else case live uid d of
          None \<Rightarrow> (Inl ErrConflict, (d, []))
        | Some u \<Rightarrow>
            if credit_frozen u < e then (Inl ErrConflict, (d, []))
            else if row_fits (move e (- e) u)
            then (Inr (), (post uid e (- e) u
                    [mk_tx uid kid KindRefund e (credit_balance u + e) ref rem] d, []))
            else (Inl EOutOfRange, (d, [])))"
  by (auto simp: Refund_def tx_eval_simps split: option.splits)

lemma Settle_eval:
  assumes "in_i64 e" "in_i64 a" "0 \<le> e" "0 < e \<or> 0 < a"
  shows "Settle uid kid e a ref rem (d, []) =
     (case live uid d of
        None \<Rightarrow> (Inl ErrConflict, (d, []))
      | Some u \<Rightarrow>
          if \<not> in_i64 (credit_frozen u - e) then (Inl EOutOfRange, (d, []))
          else if credit_frozen u < e then (Inl ErrConflict, (d, []))
          else if row_fits (move (e - max 0 a) (- e) u)
          then (Inr (), (post uid (e - max 0 a) (- e) u
                  (settle_txs uid kid e a ref rem (credit_balance u + (e - max 0 a))) d, []))
          else (Inl EOutOfRange, (d, [])))"
proof -
  note w = settle_wraps [OF assms(1,2,3)]
  have m: "(if a < 0 then 0 else a) = max 0 a" by simp
  show ?thesis
    using assms(3,4) unfolding Settle_def m w Let_def
    by (auto simp: tx_eval_simps settle_txs_def split: option.splits)
qed

section \<open>Properties\<close>

text \<open>
  An example database for the witnesses: user 1 with 100 available, user 2 deleted.
\<close>

definition demo_row :: "int \<Rightarrow> int \<Rightarrow> int option \<Rightarrow> user_row" where
  "demo_row b f del = \<lparr>credit_balance = b, credit_frozen = f, version = 0, deleted_at = del\<rparr>"

definition demo_db :: billing_db where
  "demo_db = \<lparr>users = [1 \<mapsto> demo_row 100 0 None, 2 \<mapsto> demo_row 5 0 (Some 9)], ledger = []\<rparr>"

lemmas demo_simps = demo_db_def demo_row_def post_def live_def row_fits_def in_i64_def mk_tx_def
  settle_txs_def move_def



text \<open>
  The frozen amount of every user stays non-negative and all amounts stay in the BIGINT
  range over any run of engine operations under any driver behaviour.
\<close>

theorem frozen_never_negative:
  fixes s :: "'a billing_db_scheme sess"
  assumes "rows_ok (fst s)" and "admissible_run op_ok bill_step ops s"
  shows "rows_ok (fst (fold bill_step ops s))"
  using assms by (rule rows_inv.run_inv)

theorem frozen_never_negative_witness:
  "rows_ok (fst (fold bill_step [OpPreDeduct 1 7 30 ''r'' ''x'', OpRefund 1 7 99 ''r'' ''x'']
     (demo_db, [])))"
  by (rule frozen_never_negative) (simp_all add: rows_ok_def demo_simps)

text \<open>
  C29. No overdraft: when every settlement charges at most what was frozen for it, no run of
  engine operations makes an available balance negative, whatever the driver does.
\<close>

theorem balance_never_negative:
  fixes s :: "'a billing_db_scheme sess"
  assumes "balances_ok (fst s)" and "admissible_run op_covered bill_step ops s"
  shows "balances_ok (fst (fold bill_step ops s))"
  using assms by (rule balance_inv.run_inv)

theorem balance_never_negative_witness:
  "balances_ok (fst (fold bill_step [OpPreDeduct 1 7 90 ''r'' ''x'', OpPreDeduct 1 7 90 ''q'' ''x'']
     (demo_db, [])))"
  by (rule balance_never_negative) (simp_all add: balances_ok_def demo_simps)



text \<open>
  The behaviour of a pre-deduction on a responsive database, branch by branch: nothing for a
  non-positive amount; \<open>ErrInsufficient\<close> and no change without a live user row that
  covers the amount; otherwise the amount moves from available to frozen with one freeze entry
  that records the balance after.
\<close>

theorem PreDeduct_behaviour:
  "PreDeduct uid kid amount ref rem (d, []) =
     (if amount \<le> 0 then (Inr (), (d, []))
      else case live uid d of
          None \<Rightarrow> (Inl ErrInsufficient, (d, []))
        | Some u \<Rightarrow>
            if credit_balance u < amount then (Inl ErrInsufficient, (d, []))
            else if row_fits (move (- amount) amount u)
            then (Inr (), (post uid (- amount) amount u
                    [mk_tx uid kid KindFreeze (- amount) (credit_balance u - amount) ref rem] d, []))
            else (Inl EOutOfRange, (d, [])))"
  by (rule PreDeduct_eval)

text \<open>
  A settlement may overdraw: when the actual cost exceeds the frozen estimate, the settlement
  succeeds and takes the whole difference from the balance, below zero if the balance does not
  cover it, although the comment above \<open>Settle\<close> says it is taken down to 0 at most.
\<close>

theorem Settle_can_overdraw:
  assumes "live uid d = Some u" and "in_i64 e" and "in_i64 a" and "0 \<le> e" and "e < a"
    and "e \<le> credit_frozen u" and "in_i64 (credit_frozen u)"
    and "row_fits (move (e - a) (- e) u)" and "credit_balance u < a - e"
  shows "\<exists>d'. Settle uid kid e a ref rem (d, []) = (Inr (), (d', [])) \<and>
              (\<exists>u'. live uid d' = Some u' \<and> credit_balance u' = credit_balance u - (a - e) \<and>
                    credit_balance u' < 0)"
proof -
  from assms have fits: "in_i64 (credit_frozen u - e)" by (simp add: in_i64_def)
  have "Settle uid kid e a ref rem (d, []) = (Inr (), (post uid (e - a) (- e) u
          (settle_txs uid kid e a ref rem (credit_balance u + (e - a))) d, []))"
    using assms fits by (simp add: Settle_eval live_def max_def)
  moreover have "live uid (post uid (e - a) (- e) u ts d) = Some (move (e - a) (- e) u)" for ts
    using assms(1) by (simp add: post_def)
  ultimately show ?thesis using assms(9) by auto
qed

theorem Settle_can_overdraw_witness:
  "\<exists>d'. Settle 1 7 10 50 ''r'' ''x'' (demo_db\<lparr>users := [1 \<mapsto> demo_row 0 10 None]\<rparr>, []) = (Inr (), (d', [])) \<and>
        (\<exists>u'. live 1 d' = Some u' \<and> credit_balance u' = 0 - (50 - 10) \<and> credit_balance u' < 0)"
  using Settle_can_overdraw [of 1 "demo_db\<lparr>users := [1 \<mapsto> demo_row 0 10 None]\<rparr>" "demo_row 0 10 None" 10 50 7 "''r''" "''x''"]
  by (simp add: demo_simps)

text \<open>
  A recharge of a deleted account reports success and appends a recharge entry to the ledger
  while no balance changes, because the affected-row count is not looked at.
\<close>

theorem Recharge_deleted_user:
  assumes "users d uid = Some u" and "deleted_at u \<noteq> None" and "0 < amount"
  shows "Recharge uid amount ref rem (d, []) =
           (Inr (), (d\<lparr>ledger := ledger d @ [mk_tx uid 0 KindRecharge amount (credit_balance u) ref rem]\<rparr>, []))"
  using assms by (simp add: Recharge_def tx_eval_simps)

theorem Recharge_deleted_user_witness:
  "fst (Recharge 2 50 ''o'' ''x'' (demo_db, [])) = Inr ()"
  using Recharge_deleted_user [of demo_db 2 "demo_row 5 0 (Some 9)" 50 "''o''" "''x''"]
  by (simp add: demo_simps)

end
