(* ===== verification/Billing_Holds.thy ===== *)
theory Billing_Holds
  imports Billing_Laws
begin

text \<open>
  The life of a pre-deduction across requests (gateway/chat.go, gateway/images.go): a request
  freezes an estimate, and later closes it once, with \<open>Settle\<close> or with \<open>Refund\<close>,
  ignoring the error of that call. Requests of all users interleave with each other and with
  recharges, redemptions, check-ins and manual adjustments. The step relation leaves the order
  and the driver behaviour open.
\<close>

type_synonym hold = "nat \<times> int \<times> string"

type_synonym 'a hold_world = "'a billing_db_scheme \<times> hold list"

definition held :: "hold list \<Rightarrow> nat \<Rightarrow> int" where
  "held H uid = sum_list (map (fst \<circ> snd) (filter (\<lambda>h. fst h = uid) H))"

fun is_credit_op :: "bill_op \<Rightarrow> bool" where
  "is_credit_op (OpRecharge u a ref rem) = True"
| "is_credit_op (OpCredit u a kd ref rem) = True"
| "is_credit_op (OpAdjust u act delta ref rem) = True"
| "is_credit_op _ = False"

inductive hold_step :: "'a hold_world \<Rightarrow> 'a hold_world \<Rightarrow> bool" where
  freeze: "PreDeduct uid kid a ref rem (d, fs) = (Inr (), (d', fs')) \<Longrightarrow> 0 < a \<Longrightarrow>
     hold_step (d, H) (d', (uid, a, ref) # H)"
| freeze_error: "PreDeduct uid kid a ref rem (d, fs) = (Inl e, (d', fs')) \<Longrightarrow> 0 < a \<Longrightarrow>
     hold_step (d, H) (d', H)"
| settle: "(uid, e, ref) \<in> set H \<Longrightarrow> in_i64 e \<Longrightarrow> in_i64 a \<Longrightarrow>
     Settle uid kid e a ref rem (d, fs) = (r, (d', fs')) \<Longrightarrow>
     hold_step (d, H) (d', remove1 (uid, e, ref) H)"
| refund: "(uid, e, ref) \<in> set H \<Longrightarrow>
     Refund uid kid e ref rem (d, fs) = (r, (d', fs')) \<Longrightarrow>
     hold_step (d, H) (d', remove1 (uid, e, ref) H)"
| other: "is_credit_op a \<Longrightarrow> op_ok a (d, fs) \<Longrightarrow> exec_op a (d, fs) = (r, (d', fs')) \<Longrightarrow>
     hold_step (d, H) (d', H)"

inductive_cases hold_stepE: "hold_step w w'"

text \<open>
  The invariant: what is held for a user is covered by the frozen column, and every hold is a
  positive amount. Equality does not hold: a closing call that fails drops its hold and leaves
  the amount frozen.
\<close>

definition holds_covered :: "'a hold_world \<Rightarrow> bool" where
  "holds_covered w \<longleftrightarrow>
     (\<forall>h \<in> set (snd w). 0 < fst (snd h)) \<and>
     (\<forall>uid u. users (fst w) uid = Some u \<longrightarrow> held (snd w) uid \<le> credit_frozen u)"

section \<open>Held amounts\<close>

lemma held_Cons [simp]: "held ((v, a, ref) # H) uid = held H uid + (if v = uid then a else 0)"
  by (simp add: held_def)

lemma held_remove1:
  "(v, a, ref) \<in> set H \<Longrightarrow> held (remove1 (v, a, ref) H) uid = held H uid - (if v = uid then a else 0)"
proof (induction H)
  case (Cons h H)
  obtain hv ha hr where [simp]: "h = (hv, ha, hr)" by (cases h)
  from Cons show ?case by (auto simp: held_def)
qed simp

lemma held_ge_member:
  assumes "\<forall>h \<in> set H. 0 < fst (snd h)" and "(uid, a, ref) \<in> set H"
  shows "a \<le> held H uid"
proof -
  have nn: "0 \<le> held H' uid" if "\<forall>h \<in> set H'. 0 < fst (snd h)" for H'
    using that by (induction H') (auto simp: held_def)
  have "\<forall>h \<in> set (remove1 (uid, a, ref) H). 0 < fst (snd h)"
    using assms(1) by (meson notin_set_remove1)
  from nn [OF this] show ?thesis using held_remove1 [OF assms(2), of uid] by simp
qed

section \<open>Preservation\<close>

lemma exec_op_frozen:
  assumes run: "exec_op a (d, fs) = (r, (d', fs'))" and ok: "op_ok a (d, fs)"
  shows "d' = d \<and> ((\<exists>e. r = Inl e) \<or> op_delta a = (0, 0)) \<or>
         (\<exists>u. users d (op_user a) = Some u \<and>
              users d' = (users d)(op_user a \<mapsto> move (fst (op_delta a)) (snd (op_delta a)) u))"
  using run ok by (cases rule: exec_op_posted) (auto simp: posted_def)

text \<open>Closing a hold that the database has or has not released keeps the invariant.\<close>

lemma holds_covered_drop:
  assumes cov: "holds_covered (d, H)" and h: "(uid, e, ref) \<in> set H" and pos: "0 < e"
    and db: "d' = d \<or> (\<exists>u b. users d uid = Some u \<and> users d' = (users d)(uid \<mapsto> move b (- e) u))"
  shows "holds_covered (d', remove1 (uid, e, ref) H)"
proof -
  have H': "\<forall>h \<in> set (remove1 (uid, e, ref) H). 0 < fst (snd h)"
    using cov by (auto simp: holds_covered_def dest: notin_set_remove1)
  have "held (remove1 (uid, e, ref) H) v \<le> credit_frozen u" if "users d' v = Some u" for v u
  proof (cases "d' = d")
    case True
    with that cov have "held H v \<le> credit_frozen u" by (simp add: holds_covered_def)
    then show ?thesis using pos held_remove1 [OF h, of v] by (cases "v = uid") auto
  next
    case False
    with db that cov show ?thesis
      using held_remove1 [OF h, of v] by (auto simp: holds_covered_def split: if_splits)
  qed
  with H' show ?thesis by (simp add: holds_covered_def)
qed

lemma hold_step_covered: "hold_step w w' \<Longrightarrow> holds_covered w \<Longrightarrow> holds_covered w'"
proof (induction rule: hold_step.induct)
  case (freeze uid kid a ref rem d fs d' fs' H)
  then have "exec_op (OpPreDeduct uid kid a ref rem) (d, fs) = (Inr (), (d', fs'))" by simp
  from exec_op_frozen [OF this] freeze show ?case
    by (auto simp: holds_covered_def split: if_splits)
next
  case (freeze_error uid kid a ref rem d fs e d' fs' H)
  then have "exec_op (OpPreDeduct uid kid a ref rem) (d, fs) = (Inl e, (d', fs'))" by simp
  from exec_op_frozen [OF this] freeze_error show ?case
    by (fastforce simp: holds_covered_def split: if_splits)
next
  case (settle uid e ref H a kid rem d fs r d' fs')
  then have pos: "0 < e" by (auto simp: holds_covered_def)
  from settle have "exec_op (OpSettle uid kid e a ref rem) (d, fs) = (r, (d', fs'))" by simp
  from exec_op_frozen [OF this] settle pos show ?case
    by (auto intro!: holds_covered_drop)
next
  case (refund uid e ref H kid rem d fs r d' fs')
  then have pos: "0 < e" by (auto simp: holds_covered_def)
  from refund have "exec_op (OpRefund uid kid e ref rem) (d, fs) = (r, (d', fs'))" by simp
  from exec_op_frozen [OF this] refund pos show ?case
    by (auto intro!: holds_covered_drop)
next
  case (other a d fs r d' fs' H)
  from exec_op_frozen [OF other(3,2)] other show ?case
    by (cases a) (auto simp: holds_covered_def split: if_splits)
qed

lemma hold_steps_covered: "hold_step\<^sup>*\<^sup>* w w' \<Longrightarrow> holds_covered w \<Longrightarrow> holds_covered w'"
  by (induction rule: rtranclp_induct) (auto intro: hold_step_covered)

section \<open>When closing reports a conflict\<close>

lemma conflict_source:
  assumes "bindE (stmt (update_users uid cond (move b f))) (\<lambda>n. if n = 0 then failE ErrConflict
             else bindE (stmt (select_balance uid)) k) s = (Inl ErrConflict, s')"
    and "\<And>after s1. fst (k after s1) \<noteq> Inl ErrConflict"
  shows "live uid (fst s) = None \<or> (\<exists>u. live uid (fst s) = Some u \<and> cond u = Some False)"
  using assms(1)
proof (cases rule: bindE_InlE)
  case first
  then have "update_users uid cond (move b f) (fst s) = (Inl ErrConflict, fst s')"
    by (rule stmt_InlE) auto
  then show ?thesis by (auto dest: update_users_InlD)
next
  case (second n s1)
  show ?thesis
  proof (cases "n = 0")
    case True
    from second(1) have "update_users uid cond (move b f) (fst s) = (Inr n, fst s1)" by (rule stmt_InrE)
    from this True show ?thesis by (cases rule: update_users_Inr) auto
  next
    case False
    with second(2) have "bindE (stmt (select_balance uid)) k s1 = (Inl ErrConflict, s')" by simp
    then show ?thesis
    proof (cases rule: bindE_InlE)
      case first
      then have "select_balance uid (fst s1) = (Inl ErrConflict, fst s')" by (rule stmt_InlE) auto
      then show ?thesis by (auto simp: select_balance_def split: option.splits)
    next
      case (second x w1)
      then show ?thesis using assms(2) [of x w1] by simp
    qed
  qed
qed

lemma insert_tx_no_conflict: "fst (stmt (insert_tx t) s) \<noteq> Inl ErrConflict"
  by (auto simp: stmt_def insert_tx_def split: prod.splits drv.splits)

lemma Refund_conflict:
  assumes "Refund uid kid e ref rem s = (Inl ErrConflict, s')"
  shows "live uid (fst s) = None \<or> (\<exists>u. live uid (fst s) = Some u \<and> credit_frozen u < e)"
proof -
  from assms have "runTx (bindE (stmt (update_users uid (\<lambda>u. Some (credit_frozen u \<ge> e)) (move e (- e))))
      (\<lambda>n. if n = 0 then failE ErrConflict else bindE (stmt (select_balance uid)) (\<lambda>after.
          stmt (insert_tx (mk_tx uid kid KindRefund e after ref rem))))) s = (Inl ErrConflict, s')"
    by (auto simp: Refund_def okE_def split: if_splits)
  then obtain fs1 s2 where "bindE (stmt (update_users uid (\<lambda>u. Some (credit_frozen u \<ge> e)) (move e (- e))))
      (\<lambda>n. if n = 0 then failE ErrConflict else bindE (stmt (select_balance uid)) (\<lambda>after.
          stmt (insert_tx (mk_tx uid kid KindRefund e after ref rem)))) (fst s, fs1) = (Inl ErrConflict, s2)"
    by (rule runTx_InlE) auto
  from conflict_source [OF this insert_tx_no_conflict] show ?thesis by auto
qed

lemma settle_recording_no_conflict:
  "fst (bindE (if e > 0 then stmt (insert_tx t1) else okE ())
          (\<lambda>_. if a > 0 then stmt (insert_tx t2) else okE ()) s) \<noteq> Inl ErrConflict"
  by (auto simp: bindE_def okE_def stmt_def insert_tx_def
           split: prod.splits drv.splits sum.splits if_splits)

lemma Settle_conflict:
  assumes "Settle uid kid e a ref rem s = (Inl ErrConflict, s')"
    and "in_i64 e" and "in_i64 a" and "0 \<le> e"
  shows "live uid (fst s) = None \<or> (\<exists>u. live uid (fst s) = Some u \<and> credit_frozen u < e)"
proof -
  note w = settle_wraps [OF assms(2-4)]
  have m: "(if a < 0 then 0 else a) = max 0 a" by simp
  let ?body = "bindE (stmt (update_users uid
            (\<lambda>u. if in_i64 (credit_frozen u + - e) then Some (credit_frozen u + - e \<ge> 0) else None)
            (move (e - max 0 a) (- e))))
          (\<lambda>n. if n = 0 then failE ErrConflict
               else bindE (stmt (select_balance uid)) (\<lambda>after.
                 bindE (if e > 0 then stmt (insert_tx (mk_tx uid kid KindUnfreeze e after ref rem))
                        else okE ()) (\<lambda>_.
                 if max 0 a > 0 then stmt (insert_tx (mk_tx uid kid KindConsume (- max 0 a) after ref rem))
                 else okE ())))"
  from assms(1) have "runTx ?body s = (Inl ErrConflict, s')"
    unfolding Settle_def m w Let_def by (auto simp: okE_def split: if_splits)
  then obtain fs1 s2 where "?body (fst s, fs1) = (Inl ErrConflict, s2)"
    by (rule runTx_InlE) auto
  from conflict_source [OF this settle_recording_no_conflict] show ?thesis
    by (auto split: if_splits)
qed

section \<open>Properties\<close>

text \<open>
  A request can always close its own hold: in every state reachable by interleaving
  pre-deductions, settlements, refunds, recharges, credits and adjustments of all users under any
  driver behaviour, closing an outstanding hold of a user that has not been deleted never reports
  \<open>ErrConflict\<close>, for a refund as for a settlement.
\<close>

theorem closing_a_hold_never_conflicts:
  assumes "rows_ok d0" and "hold_step\<^sup>*\<^sup>* (d0, []) (d, H)"
    and "(uid, e, ref) \<in> set H" and "live uid d \<noteq> None" and "in_i64 e" and "in_i64 a"
  shows "fst (Refund uid kid e ref rem (d, fs)) \<noteq> Inl ErrConflict \<and>
         fst (Settle uid kid e a ref rem (d, fs)) \<noteq> Inl ErrConflict"
proof -
  have "holds_covered (d0, [])" using assms(1) by (simp add: holds_covered_def rows_ok_def held_def)
  with assms(2) have cov: "holds_covered (d, H)" by (rule hold_steps_covered)
  then have pos: "0 < e" and le: "e \<le> held H uid"
    using assms(3) held_ge_member [of H uid e ref] by (auto simp: holds_covered_def)
  have frozen: "e \<le> credit_frozen u" if "live uid d = Some u" for u
    using that cov le by (fastforce simp: holds_covered_def)
  have "fst (Refund uid kid e ref rem (d, fs)) \<noteq> Inl ErrConflict"
  proof
    assume "fst (Refund uid kid e ref rem (d, fs)) = Inl ErrConflict"
    then have "Refund uid kid e ref rem (d, fs) = (Inl ErrConflict, snd (Refund uid kid e ref rem (d, fs)))"
      by (metis prod.collapse)
    from Refund_conflict [OF this] frozen assms(4) show False by (auto simp del: live_Some)
  qed
  moreover have "fst (Settle uid kid e a ref rem (d, fs)) \<noteq> Inl ErrConflict"
  proof
    assume "fst (Settle uid kid e a ref rem (d, fs)) = Inl ErrConflict"
    then have "Settle uid kid e a ref rem (d, fs) = (Inl ErrConflict, snd (Settle uid kid e a ref rem (d, fs)))"
      by (metis prod.collapse)
    from Settle_conflict [OF this assms(5,6)] pos frozen assms(4) show False by (auto simp del: live_Some)
  qed
  ultimately show ?thesis by simp
qed

theorem closing_a_hold_never_conflicts_witness:
  "fst (Refund 1 7 30 ''r'' ''x'' (post 1 (- 30) 30 (demo_row 100 0 None)
     [mk_tx 1 7 KindFreeze (- 30) 70 ''r'' ''p''] demo_db, [DOk, DFail])) \<noteq> Inl ErrConflict"
proof -
  let ?d = "post 1 (- 30) 30 (demo_row 100 0 None) [mk_tx 1 7 KindFreeze (- 30) 70 ''r'' ''p''] demo_db"
  have "PreDeduct 1 7 30 ''r'' ''p'' (demo_db, []) = (Inr (), (?d, []))"
    by (simp add: PreDeduct_eval demo_simps)
  then have "hold_step (demo_db, []) (?d, [(1, 30, ''r'')])"
    by (rule hold_step.freeze) simp
  then have run: "hold_step\<^sup>*\<^sup>* (demo_db, []) (?d, [(1, 30, ''r'')])" by blast
  have rows: "rows_ok demo_db" by (simp add: rows_ok_def demo_simps)
  have live: "live 1 ?d \<noteq> None" by (simp add: demo_simps)
  have "in_i64 30" by (simp add: in_i64_def)
  from closing_a_hold_never_conflicts [OF rows run _ live this this, of "''r''"] show ?thesis by simp
qed

text \<open>
  C3. A completed request costs exactly what it used: after a successful pre-deduction of
  \<open>e\<close>, settling it with an actual cost between 0 and \<open>e\<close> succeeds and leaves the
  user's available balance lower by the actual cost alone and the frozen amount as it was.
\<close>

theorem charge_is_exactly_actual:
  assumes pre: "PreDeduct uid kid e ref rem (d, []) = (Inr (), s1)"
    and pos: "0 < e" and e: "in_i64 e" and a: "0 \<le> a" "a \<le> e"
    and rows: "rows_ok d" and ver: "\<And>u. users d uid = Some u \<Longrightarrow> version u + 2 < 2 ^ 64"
  shows "\<exists>s2. Settle uid kid e a ref rem' s1 = (Inr (), s2) \<and>
              wallet_of (fst s2) = shift uid (- a) 0 (wallet_of d)"
proof -
  from pre pos obtain u where u: "users d uid = Some u" "deleted_at u = None"
    and bal: "e \<le> credit_balance u" and fits: "row_fits (move (- e) e u)"
    and s1: "s1 = (post uid (- e) e u [mk_tx uid kid KindFreeze (- e) (credit_balance u - e) ref rem] d, [])"
    by (auto simp: PreDeduct_eval live_def split: option.splits if_splits)
  let ?u1 = "move (- e) e u"
  have ai: "in_i64 a" using a e by (simp add: in_i64_def)
  have ru: "row_fits u" "0 \<le> credit_frozen u" using rows u by (auto simp: rows_ok_def)
  have l1: "users (fst s1) uid = Some ?u1" "deleted_at ?u1 = None"
    using u by (simp_all add: s1 post_def)
  have fits2: "row_fits (move (e - max 0 a) (- e) ?u1)" "in_i64 (credit_frozen ?u1 - e)"
    using ru bal a ver [OF u(1)] by (auto simp: row_fits_def in_i64_def)
  have "Settle uid kid e a ref rem' (fst s1, []) = (Inr (), (post uid (e - max 0 a) (- e) ?u1
      (settle_txs uid kid e a ref rem' (credit_balance ?u1 + (e - max 0 a))) (fst s1), []))"
    using pos e ai l1 fits2 ru by (simp add: Settle_eval live_def)
  moreover have "wallet_of (post uid (e - max 0 a) (- e) ?u1 ts (fst s1)) = shift uid (- a) 0 (wallet_of d)" for ts
    using u a by (auto simp: wallet_of_def shift_def post_def s1 live_def fun_eq_iff)
  ultimately show ?thesis using s1 by auto
qed

theorem charge_is_exactly_actual_witness:
  "\<exists>s2. Settle 1 7 30 12 ''r'' ''y'' (post 1 (- 30) 30 (demo_row 100 0 None)
          [mk_tx 1 7 KindFreeze (- 30) (100 - 30) ''r'' ''p''] demo_db, []) = (Inr (), s2) \<and>
        wallet_of (fst s2) = shift 1 (- 12) 0 (wallet_of demo_db)"
proof -
  have pre: "PreDeduct 1 7 30 ''r'' ''p'' (demo_db, []) = (Inr (), (post 1 (- 30) 30 (demo_row 100 0 None)
          [mk_tx 1 7 KindFreeze (- 30) (100 - 30) ''r'' ''p''] demo_db, []))"
    by (simp add: PreDeduct_eval demo_simps)
  show ?thesis
    by (rule charge_is_exactly_actual [OF pre])
       (simp_all add: in_i64_def rows_ok_def demo_db_def demo_row_def row_fits_def)
qed

end
