(* ===== verification/Go_Float.thy ===== *)
theory Go_Float
  imports Go_Base "HOL-Library.Log_Nat"
begin

text \<open>
  Go's \<open>float64\<close> as the rational it denotes. Every operation of the modelled code computes
  the exact rational result and rounds it to the nearest binary64 value, ties to even
  (\<open>rnd64\<close>). Infinities and NaN do not occur in the modelled computations: amounts are
  64-bit integers and the ratios are configuration values. The compiler may fuse a product and a sum
  on some architectures; the model rounds after each operation, as on amd64.
\<close>

section \<open>Rounding to an integer, ties to even\<close>

definition rhe :: "rat \<Rightarrow> int" where
  "rhe q = (let f = \<lfloor>q\<rfloor>; r = q - of_int f in
            if r < 1/2 then f else if 1/2 < r then f + 1 else if even f then f else f + 1)"

lemma rhe_bounds: "\<lfloor>q\<rfloor> \<le> rhe q" "rhe q \<le> \<lfloor>q\<rfloor> + 1"
  by (simp_all add: rhe_def Let_def)

lemma rhe_error: "\<bar>of_int (rhe q) - q\<bar> \<le> 1/2"
  using floor_correct [of q] by (auto simp: rhe_def Let_def abs_le_iff)

lemma rhe_of_int [simp]: "rhe (of_int i) = i"
  by (simp add: rhe_def Let_def)

lemma rhe_mono: "q \<le> p \<Longrightarrow> rhe q \<le> rhe p"
proof (cases "\<lfloor>q\<rfloor> = \<lfloor>p\<rfloor>")
  case True
  assume "q \<le> p"
  with True show ?thesis by (auto simp: rhe_def Let_def)
next
  case False
  assume "q \<le> p"
  then have "\<lfloor>q\<rfloor> + 1 \<le> \<lfloor>p\<rfloor>" using False floor_mono [of q p] by linarith
  then show ?thesis using rhe_bounds(2) [of q] rhe_bounds(1) [of p] by linarith
qed

lemma rhe_between: "of_int a \<le> q \<Longrightarrow> a \<le> rhe q" "q \<le> of_int b \<Longrightarrow> rhe q \<le> b"
  using rhe_mono [of "of_int a" q] rhe_mono [of q "of_int b"] by simp_all

section \<open>The binary exponent\<close>

lemma two_powi_split: "a = b + c \<Longrightarrow> (2::rat) powi a = 2 powi b * 2 powi c"
  by (simp add: power_int_add)

lemma power_int_less_two_iff: "(2::rat) powi a < 2 powi b \<longleftrightarrow> a < b"
  by (metis linorder_not_le numeral_le_one_iff one_less_numeral_iff power_int_increasing power_int_strict_increasing
      semiring_norm(69) semiring_norm(76) one_le_numeral)

text \<open>\<open>expo x\<close> is the \<open>e\<close> with \<open>2^e \<le> x < 2^(e+1)\<close>, for positive \<open>x\<close>.\<close>

definition expo :: "rat \<Rightarrow> int" where
  "expo x = (let (p, q) = quotient_of x;
                 e = int (floorlog 2 (nat p)) - int (floorlog 2 (nat q)) in
             if 2 powi e \<le> x then e else e - 1)"

lemma expo_bounds:
  assumes "0 < x"
  shows "2 powi (expo x) \<le> x" and "x < 2 powi (expo x + 1)"
proof -
  obtain p q where pq: "quotient_of x = (p, q)" by (cases "quotient_of x")
  have q: "0 < q" and x: "x = of_int p / of_int q"
    using quotient_of_denom_pos [OF pq] quotient_of_div [OF pq] by auto
  with assms have p: "0 < p" by (simp add: zero_less_divide_iff)
  define a where "a = floorlog 2 (nat p)"
  define b where "b = floorlog 2 (nat q)"
  have a0: "0 < a" "0 < b" using p q by (auto simp: a_def b_def floorlog_def)
  have "2 ^ (a - 1) \<le> nat p" "nat p < 2 ^ a" "2 ^ (b - 1) \<le> nat q" "nat q < 2 ^ b"
    using floorlog_bounds [of "nat p" 2] floorlog_bounds [of "nat q" 2] p q
    by (auto simp: a_def b_def)
  then have "(2::int) ^ (a - 1) \<le> p" "p < 2 ^ a" "(2::int) ^ (b - 1) \<le> q" "q < 2 ^ b"
    using p q by (simp_all add: le_nat_iff nat_less_iff)
  then have pa: "(2::rat) ^ (a - 1) \<le> of_int p" "of_int p < (2::rat) ^ a"
    and qb: "(2::rat) ^ (b - 1) \<le> of_int q" "of_int q < (2::rat) ^ b"
    by (metis of_int_le_iff of_int_less_iff of_int_numeral of_int_power)+
  have powa: "(2::rat) ^ a = 2 * 2 ^ (a - 1)" "(2::rat) ^ b = 2 * 2 ^ (b - 1)"
    using a0 by (metis One_nat_def Suc_pred power_Suc)+
  have pw: "(2::rat) powi (int a - int b) = 2 ^ a / 2 ^ b"
    by (simp add: power_int_diff)
  have qpos: "(0::rat) < of_int q" using q by simp
  have up: "x < 2 * (2 ^ a / 2 ^ b)"
  proof -
    have "of_int p * 2 ^ b < (2 * 2 ^ a) * (of_int q :: rat)"
    proof -
      have "of_int p * (2 ^ b :: rat) < 2 ^ a * 2 ^ b"
        using pa(2) by (intro mult_strict_right_mono) auto
      also have "2 ^ a * (2 ^ b :: rat) \<le> 2 ^ a * (2 * of_int q)"
        using qb(1) powa(2) by (intro mult_left_mono) auto
      finally show ?thesis by (simp add: mult_ac)
    qed
    then show ?thesis using qpos by (simp add: x field_simps)
  qed
  have lo: "(2 ^ a / 2 ^ b) / 2 \<le> x"
  proof -
    have "2 ^ (a - 1) * of_int q \<le> of_int p * (2 ^ b :: rat)"
      using pa qb p q by (intro mult_mono) auto
    then show ?thesis using qpos by (simp add: x powa(1) field_simps)
  qed
  let ?e = "int a - int b"
  have e: "expo x = (if 2 powi ?e \<le> x then ?e else ?e - 1)"
    by (simp add: expo_def pq a_def b_def Let_def)
  have p1: "(2::rat) powi (?e + 1) = 2 * 2 powi ?e" by (simp add: power_int_add)
  have p2: "(2::rat) powi (?e - 1) = 2 powi ?e / 2" by (simp add: power_int_diff)
  show "2 powi (expo x) \<le> x" "x < 2 powi (expo x + 1)"
    using up lo by (auto simp: e p1 p2 pw)
qed

section \<open>Rounding to binary64\<close>

text \<open>52 fraction bits, smallest subnormal \<open>2^-1074\<close>.\<close>

definition ulp64 :: "rat \<Rightarrow> rat" where
  "ulp64 x = 2 powi (max (expo x - 52) (- 1074))"

definition rnd64 :: "rat \<Rightarrow> rat" where
  "rnd64 x = (if x = 0 then 0
              else if 0 < x then of_int (rhe (x / ulp64 x)) * ulp64 x
              else - (of_int (rhe (- x / ulp64 (- x))) * ulp64 (- x)))"

lemma ulp64_pos: "0 < ulp64 x"
  by (simp add: ulp64_def)

lemma ulp64_normal: "-1022 \<le> expo x \<Longrightarrow> ulp64 x = 2 powi (expo x - 52)"
  unfolding ulp64_def by (rule arg_cong [of _ _ "power_int 2"]) simp

lemma rnd64_error_abs: "0 < x \<Longrightarrow> \<bar>rnd64 x - x\<bar> \<le> ulp64 x / 2"
proof -
  assume "0 < x"
  then have "rnd64 x - x = (of_int (rhe (x / ulp64 x)) - x / ulp64 x) * ulp64 x"
    using ulp64_pos [of x] by (simp add: rnd64_def field_simps)
  then have "\<bar>rnd64 x - x\<bar> = \<bar>of_int (rhe (x / ulp64 x)) - x / ulp64 x\<bar> * ulp64 x"
    using ulp64_pos [of x] by (simp add: abs_mult)
  also have "\<dots> \<le> 1/2 * ulp64 x"
    using rhe_error [of "x / ulp64 x"] ulp64_pos [of x] by (intro mult_right_mono) auto
  finally show ?thesis by simp
qed

text \<open>The relative error is at most half an ulp, except in the subnormal range.\<close>

lemma rnd64_error:
  assumes "0 < x" and "2 powi (-1022) \<le> x"
  shows "\<bar>rnd64 x - x\<bar> \<le> x / 2 ^ 53"
proof -
  have "(2::rat) powi (-1022) < 2 powi (expo x + 1)"
    using assms expo_bounds(2) [of x] by linarith
  then have "-1022 < expo x + 1" by (rule iffD1 [OF power_int_less_two_iff])
  then have "ulp64 x = 2 powi (expo x - 52)" by (intro ulp64_normal) simp
  also have "\<dots> = 2 powi expo x / 2 ^ 52" by (simp add: power_int_diff)
  also have "\<dots> \<le> x / 2 ^ 52" using expo_bounds(1) [OF assms(1)] by (simp add: divide_right_mono)
  finally show ?thesis using rnd64_error_abs [OF assms(1)] by simp
qed


lemma rnd64_0 [simp]: "rnd64 0 = 0"
  by (simp add: rnd64_def)

lemma rnd64_uminus: "rnd64 (- x) = - rnd64 x"
  by (simp add: rnd64_def)

lemma rnd64_nonneg: "0 \<le> x \<Longrightarrow> 0 \<le> rnd64 x"
  using rhe_between(1) [of 0 "x / ulp64 x"] ulp64_pos [of x] by (simp add: rnd64_def)

text \<open>Integers below \<open>2^53\<close> are representable.\<close>

lemma rnd64_int:
  assumes "\<bar>i\<bar> < 2 ^ 53"
  shows "rnd64 (of_int i) = of_int i"
proof -
  have pos: "rnd64 (of_int j) = of_int j" if j: "0 < j" "j < 2 ^ 53" for j :: int
  proof -
    have "(2::rat) powi expo (of_int j) \<le> of_int j" using expo_bounds(1) [of "of_int j"] j by simp
    also have "\<dots> < of_int (2 ^ 53)" using j(2) by (simp only: of_int_less_iff)
    also have "of_int (2 ^ 53) = (2::rat) powi 53" by simp
    finally have "expo (of_int j) < 53" by (rule iffD1 [OF power_int_less_two_iff])
    moreover have "(2::rat) powi 0 < 2 powi (expo (of_int j) + 1)"
      using expo_bounds(2) [of "of_int j"] j by simp
    then have "0 < expo (of_int j) + 1" by (rule iffD1 [OF power_int_less_two_iff])
    ultimately have u: "ulp64 (of_int j) = 2 powi (expo (of_int j) - 52)"
      and k: "expo (of_int j) - 52 = - int (nat (52 - expo (of_int j)))"
      by (auto simp: ulp64_def)
    define n where "n = nat (52 - expo (of_int j))"
    have "ulp64 (of_int j) = 1 / 2 ^ n"
      unfolding u k n_def by (simp only: power_int_minus power_int_of_nat divide_inverse mult_1)
    moreover from this have "of_int j / ulp64 (of_int j) = of_int (j * 2 ^ n)" by simp
    then have "rhe (of_int j / ulp64 (of_int j)) = j * 2 ^ n" by (simp only: rhe_of_int)
    ultimately show ?thesis using j(1) by (simp add: rnd64_def)
  qed
  show ?thesis
    using pos [of i] pos [of "- i"] assms rnd64_uminus [of "of_int i"] by (cases "i = 0") (auto simp: abs_if split: if_splits)
qed

lemma expo_mono: "0 < x \<Longrightarrow> x \<le> y \<Longrightarrow> expo x \<le> expo y"
proof -
  assume "0 < x" "x \<le> y"
  then have "2 powi expo x < (2::rat) powi (expo y + 1)"
    using expo_bounds(1) [of x] expo_bounds(2) [of y] by linarith
  then have "expo x < expo y + 1" by (rule iffD1 [OF power_int_less_two_iff])
  then show ?thesis by simp
qed

text \<open>Within a binade the quotient stays below \<open>2^53\<close>, and so does its rounding.\<close>

lemma rnd64_le_binade: "0 < x \<Longrightarrow> rnd64 x \<le> 2 powi (expo x + 1)" if "-1022 \<le> expo x"
proof -
  assume x: "0 < x"
  have u: "ulp64 x = 2 powi (expo x - 52)" by (rule ulp64_normal [OF that])
  have "2 powi (expo x + 1) = (2 powi (expo x - 52) :: rat) * 2 powi 53"
    by (rule two_powi_split) simp
  then have "x < ulp64 x * of_int (2 ^ 53)" using expo_bounds(2) [OF x] by (simp add: u)
  then have "x / ulp64 x \<le> of_int (2 ^ 53)" using ulp64_pos [of x] by (simp add: field_simps)
  then have "rhe (x / ulp64 x) \<le> 2 ^ 53" by (rule rhe_between(2))
  then have "of_int (rhe (x / ulp64 x)) \<le> (of_int (2 ^ 53) :: rat)" by (simp only: of_int_le_iff)
  then have "of_int (rhe (x / ulp64 x)) * ulp64 x \<le> of_int (2 ^ 53) * ulp64 x"
    using ulp64_pos [of x] by (intro mult_right_mono) auto
  then show ?thesis using x \<open>2 powi (expo x + 1) = _\<close> by (simp add: rnd64_def u mult.commute)
qed

lemma rnd64_ge_binade: "0 < x \<Longrightarrow> 2 powi expo x \<le> rnd64 x" if "-1022 \<le> expo x"
proof -
  assume x: "0 < x"
  have u: "ulp64 x = 2 powi (expo x - 52)" by (rule ulp64_normal [OF that])
  have e: "2 powi expo x = (2 powi (expo x - 52) :: rat) * 2 powi 52"
    by (rule two_powi_split) simp
  then have "ulp64 x * of_int (2 ^ 52) \<le> x" using expo_bounds(1) [OF x] by (simp add: u)
  then have "of_int (2 ^ 52) \<le> x / ulp64 x" using ulp64_pos [of x] by (simp add: field_simps)
  then have "2 ^ 52 \<le> rhe (x / ulp64 x)" by (rule rhe_between(1))
  then have "(of_int (2 ^ 52) :: rat) \<le> of_int (rhe (x / ulp64 x))" by (simp only: of_int_le_iff)
  then have "of_int (2 ^ 52) * ulp64 x \<le> of_int (rhe (x / ulp64 x)) * ulp64 x"
    using ulp64_pos [of x] by (intro mult_right_mono) auto
  then show ?thesis using x e by (simp add: rnd64_def u mult.commute)
qed

text \<open>Rounding is monotone.\<close>

lemma rnd64_mono_pos:
  assumes x: "0 < x" and xy: "x \<le> y"
  shows "rnd64 x \<le> rnd64 y"
proof (cases "ulp64 x = ulp64 y")
  case True
  have "rhe (x / ulp64 y) \<le> rhe (y / ulp64 y)"
    using xy ulp64_pos [of y] by (intro rhe_mono divide_right_mono) auto
  then have "of_int (rhe (x / ulp64 y)) * ulp64 y \<le> of_int (rhe (y / ulp64 y)) * ulp64 y"
    using ulp64_pos [of y] by (intro mult_right_mono) auto
  with x xy True show ?thesis by (simp add: rnd64_def)
next
  case False
  then have "max (expo x - 52) (- 1074) \<noteq> max (expo y - 52) (- 1074)" by (auto simp: ulp64_def)
  then have e: "expo x < expo y" and n: "-1022 < expo y"
    using expo_mono [OF x xy] by linarith+
  have up: "rnd64 x \<le> 2 powi expo y"
  proof (cases "-1022 \<le> expo x")
    case True
    from rnd64_le_binade [OF this x] have "rnd64 x \<le> 2 powi (expo x + 1)" .
    also have "\<dots> \<le> 2 powi expo y" using e by (intro power_int_increasing) auto
    finally show ?thesis .
  next
    case False
    have u: "ulp64 x = 2 powi (- 1074)" using False by (simp add: ulp64_def max_def)
    have pw: "(2::rat) powi expo y = 2 powi (-1074) * of_int (2 ^ nat (expo y + 1074))"
    proof -
      have "(2::rat) powi expo y = 2 powi (-1074) * 2 powi (int (nat (expo y + 1074)))"
        using n by (intro two_powi_split) simp
      then show ?thesis by (simp only: power_int_of_nat of_int_power of_int_numeral)
    qed
    have "x < 2 powi (expo x + 1)" by (rule expo_bounds(2) [OF x])
    also have "\<dots> \<le> 2 powi expo y" using e by (intro power_int_increasing) auto
    finally have "x / ulp64 x \<le> of_int (2 ^ nat (expo y + 1074))"
      using ulp64_pos [of x] by (simp add: u pw pos_divide_le_eq mult.commute)
    then have "rhe (x / ulp64 x) \<le> 2 ^ nat (expo y + 1074)" by (rule rhe_between(2))
    then have "(of_int (rhe (x / ulp64 x)) :: rat) \<le> of_int (2 ^ nat (expo y + 1074))"
      by (simp only: of_int_le_iff)
    then have "of_int (rhe (x / ulp64 x)) * ulp64 x \<le> of_int (2 ^ nat (expo y + 1074)) * ulp64 x"
      using ulp64_pos [of x] by (intro mult_right_mono) auto
    then show ?thesis using x by (simp add: rnd64_def u pw mult.commute)
  qed
  also have "\<dots> \<le> rnd64 y" using rnd64_ge_binade [of y] n x xy by simp
  finally show ?thesis .
qed

lemma rnd64_mono: "x \<le> y \<Longrightarrow> rnd64 x \<le> rnd64 y"
proof -
  assume xy: "x \<le> y"
  consider "0 < x" | "x \<le> 0" "0 \<le> y" | "y < 0" by linarith
  then show ?thesis
  proof cases
    case 2
    then show ?thesis using rnd64_nonneg [of y] rnd64_nonneg [of "- x"] by (simp add: rnd64_uminus)
  next
    case 3
    then have "rnd64 (- y) \<le> rnd64 (- x)" using xy by (intro rnd64_mono_pos) auto
    then show ?thesis by (simp add: rnd64_uminus)
  qed (use xy rnd64_mono_pos in blast)
qed

section \<open>Conversion to int64\<close>

text \<open>Truncation towards zero; out of range the value is the one amd64 produces.\<close>

definition to_i64 :: "rat \<Rightarrow> int" where
  "to_i64 x = (let t = (if 0 \<le> x then \<lfloor>x\<rfloor> else \<lceil>x\<rceil>) in if in_i64 t then t else - (2 ^ 63))"

lemma to_i64_nonneg: "0 \<le> x \<Longrightarrow> x < 2 ^ 63 \<Longrightarrow> to_i64 x = \<lfloor>x\<rfloor>"
proof -
  assume x: "0 \<le> x" "x < 2 ^ 63"
  have "\<lfloor>x\<rfloor> < 2 ^ 63" using x(2) by (simp add: floor_less_iff)
  moreover have "0 \<le> \<lfloor>x\<rfloor>" using x(1) by simp
  ultimately show ?thesis using x(1) by (simp add: to_i64_def in_i64_def)
qed

text \<open>\<open>int64(v + 0.5)\<close>, the code's rounding of a non-negative amount.\<close>

definition round_half :: "rat \<Rightarrow> int" where
  "round_half v = to_i64 (rnd64 (v + 1/2))"

end
