(* ===== verification/Model_Catalog.thy ===== *)
theory Model_Catalog
  imports Sql_Tx Go_Float
begin

text \<open>
  The model catalogue (internal/model): the \<open>models\<close> table and its DAO, the validation and the
  write path of the admin handler, and the in-process \<open>Registry\<close> cache in front of it. The
  driver is configured without \<open>clientFoundRows\<close>, so \<open>RowsAffected\<close> counts the rows an
  UPDATE changes, not those it matches.
\<close>

section \<open>Table\<close>

record model_row =
  m_id :: nat
  m_slug :: string
  m_type :: string
  m_upstream_slug :: string
  m_input_price :: int
  m_output_price :: int
  m_cache_price :: int
  m_image_price :: int
  m_image_price_2k :: int
  m_image_price_4k :: int
  m_multi_image :: bool
  m_output_size :: bool
  m_description :: string
  m_enabled :: bool
  m_deleted_at :: "int option"

record catalog_db =
  models :: "model_row list"
  models_next :: nat
  billing_ratios :: "nat \<times> nat \<rightharpoonup> rat"

definition live_models :: "'a catalog_db_scheme \<Rightarrow> model_row list" where
  "live_models d = filter (\<lambda>m. m_deleted_at m = None) (models d)"

section \<open>DAO\<close>

text \<open>The table is kept in id order, the order the queries ask for.\<close>

definition select_one :: "(model_row \<Rightarrow> bool) \<Rightarrow> ('a catalog_db_scheme sess, model_row) action" where
  "select_one P = mapErr (\<lambda>e. if e = ENoRows then ErrNotFound else e)
     (stmt (\<lambda>d. (case find P (live_models d) of None \<Rightarrow> Inl ENoRows | Some m \<Rightarrow> Inr m, d)))"

definition GetBySlug :: "string \<Rightarrow> ('a catalog_db_scheme sess, model_row) action" where
  "GetBySlug slug = select_one (\<lambda>m. m_slug m = slug)"

definition Model_GetByID :: "nat \<Rightarrow> ('a catalog_db_scheme sess, model_row) action" where
  "Model_GetByID i = select_one (\<lambda>m. m_id m = i)"

definition Model_ListEnabled :: "('a catalog_db_scheme sess, model_row list) action" where
  "Model_ListEnabled = stmt (\<lambda>d. (Inr (filter m_enabled (live_models d)), d))"

definition Model_List :: "('a catalog_db_scheme sess, model_row list) action" where
  "Model_List = stmt (\<lambda>d. (Inr (live_models d), d))"

text \<open>The unique key on \<open>slug\<close> covers deleted rows too.\<close>

definition insert_model :: "model_row \<Rightarrow> 'a catalog_db_scheme \<Rightarrow> nat result \<times> 'a catalog_db_scheme" where
  "insert_model m d =
     (if m_slug m \<in> m_slug ` set (models d) then (Inl EDuplicate, d)
      else (Inr (models_next d),
            d\<lparr>models := models d @ [m\<lparr>m_id := models_next d, m_deleted_at := None\<rparr>],
              models_next := models_next d + 1\<rparr>))"

definition Model_Create :: "model_row \<Rightarrow> ('a catalog_db_scheme sess, model_row) action" where
  "Model_Create m = bindE (stmt (insert_model m)) (\<lambda>i. okE (m\<lparr>m_id := i\<rparr>))"

text \<open>\<open>UPDATE models SET ... WHERE id = ? AND deleted_at IS NULL\<close> and the count of changed rows.\<close>

definition update_models ::
  "nat \<Rightarrow> (model_row \<Rightarrow> model_row) \<Rightarrow> 'a catalog_db_scheme \<Rightarrow> nat result \<times> 'a catalog_db_scheme" where
  "update_models i f d =
     (let hit = (\<lambda>m. m_id m = i \<and> m_deleted_at m = None) in
      (Inr (length (filter (\<lambda>m. hit m \<and> f m \<noteq> m) (models d))),
       d\<lparr>models := map (\<lambda>m. if hit m then f m else m) (models d)\<rparr>))"

definition exec_or_notfound ::
  "('a catalog_db_scheme \<Rightarrow> nat result \<times> 'a catalog_db_scheme) \<Rightarrow> ('a catalog_db_scheme sess, unit) action" where
  "exec_or_notfound f = bindE (stmt f) (\<lambda>n. if n = 0 then failE ErrNotFound else okE ())"

definition set_columns :: "model_row \<Rightarrow> model_row \<Rightarrow> model_row" where
  "set_columns m old =
     old\<lparr>m_type := m_type m, m_upstream_slug := m_upstream_slug m, m_input_price := m_input_price m,
         m_output_price := m_output_price m, m_cache_price := m_cache_price m,
         m_image_price := m_image_price m, m_image_price_2k := m_image_price_2k m,
         m_image_price_4k := m_image_price_4k m, m_multi_image := m_multi_image m,
         m_output_size := m_output_size m, m_description := m_description m, m_enabled := m_enabled m\<rparr>"

definition Model_Update :: "model_row \<Rightarrow> ('a catalog_db_scheme sess, unit) action" where
  "Model_Update m = exec_or_notfound (update_models (m_id m) (set_columns m))"

definition Model_SetEnabled :: "nat \<Rightarrow> bool \<Rightarrow> ('a catalog_db_scheme sess, unit) action" where
  "Model_SetEnabled i en = exec_or_notfound (update_models i (\<lambda>m. m\<lparr>m_enabled := en\<rparr>))"

text \<open>
  \<open>slug = CONCAT(slug, '#del', id)\<close> in a \<open>VARCHAR(64)\<close> column under strict mode, and
  under the unique key: a name that is too long or taken fails the statement.
\<close>

definition del_slug :: "model_row \<Rightarrow> string" where
  "del_slug m = m_slug m @ ''#del'' @ dec_nat (m_id m)"

definition delete_model :: "int \<Rightarrow> nat \<Rightarrow> 'a catalog_db_scheme \<Rightarrow> nat result \<times> 'a catalog_db_scheme" where
  "delete_model now i d =
     (case find (\<lambda>m. m_id m = i) (live_models d) of
        None \<Rightarrow> (Inr 0, d)
      | Some m \<Rightarrow>
          if 64 < length (del_slug m) then (Inl (EMsg ''Data too long for column slug''), d)
          else if del_slug m \<in> m_slug ` set (models d) then (Inl EDuplicate, d)
          else update_models i (\<lambda>m. m\<lparr>m_deleted_at := Some now, m_enabled := False, m_slug := del_slug m\<rparr>) d)"

definition Model_SoftDelete :: "int \<Rightarrow> nat \<Rightarrow> ('a catalog_db_scheme sess, unit) action" where
  "Model_SoftDelete now i = exec_or_notfound (delete_model now i)"

definition GroupRatio :: "nat \<Rightarrow> nat \<Rightarrow> ('a catalog_db_scheme sess, rat) action" where
  "GroupRatio modelID groupID =
     stmt (\<lambda>d. (Inr (case billing_ratios d (modelID, groupID) of None \<Rightarrow> 1 | Some r \<Rightarrow> r), d))"

section \<open>Admin requests\<close>

record upsert_req =
  u_slug :: string
  u_type :: string
  u_upstream_slug :: string
  u_input_price :: int
  u_output_price :: int
  u_cache_price :: int
  u_image_price :: int
  u_image_price_2k :: int
  u_image_price_4k :: int
  u_multi_image :: "bool option"
  u_output_size :: "bool option"
  u_description :: string
  u_enabled :: "bool option"

text \<open>\<open>^[A-Za-z][A-Za-z0-9._\-]{1,63}$\<close>.\<close>

definition is_alpha :: "char \<Rightarrow> bool" where
  "is_alpha c \<longleftrightarrow> 65 \<le> byte_val c \<and> byte_val c \<le> 90 \<or> 97 \<le> byte_val c \<and> byte_val c \<le> 122"

definition slugRe :: "string \<Rightarrow> bool" where
  "slugRe s = (case s of [] \<Rightarrow> False | c # cs \<Rightarrow>
     is_alpha c \<and> 1 \<le> length cs \<and> length cs \<le> 63 \<and>
     list_all (\<lambda>x. is_alpha x \<or> is_digit x \<or> x \<in> set ''._-'') cs)"

definition trim_req :: "upsert_req \<Rightarrow> upsert_req" where
  "trim_req r = r\<lparr>u_slug := TrimSpace (u_slug r), u_upstream_slug := TrimSpace (u_upstream_slug r),
                  u_type := TrimSpace (ToLower (u_type r))\<rparr>"

definition validate :: "bool \<Rightarrow> upsert_req \<Rightarrow> upsert_req result" where
  "validate forCreate r0 =
     (let r = trim_req r0 in
      if forCreate \<and> \<not> slugRe (u_slug r) then Inl (EMsg ''slug'')
      else if u_type r \<noteq> ''chat'' \<and> u_type r \<noteq> ''image'' then Inl (EMsg ''type'')
      else if u_upstream_slug r = '''' then Inl (EMsg ''upstream_model_slug'')
      else if \<not> list_all (\<lambda>v. 0 \<le> v) [u_input_price r, u_output_price r, u_cache_price r,
                                   u_image_price r, u_image_price_2k r, u_image_price_4k r]
           then Inl (EMsg ''price'')
      else if u_type r = ''chat'' \<and> u_input_price r = 0 \<and> u_output_price r = 0 then Inl (EMsg ''chat price'')
      else if u_type r = ''image'' \<and> u_image_price r = 0 then Inl (EMsg ''image price'')
      else if 255 < length (u_description r) then Inl (EMsg ''description'')
      else Inr r)"

definition from_req :: "upsert_req \<Rightarrow> model_row" where
  "from_req r =
     \<lparr>m_id = 0, m_slug = u_slug r, m_type = u_type r, m_upstream_slug = u_upstream_slug r,
      m_input_price = u_input_price r, m_output_price = u_output_price r, m_cache_price = u_cache_price r,
      m_image_price = u_image_price r, m_image_price_2k = u_image_price_2k r, m_image_price_4k = u_image_price_4k r,
      m_multi_image = (case u_multi_image r of None \<Rightarrow> True | Some b \<Rightarrow> b),
      m_output_size = (case u_output_size r of None \<Rightarrow> True | Some b \<Rightarrow> b),
      m_description = u_description r,
      m_enabled = (case u_enabled r of None \<Rightarrow> True | Some b \<Rightarrow> b), m_deleted_at = None\<rparr>"

definition apply_req :: "upsert_req \<Rightarrow> model_row \<Rightarrow> model_row" where
  "apply_req r cur =
     cur\<lparr>m_type := u_type r, m_upstream_slug := u_upstream_slug r,
         m_input_price := u_input_price r, m_output_price := u_output_price r, m_cache_price := u_cache_price r,
         m_image_price := u_image_price r, m_image_price_2k := u_image_price_2k r, m_image_price_4k := u_image_price_4k r,
         m_multi_image := (case u_multi_image r of None \<Rightarrow> m_multi_image cur | Some b \<Rightarrow> b),
         m_output_size := (case u_output_size r of None \<Rightarrow> m_output_size cur | Some b \<Rightarrow> b),
         m_description := u_description r,
         m_enabled := (case u_enabled r of None \<Rightarrow> m_enabled cur | Some b \<Rightarrow> b)\<rparr>"

section \<open>The registry cache\<close>

record registry =
  bySlug :: "string \<rightharpoonup> model_row"
  loadedAt :: int
  refreshing :: bool

definition registry_ttl :: int where "registry_ttl = 30"

text \<open>The loop over the list lets the last row of a slug win.\<close>

definition index_slugs :: "model_row list \<Rightarrow> (string \<rightharpoonup> model_row)" where
  "index_slugs ms = fold (\<lambda>v m. m(m_slug v \<mapsto> v)) ms Map.empty"

type_synonym 'a catalog = "registry \<times> 'a catalog_db_scheme sess"

definition on_db :: "('a catalog_db_scheme sess, 'b) action \<Rightarrow> ('a catalog, 'b) action" where
  "on_db m c = (case m (snd c) of (r, s) \<Rightarrow> (r, (fst c, s)))"

definition refresh :: "int \<Rightarrow> ('a catalog, unit) action" where
  "refresh now = bindE (on_db Model_List) (\<lambda>lst c.
     (Inr (), ((fst c)\<lparr>bySlug := index_slugs lst, loadedAt := now\<rparr>, snd c)))"

definition Reload :: "int \<Rightarrow> ('a catalog, unit) action" where
  "Reload now = refresh now"

text \<open>
  \<open>BySlug\<close>: a stale cache starts a background refresh unless one is running (the flag is set
  here; the refresh itself is a later step, \<open>refresh_done\<close>), and a stale entry is still served.
\<close>

definition BySlug :: "int \<Rightarrow> string \<Rightarrow> ('a catalog, model_row) action" where
  "BySlug now slug c =
     (let stale = now - loadedAt (fst c) > registry_ttl;
          c1 = (if stale then ((fst c)\<lparr>refreshing := True\<rparr>, snd c) else c) in
      case bySlug (fst c) slug of
        Some m \<Rightarrow> (Inr m, if \<not> stale then c else c1)
      | None \<Rightarrow> on_db (GetBySlug slug) c1)"

definition refresh_done :: "int \<Rightarrow> 'a catalog \<Rightarrow> 'a catalog" where
  "refresh_done now c =
     (if refreshing (fst c)
      then (let c' = snd (refresh now c) in ((fst c')\<lparr>refreshing := False\<rparr>, snd c')) else c)"

section \<open>The admin handler\<close>

text \<open>Every write is followed by a reload whose error is dropped.\<close>

definition and_reload :: "int \<Rightarrow> ('a catalog, 'b) action \<Rightarrow> ('a catalog, 'b) action" where
  "and_reload now m = bindE m (\<lambda>x c. (Inr x, snd (Reload now c)))"

definition Admin_Create :: "int \<Rightarrow> upsert_req \<Rightarrow> ('a catalog, model_row) action" where
  "Admin_Create now req =
     (case validate True req of
        Inl e \<Rightarrow> failE e
      | Inr r \<Rightarrow> and_reload now (on_db (Model_Create (from_req r))))"

definition Admin_Update :: "int \<Rightarrow> nat \<Rightarrow> upsert_req \<Rightarrow> ('a catalog, model_row) action" where
  "Admin_Update now i req =
     (if i = 0 then failE (EMsg ''invalid id'')
      else case validate False req of
        Inl e \<Rightarrow> failE e
      | Inr r \<Rightarrow>
          bindE (on_db (Model_GetByID i)) (\<lambda>cur.
          and_reload now (on_db (bindE (Model_Update (apply_req r cur)) (\<lambda>_. okE (apply_req r cur))))))"

definition Admin_SetEnabled :: "int \<Rightarrow> nat \<Rightarrow> bool \<Rightarrow> ('a catalog, unit) action" where
  "Admin_SetEnabled now i en =
     (if i = 0 then failE (EMsg ''invalid id'') else and_reload now (on_db (Model_SetEnabled i en)))"

definition Admin_Delete :: "int \<Rightarrow> nat \<Rightarrow> ('a catalog, unit) action" where
  "Admin_Delete now i =
     (if i = 0 then failE (EMsg ''invalid id'') else and_reload now (on_db (Model_SoftDelete now i)))"

section \<open>The catalogue invariant\<close>

definition priced :: "model_row \<Rightarrow> bool" where
  "priced m \<longleftrightarrow>
     (m_type m = ''chat'' \<or> m_type m = ''image'') \<and> 0 \<le> m_input_price m \<and> 0 \<le> m_output_price m \<and>
     0 \<le> m_cache_price m \<and> 0 \<le> m_image_price m \<and> 0 \<le> m_image_price_2k m \<and> 0 \<le> m_image_price_4k m \<and>
     (m_type m = ''chat'' \<longrightarrow> 0 < m_input_price m \<or> 0 < m_output_price m) \<and>
     (m_type m = ''image'' \<longrightarrow> 0 < m_image_price m)"

definition catalog_wf :: "'a catalog_db_scheme \<Rightarrow> bool" where
  "catalog_wf d \<longleftrightarrow>
     distinct (map m_slug (models d)) \<and> distinct (map m_id (models d)) \<and>
     (\<forall>m \<in> set (models d). m_id m < models_next d \<and> priced m)"

lemma validate_priced:
  assumes "validate fc r0 = Inr r"
  shows "priced (from_req r)" and "priced (apply_req r cur)"
  using assms by (auto simp: validate_def Let_def priced_def from_req_def apply_req_def split: if_splits)

lemma priced_keep [simp]:
  "priced (m\<lparr>m_id := i\<rparr>) = priced m" "priced (m\<lparr>m_enabled := en\<rparr>) = priced m"
  "priced (m\<lparr>m_slug := sl\<rparr>) = priced m" "priced (m\<lparr>m_deleted_at := t\<rparr>) = priced m"
  by (simp_all add: priced_def)

lemma set_columns_keep [simp]:
  "m_slug (set_columns m old) = m_slug old" "m_id (set_columns m old) = m_id old"
  "m_deleted_at (set_columns m old) = m_deleted_at old" "priced (set_columns m old) = priced m"
  by (simp_all add: set_columns_def priced_def)

lemma insert_model_wf:
  "catalog_wf d \<Longrightarrow> priced m \<Longrightarrow> catalog_wf (snd (insert_model m d))"
  by (auto simp: catalog_wf_def insert_model_def)

lemma update_models_wf:
  assumes "catalog_wf d" and "\<And>m. m_slug (f m) = m_slug m" and "\<And>m. m_id (f m) = m_id m"
    and "\<And>m. priced m \<Longrightarrow> priced (f m)"
  shows "catalog_wf (snd (update_models i f d))"
proof -
  let ?g = "\<lambda>m. if m_id m = i \<and> m_deleted_at m = None then f m else m"
  have k: "(\<lambda>m. m_slug (?g m)) = m_slug" "(\<lambda>m. m_id (?g m)) = m_id"
    by (simp_all add: assms(2,3) fun_eq_iff)
  have "catalog_wf (d\<lparr>models := map ?g (models d)\<rparr>)"
    using assms(1,3,4) by (auto simp: catalog_wf_def comp_def k)
  then show ?thesis by (simp add: update_models_def Let_def)
qed

lemma map_slug_update:
  assumes "distinct (map m_id ms)" and "sl \<notin> m_slug ` set ms" and "distinct (map m_slug ms)"
    and "\<And>m. m \<in> set ms \<Longrightarrow> m_id m = m_id m0 \<Longrightarrow> m_slug (g m) = sl"
  shows "distinct (map m_slug (map (\<lambda>m. if m_id m = m_id m0 \<and> P m then g m else m) ms))"
  using assms
proof (induction ms)
  case (Cons a ms)
  have other: "map (\<lambda>m. if m_id m = m_id m0 \<and> P m then g m else m) ms = ms" if "m_id a = m_id m0"
    using that Cons.prems(1) by (intro map_idI) (auto simp: image_iff)
  have IH: "distinct (map m_slug (map (\<lambda>m. if m_id m = m_id m0 \<and> P m then g m else m) ms))"
    using Cons.IH Cons.prems by simp
  show ?case
  proof (cases "m_id a = m_id m0 \<and> P a")
    case True
    then show ?thesis using Cons.prems other by (auto simp del: map_map)
  next
    case False
    then show ?thesis using Cons.prems IH by (auto simp: image_iff comp_def)
  qed
qed simp

lemma delete_model_wf:
  assumes "catalog_wf d"
  shows "catalog_wf (snd (delete_model now i d))"
proof (cases "find (\<lambda>m. m_id m = i) (live_models d)")
  case (Some m0)
  have in0: "m0 \<in> set (models d)" and i: "m_id m0 = i"
    using Some by (auto simp: find_Some_iff live_models_def dest!: nth_mem)
  have uniq: "m = m0" if "m \<in> set (models d)" "m_id m = i" for m
    using that in0 i assms by (auto simp: catalog_wf_def distinct_map inj_on_def)
  show ?thesis
  proof (cases "del_slug m0 \<in> m_slug ` set (models d)")
    case False
    let ?f = "\<lambda>m. m\<lparr>m_deleted_at := Some now, m_enabled := False, m_slug := del_slug m\<rparr>"
    let ?g = "\<lambda>m. if m_id m = i \<and> m_deleted_at m = None then ?f m else m"
    have "distinct (map m_slug (map (\<lambda>m. if m_id m = m_id m0 \<and> m_deleted_at m = None then ?f m else m) (models d)))"
    proof (rule map_slug_update)
      show "m_slug (?f m) = del_slug m0" if "m \<in> set (models d)" "m_id m = m_id m0" for m
        using uniq [OF that(1)] that(2) i by simp
    qed (use assms False in \<open>simp_all add: catalog_wf_def\<close>)
    moreover have "map m_id (map ?g (models d)) = map m_id (models d)" by simp
    then have "distinct (map m_id (map ?g (models d)))" using assms by (simp only: catalog_wf_def)
    moreover have "\<forall>m \<in> set (map ?g (models d)). m_id m < models_next d \<and> priced m"
      using assms by (auto simp: catalog_wf_def)
    ultimately have "catalog_wf (d\<lparr>models := map ?g (models d)\<rparr>)"
      unfolding catalog_wf_def i by (simp del: map_map list.set_map)
    then have "catalog_wf (snd (update_models i ?f d))" by (simp add: update_models_def Let_def)
    with Some False assms show ?thesis by (simp add: delete_model_def)
  qed (use Some assms in \<open>simp add: delete_model_def\<close>)
qed (use assms in \<open>simp add: delete_model_def\<close>)

text \<open>A statement keeps what its SQL keeps, and so does any action built from such statements.\<close>

definition keeps_wf :: "('a catalog, 'b) action \<Rightarrow> bool" where
  "keeps_wf m \<longleftrightarrow> (\<forall>c. catalog_wf (fst (snd c)) \<longrightarrow> catalog_wf (fst (snd (snd (m c)))))"

lemma keeps_wfD: "keeps_wf m \<Longrightarrow> catalog_wf (fst (snd c)) \<Longrightarrow> catalog_wf (fst (snd (snd (m c))))"
  unfolding keeps_wf_def by blast

lemma keeps_wfI: "(\<And>c. catalog_wf (fst (snd c)) \<Longrightarrow> catalog_wf (fst (snd (snd (m c))))) \<Longrightarrow> keeps_wf m"
  unfolding keeps_wf_def by blast

lemma keeps_wf_stmt: "(\<And>d. catalog_wf d \<Longrightarrow> catalog_wf (snd (f d))) \<Longrightarrow> keeps_wf (on_db (stmt f))"
proof -
  assume f: "\<And>d. catalog_wf d \<Longrightarrow> catalog_wf (snd (f d))"
  have "catalog_wf (fst (snd (stmt f s)))" if "catalog_wf (fst s)" for s
    using stmt_db [of f s] f [OF that] that by auto
  then show ?thesis by (auto simp: keeps_wf_def on_db_def split: prod.splits) (metis fst_conv snd_conv)
qed

lemma keeps_wf_reads: "reads m \<Longrightarrow> keeps_wf (on_db m)"
  by (auto simp: keeps_wf_def on_db_def reads_def split: prod.splits) (metis fst_conv snd_conv)

lemma keeps_wf_bindE:
  assumes "keeps_wf m" and "\<And>x. keeps_wf (f x)"
  shows "keeps_wf (bindE m f)"
proof (rule keeps_wfI)
  fix c :: "'a catalog" assume wf: "catalog_wf (fst (snd c))"
  obtain r c1 where m: "m c = (r, c1)" by (rule prod.exhaust)
  then have wf1: "catalog_wf (fst (snd c1))" using assms(1) wf unfolding keeps_wf_def by (metis snd_conv)
  show "catalog_wf (fst (snd (snd (bindE m f c))))"
    using wf1 keeps_wfD [OF assms(2) wf1] by (cases r) (simp_all add: bindE_def m)
qed

lemma on_db_bindE: "on_db (bindE m f) = bindE (on_db m) (\<lambda>x. on_db (f x))"
  by (auto simp: on_db_def bindE_def fun_eq_iff split: prod.splits sum.splits)

lemma keeps_wf_okE: "keeps_wf (okE x)" "keeps_wf (failE e)" "keeps_wf (on_db (okE y))" "keeps_wf (on_db (failE e))"
  by (simp_all add: keeps_wf_def okE_def failE_def on_db_def)

lemma reads_select_one: "reads (select_one P)"
  by (auto simp: select_one_def mapErr_def reads_def stmt_def split: prod.splits sum.splits drv.splits)

lemma reads_lists: "reads Model_List" "reads (GetBySlug sl)" "reads (Model_GetByID i)"
  by (auto simp: Model_List_def GetBySlug_def Model_GetByID_def reads_select_one)

lemma keeps_wf_refresh: "keeps_wf (refresh now)"
  unfolding refresh_def
  by (intro keeps_wf_bindE keeps_wf_reads reads_lists) (simp add: keeps_wf_def)

lemma keeps_wf_and_reload: "keeps_wf m \<Longrightarrow> keeps_wf (and_reload now m)"
  unfolding and_reload_def Reload_def
  by (intro keeps_wf_bindE) (auto intro!: keeps_wfI dest: keeps_wfD [OF keeps_wf_refresh])

lemma keeps_wf_exec: "(\<And>d. catalog_wf d \<Longrightarrow> catalog_wf (snd (f d))) \<Longrightarrow> keeps_wf (on_db (exec_or_notfound f))"
  unfolding exec_or_notfound_def on_db_bindE
  by (intro keeps_wf_bindE keeps_wf_stmt) (auto simp: keeps_wf_okE)

lemma keeps_wf_Admin:
  "keeps_wf (Admin_Create now req)" "keeps_wf (Admin_Update now i req)"
  "keeps_wf (Admin_SetEnabled now i en)" "keeps_wf (Admin_Delete now i)"
proof -
  show "keeps_wf (Admin_Create now req)"
    by (auto simp: Admin_Create_def Model_Create_def on_db_bindE keeps_wf_okE split: sum.splits
        intro!: keeps_wf_and_reload keeps_wf_bindE keeps_wf_stmt insert_model_wf dest: validate_priced)
  show "keeps_wf (Admin_Update now i req)"
    by (auto simp: Admin_Update_def Model_Update_def on_db_bindE keeps_wf_okE split: sum.splits
        intro!: keeps_wf_and_reload keeps_wf_bindE keeps_wf_exec keeps_wf_reads [OF reads_lists(3)] update_models_wf
        dest: validate_priced)
  show "keeps_wf (Admin_SetEnabled now i en)"
    by (auto simp: Admin_SetEnabled_def Model_SetEnabled_def keeps_wf_okE
        intro!: keeps_wf_and_reload keeps_wf_exec update_models_wf)
  show "keeps_wf (Admin_Delete now i)"
    by (auto simp: Admin_Delete_def Model_SoftDelete_def keeps_wf_okE
        intro!: keeps_wf_and_reload keeps_wf_exec delete_model_wf)
qed

datatype catalog_op =
    CatCreate int upsert_req | CatUpdate int nat upsert_req | CatSetEnabled int nat bool
  | CatDelete int nat | CatLookup int string | CatRefresh int

fun catalog_step :: "catalog_op \<Rightarrow> 'a catalog \<Rightarrow> 'a catalog" where
  "catalog_step (CatCreate now req) c = snd (Admin_Create now req c)"
| "catalog_step (CatUpdate now i req) c = snd (Admin_Update now i req c)"
| "catalog_step (CatSetEnabled now i en) c = snd (Admin_SetEnabled now i en c)"
| "catalog_step (CatDelete now i) c = snd (Admin_Delete now i c)"
| "catalog_step (CatLookup now slug) c = snd (BySlug now slug c)"
| "catalog_step (CatRefresh now) c = refresh_done now c"

lemma BySlug_db: "fst (snd (snd (BySlug now slug c))) = fst (snd c)"
proof -
  have "fst (snd (snd (on_db (GetBySlug slug) c'))) = fst (snd c')" for c' :: "'a catalog"
    by (auto simp: on_db_def split: prod.splits) (metis readsD [OF reads_lists(2)] fst_conv)
  then show ?thesis by (simp add: BySlug_def Let_def split: option.splits)
qed

interpretation catalog_inv: inv_system catalog_step "\<lambda>_ _. True" "\<lambda>c. catalog_wf (fst (snd c))"
proof
  fix c :: "'a catalog" and a
  assume "catalog_wf (fst (snd c))"
  then show "catalog_wf (fst (snd (catalog_step a c)))"
    by (cases a) (auto simp: BySlug_db refresh_done_def Let_def
        intro: keeps_wfD [OF keeps_wf_Admin(1)] keeps_wfD [OF keeps_wf_Admin(2)]
          keeps_wfD [OF keeps_wf_Admin(3)] keeps_wfD [OF keeps_wf_Admin(4)] keeps_wfD [OF keeps_wf_refresh])
qed

section \<open>Coherence of the cache\<close>

lemma index_slugs_fold:
  "fold (\<lambda>v m. m(m_slug v \<mapsto> v)) ms m0 k =
     (case find (\<lambda>m. m_slug m = k) (rev ms) of Some m \<Rightarrow> Some m | None \<Rightarrow> m0 k)"
proof (induction ms arbitrary: m0)
  case (Cons a ms)
  show ?case
    by (simp only: fold.simps comp_def Cons.IH rev.simps find_snoc) (simp split: option.splits)
qed simp

lemma find_rev_distinct:
  assumes "distinct (map m_slug ms)"
  shows "find (\<lambda>m. m_slug m = k) (rev ms) = find (\<lambda>m. m_slug m = k) ms"
proof (cases "find (\<lambda>m. m_slug m = k) ms")
  case None
  moreover from None have "find (\<lambda>m. m_slug m = k) (rev ms) = None" unfolding find_None_iff by simp
  ultimately show ?thesis by simp
next
  case (Some m)
  then have m: "m \<in> set ms" "m_slug m = k" by (auto simp: find_Some_iff)
  have "find (\<lambda>m. m_slug m = k) (rev ms) \<noteq> None" using m by (auto simp: find_None_iff)
  then obtain m' where m': "find (\<lambda>m. m_slug m = k) (rev ms) = Some m'" by blast
  then have "m' \<in> set (rev ms)" "m_slug m' = k" unfolding find_Some_iff using nth_mem by blast+
  then have "m' = m" using m assms by (auto simp: distinct_map inj_on_def)
  with Some m' show ?thesis by simp
qed

definition lookup_live :: "string \<Rightarrow> 'a catalog_db_scheme \<Rightarrow> model_row option" where
  "lookup_live slug d = find (\<lambda>m. m_slug m = slug) (live_models d)"

lemma index_slugs_lookup:
  assumes "catalog_wf d"
  shows "index_slugs (live_models d) slug = lookup_live slug d"
proof -
  have "distinct (map m_slug (live_models d))"
    using assms by (simp add: catalog_wf_def live_models_def distinct_map_filter)
  then show ?thesis
    by (simp add: index_slugs_def index_slugs_fold find_rev_distinct lookup_live_def split: option.splits)
qed

definition coherent :: "'a catalog \<Rightarrow> bool" where
  "coherent c \<longleftrightarrow> bySlug (fst c) = (\<lambda>slug. lookup_live slug (fst (snd c)))"

lemma Reload_no_faults:
  "Reload now (g, (d, [])) = (Inr (), (g\<lparr>bySlug := index_slugs (live_models d), loadedAt := now\<rparr>, (d, [])))"
  by (simp add: Reload_def refresh_def bindE_def on_db_def Model_List_def)

lemma BySlug_coherent:
  assumes "coherent (g, (d, []))" and "now - loadedAt g \<le> registry_ttl"
  shows "BySlug now slug (g, (d, [])) =
    (case lookup_live slug d of Some m \<Rightarrow> Inr m | None \<Rightarrow> Inl ErrNotFound, (g, (d, [])))"
  using assms by (auto simp: BySlug_def coherent_def on_db_def GetBySlug_def select_one_def mapErr_def
      lookup_live_def split: option.splits)

text \<open>On a responsive database each handler's writes end with a reload, or do not happen.\<close>

definition coherent_after :: "int \<Rightarrow> ('a catalog, 'b) action \<Rightarrow> bool" where
  "coherent_after now m \<longleftrightarrow>
     (\<forall>g d r g' d' fs'. catalog_wf d \<longrightarrow> m (g, (d, [])) = (r, (g', (d', fs'))) \<longrightarrow>
        fs' = [] \<and> ((\<exists>x. r = Inr x) \<and> coherent (g', (d', [])) \<and> loadedAt g' = now \<or>
                   (\<exists>e. r = Inl e) \<and> g' = g \<and> d' = d))"

lemma coherent_and_reload:
  assumes kw: "keeps_wf m"
    and db: "\<And>g d. \<exists>r d'. m (g, (d, [])) = (r, (g, (d', []))) \<and> ((\<exists>e. r = Inl e) \<longrightarrow> d' = d)"
  shows "coherent_after now (and_reload now m)"
  unfolding coherent_after_def
proof (intro allI impI)
  fix g g' and d d' :: "'a catalog_db_scheme" and r fs'
  assume wf: "catalog_wf d" and run: "and_reload now m (g, (d, [])) = (r, (g', (d', fs')))"
  obtain r1 d1 where m: "m (g, (d, [])) = (r1, (g, (d1, [])))" and e: "(\<exists>e. r1 = Inl e) \<longrightarrow> d1 = d"
    using db by blast
  have wf1: "catalog_wf d1" using keeps_wfD [OF kw, of "(g, (d, []))"] wf m by simp
  show "fs' = [] \<and> ((\<exists>x. r = Inr x) \<and> coherent (g', (d', [])) \<and> loadedAt g' = now \<or>
                   (\<exists>e. r = Inl e) \<and> g' = g \<and> d' = d)"
  proof (cases r1)
    case (Inl e1)
    with run m e show ?thesis by (auto simp: and_reload_def bindE_def)
  next
    case (Inr x)
    with run m have "r = Inr x" "g' = g\<lparr>bySlug := index_slugs (live_models d1), loadedAt := now\<rparr>" "d' = d1" "fs' = []"
      by (auto simp: and_reload_def bindE_def Reload_no_faults)
    then show ?thesis using index_slugs_lookup [OF wf1] by (auto simp: coherent_def fun_eq_iff)
  qed
qed

lemma exec_no_faults:
  assumes "\<And>d e d'. f d = (Inl e, d') \<Longrightarrow> d' = d" and "\<And>d d'. f d = (Inr 0, d') \<Longrightarrow> d' = d"
  shows "\<exists>r d'. on_db (exec_or_notfound f) (g, (d, [])) = (r, (g, (d', []))) \<and> ((\<exists>e. r = Inl e) \<longrightarrow> d' = d)"
proof -
  obtain r1 d1 where f: "f d = (r1, d1)" by (rule prod.exhaust)
  then show ?thesis using assms [of d]
    by (cases r1) (auto simp: on_db_def exec_or_notfound_def bindE_def okE_def failE_def)
qed

lemma update_models_none: "update_models i f d = (Inr 0, d') \<Longrightarrow> d' = (d :: 'a catalog_db_scheme)"
proof -
  assume run: "update_models i f d = (Inr 0, d')"
  then have "\<forall>m \<in> set (models d). m_id m = i \<and> m_deleted_at m = None \<longrightarrow> f m = m"
    by (auto simp: update_models_def Let_def filter_empty_conv)
  then have "map (\<lambda>m. if m_id m = i \<and> m_deleted_at m = None then f m else m) (models d) = models d"
    by (intro map_idI) auto
  with run show ?thesis by (auto simp: update_models_def Let_def)
qed

lemma update_models_no_error: "update_models i f d \<noteq> (Inl e, d')"
  by (simp add: update_models_def Let_def)

lemmas write_simps = update_models_none update_models_no_error

lemma delete_model_none: "delete_model now i d = (Inr 0, d') \<Longrightarrow> d' = d" "delete_model now i d = (Inl e, d') \<Longrightarrow> d' = d"
  by (auto simp: delete_model_def split: option.splits if_splits dest: update_models_none)
     (auto simp: update_models_no_error)

lemma Model_Update_coherent:
  assumes "priced m"
  shows "coherent_after now (and_reload now (on_db (bindE (Model_Update m) (\<lambda>_. okE m))))"
proof (rule coherent_and_reload)
  show "keeps_wf (on_db (bindE (Model_Update m) (\<lambda>_. okE m)))"
    using assms by (auto simp: on_db_bindE Model_Update_def keeps_wf_okE
        intro!: keeps_wf_bindE keeps_wf_exec update_models_wf)
  fix g :: registry and d :: "'a catalog_db_scheme"
  obtain r d' where "on_db (Model_Update m) (g, (d, [])) = (r, (g, (d', [])))" "(\<exists>e. r = Inl e) \<longrightarrow> d' = d"
    using exec_no_faults [of "update_models (m_id m) (set_columns m)" g d]
    by (auto simp: Model_Update_def update_models_no_error dest: update_models_none)
  then show "\<exists>r d'. on_db (bindE (Model_Update m) (\<lambda>_. okE m)) (g, (d, [])) = (r, (g, (d', []))) \<and>
      ((\<exists>e. r = Inl e) \<longrightarrow> d' = d)"
    by (cases r) (auto simp: on_db_bindE bindE_def on_db_def okE_def split: prod.splits)
qed

lemma Admin_Update_coherent: "coherent_after now (Admin_Update now i req)"
proof (cases "validate False req")
  case (Inr r)
  have get: "on_db (Model_GetByID i) (g, (d, [])) =
      (case find (\<lambda>m. m_id m = i) (live_models d) of None \<Rightarrow> Inl ErrNotFound | Some m \<Rightarrow> Inr m, (g, (d, [])))"
    for g and d :: "'a catalog_db_scheme"
    by (simp add: on_db_def Model_GetByID_def select_one_def mapErr_def split: option.splits)
  show ?thesis
    unfolding coherent_after_def
  proof (intro allI impI)
    fix g g' and d d' :: "'a catalog_db_scheme" and rr fs'
    assume wf: "catalog_wf d" and run: "Admin_Update now i req (g, (d, [])) = (rr, (g', (d', fs')))"
    show "fs' = [] \<and> ((\<exists>x. rr = Inr x) \<and> coherent (g', (d', [])) \<and> loadedAt g' = now \<or>
                 (\<exists>e. rr = Inl e) \<and> g' = g \<and> d' = d)"
    proof (cases "i = 0 \<or> find (\<lambda>m. m_id m = i) (live_models d) = None")
      case True
      with run Inr show ?thesis by (auto simp: Admin_Update_def failE_def bindE_def get split: if_splits)
    next
      case False
      then obtain cur where "find (\<lambda>m. m_id m = i) (live_models d) = Some cur" by auto
      with run Inr False have "and_reload now (on_db (bindE (Model_Update (apply_req r cur))
          (\<lambda>_. okE (apply_req r cur)))) (g, (d, [])) = (rr, (g', (d', fs')))"
        by (simp add: Admin_Update_def bindE_def get)
      with Model_Update_coherent [OF validate_priced(2) [OF Inr]] wf show ?thesis unfolding coherent_after_def by blast
    qed
  qed
qed (simp add: Admin_Update_def coherent_after_def failE_def)

lemma Admin_coherent:
  "coherent_after now (Admin_Create now req)" "coherent_after now (Admin_Update now i req)"
  "coherent_after now (Admin_SetEnabled now i en)" "coherent_after now (Admin_Delete now i)"
proof -
  have fail: "coherent_after now (failE e)" for e
    by (simp add: coherent_after_def failE_def)
  have create: "coherent_after now (and_reload now (on_db (Model_Create m)))" if "priced m" for m
    using that by (intro coherent_and_reload)
      (auto simp: Model_Create_def on_db_bindE keeps_wf_okE intro!: keeps_wf_bindE keeps_wf_stmt insert_model_wf,
       auto simp: on_db_def Model_Create_def bindE_def okE_def insert_model_def)
  show "coherent_after now (Admin_Create now req)"
    using create fail validate_priced(1) [of True req] by (auto simp: Admin_Create_def split: sum.splits)
  show "coherent_after now (Admin_SetEnabled now i en)"
    using fail by (auto simp: Admin_SetEnabled_def Model_SetEnabled_def intro!: coherent_and_reload keeps_wf_exec
        update_models_wf exec_no_faults dest: update_models_none simp: update_models_no_error)
  show "coherent_after now (Admin_Delete now i)"
    using fail by (auto simp: Admin_Delete_def Model_SoftDelete_def intro!: coherent_and_reload keeps_wf_exec
        delete_model_wf exec_no_faults dest: delete_model_none)
  show "coherent_after now (Admin_Update now i req)" by (rule Admin_Update_coherent)
qed

section \<open>Properties\<close>

definition demo_req :: upsert_req where
  "demo_req = \<lparr>u_slug = ''gpt-5'', u_type = '' Chat'', u_upstream_slug = ''gpt-5'', u_input_price = 25000,
     u_output_price = 75000, u_cache_price = 0, u_image_price = 0, u_image_price_2k = 0, u_image_price_4k = 0,
     u_multi_image = None, u_output_size = None, u_description = '''', u_enabled = None\<rparr>"

definition demo_catalog :: "unit catalog" where
  "demo_catalog = (\<lparr>bySlug = Map.empty, loadedAt = 0, refreshing = False\<rparr>,
     (\<lparr>models = [], models_next = 1, billing_ratios = Map.empty\<rparr>, []))"

text \<open>
  C31. Whatever the administrators do and whatever the driver does, no two models share a slug or an
  id (deleted ones included), and no model of the catalogue has a negative price; a chat model always
  has an input or an output price and an image model a per-call price.
\<close>

theorem catalog_stays_wf:
  assumes "catalog_wf (fst (snd c))"
  shows "catalog_wf (fst (snd (fold catalog_step as c)))"
proof (rule catalog_inv.run_inv [OF assms])
  show "admissible_run (\<lambda>_ _. True) catalog_step as c" by (induction as arbitrary: c) simp_all
qed

theorem catalog_stays_wf_witness:
  "catalog_wf (fst (snd (fold catalog_step [CatCreate 5 demo_req, CatSetEnabled 6 1 False, CatDelete 7 1,
     CatCreate 8 demo_req] demo_catalog)))"
  by (rule catalog_stays_wf) (simp add: catalog_wf_def demo_catalog_def)

text \<open>
  An administrator's change is visible at once: on a responsive database every successful create,
  update, switch or delete leaves the cache equal to the live rows of the table, so for the next 30
  seconds of its lifetime \<open>BySlug\<close> answers exactly what the database holds, and a failed one
  changes neither the table nor the cache.
\<close>

theorem admin_write_visible:
  fixes d d' :: "'a catalog_db_scheme"
  assumes "catalog_wf d"
    and "catalog_step a (g, (d, [])) = (g', (d', fs'))"
    and "a \<in> {CatCreate now req, CatUpdate now i req, CatSetEnabled now i en, CatDelete now i}"
  shows "g' = g \<and> d' = d \<or>
         (\<forall>t slug. t - now \<le> registry_ttl \<longrightarrow>
            fst (BySlug t slug (g', (d', fs'))) =
              (case lookup_live slug d' of Some m \<Rightarrow> Inr m | None \<Rightarrow> Inl ErrNotFound))"
proof -
  have step: "fs' = [] \<and> (coherent (g', (d', [])) \<and> loadedAt g' = now \<or> g' = g \<and> d' = d)"
    if co: "coherent_after now m" and run: "snd (m (g, (d, []))) = (g', (d', fs'))"
    for m :: "('a catalog, 'b) action"
  proof -
    have "m (g, (d, [])) = (fst (m (g, (d, []))), (g', (d', fs')))" by (simp flip: run)
    with co assms(1) show ?thesis unfolding coherent_after_def by blast
  qed
  have "fs' = [] \<and> (coherent (g', (d', [])) \<and> loadedAt g' = now \<or> g' = g \<and> d' = d)"
    using assms(2,3) step [OF Admin_coherent(1)] step [OF Admin_coherent(2)] step [OF Admin_coherent(3)]
      step [OF Admin_coherent(4)] by auto
  then show ?thesis using BySlug_coherent [of g' d'] by (auto simp del: split_paired_All)
qed

theorem admin_write_visible_witness:
  "catalog_step (CatCreate 5 demo_req) demo_catalog =
     (fst (catalog_step (CatCreate 5 demo_req) demo_catalog), snd (catalog_step (CatCreate 5 demo_req) demo_catalog)) \<and>
   (fst (catalog_step (CatCreate 5 demo_req) demo_catalog) = fst demo_catalog \<or>
    fst (BySlug 30 ''gpt-5'' (catalog_step (CatCreate 5 demo_req) demo_catalog)) =
     (case lookup_live ''gpt-5'' (fst (snd (catalog_step (CatCreate 5 demo_req) demo_catalog))) of
        Some m \<Rightarrow> Inr m | None \<Rightarrow> Inl ErrNotFound))"
proof -
  let ?c = "catalog_step (CatCreate 5 demo_req) demo_catalog"
  obtain g' d' fs' where c: "?c = (g', (d', fs'))" by (metis prod.exhaust)
  have "catalog_wf (fst (snd demo_catalog))" by (simp add: catalog_wf_def demo_catalog_def)
  from admin_write_visible [OF this, of "CatCreate 5 demo_req" "fst demo_catalog" g' d' fs' 5 demo_req 1 True] c
  show ?thesis by (auto simp: demo_catalog_def registry_ttl_def)
qed

text \<open>
  A slug is free again after its model is deleted, unless the deletion fails: on a responsive
  database a deletion that succeeds makes the slug unknown, and creating a model under the same slug
  then succeeds.
\<close>

theorem deleted_slug_reusable:
  fixes d d' :: "'a catalog_db_scheme"
  assumes wf: "catalog_wf d" and m: "m \<in> set (live_models d)" and slug: "m_slug m = sl"
    and run: "Model_SoftDelete now (m_id m) (d, []) = (Inr (), (d', []))"
    and new: "m_slug m' = sl"
  shows "fst (GetBySlug sl (d', [])) = Inl ErrNotFound \<and> (\<exists>x. fst (Model_Create m' (d', [])) = Inr x)"
proof -
  have in_m: "m \<in> set (models d)" and alive: "m_deleted_at m = None" using m by (auto simp: live_models_def)
  have uniq: "q = m" if "q \<in> set (models d)" "m_slug q = sl" for q
    using that in_m slug wf by (auto simp: catalog_wf_def distinct_map inj_on_def)
  obtain m0 where f: "find (\<lambda>q. m_id q = m_id m) (live_models d) = Some m0"
    using m by (cases "find (\<lambda>q. m_id q = m_id m) (live_models d)") (auto simp: find_None_iff)
  let ?g = "\<lambda>q. if m_id q = m_id m \<and> m_deleted_at q = None
      then q\<lparr>m_deleted_at := Some now, m_enabled := False, m_slug := del_slug q\<rparr> else q"
  have d': "models d' = map ?g (models d)"
    using run f by (auto simp: Model_SoftDelete_def exec_or_notfound_def bindE_def delete_model_def
        update_models_def Let_def okE_def failE_def split: if_splits)
  have gone: "m_slug q \<noteq> sl" if "q \<in> set (models d')" for q
  proof -
    from that obtain q0 where q0: "q0 \<in> set (models d)" "q = ?g q0" by (auto simp: d')
    show ?thesis
    proof (cases "m_id q0 = m_id m")
      case True
      then have "q0 = m" using q0(1) in_m wf by (auto simp: catalog_wf_def distinct_map inj_on_def)
      then show ?thesis using q0(2) alive slug by (simp add: del_slug_def)
    next
      case False
      then show ?thesis using q0 uniq [of q0] by auto
    qed
  qed
  then have "sl \<notin> m_slug ` set (models d')" by blast
  moreover from gone have "find (\<lambda>q. m_slug q = sl) (live_models d') = None"
    unfolding find_None_iff live_models_def by auto
  ultimately show ?thesis
    by (simp add: GetBySlug_def select_one_def mapErr_def Model_Create_def bindE_def okE_def insert_model_def new)
qed

definition demo_model :: model_row where
  "demo_model = (from_req demo_req)\<lparr>m_id := 1, m_type := ''chat''\<rparr>"

theorem deleted_slug_reusable_witness:
  "fst (GetBySlug ''gpt-5'' (snd (Model_SoftDelete 9 1
      (\<lparr>models = [demo_model], models_next = 2, billing_ratios = Map.empty\<rparr>, [])))) = Inl ErrNotFound"
proof -
  let ?d = "\<lparr>models = [demo_model], models_next = 2, billing_ratios = Map.empty\<rparr> :: catalog_db"
  have l: "length (''gpt-5'' @ ''#del'' @ dec_nat 1) = 10" by (simp add: dec_nat.simps)
  have wf: "catalog_wf ?d" by (simp add: catalog_wf_def priced_def demo_model_def from_req_def demo_req_def)
  have "Model_SoftDelete 9 (m_id demo_model) (?d, []) = (Inr (), (snd (delete_model 9 1 ?d), []))"
    using l by (simp add: Model_SoftDelete_def exec_or_notfound_def bindE_def delete_model_def live_models_def
        update_models_def okE_def del_slug_def demo_model_def from_req_def demo_req_def)
  from deleted_slug_reusable [OF wf _ _ this, of "''gpt-5''" demo_model] this show ?thesis
    by (simp add: live_models_def demo_model_def from_req_def demo_req_def)
qed

end
