(* ===== verification/Billing_Pricing.thy ===== *)
theory Billing_Pricing
  imports Model_Catalog
begin

text \<open>
  What a call costs (internal/billing/pricing.go): token prices per million with truncating 64-bit
  integer division, a ratio applied in \<open>float64\<close> and rounded half up, image prices by the
  quality class of the requested size.
\<close>

section \<open>Image quality classes\<close>

definition imageQualityBySize :: "(string \<times> string) list" where
  "imageQualityBySize =
    [(''1024x1024'', ''1K''), (''2048x2048'', ''2K''), (''2880x2880'', ''4K''),
     (''1040x832'', ''1K''), (''2080x1664'', ''2K''), (''3200x2560'', ''4K''),
     (''720x1280'', ''1K''), (''1152x2048'', ''2K''), (''2160x3840'', ''4K''),
     (''1280x720'', ''1K''), (''2048x1152'', ''2K''), (''3840x2160'', ''4K''),
     (''1024x768'', ''1K''), (''2048x1536'', ''2K''), (''3264x2448'', ''4K''),
     (''1008x672'', ''1K''), (''2016x1344'', ''2K''), (''3504x2336'', ''4K''),
     (''832x1040'', ''1K''), (''1664x2080'', ''2K''), (''2560x3200'', ''4K''),
     (''768x1024'', ''1K''), (''1536x2048'', ''2K''), (''2448x3264'', ''4K''),
     (''672x1008'', ''1K''), (''1344x2016'', ''2K''), (''2336x3504'', ''4K''),
     (''1344x576'', ''1K''), (''2016x864'', ''2K''), (''3696x1584'', ''4K'')]"

definition imageArea1K :: int where "imageArea1K = 1024 * 1024"
definition imageArea2K :: int where "imageArea2K = 2048 * 2048"
definition imageArea4K :: int where "imageArea4K = 2880 * 2880"

definition parseImageSize :: "string \<Rightarrow> int option" where
  "parseImageSize sz =
     (case split_on CHR ''x'' (TrimSpace (ToLower sz)) of
        [a, b] \<Rightarrow>
          (case Atoi (TrimSpace a) of
             None \<Rightarrow> None
           | Some width \<Rightarrow> if width \<le> 0 then None else
               (case Atoi (TrimSpace b) of
                  None \<Rightarrow> None
                | Some height \<Rightarrow> if height \<le> 0 then None else Some (wrap64 (width * height))))
      | _ \<Rightarrow> None)"

definition ResolveImageQualityBySize :: "string \<Rightarrow> string" where
  "ResolveImageQualityBySize sz =
     (let normalized = ToLower (TrimSpace sz) in
      case map_of imageQualityBySize normalized of
        Some quality \<Rightarrow> quality
      | None \<Rightarrow>
         (case parseImageSize normalized of
            None \<Rightarrow> ''1K''
          | Some area \<Rightarrow>
              if area < go_div (imageArea1K + imageArea2K) 2 then ''1K''
              else if area < go_div (imageArea2K + imageArea4K) 2 then ''2K''
              else ''4K''))"

definition ResolveImageUnitPrice :: "model_row option \<Rightarrow> string \<Rightarrow> int" where
  "ResolveImageUnitPrice mo sz =
     (case mo of
        None \<Rightarrow> 0
      | Some m \<Rightarrow>
          let q = ResolveImageQualityBySize sz in
          if q = ''2K'' \<and> m_image_price_2k m > 0 then m_image_price_2k m
          else if q = ''4K'' \<and> m_image_price_4k m > 0 then m_image_price_4k m
          else m_image_price m)"

section \<open>Costs\<close>

text \<open>\<open>int64(float64(n) * ratio + 0.5)\<close>.\<close>

definition scale_round :: "int \<Rightarrow> rat \<Rightarrow> int" where
  "scale_round n ratio = round_half (rnd64 (rnd64 (of_int n) * ratio))"

definition token_price :: "int \<Rightarrow> int \<Rightarrow> int" where
  "token_price tokens price = go_div (wrap64 (tokens * price)) 1000000"

definition ComputeChatCost :: "model_row option \<Rightarrow> int \<Rightarrow> int \<Rightarrow> rat \<Rightarrow> int" where
  "ComputeChatCost mo promptTokens completionTokens ratio0 =
     (case mo of
        None \<Rightarrow> 0
      | Some m \<Rightarrow>
          let ratio = (if ratio0 \<le> 0 then 1 else ratio0);
              inp = token_price promptTokens (m_input_price m);
              out = token_price completionTokens (m_output_price m) in
          scale_round (wrap64 (inp + out)) ratio)"

definition ComputeImageCost :: "model_row option \<Rightarrow> int \<Rightarrow> rat \<Rightarrow> string \<Rightarrow> int" where
  "ComputeImageCost mo n0 ratio0 sz =
     (case mo of
        None \<Rightarrow> 0
      | Some m \<Rightarrow>
          let ratio = (if ratio0 \<le> 0 then 1 else ratio0);
              n = (if n0 \<le> 0 then 1 else n0);
              unitPrice = ResolveImageUnitPrice mo sz in
          scale_round (wrap64 (unitPrice * n)) ratio)"

definition EstimateChat :: "model_row option \<Rightarrow> int \<Rightarrow> int \<Rightarrow> rat \<Rightarrow> int" where
  "EstimateChat mo promptTokens maxTokens ratio =
     ComputeChatCost mo promptTokens (if maxTokens \<le> 0 then 2048 else maxTokens) ratio"

section \<open>Rounding\<close>

text \<open>Amounts whose scaled value stays well inside the 64-bit range.\<close>

definition scalable :: "int \<Rightarrow> rat \<Rightarrow> bool" where
  "scalable n ratio \<longleftrightarrow> 0 \<le> n \<and> 0 < ratio \<and> rnd64 (rnd64 (rnd64 (of_int n) * ratio) + 1/2) < 2 ^ 63"

lemma scale_round_floor:
  assumes "scalable n ratio"
  shows "scale_round n ratio = \<lfloor>rnd64 (rnd64 (rnd64 (of_int n) * ratio) + 1/2)\<rfloor>"
proof -
  have "0 \<le> rnd64 (rnd64 (rnd64 (of_int n) * ratio) + 1/2)"
    using assms by (intro rnd64_nonneg add_nonneg_nonneg mult_nonneg_nonneg) (auto simp: scalable_def)
  then show ?thesis using assms by (simp add: scale_round_def round_half_def scalable_def to_i64_nonneg)
qed

lemma scale_round_nonneg: "scalable n ratio \<Longrightarrow> 0 \<le> scale_round n ratio"
  unfolding scale_round_floor
  by (auto simp: scalable_def intro!: rnd64_nonneg add_nonneg_nonneg mult_nonneg_nonneg)

lemma scale_round_mono:
  assumes "scalable n ratio" and "scalable k ratio" and "n \<le> k"
  shows "scale_round n ratio \<le> scale_round k ratio"
proof -
  have le: "rnd64 (of_int n) \<le> rnd64 (of_int k)" using assms(3) by (intro rnd64_mono) simp
  have "0 \<le> ratio" using assms(1) by (simp add: scalable_def)
  from rnd64_mono [OF mult_right_mono [OF le this]]
  have "rnd64 (rnd64 (of_int n) * ratio) \<le> rnd64 (rnd64 (of_int k) * ratio)" .
  then show ?thesis
    unfolding scale_round_floor [OF assms(1)] scale_round_floor [OF assms(2)]
    by (intro floor_mono rnd64_mono) simp
qed

text \<open>A ratio of one charges the exact amount.\<close>

lemma rnd64_half:
  assumes "0 \<le> n" and "n < 2 ^ 52"
  shows "\<lfloor>rnd64 (of_int n + 1/2)\<rfloor> = n"
proof (rule floor_unique)
  have "rnd64 (of_int n) \<le> rnd64 (of_int n + 1/2)" by (rule rnd64_mono) simp
  then show "of_int n \<le> rnd64 (of_int n + 1/2)" using rnd64_int [of n] assms by simp
  have "2 powi (-1022) \<le> (1/2 :: rat)" by simp
  then have lo: "2 powi (-1022) \<le> of_int n + (1/2 :: rat)" using assms(1) by linarith
  have pos: "0 < of_int n + (1/2 :: rat)" using assms(1) by simp
  have "\<bar>rnd64 (of_int n + 1/2) - (of_int n + 1/2)\<bar> \<le> (of_int n + 1/2) / 2 ^ 53"
    by (rule rnd64_error [OF pos lo])
  moreover have "n \<le> 2 ^ 52 - 1" using assms(2) by simp
  then have "(of_int n :: rat) \<le> of_int (2 ^ 52 - 1)" by (simp only: of_int_le_iff)
  then have "(of_int n + 1/2 :: rat) / 2 ^ 53 < 1/2" by (simp add: field_simps)
  ultimately show "rnd64 (of_int n + 1/2) < of_int n + 1" by linarith
qed

text \<open>Integral ratios are exact, and so are small negative amounts, which lose one to the truncation.\<close>

lemma scale_round_times:
  assumes "0 \<le> n" and "0 < k" and "n * k < 2 ^ 52"
  shows "scale_round n (of_int k) = n * k"
proof -
  have "n * 1 \<le> n * k" using assms by (intro mult_left_mono) auto
  then have n: "n < 2 ^ 52" using assms(3) by simp
  have p: "0 \<le> n * k" using assms by simp
  have "rnd64 (of_int n) * of_int k = of_int (n * k)" using rnd64_int [of n] assms(1) n by simp
  moreover have "rnd64 (of_int (n * k)) = of_int (n * k)" using rnd64_int [of "n * k"] p assms(3) by simp
  moreover have "rnd64 (of_int (n * k) + 1/2) \<le> rnd64 (of_int (2 ^ 52))"
  proof (rule rnd64_mono)
    have "(of_int (n * k) :: rat) \<le> of_int (2 ^ 52 - 1)" using assms(3) by (simp only: of_int_le_iff)
    then show "(of_int (n * k) :: rat) + 1/2 \<le> of_int (2 ^ 52)" by linarith
  qed
  then have "rnd64 (of_int (n * k) + 1/2) < 2 ^ 63" using rnd64_int [of "2 ^ 52"] by simp
  moreover have "(0 :: rat) \<le> of_int (n * k)" using p by (simp only: of_int_0_le_iff)
  then have "0 \<le> rnd64 (of_int (n * k) + 1/2)" by (intro rnd64_nonneg) linarith
  ultimately show ?thesis using rnd64_half [OF p assms(3)]
    by (simp only: scale_round_def round_half_def to_i64_nonneg)
qed

lemma scale_round_negative:
  assumes "0 \<le> n" and "n + 1 < 2 ^ 52"
  shows "scale_round (- (n + 1)) 1 = - n"
proof -
  let ?y = "rnd64 (of_int n + 1/2)"
  have "rnd64 (of_int (- (n + 1))) = of_int (- (n + 1))" using rnd64_int [of "- (n + 1)"] assms by simp
  moreover have "of_int (- (n + 1)) + 1/2 = - (of_int n + 1/2 :: rat)" by simp
  ultimately have r: "rnd64 (rnd64 (rnd64 (of_int (- (n + 1))) * 1) + 1/2) = - ?y"
    by (simp only: mult_1_right rnd64_uminus)
  have f: "\<lfloor>?y\<rfloor> = n" using rnd64_half [of n] assms by simp
  have "?y \<noteq> 0 \<or> n = 0" using f by auto
  moreover have "0 \<le> ?y" using assms(1) by (intro rnd64_nonneg) simp
  ultimately show ?thesis
    unfolding scale_round_def round_half_def r using f assms by (auto simp: to_i64_def ceiling_minus in_i64_def Let_def)
qed

lemma scale_round_one:
  assumes "0 \<le> n" and "n < 2 ^ 52"
  shows "scalable n 1" and "scale_round n 1 = n"
proof -
  have i: "rnd64 (of_int n) = of_int n" using rnd64_int [of n] assms by simp
  have f: "\<lfloor>rnd64 (of_int n + 1/2)\<rfloor> = n" by (rule rnd64_half [OF assms])
  have "rnd64 (of_int n + 1/2) < of_int (2 ^ 63)" using f assms(2) by (simp only: flip: floor_less_iff) simp
  then have "rnd64 (of_int n + 1/2) < 2 ^ 63" by simp
  then show sc: "scalable n 1" using assms(1) by (simp add: scalable_def i)
  show "scale_round n 1 = n" unfolding scale_round_floor [OF sc] by (simp add: i f)
qed

section \<open>Token prices\<close>

lemma token_price_nonneg:
  "0 \<le> t \<Longrightarrow> 0 \<le> p \<Longrightarrow> in_i64 (t * p) \<Longrightarrow> token_price t p = t * p div 1000000 \<and> 0 \<le> token_price t p"
  by (simp add: token_price_def go_div_nonneg pos_imp_zdiv_nonneg_iff)

lemma token_price_mono:
  assumes "0 \<le> t" and "t \<le> t'" and "0 \<le> p" and "in_i64 (t' * p)"
  shows "token_price t p \<le> token_price t' p"
proof -
  have "t * p \<le> t' * p" using assms by (intro mult_right_mono) auto
  moreover have "0 \<le> t * p" using assms by simp
  ultimately have "in_i64 (t * p)" using assms(4) by (simp add: in_i64_def)
  with assms \<open>t * p \<le> t' * p\<close> show ?thesis by (simp add: token_price_nonneg zdiv_mono1)
qed

text \<open>The arithmetic of a chat call stays in range.\<close>

definition chat_in_range :: "model_row \<Rightarrow> int \<Rightarrow> int \<Rightarrow> rat \<Rightarrow> bool" where
  "chat_in_range m p c ratio \<longleftrightarrow>
     0 \<le> p \<and> 0 \<le> c \<and> in_i64 (p * m_input_price m) \<and> in_i64 (c * m_output_price m) \<and>
     in_i64 (p * m_input_price m div 1000000 + c * m_output_price m div 1000000) \<and>
     scalable (p * m_input_price m div 1000000 + c * m_output_price m div 1000000) (if ratio \<le> 0 then 1 else ratio)"

lemma ComputeChatCost_in_range:
  assumes "chat_in_range m p c ratio" and "0 \<le> m_input_price m" and "0 \<le> m_output_price m"
  shows "ComputeChatCost (Some m) p c ratio =
    scale_round (p * m_input_price m div 1000000 + c * m_output_price m div 1000000) (if ratio \<le> 0 then 1 else ratio)"
  using assms token_price_nonneg [of p "m_input_price m"] token_price_nonneg [of c "m_output_price m"]
  by (simp add: ComputeChatCost_def Let_def chat_in_range_def)

section \<open>Properties\<close>


text \<open>
  At ratio one (and at any non-positive ratio, which the code replaces by one) a chat call costs
  exactly the truncated input price plus the truncated output price, as long as the total is below
  \<open>2^52\<close>: the detour through floating point loses nothing.
\<close>

theorem chat_cost_exact_at_one:
  assumes "0 \<le> p" and "0 \<le> c" and "0 \<le> m_input_price m" and "0 \<le> m_output_price m" and "ratio \<le> 0 \<or> ratio = 1"
    and "in_i64 (p * m_input_price m)" and "in_i64 (c * m_output_price m)"
    and "p * m_input_price m div 1000000 + c * m_output_price m div 1000000 < 2 ^ 52"
  shows "ComputeChatCost (Some m) p c ratio = p * m_input_price m div 1000000 + c * m_output_price m div 1000000"
proof -
  let ?n = "p * m_input_price m div 1000000 + c * m_output_price m div 1000000"
  have n: "0 \<le> ?n" using assms(1-4) by (intro add_nonneg_nonneg) (simp_all add: pos_imp_zdiv_nonneg_iff)
  then have "in_i64 ?n" using assms(8) by (simp add: in_i64_def)
  moreover have r: "(if ratio \<le> 0 then 1 else ratio) = 1" using assms(5) by auto
  ultimately have "chat_in_range m p c ratio"
    using assms scale_round_one(1) [OF n assms(8)] by (simp add: chat_in_range_def)
  from ComputeChatCost_in_range [OF this assms(3,4)] show ?thesis
    unfolding r using scale_round_one(2) [OF n assms(8)] by simp
qed

theorem chat_cost_exact_at_one_witness: "ComputeChatCost (Some demo_model) 1200 800 0 = 90"
  using chat_cost_exact_at_one [of 1200 800 demo_model 0]
  by (simp add: demo_model_def from_req_def demo_req_def in_i64_def)


text \<open>
  An image is never free: for an image model of the catalogue the unit price is one of the three
  configured prices and positive whatever the size string, and at ratio one \<open>n\<close> images cost
  exactly \<open>n\<close> times the unit price (at least one image is charged).
\<close>

theorem image_cost_exact:
  assumes "priced m" and "m_type m = ''image''"
    and "ResolveImageUnitPrice (Some m) sz * (if n \<le> 0 then 1 else n) < 2 ^ 52"
  shows "ResolveImageUnitPrice (Some m) sz \<in> {m_image_price m, m_image_price_2k m, m_image_price_4k m} \<and>
         0 < ResolveImageUnitPrice (Some m) sz \<and>
         ComputeImageCost (Some m) n 1 sz = ResolveImageUnitPrice (Some m) sz * (if n \<le> 0 then 1 else n)"
proof -
  let ?u = "ResolveImageUnitPrice (Some m) sz" and ?n = "if n \<le> 0 then 1 else n"
  have u: "?u \<in> {m_image_price m, m_image_price_2k m, m_image_price_4k m} \<and> 0 < ?u"
    using assms(1,2) by (auto simp: ResolveImageUnitPrice_def Let_def priced_def)
  then have nn: "0 \<le> ?u * ?n" by simp
  then have "in_i64 (?u * ?n)" using assms(3) by (simp add: in_i64_def)
  then show ?thesis
    using u scale_round_one(2) [OF nn assms(3)] by (simp add: ComputeImageCost_def Let_def)
qed

definition demo_image_model :: model_row where
  "demo_image_model = demo_model\<lparr>m_type := ''image'', m_image_price := 500, m_image_price_2k := 800\<rparr>"

theorem image_cost_exact_witness: "ComputeImageCost (Some demo_image_model) 3 1 '' 2048X2048'' = 2400"
proof -
  have q: "ResolveImageQualityBySize '' 2048X2048'' = ''2K''" by code_simp
  have u: "ResolveImageUnitPrice (Some demo_image_model) '' 2048X2048'' = 800"
    by (simp add: ResolveImageUnitPrice_def q demo_image_model_def)
  have "priced demo_image_model" "m_type demo_image_model = ''image''"
    by (simp_all add: demo_image_model_def demo_model_def from_req_def demo_req_def priced_def)
  from image_cost_exact [OF this, of "'' 2048X2048''" 3] show ?thesis by (simp add: u)
qed

end
