(* ===== verification/Redeem.thy ===== *)
theory Redeem
  imports Billing_Laws
begin

text \<open>
  Redemption codes (internal/redeem): generation of batches, listing, and the redemption itself,
  which marks the code used and credits the user in one transaction through the
  \<open>billingWriter\<close> interface that the credit engine implements.
\<close>

section \<open>Tables\<close>

record code_row =
  code_id :: nat
  code_code :: string
  code_batch_id :: string
  code_credits :: int
  used_by_user_id :: nat
  used_at :: "int option"
  expires_at :: "int option"
  code_created_at :: int

record redeem_db = billing_db +
  codes :: "code_row list"
  codes_next :: nat

record redeem_result =
  rr_code :: string
  rr_credits :: int
  rr_balance_after :: int

record generate_input =
  gi_credits :: int
  gi_quantity :: int

datatype code_status = StatusActive | StatusUsed | StatusAny

record code_filter =
  cf_batch_id :: string
  cf_status :: code_status

type_synonym 'd writer = "nat \<Rightarrow> int \<Rightarrow> string \<Rightarrow> string \<Rightarrow> ('d sess, int) action"

section \<open>Service helpers\<close>

definition normalizeCode :: "string \<Rightarrow> string" where
  "normalizeCode code = ToUpper (TrimSpace code)"

text \<open>\<open>randomCode\<close> of the eight bytes read from the random source.\<close>

definition randomCode :: "nat list \<Rightarrow> string" where
  "randomCode buf = ToUpper (EncodeToString buf)"

text \<open>\<open>newBatchID\<close>: the formatted time and three random bytes.\<close>

definition newBatchID :: "string \<Rightarrow> nat list \<Rightarrow> string" where
  "newBatchID stamp buf = ''RC'' @ stamp @ ToUpper (EncodeToString buf)"

section \<open>SQL\<close>

text \<open>\<open>INSERT INTO redeem_codes\<close>: the unique key on \<open>code\<close> rejects a duplicate.\<close>

definition insert_code :: "code_row \<Rightarrow> 'a redeem_db_scheme \<Rightarrow> unit result \<times> 'a redeem_db_scheme" where
  "insert_code c d =
     (if code_code c \<in> code_code ` set (codes d) then (Inl EDuplicate, d)
      else (Inr (), d\<lparr>codes := codes d @ [c\<lparr>code_id := codes_next d\<rparr>], codes_next := codes_next d + 1\<rparr>))"

definition select_code :: "string \<Rightarrow> 'a redeem_db_scheme \<Rightarrow> code_row result \<times> 'a redeem_db_scheme" where
  "select_code code d =
     (case find (\<lambda>c. code_code c = code) (codes d) of None \<Rightarrow> (Inl ENoRows, d) | Some c \<Rightarrow> (Inr c, d))"

text \<open>
  \<open>UPDATE redeem_codes SET used_by_user_id, used_at WHERE id AND used_by_user_id = 0\<close>; the
  count is that of the rows the update changed.
\<close>

definition mark_used ::
  "nat \<Rightarrow> nat \<Rightarrow> int \<Rightarrow> 'a redeem_db_scheme \<Rightarrow> nat result \<times> 'a redeem_db_scheme" where
  "mark_used cid userID now d =
     (let hit = (\<lambda>c. code_id c = cid \<and> used_by_user_id c = 0);
          upd = (\<lambda>c. c\<lparr>used_by_user_id := userID, used_at := Some now\<rparr>) in
      (Inr (length (filter (\<lambda>c. hit c \<and> upd c \<noteq> c) (codes d))),
       d\<lparr>codes := map (\<lambda>c. if hit c then upd c else c) (codes d)\<rparr>))"

section \<open>Operations\<close>

fun insert_all :: "code_row list \<Rightarrow> ('a redeem_db_scheme sess, unit) action" where
  "insert_all [] = okE ()"
| "insert_all (c # cs) = bindE (stmt (insert_code c)) (\<lambda>_. insert_all cs)"

definition InsertBatch :: "code_row list \<Rightarrow> ('a redeem_db_scheme sess, unit) action" where
  "InsertBatch items = (if items = [] then okE () else runTx (insert_all items))"

definition new_item :: "string \<Rightarrow> int \<Rightarrow> int \<Rightarrow> string \<Rightarrow> code_row" where
  "new_item batchID credits now raw =
     \<lparr>code_id = 0, code_code = normalizeCode raw, code_batch_id = batchID, code_credits = credits,
      used_by_user_id = 0, used_at = None, expires_at = None, code_created_at = now\<rparr>"

text \<open>\<open>newCode i\<close> is what the i-th call of the random source returns.\<close>

definition Generate ::
  "(nat \<Rightarrow> string) \<Rightarrow> string \<Rightarrow> int \<Rightarrow> generate_input \<Rightarrow> ('a redeem_db_scheme sess, code_row list) action" where
  "Generate newCode batchID now inp =
     (if gi_credits inp \<le> 0 then failE ErrInvalidCredits
      else if gi_quantity inp \<le> 0 then failE ErrInvalidQuantity
      else let items = map (\<lambda>i. new_item batchID (gi_credits inp) now (newCode i)) [0..<nat (gi_quantity inp)] in
           bindE (InsertBatch items) (\<lambda>_. okE items))"

definition code_matches :: "code_filter \<Rightarrow> code_row \<Rightarrow> bool" where
  "code_matches f c \<longleftrightarrow>
     (cf_batch_id f \<noteq> '''' \<longrightarrow> code_batch_id c = cf_batch_id f) \<and>
     (case cf_status f of
        StatusActive \<Rightarrow> used_by_user_id c = 0
      | StatusUsed \<Rightarrow> used_by_user_id c > 0
      | StatusAny \<Rightarrow> True)"

text \<open>
  \<open>List\<close>: the clamped page of the matching rows, newest id first, and the total. Rows are
  stored in the order of their ids.
\<close>

definition List_codes ::
  "code_filter \<Rightarrow> int \<Rightarrow> int \<Rightarrow> ('a redeem_db_scheme sess, code_row list \<times> nat) action" where
  "List_codes f offset limit =
     (let lim = (if limit \<le> 0 \<or> limit > 200 then 20 else limit);
          off = (if offset < 0 then 0 else offset) in
      bindE (stmt (\<lambda>d. (Inr (take (nat lim) (drop (nat off) (rev (filter (code_matches f) (codes d))))), d))) (\<lambda>rows.
      bindE (stmt (\<lambda>d. (Inr (length (filter (code_matches f) (codes d))), d))) (\<lambda>total.
      okE (rows, total))))"

text \<open>\<open>item.ExpiresAt != nil && item.ExpiresAt.Before(now)\<close>.\<close>

definition expired :: "int \<Rightarrow> code_row \<Rightarrow> bool" where
  "expired now c \<longleftrightarrow> (case expires_at c of None \<Rightarrow> False | Some t \<Rightarrow> t < now)"

text \<open>\<open>DAO.Redeem\<close>; the writer is absent when billing is not wired.\<close>

definition Redeem_dao ::
  "'a redeem_db_scheme writer option \<Rightarrow> nat \<Rightarrow> string \<Rightarrow> int \<Rightarrow>
   ('a redeem_db_scheme sess, redeem_result) action" where
  "Redeem_dao bw userID code now =
     (if code = '''' then failE ErrCodeNotFound
      else case bw of
        None \<Rightarrow> failE (EMsg ''redeem: billing not ready'')
      | Some w \<Rightarrow> runTx
          (bindE (mapErr (\<lambda>e. if e = ENoRows then ErrCodeNotFound else e) (stmt (select_code code))) (\<lambda>item.
           if used_by_user_id item \<noteq> 0 then failE ErrCodeUsed
           else if expired now item then failE ErrCodeExpired
           else bindE (stmt (mark_used (code_id item) userID now)) (\<lambda>n.
                if n = 0 then failE ErrCodeUsed
                else bindE (w userID (code_credits item) (''redeem:'' @ code_code item)
                              (''redeem code '' @ code_code item)) (\<lambda>balanceAfter.
                     okE \<lparr>rr_code = code_code item, rr_credits = code_credits item,
                          rr_balance_after = balanceAfter\<rparr>)))))"

definition Redeem_svc ::
  "'a redeem_db_scheme writer option \<Rightarrow> nat \<Rightarrow> string \<Rightarrow> int \<Rightarrow>
   ('a redeem_db_scheme sess, redeem_result) action" where
  "Redeem_svc bw userID code now = Redeem_dao bw userID (normalizeCode code) now"

section \<open>The billing interface\<close>

text \<open>
  What a caller of \<open>billingWriter\<close> relies on: a successful write credits a live user by the
  amount, appends one entry of the writer's kind, changes nothing else and returns the balance
  after.
\<close>

locale billing_writer =
  fixes writer :: "'d billing_db_scheme writer" and wkind :: kind
  assumes writer_posted: "writer uid amount ref rem s = (Inr after, s') \<Longrightarrow>
     0 < amount \<and> posted uid amount 0 (\<lambda>after. [mk_tx uid 0 wkind amount after ref rem]) (fst s) (fst s') \<and>
     (\<exists>u. live uid (fst s) = Some u \<and> after = credit_balance u + amount)"

interpretation redeem_writer: billing_writer RedeemTx KindRedeem
  by unfold_locales (auto simp: RedeemTx_def dest: creditTx_posted)

interpretation checkin_writer: billing_writer AwardCheckinTx KindCheckin
  by unfold_locales (auto simp: AwardCheckinTx_def dest: creditTx_posted)

section \<open>Codes and the ledger\<close>

text \<open>
  Codes and their ids are unique, and a code has been used exactly when the ledger has its one
  redemption entry, for the credits it is worth.
\<close>

definition redemptions :: "'a redeem_db_scheme \<Rightarrow> string \<Rightarrow> credit_tx list" where
  "redemptions d c = filter (\<lambda>t. ct_type t = KindRedeem \<and> ct_ref_id t = ''redeem:'' @ c) (ledger d)"

definition codes_wf :: "'a redeem_db_scheme \<Rightarrow> bool" where
  "codes_wf d \<longleftrightarrow>
     distinct (map code_code (codes d)) \<and> distinct (map code_id (codes d)) \<and>
     (\<forall>c \<in> set (codes d). code_id c < codes_next d)"

definition codes_once :: "'a redeem_db_scheme \<Rightarrow> bool" where
  "codes_once d \<longleftrightarrow>
     codes_wf d \<and>
     (\<forall>c \<in> set (codes d).
        if used_by_user_id c = 0 then redemptions d (code_code c) = []
        else \<exists>t. redemptions d (code_code c) = [t] \<and> ct_user_id t = used_by_user_id c \<and>
                 ct_amount t = code_credits c) \<and>
     (\<forall>x. x \<notin> code_code ` set (codes d) \<longrightarrow> redemptions d x = [])"

section \<open>The redemption transaction\<close>

definition marked :: "nat \<Rightarrow> nat \<Rightarrow> int \<Rightarrow> code_row \<Rightarrow> code_row" where
  "marked cid uid now c =
     (if code_id c = cid \<and> used_by_user_id c = 0
      then c\<lparr>used_by_user_id := uid, used_at := Some now\<rparr> else c)"

text \<open>The state a committed redemption of \<open>item\<close> by the user with row \<open>u\<close> leaves.\<close>

definition redeemed ::
  "nat \<Rightarrow> int \<Rightarrow> code_row \<Rightarrow> user_row \<Rightarrow> 'a redeem_db_scheme \<Rightarrow> 'a redeem_db_scheme" where
  "redeemed uid now item u d =
     d\<lparr>users := (users d)(uid \<mapsto> move (code_credits item) 0 u),
       ledger := ledger d @ [mk_tx uid 0 KindRedeem (code_credits item)
                   (credit_balance u + code_credits item)
                   (''redeem:'' @ code_code item) (''redeem code '' @ code_code item)],
       codes := map (marked (code_id item) uid now) (codes d)\<rparr>"

lemma marked_simps [simp]:
  "code_code (marked cid uid now c) = code_code c"
  "code_id (marked cid uid now c) = code_id c"
  "code_credits (marked cid uid now c) = code_credits c"
  by (simp_all add: marked_def)

lemma mark_used_eq:
  "mark_used cid uid now d =
     (Inr (length (filter (\<lambda>c. marked cid uid now c \<noteq> c) (codes d))),
      d\<lparr>codes := map (marked cid uid now) (codes d)\<rparr>)"
proof -
  have "filter (\<lambda>c. (code_id c = cid \<and> used_by_user_id c = 0) \<and>
          c\<lparr>used_by_user_id := uid, used_at := Some now\<rparr> \<noteq> c) (codes d) =
        filter (\<lambda>c. marked cid uid now c \<noteq> c) (codes d)"
    by (rule filter_cong) (auto simp: marked_def)
  moreover have "map (\<lambda>c. if code_id c = cid \<and> used_by_user_id c = 0
            then c\<lparr>used_by_user_id := uid, used_at := Some now\<rparr> else c) (codes d) =
        map (marked cid uid now) (codes d)"
    by (rule map_cong) (auto simp: marked_def)
  ultimately show ?thesis by (simp add: mark_used_def Let_def)
qed

lemma select_code_Inr:
  "select_code c d = (Inr item, d') \<Longrightarrow> item \<in> set (codes d) \<and> code_code item = c \<and> d' = d"
  by (auto simp: select_code_def find_Some_iff split: option.splits)

locale redeem_billing = billing_writer writer KindRedeem
  for writer :: "'a redeem_db_scheme writer"
begin

lemma Redeem_db:
  assumes run: "Redeem_dao (Some writer) uid code now s = (r, s')"
  obtains (unchanged) e where "r = Inl e" and "fst s' = fst s"
  | (redeemed) item u where "item \<in> set (codes (fst s))" and "code_code item = code"
      and "used_by_user_id item = 0" and "\<not> expired now item" and "0 < code_credits item"
      and "live uid (fst s) = Some u" and "fst s' = redeemed uid now item u (fst s)"
      and "r = Inr \<lparr>rr_code = code, rr_credits = code_credits item,
                    rr_balance_after = credit_balance u + code_credits item\<rparr> \<or> r = Inl EDriver"
proof (cases "code = ''''")
  case True
  with run show ?thesis by (auto simp: Redeem_dao_def failE_def intro: unchanged)
next
  case False
  let ?body = "bindE (mapErr (\<lambda>e. if e = ENoRows then ErrCodeNotFound else e) (stmt (select_code code))) (\<lambda>item.
           if used_by_user_id item \<noteq> 0 then failE ErrCodeUsed
           else if expired now item then failE ErrCodeExpired
           else bindE (stmt (mark_used (code_id item) uid now)) (\<lambda>n.
                if n = 0 then failE ErrCodeUsed
                else bindE (writer uid (code_credits item) (''redeem:'' @ code_code item)
                              (''redeem code '' @ code_code item)) (\<lambda>balanceAfter.
                     okE \<lparr>rr_code = code_code item, rr_credits = code_credits item,
                          rr_balance_after = balanceAfter\<rparr>)))"
  from run False have "runTx ?body s = (r, s')"
    by (simp add: Redeem_dao_def)
  then show ?thesis
  proof (cases rule: runTx_cases)
    case (unchanged e)
    then show ?thesis by (rule that(1))
  next
    case (applied x fs1 fs2)
    from applied(1) obtain item s1 where sel: "mapErr (\<lambda>e. if e = ENoRows then ErrCodeNotFound else e)
        (stmt (select_code code)) (fst s, fs1) = (Inr item, s1)"
      and rest: "(if used_by_user_id item \<noteq> 0 then failE ErrCodeUsed
           else if expired now item then failE ErrCodeExpired
           else bindE (stmt (mark_used (code_id item) uid now)) (\<lambda>n.
                if n = 0 then failE ErrCodeUsed
                else bindE (writer uid (code_credits item) (''redeem:'' @ code_code item)
                              (''redeem code '' @ code_code item)) (\<lambda>balanceAfter.
                     okE \<lparr>rr_code = code_code item, rr_credits = code_credits item,
                          rr_balance_after = balanceAfter\<rparr>))) s1 = (Inr x, (fst s', fs2))"
      by (rule bindE_InrE)
    from mapErr_InrD [OF sel] have "select_code code (fst s) = (Inr item, fst s1)"
      by (auto elim: stmt_InrE)
    then have item: "item \<in> set (codes (fst s))" "code_code item = code" and d1: "fst s1 = fst s"
      by (auto dest: select_code_Inr)
    from rest have un: "used_by_user_id item = 0" and ex: "\<not> expired now item"
      by (auto simp: failE_def split: if_splits)
    with rest obtain n s2 where mk: "stmt (mark_used (code_id item) uid now) s1 = (Inr n, s2)"
      and rest2: "(if n = 0 then failE ErrCodeUsed
                else bindE (writer uid (code_credits item) (''redeem:'' @ code_code item)
                              (''redeem code '' @ code_code item)) (\<lambda>balanceAfter.
                     okE \<lparr>rr_code = code_code item, rr_credits = code_credits item,
                          rr_balance_after = balanceAfter\<rparr>)) s2 = (Inr x, (fst s', fs2))"
      by (auto elim: bindE_InrE)
    from mk d1 have d2: "fst s2 = (fst s)\<lparr>codes := map (marked (code_id item) uid now) (codes (fst s))\<rparr>"
      by (auto elim!: stmt_InrE simp: mark_used_eq)
    from rest2 have "n \<noteq> 0" by (auto simp: failE_def split: if_splits)
    with rest2 obtain after s3 where w: "writer uid (code_credits item) (''redeem:'' @ code_code item)
          (''redeem code '' @ code_code item) s2 = (Inr after, s3)"
      and x: "x = \<lparr>rr_code = code_code item, rr_credits = code_credits item, rr_balance_after = after\<rparr>"
      and s3: "s3 = (fst s', fs2)"
      by (auto elim!: bindE_InrE simp: okE_def)
    from writer_posted [OF w] obtain u where pos: "0 < code_credits item"
      and u: "live uid (fst s) = Some u" "after = credit_balance u + code_credits item"
      and p: "fst s' = redeemed uid now item u (fst s)"
      by (auto simp: posted_def d2 s3 redeemed_def live_def split: option.splits)
    show ?thesis
      by (rule that(2) [OF item un ex pos u(1) p]) (use applied(2) x u(2) item in auto)
  qed
qed

lemma Redeem_keeps_once:
  assumes run: "Redeem_dao (Some writer) uid code now s = (r, s')"
    and once: "codes_once (fst s)" and uid: "uid \<noteq> 0"
  shows "codes_once (fst s')"
  using run
proof (cases rule: Redeem_db)
  case unchanged
  with once show ?thesis by simp
next
  case (redeemed item u)
  let ?d = "fst s"
  let ?t = "mk_tx uid 0 KindRedeem (code_credits item) (credit_balance u + code_credits item)
              (''redeem:'' @ code_code item) (''redeem code '' @ code_code item)"
  have wf: "codes_wf ?d" using once by (simp add: codes_once_def)
  have red: "redemptions (fst s') x = redemptions ?d x @ (if x = code_code item then [?t] else [])" for x
    using redeemed(7) by (simp add: redemptions_def redeemed_def)
  have cod: "codes (fst s') = map (marked (code_id item) uid now) (codes ?d)"
    and nxt: "codes_next (fst s') = codes_next ?d"
    using redeemed(7) by (simp_all add: redeemed_def)
  have wf': "codes_wf (fst s')"
    using wf by (simp add: codes_wf_def cod nxt comp_def)
  have other: "marked (code_id item) uid now c = c \<and> code_code c \<noteq> code_code item"
    if "c \<in> set (codes ?d)" "c \<noteq> item" for c
    using that redeemed(1) wf
    by (auto simp: codes_wf_def marked_def distinct_map inj_on_def)
  have item': "marked (code_id item) uid now item = item\<lparr>used_by_user_id := uid, used_at := Some now\<rparr>"
    using redeemed(3) by (simp add: marked_def)
  have "if used_by_user_id c = 0 then redemptions (fst s') (code_code c) = []
        else \<exists>t. redemptions (fst s') (code_code c) = [t] \<and> ct_user_id t = used_by_user_id c \<and>
                 ct_amount t = code_credits c" if c: "c \<in> set (codes (fst s'))" for c
  proof -
    from c obtain c0 where c0: "c0 \<in> set (codes ?d)" "c = marked (code_id item) uid now c0"
      by (auto simp: cod)
    show ?thesis
    proof (cases "c0 = item")
      case True
      with once redeemed(1,3) have "redemptions ?d (code_code item) = []" by (auto simp: codes_once_def)
      with True c0 item' uid show ?thesis by (simp add: red)
    next
      case False
      with other c0 have "c = c0" "code_code c \<noteq> code_code item" by auto
      with once c0 show ?thesis by (simp add: codes_once_def red)
    qed
  qed
  moreover have "redemptions (fst s') x = []" if "x \<notin> code_code ` set (codes (fst s'))" for x
  proof -
    from that have "x \<notin> code_code ` set (codes ?d)" by (simp add: cod image_image)
    moreover have "x \<noteq> code_code item" using calculation redeemed(1) by auto
    ultimately show ?thesis using once by (simp add: codes_once_def red)
  qed
  ultimately show ?thesis using wf' by (simp add: codes_once_def)
qed

end

interpretation engine_redeem: redeem_billing RedeemTx
  by unfold_locales

section \<open>Generating batches\<close>

lemma insert_code_once:
  assumes "insert_code c d = (Inr (), d')" and "codes_once d" and "used_by_user_id c = 0"
  shows "codes_once d'"
proof -
  from assms(1) have new: "code_code c \<notin> code_code ` set (codes d)"
    and d': "d' = d\<lparr>codes := codes d @ [c\<lparr>code_id := codes_next d\<rparr>], codes_next := codes_next d + 1\<rparr>"
    by (auto simp: insert_code_def split: if_splits)
  have "codes_wf d'" using assms(2) new by (auto simp: codes_wf_def codes_once_def d')
  moreover have "redemptions d' x = redemptions d x" for x by (simp add: redemptions_def d')
  ultimately show ?thesis using assms(2,3) new by (auto simp: codes_once_def d')
qed

lemma insert_all_once:
  assumes "insert_all cs (d, fs) = (Inr (), (d', fs'))" and "codes_once d"
    and "\<forall>c \<in> set cs. used_by_user_id c = 0"
  shows "codes_once d'"
  using assms
proof (induction cs arbitrary: d fs)
  case Nil
  then show ?case by (simp add: okE_def)
next
  case (Cons c cs)
  from Cons.prems(1) obtain s1 where st: "stmt (insert_code c) (d, fs) = (Inr (), s1)"
    and rest: "insert_all cs s1 = (Inr (), (d', fs'))"
    by (auto elim: bindE_InrE)
  from st have "insert_code c d = (Inr (), fst s1)" by (auto elim: stmt_InrE)
  then have "codes_once (fst s1)" using Cons.prems by (auto intro: insert_code_once)
  with rest Cons.prems(3) show ?case using Cons.IH [of "fst s1" "snd s1"] by simp
qed

lemma InsertBatch_once:
  assumes "codes_once (fst s)" and "\<forall>c \<in> set cs. used_by_user_id c = 0"
  shows "codes_once (fst (snd (InsertBatch cs s)))"
proof (cases "cs = []")
  case True
  with assms(1) show ?thesis by (simp add: InsertBatch_def okE_def)
next
  case False
  have "codes_once (fst (snd (runTx (insert_all cs) s)))"
    by (rule runTx_preserves) (use assms in \<open>auto intro: insert_all_once\<close>)
  with False show ?thesis by (simp add: InsertBatch_def)
qed

lemma Generate_once:
  assumes "codes_once (fst s)"
  shows "codes_once (fst (snd (Generate newCode batchID now inp s)))"
  using InsertBatch_once [OF assms, of "map (\<lambda>i. new_item batchID (gi_credits inp) now (newCode i)) [0..<nat (gi_quantity inp)]"]
    assms
  by (auto simp: Generate_def failE_def okE_def bindE_def Let_def new_item_def split: prod.splits sum.splits)

text \<open>An engine operation of another kind touches no code and no redemption entry.\<close>

lemma bill_step_once:
  fixes s :: "'a redeem_db_scheme sess"
  assumes once: "codes_once (fst s)" and ok: "op_ok a s" and kind: "KindRedeem \<notin> op_kinds a"
  shows "codes_once (fst (bill_step a s))"
proof -
  obtain r s' where run: "exec_op a s = (r, s')" by (rule prod.exhaust)
  from run ok have "codes_once (fst s')"
  proof (cases rule: exec_op_posted)
    case (posted txs)
    have kinds: "\<forall>t \<in> set (txs b). ct_type t \<noteq> KindRedeem" for b
      using posted(2) kind unfolding explains_def by metis
    from posted(1) have c: "codes (fst s') = codes (fst s)" "codes_next (fst s') = codes_next (fst s)"
      and r: "redemptions (fst s') x = redemptions (fst s) x" for x
      using kinds by (auto simp: posted_def redemptions_def filter_empty_conv)
    from once show ?thesis by (simp add: codes_once_def codes_wf_def c r)
  qed (use once in simp)
  with run show ?thesis by (simp add: bill_step_def)
qed

section \<open>Runs\<close>

datatype redeem_op =
    RopRedeem nat string int
  | RopGenerate "nat \<Rightarrow> string" string int generate_input
  | RopBill bill_op

fun redeem_step :: "redeem_op \<Rightarrow> 'a redeem_db_scheme sess \<Rightarrow> 'a redeem_db_scheme sess" where
  "redeem_step (RopRedeem uid c now) s = snd (Redeem_svc (Some RedeemTx) uid c now s)"
| "redeem_step (RopGenerate nc b now inp) s = snd (Generate nc b now inp s)"
| "redeem_step (RopBill a) s = bill_step a s"

fun redeem_ok :: "redeem_op \<Rightarrow> 'a redeem_db_scheme sess \<Rightarrow> bool" where
  "redeem_ok (RopRedeem uid c now) s = (uid \<noteq> 0)"
| "redeem_ok (RopGenerate nc b now inp) s = True"
| "redeem_ok (RopBill a) s = (op_ok a s \<and> KindRedeem \<notin> op_kinds a)"

interpretation once_inv: inv_system redeem_step redeem_ok "\<lambda>s. codes_once (fst s)"
proof
  fix s :: "'a redeem_db_scheme sess" and a
  assume inv: "codes_once (fst s)" and ok: "redeem_ok a s"
  show "codes_once (fst (redeem_step a s))"
  proof (cases a)
    case (RopRedeem uid c now)
    obtain r s' where run: "Redeem_dao (Some RedeemTx) uid (normalizeCode c) now s = (r, s')"
      by (rule prod.exhaust)
    with engine_redeem.Redeem_keeps_once [OF run inv] ok RopRedeem show ?thesis
      by (simp add: Redeem_svc_def)
  next
    case RopGenerate
    with inv show ?thesis by (simp add: Generate_once)
  next
    case (RopBill b)
    with inv ok show ?thesis by (simp add: bill_step_once)
  qed
qed

section \<open>Evaluation on a responsive database\<close>

lemma creditTx_eval:
  assumes "0 < amount"
  shows "creditTx uid amount k ref rem (d, []) =
    (case live uid d of
       None \<Rightarrow> (Inl (EUserNotFound uid), (d, []))
     | Some u \<Rightarrow> if row_fits (move amount 0 u)
         then (Inr (credit_balance u + amount),
               (post uid amount 0 u [mk_tx uid 0 k amount (credit_balance u + amount) ref rem] d, []))
         else (Inl EOutOfRange, (d, [])))"
  using assms by (auto simp: creditTx_def tx_eval_simps split: option.splits)

lemma Redeem_eval:
  assumes wf: "codes_wf d" and c: "item \<in> set (codes d)" "code_code item = code" "code \<noteq> ''''"
    and unused: "used_by_user_id item = 0" and fresh: "\<not> expired now item" and pos: "0 < code_credits item"
    and uid: "uid \<noteq> 0" and u: "live uid d = Some u" "row_fits (move (code_credits item) 0 u)"
  shows "Redeem_dao (Some RedeemTx) uid code now (d, []) =
    (Inr \<lparr>rr_code = code, rr_credits = code_credits item,
          rr_balance_after = credit_balance u + code_credits item\<rparr>, (redeemed uid now item u d, []))"
proof -
  have find: "find (\<lambda>x. code_code x = code) (codes d) = Some item"
  proof -
    have "inj_on code_code (set (codes d))" using wf by (simp add: codes_wf_def distinct_map)
    with c have uniq: "x = item" if "x \<in> set (codes d)" "code_code x = code" for x
      using that by (auto dest: inj_onD)
    obtain y where y: "find (\<lambda>x. code_code x = code) (codes d) = Some y"
      using c by (cases "find (\<lambda>x. code_code x = code) (codes d)") (auto simp: find_None_iff)
    then have "y \<in> set (codes d)" "code_code y = code" by (auto simp: find_Some_iff)
    with uniq y show ?thesis by simp
  qed
  have "marked (code_id item) uid now item \<noteq> item"
  proof
    assume "marked (code_id item) uid now item = item"
    then have "used_by_user_id (marked (code_id item) uid now item) = used_by_user_id item" by simp
    then show False using unused uid by (simp add: marked_def)
  qed
  with c(1) have n: "filter (\<lambda>x. marked (code_id item) uid now x \<noteq> x) (codes d) \<noteq> []"
    by (auto simp: filter_empty_conv)
  have live': "live uid (d\<lparr>codes := cs\<rparr>) = Some u" for cs using u(1) by simp
  show ?thesis
    using c(2,3) find unused fresh pos n u(2) live'
    by (simp add: Redeem_dao_def runTx_no_faults bindE_def mapErr_def select_code_def mark_used_eq
        RedeemTx_def creditTx_eval okE_def redeemed_def post_def del: live_Some)
qed

lemma Redeem_used_eval:
  assumes "item \<in> set (codes d)" "code_code item = code" "code \<noteq> ''''" "codes_wf d" "used_by_user_id item \<noteq> 0"
  shows "Redeem_dao (Some w) uid code now (d, []) = (Inl ErrCodeUsed, (d, []))"
proof -
  have inj: "inj_on code_code (set (codes d))" using assms(4) by (simp add: codes_wf_def distinct_map)
  obtain y where y: "find (\<lambda>x. code_code x = code) (codes d) = Some y"
    using assms(1,2) by (cases "find (\<lambda>x. code_code x = code) (codes d)") (auto simp: find_None_iff)
  then have "y \<in> set (codes d)" "code_code y = code" by (auto simp: find_Some_iff)
  with inj assms(1,2) have "y = item" by (auto dest: inj_onD)
  with y assms(3,5) show ?thesis
    by (simp add: Redeem_dao_def runTx_no_faults bindE_def mapErr_def select_code_def failE_def)
qed

lemma redeemed_codes_wf: "codes_wf d \<Longrightarrow> codes_wf (redeemed uid now item u d)"
  by (simp add: codes_wf_def redeemed_def comp_def)

section \<open>Properties\<close>

definition demo_code :: code_row where
  "demo_code = \<lparr>code_id = 4, code_code = ''AB12'', code_batch_id = ''RC1'', code_credits = 50,
     used_by_user_id = 0, used_at = None, expires_at = None, code_created_at = 0\<rparr>"

definition demo_redeem_db :: redeem_db where
  "demo_redeem_db = \<lparr>users = [1 \<mapsto> demo_row 100 0 None], ledger = [], codes = [demo_code], codes_next = 5\<rparr>"

lemma demo_redeem_facts:
  "codes_once demo_redeem_db" "codes_wf demo_redeem_db" "demo_code \<in> set (codes demo_redeem_db)"
  "live 1 demo_redeem_db = Some (demo_row 100 0 None)"
  by (simp_all add: codes_once_def codes_wf_def redemptions_def demo_redeem_db_def demo_code_def demo_row_def)

text \<open>
  C4. A code pays at most once: over any run of redemptions by any users, generations of further
  batches and other billing operations, under any driver behaviour, every used code has exactly one
  redemption entry in the ledger, for its own credits and for the user recorded on it, and an unused
  code has none.
\<close>

theorem codes_pay_at_most_once:
  fixes s :: "'a redeem_db_scheme sess"
  assumes "codes_once (fst s)" and "admissible_run redeem_ok redeem_step ops s"
  shows "codes_once (fst (fold redeem_step ops s))"
  using assms by (rule once_inv.run_inv)

theorem codes_pay_at_most_once_witness:
  "codes_once (fst (fold redeem_step
     [RopRedeem 1 '' ab12 '' 7, RopBill (OpPreDeduct 1 2 10 ''r'' ''x''), RopRedeem 3 ''AB12'' 8]
     (demo_redeem_db, [DOk, DOk, DFail])))"
  by (rule codes_pay_at_most_once) (simp_all add: demo_redeem_facts)

text \<open>
  A redemption is all or nothing under any driver behaviour: either nothing has changed and an
  error is reported, or the code named by the normalised input was unused and not expired, it is now
  marked with the user and the user's live row has received exactly its credits, in one step.
\<close>

theorem redeem_all_or_nothing:
  assumes "Redeem_svc (Some RedeemTx) uid c now s = (r, s')"
  shows "(\<exists>e. r = Inl e) \<and> fst s' = fst s \<or>
         (\<exists>item u. item \<in> set (codes (fst s)) \<and> code_code item = normalizeCode c \<and>
            used_by_user_id item = 0 \<and> \<not> expired now item \<and> 0 < code_credits item \<and>
            live uid (fst s) = Some u \<and> fst s' = redeemed uid now item u (fst s) \<and>
            (r = Inr \<lparr>rr_code = code_code item, rr_credits = code_credits item,
                      rr_balance_after = credit_balance u + code_credits item\<rparr> \<or> r = Inl EDriver))"
  using assms [unfolded Redeem_svc_def]
  by (cases rule: engine_redeem.Redeem_db) auto

theorem redeem_all_or_nothing_witness:
  "\<exists>r s'. Redeem_svc (Some RedeemTx) 1 '' ab12 '' 7 (demo_redeem_db, [DOk, DOk, DOk, DLost]) = (r, s') \<and>
     ((\<exists>e. r = Inl e) \<and> fst s' = demo_redeem_db \<or>
      (\<exists>item u. item \<in> set (codes demo_redeem_db) \<and> fst s' = redeemed 1 7 item u demo_redeem_db))"
proof -
  obtain r s' where run: "Redeem_svc (Some RedeemTx) 1 '' ab12 '' 7 (demo_redeem_db, [DOk, DOk, DOk, DLost]) = (r, s')"
    by (rule prod.exhaust)
  from redeem_all_or_nothing [OF run] run show ?thesis by auto
qed

text \<open>
  Redeeming works and works once: on a responsive database a live user redeems an unused,
  unexpired code successfully, and every later attempt on that code, by any user at any time, is
  refused with \<open>ErrCodeUsed\<close> and changes nothing.
\<close>

theorem redeem_then_refused:
  assumes "codes_wf d" and "item \<in> set (codes d)" and "code_code item = normalizeCode c" and "normalizeCode c \<noteq> ''''"
    and "used_by_user_id item = 0" and "\<not> expired now item" and "0 < code_credits item"
    and "uid \<noteq> 0" and "live uid d = Some u" and "row_fits (move (code_credits item) 0 u)"
  shows "\<exists>res s1. Redeem_svc (Some RedeemTx) uid c now (d, []) = (Inr res, s1) \<and>
           rr_credits res = code_credits item \<and>
           (\<forall>uid' now'. Redeem_svc (Some RedeemTx) uid' c now' s1 = (Inl ErrCodeUsed, s1))"
proof -
  let ?d' = "redeemed uid now item u d"
  have first: "Redeem_svc (Some RedeemTx) uid c now (d, []) = (Inr \<lparr>rr_code = normalizeCode c,
      rr_credits = code_credits item, rr_balance_after = credit_balance u + code_credits item\<rparr>, (?d', []))"
    using Redeem_eval [OF assms(1,2,3,4,5,6,7,8,9,10)] by (simp add: Redeem_svc_def)
  let ?m = "marked (code_id item) uid now item"
  have m: "?m \<in> set (codes ?d')" "code_code ?m = normalizeCode c" "used_by_user_id ?m \<noteq> 0"
    using assms by (auto simp: redeemed_def marked_def)
  have "Redeem_svc (Some RedeemTx) uid' c now' (?d', []) = (Inl ErrCodeUsed, (?d', []))" for uid' now'
    unfolding Redeem_svc_def
    by (rule Redeem_used_eval [OF m(1,2) assms(4) redeemed_codes_wf [OF assms(1)] m(3)])
  with first show ?thesis by auto
qed

theorem redeem_then_refused_witness:
  "\<exists>res s1. Redeem_svc (Some RedeemTx) 1 '' ab12'' 7 (demo_redeem_db, []) = (Inr res, s1) \<and>
     rr_credits res = 50 \<and>
     (\<forall>uid' now'. Redeem_svc (Some RedeemTx) uid' '' ab12'' now' s1 = (Inl ErrCodeUsed, s1))"
proof -
  have n: "normalizeCode '' ab12'' = ''AB12''" by code_simp
  have "code_credits demo_code = 50" by (simp add: demo_code_def)
  moreover have "\<exists>res s1. Redeem_svc (Some RedeemTx) 1 '' ab12'' 7 (demo_redeem_db, []) = (Inr res, s1) \<and>
     rr_credits res = code_credits demo_code \<and>
     (\<forall>uid' now'. Redeem_svc (Some RedeemTx) uid' '' ab12'' now' s1 = (Inl ErrCodeUsed, s1))"
    by (rule redeem_then_refused [OF demo_redeem_facts(2,3) _ _ _ _ _ _ demo_redeem_facts(4)])
       (simp_all add: n demo_code_def expired_def row_fits_def in_i64_def demo_row_def)
  ultimately show ?thesis by simp
qed

end
