(* ===== verification/Checkin.thy ===== *)
theory Checkin
  imports Redeem
begin

text \<open>
  The daily check-in (internal/checkin): a row per user and local day, inserted first so that the
  unique key decides which of several concurrent claims wins, then credited through the billing
  writer in the same transaction. A claim that loses reads the winner's row back.
\<close>

section \<open>Tables\<close>

record checkin_row =
  ck_id :: nat
  ck_user_id :: nat
  ck_day :: string
  ck_checked_at :: int
  ck_awarded :: int
  ck_balance_after :: int
  ck_ref_id :: string
  ck_remark :: string

record checkin_db = redeem_db +
  checkins :: "checkin_row list"
  checkins_next :: nat

record claim_input =
  ci_day :: string
  ci_checked_at :: int
  ci_awarded :: int
  ci_ref_id :: string
  ci_remark :: string

record checkin_status =
  st_enabled :: bool
  st_today :: string
  st_checked_in :: bool
  st_today_reward :: int
  st_checked_at :: string
  st_last_checked_at :: string
  st_balance_after :: int
  st_awarded :: int

text \<open>
  The service: the settings provider's reward if one is injected, and the formatting of instants in
  the service's location (\<open>time.Format\<close> with the date and the date-time layout), which depends
  on the time zone data of the host.
\<close>

record checkin_service =
  sv_reward :: "int option"
  sv_fmt_day :: "int \<Rightarrow> string"
  sv_fmt_time :: "int \<Rightarrow> string"

section \<open>SQL\<close>

definition same_day :: "nat \<Rightarrow> string \<Rightarrow> checkin_row \<Rightarrow> bool" where
  "same_day uid day r \<longleftrightarrow> ck_user_id r = uid \<and> ck_day r = day"

definition insert_checkin ::
  "nat \<Rightarrow> claim_input \<Rightarrow> 'a checkin_db_scheme \<Rightarrow> unit result \<times> 'a checkin_db_scheme" where
  "insert_checkin uid inp d =
     (if \<exists>r \<in> set (checkins d). same_day uid (ci_day inp) r then (Inl EDuplicate, d)
      else (Inr (), d\<lparr>checkins := checkins d @
              [\<lparr>ck_id = checkins_next d, ck_user_id = uid, ck_day = ci_day inp,
                ck_checked_at = ci_checked_at inp, ck_awarded = 0, ck_balance_after = 0,
                ck_ref_id = '''', ck_remark = ''''\<rparr>],
              checkins_next := checkins_next d + 1\<rparr>))"

definition award_row :: "claim_input \<Rightarrow> int \<Rightarrow> checkin_row \<Rightarrow> checkin_row" where
  "award_row inp after r =
     r\<lparr>ck_checked_at := ci_checked_at inp, ck_awarded := ci_awarded inp,
       ck_balance_after := after, ck_ref_id := ci_ref_id inp, ck_remark := ci_remark inp\<rparr>"

definition update_checkin ::
  "nat \<Rightarrow> claim_input \<Rightarrow> int \<Rightarrow> 'a checkin_db_scheme \<Rightarrow> unit result \<times> 'a checkin_db_scheme" where
  "update_checkin uid inp after d =
     (Inr (), d\<lparr>checkins := map (\<lambda>r. if same_day uid (ci_day inp) r then award_row inp after r else r)
                  (checkins d)\<rparr>)"

text \<open>\<open>ORDER BY checkin_day DESC, id DESC LIMIT 1\<close>.\<close>

fun latest_row :: "checkin_row list \<Rightarrow> checkin_row option" where
  "latest_row [] = None"
| "latest_row (r # rs) =
     (case latest_row rs of
        None \<Rightarrow> Some r
      | Some q \<Rightarrow> if ck_day q < ck_day r \<or> (ck_day q = ck_day r \<and> ck_id q < ck_id r) then Some r else Some q)"

section \<open>DAO\<close>

definition GetByDay :: "nat \<Rightarrow> string \<Rightarrow> ('a checkin_db_scheme sess, checkin_row option) action" where
  "GetByDay uid day = stmt (\<lambda>d. (Inr (find (same_day uid day) (checkins d)), d))"

definition GetLatest :: "nat \<Rightarrow> ('a checkin_db_scheme sess, checkin_row option) action" where
  "GetLatest uid = stmt (\<lambda>d. (Inr (latest_row (filter (\<lambda>r. ck_user_id r = uid) (checkins d))), d))"

definition Claim ::
  "'a checkin_db_scheme writer option \<Rightarrow> nat \<Rightarrow> claim_input \<Rightarrow>
   ('a checkin_db_scheme sess, checkin_row option \<times> bool) action" where
  "Claim bw uid inp s =
     (case bw of
        None \<Rightarrow> (Inl (EMsg ''checkin: billing not ready''), s)
      | Some w \<Rightarrow>
         (case begin_tx s of
            (Inl e, s1) \<Rightarrow> (Inl e, s1)
          | (Inr _, s1) \<Rightarrow>
             (case stmt (insert_checkin uid inp) s1 of
                (Inl e, s2) \<Rightarrow>
                  if e = EDuplicate
                  then bindE (GetByDay uid (ci_day inp)) (\<lambda>rec. okE (rec, False)) (fst s, snd s2)
                  else (Inl e, (fst s, snd s2))
              | (Inr _, s2) \<Rightarrow>
                  (case bindE (w uid (ci_awarded inp) (ci_ref_id inp) (ci_remark inp)) (\<lambda>balanceAfter.
                        bindE (stmt (update_checkin uid inp balanceAfter)) (\<lambda>_.
                        GetByDay uid (ci_day inp))) s2 of
                     (Inl e, s3) \<Rightarrow> (Inl e, (fst s, snd s3))
                   | (Inr rec, s3) \<Rightarrow> commit (fst s) (rec, True) s3))))"

section \<open>Service\<close>

definition rewardCredits :: "checkin_service \<Rightarrow> int" where
  "rewardCredits sv =
     (case sv_reward sv of None \<Rightarrow> 0 | Some n \<Rightarrow> if n < 0 then 0 else n)"

text \<open>Instants are counted from Go's zero time.\<close>

definition formatTime :: "checkin_service \<Rightarrow> int \<Rightarrow> string" where
  "formatTime sv t = (if t = 0 then '''' else sv_fmt_time sv t)"

definition Status ::
  "checkin_service \<Rightarrow> nat \<Rightarrow> int \<Rightarrow> ('a checkin_db_scheme sess, checkin_status) action" where
  "Status sv uid now =
     (let today = sv_fmt_day sv now; reward = rewardCredits sv in
      bindE (GetLatest uid) (\<lambda>latest.
      bindE (GetByDay uid today) (\<lambda>todayRec.
      let out = \<lparr>st_enabled = (reward > 0), st_today = today, st_checked_in = False,
                 st_today_reward = reward, st_checked_at = '''',
                 st_last_checked_at = (case latest of None \<Rightarrow> '''' | Some r \<Rightarrow> formatTime sv (ck_checked_at r)),
                 st_balance_after = 0, st_awarded = 0\<rparr> in
      okE (case todayRec of
             None \<Rightarrow> out
           | Some r \<Rightarrow> out\<lparr>st_checked_in := True,
                st_checked_at := formatTime sv (ck_checked_at r),
                st_last_checked_at := formatTime sv (ck_checked_at r),
                st_balance_after := ck_balance_after r, st_awarded := ck_awarded r\<rparr>))))"

definition checkin_claim :: "checkin_service \<Rightarrow> int \<Rightarrow> claim_input" where
  "checkin_claim sv now =
     \<lparr>ci_day = sv_fmt_day sv now, ci_checked_at = now, ci_awarded = rewardCredits sv,
      ci_ref_id = ''checkin:'' @ sv_fmt_day sv now, ci_remark = ''daily checkin''\<rparr>"

definition claimed_status :: "checkin_service \<Rightarrow> int \<Rightarrow> checkin_row \<Rightarrow> checkin_status" where
  "claimed_status sv now r =
     \<lparr>st_enabled = True, st_today = sv_fmt_day sv now, st_checked_in = True,
      st_today_reward = rewardCredits sv, st_checked_at = formatTime sv (ck_checked_at r),
      st_last_checked_at = formatTime sv (ck_checked_at r),
      st_balance_after = ck_balance_after r, st_awarded = ck_awarded r\<rparr>"

text \<open>
  The store is the DAO above, injected once at start-up (never nil). In the disabled branch the
  code returns the status next to \<open>ErrDisabled\<close>; the result here is the error.
\<close>

definition Checkin ::
  "checkin_service \<Rightarrow> 'a checkin_db_scheme writer option \<Rightarrow> nat \<Rightarrow> int \<Rightarrow>
   ('a checkin_db_scheme sess, checkin_status) action" where
  "Checkin sv bw uid now =
     (if rewardCredits sv \<le> 0
      then bindE (Status sv uid now) (\<lambda>_. failE ErrDisabled)
      else bindE (Claim bw uid (checkin_claim sv now)) (\<lambda>(rec, _).
           case rec of
             None \<Rightarrow> failE (EMsg ''checkin: empty claim result'')
           | Some r \<Rightarrow> okE (claimed_status sv now r)))"

section \<open>One award per user and day\<close>

definition awards :: "'a checkin_db_scheme \<Rightarrow> nat \<Rightarrow> string \<Rightarrow> credit_tx list" where
  "awards d uid day =
     filter (\<lambda>t. ct_type t = KindCheckin \<and> ct_user_id t = uid \<and> ct_ref_id t = ''checkin:'' @ day) (ledger d)"

text \<open>
  At most one row per user and day, and the ledger has exactly the award the row records, or none
  when there is no row.
\<close>

definition checkins_once :: "'a checkin_db_scheme \<Rightarrow> bool" where
  "checkins_once d \<longleftrightarrow>
     distinct (map (\<lambda>r. (ck_user_id r, ck_day r)) (checkins d)) \<and>
     (\<forall>uid day. case find (same_day uid day) (checkins d) of
        None \<Rightarrow> awards d uid day = []
      | Some r \<Rightarrow> \<exists>t. awards d uid day = [t] \<and> ct_amount t = ck_awarded r \<and>
                       ct_balance_after t = ck_balance_after r)"

section \<open>The claim transaction\<close>

definition claim_row :: "nat \<Rightarrow> claim_input \<Rightarrow> int \<Rightarrow> nat \<Rightarrow> checkin_row" where
  "claim_row uid inp after i =
     \<lparr>ck_id = i, ck_user_id = uid, ck_day = ci_day inp, ck_checked_at = ci_checked_at inp,
      ck_awarded = ci_awarded inp, ck_balance_after = after, ck_ref_id = ci_ref_id inp,
      ck_remark = ci_remark inp\<rparr>"

text \<open>The state a committed claim leaves.\<close>

definition claimed ::
  "nat \<Rightarrow> claim_input \<Rightarrow> user_row \<Rightarrow> 'a checkin_db_scheme \<Rightarrow> 'a checkin_db_scheme" where
  "claimed uid inp u d =
     (let after = credit_balance u + ci_awarded inp in
      d\<lparr>users := (users d)(uid \<mapsto> move (ci_awarded inp) 0 u),
        ledger := ledger d @ [mk_tx uid 0 KindCheckin (ci_awarded inp) after (ci_ref_id inp) (ci_remark inp)],
        checkins := checkins d @ [claim_row uid inp after (checkins_next d)],
        checkins_next := checkins_next d + 1\<rparr>)"

lemma same_day_claim_row [simp]: "same_day v day (claim_row uid inp after i) \<longleftrightarrow> v = uid \<and> day = ci_day inp"
  by (auto simp: same_day_def claim_row_def)

lemma award_new_row:
  assumes "\<forall>r \<in> set rs. \<not> same_day uid (ci_day inp) r"
  shows "map (\<lambda>r. if same_day uid (ci_day inp) r then award_row inp after r else r)
           (rs @ [\<lparr>ck_id = i, ck_user_id = uid, ck_day = ci_day inp, ck_checked_at = ci_checked_at inp,
                   ck_awarded = 0, ck_balance_after = 0, ck_ref_id = '''', ck_remark = ''''\<rparr>]) =
         rs @ [claim_row uid inp after i]"
proof -
  have "map (\<lambda>r. if same_day uid (ci_day inp) r then award_row inp after r else r) rs = rs"
    using assms by (intro map_idI) auto
  then show ?thesis by (simp add: same_day_def award_row_def claim_row_def)
qed

lemma find_append_new:
  "\<forall>r \<in> set rs. \<not> P r \<Longrightarrow> find P (rs @ [x]) = (if P x then Some x else None)"
  by (induction rs) auto

lemma GetByDay_Inr:
  "GetByDay uid day s = (Inr rec, s') \<Longrightarrow> rec = find (same_day uid day) (checkins (fst s)) \<and> fst s' = fst s"
  by (auto simp: GetByDay_def elim: stmt_InrE)

lemma reads_GetByDay [intro]: "reads (GetByDay uid day)"
  by (auto simp: GetByDay_def)

lemma reads_GetLatest [intro]: "reads (GetLatest uid)"
  by (auto simp: GetLatest_def)

lemma reads_Status [intro]: "reads (Status sv uid now)"
  by (auto simp: Status_def Let_def)

locale checkin_billing = billing_writer writer KindCheckin
  for writer :: "'a checkin_db_scheme writer"
begin

lemma claim_body:
  assumes ins: "stmt (insert_checkin uid inp) s1 = (Inr x, s2)"
    and body: "bindE (writer uid (ci_awarded inp) (ci_ref_id inp) (ci_remark inp)) (\<lambda>balanceAfter.
                 bindE (stmt (update_checkin uid inp balanceAfter)) (\<lambda>_.
                 GetByDay uid (ci_day inp))) s2 = (Inr rec, s3)"
  shows "(\<forall>r \<in> set (checkins (fst s1)). \<not> same_day uid (ci_day inp) r) \<and> 0 < ci_awarded inp \<and>
         (\<exists>u. live uid (fst s1) = Some u \<and> fst s3 = claimed uid inp u (fst s1) \<and>
              rec = Some (claim_row uid inp (credit_balance u + ci_awarded inp) (checkins_next (fst s1))))"
proof -
  let ?d = "fst s1"
  from ins have "insert_checkin uid inp ?d = (Inr x, fst s2)" by (rule stmt_InrE)
  then have fresh: "\<forall>r \<in> set (checkins ?d). \<not> same_day uid (ci_day inp) r"
    and d2: "fst s2 = ?d\<lparr>checkins := checkins ?d @ [\<lparr>ck_id = checkins_next ?d, ck_user_id = uid,
        ck_day = ci_day inp, ck_checked_at = ci_checked_at inp, ck_awarded = 0, ck_balance_after = 0,
        ck_ref_id = '''', ck_remark = ''''\<rparr>], checkins_next := checkins_next ?d + 1\<rparr>"
    by (auto simp: insert_checkin_def split: if_splits)
  from body obtain after s4 where w: "writer uid (ci_awarded inp) (ci_ref_id inp) (ci_remark inp) s2 = (Inr after, s4)"
    and rest: "bindE (stmt (update_checkin uid inp after)) (\<lambda>_. GetByDay uid (ci_day inp)) s4 = (Inr rec, s3)"
    by (rule bindE_InrE)
  from writer_posted [OF w] obtain u where pos: "0 < ci_awarded inp" and u: "live uid ?d = Some u"
    and after: "after = credit_balance u + ci_awarded inp"
    and d4: "fst s4 = (fst s2)\<lparr>users := (users ?d)(uid \<mapsto> move (ci_awarded inp) 0 u),
        ledger := ledger ?d @ [mk_tx uid 0 KindCheckin (ci_awarded inp) after (ci_ref_id inp) (ci_remark inp)]\<rparr>"
    by (auto simp: posted_def d2 live_def split: option.splits)
  from rest obtain y s5 where up: "stmt (update_checkin uid inp after) s4 = (Inr y, s5)"
    and get: "GetByDay uid (ci_day inp) s5 = (Inr rec, s3)"
    by (rule bindE_InrE)
  from up have "update_checkin uid inp after (fst s4) = (Inr y, fst s5)" by (rule stmt_InrE)
  then have "fst s5 = (fst s4)\<lparr>checkins := checkins ?d @ [claim_row uid inp after (checkins_next ?d)]\<rparr>"
    using award_new_row [OF fresh, of after "checkins_next ?d"]
    by (simp add: update_checkin_def d4 d2 del: map_append list.map)
  then have d5: "fst s5 = claimed uid inp u ?d"
    by (simp add: d4 d2 claimed_def after Let_def)
  have "rec = find (same_day uid (ci_day inp)) (checkins (fst s5))" and "fst s3 = fst s5"
    using GetByDay_Inr [OF get] by auto
  then show ?thesis
    using fresh pos u find_append_new [OF fresh] by (auto simp: d5 claimed_def Let_def)
qed

lemma Claim_db:
  assumes run: "Claim (Some writer) uid inp s = (r, s')"
  obtains (unchanged) "fst s' = fst s"
      and "(\<exists>e. r = Inl e) \<or> r = Inr (find (same_day uid (ci_day inp)) (checkins (fst s)), False)"
  | (claimed) u where "\<forall>r \<in> set (checkins (fst s)). \<not> same_day uid (ci_day inp) r"
      and "0 < ci_awarded inp" and "live uid (fst s) = Some u" and "fst s' = claimed uid inp u (fst s)"
      and "r = Inr (Some (claim_row uid inp (credit_balance u + ci_awarded inp) (checkins_next (fst s))), True)
           \<or> r = Inl EDriver"
proof -
  obtain o1 fs1 where n: "next_drv (snd s) = (o1, fs1)" by (rule prod.exhaust)
  show ?thesis
  proof (cases "o1 = DOk")
    case False
    with n run have "fst s' = fst s" "r = Inl EDriver"
      by (auto simp: Claim_def begin_tx_def split: drv.splits)
    then show ?thesis using unchanged by blast
  next
    case True
    obtain r1 s2 where ins: "stmt (insert_checkin uid inp) (fst s, fs1) = (r1, s2)" by (rule prod.exhaust)
    show ?thesis
    proof (cases r1)
      case (Inl e)
      with run n True ins have "(r, s') = (if e = EDuplicate
          then bindE (GetByDay uid (ci_day inp)) (\<lambda>rec. okE (rec, False)) (fst s, snd s2)
          else (Inl e, (fst s, snd s2)))"
        by (simp add: Claim_def begin_tx_def)
      then show ?thesis
      proof (cases "e = EDuplicate")
        case True
        obtain g s3 where g: "GetByDay uid (ci_day inp) (fst s, snd s2) = (g, s3)" by (rule prod.exhaust)
        have "fst s3 = fst s" using readsD [OF reads_GetByDay g] by simp
        moreover have "g = Inr x \<Longrightarrow> x = find (same_day uid (ci_day inp)) (checkins (fst s))" for x
          using GetByDay_Inr [of uid "ci_day inp" "(fst s, snd s2)" x s3] g by simp
        ultimately show ?thesis
          using \<open>(r, s') = _\<close> True g
          by (intro unchanged) (auto simp: bindE_def okE_def split: sum.splits)
      qed (auto intro: unchanged)
    next
      case (Inr x)
      obtain r3 s3 where body: "bindE (writer uid (ci_awarded inp) (ci_ref_id inp) (ci_remark inp)) (\<lambda>balanceAfter.
            bindE (stmt (update_checkin uid inp balanceAfter)) (\<lambda>_. GetByDay uid (ci_day inp))) s2 = (r3, s3)"
        by (rule prod.exhaust)
      show ?thesis
      proof (cases r3)
        case (Inl e)
        with run n True ins Inr body have "fst s' = fst s" "r = Inl e"
          by (auto simp: Claim_def begin_tx_def)
        then show ?thesis using unchanged by blast
      next
        case (Inr rec)
        with run n True ins \<open>r1 = Inr x\<close> body have c: "(r, s') = commit (fst s) (rec, True) s3"
          by (simp add: Claim_def begin_tx_def)
        from claim_body [OF ins [unfolded \<open>r1 = Inr x\<close>] body [unfolded Inr]]
        obtain u where u: "\<forall>r \<in> set (checkins (fst s)). \<not> same_day uid (ci_day inp) r" "0 < ci_awarded inp"
          "live uid (fst s) = Some u" "fst s3 = claimed uid inp u (fst s)"
          "rec = Some (claim_row uid inp (credit_balance u + ci_awarded inp) (checkins_next (fst s)))"
          by auto
        obtain o2 fs2 where n2: "next_drv (snd s3) = (o2, fs2)" by (rule prod.exhaust)
        from c n2 have "fst s' = fst s \<and> r = Inl EDriver \<or>
            fst s' = fst s3 \<and> (r = Inr (rec, True) \<or> r = Inl EDriver)"
          by (auto simp: commit_def split: drv.splits)
        then show ?thesis using u by (auto intro: unchanged claimed)
      qed
    qed
  qed
qed

end

interpretation engine_checkin: checkin_billing AwardCheckinTx
  by unfold_locales

section \<open>The invariant\<close>

lemma awards_claimed:
  "awards (claimed uid (checkin_claim sv now) u d) v day =
   awards d v day @ (if v = uid \<and> day = sv_fmt_day sv now
     then [mk_tx uid 0 KindCheckin (rewardCredits sv) (credit_balance u + rewardCredits sv)
             (''checkin:'' @ day) ''daily checkin''] else [])"
  by (simp add: awards_def claimed_def checkin_claim_def Let_def)

lemma claimed_once:
  assumes once: "checkins_once d"
    and fresh: "\<forall>r \<in> set (checkins d). \<not> same_day uid (sv_fmt_day sv now) r"
  shows "checkins_once (claimed uid (checkin_claim sv now) u d)"
proof -
  let ?inp = "checkin_claim sv now"
  let ?d' = "claimed uid ?inp u d"
  let ?row = "claim_row uid ?inp (credit_balance u + rewardCredits sv) (checkins_next d)"
  have day: "ci_day ?inp = sv_fmt_day sv now" by (simp add: checkin_claim_def)
  have rows: "checkins ?d' = checkins d @ [?row]"
    by (simp add: claimed_def Let_def checkin_claim_def)
  have dist: "distinct (map (\<lambda>r. (ck_user_id r, ck_day r)) (checkins ?d'))"
    using once fresh by (auto simp: checkins_once_def rows same_day_def claim_row_def day)
  have find': "find (same_day v dy) (checkins ?d') =
      (if v = uid \<and> dy = sv_fmt_day sv now then Some ?row else find (same_day v dy) (checkins d))" for v dy
  proof (cases "v = uid \<and> dy = sv_fmt_day sv now")
    case True
    with fresh show ?thesis by (simp add: rows find_append_new day)
  next
    case False
    have "find P (xs @ [x]) = find P xs" if "\<not> P x" for P and xs :: "checkin_row list" and x
      using that by (induction xs) auto
    with False show ?thesis by (auto simp: rows day)
  qed
  have none: "find (same_day uid (sv_fmt_day sv now)) (checkins d) = None"
    using fresh by (simp add: find_None_iff)
  have base: "awards d uid (sv_fmt_day sv now) = []"
    using once [unfolded checkins_once_def, THEN conjunct2, THEN spec, THEN spec, of uid "sv_fmt_day sv now"]
    by (simp add: none)
  have "case find (same_day v dy) (checkins ?d') of
        None \<Rightarrow> awards ?d' v dy = []
      | Some r \<Rightarrow> \<exists>t. awards ?d' v dy = [t] \<and> ct_amount t = ck_awarded r \<and> ct_balance_after t = ck_balance_after r" for v dy
  proof (cases "v = uid \<and> dy = sv_fmt_day sv now")
    case True
    then show ?thesis
      using base by (simp add: find' awards_claimed claim_row_def) (simp add: checkin_claim_def)
  next
    case False
    then have f: "find (same_day v dy) (checkins ?d') = find (same_day v dy) (checkins d)"
      and a: "awards ?d' v dy = awards d v dy"
      by (auto simp: find' awards_claimed)
    show ?thesis unfolding f a using once by (simp add: checkins_once_def)
  qed
  with dist show ?thesis by (simp add: checkins_once_def)
qed

text \<open>What a check-in does to the database, for any driver behaviour.\<close>

lemma Checkin_db:
  assumes run: "Checkin sv (Some AwardCheckinTx) uid now s = (r, s')"
  obtains (unchanged) "fst s' = fst s"
  | (claimed) u where "\<forall>r \<in> set (checkins (fst s)). \<not> same_day uid (sv_fmt_day sv now) r"
      and "0 < rewardCredits sv" and "live uid (fst s) = Some u"
      and "fst s' = claimed uid (checkin_claim sv now) u (fst s)"
proof (cases "rewardCredits sv \<le> 0")
  case True
  then have "reads (Checkin sv (Some AwardCheckinTx) uid now)" by (auto simp: Checkin_def)
  from unchanged [OF readsD [OF this run]] show ?thesis .
next
  case False
  obtain rc sc where claim: "Claim (Some AwardCheckinTx) uid (checkin_claim sv now) s = (rc, sc)"
    by (rule prod.exhaust)
  with run False have s': "s' = sc"
    by (auto simp: Checkin_def bindE_def failE_def okE_def split: prod.splits sum.splits option.splits)
  from claim show ?thesis
  proof (cases rule: engine_checkin.Claim_db)
    case unchanged
    with s' show ?thesis by (intro that(1)) simp
  next
    case (claimed u)
    then show ?thesis using s' False by (intro that(2)) (auto simp: checkin_claim_def)
  qed
qed

lemma bill_step_checkins:
  fixes s :: "'a checkin_db_scheme sess"
  assumes once: "checkins_once (fst s)" and ok: "op_ok a s" and kind: "KindCheckin \<notin> op_kinds a"
  shows "checkins_once (fst (bill_step a s))"
proof -
  obtain r s' where run: "exec_op a s = (r, s')" by (rule prod.exhaust)
  from run ok have "checkins_once (fst s')"
  proof (cases rule: exec_op_posted)
    case (posted txs)
    have kinds: "\<forall>t \<in> set (txs b). ct_type t \<noteq> KindCheckin" for b
      using posted(2) kind unfolding explains_def by metis
    from posted(1) have c: "checkins (fst s') = checkins (fst s)"
      and r: "awards (fst s') v dy = awards (fst s) v dy" for v dy
      using kinds by (auto simp: posted_def awards_def filter_empty_conv)
    from once show ?thesis unfolding checkins_once_def c r .
  qed (use once in simp)
  with run show ?thesis by (simp add: bill_step_def)
qed

datatype checkin_op = CopCheckin checkin_service nat int | CopBill bill_op

fun checkin_step :: "checkin_op \<Rightarrow> 'a checkin_db_scheme sess \<Rightarrow> 'a checkin_db_scheme sess" where
  "checkin_step (CopCheckin sv uid now) s = snd (Checkin sv (Some AwardCheckinTx) uid now s)"
| "checkin_step (CopBill a) s = bill_step a s"

fun checkin_ok :: "checkin_op \<Rightarrow> 'a checkin_db_scheme sess \<Rightarrow> bool" where
  "checkin_ok (CopCheckin sv uid now) s = True"
| "checkin_ok (CopBill a) s = (op_ok a s \<and> KindCheckin \<notin> op_kinds a)"

interpretation checkin_inv: inv_system checkin_step checkin_ok "\<lambda>s. checkins_once (fst s)"
proof
  fix s :: "'a checkin_db_scheme sess" and a
  assume inv: "checkins_once (fst s)" and ok: "checkin_ok a s"
  show "checkins_once (fst (checkin_step a s))"
  proof (cases a)
    case (CopCheckin sv uid now)
    obtain r s' where run: "Checkin sv (Some AwardCheckinTx) uid now s = (r, s')" by (rule prod.exhaust)
    from run have "checkins_once (fst s')"
      by (cases rule: Checkin_db) (use inv in \<open>auto intro: claimed_once\<close>)
    with run CopCheckin show ?thesis by simp
  next
    case (CopBill b)
    with inv ok show ?thesis by (simp add: bill_step_checkins)
  qed
qed

section \<open>Evaluation on a responsive database\<close>

lemma Checkin_eval_again:
  assumes "find (same_day uid (sv_fmt_day sv now)) (checkins d) = Some r" and "0 < rewardCredits sv"
  shows "Checkin sv (Some w) uid now (d, []) = (Inr (claimed_status sv now r), (d, []))"
proof -
  from assms(1) have "\<exists>q \<in> set (checkins d). same_day uid (sv_fmt_day sv now) q"
    by (metis find_None_iff option.distinct(1))
  then have ins: "insert_checkin uid (checkin_claim sv now) d = (Inl EDuplicate, d)"
    by (simp add: insert_checkin_def checkin_claim_def)
  have get: "GetByDay uid (ci_day (checkin_claim sv now)) (d, []) = (Inr (Some r), (d, []))"
    using assms(1) by (simp add: GetByDay_def checkin_claim_def)
  have "Claim (Some w) uid (checkin_claim sv now) (d, []) = (Inr (Some r, False), (d, []))"
    by (simp add: Claim_def begin_tx_def ins bindE_def get okE_def)
  then show ?thesis using assms(2) by (simp add: Checkin_def bindE_def okE_def)
qed

lemma Checkin_eval_first:
  assumes fresh: "\<forall>r \<in> set (checkins d). \<not> same_day uid (sv_fmt_day sv now) r"
    and pos: "0 < rewardCredits sv" and u: "live uid d = Some u" "row_fits (move (rewardCredits sv) 0 u)"
  shows "Checkin sv (Some AwardCheckinTx) uid now (d, []) =
    (Inr (claimed_status sv now (claim_row uid (checkin_claim sv now) (credit_balance u + rewardCredits sv) (checkins_next d))),
     (claimed uid (checkin_claim sv now) u d, []))"
proof -
  let ?inp = "checkin_claim sv now"
  have inp: "ci_day ?inp = sv_fmt_day sv now" "ci_awarded ?inp = rewardCredits sv"
    by (simp_all add: checkin_claim_def)
  have live': "live uid (d\<lparr>checkins := cs, checkins_next := n\<rparr>) = Some u" for cs n
    using u(1) by simp
  have "Claim (Some AwardCheckinTx) uid ?inp (d, []) =
    (Inr (Some (claim_row uid ?inp (credit_balance u + rewardCredits sv) (checkins_next d)), True),
     (claimed uid ?inp u d, []))"
    using fresh pos u(2) live' award_new_row [of "checkins d" uid ?inp] find_append_new [OF fresh]
    by (simp add: Claim_def begin_tx_def insert_checkin_def inp AwardCheckinTx_def creditTx_eval
        bindE_def update_checkin_def GetByDay_def post_def claimed_def Let_def
        del: live_Some map_append list.map)
  then show ?thesis using pos by (simp add: Checkin_def bindE_def okE_def)
qed

section \<open>Properties\<close>

definition demo_service :: checkin_service where
  "demo_service = \<lparr>sv_reward = Some 20, sv_fmt_day = (\<lambda>t. dec_int (t div 10)), sv_fmt_time = dec_int\<rparr>"

definition demo_checkin_db :: checkin_db where
  "demo_checkin_db = \<lparr>users = [1 \<mapsto> demo_row 100 0 None], ledger = [], codes = [], codes_next = 1,
     checkins = [], checkins_next = 1\<rparr>"

lemma demo_checkin_facts:
  "checkins_once demo_checkin_db" "live 1 demo_checkin_db = Some (demo_row 100 0 None)"
  "checkins demo_checkin_db = []" "rewardCredits demo_service = 20"
  by (simp_all add: checkins_once_def awards_def demo_checkin_db_def demo_row_def rewardCredits_def demo_service_def)

text \<open>
  C5. Over any sequence of check-ins (by any users, at any times, with any reward setting) mixed with
  billing operations, under any driver faults, a user has at most one check-in row per local day, and
  the ledger holds exactly the award that row records: never two awards for one day, never an award
  without its row, never a row without its award.
\<close>

theorem checkins_pay_once_a_day:
  assumes "checkins_once (fst s)" and "admissible_run checkin_ok checkin_step as s"
  shows "checkins_once (fst (fold checkin_step as s))"
  using assms by (rule checkin_inv.run_inv)

theorem checkins_pay_once_a_day_witness:
  "checkins_once (fst (fold checkin_step
     [CopCheckin demo_service 1 17, CopBill (OpPreDeduct 1 2 10 ''r'' ''x''), CopCheckin demo_service 1 18]
     (demo_checkin_db, [DOk, DOk, DOk, DOk, DOk, DOk, DLost])))"
  by (rule checkins_pay_once_a_day) (simp_all add: demo_checkin_facts)

text \<open>
  The first check-in of the day credits exactly the reward and reports the new balance; repeating
  it at any later instant of the same day reports the very same award and changes nothing.
\<close>

theorem checkin_then_idempotent:
  assumes fresh: "\<forall>r \<in> set (checkins d). \<not> same_day uid (sv_fmt_day sv now) r"
    and "0 < rewardCredits sv" and "live uid d = Some u" and "row_fits (move (rewardCredits sv) 0 u)"
    and day: "sv_fmt_day sv later = sv_fmt_day sv now"
  shows "\<exists>st d'. Checkin sv (Some AwardCheckinTx) uid now (d, []) = (Inr st, (d', [])) \<and>
           st_awarded st = rewardCredits sv \<and> st_balance_after st = credit_balance u + rewardCredits sv \<and>
           users d' uid = Some (move (rewardCredits sv) 0 u) \<and>
           Checkin sv (Some AwardCheckinTx) uid later (d', []) = (Inr st, (d', []))"
proof -
  let ?d = "claimed uid (checkin_claim sv now) u d"
  let ?r = "claim_row uid (checkin_claim sv now) (credit_balance u + rewardCredits sv) (checkins_next d)"
  have rows: "checkins ?d = checkins d @ [?r]" by (simp add: claimed_def Let_def checkin_claim_def)
  have found: "find (same_day uid (sv_fmt_day sv later)) (checkins ?d) = Some ?r"
    unfolding rows day using find_append_new [OF fresh] by (simp add: checkin_claim_def)
  have again: "claimed_status sv later ?r = claimed_status sv now ?r" by (simp add: claimed_status_def day)
  show ?thesis
    using Checkin_eval_first [OF assms(1-4)] Checkin_eval_again [OF found assms(2)] again
    by (auto simp: claimed_def Let_def checkin_claim_def claimed_status_def claim_row_def)
qed

theorem checkin_then_idempotent_witness:
  "\<exists>st d'. Checkin demo_service (Some AwardCheckinTx) 1 11 (demo_checkin_db, []) = (Inr st, (d', [])) \<and>
     st_balance_after st = 120 \<and>
     Checkin demo_service (Some AwardCheckinTx) 1 19 (d', []) = (Inr st, (d', []))"
  using checkin_then_idempotent [OF _ _ demo_checkin_facts(2), of demo_service 11 19]
  by (simp add: demo_checkin_facts demo_row_def row_fits_def in_i64_def) (auto simp: demo_service_def)

end
