(* ===== verification/Md5.thy ===== *)
theory Md5
  imports Go_Base "HOL-Library.Word"
begin

text \<open>
  \<open>crypto/md5\<close> (RFC 1321), the digest the payment gateway's signature uses: 32-bit words with
  wrap-around addition, 64 rounds per 64-byte block, little-endian length padding.
\<close>

unbundle bit_operations_syntax

type_synonym u32 = "32 word"

definition md5_K :: "u32 list" where
  "md5_K =
    [0xd76aa478, 0xe8c7b756, 0x242070db, 0xc1bdceee,
     0xf57c0faf, 0x4787c62a, 0xa8304613, 0xfd469501,
     0x698098d8, 0x8b44f7af, 0xffff5bb1, 0x895cd7be,
     0x6b901122, 0xfd987193, 0xa679438e, 0x49b40821,
     0xf61e2562, 0xc040b340, 0x265e5a51, 0xe9b6c7aa,
     0xd62f105d, 0x02441453, 0xd8a1e681, 0xe7d3fbc8,
     0x21e1cde6, 0xc33707d6, 0xf4d50d87, 0x455a14ed,
     0xa9e3e905, 0xfcefa3f8, 0x676f02d9, 0x8d2a4c8a,
     0xfffa3942, 0x8771f681, 0x6d9d6122, 0xfde5380c,
     0xa4beea44, 0x4bdecfa9, 0xf6bb4b60, 0xbebfbc70,
     0x289b7ec6, 0xeaa127fa, 0xd4ef3085, 0x04881d05,
     0xd9d4d039, 0xe6db99e5, 0x1fa27cf8, 0xc4ac5665,
     0xf4292244, 0x432aff97, 0xab9423a7, 0xfc93a039,
     0x655b59c3, 0x8f0ccc92, 0xffeff47d, 0x85845dd1,
     0x6fa87e4f, 0xfe2ce6e0, 0xa3014314, 0x4e0811a1,
     0xf7537e82, 0xbd3af235, 0x2ad7d2bb, 0xeb86d391]"

definition md5_S :: "nat list" where
  "md5_S = concat (map (\<lambda>r. concat (replicate 4 r)) [[7, 12, 17, 22], [5, 9, 14, 20], [4, 11, 16, 23], [6, 10, 15, 21]])"

definition rotl32 :: "nat \<Rightarrow> u32 \<Rightarrow> u32" where
  "rotl32 n x = (push_bit n x) OR (drop_bit (32 - n) x)"

text \<open>One round: the mixing function and the message word depend on the round number.\<close>

definition md5_round :: "u32 list \<Rightarrow> nat \<Rightarrow> u32 \<times> u32 \<times> u32 \<times> u32 \<Rightarrow> u32 \<times> u32 \<times> u32 \<times> u32" where
  "md5_round M i = (\<lambda>(a, b, c, d).
     let (f, g) = (if i < 16 then ((b AND c) OR (NOT b AND d), i)
                   else if i < 32 then ((d AND b) OR (NOT d AND c), (5 * i + 1) mod 16)
                   else if i < 48 then (b XOR c XOR d, (3 * i + 5) mod 16)
                   else (c XOR (b OR NOT d), (7 * i) mod 16)) in
     (d, b + rotl32 (md5_S ! i) (a + f + md5_K ! i + M ! g), b, c))"

definition le_bytes :: "nat \<Rightarrow> int \<Rightarrow> nat list" where
  "le_bytes k n = map (\<lambda>i. nat (n div 256 ^ i mod 256)) [0..<k]"

fun le_word :: "nat list \<Rightarrow> int" where
  "le_word [] = 0"
| "le_word (b # bs) = int b + 256 * le_word bs"

fun chunks :: "nat \<Rightarrow> 'a list \<Rightarrow> 'a list list" where
  "chunks k xs = (if k = 0 \<or> xs = [] then [] else take k xs # chunks k (drop k xs))"

declare chunks.simps [simp del]

definition md5_block :: "nat list \<Rightarrow> u32 \<times> u32 \<times> u32 \<times> u32 \<Rightarrow> u32 \<times> u32 \<times> u32 \<times> u32" where
  "md5_block blk h =
     (let M = map (\<lambda>w. word_of_int (le_word w)) (chunks 4 blk);
          (a0, b0, c0, d0) = h;
          (a, b, c, d) = fold (md5_round M) [0..<64] h in
      (a0 + a, b0 + b, c0 + c, d0 + d))"

definition md5_pad :: "nat list \<Rightarrow> nat list" where
  "md5_pad bs = bs @ [128] @ replicate ((119 - length bs mod 64) mod 64) 0 @ le_bytes 8 (8 * int (length bs))"

lemma md5_pad_length: "64 dvd length (md5_pad bs)"
proof -
  define r where "r = length bs mod 64"
  have "r < 64" by (simp add: r_def)
  have "(r + 1 + (119 - r) mod 64 + 8) mod 64 = 0"
  proof (cases "r \<le> 55")
    case True
    then have "(119 - r) mod 64 = (55 - r) mod 64" using mod_add_self2 [of "55 - r" 64] by simp
    also have "\<dots> = 55 - r" by simp
    finally show ?thesis using True by simp
  next
    case False
    then have "(119 - r) mod 64 = 119 - r" by simp
    then have "r + 1 + (119 - r) mod 64 + 8 = 128" using \<open>r < 64\<close> by simp
    then show ?thesis by simp
  qed
  moreover have "length (md5_pad bs) = length bs + (1 + (119 - r) mod 64 + 8)"
    by (simp add: md5_pad_def le_bytes_def r_def)
  moreover have "(length bs + x) mod 64 = (r + x) mod 64" for x
    unfolding r_def by (rule mod_add_left_eq [symmetric])
  ultimately show ?thesis by (simp only: dvd_eq_mod_eq_0 add.assoc)
qed

lemma le_bytes_props: "length (le_bytes k n) = k" "b \<in> set (le_bytes k n) \<Longrightarrow> b < 256"
  by (auto simp: le_bytes_def nat_less_iff)

definition md5_out :: "u32 \<times> u32 \<times> u32 \<times> u32 \<Rightarrow> nat list" where
  "md5_out = (\<lambda>(a, b, c, d). concat (map (\<lambda>w. le_bytes 4 (uint w)) [a, b, c, d]))"

definition md5_Sum :: "string \<Rightarrow> nat list" where
  "md5_Sum s = md5_out (fold md5_block (chunks 64 (md5_pad (map byte_val s)))
     (0x67452301, 0xefcdab89, 0x98badcfe, 0x10325476))"

lemma length_md5_Sum [simp]: "length (md5_Sum s) = 16"
proof -
  have "length (md5_out h) = 16" for h by (cases h) (simp add: md5_out_def le_bytes_props)
  then show ?thesis unfolding md5_Sum_def .
qed

lemma md5_Sum_bytes: "b \<in> set (md5_Sum s) \<Longrightarrow> b < 256"
proof -
  have "b \<in> set (md5_out h) \<Longrightarrow> b < 256" for h by (cases h) (auto simp: md5_out_def le_bytes_props)
  then show "b \<in> set (md5_Sum s) \<Longrightarrow> b < 256" unfolding md5_Sum_def .
qed

end
