(* ===== verification/Epay.thy ===== *)
theory Epay
  imports Go_Float Md5
begin

text \<open>
  The payment gateway's protocol (pkg/epay) and the amount check of the recharge service: MD5
  signatures over the sorted non-empty parameters, the parameters of the payment URL, the parsing of
  a notification, and the comparison of a decimal amount in yuan with an integer amount in fen.
  A Go \<open>map[string]string\<close> is a list of pairs with distinct keys, whose order is the
  (unspecified) iteration order; \<open>sort.Strings\<close> is the bytewise lexicographic sort.
\<close>

section \<open>Signatures\<close>

record signer =
  sg_pid :: string
  sg_key :: string
  sg_type :: string

definition NewSigner :: "string \<Rightarrow> string \<Rightarrow> string \<Rightarrow> signer" where
  "NewSigner pid key signType =
     \<lparr>sg_pid = pid, sg_key = key, sg_type = (if signType = '''' then ''MD5'' else signType)\<rparr>"

type_synonym params = "(string \<times> string) list"

definition get_param :: "params \<Rightarrow> string \<Rightarrow> string" where
  "get_param ps k = (case map_of ps k of None \<Rightarrow> '''' | Some v \<Rightarrow> v)"

definition sign_keys :: "params \<Rightarrow> string list" where
  "sign_keys ps = map fst (filter (\<lambda>(k, v). k \<noteq> ''sign'' \<and> k \<noteq> ''sign_type'' \<and> v \<noteq> '''') ps)"

fun join_with :: "char \<Rightarrow> string list \<Rightarrow> string" where
  "join_with c [] = []"
| "join_with c [x] = x"
| "join_with c (x # xs) = x @ c # join_with c xs"

definition sign_body :: "signer \<Rightarrow> params \<Rightarrow> string" where
  "sign_body s ps =
     join_with CHR ''&'' (map (\<lambda>k. k @ CHR ''='' # get_param ps k) (sort (sign_keys ps))) @ sg_key s"

definition Sign :: "signer \<Rightarrow> params \<Rightarrow> string" where
  "Sign s ps = EncodeToString (md5_Sum (sign_body s ps))"

definition Verify :: "signer \<Rightarrow> params \<Rightarrow> string \<Rightarrow> bool" where
  "Verify s ps got \<longleftrightarrow> got \<noteq> '''' \<and> EqualFold (Sign s ps) got"

section \<open>Amounts\<close>

text \<open>\<open>strconv.FormatFloat(x, 'f', 2, 64)\<close> for a non-negative value.\<close>

definition fmt_fen :: "int \<Rightarrow> string" where
  "fmt_fen n = dec_nat (nat (n div 100)) @
     [CHR ''.'', digit_char (nat (n mod 100 div 10)), digit_char (nat (n mod 10))]"

definition FormatFloat2 :: "rat \<Rightarrow> string" where
  "FormatFloat2 x = (if x < 0 then CHR ''-'' # fmt_fen (rhe (- x * 100)) else fmt_fen (rhe (x * 100)))"

text \<open>
  \<open>fmt.Sscanf(money, "%f", &f)\<close>: leading blanks, a sign, digits with at most one point, a decimal
  exponent; what follows is ignored. Hexadecimal and binary-exponent floats are not recognised here.
\<close>

definition scan_sign :: "string \<Rightarrow> bool \<times> string" where
  "scan_sign s = (case s of [] \<Rightarrow> (False, [])
     | c # cs \<Rightarrow> if c = CHR ''-'' then (True, cs) else if c = CHR ''+'' then (False, cs) else (False, s))"

definition scan_exp :: "string \<Rightarrow> int option" where
  "scan_exp s = (case s of [] \<Rightarrow> Some 0
     | c # cs \<Rightarrow> if c \<noteq> CHR ''e'' \<and> c \<noteq> CHR ''E'' then Some 0
                 else let (neg, ds) = scan_sign cs; t = takeWhile is_digit ds in
                      if t = [] then None
                      else map_option (\<lambda>n. if neg then - int n else int n) (parse_digits 0 t))"

definition Sscanf_f :: "string \<Rightarrow> rat option" where
  "Sscanf_f s0 =
     (let (neg, s) = scan_sign (dropWhile (\<lambda>c. is_space c \<and> byte_val c \<noteq> 10) s0);
          ip = takeWhile is_digit s; r1 = dropWhile is_digit s;
          (fp, r2) = (case r1 of [] \<Rightarrow> ([], []) | c # cs \<Rightarrow>
                        if c = CHR ''.'' then (takeWhile is_digit cs, dropWhile is_digit cs) else ([], r1)) in
      if ip @ fp = [] then None
      else case (parse_digits 0 (ip @ fp), scan_exp r2) of
             (Some n, Some e) \<Rightarrow>
               (let v = rnd64 (of_nat n / 10 ^ length fp * 10 powi e) in Some (if neg then - v else v))
           | _ \<Rightarrow> None)"

definition verifyAmount :: "string \<Rightarrow> int \<Rightarrow> unit result" where
  "verifyAmount money wantFen =
     (case Sscanf_f money of
        None \<Rightarrow> Inl (EMsg ''invalid money'')
      | Some f \<Rightarrow>
          let got = to_i64 (rnd64 (rnd64 (f * 100) + 1/2)) in
          if got \<noteq> wantFen then Inl (EMsg ''amount mismatch'') else Inr ())"

section \<open>Payment URL\<close>

text \<open>A write to a map replaces the value of the key.\<close>

definition put_param :: "string \<Rightarrow> string \<Rightarrow> params \<Rightarrow> params" where
  "put_param k v ps = (k, v) # filter (\<lambda>(k', _). k' \<noteq> k) ps"

definition pay_params ::
  "signer \<Rightarrow> string \<Rightarrow> string \<Rightarrow> int \<Rightarrow> string \<Rightarrow> string \<Rightarrow> params \<Rightarrow> params" where
  "pay_params s outTradeNo name priceCNYFen notifyURL returnURL extra =
     (let money = FormatFloat2 (rnd64 (rnd64 (of_int priceCNYFen) / 100));
          p = [(''pid'', sg_pid s), (''out_trade_no'', outTradeNo), (''name'', name), (''money'', money),
               (''notify_url'', notifyURL), (''return_url'', returnURL), (''sign_type'', sg_type s)];
          p = fold (\<lambda>(k, v) p. if v \<noteq> '''' \<and> k \<noteq> ''sign'' \<and> k \<noteq> ''sign_type'' then put_param k v p else p) extra p in
      put_param ''sign'' (Sign s p) p)"

text \<open>
  The last step parses the gateway URL and encodes the query (\<open>net/url\<close>); the parsing may fail
  on the configured URL, so the rendering is a parameter.
\<close>

definition BuildPayURL ::
  "(string \<Rightarrow> params \<Rightarrow> string result) \<Rightarrow> signer \<Rightarrow> string \<Rightarrow> string \<Rightarrow> string \<Rightarrow> int \<Rightarrow>
   string \<Rightarrow> string \<Rightarrow> params \<Rightarrow> string result" where
  "BuildPayURL render s gatewayURL outTradeNo name priceCNYFen notifyURL returnURL extra =
     (if gatewayURL = '''' then Inl (EMsg ''epay: gateway url empty'')
      else render gatewayURL (pay_params s outTradeNo name priceCNYFen notifyURL returnURL extra))"

section \<open>Notifications\<close>

record notify_payload =
  np_out_trade_no :: string
  np_trade_no :: string
  np_trade_status :: string
  np_name :: string
  np_money :: string
  np_type :: string
  np_raw :: params

type_synonym form = "(string \<times> string list) list"

definition form_get :: "string list \<Rightarrow> string" where
  "form_get vs = (case vs of [] \<Rightarrow> '''' | v # _ \<Rightarrow> v)"

definition form_params :: "form \<Rightarrow> params" where
  "form_params f = map (\<lambda>(k, vs). (k, form_get vs)) f"

definition ParseNotify :: "signer \<Rightarrow> form \<Rightarrow> notify_payload result" where
  "ParseNotify s f =
     (let ps = form_params f; sign = get_param ps ''sign'' in
      if \<not> Verify s ps sign then Inl ErrInvalidSign
      else Inr \<lparr>np_out_trade_no = get_param ps ''out_trade_no'', np_trade_no = get_param ps ''trade_no'',
                np_trade_status = get_param ps ''trade_status'', np_name = get_param ps ''name'',
                np_money = get_param ps ''money'', np_type = get_param ps ''type'', np_raw = ps\<rparr>)"

section \<open>The signature is a function of the parameters, not of their order\<close>

lemma get_param_order:
  assumes "distinct (map fst ps)" and "distinct (map fst qs)" and "set ps = set qs"
  shows "get_param ps k = get_param qs k"
  using map_of_inject_set [OF assms(1,2)] assms(3) by (simp add: get_param_def)

lemma Sign_order:
  assumes "distinct (map fst ps)" and "distinct (map fst qs)" and "set ps = set qs"
  shows "Sign s ps = Sign s qs"
proof -
  have d: "distinct (sign_keys ps)" "distinct (sign_keys qs)"
    using assms(1,2) by (simp_all add: sign_keys_def distinct_map_filter)
  have "set (sign_keys ps) = set (sign_keys qs)" using assms(3) by (simp add: sign_keys_def)
  then have "sort (sign_keys ps) = sort (sign_keys qs)"
    using d by (metis sorted_list_of_set_sort_remdups distinct_remdups_id)
  then show ?thesis using get_param_order [OF assms] by (simp add: Sign_def sign_body_def)
qed

lemma Sign_nonempty: "Sign s ps \<noteq> ''''"
proof -
  have "length (Sign s ps) = 32" by (simp add: Sign_def)
  then show ?thesis by auto
qed

text \<open>Setting the signature does not change what is signed.\<close>

lemma Sign_put_sign:
  assumes "distinct (map fst ps)"
  shows "Sign s (put_param ''sign'' v ps) = Sign s ps"
proof -
  have "sign_keys (put_param ''sign'' v ps) = sign_keys ps"
    by (auto simp: sign_keys_def put_param_def intro!: arg_cong [where f = "map fst"] filter_cong)
  moreover have "get_param (put_param ''sign'' v ps) k = get_param ps k" if "k \<noteq> ''sign''" for k
  proof -
    have "map_of (filter (\<lambda>(k', _). k' \<noteq> ''sign'') ps) k = map_of ps k" using that by (induction ps) auto
    with that show ?thesis by (simp add: get_param_def put_param_def)
  qed
  moreover have "k \<noteq> ''sign''" if "k \<in> set (sort (sign_keys ps))" for k
    using that by (auto simp: sign_keys_def)
  ultimately have "map (\<lambda>k. k @ CHR ''='' # get_param (put_param ''sign'' v ps) k) (sort (sign_keys ps)) =
      map (\<lambda>k. k @ CHR ''='' # get_param ps k) (sort (sign_keys ps))"
    by (intro map_cong) auto
  with \<open>sign_keys _ = _\<close> show ?thesis by (simp only: Sign_def sign_body_def)
qed

section \<open>Amounts survive the round trip\<close>

lemma rnd64_close:
  assumes "0 \<le> x" and "x = 0 \<or> 1/1000 \<le> x" and "x < 2 ^ 41"
  shows "\<bar>rnd64 x - x\<bar> \<le> 1 / 2 ^ 12"
proof (cases "x = 0")
  case False
  then have "1/1000 \<le> x" using assms(2) by simp
  moreover have "2 powi (-1022) \<le> (1/1000 :: rat)" by simp
  ultimately have "\<bar>rnd64 x - x\<bar> \<le> x / 2 ^ 53" using assms(1) False by (intro rnd64_error) linarith+
  also have "\<dots> \<le> 1 / 2 ^ 12" using assms(3) by (simp add: field_simps)
  finally show ?thesis .
qed simp

lemma fen_float_close:
  assumes "0 \<le> n" and "n < 2 ^ 40"
  shows "\<bar>rnd64 (of_int n / 100) * 100 - of_int n\<bar> \<le> 1/40"
proof -
  have "n = 0 \<or> 1 \<le> n" using assms(1) by linarith
  then have "(of_int n :: rat) = 0 \<or> 1 \<le> (of_int n :: rat)" by auto
  moreover have "(of_int n :: rat) < of_int (2 ^ 40)" using assms(2) by (simp only: of_int_less_iff)
  ultimately have "\<bar>rnd64 (of_int n / 100) - of_int n / 100\<bar> \<le> 1 / 2 ^ 12"
    using assms(1) by (intro rnd64_close) auto
  moreover have "(1 :: rat) / 2 ^ 12 \<le> 1/4000" by simp
  ultimately show ?thesis by linarith
qed

lemma rhe_near: "\<bar>x - of_int n\<bar> < 1/2 \<Longrightarrow> rhe x = n"
proof -
  assume near: "\<bar>x - of_int n\<bar> < 1/2"
  have "\<bar>of_int (rhe x) - (of_int n :: rat)\<bar> < 1" using near rhe_error [of x] by linarith
  then have "\<bar>of_int (rhe x - n)\<bar> < (1 :: rat)" by simp
  then have "\<bar>rhe x - n\<bar> < 1" by linarith
  then show ?thesis by linarith
qed

lemma FormatFloat2_fen:
  assumes "0 \<le> n" and "n < 2 ^ 40"
  shows "FormatFloat2 (rnd64 (rnd64 (of_int n) / 100)) = fmt_fen n"
proof -
  have i: "rnd64 (of_int n) = of_int n" using rnd64_int [of n] assms by simp
  have "0 \<le> rnd64 (of_int n / 100)" using assms(1) by (intro rnd64_nonneg) simp
  moreover have "rhe (rnd64 (of_int n / 100) * 100) = n"
    using fen_float_close [OF assms] by (intro rhe_near) linarith
  ultimately show ?thesis by (simp add: FormatFloat2_def i)
qed

lemma takeWhile_digits:
  assumes "\<And>c. c \<in> set a \<Longrightarrow> is_digit c" and "\<not> is_digit x"
  shows "takeWhile is_digit (a @ x # b) = a" and "dropWhile is_digit (a @ x # b) = x # b"
  using assms by (induction a) auto

lemma parse_two_digits:
  "a < 10 \<Longrightarrow> b < 10 \<Longrightarrow> parse_digits acc [digit_char a, digit_char b] = Some ((acc * 10 + a) * 10 + b)"
  by (simp add: is_digit_digit_char code_digit_char)

lemma Sscanf_f_fen:
  assumes "0 \<le> n"
  shows "Sscanf_f (fmt_fen n) = Some (rnd64 (of_int n / 100))"
proof -
  let ?ip = "dec_nat (nat (n div 100))"
  let ?d1 = "digit_char (nat (n mod 100 div 10))" and ?d2 = "digit_char (nat (n mod 10))"
  have dig: "is_digit ?d1" "is_digit ?d2" by (auto intro!: is_digit_digit_char)
  obtain c cs where c: "?ip = c # cs" "is_digit c"
    by (metis dec_nat_digits dec_nat_nonempty list.set_intros(1) neq_Nil_conv)
  then have nb: "c \<noteq> CHR ''-''" "c \<noteq> CHR ''+''" "\<not> is_space c"
    by (auto simp: is_digit_def is_space_def byte_val_def)
  have dot: "\<not> is_digit CHR ''.''" by (simp add: is_digit_def byte_val_def)
  have s: "scan_sign (dropWhile (\<lambda>c. is_space c \<and> byte_val c \<noteq> 10) (fmt_fen n)) = (False, fmt_fen n)"
    using c nb by (simp add: fmt_fen_def scan_sign_def)
  have tw: "takeWhile is_digit (fmt_fen n) = ?ip" "dropWhile is_digit (fmt_fen n) = [CHR ''.'', ?d1, ?d2]"
    unfolding fmt_fen_def using takeWhile_digits [OF dec_nat_digits dot] by simp_all
  have "int (nat (n div 100) * 100 + nat (n mod 100 div 10) * 10 + nat (n mod 10)) = int (nat n)"
  proof -
    have "0 \<le> n div 100" "0 \<le> n mod 100 div 10" "0 \<le> n mod 10" using assms by (simp_all add: pos_imp_zdiv_nonneg_iff)
    moreover have "n mod 100 mod 10 = n mod 10" by (rule mod_mod_cancel) simp
    then have "n div 100 * 100 + n mod 100 div 10 * 10 + n mod 10 = n"
      using div_mult_mod_eq [of n 100] div_mult_mod_eq [of "n mod 100" 10] by linarith
    ultimately show ?thesis using assms by simp
  qed
  then have sum: "nat (n div 100) * 100 + nat (n mod 100 div 10) * 10 + nat (n mod 10) = nat n"
    by (rule of_nat_eq_iff [THEN iffD1])
  have pd: "parse_digits 0 (?ip @ [?d1, ?d2]) = Some (nat n)"
  proof -
    have "nat (n mod 100 div 10) < 10" "nat (n mod 10) < 10" by simp_all
    then have "parse_digits 0 (?ip @ [?d1, ?d2]) =
        Some ((nat (n div 100) * 10 + nat (n mod 100 div 10)) * 10 + nat (n mod 10))"
      by (simp only: parse_digits_append parse_dec_nat Option.bind.simps parse_two_digits)
    also have "(nat (n div 100) * 10 + nat (n mod 100 div 10)) * 10 + nat (n mod 10) = nat n"
      unfolding sum [symmetric] by (simp only: add_mult_distrib mult.assoc numeral_times_numeral arith_simps)
    finally show ?thesis .
  qed
  show ?thesis
    using dig pd assms by (simp add: Sscanf_f_def s tw scan_exp_def)
qed

lemma got_fen:
  assumes "0 \<le> n" and "n < 2 ^ 40"
  shows "to_i64 (rnd64 (rnd64 (rnd64 (of_int n / 100) * 100) + 1/2)) = n"
proof -
  let ?f = "rnd64 (of_int n / 100)"
  have nb: "(of_int n :: rat) < of_int (2 ^ 40)" using assms(2) by (simp only: of_int_less_iff)
  have f0: "0 \<le> ?f" using assms(1) by (intro rnd64_nonneg) simp
  have close: "\<bar>?f * 100 - of_int n\<bar> \<le> 1/40" by (rule fen_float_close [OF assms])
  have "n = 0 \<or> 1 \<le> (of_int n :: rat)" using assms(1) by linarith
  then have sep: "?f * 100 = 0 \<or> 1/1000 \<le> ?f * 100" using close by auto
  have c1: "\<bar>rnd64 (?f * 100) - ?f * 100\<bar> \<le> 1 / 2 ^ 12"
  proof (rule rnd64_close)
    have "of_int (2 ^ 40) + (1/40 :: rat) < 2 ^ 41" by simp
    then show "?f * 100 < 2 ^ 41" using close nb by linarith
  qed (use f0 sep in simp_all)
  have p1: "0 \<le> rnd64 (?f * 100)" using f0 by (intro rnd64_nonneg) simp
  have c2: "\<bar>rnd64 (rnd64 (?f * 100) + 1/2) - (rnd64 (?f * 100) + 1/2)\<bar> \<le> 1 / 2 ^ 12"
  proof (rule rnd64_close)
    have "of_int (2 ^ 40) + (1/40 :: rat) + 1 / 2 ^ 12 + 1/2 < 2 ^ 41" by simp
    then show "rnd64 (?f * 100) + 1/2 < 2 ^ 41" using close c1 nb by linarith
  qed (use p1 in simp_all)
  let ?g = "rnd64 (rnd64 (?f * 100) + 1/2)"
  have g: "of_int n \<le> ?g" "?g < of_int n + 1"
  proof -
    have e: "(1 :: rat) / 2 ^ 12 \<le> 1/4000" by simp
    show "of_int n \<le> ?g" "?g < of_int n + 1" using close c1 c2 e by linarith+
  qed
  then have "\<lfloor>?g\<rfloor> = n" by (intro floor_unique) auto
  moreover have "0 \<le> ?g" using g(1) assms(1) by (meson of_int_0_le_iff order_trans)
  moreover have "?g < 2 ^ 63" using g(2) nb by simp
  ultimately show ?thesis using to_i64_nonneg [of ?g] by simp
qed

section \<open>Properties\<close>

text \<open>
  The signature does not depend on the order in which Go iterates the parameter map, nor on
  parameters without a value, nor on a signature already present: two maps that agree on the
  non-empty signed parameters get the same signature.
\<close>

theorem sign_depends_on_content:
  assumes "distinct (map fst ps)" and "distinct (map fst qs)"
    and "\<forall>k v. k \<noteq> ''sign'' \<and> k \<noteq> ''sign_type'' \<and> v \<noteq> '''' \<longrightarrow> ((k, v) \<in> set ps \<longleftrightarrow> (k, v) \<in> set qs)"
  shows "Sign s ps = Sign s qs"
proof -
  let ?f = "filter (\<lambda>(k, v). k \<noteq> ''sign'' \<and> k \<noteq> ''sign_type'' \<and> v \<noteq> '''')"
  have keys: "sign_keys (?f rs) = sign_keys rs" for rs :: params by (simp add: sign_keys_def)
  have get: "get_param (?f rs) k = get_param rs k"
    if "distinct (map fst rs)" and "k \<in> set (sort (sign_keys rs))" for rs :: params and k
  proof -
    from that(2) obtain v where kv: "(k, v) \<in> set (?f rs)" by (auto simp: sign_keys_def)
    moreover have "distinct (map fst (?f rs))" using that(1) by (rule distinct_map_filter)
    ultimately have "map_of (?f rs) k = Some v" by (rule map_of_is_SomeI [rotated])
    moreover have "map_of rs k = Some v" using kv that(1) by (intro map_of_is_SomeI) auto
    ultimately show ?thesis by (simp add: get_param_def)
  qed
  have "Sign s (?f rs) = Sign s rs" if "distinct (map fst rs)" for rs :: params
  proof -
    have "map (\<lambda>k. k @ CHR ''='' # get_param (?f rs) k) (sort (sign_keys rs)) =
        map (\<lambda>k. k @ CHR ''='' # get_param rs k) (sort (sign_keys rs))"
      by (rule map_cong [OF refl]) (simp add: get [OF that])
    then show ?thesis by (simp only: Sign_def sign_body_def keys)
  qed
  moreover have "Sign s (?f ps) = Sign s (?f qs)"
  proof (rule Sign_order)
    show "distinct (map fst (?f ps))" "distinct (map fst (?f qs))"
      using assms(1,2) by (simp_all add: distinct_map_filter)
    have "x \<in> set (?f ps) \<longleftrightarrow> x \<in> set (?f qs)" for x using assms(3) by (cases x) (simp, blast)
    then show "set (?f ps) = set (?f qs)" by blast
  qed
  ultimately show ?thesis using assms(1,2) by simp
qed

theorem sign_depends_on_content_witness:
  "Sign (NewSigner ''1000'' ''secret'' '''') [(''b'', ''2''), (''a'', ''1''), (''sign'', ''x'')] =
   Sign (NewSigner ''1000'' ''secret'' '''') [(''a'', ''1''), (''c'', ''''), (''b'', ''2'')]"
  by (rule sign_depends_on_content) (simp, simp, fastforce)

text \<open>
  What the gateway signs is accepted: a notification carrying the signature of its own parameters,
  in lower or upper case, is parsed, and the payload holds exactly its fields.
\<close>

theorem signed_notification_accepted:
  assumes "distinct (map fst f)" and "get_param (form_params f) ''sign'' \<in> {Sign s (form_params f), ToUpper (Sign s (form_params f))}"
  shows "\<exists>pl. ParseNotify s f = Inr pl \<and> np_raw pl = form_params f \<and>
           np_out_trade_no pl = get_param (form_params f) ''out_trade_no'' \<and>
           np_money pl = get_param (form_params f) ''money''"
proof -
  let ?S = "Sign s (form_params f)"
  have low: "lower_char (upper_char c) = lower_char c" for c
  proof (cases "97 \<le> byte_val c \<and> byte_val c \<le> 122")
    case True
    then have "byte_val c - 32 < 256" by arith
    then have u: "byte_val (upper_char c) = byte_val c - 32" using True by (simp add: upper_char_def)
    have "lower_char (upper_char c) = char_of (byte_val c)"
      unfolding lower_char_def u using True by auto
    moreover have "lower_char c = c" using True by (simp add: lower_char_def)
    ultimately show ?thesis by (simp add: byte_val_def)
  qed (auto simp: upper_char_def)
  have "ToUpper ?S \<noteq> ''''" "?S \<noteq> ''''" using Sign_nonempty by (auto simp: ToUpper_def)
  moreover have "ToLower (ToUpper ?S) = ToLower ?S" by (simp add: ToLower_def ToUpper_def low)
  ultimately show ?thesis using assms(2) by (auto simp: ParseNotify_def Verify_def EqualFold_def Let_def)
qed

definition demo_signer :: signer where
  "demo_signer = NewSigner ''1000'' ''secret'' ''''"

definition demo_form :: form where
  "demo_form =
     (let f = [(''out_trade_no'', [''ab12'']), (''trade_no'', [''T1'']), (''trade_status'', [''TRADE_SUCCESS'']),
               (''name'', [''P'']), (''money'', [''19.90'']), (''type'', [''alipay''])] in
      f @ [(''sign'', [Sign demo_signer (form_params f)])])"

lemma demo_form_sign:
  "get_param (form_params demo_form) ''sign'' = Sign demo_signer (form_params demo_form)"
proof -
  let ?f = "[(''out_trade_no'', [''ab12'']), (''trade_no'', [''T1'']), (''trade_status'', [''TRADE_SUCCESS'']),
               (''name'', [''P'']), (''money'', [''19.90'']), (''type'', [''alipay''])]"
  let ?ps = "form_params ?f"
  have fp: "form_params demo_form = ?ps @ [(''sign'', Sign demo_signer ?ps)]"
    by (simp add: demo_form_def form_params_def form_get_def)
  have st: "set (form_params demo_form) = set (put_param ''sign'' (Sign demo_signer ?ps) ?ps)"
    unfolding fp by (auto simp: put_param_def form_params_def)
  have d: "distinct (map fst (form_params demo_form))" "distinct (map fst (put_param ''sign'' (Sign demo_signer ?ps) ?ps))"
    unfolding fp by (simp_all add: put_param_def form_params_def)
  have "Sign demo_signer (form_params demo_form) = Sign demo_signer (put_param ''sign'' (Sign demo_signer ?ps) ?ps)"
    by (rule Sign_order [OF d st])
  also have "\<dots> = Sign demo_signer ?ps" by (rule Sign_put_sign) (simp add: form_params_def)
  moreover have "get_param (form_params demo_form) ''sign'' = Sign demo_signer ?ps"
    unfolding fp by (simp add: get_param_def form_params_def)
  ultimately show ?thesis by simp
qed

theorem signed_notification_accepted_witness:
  "\<exists>pl. ParseNotify demo_signer demo_form = Inr pl \<and> np_out_trade_no pl = ''ab12'' \<and> np_money pl = ''19.90''"
proof -
  have "distinct (map fst demo_form)" by (simp add: demo_form_def Let_def)
  from signed_notification_accepted [OF this, of demo_signer] demo_form_sign
  obtain pl where pl: "ParseNotify demo_signer demo_form = Inr pl"
    "np_out_trade_no pl = get_param (form_params demo_form) ''out_trade_no''"
    "np_money pl = get_param (form_params demo_form) ''money''" by blast
  moreover have "get_param (form_params demo_form) ''out_trade_no'' = ''ab12''"
    "get_param (form_params demo_form) ''money'' = ''19.90''"
    by (simp_all add: get_param_def form_params_def form_get_def demo_form_def Let_def)
  ultimately show ?thesis by auto
qed

text \<open>
  The amount check is exact: below \<open>2^40\<close> fen, a notified amount rendered with two decimals
  passes exactly when it is the order's amount, and the amount the payment URL asks for is that
  rendering. The passage through \<open>float64\<close> on both sides neither rejects the right amount nor
  accepts a wrong one.
\<close>

theorem amount_check_exact:
  assumes "0 \<le> n" and "n < 2 ^ 40"
  shows "(verifyAmount (fmt_fen n) fen = Inr () \<longleftrightarrow> n = fen) \<and>
         FormatFloat2 (rnd64 (rnd64 (of_int n) / 100)) = fmt_fen n"
  using FormatFloat2_fen [OF assms] Sscanf_f_fen [OF assms(1)] got_fen [OF assms]
  by (simp add: verifyAmount_def)

theorem amount_check_exact_witness: "verifyAmount ''19.90'' 1990 = Inr ()"
proof -
  have "fmt_fen 1990 = ''19.90''" by code_simp
  with amount_check_exact [of 1990 1990] show ?thesis by simp
qed

end
