(* ===== verification/Recharge.thy ===== *)
theory Recharge
  imports Checkin Epay
begin

text \<open>
  Recharging (internal/recharge): packages, orders and the settlement of payment notifications. An
  order is paid by a compare-and-swap on its status, and its credits are posted afterwards by a separate
  billing transaction; notifications, manual payments, cancellations and the expiry job run
  concurrently, so the handlers are composed from their database steps and those steps interleave
  in \<open>sys_step\<close>. Mail is not modelled; instants are the database server's.
\<close>

section \<open>Tables\<close>

record package =
  pk_id :: nat
  pk_name :: string
  pk_price_cny :: int
  pk_credits :: int
  pk_bonus :: int
  pk_description :: string
  pk_sort :: int
  pk_enabled :: bool

datatype order_status = StatusPending | StatusPaid | StatusExpired | StatusCancelled | StatusFailed

record order =
  ro_id :: nat
  ro_out_trade_no :: string
  ro_user_id :: nat
  ro_package_id :: nat
  ro_price_cny :: int
  ro_credits :: int
  ro_bonus :: int
  ro_channel :: string
  ro_pay_method :: string
  ro_status :: order_status
  ro_trade_no :: string
  ro_paid_at :: "int option"
  ro_pay_url :: string
  ro_client_ip :: string
  ro_notify_raw :: "params option"
  ro_remark :: string
  ro_created_at :: int

record recharge_db = checkin_db +
  packages :: "package list"
  packages_next :: nat
  orders :: "order list"
  orders_next :: nat

definition TotalCredits :: "order \<Rightarrow> int" where
  "TotalCredits od = wrap64 (ro_credits od + ro_bonus od)"

section \<open>DAO: packages\<close>

definition package_before :: "package \<Rightarrow> package \<Rightarrow> bool" where
  "package_before p q \<longleftrightarrow> pk_sort p < pk_sort q \<or> pk_sort p = pk_sort q \<and> pk_id p \<le> pk_id q"

fun insort_package :: "package \<Rightarrow> package list \<Rightarrow> package list" where
  "insort_package p [] = [p]"
| "insort_package p (q # qs) = (if package_before p q then p # q # qs else q # insort_package p qs)"

definition ListPackages :: "bool \<Rightarrow> ('a recharge_db_scheme sess, package list) action" where
  "ListPackages onlyEnabled =
     stmt (\<lambda>d. (Inr (foldr insort_package (filter (\<lambda>p. onlyEnabled \<longrightarrow> pk_enabled p) (packages d)) []), d))"

definition GetPackage :: "nat \<Rightarrow> ('a recharge_db_scheme sess, package) action" where
  "GetPackage i = stmt (\<lambda>d. (case find (\<lambda>p. pk_id p = i) (packages d) of
     None \<Rightarrow> Inl ErrNotFound | Some p \<Rightarrow> Inr p, d))"

definition CreatePackage :: "package \<Rightarrow> ('a recharge_db_scheme sess, nat) action" where
  "CreatePackage p = stmt (\<lambda>d. (Inr (packages_next d),
     d\<lparr>packages := packages d @ [p\<lparr>pk_id := packages_next d\<rparr>], packages_next := packages_next d + 1\<rparr>))"

definition UpdatePackage :: "package \<Rightarrow> ('a recharge_db_scheme sess, unit) action" where
  "UpdatePackage p = stmt (\<lambda>d. (Inr (), d\<lparr>packages := map (\<lambda>q. if pk_id q = pk_id p then p else q) (packages d)\<rparr>))"

definition DeletePackage :: "nat \<Rightarrow> ('a recharge_db_scheme sess, unit) action" where
  "DeletePackage i = stmt (\<lambda>d. (Inr (), d\<lparr>packages := filter (\<lambda>q. pk_id q \<noteq> i) (packages d)\<rparr>))"

section \<open>DAO: orders\<close>

definition insert_order :: "int \<Rightarrow> order \<Rightarrow> 'a recharge_db_scheme \<Rightarrow> nat result \<times> 'a recharge_db_scheme" where
  "insert_order now od d =
     (if ro_out_trade_no od \<in> ro_out_trade_no ` set (orders d) then (Inl EDuplicate, d)
      else (Inr (orders_next d),
        d\<lparr>orders := orders d @ [od\<lparr>ro_id := orders_next d, ro_paid_at := None, ro_notify_raw := None,
                                ro_created_at := now\<rparr>],
          orders_next := orders_next d + 1\<rparr>))"

definition CreateOrder :: "int \<Rightarrow> order \<Rightarrow> ('a recharge_db_scheme sess, nat) action" where
  "CreateOrder now od = stmt (insert_order now od)"

definition GetByOutTradeNo :: "string \<Rightarrow> ('a recharge_db_scheme sess, order) action" where
  "GetByOutTradeNo no = stmt (\<lambda>d. (case find (\<lambda>od. ro_out_trade_no od = no) (orders d) of
     None \<Rightarrow> Inl ErrNotFound | Some od \<Rightarrow> Inr od, d))"

definition Order_GetByID :: "nat \<Rightarrow> ('a recharge_db_scheme sess, order) action" where
  "Order_GetByID i = stmt (\<lambda>d. (case find (\<lambda>od. ro_id od = i) (orders d) of
     None \<Rightarrow> Inl ErrNotFound | Some od \<Rightarrow> Inr od, d))"

record list_filter =
  lf_user_id :: nat
  lf_status :: "order_status option"
  lf_since :: "int option"
  lf_until :: "int option"

definition filter_order :: "list_filter \<Rightarrow> order \<Rightarrow> bool" where
  "filter_order f od \<longleftrightarrow>
     (lf_user_id f > 0 \<longrightarrow> ro_user_id od = lf_user_id f) \<and>
     (case lf_status f of None \<Rightarrow> True | Some st \<Rightarrow> ro_status od = st) \<and>
     (case lf_since f of None \<Rightarrow> True | Some t \<Rightarrow> ro_created_at od \<ge> t) \<and>
     (case lf_until f of None \<Rightarrow> True | Some t \<Rightarrow> ro_created_at od < t)"

text \<open>Rows are kept in id order, so \<open>ORDER BY id DESC\<close> is the reversed table.\<close>

definition List_orders :: "list_filter \<Rightarrow> int \<Rightarrow> int \<Rightarrow> ('a recharge_db_scheme sess, order list \<times> nat) action" where
  "List_orders f offset0 limit0 =
     (let limit = (if limit0 \<le> 0 \<or> limit0 > 200 then 50 else limit0);
          offset = (if offset0 < 0 then 0 else offset0) in
      bindE (stmt (\<lambda>d. (Inr (take (nat limit) (drop (nat offset) (rev (filter (filter_order f) (orders d))))), d))) (\<lambda>rows.
      bindE (stmt (\<lambda>d. (Inr (length (filter (filter_order f) (orders d))), d))) (\<lambda>total.
      okE (rows, total))))"

definition paid_since :: "int \<Rightarrow> nat \<Rightarrow> order list \<Rightarrow> int" where
  "paid_since curdate userID os = sum_list (map ro_price_cny
     (filter (\<lambda>od. ro_user_id od = userID \<and> ro_status od = StatusPaid \<and>
                  (case ro_paid_at od of None \<Rightarrow> False | Some t \<Rightarrow> t \<ge> curdate)) os))"

definition SumPaidTodayCNY :: "int \<Rightarrow> nat \<Rightarrow> ('a recharge_db_scheme sess, int) action" where
  "SumPaidTodayCNY curdate userID = stmt (\<lambda>d. (Inr (paid_since curdate userID (orders d)), d))"

text \<open>An UPDATE of orders and its count of matched rows; the status of a matched row changes.\<close>

definition update_orders ::
  "(order \<Rightarrow> bool) \<Rightarrow> (order \<Rightarrow> order) \<Rightarrow> 'a recharge_db_scheme \<Rightarrow> nat result \<times> 'a recharge_db_scheme" where
  "update_orders hit f d =
     (Inr (length (filter hit (orders d))), d\<lparr>orders := map (\<lambda>od. if hit od then f od else od) (orders d)\<rparr>)"

definition ExpirePending :: "int \<Rightarrow> int \<Rightarrow> ('a recharge_db_scheme sess, nat) action" where
  "ExpirePending now minutes0 =
     (let minutes = (if minutes0 \<le> 0 then 30 else minutes0) in
      stmt (update_orders (\<lambda>od. ro_status od = StatusPending \<and> ro_created_at od < now - 60 * minutes)
                          (\<lambda>od. od\<lparr>ro_status := StatusExpired\<rparr>)))"

section \<open>Service configuration\<close>

record recharge_settings =
  rs_enabled :: bool
  rs_min_cny :: int
  rs_max_cny :: int
  rs_daily_limit_cny :: int
  rs_order_expire_min :: int

record recharge_service =
  rc_gateway_url :: string
  rc_signer :: signer
  rc_notify_url :: string
  rc_return_url :: string
  rc_settings :: "recharge_settings option"
  rc_render :: "string \<Rightarrow> params \<Rightarrow> string result"

definition Enabled :: "recharge_service \<Rightarrow> bool" where
  "Enabled sv \<longleftrightarrow> rc_gateway_url sv \<noteq> '''' \<and> sg_pid (rc_signer sv) \<noteq> '''' \<and> sg_key (rc_signer sv) \<noteq> ''''"

definition AdminEnabled :: "recharge_service \<Rightarrow> bool" where
  "AdminEnabled sv = (case rc_settings sv of None \<Rightarrow> True | Some ss \<Rightarrow> rs_enabled ss)"

definition OrderExpireMinutes :: "recharge_service \<Rightarrow> int" where
  "OrderExpireMinutes sv = (case rc_settings sv of None \<Rightarrow> 30 | Some ss \<Rightarrow> rs_order_expire_min ss)"

section \<open>Placing an order\<close>

record create_input =
  in_user_id :: nat
  in_package_id :: nat
  in_pay_type :: string
  in_client_ip :: string

definition genTradeNo :: "nat list \<Rightarrow> string" where
  "genTradeNo b = EncodeToString b"

definition check_amount :: "recharge_service \<Rightarrow> int \<Rightarrow> nat \<Rightarrow> int \<Rightarrow> ('a recharge_db_scheme sess, unit) action" where
  "check_amount sv curdate userID price =
     (case rc_settings sv of
        None \<Rightarrow> okE ()
      | Some ss \<Rightarrow>
          if rs_min_cny ss > 0 \<and> price < rs_min_cny ss then failE ErrAmountOutOfRange
          else if rs_max_cny ss > 0 \<and> price > rs_max_cny ss then failE ErrAmountOutOfRange
          else if rs_daily_limit_cny ss > 0
          then bindE (SumPaidTodayCNY curdate userID) (\<lambda>already.
               if wrap64 (already + price) > rs_daily_limit_cny ss then failE ErrDailyLimitExceeded else okE ())
          else okE ())"

definition new_order :: "create_input \<Rightarrow> package \<Rightarrow> string \<Rightarrow> string \<Rightarrow> order" where
  "new_order inp pkg outTradeNo payURL =
     \<lparr>ro_id = 0, ro_out_trade_no = outTradeNo, ro_user_id = in_user_id inp, ro_package_id = pk_id pkg,
      ro_price_cny = pk_price_cny pkg, ro_credits = pk_credits pkg, ro_bonus = pk_bonus pkg,
      ro_channel = ''epay'', ro_pay_method = in_pay_type inp, ro_status = StatusPending, ro_trade_no = '''',
      ro_paid_at = None, ro_pay_url = payURL, ro_client_ip = in_client_ip inp, ro_notify_raw = None,
      ro_remark = pk_name pkg, ro_created_at = 0\<rparr>"

definition Create ::
  "recharge_service \<Rightarrow> create_input \<Rightarrow> nat list \<Rightarrow> int \<Rightarrow> int \<Rightarrow> ('a recharge_db_scheme sess, order) action" where
  "Create sv inp rnd now curdate =
     (if \<not> Enabled sv then failE ErrChannelDisabled
      else if rc_settings sv \<noteq> None \<and> \<not> AdminEnabled sv then failE ErrRechargeDisabled
      else bindE (GetPackage (in_package_id inp)) (\<lambda>pkg.
           if \<not> pk_enabled pkg then failE ErrPackageUnavailable
           else bindE (check_amount sv curdate (in_user_id inp) (pk_price_cny pkg)) (\<lambda>_.
                let outTradeNo = genTradeNo rnd;
                    extra = (if in_pay_type inp \<noteq> '''' then [(''type'', in_pay_type inp)] else []) in
                case BuildPayURL (rc_render sv) (rc_signer sv) (rc_gateway_url sv) outTradeNo (pk_name pkg)
                       (pk_price_cny pkg) (rc_notify_url sv) (rc_return_url sv) extra of
                  Inl e \<Rightarrow> failE e
                | Inr payURL \<Rightarrow>
                    let od = new_order inp pkg outTradeNo payURL in
                    bindE (CreateOrder now od) (\<lambda>i. okE (od\<lparr>ro_id := i\<rparr>)))))"

section \<open>Cancelling\<close>

definition cancel_read :: "nat \<Rightarrow> nat \<Rightarrow> ('a recharge_db_scheme sess, unit) action" where
  "cancel_read userID orderID =
     bindE (Order_GetByID orderID) (\<lambda>od.
     if ro_user_id od \<noteq> userID then failE ErrOrderNotFound
     else if ro_status od \<noteq> StatusPending then failE ErrOrderStateInvalid
     else okE ())"

definition pending_id :: "nat \<Rightarrow> order \<Rightarrow> bool" where
  "pending_id i od \<longleftrightarrow> ro_id od = i \<and> ro_status od = StatusPending"

definition cancel_exec :: "nat \<Rightarrow> ('a recharge_db_scheme sess, unit) action" where
  "cancel_exec orderID =
     bindE (stmt (update_orders (pending_id orderID) (\<lambda>od. od\<lparr>ro_status := StatusCancelled\<rparr>))) (\<lambda>_. okE ())"

definition CancelByUser :: "nat \<Rightarrow> nat \<Rightarrow> ('a recharge_db_scheme sess, unit) action" where
  "CancelByUser userID orderID = bindE (cancel_read userID orderID) (\<lambda>_. cancel_exec orderID)"

section \<open>Notifications\<close>

text \<open>
  The part of \<open>HandleNotify\<close> before \<open>settle\<close>: \<open>None\<close> is the early \<open>"success"\<close>, an
  error is the answer \<open>"fail"\<close>.
\<close>

definition notify_read ::
  "recharge_service \<Rightarrow> form \<Rightarrow> ('a recharge_db_scheme sess, (order \<times> notify_payload) option) action" where
  "notify_read sv f =
     (case ParseNotify (rc_signer sv) f of
        Inl e \<Rightarrow> failE e
      | Inr pl \<Rightarrow>
          bindE (GetByOutTradeNo (np_out_trade_no pl)) (\<lambda>od.
          if ro_status od = StatusPaid then okE None
          else if np_trade_status pl \<noteq> ''TRADE_SUCCESS'' then okE None
          else case verifyAmount (np_money pl) (ro_price_cny od) of
                 Inl e \<Rightarrow> failE e
               | Inr _ \<Rightarrow> okE (Some (od, pl))))"

definition rawDump :: "params \<Rightarrow> params option" where
  "rawDump m = (if m = [] then None else Some m)"

definition settle_cas :: "int \<Rightarrow> order \<Rightarrow> notify_payload \<Rightarrow> ('a recharge_db_scheme sess, bool) action" where
  "settle_cas now od pl =
     bindE (stmt (update_orders (pending_id (ro_id od))
       (\<lambda>q. q\<lparr>ro_status := StatusPaid, ro_trade_no := np_trade_no pl, ro_pay_method := np_type pl,
              ro_paid_at := Some now, ro_notify_raw := rawDump (np_raw pl)\<rparr>))) (\<lambda>n. okE (n \<noteq> 0))"

definition order_ref :: "order \<Rightarrow> string" where
  "order_ref od = ''order:'' @ ro_out_trade_no od"

text \<open>The Chinese words of the two remarks, in UTF-8.\<close>

definition word_recharge :: string where
  "word_recharge = [CHR 0xE5, CHR 0x85, CHR 0x85, CHR 0xE5, CHR 0x80, CHR 0xBC]"

definition word_manual :: string where
  "word_manual =
    [CHR 0xE7, CHR 0xAE, CHR 0xA1, CHR 0xE7, CHR 0x90, CHR 0x86, CHR 0xE5, CHR 0x91, CHR 0x98, CHR 0xE6, CHR 0x89, CHR 0x8B,
     CHR 0xE5, CHR 0xB7, CHR 0xA5, CHR 0xE5, CHR 0x85, CHR 0xA5, CHR 0xE8, CHR 0xB4, CHR 0xA6]"

definition settle_bill :: "order \<Rightarrow> ('a recharge_db_scheme sess, unit) action" where
  "settle_bill od = Recharge (ro_user_id od) (TotalCredits od) (order_ref od) (word_recharge @ '':'' @ ro_remark od)"

definition settle :: "int \<Rightarrow> order \<Rightarrow> notify_payload \<Rightarrow> ('a recharge_db_scheme sess, unit) action" where
  "settle now od pl = bindE (settle_cas now od pl) (\<lambda>won. if won then settle_bill od else okE ())"

definition HandleNotify :: "recharge_service \<Rightarrow> form \<Rightarrow> int \<Rightarrow> ('a recharge_db_scheme sess, string) action" where
  "HandleNotify sv f now =
     bindE (notify_read sv f) (\<lambda>r.
     case r of
       None \<Rightarrow> okE ''success''
     | Some (od, pl) \<Rightarrow> bindE (settle now od pl) (\<lambda>_. okE ''success''))"

section \<open>Manual payment\<close>

definition force_read :: "nat \<Rightarrow> ('a recharge_db_scheme sess, order) action" where
  "force_read orderID =
     bindE (Order_GetByID orderID) (\<lambda>od. if ro_status od \<noteq> StatusPending then failE ErrOrderStateInvalid else okE od)"

definition force_cas :: "int \<Rightarrow> order \<Rightarrow> nat \<Rightarrow> ('a recharge_db_scheme sess, bool) action" where
  "force_cas now od actorID =
     bindE (stmt (update_orders (pending_id (ro_id od))
       (\<lambda>q. q\<lparr>ro_status := StatusPaid, ro_paid_at := Some now,
              ro_trade_no := (if ro_trade_no q = '''' then ''manual-'' @ dec_nat actorID else ro_trade_no q)\<rparr>)))
       (\<lambda>n. okE (n \<noteq> 0))"

definition force_bill :: "order \<Rightarrow> nat \<Rightarrow> ('a recharge_db_scheme sess, unit) action" where
  "force_bill od actorID =
     Recharge (ro_user_id od) (TotalCredits od) (order_ref od)
       (word_manual @ '':'' @ ro_remark od @ '' by admin='' @ dec_nat actorID)"

definition AdminForcePaid :: "nat \<Rightarrow> nat \<Rightarrow> int \<Rightarrow> ('a recharge_db_scheme sess, unit) action" where
  "AdminForcePaid orderID actorID now =
     bindE (force_read orderID) (\<lambda>od.
     bindE (force_cas now od actorID) (\<lambda>won.
     if won then force_bill od actorID else failE ErrOrderStateInvalid))"

end
