(* ===== verification/Recharge_Runs.thy ===== *)
theory Recharge_Runs
  imports Recharge
begin

text \<open>
  Concurrent recharge handlers: the handlers of \<open>Recharge\<close> cut at their database statements, any
  number of them in flight, interleaved with new orders, the expiry job and the rest of billing. A
  process that never takes its next step is a crashed one. The invariant is that an order is credited
  at most once and only when it is paid.
\<close>

section \<open>Processes\<close>

datatype proc =
    PSettle order notify_payload
  | PSettleBill order
  | PForce order nat
  | PForceBill order nat
  | PCancel nat
  | PDone

type_synonym 'a sys = "'a recharge_db_scheme sess \<times> proc list"

fun proc_step :: "int \<Rightarrow> proc \<Rightarrow> 'a recharge_db_scheme sess \<Rightarrow> proc \<times> 'a recharge_db_scheme sess" where
  "proc_step now (PSettle od pl) s =
     (case settle_cas now od pl s of (Inr True, s') \<Rightarrow> (PSettleBill od, s') | (_, s') \<Rightarrow> (PDone, s'))"
| "proc_step now (PSettleBill od) s = (PDone, snd (settle_bill od s))"
| "proc_step now (PForce od actor) s =
     (case force_cas now od actor s of (Inr True, s') \<Rightarrow> (PForceBill od actor, s') | (_, s') \<Rightarrow> (PDone, s'))"
| "proc_step now (PForceBill od actor) s = (PDone, snd (force_bill od actor s))"
| "proc_step now (PCancel i) s = (PDone, snd (cancel_exec i s))"
| "proc_step now PDone s = (PDone, s)"

datatype event =
    EvNotify form
  | EvForce nat nat
  | EvCancel nat nat
  | EvStep nat int
  | EvCreate create_input "nat list" int int
  | EvExpire int int
  | EvBill bill_op

fun sys_step :: "recharge_service \<Rightarrow> event \<Rightarrow> 'a sys \<Rightarrow> 'a sys" where
  "sys_step sv (EvNotify f) (s, ps) =
     (case notify_read sv f s of (Inr (Some (od, pl)), s') \<Rightarrow> (s', ps @ [PSettle od pl]) | (_, s') \<Rightarrow> (s', ps))"
| "sys_step sv (EvForce oid actor) (s, ps) =
     (case force_read oid s of (Inr od, s') \<Rightarrow> (s', ps @ [PForce od actor]) | (_, s') \<Rightarrow> (s', ps))"
| "sys_step sv (EvCancel uid oid) (s, ps) =
     (case cancel_read uid oid s of (Inr _, s') \<Rightarrow> (s', ps @ [PCancel oid]) | (_, s') \<Rightarrow> (s', ps))"
| "sys_step sv (EvStep i now) (s, ps) =
     (if i < length ps then (case proc_step now (ps ! i) s of (p, s') \<Rightarrow> (s', ps[i := p])) else (s, ps))"
| "sys_step sv (EvCreate inp rnd now curdate) (s, ps) = (snd (Create sv inp rnd now curdate s), ps)"
| "sys_step sv (EvExpire now minutes) (s, ps) = (snd (ExpirePending now minutes s), ps)"
| "sys_step sv (EvBill a) (s, ps) = (bill_step a s, ps)"

text \<open>The other users of the billing engine do not write recharge entries.\<close>

fun event_ok :: "event \<Rightarrow> 'a sys \<Rightarrow> bool" where
  "event_ok (EvBill a) (s, ps) = (op_ok a s \<and> KindRecharge \<notin> op_kinds a)"
| "event_ok _ _ = True"

section \<open>The invariant\<close>

definition same_order :: "order \<Rightarrow> order \<Rightarrow> bool" where
  "same_order a b \<longleftrightarrow>
     ro_id a = ro_id b \<and> ro_out_trade_no a = ro_out_trade_no b \<and> ro_user_id a = ro_user_id b \<and>
     ro_credits a = ro_credits b \<and> ro_bonus a = ro_bonus b \<and> ro_price_cny a = ro_price_cny b"

fun proc_order :: "proc \<Rightarrow> order option" where
  "proc_order (PSettle od pl) = Some od"
| "proc_order (PSettleBill od) = Some od"
| "proc_order (PForce od a) = Some od"
| "proc_order (PForceBill od a) = Some od"
| "proc_order _ = None"

fun bills :: "nat \<Rightarrow> proc \<Rightarrow> bool" where
  "bills k (PSettleBill od) = (ro_id od = k)"
| "bills k (PForceBill od a) = (ro_id od = k)"
| "bills k _ = False"

definition in_flight :: "proc list \<Rightarrow> nat \<Rightarrow> nat" where
  "in_flight ps k = sum_list (map (\<lambda>p. if bills k p then 1 else 0) ps)"

definition order_credits :: "'a recharge_db_scheme \<Rightarrow> order \<Rightarrow> credit_tx list" where
  "order_credits d od = filter (\<lambda>t. ct_type t = KindRecharge \<and> ct_ref_id t = order_ref od) (ledger d)"

definition orders_wf :: "'a recharge_db_scheme \<Rightarrow> bool" where
  "orders_wf d \<longleftrightarrow>
     distinct (map ro_id (orders d)) \<and> distinct (map ro_out_trade_no (orders d)) \<and>
     (\<forall>q \<in> set (orders d). ro_id q < orders_next d) \<and>
     (\<forall>t \<in> set (ledger d). ct_type t = KindRecharge \<longrightarrow> (\<exists>q \<in> set (orders d). ct_ref_id t = order_ref q))"

definition order_settled :: "'a sys \<Rightarrow> order \<Rightarrow> bool" where
  "order_settled c q \<longleftrightarrow>
     length (order_credits (fst (fst c)) q) + in_flight (snd c) (ro_id q) \<le> (if ro_status q = StatusPaid then 1 else 0) \<and>
     (\<forall>t \<in> set (order_credits (fst (fst c)) q). ct_user_id t = ro_user_id q \<and> ct_amount t = TotalCredits q)"

definition credited_once :: "'a sys \<Rightarrow> bool" where
  "credited_once c \<longleftrightarrow>
     orders_wf (fst (fst c)) \<and>
     (\<forall>p \<in> set (snd c). \<forall>od. proc_order p = Some od \<longrightarrow> (\<exists>q \<in> set (orders (fst (fst c))). same_order od q)) \<and>
     (\<forall>q \<in> set (orders (fst (fst c))). order_settled c q)"

section \<open>Effects of the statements\<close>

lemma same_order_refl [simp]: "same_order q q"
  by (simp add: same_order_def)

lemma same_order_ref: "same_order a b \<Longrightarrow> order_ref a = order_ref b"
  by (simp add: same_order_def order_ref_def)

lemma order_ref_inj: "order_ref a = order_ref b \<longleftrightarrow> ro_out_trade_no a = ro_out_trade_no b"
  by (simp add: order_ref_def)

lemma in_flight_snoc: "in_flight (ps @ [p]) k = in_flight ps k + (if bills k p then 1 else 0)"
  by (simp add: in_flight_def)

lemma in_flight_update:
  "i < length ps \<Longrightarrow> in_flight (ps[i := p]) k + (if bills k (ps ! i) then 1 else 0) =
     in_flight ps k + (if bills k p then 1 else 0)"
proof (induction ps arbitrary: i)
  case (Cons a ps)
  then show ?case by (cases i) (auto simp: in_flight_def)
qed simp

lemma in_flight_pos: "p \<in> set ps \<Longrightarrow> bills k p \<Longrightarrow> 0 < in_flight ps k"
  by (induction ps) (auto simp: in_flight_def)

lemma in_flight_zero: "(\<And>p. p \<in> set ps \<Longrightarrow> \<not> bills k p) \<Longrightarrow> in_flight ps k = 0"
  by (induction ps) (auto simp: in_flight_def)

lemma bills_order: "bills k p \<Longrightarrow> \<exists>od. proc_order p = Some od \<and> ro_id od = k"
  by (cases p) auto

text \<open>An update of pending orders that keeps what identifies and values them.\<close>

definition order_update :: "(order \<Rightarrow> bool) \<Rightarrow> (order \<Rightarrow> order) \<Rightarrow> bool" where
  "order_update hit f \<longleftrightarrow>
     (\<forall>q. same_order (f q) q) \<and> (\<forall>q. hit q \<longrightarrow> ro_status q = StatusPending) \<and>
     (\<forall>q. ro_status (f q) \<noteq> StatusPending)"

lemma order_update_casI:
  "order_update (pending_id i) (\<lambda>q. q\<lparr>ro_status := StatusCancelled\<rparr>)"
  "order_update (pending_id i) (\<lambda>q. q\<lparr>ro_status := StatusPaid, ro_trade_no := a, ro_pay_method := b,
     ro_paid_at := c, ro_notify_raw := e\<rparr>)"
  "order_update (pending_id i) (\<lambda>q. q\<lparr>ro_status := StatusPaid, ro_paid_at := c, ro_trade_no := g q\<rparr>)"
  "order_update (\<lambda>od. ro_status od = StatusPending \<and> ro_created_at od < t) (\<lambda>q. q\<lparr>ro_status := StatusExpired\<rparr>)"
  by (simp_all add: order_update_def same_order_def pending_id_def)

definition updated :: "(order \<Rightarrow> bool) \<Rightarrow> (order \<Rightarrow> order) \<Rightarrow> 'a recharge_db_scheme \<Rightarrow> 'a recharge_db_scheme" where
  "updated hit f d = d\<lparr>orders := map (\<lambda>q. if hit q then f q else q) (orders d)\<rparr>"

lemma update_orders_updated: "snd (update_orders hit f d) = updated hit f d"
  by (simp add: update_orders_def updated_def)

lemma stmt_update_orders:
  assumes "stmt (update_orders hit f) s = (r, s')"
  shows "fst s' = fst s \<or> fst s' = updated hit f (fst s)"
    and "r = Inr n \<Longrightarrow> n = length (filter hit (orders (fst s))) \<and> fst s' = updated hit f (fst s)"
  using assms stmt_db [of "update_orders hit f" s]
  by (auto simp: update_orders_updated elim!: stmt_InrE) (auto simp: update_orders_def updated_def)

lemma orders_wf_updated:
  assumes "order_update hit f" and "orders_wf d"
  shows "orders_wf (updated hit f d)"
proof -
  let ?g = "\<lambda>q. if hit q then f q else q"
  have k: "(\<lambda>q. ro_id (?g q)) = ro_id" "(\<lambda>q. ro_out_trade_no (?g q)) = ro_out_trade_no" "\<And>q. order_ref (?g q) = order_ref q"
    using assms(1) by (auto simp: order_update_def same_order_def order_ref_def fun_eq_iff)
  have id: "\<And>q. ro_id (?g q) = ro_id q" using k(1) by metis
  have "map ro_id (map ?g (orders d)) = map ro_id (orders d)"
    "map ro_out_trade_no (map ?g (orders d)) = map ro_out_trade_no (orders d)"
    by (simp_all add: comp_def k)
  moreover have "ro_id (?g q) < orders_next d" if "q \<in> set (orders d)" for q
    unfolding id using assms(2) that by (simp add: orders_wf_def)
  then have "\<forall>q \<in> set (map ?g (orders d)). ro_id q < orders_next d" unfolding list.set_map ball_simps by blast
  moreover have "\<exists>q \<in> set (map ?g (orders d)). ct_ref_id t = order_ref q"
    if "t \<in> set (ledger d)" "ct_type t = KindRecharge" for t
  proof -
    from that assms(2) obtain q where "q \<in> set (orders d)" "ct_ref_id t = order_ref q" by (auto simp: orders_wf_def)
    then have "?g q \<in> set (map ?g (orders d))" "ct_ref_id t = order_ref (?g q)" by (simp_all add: k(3))
    then show ?thesis by blast
  qed
  ultimately show ?thesis using assms(2) unfolding orders_wf_def updated_def by (simp del: map_map list.set_map)
qed

text \<open>
  Updating pending orders never breaks the invariant; when it pays exactly one order, that order may
  have one process in flight.
\<close>

lemma updated_settled:
  assumes upd: "order_update hit f" and inv: "credited_once (s, ps)" and d': "fst s' = updated hit f (fst s)"
    and q: "q \<in> set (orders (fst s))"
    and flight: "in_flight ps' (ro_id q) = in_flight ps (ro_id q) + (if hit q \<and> ro_status (f q) = StatusPaid \<and> paid then 1 else 0)"
  shows "order_settled (s', ps') (if hit q then f q else q)"
proof -
  let ?q = "if hit q then f q else q"
  have so: "same_order ?q q" using upd by (auto simp: order_update_def)
  have cr: "order_credits (fst s') ?q = order_credits (fst s) q"
    using same_order_ref [OF so] by (simp add: order_credits_def d' updated_def)
  have old: "order_settled (s, ps) q" using inv q by (simp add: credited_once_def)
  have "length (order_credits (fst s) q) + in_flight ps (ro_id q) = 0" if "hit q"
    using old that upd by (auto simp: order_settled_def order_update_def)
  then have "length (order_credits (fst s) q) + in_flight ps' (ro_id q) \<le> (if ro_status ?q = StatusPaid then 1 else 0)"
    using old flight by (auto simp: order_settled_def split: if_splits)
  moreover have "ro_id ?q = ro_id q" "ro_user_id ?q = ro_user_id q" "TotalCredits ?q = TotalCredits q"
    using so by (simp_all add: same_order_def TotalCredits_def)
  ultimately show ?thesis using old by (simp add: order_settled_def cr)
qed

lemma updated_keeps:
  assumes upd: "order_update hit f" and inv: "credited_once (s, ps)" and d': "fst s' = updated hit f (fst s)"
    and snaps: "\<And>p od. p \<in> set ps' \<Longrightarrow> proc_order p = Some od \<Longrightarrow> \<exists>q \<in> set (orders (fst s)). same_order od q"
    and flight: "\<And>q. q \<in> set (orders (fst s)) \<Longrightarrow> in_flight ps' (ro_id q) =
        in_flight ps (ro_id q) + (if hit q \<and> ro_status (f q) = StatusPaid \<and> paid then 1 else 0)"
  shows "credited_once (s', ps')"
proof -
  let ?g = "\<lambda>q. if hit q then f q else q"
  have ords: "orders (fst s') = map ?g (orders (fst s))" by (simp add: d' updated_def)
  have "\<exists>q \<in> set (orders (fst s')). same_order od q" if p: "p \<in> set ps'" "proc_order p = Some od" for p od
  proof -
    from snaps [OF p] obtain q where q: "q \<in> set (orders (fst s))" "same_order od q" by blast
    have "same_order od (?g q)" using q(2) upd by (auto simp: order_update_def same_order_def)
    moreover have "?g q \<in> set (orders (fst s'))" unfolding ords using q(1) by simp
    ultimately show ?thesis by blast
  qed
  moreover have "orders_wf (fst s')" unfolding d' by (rule orders_wf_updated [OF upd]) (use inv in \<open>simp add: credited_once_def\<close>)
  moreover have "\<forall>q \<in> set (orders (fst s')). order_settled (s', ps') q"
    unfolding ords list.set_map ball_simps using updated_settled [OF upd inv d' _ flight] by blast
  ultimately show ?thesis by (auto simp: credited_once_def)
qed

text \<open>Ending or leaving out a process that bills nothing.\<close>

lemma same_db_keeps:
  assumes inv: "credited_once (s, ps)" and d': "fst s' = fst s"
    and snaps: "\<And>p od. p \<in> set ps' \<Longrightarrow> proc_order p = Some od \<Longrightarrow> \<exists>q \<in> set (orders (fst s)). same_order od q"
    and flight: "\<And>k. in_flight ps' k \<le> in_flight ps k"
  shows "credited_once (s', ps')"
proof -
  have "order_settled (s', ps') q" if "order_settled (s, ps) q" for q
    using that flight [of "ro_id q"] by (auto simp: order_settled_def d')
  then show ?thesis using inv snaps by (auto simp: credited_once_def d')
qed

lemma snaps_update:
  assumes "credited_once (s, ps)" and "p \<in> set (ps[i := p'])" and "proc_order p = Some od"
    and "\<And>od. proc_order p' = Some od \<Longrightarrow> i < length ps \<and> proc_order (ps ! i) = Some od"
  shows "\<exists>q \<in> set (orders (fst s)). same_order od q"
proof -
  have "p = p' \<or> p \<in> set ps" using assms(2) set_update_subset_insert by fastforce
  then obtain p0 where "p0 \<in> set ps" "proc_order p0 = Some od"
    using assms(3,4) nth_mem by metis
  then show ?thesis using assms(1) by (auto simp: credited_once_def)
qed

section \<open>The billing step\<close>

lemma Recharge_ledger:
  fixes s :: "'a recharge_db_scheme sess"
  assumes "Recharge uid amount ref remark s = (r, s')"
  shows "fst s' = fst s \<or>
         (\<exists>us after. fst s' = (fst s)\<lparr>users := us, ledger := ledger (fst s) @ [mk_tx uid 0 KindRecharge amount after ref remark]\<rparr>)"
proof -
  from Recharge_db [OF assms] show ?thesis
  proof (elim disjE conjE exE)
    fix u assume "fst s' = (fst s)\<lparr>ledger := ledger (fst s) @ [mk_tx uid 0 KindRecharge amount (credit_balance u) ref remark]\<rparr>"
    then have "fst s' = (fst s)\<lparr>users := users (fst s), ledger := ledger (fst s) @
        [mk_tx uid 0 KindRecharge amount (credit_balance u) ref remark]\<rparr>" by simp
    then show ?thesis by blast
  qed (auto simp: posted_def)
qed

lemma bill_keeps:
  assumes inv: "credited_once (s, ps)" and i: "i < length ps" and p: "proc_order (ps ! i) = Some od" "bills (ro_id od) (ps ! i)"
    and run: "Recharge (ro_user_id od) (TotalCredits od) (order_ref od) remark s = (r, s')"
  shows "credited_once (s', ps[i := PDone])"
proof -
  have "\<exists>q \<in> set (orders (fst s)). same_order od q" if "p \<in> set (ps[i := PDone])" "proc_order p = Some od" for p od
    using snaps_update [OF inv that] by simp
  note snaps = this
  have fl: "in_flight (ps[i := PDone]) k + (if bills k (ps ! i) then 1 else 0) = in_flight ps k" for k
    using in_flight_update [OF i, of PDone k] by simp
  from Recharge_ledger [OF run] show ?thesis
  proof (elim disjE exE)
    assume "fst s' = fst s"
    then show ?thesis
    proof (rule same_db_keeps [OF inv])
      show "in_flight (ps[i := PDone]) k \<le> in_flight ps k" for k using fl [of k] by linarith
    qed (rule snaps)
  next
    fix us after
    let ?t = "mk_tx (ro_user_id od) 0 KindRecharge (TotalCredits od) after (order_ref od) remark"
    assume d': "fst s' = (fst s)\<lparr>users := us, ledger := ledger (fst s) @ [?t]\<rparr>"
    have "ps ! i \<in> set ps" using i by simp
    then obtain q0 where q0: "q0 \<in> set (orders (fst s))" "same_order od q0"
      using inv p(1) unfolding credited_once_def fst_conv snd_conv by blast
    have wf: "orders_wf (fst s)" using inv by (simp add: credited_once_def)
    have cr: "order_credits (fst s') q = order_credits (fst s) q @ (if order_ref q = order_ref od then [?t] else [])" for q
      by (simp add: order_credits_def d' mk_tx_def)
    have "orders_wf (fst s')"
      using wf q0 same_order_ref [OF q0(2)] by (auto simp: orders_wf_def d' mk_tx_def)
    moreover have "order_settled (s', ps[i := PDone]) q" if q: "q \<in> set (orders (fst s))" for q
    proof -
      have old: "order_settled (s, ps) q" using inv q by (simp add: credited_once_def)
      have same: "q = q0" if "order_ref q = order_ref od"
      proof -
        from that have "ro_out_trade_no q = ro_out_trade_no q0" using q0(2) by (simp add: order_ref_inj same_order_def)
        then show ?thesis using q q0(1) wf by (auto simp: orders_wf_def distinct_map inj_on_def)
      qed
      show ?thesis
      proof (cases "order_ref q = order_ref od")
        case True
        then have "ro_id q = ro_id od" and so: "same_order od q" using same q0(2) by (auto simp: same_order_def)
        then have b: "bills (ro_id q) (ps ! i)" using p(2) by simp
        then have "in_flight (ps[i := PDone]) (ro_id q) + 1 = in_flight ps (ro_id q)" using fl [of "ro_id q"] by simp
        then show ?thesis
          using old so True by (auto simp: order_settled_def cr same_order_def TotalCredits_def split: if_splits)
      next
        case False
        then show ?thesis using old fl [of "ro_id q"] by (auto simp: order_settled_def cr)
      qed
    qed
    ultimately show ?thesis using snaps by (auto simp: credited_once_def d')
  qed
qed

section \<open>The compare-and-swap\<close>

lemma cas_keeps:
  assumes upd: "order_update (pending_id (ro_id od)) f" and paid: "\<And>q. ro_status (f q) = StatusPaid"
    and inv: "credited_once (s, ps)" and i: "i < length ps" and snap: "proc_order (ps ! i) = Some od" "\<And>k. \<not> bills k (ps ! i)"
    and run: "bindE (stmt (update_orders (pending_id (ro_id od)) f)) (\<lambda>n. okE (n \<noteq> 0)) s = (r, s')"
    and p': "proc_order p' = Some od" "\<And>k. bills k p' = (ro_id od = k)"
  shows "credited_once (s', ps[i := (if r = Inr True then p' else PDone)])"
proof -
  let ?p = "if r = Inr True then p' else PDone"
  have snaps: "\<exists>q \<in> set (orders (fst s)). same_order o1 q"
    if "p \<in> set (ps[i := ?p])" "proc_order p = Some o1" for p o1
  proof (rule snaps_update [OF inv that])
    fix o2 assume "proc_order ?p = Some o2"
    then show "i < length ps \<and> proc_order (ps ! i) = Some o2" using snap(1) p'(1) i by (simp split: if_splits)
  qed
  have fl: "in_flight (ps[i := ?p]) k = in_flight ps k + (if bills k ?p then 1 else 0)" for k
    using in_flight_update [OF i, of ?p k] snap(2) by simp
  obtain r1 s1 where st: "stmt (update_orders (pending_id (ro_id od)) f) s = (r1, s1)" by (rule prod.exhaust)
  then have s1: "s1 = s'" and r: "r = Inr True \<Longrightarrow> \<exists>n. r1 = Inr n \<and> n \<noteq> 0"
    using run by (auto simp: bindE_def okE_def split: sum.splits)
  note eff = stmt_update_orders [OF st [unfolded s1]]
  show ?thesis
  proof (cases "r = Inr True")
    case False
    from eff(1) show ?thesis
    proof
      assume "fst s' = fst s"
      from same_db_keeps [OF inv this snaps] show ?thesis using fl False by simp
    next
      assume "fst s' = updated (pending_id (ro_id od)) f (fst s)"
      from updated_keeps [OF upd inv this snaps, where paid = False] show ?thesis using fl False by simp
    qed
  next
    case True
    with r eff(2) obtain n where n: "n = length (filter (pending_id (ro_id od)) (orders (fst s)))" "n \<noteq> 0"
      and d': "fst s' = updated (pending_id (ro_id od)) f (fst s)" by blast
    then obtain q0 where q0: "q0 \<in> set (orders (fst s))" "pending_id (ro_id od) q0" by (auto simp: filter_empty_conv)
    have flight: "in_flight (ps[i := ?p]) (ro_id q) =
        in_flight ps (ro_id q) + (if pending_id (ro_id od) q \<and> ro_status (f q) = StatusPaid \<and> True then 1 else 0)"
      if q: "q \<in> set (orders (fst s))" for q
    proof -
      have "bills (ro_id q) ?p \<longleftrightarrow> pending_id (ro_id od) q"
      proof
        assume "bills (ro_id q) ?p"
        then have "ro_id q = ro_id q0" using True p'(2) q0(2) by (simp add: pending_id_def)
        then have "q = q0" using q q0(1) inv by (auto simp: credited_once_def orders_wf_def distinct_map inj_on_def)
        then show "pending_id (ro_id od) q" using q0(2) by simp
      qed (use True p'(2) in \<open>simp add: pending_id_def\<close>)
      then show ?thesis using fl paid by simp
    qed
    show ?thesis by (rule updated_keeps [OF upd inv d', where paid = True]) (fact snaps, rule flight)
  qed
qed

section \<open>Other steps\<close>

lemma reads_queries [intro]:
  "reads (GetByOutTradeNo no)" "reads (Order_GetByID i)" "reads (GetPackage i)" "reads (SumPaidTodayCNY c u)"
  by (auto simp: GetByOutTradeNo_def Order_GetByID_def GetPackage_def SumPaidTodayCNY_def)

lemma reads_notify_read [intro]: "reads (notify_read sv f)"
  unfolding notify_read_def by (intro reads_intros reads_queries)

lemma reads_force_read [intro]: "reads (force_read i)" "reads (cancel_read u i)"
  unfolding force_read_def cancel_read_def by (intro reads_intros reads_queries)+

lemma reads_check_amount [intro]: "reads (check_amount sv c u p)"
  unfolding check_amount_def by (intro reads_intros reads_queries)

lemma query_order:
  "GetByOutTradeNo no s = (Inr od, s') \<Longrightarrow> od \<in> set (orders (fst s)) \<and> ro_out_trade_no od = no"
  "Order_GetByID i s = (Inr od, s') \<Longrightarrow> od \<in> set (orders (fst s)) \<and> ro_id od = i"
  by (auto simp: GetByOutTradeNo_def Order_GetByID_def find_Some_iff elim!: stmt_InrE split: option.splits)

lemma notify_read_order: "notify_read sv f s = (Inr (Some (od, pl)), s') \<Longrightarrow> od \<in> set (orders (fst s))"
  by (auto simp: notify_read_def failE_def okE_def elim!: bindE_InrE dest: query_order split: sum.splits if_splits)

lemma force_read_order: "force_read i s = (Inr od, s') \<Longrightarrow> od \<in> set (orders (fst s))"
  by (auto simp: force_read_def failE_def okE_def elim!: bindE_InrE dest: query_order split: if_splits)

lemma spawn_keeps:
  assumes inv: "credited_once (s, ps)" and d': "fst s' = fst s"
    and p: "\<And>od. proc_order p = Some od \<Longrightarrow> od \<in> set (orders (fst s))" "\<And>k. \<not> bills k p"
  shows "credited_once (s', ps @ [p])"
proof (rule same_db_keeps [OF inv d'])
  fix p' od assume "p' \<in> set (ps @ [p])" "proc_order p' = Some od"
  then show "\<exists>q \<in> set (orders (fst s)). same_order od q"
    using inv p(1) by (auto simp: credited_once_def intro: same_order_refl)
qed (simp add: in_flight_snoc p(2))

lemma idle_keeps: "credited_once (s, ps) \<Longrightarrow> fst s' = fst s \<Longrightarrow> credited_once (s', ps)"
  by (simp add: credited_once_def order_settled_def)

lemma insert_order_keeps:
  assumes inv: "credited_once (s, ps)" and pend: "ro_status od = StatusPending" and ok: "insert_order now od (fst s) = (r, d')"
  shows "credited_once ((d', fs), ps)"
proof (cases "ro_out_trade_no od \<in> ro_out_trade_no ` set (orders (fst s))")
  case True
  with ok inv idle_keeps [of s ps "(d', fs)"] show ?thesis by (simp add: insert_order_def)
next
  case False
  let ?o = "od\<lparr>ro_id := orders_next (fst s), ro_paid_at := None, ro_notify_raw := None, ro_created_at := now\<rparr>"
  have d': "d' = (fst s)\<lparr>orders := orders (fst s) @ [?o], orders_next := orders_next (fst s) + 1\<rparr>"
    using ok False by (simp add: insert_order_def)
  have wf: "orders_wf (fst s)" using inv by (simp add: credited_once_def)
  have cr: "order_credits d' q = order_credits (fst s) q" for q by (simp add: order_credits_def d')
  have none: "order_credits (fst s) ?o = []"
  proof -
    have "ct_ref_id t \<noteq> order_ref ?o" if "t \<in> set (ledger (fst s))" "ct_type t = KindRecharge" for t
    proof
      assume "ct_ref_id t = order_ref ?o"
      with that wf obtain q where "q \<in> set (orders (fst s))" "order_ref q = order_ref ?o" by (auto simp: orders_wf_def)
      then have "ro_out_trade_no q = ro_out_trade_no od" by (simp add: order_ref_inj)
      with False \<open>q \<in> set (orders (fst s))\<close> show False by (metis image_eqI)
    qed
    then show ?thesis by (auto simp: order_credits_def filter_empty_conv)
  qed
  have "in_flight ps (orders_next (fst s)) = 0"
  proof (rule in_flight_zero)
    fix p assume p: "p \<in> set ps"
    show "\<not> bills (orders_next (fst s)) p"
    proof
      assume "bills (orders_next (fst s)) p"
      then obtain o1 where "proc_order p = Some o1" "ro_id o1 = orders_next (fst s)" using bills_order by blast
      moreover from this(1) p inv obtain q where "q \<in> set (orders (fst s))" "same_order o1 q"
        unfolding credited_once_def fst_conv snd_conv by blast
      ultimately have "q \<in> set (orders (fst s))" "ro_id q = orders_next (fst s)" by (simp_all add: same_order_def)
      with wf show False by (auto simp: orders_wf_def)
    qed
  qed
  then have "order_settled ((d', fs), ps) ?o"
    using none pend by (simp add: order_settled_def cr)
  moreover have "order_settled ((d', fs), ps) q" if "q \<in> set (orders (fst s))" for q
    using that inv by (auto simp: credited_once_def order_settled_def cr)
  moreover have "orders_wf d'"
    using wf False by (auto simp: orders_wf_def d' order_ref_def)
  moreover have "\<exists>q \<in> set (orders d'). same_order o1 q" if "p \<in> set ps" "proc_order p = Some o1" for p o1
    using that inv by (auto simp: credited_once_def d')
  ultimately show ?thesis by (auto simp: credited_once_def d')
qed

lemma Create_keeps:
  assumes inv: "credited_once (s, ps)"
  shows "credited_once (snd (Create sv inp rnd now curdate s), ps)"
proof -
  obtain r s' where run: "Create sv inp rnd now curdate s = (r, s')" by (rule prod.exhaust)
  let ?body = "\<lambda>pkg payURL. bindE (CreateOrder now (new_order inp pkg (genTradeNo rnd) payURL))
      (\<lambda>i. okE (new_order inp pkg (genTradeNo rnd) payURL\<lparr>ro_id := i\<rparr>))"
  have ins: "credited_once (snd (?body pkg payURL s1), ps)" if "fst s1 = fst s" for pkg payURL s1
  proof -
    obtain r2 s2 where st: "stmt (insert_order now (new_order inp pkg (genTradeNo rnd) payURL)) s1 = (r2, s2)"
      by (rule prod.exhaust)
    have s2: "snd (?body pkg payURL s1) = s2"
      by (simp add: bindE_def CreateOrder_def st okE_def split: sum.splits)
    obtain r3 d3 where ins: "insert_order now (new_order inp pkg (genTradeNo rnd) payURL) (fst s) = (r3, d3)"
      by (rule prod.exhaust)
    have "credited_once ((d3, snd s2), ps)"
      by (rule insert_order_keeps [OF inv _ ins]) (simp add: new_order_def)
    moreover have "fst s2 = fst s \<or> fst s2 = d3"
      using stmt_db [of "insert_order now (new_order inp pkg (genTradeNo rnd) payURL)" s1] st that ins by auto
    moreover have "s2 = (fst s2, snd s2)" by simp
    ultimately show ?thesis unfolding s2 using idle_keeps [OF inv] by metis
  qed
  show ?thesis
  proof (cases "\<not> Enabled sv \<or> rc_settings sv \<noteq> None \<and> \<not> AdminEnabled sv")
    case True
    then show ?thesis using inv by (auto simp: Create_def failE_def)
  next
    case False
    obtain r1 s1 where get: "GetPackage (in_package_id inp) s = (r1, s1)" by (rule prod.exhaust)
    have d1: "fst s1 = fst s" by (rule readsD [OF reads_queries(3) get])
    show ?thesis
    proof (cases r1)
      case (Inl e)
      then show ?thesis using False get idle_keeps [OF inv d1] by (auto simp: Create_def bindE_def)
    next
      case (Inr pkg)
      obtain r2 s2 where chk: "check_amount sv curdate (in_user_id inp) (pk_price_cny pkg) s1 = (r2, s2)" by (rule prod.exhaust)
      have d2: "fst s2 = fst s" using readsD [OF reads_check_amount chk] d1 by simp
      let ?url = "BuildPayURL (rc_render sv) (rc_signer sv) (rc_gateway_url sv) (genTradeNo rnd) (pk_name pkg)
          (pk_price_cny pkg) (rc_notify_url sv) (rc_return_url sv)
          (if in_pay_type inp \<noteq> '''' then [(''type'', in_pay_type inp)] else [])"
      have "Create sv inp rnd now curdate s =
        (if \<not> pk_enabled pkg then (Inl ErrPackageUnavailable, s1)
         else case r2 of Inl e \<Rightarrow> (Inl e, s2)
              | Inr _ \<Rightarrow> (case ?url of Inl e \<Rightarrow> (Inl e, s2) | Inr u \<Rightarrow> ?body pkg u s2))"
        using False get Inr chk
        by (auto simp: Create_def bindE_def failE_def Let_def split: sum.split)
      then show ?thesis
        using idle_keeps [OF inv d1] idle_keeps [OF inv d2] ins [OF d2] by (auto split: sum.splits)
    qed
  qed
qed

lemma bill_op_keeps:
  fixes s :: "'a recharge_db_scheme sess"
  assumes inv: "credited_once (s, ps)" and ok: "op_ok a s" "KindRecharge \<notin> op_kinds a"
  shows "credited_once (bill_step a s, ps)"
proof -
  obtain r s' where run: "exec_op a s = (r, s')" by (rule prod.exhaust)
  then have s': "bill_step a s = s'" by (simp add: bill_step_def)
  from run ok(1) show ?thesis unfolding s'
  proof (cases rule: exec_op_posted)
    case unchanged
    show "credited_once (s', ps)" by (rule idle_keeps [OF inv unchanged(1)])
  next
    case (posted txs)
    have kinds: "\<forall>t \<in> set (txs b). ct_type t \<noteq> KindRecharge" for b
      using posted(2) ok(2) unfolding explains_def by metis
    from posted(1) obtain u b where d': "fst s' = (fst s)\<lparr>users := (users (fst s))(op_user a \<mapsto> u),
        ledger := ledger (fst s) @ txs b\<rparr>"
      unfolding posted_def by blast
    have "order_credits (fst s') q = order_credits (fst s) q" for q
      using kinds by (auto simp: order_credits_def d' filter_empty_conv)
    then have "order_settled (s', ps) q" if "order_settled (s, ps) q" for q
      using that by (simp add: order_settled_def)
    moreover have "orders_wf (fst s')"
      using inv kinds by (auto simp: credited_once_def orders_wf_def d')
    ultimately show "credited_once (s', ps)" using inv by (simp add: credited_once_def d')
  qed
qed

section \<open>Every step keeps the invariant\<close>

lemma proc_step_keeps:
  assumes inv: "credited_once (s, ps)" and i: "i < length ps" and run: "proc_step now (ps ! i) s = (p, s')"
  shows "credited_once (s', ps[i := p])"
proof (cases "ps ! i")
  case (PSettle od pl)
  obtain r s1 where cas: "settle_cas now od pl s = (r, s1)" by (rule prod.exhaust)
  have "credited_once (s1, ps[i := (if r = Inr True then PSettleBill od else PDone)])"
    by (rule cas_keeps [OF order_update_casI(2) _ inv i _ _ cas [unfolded settle_cas_def]]) (simp_all add: PSettle)
  with run PSettle cas show ?thesis by (auto split: sum.splits bool.splits if_splits)
next
  case (PForce od actor)
  obtain r s1 where cas: "force_cas now od actor s = (r, s1)" by (rule prod.exhaust)
  have "credited_once (s1, ps[i := (if r = Inr True then PForceBill od actor else PDone)])"
    by (rule cas_keeps [OF order_update_casI(3) _ inv i _ _ cas [unfolded force_cas_def]]) (simp_all add: PForce)
  with run PForce cas show ?thesis by (auto split: sum.splits bool.splits if_splits)
next
  case (PSettleBill od)
  obtain r s1 where b: "settle_bill od s = (r, s1)" by (rule prod.exhaust)
  from bill_keeps [OF inv i _ _ b [unfolded settle_bill_def]] PSettleBill run b show ?thesis by auto
next
  case (PForceBill od actor)
  obtain r s1 where b: "force_bill od actor s = (r, s1)" by (rule prod.exhaust)
  from bill_keeps [OF inv i _ _ b [unfolded force_bill_def]] PForceBill run b show ?thesis by auto
next
  case (PCancel k)
  obtain r s1 where st: "stmt (update_orders (pending_id k) (\<lambda>od. od\<lparr>ro_status := StatusCancelled\<rparr>)) s = (r, s1)"
    by (rule prod.exhaust)
  have s': "s' = s1" "p = PDone"
    using run PCancel st by (auto simp: cancel_exec_def bindE_def okE_def split: sum.splits)
  have fl: "in_flight (ps[i := PDone]) q = in_flight ps q" for q
    using in_flight_update [OF i, of PDone q] PCancel by simp
  have snaps: "\<exists>q \<in> set (orders (fst s)). same_order o1 q"
    if "p' \<in> set (ps[i := PDone])" "proc_order p' = Some o1" for p' o1
    using snaps_update [OF inv that] by simp
  from stmt_update_orders(1) [OF st] show ?thesis unfolding s'
  proof
    assume d': "fst s1 = fst s"
    show "credited_once (s1, ps[i := PDone])"
      by (rule same_db_keeps [OF inv d' snaps]) (simp_all add: fl)
  next
    assume d': "fst s1 = updated (pending_id k) (\<lambda>od. od\<lparr>ro_status := StatusCancelled\<rparr>) (fst s)"
    show "credited_once (s1, ps[i := PDone])"
      by (rule updated_keeps [OF order_update_casI(1) inv d' snaps, where paid = False]) (simp_all add: fl)
  qed
next
  case PDone
  with run inv i show ?thesis by (metis Pair_inject list_update_id proc_step.simps(6))
qed

lemma ExpirePending_keeps:
  assumes inv: "credited_once (s, ps)"
  shows "credited_once (snd (ExpirePending now minutes s), ps)"
proof -
  define t where "t = now - 60 * (if minutes \<le> 0 then 30 else minutes)"
  let ?hit = "\<lambda>od. ro_status od = StatusPending \<and> ro_created_at od < t"
  obtain r s' where st: "stmt (update_orders ?hit (\<lambda>od. od\<lparr>ro_status := StatusExpired\<rparr>)) s = (r, s')"
    by (rule prod.exhaust)
  then have s': "snd (ExpirePending now minutes s) = s'" unfolding ExpirePending_def Let_def t_def by simp
  have snaps: "\<exists>q \<in> set (orders (fst s)). same_order o1 q" if "p \<in> set ps" "proc_order p = Some o1" for p o1
    using that inv by (auto simp: credited_once_def)
  from stmt_update_orders(1) [OF st] show ?thesis unfolding s'
  proof
    assume "fst s' = fst s"
    then show "credited_once (s', ps)" by (rule idle_keeps [OF inv])
  next
    assume d': "fst s' = updated ?hit (\<lambda>od. od\<lparr>ro_status := StatusExpired\<rparr>) (fst s)"
    show "credited_once (s', ps)"
      by (rule updated_keeps [OF order_update_casI(4) inv d' snaps, where paid = False]) simp_all
  qed
qed

interpretation recharge_inv: inv_system "sys_step sv" event_ok credited_once
proof
  fix c :: "'a sys" and e
  assume inv0: "credited_once c" and ok: "event_ok e c"
  obtain s ps where c: "c = (s, ps)" by (rule prod.exhaust)
  note inv = inv0 [unfolded c]
  show "credited_once (sys_step sv e c)" unfolding c
  proof (cases e)
    case (EvNotify f)
    obtain r s' where rd: "notify_read sv f s = (r, s')" by (rule prod.exhaust)
    have d': "fst s' = fst s" by (rule readsD [OF reads_notify_read rd])
    show "credited_once (sys_step sv e (s, ps))"
      using idle_keeps [OF inv d'] spawn_keeps [OF inv d', of "PSettle od pl" for od pl] notify_read_order [of sv f s] rd
      by (auto simp: EvNotify split: sum.splits option.splits)
  next
    case (EvForce oid actor)
    obtain r s' where rd: "force_read oid s = (r, s')" by (rule prod.exhaust)
    have d': "fst s' = fst s" by (rule readsD [OF reads_force_read(1) rd])
    show "credited_once (sys_step sv e (s, ps))"
      using idle_keeps [OF inv d'] spawn_keeps [OF inv d', of "PForce od actor" for od] force_read_order [of oid s] rd
      by (auto simp: EvForce split: sum.splits)
  next
    case (EvCancel uid oid)
    obtain r s' where rd: "cancel_read uid oid s = (r, s')" by (rule prod.exhaust)
    have d': "fst s' = fst s" by (rule readsD [OF reads_force_read(2) rd])
    show "credited_once (sys_step sv e (s, ps))"
      using idle_keeps [OF inv d'] spawn_keeps [OF inv d', of "PCancel oid"] rd
      by (auto simp: EvCancel split: sum.splits)
  next
    case (EvStep i now)
    obtain p s' where "proc_step now (ps ! i) s = (p, s')" by (rule prod.exhaust)
    then show "credited_once (sys_step sv e (s, ps))"
      using proc_step_keeps [OF inv] inv by (simp add: EvStep)
  next
    case (EvCreate inp rnd now curdate)
    then show "credited_once (sys_step sv e (s, ps))" using Create_keeps [OF inv] by simp
  next
    case (EvExpire now minutes)
    then show "credited_once (sys_step sv e (s, ps))" using ExpirePending_keeps [OF inv] by simp
  next
    case (EvBill a)
    then show "credited_once (sys_step sv e (s, ps))" using bill_op_keeps [OF inv] ok by (simp add: c)
  qed
qed

section \<open>Orders only move forward\<close>

text \<open>
  Every order of the earlier database is still there with the same identity and amounts, and once it
  is paid, expired or cancelled its status never changes.
\<close>

definition forward :: "order list \<Rightarrow> order list \<Rightarrow> bool" where
  "forward os os' \<longleftrightarrow>
     (\<forall>q \<in> set os. \<exists>q' \<in> set os'. same_order q q' \<and> (ro_status q \<noteq> StatusPending \<longrightarrow> ro_status q' = ro_status q))"

lemma forward_refl: "forward os os"
  unfolding forward_def using same_order_refl by blast

lemma forward_trans: "forward a b \<Longrightarrow> forward b c \<Longrightarrow> forward a c"
  unfolding forward_def same_order_def by metis

lemma forward_updated: "order_update hit f \<Longrightarrow> forward (orders d) (orders (updated hit f d))"
  unfolding forward_def
proof
  fix q assume upd: "order_update hit f" and q: "q \<in> set (orders d)"
  let ?q = "if hit q then f q else q"
  have "?q \<in> set (orders (updated hit f d))" using q by (simp add: updated_def)
  moreover have "same_order q ?q" "ro_status q \<noteq> StatusPending \<Longrightarrow> ro_status ?q = ro_status q"
    using upd by (auto simp: order_update_def same_order_def)
  ultimately show "\<exists>q' \<in> set (orders (updated hit f d)). same_order q q' \<and>
      (ro_status q \<noteq> StatusPending \<longrightarrow> ro_status q' = ro_status q)" by blast
qed

lemma forward_snoc: "forward os (os @ xs)"
  unfolding forward_def using same_order_refl by (metis Un_iff set_append)

lemma forward_stmt:
  assumes "order_update hit f" and "stmt (update_orders hit f) s = (r, s')"
  shows "forward (orders (fst s)) (orders (fst s'))"
  using stmt_update_orders(1) [OF assms(2)] forward_updated [OF assms(1)] forward_refl by metis

lemma Recharge_orders: "Recharge uid a ref rem s = (r, s') \<Longrightarrow> orders (fst s') = orders (fst s)"
  by (drule Recharge_ledger) auto

lemma proc_step_forward: "proc_step now p s = (p', s') \<Longrightarrow> forward (orders (fst s)) (orders (fst s'))"
proof (cases p)
  case (PSettle od pl)
  assume run: "proc_step now p s = (p', s')"
  obtain r s1 where st: "stmt (update_orders (pending_id (ro_id od))
      (\<lambda>q. q\<lparr>ro_status := StatusPaid, ro_trade_no := np_trade_no pl, ro_pay_method := np_type pl,
              ro_paid_at := Some now, ro_notify_raw := rawDump (np_raw pl)\<rparr>)) s = (r, s1)" by (rule prod.exhaust)
  from forward_stmt [OF order_update_casI(2) st] show ?thesis
    using run st PSettle by (auto simp: settle_cas_def bindE_def okE_def split: sum.splits bool.splits)
next
  case (PForce od actor)
  assume run: "proc_step now p s = (p', s')"
  obtain r s1 where st: "stmt (update_orders (pending_id (ro_id od))
      (\<lambda>q. q\<lparr>ro_status := StatusPaid, ro_paid_at := Some now,
        ro_trade_no := (if ro_trade_no q = '''' then ''manual-'' @ dec_nat actor else ro_trade_no q)\<rparr>)) s = (r, s1)"
    by (rule prod.exhaust)
  from forward_stmt [OF order_update_casI(3) st] show ?thesis
    using run st PForce by (auto simp: force_cas_def bindE_def okE_def split: sum.splits bool.splits)
next
  case (PCancel k)
  assume run: "proc_step now p s = (p', s')"
  obtain r s1 where st: "stmt (update_orders (pending_id k) (\<lambda>od. od\<lparr>ro_status := StatusCancelled\<rparr>)) s = (r, s1)"
    by (rule prod.exhaust)
  from forward_stmt [OF order_update_casI(1) st] show ?thesis
    using run st PCancel by (auto simp: cancel_exec_def bindE_def okE_def split: sum.splits)
next
  case (PSettleBill od)
  assume run: "proc_step now p s = (p', s')"
  obtain r s1 where "settle_bill od s = (r, s1)" by (rule prod.exhaust)
  then show ?thesis using run PSettleBill forward_refl by (auto simp: settle_bill_def dest: Recharge_orders)
next
  case (PForceBill od actor)
  assume run: "proc_step now p s = (p', s')"
  obtain r s1 where "force_bill od actor s = (r, s1)" by (rule prod.exhaust)
  then show ?thesis using run PForceBill forward_refl by (auto simp: force_bill_def dest: Recharge_orders)
next
  case PDone
  assume "proc_step now p s = (p', s')"
  with PDone show ?thesis using forward_refl by simp
qed

text \<open>What a successful or failed placement does to the orders.\<close>

lemma Create_InrE:
  assumes "Create sv inp rnd now curdate s = (Inr od, s')"
  obtains pkg payURL s2 where "Enabled sv" and "AdminEnabled sv" and "pkg \<in> set (packages (fst s))"
    and "pk_id pkg = in_package_id inp" and "pk_enabled pkg" and "fst s2 = fst s"
    and "\<exists>s1. fst s1 = fst s \<and> check_amount sv curdate (in_user_id inp) (pk_price_cny pkg) s1 = (Inr (), s2)"
    and "insert_order now (new_order inp pkg (genTradeNo rnd) payURL) (fst s) = (Inr (ro_id od), fst s')"
    and "od = (new_order inp pkg (genTradeNo rnd) payURL)\<lparr>ro_id := ro_id od\<rparr>"
proof -
  have en: "Enabled sv" "AdminEnabled sv"
    using assms by (auto simp: Create_def failE_def AdminEnabled_def split: if_splits option.splits)
  from assms en obtain pkg s1 where get: "GetPackage (in_package_id inp) s = (Inr pkg, s1)"
    and rest: "(if \<not> pk_enabled pkg then failE ErrPackageUnavailable
           else bindE (check_amount sv curdate (in_user_id inp) (pk_price_cny pkg)) (\<lambda>_.
                let outTradeNo = genTradeNo rnd;
                    extra = (if in_pay_type inp \<noteq> '''' then [(''type'', in_pay_type inp)] else []) in
                case BuildPayURL (rc_render sv) (rc_signer sv) (rc_gateway_url sv) outTradeNo (pk_name pkg)
                       (pk_price_cny pkg) (rc_notify_url sv) (rc_return_url sv) extra of
                  Inl e \<Rightarrow> failE e
                | Inr payURL \<Rightarrow>
                    let o1 = new_order inp pkg outTradeNo payURL in
                    bindE (CreateOrder now o1) (\<lambda>i. okE (o1\<lparr>ro_id := i\<rparr>)))) s1 = (Inr od, s')"
    by (auto simp: Create_def elim: bindE_InrE)
  from get have pk: "pkg \<in> set (packages (fst s))" "pk_id pkg = in_package_id inp"
    by (auto simp: GetPackage_def find_Some_iff elim!: stmt_InrE split: option.splits)
  have d1: "fst s1 = fst s" by (rule readsD [OF reads_queries(3) get])
  from rest have pe: "pk_enabled pkg" by (auto simp: failE_def split: if_splits)
  with rest [unfolded Let_def] obtain s2 where chk: "check_amount sv curdate (in_user_id inp) (pk_price_cny pkg) s1 = (Inr (), s2)"
    and rest2: "(case BuildPayURL (rc_render sv) (rc_signer sv) (rc_gateway_url sv) (genTradeNo rnd) (pk_name pkg)
                       (pk_price_cny pkg) (rc_notify_url sv) (rc_return_url sv)
                       (if in_pay_type inp \<noteq> '''' then [(''type'', in_pay_type inp)] else []) of
                  Inl e \<Rightarrow> failE e
                | Inr payURL \<Rightarrow> bindE (CreateOrder now (new_order inp pkg (genTradeNo rnd) payURL))
                    (\<lambda>i. okE ((new_order inp pkg (genTradeNo rnd) payURL)\<lparr>ro_id := i\<rparr>))) s2 = (Inr od, s')"
    by (auto elim!: bindE_InrE)
  have d2: "fst s2 = fst s" using readsD [OF reads_check_amount chk] d1 by simp
  from rest2 obtain payURL i where "CreateOrder now (new_order inp pkg (genTradeNo rnd) payURL) s2 = (Inr i, s')"
    and od: "od = (new_order inp pkg (genTradeNo rnd) payURL)\<lparr>ro_id := i\<rparr>"
    by (auto simp: failE_def okE_def elim!: bindE_InrE split: sum.splits)
  then have ins: "insert_order now (new_order inp pkg (genTradeNo rnd) payURL) (fst s) = (Inr (ro_id od), fst s')"
    by (auto simp: CreateOrder_def d2 [symmetric] elim: stmt_InrE)
  have "od = (new_order inp pkg (genTradeNo rnd) payURL)\<lparr>ro_id := ro_id od\<rparr>" by (simp add: od)
  moreover have "\<exists>s1. fst s1 = fst s \<and> check_amount sv curdate (in_user_id inp) (pk_price_cny pkg) s1 = (Inr (), s2)"
    using d1 chk by blast
  ultimately show ?thesis using that [OF en pk pe d2 _ ins] by blast
qed

definition fwd :: "('a recharge_db_scheme sess, 'c) action \<Rightarrow> bool" where
  "fwd m \<longleftrightarrow> (\<forall>s r s'. m s = (r, s') \<longrightarrow> forward (orders (fst s)) (orders (fst s')))"

lemma fwdD: "fwd m \<Longrightarrow> m s = (r, s') \<Longrightarrow> forward (orders (fst s)) (orders (fst s'))"
  unfolding fwd_def by blast

lemma fwd_reads: "reads m \<Longrightarrow> fwd m"
  unfolding fwd_def by (metis readsD forward_refl)

lemma fwd_bindE:
  assumes "fwd m" and "\<And>x. fwd (f x)"
  shows "fwd (bindE m f)"
  unfolding fwd_def
proof (intro allI impI)
  fix s r s' assume run: "bindE m f s = (r, s')"
  obtain r1 s1 where m: "m s = (r1, s1)" by (rule prod.exhaust)
  note m1 = fwdD [OF assms(1) m]
  show "forward (orders (fst s)) (orders (fst s'))"
  proof (cases r1)
    case (Inl e)
    with run m m1 show ?thesis by (simp add: bindE_def)
  next
    case (Inr x)
    with run m have "f x s1 = (r, s')" by (simp add: bindE_def)
    from forward_trans [OF m1 fwdD [OF assms(2) this]] show ?thesis .
  qed
qed

lemma fwd_CreateOrder: "fwd (CreateOrder now od)"
  unfolding fwd_def CreateOrder_def
proof (intro allI impI)
  fix s s' :: "'a recharge_db_scheme sess" and r assume run: "stmt (insert_order now od) s = (r, s')"
  have "forward (orders d) (orders (snd (insert_order now od d)))" for d :: "'a recharge_db_scheme"
    by (simp add: insert_order_def forward_refl forward_snoc)
  then show "forward (orders (fst s)) (orders (fst s'))"
    using stmt_db [of "insert_order now od" s] run forward_refl by (metis snd_conv)
qed

lemma fwd_control:
  "fwd (okE x)" "fwd (failE e)"
  "(c \<Longrightarrow> fwd a) \<Longrightarrow> (\<not> c \<Longrightarrow> fwd b) \<Longrightarrow> fwd (if c then a else b)"
  "(\<And>e. fwd (f e)) \<Longrightarrow> (\<And>y. fwd (g y)) \<Longrightarrow> fwd (case z of Inl e \<Rightarrow> f e | Inr y \<Rightarrow> g y)"
  by (auto simp: fwd_def okE_def failE_def forward_refl split: sum.splits)

lemma fwd_Create: "fwd (Create sv inp rnd now curdate)"
  unfolding Create_def Let_def
  by (intro fwd_control fwd_bindE fwd_CreateOrder fwd_reads reads_queries reads_check_amount)

lemma fwd_ExpirePending: "fwd (ExpirePending now minutes)"
  unfolding fwd_def ExpirePending_def Let_def using forward_stmt [OF order_update_casI(4)] by blast

lemma bill_step_orders: "op_ok a s \<Longrightarrow> orders (fst (bill_step a s)) = orders (fst (s :: 'a recharge_db_scheme sess))"
proof -
  assume ok: "op_ok a s"
  obtain r s' where run: "exec_op a s = (r, s')" by (rule prod.exhaust)
  from run ok have "orders (fst s') = orders (fst s)"
    by (cases rule: exec_op_posted) (auto simp: posted_def)
  with run show ?thesis by (simp add: bill_step_def)
qed

lemma sys_step_forward:
  assumes "event_ok e (s, ps)"
  shows "forward (orders (fst s)) (orders (fst (fst (sys_step sv e (s, ps)))))"
proof -
  show ?thesis
  proof (cases e)
    case (EvNotify f)
    obtain r s' where "notify_read sv f s = (r, s')" by (rule prod.exhaust)
    with fwdD [OF fwd_reads [OF reads_notify_read] this] EvNotify show ?thesis by (auto split: sum.splits option.splits)
  next
    case (EvForce oid actor)
    obtain r s' where "force_read oid s = (r, s')" by (rule prod.exhaust)
    with fwdD [OF fwd_reads [OF reads_force_read(1)] this] EvForce show ?thesis by (auto split: sum.splits)
  next
    case (EvCancel uid oid)
    obtain r s' where "cancel_read uid oid s = (r, s')" by (rule prod.exhaust)
    with fwdD [OF fwd_reads [OF reads_force_read(2)] this] EvCancel show ?thesis by (auto split: sum.splits)
  next
    case (EvStep i now)
    obtain p s' where "proc_step now (ps ! i) s = (p, s')" by (rule prod.exhaust)
    with proc_step_forward [OF this] EvStep forward_refl show ?thesis by simp
  next
    case (EvCreate inp rnd now curdate)
    then show ?thesis using fwdD [OF fwd_Create prod.collapse [symmetric]] by simp
  next
    case (EvExpire now minutes)
    then show ?thesis using fwdD [OF fwd_ExpirePending prod.collapse [symmetric]] by simp
  next
    case (EvBill a)
    then have "op_ok a s" using assms by simp
    from bill_step_orders [OF this] EvBill show ?thesis by (simp add: forward_refl)
  qed
qed

interpretation recharge_forward: inv_system "sys_step sv" event_ok "\<lambda>c. forward os (orders (fst (fst c)))"
proof
  fix c :: "'a sys" and e
  assume f: "forward os (orders (fst (fst c)))" and ok: "event_ok e c"
  obtain s ps where c: "c = (s, ps)" by (rule prod.exhaust)
  show "forward os (orders (fst (fst (sys_step sv e c))))"
    using forward_trans [OF f [unfolded c fst_conv] sys_step_forward [OF ok [unfolded c]]] unfolding c .
qed

section \<open>A notification on a responsive database\<close>

lemma find_order:
  assumes "orders_wf d" and "od \<in> set (orders d)"
  shows "find (\<lambda>q. ro_out_trade_no q = ro_out_trade_no od) (orders d) = Some od"
proof -
  obtain q where q: "find (\<lambda>q. ro_out_trade_no q = ro_out_trade_no od) (orders d) = Some q"
    using assms(2) by (cases "find (\<lambda>q. ro_out_trade_no q = ro_out_trade_no od) (orders d)") (auto simp: find_None_iff)
  then have "q \<in> set (orders d)" "ro_out_trade_no q = ro_out_trade_no od" by (auto simp: find_Some_iff)
  then have "q = od" using assms by (auto simp: orders_wf_def distinct_map inj_on_def)
  with q show ?thesis by simp
qed

definition paid_order :: "int \<Rightarrow> notify_payload \<Rightarrow> order \<Rightarrow> order" where
  "paid_order now pl q =
     q\<lparr>ro_status := StatusPaid, ro_trade_no := np_trade_no pl, ro_pay_method := np_type pl,
       ro_paid_at := Some now, ro_notify_raw := rawDump (np_raw pl)\<rparr>"

definition paid_db :: "int \<Rightarrow> notify_payload \<Rightarrow> order \<Rightarrow> 'a recharge_db_scheme \<Rightarrow> 'a recharge_db_scheme" where
  "paid_db now pl od d = updated (pending_id (ro_id od)) (paid_order now pl) d"

text \<open>The conditions under which \<open>HandleNotify\<close> settles the order.\<close>

definition payable :: "recharge_service \<Rightarrow> form \<Rightarrow> notify_payload \<Rightarrow> order \<Rightarrow> 'a recharge_db_scheme \<Rightarrow> bool" where
  "payable sv f pl od d \<longleftrightarrow>
     orders_wf d \<and> ParseNotify (rc_signer sv) f = Inr pl \<and> np_trade_status pl = ''TRADE_SUCCESS'' \<and>
     od \<in> set (orders d) \<and> ro_out_trade_no od = np_out_trade_no pl \<and> ro_status od = StatusPending \<and>
     verifyAmount (np_money pl) (ro_price_cny od) = Inr ()"

lemma notify_read_payable:
  assumes "payable sv f pl od d"
  shows "notify_read sv f (d, []) = (Inr (Some (od, pl)), (d, []))"
  using assms find_order [of d od]
  by (simp add: payable_def notify_read_def GetByOutTradeNo_def bindE_def okE_def)

lemma settle_cas_payable:
  assumes "payable sv f pl od d"
  shows "settle_cas now od pl (d, []) = (Inr True, (paid_db now pl od d, []))"
proof -
  have "filter (pending_id (ro_id od)) (orders d) \<noteq> []"
    using assms by (auto simp: payable_def pending_id_def filter_empty_conv)
  then show ?thesis
    by (simp add: settle_cas_def bindE_def okE_def update_orders_def paid_db_def updated_def paid_order_def [abs_def])
qed

lemma HandleNotify_payable:
  assumes "payable sv f pl od d"
  shows "HandleNotify sv f now (d, []) =
    (case settle_bill od (paid_db now pl od d, []) of (Inl e, s') \<Rightarrow> (Inl e, s') | (Inr _, s') \<Rightarrow> (Inr ''success'', s'))"
  by (simp add: HandleNotify_def settle_def bindE_def notify_read_payable [OF assms] settle_cas_payable [OF assms] okE_def
      split: prod.split sum.split)

lemma orders_wf_post:
  assumes "orders_wf d" and "q \<in> set (orders d)"
  shows "orders_wf (d\<lparr>users := us, ledger := ledger d @ [mk_tx uid k kd a after (order_ref q) rem]\<rparr>)"
  using assms by (auto simp: orders_wf_def mk_tx_def)

lemma paid_stays_success:
  assumes "q \<in> set (orders d)" and "ro_status q = StatusPaid" and "orders_wf d"
    and "ParseNotify (rc_signer sv) f = Inr pl" and "np_out_trade_no pl = ro_out_trade_no q"
  shows "HandleNotify sv f now (d, []) = (Inr ''success'', (d, []))"
  using assms find_order [OF assms(3,1)]
  by (simp add: HandleNotify_def notify_read_def GetByOutTradeNo_def bindE_def okE_def)

section \<open>Properties\<close>

definition demo_recharge :: recharge_service where
  "demo_recharge = \<lparr>rc_gateway_url = ''https://pay'', rc_signer = demo_signer, rc_notify_url = ''n'', rc_return_url = ''r'',
     rc_settings = Some \<lparr>rs_enabled = True, rs_min_cny = 0, rs_max_cny = 0, rs_daily_limit_cny = 3000, rs_order_expire_min = 30\<rparr>,
     rc_render = (\<lambda>u ps. Inr u)\<rparr>"

definition demo_order :: order where
  "demo_order = \<lparr>ro_id = 1, ro_out_trade_no = ''ab12'', ro_user_id = 1, ro_package_id = 1, ro_price_cny = 1990,
     ro_credits = 1000, ro_bonus = 50, ro_channel = ''epay'', ro_pay_method = '''', ro_status = StatusPending,
     ro_trade_no = '''', ro_paid_at = None, ro_pay_url = ''u'', ro_client_ip = ''c'', ro_notify_raw = None,
     ro_remark = ''P'', ro_created_at = 0\<rparr>"

definition demo_package :: package where
  "demo_package = \<lparr>pk_id = 1, pk_name = ''P'', pk_price_cny = 1990, pk_credits = 1000, pk_bonus = 50,
     pk_description = '''', pk_sort = 0, pk_enabled = True\<rparr>"

definition demo_recharge_db :: recharge_db where
  "demo_recharge_db = \<lparr>users = [1 \<mapsto> demo_row 100 0 None], ledger = [], codes = [], codes_next = 1,
     checkins = [], checkins_next = 1, packages = [demo_package], packages_next = 2, orders = [demo_order], orders_next = 2\<rparr>"

lemma demo_credited_once: "credited_once ((demo_recharge_db, fs), [])"
  by (simp add: credited_once_def orders_wf_def order_settled_def order_credits_def in_flight_def
      demo_recharge_db_def demo_order_def)

text \<open>
  C2. Under any interleaving of any number of notifications, manual payments, cancellations, expiry runs,
  new orders and other billing operations, with any driver faults and crashed handlers, an order is
  credited at most once: the ledger holds at most one recharge entry for it, none unless the order is
  paid, and that entry is for the order's user and exactly its credits plus bonus.
\<close>

theorem order_credited_at_most_once:
  assumes "credited_once c" and "admissible_run event_ok (sys_step sv) es c"
    and "q \<in> set (orders (fst (fst (fold (sys_step sv) es c))))"
  shows "length (order_credits (fst (fst (fold (sys_step sv) es c))) q) \<le> (if ro_status q = StatusPaid then 1 else 0) \<and>
         (\<forall>t \<in> set (order_credits (fst (fst (fold (sys_step sv) es c))) q).
            ct_user_id t = ro_user_id q \<and> ct_amount t = TotalCredits q)"
  using recharge_inv.run_inv [OF assms(1,2)] assms(3) by (auto simp: credited_once_def order_settled_def split: if_splits)

definition demo_events :: "event list" where
  "demo_events = [EvNotify demo_form, EvNotify demo_form, EvForce 1 9, EvStep 0 5, EvStep 1 6, EvStep 0 7, EvStep 2 8, EvExpire 9 0]"

lemma demo_events_ok: "admissible_run event_ok (sys_step demo_recharge) demo_events (c :: unit sys)"
proof -
  have "event_ok e c" if "e \<in> set demo_events" for e and c :: "unit sys"
    using that by (auto simp: demo_events_def)
  then show ?thesis by (simp add: demo_events_def del: sys_step.simps event_ok.simps)
qed

theorem order_credited_at_most_once_witness:
  "\<exists>q \<in> set (orders (fst (fst (fold (sys_step demo_recharge) demo_events
      ((demo_recharge_db, [DOk, DOk, DOk, DOk, DOk, DLost]), []))))).
     same_order demo_order q \<and>
     length (order_credits (fst (fst (fold (sys_step demo_recharge) demo_events
      ((demo_recharge_db, [DOk, DOk, DOk, DOk, DOk, DLost]), [])))) q) \<le> 1"
proof -
  let ?c = "((demo_recharge_db, [DOk, DOk, DOk, DOk, DOk, DLost]), []) :: unit sys"
  let ?c' = "fold (sys_step demo_recharge) demo_events ?c"
  have "demo_order \<in> set (orders (fst (fst ?c)))" by (simp add: demo_recharge_db_def)
  with recharge_forward.run_inv [OF forward_refl demo_events_ok]
  obtain q where q: "q \<in> set (orders (fst (fst ?c')))" "same_order demo_order q" unfolding forward_def by blast
  from order_credited_at_most_once [OF demo_credited_once demo_events_ok q(1)] q show ?thesis by (auto split: if_splits)
qed

text \<open>
  The order state machine only moves forward: in any such run every order keeps its identity, price
  and credits, and once it has left \<open>pending\<close> (paid, expired or cancelled) its status never changes.
\<close>

theorem order_status_only_forward:
  assumes "admissible_run event_ok (sys_step sv) es c"
    and "q \<in> set (orders (fst (fst c)))"
  shows "\<exists>q' \<in> set (orders (fst (fst (fold (sys_step sv) es c)))).
           same_order q q' \<and> (ro_status q \<noteq> StatusPending \<longrightarrow> ro_status q' = ro_status q)"
  using recharge_forward.run_inv [OF forward_refl assms(1)] assms(2) unfolding forward_def by blast

theorem order_status_only_forward_witness:
  "\<exists>q' \<in> set (orders (fst (fst (fold (sys_step demo_recharge) [EvCancel 1 1, EvNotify demo_form, EvStep 0 5, EvStep 1 6]
      ((demo_recharge_db, []), []))))). same_order demo_order q'"
proof -
  let ?es = "[EvCancel 1 1, EvNotify demo_form, EvStep 0 5, EvStep 1 6]"
  have ev: "event_ok e c" if "e \<in> set ?es" for e and c :: "unit sys" using that by auto
  have "admissible_run event_ok (sys_step demo_recharge) ?es ((demo_recharge_db, []), [])"
    by (simp add: ev del: sys_step.simps event_ok.simps)
  from order_status_only_forward [OF this, of demo_order] show ?thesis by (auto simp: demo_recharge_db_def)
qed

text \<open>
  A good notification pays: on a responsive database a signed success notification with the right
  amount for a pending order of a live user answers \<open>success\<close>, marks the order paid and credits
  exactly its total; and any later notification for the same order answers \<open>success\<close> without
  changing anything.
\<close>

theorem notification_pays_once:
  assumes "payable sv f pl od d" and "live (ro_user_id od) d = Some u" and "0 < TotalCredits od"
    and "row_fits (move (TotalCredits od) 0 u)"
  shows "\<exists>d'. HandleNotify sv f now (d, []) = (Inr ''success'', (d', [])) \<and>
           users d' (ro_user_id od) = Some (move (TotalCredits od) 0 u) \<and>
           paid_order now pl od \<in> set (orders d') \<and>
           (\<forall>f' pl' now'. ParseNotify (rc_signer sv) f' = Inr pl' \<and> np_out_trade_no pl' = np_out_trade_no pl \<longrightarrow>
              HandleNotify sv f' now' (d', []) = (Inr ''success'', (d', [])))"
proof -
  let ?t = "TotalCredits od"
  let ?p = "paid_db now pl od d"
  let ?d = "?p\<lparr>users := (users d)(ro_user_id od \<mapsto> move ?t 0 u), ledger := ledger d @
      [mk_tx (ro_user_id od) 0 KindRecharge ?t (credit_balance u + ?t) (order_ref od) (word_recharge @ '':'' @ ro_remark od)]\<rparr>"
  have "users ?p = users d" "ledger ?p = ledger d" by (simp_all add: paid_db_def updated_def)
  then have bill: "settle_bill od (?p, []) = (Inr (), (?d, []))"
    using Recharge_eval [of ?t "ro_user_id od" ?p u] assms(2-4) by (simp add: settle_bill_def post_def)
  have wf: "orders_wf ?p" unfolding paid_db_def
    using assms(1) order_update_casI(2) by (intro orders_wf_updated) (auto simp: payable_def paid_order_def [abs_def])
  have in_p: "paid_order now pl od \<in> set (orders ?d)"
    using assms(1) by (auto simp: paid_db_def updated_def payable_def pending_id_def intro!: image_eqI [where x = od])
  have "order_ref (paid_order now pl od) = order_ref od" by (simp add: paid_order_def order_ref_def)
  then have wf': "orders_wf ?d"
    using orders_wf_post [OF wf, of "paid_order now pl od"] in_p \<open>ledger ?p = ledger d\<close> by simp
  have "HandleNotify sv f' now' (?d, []) = (Inr ''success'', (?d, []))"
    if "ParseNotify (rc_signer sv) f' = Inr pl'" "np_out_trade_no pl' = np_out_trade_no pl" for f' pl' now'
    using assms(1) that by (intro paid_stays_success [OF in_p _ wf' that(1)]) (auto simp: paid_order_def payable_def)
  then show ?thesis using HandleNotify_payable [OF assms(1)] bill in_p by auto
qed

lemma demo_payable: "\<exists>pl. payable demo_recharge demo_form pl demo_order demo_recharge_db"
proof -
  have pl: "ParseNotify demo_signer demo_form = Inr
     \<lparr>np_out_trade_no = ''ab12'', np_trade_no = ''T1'', np_trade_status = ''TRADE_SUCCESS'', np_name = ''P'',
      np_money = ''19.90'', np_type = ''alipay'', np_raw = form_params demo_form\<rparr>"
    using demo_form_sign Sign_nonempty
    by (simp add: ParseNotify_def Verify_def EqualFold_def)
       (simp add: get_param_def form_params_def form_get_def demo_form_def Let_def)
  have "fmt_fen 1990 = ''19.90''" by code_simp
  then have "verifyAmount ''19.90'' 1990 = Inr ()"
    using Sscanf_f_fen [of 1990] got_fen [of 1990] by (simp add: verifyAmount_def)
  moreover have "orders_wf demo_recharge_db" by (simp add: orders_wf_def demo_recharge_db_def demo_order_def)
  ultimately show ?thesis
    unfolding payable_def by (auto simp: demo_recharge_def pl demo_recharge_db_def demo_order_def)
qed

theorem notification_pays_once_witness:
  "\<exists>d'. HandleNotify demo_recharge demo_form 7 (demo_recharge_db, []) = (Inr ''success'', (d', [])) \<and>
     users d' 1 = Some (move 1050 0 (demo_row 100 0 None)) \<and>
     HandleNotify demo_recharge demo_form 8 (d', []) = (Inr ''success'', (d', []))"
proof -
  obtain pl where p: "payable demo_recharge demo_form pl demo_order demo_recharge_db" using demo_payable by blast
  have t: "TotalCredits demo_order = 1050" by (simp add: TotalCredits_def demo_order_def in_i64_def)
  have u: "live (ro_user_id demo_order) demo_recharge_db = Some (demo_row 100 0 None)" "ro_user_id demo_order = 1"
    by (simp_all add: demo_recharge_db_def demo_order_def demo_row_def)
  from notification_pays_once [OF p u(1), of 7] p show ?thesis
    by (auto simp: t u(2) demo_row_def row_fits_def in_i64_def payable_def)
qed



text \<open>
  Paid without credit: when the billing transaction fails after the order was marked paid, the
  handler answers \<open>fail\<close> but the order stays paid without any credit, and the retry that answer
  asks for is told \<open>success\<close> and credits nothing.
\<close>

theorem paid_but_never_credited:
  assumes "payable sv f pl od d" and "0 < TotalCredits od"
  shows "HandleNotify sv f now (d, [DOk, DOk, DFail]) = (Inl EDriver, (paid_db now pl od d, [])) \<and>
         ledger (paid_db now pl od d) = ledger d \<and> users (paid_db now pl od d) = users d \<and>
         HandleNotify sv f now' (paid_db now pl od d, []) = (Inr ''success'', (paid_db now pl od d, []))"
proof -
  let ?p = "paid_db now pl od d"
  have wf: "orders_wf ?p" unfolding paid_db_def
    using assms(1) order_update_casI(2) by (intro orders_wf_updated) (auto simp: payable_def paid_order_def [abs_def])
  have in_p: "paid_order now pl od \<in> set (orders ?p)"
    using assms(1) by (auto simp: paid_db_def updated_def payable_def pending_id_def intro!: image_eqI [where x = od])
  have ne: "filter (pending_id (ro_id od)) (orders d) \<noteq> []"
    using assms(1) by (auto simp: payable_def pending_id_def filter_empty_conv)
  have read: "notify_read sv f (d, [DOk, DOk, DFail]) = (Inr (Some (od, pl)), (d, [DOk, DFail]))"
    using assms(1) find_order [of d od]
    by (simp add: payable_def notify_read_def GetByOutTradeNo_def bindE_def okE_def stmt_def)
  have cas: "settle_cas now od pl (d, [DOk, DFail]) = (Inr True, (?p, [DFail]))"
    using ne by (simp add: settle_cas_def bindE_def okE_def stmt_def update_orders_def paid_db_def updated_def paid_order_def [abs_def])
  have bill: "settle_bill od (?p, [DFail]) = (Inl EDriver, (?p, []))"
    using assms(2) by (simp add: settle_bill_def Recharge_def runTx_def begin_tx_def)
  have retry: "HandleNotify sv f now' (?p, []) = (Inr ''success'', (?p, []))"
    using assms(1) by (intro paid_stays_success [OF in_p _ wf]) (auto simp: paid_order_def payable_def)
  show ?thesis
    using retry by (simp add: HandleNotify_def settle_def bindE_def read cas bill) (simp add: paid_db_def updated_def)
qed

theorem paid_but_never_credited_witness:
  "\<exists>d'. HandleNotify demo_recharge demo_form 7 (demo_recharge_db, [DOk, DOk, DFail]) = (Inl EDriver, (d', [])) \<and>
     ledger d' = [] \<and> HandleNotify demo_recharge demo_form 8 (d', []) = (Inr ''success'', (d', []))"
proof -
  obtain pl where p: "payable demo_recharge demo_form pl demo_order demo_recharge_db" using demo_payable by blast
  have t: "0 < TotalCredits demo_order" by (simp add: TotalCredits_def demo_order_def in_i64_def)
  have "ledger demo_recharge_db = []" by (simp add: demo_recharge_db_def)
  with paid_but_never_credited [OF p t, of 7 8] show ?thesis by auto
qed

text \<open>
  An order is placed only inside the limits: when \<open>Create\<close> returns an order, under any driver
  behaviour, recharging is enabled, the package exists and is enabled, its price is within the
  configured minimum and maximum, the user's paid orders of the day plus this price stay within the daily
  limit, and the new row is a pending order with the package's price and credits.
\<close>

theorem placed_order_within_limits:
  assumes run: "Create sv inp rnd now curdate s = (Inr od, s')" and ss: "rc_settings sv = Some ss"
    and fits: "in_i64 (paid_since curdate (in_user_id inp) (orders (fst s)) + ro_price_cny od)"
  shows "rs_enabled ss \<and>
         (0 < rs_min_cny ss \<longrightarrow> rs_min_cny ss \<le> ro_price_cny od) \<and> (0 < rs_max_cny ss \<longrightarrow> ro_price_cny od \<le> rs_max_cny ss) \<and>
         (0 < rs_daily_limit_cny ss \<longrightarrow>
            paid_since curdate (in_user_id inp) (orders (fst s)) + ro_price_cny od \<le> rs_daily_limit_cny ss) \<and>
         (\<exists>pkg \<in> set (packages (fst s)). pk_enabled pkg \<and> pk_id pkg = in_package_id inp \<and> ro_price_cny od = pk_price_cny pkg \<and>
            ro_credits od = pk_credits pkg \<and> ro_bonus od = pk_bonus pkg) \<and>
         ro_status od = StatusPending \<and> ro_user_id od = in_user_id inp \<and>
         orders (fst s') = orders (fst s) @ [od\<lparr>ro_created_at := now\<rparr>]"
  using run
proof (cases rule: Create_InrE)
  case (1 pkg payURL s2)
  let ?n = "new_order inp pkg (genTradeNo rnd) payURL"
  have od: "ro_price_cny od = pk_price_cny pkg" "ro_credits od = pk_credits pkg" "ro_bonus od = pk_bonus pkg"
    "ro_status od = StatusPending" "ro_user_id od = in_user_id inp"
    by (subst 1(9), simp add: new_order_def)+
  have "od\<lparr>ro_created_at := now\<rparr> = ?n\<lparr>ro_id := ro_id od, ro_paid_at := None, ro_notify_raw := None, ro_created_at := now\<rparr>"
    by (subst 1(9)) (simp add: new_order_def)
  moreover have "fst s' = (fst s)\<lparr>orders := orders (fst s) @
      [?n\<lparr>ro_id := orders_next (fst s), ro_paid_at := None, ro_notify_raw := None, ro_created_at := now\<rparr>],
      orders_next := orders_next (fst s) + 1\<rparr>" "orders_next (fst s) = ro_id od"
    using 1(8) by (auto simp: insert_order_def split: if_splits)
  ultimately have ords: "orders (fst s') = orders (fst s) @ [od\<lparr>ro_created_at := now\<rparr>]" by simp
  from 1(7) obtain s1 where s1: "fst s1 = fst s"
    and chk: "check_amount sv curdate (in_user_id inp) (pk_price_cny pkg) s1 = (Inr (), s2)" by blast
  have "(0 < rs_min_cny ss \<longrightarrow> rs_min_cny ss \<le> pk_price_cny pkg) \<and> (0 < rs_max_cny ss \<longrightarrow> pk_price_cny pkg \<le> rs_max_cny ss) \<and>
         (0 < rs_daily_limit_cny ss \<longrightarrow>
            paid_since curdate (in_user_id inp) (orders (fst s)) + pk_price_cny pkg \<le> rs_daily_limit_cny ss)"
    using chk fits by (auto simp: check_amount_def ss failE_def okE_def SumPaidTodayCNY_def s1 od(1)
        elim!: bindE_InrE stmt_InrE split: if_splits)
  moreover have "rs_enabled ss" using 1(2) by (simp add: AdminEnabled_def ss)
  ultimately show ?thesis using od ords 1(3-5) by auto
qed

definition demo_input :: create_input where
  "demo_input = \<lparr>in_user_id = 1, in_package_id = 1, in_pay_type = ''alipay'', in_client_ip = ''c''\<rparr>"

theorem placed_order_within_limits_witness:
  "\<exists>od s'. Create demo_recharge demo_input [171, 205] 5 0 (demo_recharge_db, []) = (Inr od, s') \<and>
     ro_credits od = 1000 \<and> orders (fst s') = [demo_order, od\<lparr>ro_created_at := 5\<rparr>]"
proof -
  have sg: "sg_pid demo_signer \<noteq> ''''" "sg_key demo_signer \<noteq> ''''" by (simp_all add: demo_signer_def NewSigner_def)
  have tn: "genTradeNo [171, 205] \<noteq> ''ab12''" by code_simp
  have ps: "paid_since 0 1 [demo_order] = 0" "paid_since 0 (Suc 0) [demo_order] = 0"
    by (simp_all add: paid_since_def demo_order_def)
  let ?n = "new_order demo_input demo_package (genTradeNo [171, 205]) ''https://pay''"
  have get: "GetPackage (in_package_id demo_input) (demo_recharge_db, []) = (Inr demo_package, (demo_recharge_db, []))"
    by (simp add: GetPackage_def demo_recharge_db_def demo_input_def demo_package_def)
  have chk: "check_amount demo_recharge 0 (in_user_id demo_input) (pk_price_cny demo_package) (demo_recharge_db, []) =
      (Inr (), (demo_recharge_db, []))"
    by (simp add: check_amount_def demo_recharge_def SumPaidTodayCNY_def bindE_def okE_def demo_input_def
        demo_package_def in_i64_def) (simp add: demo_recharge_db_def ps in_i64_def)
  have ins: "CreateOrder 5 ?n (demo_recharge_db, []) = (Inr 2, (snd (insert_order 5 ?n demo_recharge_db), []))"
    using tn by (simp add: CreateOrder_def insert_order_def) (simp add: demo_recharge_db_def demo_order_def new_order_def)
  have en: "Enabled demo_recharge" "AdminEnabled demo_recharge" "pk_enabled demo_package"
    by (simp_all add: Enabled_def AdminEnabled_def demo_recharge_def sg demo_package_def)
  have url: "BuildPayURL (rc_render demo_recharge) (rc_signer demo_recharge) (rc_gateway_url demo_recharge) a b c x y z = Inr ''https://pay''"
    for a b c x y z by (simp add: BuildPayURL_def demo_recharge_def)
  have run: "Create demo_recharge demo_input [171, 205] 5 0 (demo_recharge_db, []) =
      (Inr (?n\<lparr>ro_id := 2\<rparr>), (snd (insert_order 5 ?n demo_recharge_db), []))"
    by (simp add: Create_def en bindE_def get chk url ins okE_def Let_def)
  have price: "ro_price_cny (?n\<lparr>ro_id := 2\<rparr>) = 1990" by (simp add: new_order_def demo_package_def)
  have "in_i64 (paid_since 0 (in_user_id demo_input) (orders (fst (demo_recharge_db, []))) + ro_price_cny (?n\<lparr>ro_id := 2\<rparr>))"
    unfolding price by (simp add: demo_input_def demo_recharge_db_def ps in_i64_def)
  from placed_order_within_limits [OF run _ this] run show ?thesis
    by (auto simp: demo_recharge_def demo_recharge_db_def demo_package_def)
qed

end
