(* ===== verification/Redis_Lock.thy ===== *)
theory Redis_Lock
  imports Sql_Tx Go_Float
begin

text \<open>
  The Redis lock of pkg/lock: \<open>SET NX\<close> with an expiry, a compare-and-delete and a
  compare-and-extend script. A call reaches the server as one atomic command whose reply may be lost,
  like a statement of \<open>Sql_Tx\<close>. Keys carry their value and expiry instant (milliseconds of the
  server's clock); an expired key is absent.
\<close>

section \<open>The store\<close>

record bucket =
  bk_tokens :: rat
  bk_ts :: int
  bk_expires :: int

record redis_db =
  locks :: "string \<rightharpoonup> string \<times> int"
  buckets :: "string \<rightharpoonup> bucket"

definition redis_get :: "int \<Rightarrow> string \<Rightarrow> 'a redis_db_scheme \<Rightarrow> string option" where
  "redis_get now key d =
     (case locks d key of None \<Rightarrow> None | Some (v, ex) \<Rightarrow> if now < ex then Some v else None)"

definition redis_setnx :: "int \<Rightarrow> string \<Rightarrow> string \<Rightarrow> int \<Rightarrow> 'a redis_db_scheme \<Rightarrow> bool result \<times> 'a redis_db_scheme" where
  "redis_setnx now key v ttl d =
     (if redis_get now key d = None then (Inr True, d\<lparr>locks := (locks d)(key \<mapsto> (v, now + ttl))\<rparr>)
      else (Inr False, d))"

section \<open>Operations\<close>

definition Acquire :: "int \<Rightarrow> string \<Rightarrow> string \<Rightarrow> int \<Rightarrow> ('a redis_db_scheme sess, unit) action" where
  "Acquire now key token ttl =
     bindE (stmt (redis_setnx now key token ttl)) (\<lambda>ok. if \<not> ok then failE ErrNotAcquired else okE ())"

definition releaseScript :: "int \<Rightarrow> string \<Rightarrow> string \<Rightarrow> 'a redis_db_scheme \<Rightarrow> int result \<times> 'a redis_db_scheme" where
  "releaseScript now key token d =
     (if redis_get now key d = Some token then (Inr 1, d\<lparr>locks := (locks d)(key := None)\<rparr>) else (Inr 0, d))"

definition Release :: "int \<Rightarrow> string \<Rightarrow> string \<Rightarrow> ('a redis_db_scheme sess, unit) action" where
  "Release now key token = bindE (stmt (releaseScript now key token)) (\<lambda>_. okE ())"

definition refreshScript :: "int \<Rightarrow> string \<Rightarrow> string \<Rightarrow> int \<Rightarrow> 'a redis_db_scheme \<Rightarrow> int result \<times> 'a redis_db_scheme" where
  "refreshScript now key token ttl d =
     (if redis_get now key d = Some token then (Inr 1, d\<lparr>locks := (locks d)(key \<mapsto> (token, now + ttl))\<rparr>) else (Inr 0, d))"

definition Refresh :: "int \<Rightarrow> string \<Rightarrow> string \<Rightarrow> int \<Rightarrow> ('a redis_db_scheme sess, unit) action" where
  "Refresh now key token ttl = bindE (stmt (refreshScript now key token ttl)) (\<lambda>_. okE ())"

section \<open>The contract of a lock\<close>

text \<open>
  What the allocator and the scheduler rely on. \<open>holder now key d\<close> is the token that owns the key.
  Acquiring succeeds only on a free key and makes the token its owner; releasing or refreshing with another
  token changes nothing; no operation ever changes the owner of a key that someone else holds.
\<close>

locale lock_service =
  fixes holder :: "int \<Rightarrow> string \<Rightarrow> 'd \<Rightarrow> string option"
    and acquire :: "int \<Rightarrow> string \<Rightarrow> string \<Rightarrow> int \<Rightarrow> ('d sess, unit) action"
    and release :: "int \<Rightarrow> string \<Rightarrow> string \<Rightarrow> ('d sess, unit) action"
    and refresh :: "int \<Rightarrow> string \<Rightarrow> string \<Rightarrow> int \<Rightarrow> ('d sess, unit) action"
  assumes acquire_free: "acquire now key t ttl s = (Inr u, s') \<Longrightarrow> holder now key (fst s) = None"
    and acquire_holds: "acquire now key t ttl s = (Inr u, s') \<Longrightarrow> now \<le> now' \<Longrightarrow> now' < now + ttl \<Longrightarrow>
          holder now' key (fst s') = Some t"
    and acquire_keeps: "acquire now key t ttl s = (r, s') \<Longrightarrow> holder now key (fst s) \<noteq> None \<or> k \<noteq> key \<Longrightarrow>
          holder now' k (fst s') = holder now' k (fst s)"
    and release_keeps: "release now key t s = (r, s') \<Longrightarrow> holder now key (fst s) \<noteq> Some t \<or> k \<noteq> key \<Longrightarrow>
          holder now' k (fst s') = holder now' k (fst s)"
    and refresh_keeps: "refresh now key t ttl s = (r, s') \<Longrightarrow> holder now key (fst s) \<noteq> Some t \<or> k \<noteq> key \<Longrightarrow>
          holder now' k (fst s') = holder now' k (fst s)"
    and expiry: "holder now key d = Some t \<Longrightarrow> before \<le> now \<Longrightarrow> holder before key d = Some t"
begin

text \<open>A run of commands by other token owners.\<close>

lemma others_keep_holder:
  assumes "holder now key (fst s) = Some t" and "later \<ge> now" and "holder later key (fst s) = Some t"
  shows "t' \<noteq> t \<Longrightarrow> acquire now k t' ttl s = (r, s') \<Longrightarrow> holder later key (fst s') = Some t"
    and "t' \<noteq> t \<Longrightarrow> release now k t' s = (r, s') \<Longrightarrow> holder later key (fst s') = Some t"
    and "t' \<noteq> t \<Longrightarrow> refresh now k t' ttl s = (r, s') \<Longrightarrow> holder later key (fst s') = Some t"
proof -
  show "holder later key (fst s') = Some t" if "t' \<noteq> t" "acquire now k t' ttl s = (r, s')"
    using acquire_keeps [OF that(2), of key later] assms(1,3) by (cases "k = key") auto
  show "holder later key (fst s') = Some t" if "t' \<noteq> t" "release now k t' s = (r, s')"
    using release_keeps [OF that(2), of key later] assms(1,3) that(1) by (cases "k = key") auto
  show "holder later key (fst s') = Some t" if "t' \<noteq> t" "refresh now k t' ttl s = (r, s')"
    using refresh_keeps [OF that(2), of key later] assms(1,3) that(1) by (cases "k = key") auto
qed

end

lemma redis_get_upd [simp]:
  "redis_get now k (d\<lparr>locks := (locks d)(key \<mapsto> (v, ex))\<rparr>) =
     (if k = key then (if now < ex then Some v else None) else redis_get now k d)"
  "redis_get now k (d\<lparr>locks := (locks d)(key := None)\<rparr>) = (if k = key then None else redis_get now k d)"
  by (simp_all add: redis_get_def)

text \<open>The database after a lock command is one of two, whatever the driver does.\<close>

lemma lock_cmd_db:
  assumes "bindE (stmt f) g s = (r, s')" and "\<And>x s1. fst (snd (g x s1)) = fst s1"
  shows "fst s' = fst s \<or> fst s' = snd (f (fst s))"
proof -
  obtain r1 s1 where st: "stmt f s = (r1, s1)" by (rule prod.exhaust)
  have "fst s' = fst s1"
  proof (cases r1)
    case (Inl e)
    with assms(1) st show ?thesis by (simp add: bindE_def)
  next
    case (Inr x)
    with assms(1) st have "g x s1 = (r, s')" by (simp add: bindE_def)
    with assms(2) [of x s1] show ?thesis by simp
  qed
  then show ?thesis using stmt_db [of f s] st by simp
qed

lemma Acquire_db:
  assumes "Acquire now key t ttl s = (r, s')"
  shows "fst s' = fst s \<or> fst s' = snd (redis_setnx now key t ttl (fst s))"
  using assms unfolding Acquire_def by (rule lock_cmd_db) (simp add: failE_def okE_def)

lemma Acquire_Inr:
  assumes "Acquire now key t ttl s = (Inr u, s')"
  shows "redis_get now key (fst s) = None \<and> fst s' = (fst s)\<lparr>locks := (locks (fst s))(key \<mapsto> (t, now + ttl))\<rparr>"
  using assms
  by (auto simp: Acquire_def failE_def okE_def redis_setnx_def elim!: bindE_InrE stmt_InrE split: if_splits)

lemma Release_db:
  assumes "Release now key t s = (r, s')"
  shows "fst s' = fst s \<or> fst s' = snd (releaseScript now key t (fst s))"
  using assms unfolding Release_def by (rule lock_cmd_db) (simp add: okE_def)

lemma Refresh_db:
  assumes "Refresh now key t ttl s = (r, s')"
  shows "fst s' = fst s \<or> fst s' = snd (refreshScript now key t ttl (fst s))"
  using assms unfolding Refresh_def by (rule lock_cmd_db) (simp add: okE_def)

interpretation redis_lock: lock_service redis_get Acquire Release Refresh
proof
  fix now now' before ttl :: int and key k t :: string and s s' :: "'a redis_db_scheme sess" and r u d
  show "redis_get now key (fst s) = None" if "Acquire now key t ttl s = (Inr u, s')"
    using Acquire_Inr [OF that] by simp
  show "redis_get now' key (fst s') = Some t" if "Acquire now key t ttl s = (Inr u, s')" "now \<le> now'" "now' < now + ttl"
    using Acquire_Inr [OF that(1)] that(3) by simp
  show "redis_get now' k (fst s') = redis_get now' k (fst s)"
    if "Acquire now key t ttl s = (r, s')" "redis_get now key (fst s) \<noteq> None \<or> k \<noteq> key"
    using Acquire_db [OF that(1)] that(2) by (auto simp: redis_setnx_def)
  show "redis_get now' k (fst s') = redis_get now' k (fst s)"
    if "Release now key t s = (r, s')" "redis_get now key (fst s) \<noteq> Some t \<or> k \<noteq> key"
    using Release_db [OF that(1)] that(2) by (auto simp: releaseScript_def)
  show "redis_get now' k (fst s') = redis_get now' k (fst s)"
    if "Refresh now key t ttl s = (r, s')" "redis_get now key (fst s) \<noteq> Some t \<or> k \<noteq> key"
    using Refresh_db [OF that(1)] that(2) by (auto simp: refreshScript_def)
  show "redis_get before key d = Some t" if "redis_get now key d = Some t" "before \<le> now"
    using that by (auto simp: redis_get_def split: option.splits if_splits)
qed

section \<open>Mutual exclusion over runs\<close>

datatype lock_op = LAcquire string string int | LRelease string string | LRefresh string string int

fun lock_token :: "lock_op \<Rightarrow> string" where
  "lock_token (LAcquire k t ttl) = t" | "lock_token (LRelease k t) = t" | "lock_token (LRefresh k t ttl) = t"

fun lock_exec :: "int \<Rightarrow> lock_op \<Rightarrow> ('a redis_db_scheme sess, unit) action" where
  "lock_exec now (LAcquire k t ttl) = Acquire now k t ttl"
| "lock_exec now (LRelease k t) = Release now k t"
| "lock_exec now (LRefresh k t ttl) = Refresh now k t ttl"

text \<open>Commands with the instants at which the server executes them.\<close>

fun lock_run :: "(int \<times> lock_op) list \<Rightarrow> 'a redis_db_scheme sess \<Rightarrow> 'a redis_db_scheme sess" where
  "lock_run [] s = s"
| "lock_run ((now, c) # cs) s = lock_run cs (snd (lock_exec now c s))"

lemma lock_run_keeps:
  assumes "\<forall>(now, c) \<in> set cs. now < later \<and> lock_token c \<noteq> t"
    and "redis_get later key (fst s) = Some t"
  shows "redis_get later key (fst (lock_run cs s)) = Some t"
  using assms
proof (induction cs arbitrary: s)
  case (Cons nc cs)
  obtain now c where nc: "nc = (now, c)" by (rule prod.exhaust)
  have l: "now \<le> later" "lock_token c \<noteq> t" using Cons.prems(1) nc by auto
  have h: "redis_get now key (fst s) = Some t" by (rule redis_lock.expiry [OF Cons.prems(2) l(1)])
  obtain r s1 where run: "lock_exec now c s = (r, s1)" by (rule prod.exhaust)
  have "redis_get later key (fst s1) = Some t"
    using redis_lock.others_keep_holder [OF h l(1) Cons.prems(2)] l(2) run by (cases c) auto
  with Cons.IH [of s1] Cons.prems(1) show ?case by (simp add: nc run)
qed simp

text \<open>
  The lock excludes: after a successful \<open>Acquire\<close> with a time to live, until that time has passed
  nobody else's \<open>Acquire\<close> on the key succeeds, whatever acquire, release and refresh commands other
  tokens issue in between and however the connection fails; stale releases cannot free the lock.
\<close>

theorem lock_excludes:
  assumes "Acquire now key t ttl s = (Inr (), s1)"
    and "\<forall>(u, c) \<in> set cs. now \<le> u \<and> u < later \<and> lock_token c \<noteq> t"
    and "now \<le> later" and "later < now + ttl"
  shows "fst (Acquire later key t' ttl' (lock_run cs s1)) \<noteq> Inr ()"
proof
  assume "fst (Acquire later key t' ttl' (lock_run cs s1)) = Inr ()"
  then obtain s2 where acq: "Acquire later key t' ttl' (lock_run cs s1) = (Inr (), s2)" by (metis prod.collapse)
  have "redis_get later key (fst s1) = Some t" by (rule redis_lock.acquire_holds [OF assms(1,3,4)])
  then have "redis_get later key (fst (lock_run cs s1)) = Some t"
    by (rule lock_run_keeps [rotated]) (use assms(2) in auto)
  with redis_lock.acquire_free [OF acq] show False by simp
qed

definition demo_redis :: redis_db where
  "demo_redis = \<lparr>locks = Map.empty, buckets = Map.empty\<rparr>"

theorem lock_excludes_witness:
  "fst (Acquire 90 ''k'' ''c'' 50 (lock_run [(10, LRelease ''k'' ''b''), (20, LAcquire ''k'' ''b'' 50)]
      (snd (Acquire 0 ''k'' ''a'' 100 (demo_redis, [DOk, DLost, DLost]))))) \<noteq> Inr ()"
proof (rule lock_excludes)
  show "Acquire 0 ''k'' ''a'' 100 (demo_redis, [DOk, DLost, DLost]) =
      (Inr (), snd (Acquire 0 ''k'' ''a'' 100 (demo_redis, [DOk, DLost, DLost])))"
    by (simp add: Acquire_def bindE_def stmt_def redis_setnx_def redis_get_def demo_redis_def okE_def)
qed auto

text \<open>
  The owner's release frees the lock: on a responsive server releasing with the owner's token makes the
  key free at once, and any token can then acquire it.
\<close>

theorem release_frees:
  assumes "redis_get now key d = Some t" and "now \<le> later"
  shows "\<exists>d'. Release now key t (d, []) = (Inr (), (d', [])) \<and> fst (Acquire later key t' ttl (d', [])) = Inr ()"
  using assms by (simp add: Release_def bindE_def okE_def releaseScript_def Acquire_def redis_setnx_def)

theorem release_frees_witness:
  "\<exists>d'. Release 5 ''k'' ''a'' (demo_redis\<lparr>locks := [''k'' \<mapsto> (''a'', 100)]\<rparr>, []) = (Inr (), (d', [])) \<and>
     fst (Acquire 6 ''k'' ''b'' 10 (d', [])) = Inr ()"
  by (rule release_frees) (simp_all add: redis_get_def)

end
