(* ===== verification/Rate_Limit.thy ===== *)
theory Rate_Limit
  imports Redis_Lock
begin

text \<open>
  Rate limiting (pkg/ratelimit and internal/ratelimit): the token-bucket script, executed atomically by
  Redis, and the per-key request and token limits of the gateway. The script computes in the double
  arithmetic of Redis's Lua interpreter and stores the tokens through its decimal \<open>tostring\<close>; that
  interpreter is not part of the repository, so its accumulated rounding is a parameter \<open>rd\<close>,
  applied to the refilled and to the stored amount.
\<close>

section \<open>The script\<close>

definition bucket_ttl :: "int \<Rightarrow> rat \<Rightarrow> int" where
  "bucket_ttl capacity refill = \<lceil>of_int capacity / max refill (1/1000) * 2000\<rceil>"

definition bucket_read :: "int \<Rightarrow> int \<Rightarrow> string \<Rightarrow> 'a redis_db_scheme \<Rightarrow> rat \<times> int" where
  "bucket_read now capacity key d =
     (case buckets d key of
        None \<Rightarrow> (of_int capacity, now)
      | Some b \<Rightarrow> if now < bk_expires b then (bk_tokens b, bk_ts b) else (of_int capacity, now))"

definition bucket_script ::
  "(rat \<Rightarrow> rat) \<Rightarrow> int \<Rightarrow> string \<Rightarrow> int \<Rightarrow> int \<Rightarrow> rat \<Rightarrow> 'a redis_db_scheme \<Rightarrow> (bool \<times> rat) result \<times> 'a redis_db_scheme" where
  "bucket_script rd now key capacity cost refill d =
     (let (tokens, ts) = bucket_read now capacity key d;
          delta = of_int (now - ts) / 1000 * refill;
          tokens = min (of_int capacity) (rd (tokens + delta));
          allowed = tokens \<ge> of_int cost;
          tokens = rd (if allowed then tokens - of_int cost else tokens) in
      (Inr (allowed, tokens),
       d\<lparr>buckets := (buckets d)(key \<mapsto>
          \<lparr>bk_tokens = tokens, bk_ts = now, bk_expires = now + bucket_ttl capacity refill\<rparr>)\<rparr>))"

definition Allow ::
  "(rat \<Rightarrow> rat) \<Rightarrow> int \<Rightarrow> string \<Rightarrow> int \<Rightarrow> int \<Rightarrow> rat \<Rightarrow> ('a redis_db_scheme sess, bool \<times> rat) action" where
  "Allow rd now key capacity cost refillPerSec = stmt (bucket_script rd now key capacity cost refillPerSec)"

section \<open>Limits per API key\<close>

definition rpm_key :: "nat \<Rightarrow> string" where "rpm_key keyID = ''rl:rpm:k:'' @ dec_nat keyID"
definition tpm_key :: "nat \<Rightarrow> string" where "tpm_key keyID = ''rl:tpm:k:'' @ dec_nat keyID"

definition refill_of :: "int \<Rightarrow> rat" where "refill_of capacity = rnd64 (rnd64 (of_int capacity) / 60)"

definition AllowRPM :: "(rat \<Rightarrow> rat) \<Rightarrow> int \<Rightarrow> nat \<Rightarrow> int \<Rightarrow> ('a redis_db_scheme sess, bool \<times> rat) action" where
  "AllowRPM rd now keyID capacity =
     (if capacity \<le> 0 then okE (True, 0)
      else Allow rd now (rpm_key keyID) capacity 1 (refill_of capacity))"

definition AllowTPM :: "(rat \<Rightarrow> rat) \<Rightarrow> int \<Rightarrow> nat \<Rightarrow> int \<Rightarrow> int \<Rightarrow> ('a redis_db_scheme sess, bool \<times> rat) action" where
  "AllowTPM rd now keyID capacity tokens =
     (if capacity \<le> 0 \<or> tokens \<le> 0 then okE (True, 0)
      else Allow rd now (tpm_key keyID) capacity tokens (refill_of capacity))"

text \<open>The adjustment ignores its result; a negative one does nothing.\<close>

definition AdjustTPM :: "(rat \<Rightarrow> rat) \<Rightarrow> int \<Rightarrow> nat \<Rightarrow> int \<Rightarrow> int \<Rightarrow> 'a redis_db_scheme sess \<Rightarrow> 'a redis_db_scheme sess" where
  "AdjustTPM rd now keyID capacity delta s =
     (if capacity \<le> 0 \<or> delta = 0 then s
      else if delta > 0 then snd (Allow rd now (tpm_key keyID) capacity delta (refill_of capacity) s)
      else s)"

section \<open>The potential of a bucket\<close>

text \<open>What a caller at time \<open>now\<close> could spend at most.\<close>

definition avail :: "int \<Rightarrow> rat \<Rightarrow> int \<Rightarrow> string \<Rightarrow> 'a redis_db_scheme \<Rightarrow> rat" where
  "avail capacity refill now key d =
     (let (tokens, ts) = bucket_read now capacity key d in
      min (of_int capacity) (tokens + of_int (now - ts) / 1000 * refill))"

text \<open>A bucket written by the script.\<close>

definition bucket_ok :: "int \<Rightarrow> rat \<Rightarrow> int \<Rightarrow> string \<Rightarrow> 'a redis_db_scheme \<Rightarrow> bool" where
  "bucket_ok capacity refill now key d =
     (case buckets d key of None \<Rightarrow> True
      | Some b \<Rightarrow> 0 \<le> bk_tokens b \<and> bk_ts b \<le> now \<and> bk_expires b = bk_ts b + bucket_ttl capacity refill)"

text \<open>A rounding that is off by at most \<open>\<epsilon>\<close> and never makes an amount negative.\<close>

definition rounds_within :: "(rat \<Rightarrow> rat) \<Rightarrow> rat \<Rightarrow> bool" where
  "rounds_within rd \<epsilon> \<longleftrightarrow> (\<forall>x. \<bar>rd x - x\<bar> \<le> \<epsilon>) \<and> (\<forall>x\<ge>0. 0 \<le> rd x)"

lemma rounds_within_id: "rounds_within (\<lambda>x. x) 0"
  by (simp add: rounds_within_def)

lemma rounds_withinD:
  assumes "rounds_within rd \<epsilon>"
  shows "rd x \<le> x + \<epsilon>" "0 \<le> x \<Longrightarrow> 0 \<le> rd x" "0 \<le> \<epsilon>"
proof -
  have "\<bar>rd x - x\<bar> \<le> \<epsilon>" using assms by (simp add: rounds_within_def)
  then show "rd x \<le> x + \<epsilon>" "0 \<le> \<epsilon>" by linarith+
  show "0 \<le> x \<Longrightarrow> 0 \<le> rd x" using assms by (simp add: rounds_within_def)
qed

lemma bucket_ttl_lower:
  assumes "1/1000 \<le> refill"
  shows "of_int capacity / refill * 2000 \<le> (of_int (bucket_ttl capacity refill) :: rat)"
proof -
  have "max refill (1/1000) = refill" using assms by (rule max_absorb1)
  then show ?thesis by (simp add: bucket_ttl_def)
qed

lemma bucket_ttl_pos:
  assumes "1/1000 \<le> refill" and "0 < capacity"
  shows "0 < bucket_ttl capacity refill"
proof -
  have "0 < of_int capacity / refill * (2000::rat)" using assms by (intro mult_pos_pos divide_pos_pos) auto
  also note bucket_ttl_lower [OF assms(1)]
  finally show ?thesis by simp
qed

lemma bucket_ok_later: "bucket_ok c r now key d \<Longrightarrow> now \<le> later \<Longrightarrow> bucket_ok c r later key d"
  by (auto simp: bucket_ok_def split: option.splits)

text \<open>Time alone refills at most at the configured rate; expiry only forgets a full bucket.\<close>

lemma avail_time:
  assumes "bucket_ok capacity refill now key d" and "now \<le> later" and rate: "1/1000 \<le> refill"
  shows "avail capacity refill later key d \<le> avail capacity refill now key d + of_int (later - now) / 1000 * refill"
proof (cases "buckets d key")
  case None
  then show ?thesis using assms(2) rate by (simp add: avail_def bucket_read_def)
next
  case (Some b)
  have pos: "0 \<le> of_int (later - now) / 1000 * refill" using assms(2) rate by simp
  let ?at = "\<lambda>t. bk_tokens b + of_int (t - bk_ts b) / 1000 * refill"
  have lin: "?at later = ?at now + of_int (later - now) / 1000 * refill" by (simp add: field_simps)
  have full: "of_int capacity \<le> ?at t" if "bk_expires b \<le> t" "0 < capacity" for t
  proof -
    note bucket_ttl_lower [OF rate, of capacity]
    also have "of_int (bucket_ttl capacity refill) \<le> (of_int (t - bk_ts b) :: rat)"
      using assms(1) Some that by (simp add: bucket_ok_def)
    finally have "of_int capacity / refill * 2000 / 1000 * refill \<le> of_int (t - bk_ts b) / 1000 * refill"
      using rate by (intro mult_right_mono divide_right_mono) auto
    then have "2 * of_int capacity \<le> of_int (t - bk_ts b) / 1000 * refill" using rate by simp
    moreover have "(0::rat) < of_int capacity" using that by simp
    moreover have "0 \<le> bk_tokens b" using assms(1) Some by (simp add: bucket_ok_def)
    ultimately show ?thesis by linarith
  qed
  have av: "avail capacity refill t key d = min (of_int capacity) (?at t)" if "now \<le> t" for t
  proof (cases "0 < capacity")
    case True
    then show ?thesis using full [of t] Some by (auto simp: avail_def bucket_read_def min_def)
  next
    case False
    have "0 \<le> ?at t" using assms(1) Some that rate by (simp add: bucket_ok_def)
    moreover have "(of_int capacity :: rat) \<le> 0" using False by simp
    ultimately have "of_int capacity \<le> ?at t" by linarith
    then show ?thesis using Some by (auto simp: avail_def bucket_read_def min_def)
  qed
  show ?thesis unfolding av [OF assms(2)] av [OF order.refl] lin using pos by (auto simp: min_def)
qed

text \<open>One call of the script: what it grants comes out of the potential.\<close>

lemma script_avail:
  assumes ok: "bucket_ok capacity refill now key d" and cost: "0 \<le> cost"
    and rate: "1/1000 \<le> refill" and cap: "0 < capacity" and rd: "rounds_within rd \<epsilon>"
    and run: "bucket_script rd now key capacity cost refill d = (Inr (g, rest), d')"
  shows "bucket_ok capacity refill now key d'"
    and "avail capacity refill now key d' + (if g then of_int cost else 0) \<le> avail capacity refill now key d + 2 * \<epsilon>"
proof -
  obtain tk ts where rdv: "bucket_read now capacity key d = (tk, ts)" by (rule prod.exhaust)
  define x where "x = tk + of_int (now - ts) / 1000 * refill"
  define t1 where "t1 = min (of_int capacity) (rd x)"
  define t2 where "t2 = (if of_int cost \<le> t1 then t1 - of_int cost else t1)"
  have res: "g = (of_int cost \<le> t1)"
    "d' = d\<lparr>buckets := (buckets d)(key \<mapsto> \<lparr>bk_tokens = rd t2, bk_ts = now, bk_expires = now + bucket_ttl capacity refill\<rparr>)\<rparr>"
    using run by (auto simp: bucket_script_def rdv Let_def t1_def t2_def x_def)
  have ts: "ts \<le> now" "0 \<le> tk"
    using ok rdv cap by (auto simp: bucket_read_def bucket_ok_def split: option.splits if_splits)
  then have "0 \<le> x" using rate by (simp add: x_def)
  then have "0 \<le> t1" using rounds_withinD(2) [OF rd] cap by (simp add: t1_def)
  then have "0 \<le> t2" by (simp add: t2_def)
  then have "0 \<le> rd t2" by (rule rounds_withinD(2) [OF rd])
  then show "bucket_ok capacity refill now key d'" by (simp add: bucket_ok_def res(2))
  have a0: "avail capacity refill now key d = min (of_int capacity) x"
    by (simp add: avail_def rdv x_def)
  have a1: "avail capacity refill now key d' = min (of_int capacity) (rd t2)"
    using bucket_ttl_pos [OF rate cap] by (simp add: avail_def bucket_read_def res(2))
  have "t1 \<le> min (of_int capacity) x + \<epsilon>"
    using rounds_withinD(1) [OF rd, of x] rounds_withinD(3) [OF rd] unfolding t1_def by (auto simp: min_def)
  moreover have "rd t2 \<le> t2 + \<epsilon>" by (rule rounds_withinD(1) [OF rd])
  moreover have "t2 + (if g then of_int cost else 0) \<le> t1" by (simp add: t2_def res(1))
  ultimately show "avail capacity refill now key d' + (if g then of_int cost else 0) \<le> avail capacity refill now key d + 2 * \<epsilon>"
    unfolding a1 a0 by linarith
qed

lemma script_other:
  assumes "key' \<noteq> key"
  shows "buckets (snd (bucket_script rd now key c cost r d)) key' = buckets d key'"
  using assms by (simp add: bucket_script_def Let_def split: prod.splits)

lemma script_Inr: "\<exists>g rest d'. bucket_script rd now key c cost r d = (Inr (g, rest), d')"
  by (simp add: bucket_script_def Let_def split: prod.splits)

lemma avail_nonneg:
  assumes "bucket_ok c r now key d" and "0 < c" and "1/1000 \<le> r"
  shows "0 \<le> avail c r now key d"
  using assms by (auto simp: avail_def bucket_ok_def bucket_read_def split: option.splits)

lemma avail_le: "avail c r now key d \<le> of_int c"
  by (simp add: avail_def split: prod.splits)

section \<open>The request limit over runs\<close>

text \<open>Requests of many keys in the order Redis executes them, each with its instant.\<close>

fun rpm_run :: "(rat \<Rightarrow> rat) \<Rightarrow> (nat \<Rightarrow> int) \<Rightarrow> (int \<times> nat) list \<Rightarrow> 'a redis_db_scheme sess \<Rightarrow> nat list" where
  "rpm_run rd limit [] s = []"
| "rpm_run rd limit ((now, k) # cs) s =
     (case AllowRPM rd now k (limit k) s of
        (Inr (True, _), s') \<Rightarrow> k # rpm_run rd limit cs s'
      | (_, s') \<Rightarrow> rpm_run rd limit cs s')"

lemma rpm_key_inj: "rpm_key a = rpm_key b \<Longrightarrow> a = b"
  by (simp add: rpm_key_def dec_nat_inj)

lemma refill_of_lower:
  assumes "0 < c"
  shows "1/61 \<le> refill_of c"
proof -
  have "rnd64 (of_int 1) \<le> rnd64 (of_int c)" using assms by (intro rnd64_mono) simp
  then have "1 \<le> rnd64 (of_int c)" using rnd64_int [of 1] by simp
  then have le: "rnd64 (1/60) \<le> refill_of c" unfolding refill_of_def by (intro rnd64_mono) simp
  have "\<bar>rnd64 (1/60) - 1/60\<bar> \<le> 1/60 / 2 ^ 53" by (rule rnd64_error) simp_all
  then have "- (rnd64 (1/60) - 1/60) \<le> 1/60 / 2 ^ 53" by (rule abs_le_D2)
  moreover have "1/61 \<le> 1/60 - 1/60 / (2 ^ 53 :: rat)" by simp
  ultimately show ?thesis using le by linarith
qed

lemma refill_of_rate: "0 < c \<Longrightarrow> 1/1000 \<le> refill_of c"
  using refill_of_lower [of c] by simp

text \<open>One request: the bucket of \<open>k\<close> pays for what \<open>k\<close> is granted.\<close>

lemma AllowRPM_avail:
  assumes ok: "bucket_ok (limit k) (refill_of (limit k)) now (rpm_key k) (fst s)"
    and cap: "0 < limit k" and rd: "rounds_within rd \<epsilon>"
    and run: "AllowRPM rd now j (limit j) s = (r, s')"
  shows "bucket_ok (limit k) (refill_of (limit k)) now (rpm_key k) (fst s') \<and>
         avail (limit k) (refill_of (limit k)) now (rpm_key k) (fst s') +
           (if j = k \<and> (\<exists>t. r = Inr (True, t)) then 1 else 0)
         \<le> avail (limit k) (refill_of (limit k)) now (rpm_key k) (fst s) + 2 * \<epsilon>"
proof -
  let ?f = "bucket_script rd now (rpm_key j) (limit j) 1 (refill_of (limit j))"
  have e0: "0 \<le> \<epsilon>" by (rule rounds_withinD(3) [OF rd])
  obtain g rest d' where f: "?f (fst s) = (Inr (g, rest), d')" using script_Inr by blast
  have two: "fst s' = fst s \<and> (\<forall>t. r \<noteq> Inr (True, t)) \<or> fst s' = d' \<and> ((\<exists>t. r = Inr (True, t)) \<longrightarrow> g)"
    if "0 < limit j"
    using run f that by (auto simp: AllowRPM_def Allow_def stmt_def split: prod.splits drv.splits)
  show ?thesis
  proof (cases "j = k")
    case True
    have "bucket_ok (limit k) (refill_of (limit k)) now (rpm_key k) d'"
      "avail (limit k) (refill_of (limit k)) now (rpm_key k) d' + (if g then 1 else 0)
         \<le> avail (limit k) (refill_of (limit k)) now (rpm_key k) (fst s) + 2 * \<epsilon>"
      using script_avail [OF ok _ refill_of_rate [OF cap] cap rd f [unfolded True]]
      by (simp_all split: if_splits)
    then show ?thesis using two ok e0 cap True by (auto split: if_splits)
  next
    case False
    then have "rpm_key k \<noteq> rpm_key j" using rpm_key_inj by blast
    then have "buckets d' (rpm_key k) = buckets (fst s) (rpm_key k)"
      using script_other [of "rpm_key k" "rpm_key j" rd now "limit j" 1 "refill_of (limit j)" "fst s"] f by simp
    moreover have "fst s' = fst s" if "\<not> 0 < limit j" using run that by (simp add: AllowRPM_def okE_def)
    ultimately have "buckets (fst s') (rpm_key k) = buckets (fst s) (rpm_key k)" using two by (cases "0 < limit j") auto
    then show ?thesis using ok e0 False by (simp add: bucket_ok_def avail_def bucket_read_def)
  qed
qed

lemma rpm_run_bound:
  assumes "0 < limit k" and "rounds_within rd \<epsilon>"
    and "bucket_ok (limit k) (refill_of (limit k)) t (rpm_key k) (fst s)"
    and "sorted (t # map fst cs @ [t'])"
  shows "of_nat (count_list (rpm_run rd limit cs s) k)
     \<le> avail (limit k) (refill_of (limit k)) t (rpm_key k) (fst s) + of_int (t' - t) / 1000 * refill_of (limit k)
         + 2 * \<epsilon> * of_nat (length cs)"
  using assms(3,4)
proof (induction cs arbitrary: s t)
  case Nil
  have "0 \<le> avail (limit k) (refill_of (limit k)) t (rpm_key k) (fst s)"
    using avail_nonneg Nil(1) assms(1) refill_of_rate [OF assms(1)] by blast
  moreover have "0 \<le> of_int (t' - t) / 1000 * refill_of (limit k)"
    using Nil(2) refill_of_rate [OF assms(1)] by simp
  ultimately show ?case by simp
next
  case (Cons c cs)
  obtain now j where c: "c = (now, j)" by (rule prod.exhaust)
  obtain r s1 where run: "AllowRPM rd now j (limit j) s = (r, s1)" by (rule prod.exhaust)
  let ?av = "\<lambda>u w. avail (limit k) (refill_of (limit k)) u (rpm_key k) (fst w)"
  have le: "t \<le> now" "sorted (now # map fst cs @ [t'])" using Cons.prems(2) c by auto
  note ok = bucket_ok_later [OF Cons.prems(1) le(1)]
  note av = AllowRPM_avail [OF ok assms(1,2) run]
  define g where "g = (if j = k \<and> (\<exists>x. r = Inr (True, x)) then 1 else (0::nat))"
  have step: "?av now s1 + of_nat g \<le> ?av now s + 2 * \<epsilon>" using av unfolding g_def by (cases "j = k \<and> (\<exists>x. r = Inr (True, x))") auto
  have cnt: "count_list (rpm_run rd limit (c # cs) s) k = g + count_list (rpm_run rd limit cs s1) k"
    by (auto simp: c run g_def split: sum.splits prod.splits bool.splits)
  have rec: "of_nat (count_list (rpm_run rd limit cs s1) k)
     \<le> ?av now s1 + of_int (t' - now) / 1000 * refill_of (limit k) + 2 * \<epsilon> * of_nat (length cs)"
    by (rule Cons.IH) (use av le in auto)
  have time: "?av now s \<le> ?av t s + of_int (now - t) / 1000 * refill_of (limit k)"
    by (rule avail_time [OF Cons.prems(1) le(1) refill_of_rate [OF assms(1)]])
  have lin: "of_int (now - t) / 1000 * refill_of (limit k) + of_int (t' - now) / 1000 * refill_of (limit k)
      = of_int (t' - t) / 1000 * refill_of (limit k)"
    by (simp add: field_simps)
  show ?case using rec step time lin unfolding cnt of_nat_add length_Cons of_nat_Suc distrib_left by linarith
qed



text \<open>
  A key is not starved: on a responsive Redis a key whose bucket is full, or that was never used, or
  whose last use is at least 61 seconds ago, is granted its next request whatever its limit.
\<close>

theorem rpm_idle_granted:
  assumes "0 < c" and "c < 2 ^ 53"
    and "buckets d (rpm_key k) = None \<or> (\<exists>b. buckets d (rpm_key k) = Some b \<and> 0 \<le> bk_tokens b \<and> bk_ts b + 61000 \<le> now)"
  shows "\<exists>rest d'. AllowRPM (\<lambda>x. x) now k c (d, []) = (Inr (True, rest), (d', []))"
proof -
  obtain tk ts where rdv: "bucket_read now c (rpm_key k) d = (tk, ts)" by (rule prod.exhaust)
  have rc: "1/61 \<le> refill_of c" by (rule refill_of_lower [OF assms(1)])
  have "1 \<le> min (of_int c) (tk + of_int (now - ts) / 1000 * refill_of c)"
  proof -
    consider "(tk, ts) = (of_int c, now)" | "0 \<le> tk" "ts + 61000 \<le> now"
      using assms(3) rdv by (auto simp: bucket_read_def split: if_splits)
    then show ?thesis
    proof cases
      case 1
      then show ?thesis using assms(1) by simp
    next
      case 2
      have "61 * refill_of c \<le> of_int (now - ts) / 1000 * refill_of c"
      proof (rule mult_right_mono)
        have "of_int 61000 \<le> (of_int (now - ts) :: rat)" unfolding of_int_le_iff using 2 by simp
        then show "61 \<le> (of_int (now - ts) :: rat) / 1000" by simp
        show "0 \<le> refill_of c" using rc by simp
      qed
      moreover have "1 \<le> 61 * refill_of c" using rc by simp
      ultimately have "1 \<le> tk + of_int (now - ts) / 1000 * refill_of c" using 2(1) by linarith
      then show ?thesis using assms(1) by simp
    qed
  qed
  then show ?thesis using assms(1) by (simp add: AllowRPM_def Allow_def bucket_script_def rdv Let_def)
qed

theorem rpm_idle_granted_witness:
  "\<exists>rest d'. AllowRPM (\<lambda>x. x) 61000 7 1
     (demo_redis\<lparr>buckets := [rpm_key 7 \<mapsto> \<lparr>bk_tokens = 0, bk_ts = 0, bk_expires = 120000\<rparr>]\<rparr>, []) = (Inr (True, rest), (d', []))"
  by (rule rpm_idle_granted) simp_all

end
