(* ===== verification/Crypto_Box.thy ===== *)
theory Crypto_Box
  imports Go_Base
begin

text \<open>
  The encryption of stored secrets (pkg/crypto): base64 of a nonce followed by the sealed text, and the
  reading of a JWT's expiry (internal/account/refresher.go), which decodes base64 as well. Base64 is Go's
  \<open>encoding/base64\<close>, with its tolerance for line breaks and for unused trailing bits. The AEAD
  itself (\<open>crypto/aes\<close>, \<open>crypto/cipher\<close>) and the JSON decoder are parameters.
\<close>

section \<open>Base64\<close>

definition std_alphabet :: string where
  "std_alphabet = ''ABCDEFGHIJKLMNOPQRSTUVWXYZabcdefghijklmnopqrstuvwxyz0123456789+/''"

definition url_alphabet :: string where
  "url_alphabet = ''ABCDEFGHIJKLMNOPQRSTUVWXYZabcdefghijklmnopqrstuvwxyz0123456789-_''"

definition enc_char :: "string \<Rightarrow> nat \<Rightarrow> char" where
  "enc_char al n = al ! n"

fun index_of :: "'a list \<Rightarrow> 'a \<Rightarrow> nat option" where
  "index_of [] c = None"
| "index_of (x # xs) c = (if x = c then Some 0 else map_option Suc (index_of xs c))"

text \<open>\<open>EncodeToString\<close> with padding.\<close>

fun b64_encode :: "string \<Rightarrow> nat list \<Rightarrow> string" where
  "b64_encode al [] = []"
| "b64_encode al [a] = [enc_char al (a div 4), enc_char al (a mod 4 * 16), CHR ''='', CHR ''='']"
| "b64_encode al [a, b] =
     [enc_char al (a div 4), enc_char al (a mod 4 * 16 + b div 16), enc_char al (b mod 16 * 4), CHR ''='']"
| "b64_encode al (a # b # c # rest) =
     enc_char al (a div 4) # enc_char al (a mod 4 * 16 + b div 16) # enc_char al (b mod 16 * 4 + c div 64) #
     enc_char al (c mod 64) # b64_encode al rest"

text \<open>The bytes of a quantum of two, three or four sextets.\<close>

definition quantum2 :: "nat \<Rightarrow> nat \<Rightarrow> nat list" where
  "quantum2 p q = [p * 4 + q div 16]"

definition quantum3 :: "nat \<Rightarrow> nat \<Rightarrow> nat \<Rightarrow> nat list" where
  "quantum3 p q r = [p * 4 + q div 16, q mod 16 * 16 + r div 4]"

definition quantum4 :: "nat \<Rightarrow> nat \<Rightarrow> nat \<Rightarrow> nat \<Rightarrow> nat list" where
  "quantum4 p q r s = [p * 4 + q div 16, q mod 16 * 16 + r div 4, r mod 4 * 64 + s]"

text \<open>Decoding of a text without line breaks; \<open>padded\<close> distinguishes \<open>StdEncoding\<close> from the raw ones.\<close>

fun b64_quanta :: "string \<Rightarrow> bool \<Rightarrow> string \<Rightarrow> nat list option" where
  "b64_quanta al padded [] = Some []"
| "b64_quanta al padded [a] = None"
| "b64_quanta al padded [a, b] =
     (if padded then None
      else case (index_of al a, index_of al b) of (Some p, Some q) \<Rightarrow> Some (quantum2 p q) | _ \<Rightarrow> None)"
| "b64_quanta al padded [a, b, c] =
     (if padded then None
      else case (index_of al a, index_of al b, index_of al c) of
             (Some p, Some q, Some r) \<Rightarrow> Some (quantum3 p q r) | _ \<Rightarrow> None)"
| "b64_quanta al padded (a # b # c # d # rest) =
     (case (index_of al a, index_of al b, index_of al c, index_of al d) of
        (Some p, Some q, Some r, Some s) \<Rightarrow> map_option (\<lambda>bs. quantum4 p q r s @ bs) (b64_quanta al padded rest)
      | (Some p, Some q, Some r, None) \<Rightarrow>
          if padded \<and> d = CHR ''='' \<and> rest = [] then Some (quantum3 p q r) else None
      | (Some p, Some q, None, None) \<Rightarrow>
          if padded \<and> c = CHR ''='' \<and> d = CHR ''='' \<and> rest = [] then Some (quantum2 p q) else None
      | _ \<Rightarrow> None)"

definition b64_decode :: "string \<Rightarrow> bool \<Rightarrow> string \<Rightarrow> nat list option" where
  "b64_decode al padded s = b64_quanta al padded (filter (\<lambda>c. byte_val c \<noteq> 10 \<and> byte_val c \<noteq> 13) s)"

lemma index_of_nth: "distinct xs \<Longrightarrow> n < length xs \<Longrightarrow> index_of xs (xs ! n) = Some n"
proof (induction xs arbitrary: n)
  case (Cons x xs)
  then show ?case by (cases n) (auto simp: nth_mem)
qed simp

lemma index_of_None: "index_of xs c = None \<longleftrightarrow> c \<notin> set xs"
  by (induction xs) auto

lemma std_alphabet_facts:
  "distinct std_alphabet" "length std_alphabet = 64" "CHR ''='' \<notin> set std_alphabet"
  "\<forall>c\<in>set std_alphabet. byte_val c \<noteq> 10 \<and> byte_val c \<noteq> 13"
  by (simp_all add: std_alphabet_def byte_val_def)

lemma index_enc [simp]: "n < 64 \<Longrightarrow> index_of std_alphabet (enc_char std_alphabet n) = Some n"
  unfolding enc_char_def using std_alphabet_facts(1,2) by (intro index_of_nth) auto

lemma index_pad [simp]: "index_of std_alphabet CHR ''='' = None"
  using std_alphabet_facts(3) by (simp add: index_of_None)

lemma quantum4_enc:
  assumes "a < 256" "b < 256" "c < 256"
  shows "quantum4 (a div 4) (a mod 4 * 16 + b div 16) (b mod 16 * 4 + c div 64) (c mod 64) = [a, b, c]"
    and "a div 4 < 64" "a mod 4 * 16 + b div 16 < 64" "b mod 16 * 4 + c div 64 < 64"
  using assms unfolding quantum4_def by simp_all

lemma quantum_short_enc:
  assumes "a < 256" "b < 256"
  shows "quantum3 (a div 4) (a mod 4 * 16 + b div 16) (b mod 16 * 4) = [a, b]" "b mod 16 * 4 < 64"
    "quantum2 (a div 4) (a mod 4 * 16) = [a]" "a mod 4 * 16 < 64"
  using assms unfolding quantum3_def quantum2_def by simp_all

lemma b64_quanta_encode:
  "\<forall>b\<in>set bs. b < 256 \<Longrightarrow> b64_quanta std_alphabet True (b64_encode std_alphabet bs) = Some bs"
proof (induction std_alphabet bs rule: b64_encode.induct)
  case (2 a)
  then show ?case using quantum4_enc [of a 0 0] quantum_short_enc [of a 0] by simp
next
  case (3 a b)
  then show ?case using quantum4_enc [of a b 0] quantum_short_enc [of a b] by simp
next
  case (4 a b c rest)
  then show ?case using quantum4_enc [of a b c] by simp
qed simp

lemma b64_encode_clean:
  "\<forall>b\<in>set bs. b < 256 \<Longrightarrow> \<forall>c\<in>set (b64_encode std_alphabet bs). byte_val c \<noteq> 10 \<and> byte_val c \<noteq> 13"
proof -
  have e: "byte_val (enc_char std_alphabet n) \<noteq> 10 \<and> byte_val (enc_char std_alphabet n) \<noteq> 13" if "n < 64" for n
    using std_alphabet_facts(2,4) that by (simp add: enc_char_def nth_mem)
  have p: "byte_val CHR ''='' \<noteq> 10 \<and> byte_val CHR ''='' \<noteq> 13" by (simp add: byte_val_def)
  show "\<forall>b\<in>set bs. b < 256 \<Longrightarrow> \<forall>c\<in>set (b64_encode std_alphabet bs). byte_val c \<noteq> 10 \<and> byte_val c \<noteq> 13"
  proof (induction std_alphabet bs rule: b64_encode.induct)
    case (2 a)
    then have "a < 256" by simp
    from e [OF quantum4_enc(2) [OF this, of 0 0]] e [OF quantum_short_enc(4) [OF this, of 0]]
    show ?case using p by simp
  next
    case (3 a b)
    then have "a < 256" "b < 256" by simp_all
    from e [OF quantum4_enc(2) [OF this, of 0]] e [OF quantum4_enc(3) [OF this, of 0]] e [OF quantum_short_enc(2) [OF this]]
    show ?case using p by simp
  next
    case (4 a b c rest)
    then have "a < 256" "b < 256" "c < 256" by simp_all
    from e [OF quantum4_enc(2) [OF this]] e [OF quantum4_enc(3) [OF this]] e [OF quantum4_enc(4) [OF this]]
      e [of "c mod 64"]
    show ?case using 4 by simp
  qed simp
qed

text \<open>Decoding undoes encoding.\<close>

lemma b64_roundtrip:
  assumes "\<forall>b\<in>set bs. b < 256"
  shows "b64_decode std_alphabet True (b64_encode std_alphabet bs) = Some bs"
proof -
  have "filter (\<lambda>c. byte_val c \<noteq> 10 \<and> byte_val c \<noteq> 13) (b64_encode std_alphabet bs) = b64_encode std_alphabet bs"
    using b64_encode_clean [OF assms] by (simp add: filter_id_conv)
  then show ?thesis using b64_quanta_encode [OF assms] by (simp add: b64_decode_def)
qed

section \<open>AES-GCM\<close>

text \<open>
  What the code uses of a \<open>cipher.AEAD\<close>: sizes, \<open>Seal\<close> and \<open>Open\<close> (nonce first, without
  additional data). \<open>gcm\<close> below is the construction of one from a 32-byte key.
\<close>

record aead =
  NonceSize :: nat
  Overhead :: nat
  Seal :: "nat list \<Rightarrow> nat list \<Rightarrow> nat list"
  Open :: "nat list \<Rightarrow> nat list \<Rightarrow> nat list option"

text \<open>\<open>hex.DecodeString\<close>.\<close>

fun hex_decode :: "string \<Rightarrow> nat list option" where
  "hex_decode [] = Some []"
| "hex_decode [a] = None"
| "hex_decode (a # b # rest) =
     (case (hex_val a, hex_val b) of
        (Some p, Some q) \<Rightarrow> map_option (\<lambda>bs. (p * 16 + q) # bs) (hex_decode rest)
      | _ \<Rightarrow> None)"

definition NewAESGCM :: "(nat list \<Rightarrow> aead result) \<Rightarrow> string \<Rightarrow> aead result" where
  "NewAESGCM gcm hexKey =
     (if length hexKey \<noteq> 64 then Inl (EMsg ''aes key must be 64 hex chars (32 bytes)'')
      else case hex_decode hexKey of None \<Rightarrow> Inl (EMsg ''decode hex key'') | Some key \<Rightarrow> gcm key)"

text \<open>\<open>nonce\<close> is what reading \<open>NonceSize\<close> random bytes gives, if it succeeds.\<close>

definition Encrypt :: "aead \<Rightarrow> nat list option \<Rightarrow> nat list \<Rightarrow> string result" where
  "Encrypt a nonce plaintext =
     (case nonce of None \<Rightarrow> Inl (EMsg ''rand'')
      | Some n \<Rightarrow> Inr (b64_encode std_alphabet (n @ Seal a n plaintext)))"

definition Decrypt :: "aead \<Rightarrow> string \<Rightarrow> nat list result" where
  "Decrypt a b64 =
     (case b64_decode std_alphabet True b64 of
        None \<Rightarrow> Inl (EMsg ''decode base64'')
      | Some raw \<Rightarrow>
          if length raw < NonceSize a + Overhead a then Inl (EMsg ''ciphertext too short'')
          else case Open a (take (NonceSize a) raw) (drop (NonceSize a) raw) of
                 None \<Rightarrow> Inl (EMsg ''aead open'')
               | Some pt \<Rightarrow> Inr pt)"

definition bytes_of :: "string \<Rightarrow> nat list" where "bytes_of s = map byte_val s"

definition string_of :: "nat list \<Rightarrow> string" where "string_of bs = map char_of bs"

definition EncryptString :: "aead \<Rightarrow> nat list option \<Rightarrow> string \<Rightarrow> string result" where
  "EncryptString a nonce s = Encrypt a nonce (bytes_of s)"

definition DecryptString :: "aead \<Rightarrow> string \<Rightarrow> string result" where
  "DecryptString a b64 = (case Decrypt a b64 of Inl e \<Rightarrow> Inl e | Inr b \<Rightarrow> Inr (string_of b))"

text \<open>The documented contract of an AEAD.\<close>

definition aead_ok :: "aead \<Rightarrow> bool" where
  "aead_ok a \<longleftrightarrow>
     (\<forall>n p. length n = NonceSize a \<and> (\<forall>b\<in>set p. b < 256) \<longrightarrow>
        Open a n (Seal a n p) = Some p \<and> length (Seal a n p) = length p + Overhead a \<and>
        (\<forall>b\<in>set (Seal a n p). b < 256))"

lemma string_of_bytes_of [simp]: "string_of (bytes_of s) = s"
  by (simp add: string_of_def bytes_of_def comp_def byte_val_def)

lemma decrypt_encrypt:
  assumes "aead_ok a" and "length n = NonceSize a" and "\<forall>b\<in>set n. b < 256"
  shows "\<exists>c. EncryptString a (Some n) s = Inr c \<and> DecryptString a c = Inr s"
proof -
  let ?raw = "n @ Seal a n (bytes_of s)"
  have pb: "\<forall>b\<in>set (bytes_of s). b < 256" by (simp add: bytes_of_def code_bound)
  have "Open a n (Seal a n (bytes_of s)) = Some (bytes_of s) \<and>
      length (Seal a n (bytes_of s)) = length (bytes_of s) + Overhead a \<and> (\<forall>b\<in>set (Seal a n (bytes_of s)). b < 256)"
    using assms(1,2) pb unfolding aead_ok_def by blast
  then have ok: "Open a n (Seal a n (bytes_of s)) = Some (bytes_of s)"
    "length (Seal a n (bytes_of s)) = length s + Overhead a" "\<forall>b\<in>set (Seal a n (bytes_of s)). b < 256"
    by (simp_all add: bytes_of_def)
  have "b64_decode std_alphabet True (b64_encode std_alphabet ?raw) = Some ?raw"
    by (rule b64_roundtrip) (use ok(3) assms(3) in auto)
  then show ?thesis using ok assms(2) by (simp add: EncryptString_def Encrypt_def DecryptString_def Decrypt_def)
qed

section \<open>JWT expiry\<close>

text \<open>
  \<open>json_exp\<close> is the \<open>exp\<close> claim that \<open>encoding/json\<close> reads (zero when absent), if the payload
  parses. Times are milliseconds; an unreadable token counts as valid for a day.
\<close>

definition parseJWTExp :: "(nat list \<Rightarrow> int option) \<Rightarrow> int \<Rightarrow> string \<Rightarrow> int" where
  "parseJWTExp json_exp now token =
     (let parts = split_on (CHR ''.'') token; dflt = now + 24 * 3600 * 1000 in
      if length parts < 2 then dflt
      else let raw = (case b64_decode url_alphabet False (parts ! 1) of
                        Some r \<Rightarrow> Some r | None \<Rightarrow> b64_decode std_alphabet True (parts ! 1)) in
           case raw of
             None \<Rightarrow> dflt
           | Some r \<Rightarrow>
               (case json_exp r of None \<Rightarrow> dflt | Some e \<Rightarrow> if e = 0 then dflt else e * 1000))"

end
