(* ===== verification/Account_Pool.thy ===== *)
theory Account_Pool
  imports Rate_Limit Crypto_Box "HOL-Library.Product_Lexorder"
begin

text \<open>
  The pool of upstream accounts (internal/account): the tables \<open>oai_accounts\<close>,
  \<open>oai_account_cookies\<close>, \<open>account_proxy_bindings\<close> and \<open>account_quota_snapshots\<close> with their
  DAO, and the account service. Instants are milliseconds of the process clock; \<open>DATETIME\<close> columns
  keep whole seconds (MySQL rounds what it stores), \<open>DATE\<close> columns the local day. Audit columns
  (\<open>created_at\<close>, \<open>updated_at\<close>, \<open>warned_at\<close>), which no code reads, are left out. Where an
  \<open>ORDER BY\<close> leaves ties open, \<open>scan\<close> is the order in which the server reads the table.
\<close>

section \<open>Tables\<close>

definition StatusHealthy :: string where "StatusHealthy = ''healthy''"
definition StatusWarned :: string where "StatusWarned = ''warned''"
definition StatusThrottled :: string where "StatusThrottled = ''throttled''"
definition StatusSuspicious :: string where "StatusSuspicious = ''suspicious''"
definition StatusDead :: string where "StatusDead = ''dead''"

lemmas status_defs = StatusHealthy_def StatusWarned_def StatusThrottled_def StatusSuspicious_def StatusDead_def

record account =
  a_id :: nat
  a_email :: string
  a_auth_enc :: string
  a_refresh_enc :: "string option"
  a_session_enc :: "string option"
  a_expires :: "int option"
  a_oai_session :: string
  a_oai_device :: string
  a_client_id :: string
  a_chatgpt_id :: string
  a_type :: string
  a_plan :: string
  a_daily_quota :: int
  a_status :: string
  a_cooldown :: "int option"
  a_last_used :: "int option"
  a_used_count :: int
  a_used_date :: "int option"
  a_last_refresh :: "int option"
  a_refresh_source :: string
  a_refresh_error :: string
  a_quota_remaining :: int
  a_quota_total :: int
  a_quota_reset :: "int option"
  a_quota_updated :: "int option"
  a_notes :: string
  a_deleted_at :: "int option"
  a_has_rt :: bool
  a_has_st :: bool

record binding =
  b_account :: nat
  b_proxy :: nat
  b_bound_at :: int

record account_db = redis_db +
  accounts :: "account list"
  accounts_next :: nat
  cookies :: "nat \<rightharpoonup> string"
  bindings :: "binding list"
  snapshots :: "(nat \<times> string) list"

text \<open>\<open>NOW()\<close>, and the local day of an instant (\<open>tz\<close>: the zone's offset).\<close>

definition sql_now :: "int \<Rightarrow> int" where
  "sql_now t = t div 1000 * 1000"

definition local_day :: "int \<Rightarrow> int \<Rightarrow> int" where
  "local_day tz t = (t + tz) div 86400000"

definition a_live :: "account \<Rightarrow> bool" where
  "a_live a \<longleftrightarrow> a_deleted_at a = None"

text \<open>The generated column \<open>active_email\<close> of the rows that have one.\<close>

definition live_emails :: "account list \<Rightarrow> string list" where
  "live_emails as = map a_email (filter a_live as)"

section \<open>Statements\<close>

text \<open>
  An UPDATE and the number of matched rows; the unique key on \<open>active_email\<close> rejects it as a whole.
\<close>

definition update_accounts ::
  "(account \<Rightarrow> bool) \<Rightarrow> (account \<Rightarrow> account) \<Rightarrow> 'a account_db_scheme \<Rightarrow> nat result \<times> 'a account_db_scheme" where
  "update_accounts hit f d =
     (let rows = map (\<lambda>a. if hit a then f a else a) (accounts d) in
      if distinct (live_emails rows) then (Inr (length (filter hit (accounts d))), d\<lparr>accounts := rows\<rparr>)
      else (Inl EDuplicate, d))"

definition exec_accounts ::
  "(account \<Rightarrow> bool) \<Rightarrow> (account \<Rightarrow> account) \<Rightarrow> ('a account_db_scheme sess, unit) action" where
  "exec_accounts hit f = bindE (stmt (update_accounts hit f)) (\<lambda>_. okE ())"

text \<open>\<open>WHERE id = ? AND deleted_at IS NULL\<close>.\<close>

definition live_id :: "nat \<Rightarrow> account \<Rightarrow> bool" where
  "live_id i a \<longleftrightarrow> a_id a = i \<and> a_live a"

section \<open>DAO: reading\<close>

definition fill :: "int \<Rightarrow> int \<Rightarrow> account \<Rightarrow> account" where
  "fill tz now a =
     (let a = a\<lparr>a_has_rt := a_refresh_enc a \<noteq> None \<and> a_refresh_enc a \<noteq> Some '''',
                a_has_st := a_session_enc a \<noteq> None \<and> a_session_enc a \<noteq> Some ''''\<rparr> in
      if a_used_count a > 0 \<and> a_used_date a \<noteq> Some (local_day tz now) then a\<lparr>a_used_count := 0\<rparr> else a)"

definition select_account ::
  "(account \<Rightarrow> bool) \<Rightarrow> 'a account_db_scheme \<Rightarrow> account result \<times> 'a account_db_scheme" where
  "select_account P d = (case find P (accounts d) of None \<Rightarrow> Inl ENoRows | Some a \<Rightarrow> Inr a, d)"

definition Account_GetByID :: "int \<Rightarrow> int \<Rightarrow> nat \<Rightarrow> ('a account_db_scheme sess, account) action" where
  "Account_GetByID tz now i =
     bindE (mapErr (\<lambda>e. if e = ENoRows then ErrNotFound else e) (stmt (select_account (live_id i))))
       (\<lambda>a. okE (fill tz now a))"

text \<open>A miss is \<open>nil\<close> without an error.\<close>

definition GetByEmail :: "int \<Rightarrow> int \<Rightarrow> string \<Rightarrow> ('a account_db_scheme sess, account option) action" where
  "GetByEmail tz now email =
     bindE (stmt (\<lambda>d. (Inr (find (\<lambda>a. a_email a = email \<and> a_live a) (accounts d)), d)))
       (\<lambda>r. okE (map_option (fill tz now) r))"

text \<open>\<open>LIKE\<close> with \<open>%\<close>, \<open>_\<close> and the escape character, ignoring case.\<close>

fun sql_like :: "string \<Rightarrow> string \<Rightarrow> bool" where
  "sql_like [] s = (s = [])"
| "sql_like (p # ps) s =
     (if p = CHR ''%'' then sql_like ps s \<or> (case s of [] \<Rightarrow> False | _ # t \<Rightarrow> sql_like (p # ps) t)
      else case s of
             [] \<Rightarrow> False
           | c # t \<Rightarrow>
               if p = CHR 92 then
                 (case ps of
                    [] \<Rightarrow> c = CHR 92 \<and> t = []
                  | q # qs \<Rightarrow> lower_char q = lower_char c \<and> sql_like qs t)
               else (p = CHR ''_'' \<or> lower_char p = lower_char c) \<and> sql_like ps t)"

definition account_matches :: "string \<Rightarrow> string \<Rightarrow> account \<Rightarrow> bool" where
  "account_matches status keyword a \<longleftrightarrow>
     (status \<noteq> '''' \<longrightarrow> a_status a = status) \<and>
     (keyword \<noteq> '''' \<longrightarrow> (let p = ''%'' @ keyword @ ''%'' in sql_like p (a_email a) \<or> sql_like p (a_notes a)))"

definition page :: "nat \<Rightarrow> nat \<Rightarrow> 'b list \<Rightarrow> 'b list" where
  "page offset limit xs = take limit (drop offset xs)"

definition list_page ::
  "int \<Rightarrow> int \<Rightarrow> (account list \<Rightarrow> account list) \<Rightarrow> nat \<Rightarrow> nat \<Rightarrow> ('a account_db_scheme sess, account list \<times> nat) action" where
  "list_page tz now q offset limit =
     bindE (stmt (\<lambda>d. (Inr (length (q (accounts d))), d))) (\<lambda>total.
     bindE (stmt (\<lambda>d. (Inr (page offset limit (q (accounts d))), d))) (\<lambda>rows.
     okE (map (fill tz now) rows, total)))"

definition Account_List ::
  "int \<Rightarrow> int \<Rightarrow> string \<Rightarrow> string \<Rightarrow> nat \<Rightarrow> nat \<Rightarrow> ('a account_db_scheme sess, account list \<times> nat) action" where
  "Account_List tz now status keyword =
     list_page tz now (\<lambda>as. rev (sort_key a_id (filter (\<lambda>a. a_live a \<and> account_matches status keyword a) as)))"

definition Account_ListDeleted ::
  "int \<Rightarrow> int \<Rightarrow> string \<Rightarrow> string \<Rightarrow> nat \<Rightarrow> nat \<Rightarrow> ('a account_db_scheme sess, account list \<times> nat) action" where
  "Account_ListDeleted tz now status keyword =
     list_page tz now (\<lambda>as. rev (sort_key (\<lambda>a. (the (a_deleted_at a), a_id a))
       (filter (\<lambda>a. \<not> a_live a \<and> account_matches status keyword a) as)))"

section \<open>DAO: the background scans\<close>

type_synonym scan = "account list \<Rightarrow> account list"

definition dispatchable :: "int \<Rightarrow> account \<Rightarrow> bool" where
  "dispatchable now a \<longleftrightarrow>
     a_live a \<and> (a_status a = StatusHealthy \<or> a_status a = StatusWarned) \<and>
     (case a_cooldown a of None \<Rightarrow> True | Some t \<Rightarrow> t \<le> now) \<and>
     (case a_expires a of None \<Rightarrow> True | Some t \<Rightarrow> t > now)"

text \<open>The \<open>ORDER BY\<close>: healthy first, then never used, then the longest unused.\<close>

definition dispatch_key :: "account \<Rightarrow> nat \<times> nat \<times> int" where
  "dispatch_key a =
     (if a_status a = StatusHealthy then 0 else 1,
      case a_last_used a of None \<Rightarrow> (0, 0) | Some t \<Rightarrow> (1, t))"

definition ListDispatchable ::
  "scan \<Rightarrow> int \<Rightarrow> int \<Rightarrow> nat \<Rightarrow> ('a account_db_scheme sess, account list) action" where
  "ListDispatchable scan tz now limit =
     bindE (stmt (\<lambda>d. (Inr (take limit (sort_key dispatch_key (scan (filter (dispatchable now) (accounts d))))), d)))
       (\<lambda>rows. okE (map (fill tz now) rows))"

definition need_refresh :: "int \<Rightarrow> account \<Rightarrow> bool" where
  "need_refresh threshold a \<longleftrightarrow>
     a_live a \<and> a_status a \<noteq> StatusDead \<and> (a_refresh_enc a \<noteq> None \<or> a_session_enc a \<noteq> None) \<and>
     (case a_expires a of None \<Rightarrow> False | Some t \<Rightarrow> t \<le> threshold)"

definition ListNeedRefresh ::
  "scan \<Rightarrow> int \<Rightarrow> int \<Rightarrow> int \<Rightarrow> nat \<Rightarrow> ('a account_db_scheme sess, account list) action" where
  "ListNeedRefresh scan tz now aheadSec limit =
     bindE (stmt (\<lambda>d. (Inr (take limit (sort_key (\<lambda>a. the (a_expires a))
       (scan (filter (need_refresh (now + aheadSec * 1000)) (accounts d))))), d)))
       (\<lambda>rows. okE (map (fill tz now) rows))"

definition need_probe :: "int \<Rightarrow> int \<Rightarrow> account \<Rightarrow> bool" where
  "need_probe now threshold a \<longleftrightarrow>
     a_live a \<and> a_status a = StatusHealthy \<and>
     (case a_expires a of None \<Rightarrow> True | Some t \<Rightarrow> t > sql_now now) \<and>
     (case a_quota_updated a of None \<Rightarrow> True
      | Some u \<Rightarrow> u \<le> threshold \<or>
          a_quota_remaining a = 0 \<and> (case a_quota_reset a of None \<Rightarrow> True | Some t \<Rightarrow> t \<le> sql_now now))"

definition ListNeedProbeQuota ::
  "scan \<Rightarrow> int \<Rightarrow> int \<Rightarrow> int \<Rightarrow> nat \<Rightarrow> ('a account_db_scheme sess, account list) action" where
  "ListNeedProbeQuota scan tz now minIntervalSec limit =
     bindE (stmt (\<lambda>d. (Inr (take limit (sort_key (\<lambda>a. case a_quota_updated a of None \<Rightarrow> (0::nat, 0) | Some u \<Rightarrow> (1, u))
       (scan (filter (need_probe now (now - minIntervalSec * 1000)) (accounts d))))), d)))
       (\<lambda>rows. okE (map (fill tz now) rows))"

definition ListAllActiveIDs :: "('a account_db_scheme sess, nat list) action" where
  "ListAllActiveIDs = stmt (\<lambda>d. (Inr (sort (map a_id (filter a_live (accounts d)))), d))"

record quota_summary =
  total_remaining :: int
  total_capacity :: int
  active_accounts :: nat

definition SumQuota :: "('a account_db_scheme sess, quota_summary) action" where
  "SumQuota = stmt (\<lambda>d. let live = filter a_live (accounts d) in
     (Inr \<lparr>total_remaining = sum_list (map a_quota_remaining live),
           total_capacity = sum_list (map a_quota_total live), active_accounts = length live\<rparr>, d))"

section \<open>DAO: writing\<close>

text \<open>\<open>INSERT\<close>: columns that are not named get their defaults.\<close>

definition insert_account :: "account \<Rightarrow> 'a account_db_scheme \<Rightarrow> nat result \<times> 'a account_db_scheme" where
  "insert_account a d =
     (if a_email a \<in> set (live_emails (accounts d)) then (Inl EDuplicate, d)
      else (Inr (accounts_next d),
        d\<lparr>accounts := accounts d @ [a\<lparr>a_id := accounts_next d, a_expires := map_option datetime (a_expires a),
            a_cooldown := None, a_last_used := None, a_used_count := 0, a_used_date := None,
            a_last_refresh := None, a_refresh_source := '''', a_refresh_error := '''',
            a_quota_remaining := -1, a_quota_total := -1, a_quota_reset := None, a_quota_updated := None,
            a_deleted_at := None, a_has_rt := False, a_has_st := False\<rparr>],
          accounts_next := accounts_next d + 1\<rparr>))"

definition Account_Create :: "account \<Rightarrow> ('a account_db_scheme sess, nat) action" where
  "Account_Create a = stmt (insert_account a)"

definition update_columns :: "account \<Rightarrow> account \<Rightarrow> account" where
  "update_columns a old =
     old\<lparr>a_email := a_email a, a_auth_enc := a_auth_enc a, a_refresh_enc := a_refresh_enc a,
         a_session_enc := a_session_enc a, a_expires := map_option datetime (a_expires a),
         a_oai_session := a_oai_session a, a_oai_device := a_oai_device a, a_client_id := a_client_id a,
         a_chatgpt_id := a_chatgpt_id a, a_type := a_type a, a_plan := a_plan a,
         a_daily_quota := a_daily_quota a, a_status := a_status a, a_notes := a_notes a\<rparr>"

definition Account_Update :: "account \<Rightarrow> ('a account_db_scheme sess, unit) action" where
  "Account_Update a = exec_accounts (live_id (a_id a)) (update_columns a)"

definition Account_SoftDelete :: "int \<Rightarrow> nat \<Rightarrow> ('a account_db_scheme sess, unit) action" where
  "Account_SoftDelete now i = exec_accounts (\<lambda>a. a_id a = i) (\<lambda>a. a\<lparr>a_deleted_at := Some (datetime now)\<rparr>)"

definition Account_Restore :: "nat \<Rightarrow> ('a account_db_scheme sess, unit) action" where
  "Account_Restore i =
     bindE (stmt (update_accounts (\<lambda>a. a_id a = i \<and> \<not> a_live a) (\<lambda>a. a\<lparr>a_deleted_at := None\<rparr>)))
       (\<lambda>n. if n = 0 then failE ErrNotFound else okE ())"

definition SoftDeleteByStatus :: "int \<Rightarrow> string \<Rightarrow> ('a account_db_scheme sess, nat) action" where
  "SoftDeleteByStatus now status =
     (if status = '''' then stmt (update_accounts a_live (\<lambda>a. a\<lparr>a_deleted_at := Some (datetime now)\<rparr>))
      else stmt (update_accounts (\<lambda>a. a_live a \<and> a_status a = status) (\<lambda>a. a\<lparr>a_deleted_at := Some (datetime now)\<rparr>)))"

definition delete_accounts :: "nat \<Rightarrow> 'a account_db_scheme \<Rightarrow> nat result \<times> 'a account_db_scheme" where
  "delete_accounts i d =
     (let hit = (\<lambda>a. a_id a = i \<and> \<not> a_live a) in
      (Inr (length (filter hit (accounts d))), d\<lparr>accounts := filter (\<lambda>a. \<not> hit a) (accounts d)\<rparr>))"

text \<open>One transaction over four tables.\<close>

definition Account_Purge :: "nat \<Rightarrow> ('a account_db_scheme sess, unit) action" where
  "Account_Purge i = runTx
     (bindE (stmt (delete_accounts i)) (\<lambda>n.
      if n = 0 then failE ErrNotFound else
      bindE (stmt (\<lambda>d. (Inr (), d\<lparr>cookies := (cookies d)(i := None)\<rparr>))) (\<lambda>_.
      bindE (stmt (\<lambda>d. (Inr (), d\<lparr>bindings := filter (\<lambda>b. b_account b \<noteq> i) (bindings d)\<rparr>))) (\<lambda>_.
      stmt (\<lambda>d. (Inr (), d\<lparr>snapshots := filter (\<lambda>p. fst p \<noteq> i) (snapshots d)\<rparr>))))))"

text \<open>The stored identity is read back without the \<open>deleted_at\<close> filter.\<close>

definition read_column :: "nat \<Rightarrow> (account \<Rightarrow> string) \<Rightarrow> ('a account_db_scheme sess, string) action" where
  "read_column i col =
     stmt (\<lambda>d. (case find (\<lambda>a. a_id a = i) (accounts d) of None \<Rightarrow> Inl ENoRows | Some a \<Rightarrow> Inr (col a), d))"

definition EnsureDeviceID :: "nat \<Rightarrow> string \<Rightarrow> ('a account_db_scheme sess, string) action" where
  "EnsureDeviceID i deviceID =
     bindE (exec_accounts (\<lambda>a. live_id i a \<and> a_oai_device a = '''') (\<lambda>a. a\<lparr>a_oai_device := deviceID\<rparr>))
       (\<lambda>_. read_column i a_oai_device)"

definition EnsureSessionID :: "nat \<Rightarrow> string \<Rightarrow> ('a account_db_scheme sess, string) action" where
  "EnsureSessionID i sessionID =
     bindE (exec_accounts (\<lambda>a. live_id i a \<and> a_oai_session a = '''') (\<lambda>a. a\<lparr>a_oai_session := sessionID\<rparr>))
       (\<lambda>_. read_column i a_oai_session)"

definition MarkUsed :: "int \<Rightarrow> nat \<Rightarrow> int \<Rightarrow> ('a account_db_scheme sess, unit) action" where
  "MarkUsed now i today =
     exec_accounts (\<lambda>a. a_id a = i)
       (\<lambda>a. a\<lparr>a_last_used := Some (datetime now),
              a_used_count := (if a_used_date a = Some today then a_used_count a + 1 else 1),
              a_used_date := Some today\<rparr>)"

definition SetStatus :: "nat \<Rightarrow> string \<Rightarrow> int option \<Rightarrow> ('a account_db_scheme sess, unit) action" where
  "SetStatus i status cooldownUntil =
     exec_accounts (\<lambda>a. a_id a = i) (\<lambda>a. a\<lparr>a_status := status, a_cooldown := map_option datetime cooldownUntil\<rparr>)"

definition revive :: "string \<Rightarrow> string" where
  "revive status = (if status = StatusDead \<or> status = StatusSuspicious then StatusHealthy else status)"

definition ApplyRefreshResult ::
  "int \<Rightarrow> nat \<Rightarrow> string \<Rightarrow> string \<Rightarrow> int \<Rightarrow> string \<Rightarrow> ('a account_db_scheme sess, unit) action" where
  "ApplyRefreshResult now i newATEnc newRTEnc expiresAt source =
     (if newRTEnc \<noteq> '''' then
        exec_accounts (live_id i)
          (\<lambda>a. a\<lparr>a_auth_enc := newATEnc, a_refresh_enc := Some newRTEnc, a_expires := Some (datetime expiresAt),
                 a_last_refresh := Some (datetime now), a_refresh_source := source, a_refresh_error := '''',
                 a_status := revive (a_status a)\<rparr>)
      else
        exec_accounts (live_id i)
          (\<lambda>a. a\<lparr>a_auth_enc := newATEnc, a_expires := Some (datetime expiresAt),
                 a_last_refresh := Some (datetime now), a_refresh_source := source, a_refresh_error := '''',
                 a_status := revive (a_status a)\<rparr>))"

definition RecordRefreshError ::
  "int \<Rightarrow> nat \<Rightarrow> string \<Rightarrow> string \<Rightarrow> bool \<Rightarrow> ('a account_db_scheme sess, unit) action" where
  "RecordRefreshError now i source reason markDead =
     (if markDead then
        exec_accounts (live_id i)
          (\<lambda>a. a\<lparr>a_last_refresh := Some (datetime now), a_refresh_source := source, a_refresh_error := reason,
                 a_status := (case a_expires a of None \<Rightarrow> StatusDead
                              | Some t \<Rightarrow> if t > sql_now now then StatusWarned else StatusDead)\<rparr>)
      else
        exec_accounts (live_id i)
          (\<lambda>a. a\<lparr>a_last_refresh := Some (datetime now), a_refresh_source := source, a_refresh_error := reason\<rparr>))"

definition ApplyQuotaResult ::
  "int \<Rightarrow> nat \<Rightarrow> int \<Rightarrow> int \<Rightarrow> int option \<Rightarrow> ('a account_db_scheme sess, unit) action" where
  "ApplyQuotaResult now i remaining tot resetAt =
     exec_accounts (live_id i)
       (\<lambda>a. a\<lparr>a_quota_remaining := (if remaining < 0 then a_quota_remaining a else remaining),
              a_quota_total := max (a_quota_total a)
                (max (if tot < 0 then 0 else tot) (if remaining < 0 then 0 else remaining)),
              a_quota_reset := map_option datetime resetAt,
              a_quota_updated := Some (datetime now)\<rparr>)"

definition DecrQuota :: "nat \<Rightarrow> int \<Rightarrow> ('a account_db_scheme sess, unit) action" where
  "DecrQuota i n =
     (if n \<le> 0 then okE ()
      else exec_accounts (live_id i) (\<lambda>a. a\<lparr>a_quota_remaining := max 0 (a_quota_remaining a - n)\<rparr>))"

section \<open>DAO: cookies and bindings\<close>

definition UpsertCookies :: "nat \<Rightarrow> string \<Rightarrow> ('a account_db_scheme sess, unit) action" where
  "UpsertCookies i enc = stmt (\<lambda>d. (Inr (), d\<lparr>cookies := (cookies d)(i \<mapsto> enc)\<rparr>))"

definition GetCookies :: "nat \<Rightarrow> ('a account_db_scheme sess, string) action" where
  "GetCookies i = stmt (\<lambda>d. (Inr (case cookies d i of None \<Rightarrow> '''' | Some enc \<Rightarrow> enc), d))"

definition SetBinding :: "int \<Rightarrow> nat \<Rightarrow> nat \<Rightarrow> ('a account_db_scheme sess, unit) action" where
  "SetBinding now i proxyID =
     stmt (\<lambda>d. (Inr (), d\<lparr>bindings := filter (\<lambda>b. b_account b \<noteq> i) (bindings d) @
        [\<lparr>b_account = i, b_proxy = proxyID, b_bound_at = sql_now now\<rparr>]\<rparr>))"

definition RemoveBinding :: "nat \<Rightarrow> ('a account_db_scheme sess, unit) action" where
  "RemoveBinding i = stmt (\<lambda>d. (Inr (), d\<lparr>bindings := filter (\<lambda>b. b_account b \<noteq> i) (bindings d)\<rparr>))"

definition GetBinding :: "nat \<Rightarrow> ('a account_db_scheme sess, binding option) action" where
  "GetBinding i = stmt (\<lambda>d. (Inr (find (\<lambda>b. b_account b = i) (bindings d)), d))"

section \<open>Service\<close>

text \<open>
  \<open>rnd\<close> gives the nonces of the successive encryptions, \<open>jexp\<close> the JSON decoder of a token's
  payload, \<open>uuid\<close> the identifier drawn for a new device.
\<close>

record acct_input =
  ai_email :: string
  ai_auth :: string
  ai_refresh :: string
  ai_session :: string
  ai_expires :: "int option"
  ai_oai_session :: string
  ai_oai_device :: string
  ai_client_id :: string
  ai_chatgpt_id :: string
  ai_type :: string
  ai_plan :: string
  ai_daily_quota :: int
  ai_status :: string
  ai_notes :: string
  ai_cookies :: string

definition zero_time :: int where "zero_time = -62135596800000"

definition default_client_id :: string where "default_client_id = ''app_EMoamEEZ73f0CkXaXp7hrann''"

text \<open>Encrypting an optional secret: an empty one stays absent (or as it was).\<close>

definition enc_opt ::
  "aead \<Rightarrow> nat list option \<Rightarrow> string \<Rightarrow> string option \<Rightarrow> ('w, string option) action" where
  "enc_opt a nonce s old =
     (if s = '''' then okE old else bindE (liftE (EncryptString a nonce s)) (\<lambda>v. okE (Some v)))"

definition token_expiry ::
  "(nat list \<Rightarrow> int option) \<Rightarrow> int \<Rightarrow> int option \<Rightarrow> string \<Rightarrow> int option \<Rightarrow> int option" where
  "token_expiry jexp now given token old =
     (case given of Some t \<Rightarrow> Some t
      | None \<Rightarrow> if token = '''' then old
                else (let e = parseJWTExp jexp now token in if e = zero_time then old else Some e))"

definition save_cookies ::
  "aead \<Rightarrow> nat list option \<Rightarrow> nat \<Rightarrow> string \<Rightarrow> ('a account_db_scheme sess, unit) action" where
  "save_cookies a nonce i plain =
     (if plain = '''' then okE ()
      else bindE (liftE (EncryptString a nonce plain)) (\<lambda>enc. UpsertCookies i enc))"

definition or_default :: "string \<Rightarrow> string \<Rightarrow> string" where
  "or_default s dflt = (if s = '''' then dflt else s)"

definition new_account ::
  "(nat list \<Rightarrow> int option) \<Rightarrow> int \<Rightarrow> string \<Rightarrow> string \<Rightarrow> string option \<Rightarrow> string option \<Rightarrow> acct_input \<Rightarrow> account" where
  "new_account jexp now uuid atEnc rtEnc stEnc inp =
     \<lparr>a_id = 0, a_email = ai_email inp, a_auth_enc = atEnc, a_refresh_enc = rtEnc, a_session_enc = stEnc,
      a_expires = token_expiry jexp now (ai_expires inp) (ai_auth inp) None,
      a_oai_session = ai_oai_session inp, a_oai_device = or_default (ai_oai_device inp) uuid,
      a_client_id = or_default (ai_client_id inp) default_client_id, a_chatgpt_id = ai_chatgpt_id inp,
      a_type = or_default (ai_type inp) ''codex'', a_plan = or_default (ai_plan inp) ''plus'',
      a_daily_quota = (if ai_daily_quota inp = 0 then 100 else ai_daily_quota inp),
      a_status = StatusHealthy, a_cooldown = None, a_last_used = None, a_used_count = 0, a_used_date = None,
      a_last_refresh = None, a_refresh_source = '''', a_refresh_error = '''',
      a_quota_remaining = 0, a_quota_total = 0, a_quota_reset = None, a_quota_updated = None,
      a_notes = ai_notes inp, a_deleted_at = None, a_has_rt = False, a_has_st = False\<rparr>"

definition AcctSvc_Create ::
  "aead \<Rightarrow> (nat \<Rightarrow> nat list option) \<Rightarrow> (nat list \<Rightarrow> int option) \<Rightarrow> int \<Rightarrow> int \<Rightarrow> string \<Rightarrow> acct_input \<Rightarrow>
   ('a account_db_scheme sess, account) action" where
  "AcctSvc_Create c rnd jexp tz now uuid inp =
     (if ai_email inp = '''' \<or> ai_auth inp = '''' then failE (EMsg ''email and auth_token must not be empty'')
      else
        bindE (liftE (EncryptString c (rnd 0) (ai_auth inp))) (\<lambda>atEnc.
        bindE (enc_opt c (rnd 1) (ai_refresh inp) None) (\<lambda>rtEnc.
        bindE (enc_opt c (rnd 2) (ai_session inp) None) (\<lambda>stEnc.
        bindE (Account_Create (new_account jexp now uuid atEnc rtEnc stEnc inp)) (\<lambda>i.
        bindE (save_cookies c (rnd 3) i (ai_cookies inp)) (\<lambda>_.
        Account_GetByID tz now i))))))"

definition edit_account ::
  "(nat list \<Rightarrow> int option) \<Rightarrow> int \<Rightarrow> string option \<Rightarrow> string option \<Rightarrow> string option \<Rightarrow> acct_input \<Rightarrow> account \<Rightarrow> account" where
  "edit_account jexp now atEnc rtEnc stEnc inp a =
     a\<lparr>a_email := or_default (ai_email inp) (a_email a),
       a_auth_enc := (case atEnc of None \<Rightarrow> a_auth_enc a | Some v \<Rightarrow> v),
       a_refresh_enc := rtEnc, a_session_enc := stEnc,
       a_expires := token_expiry jexp now (ai_expires inp) (ai_auth inp) (a_expires a),
       a_oai_session := or_default (ai_oai_session inp) (a_oai_session a),
       a_oai_device := or_default (ai_oai_device inp) (a_oai_device a),
       a_client_id := or_default (ai_client_id inp) (a_client_id a),
       a_chatgpt_id := or_default (ai_chatgpt_id inp) (a_chatgpt_id a),
       a_type := or_default (ai_type inp) (a_type a),
       a_plan := or_default (ai_plan inp) (a_plan a),
       a_daily_quota := (if ai_daily_quota inp > 0 then ai_daily_quota inp else a_daily_quota a),
       a_status := or_default (ai_status inp) (a_status a),
       a_notes := ai_notes inp\<rparr>"

definition AcctSvc_Update ::
  "aead \<Rightarrow> (nat \<Rightarrow> nat list option) \<Rightarrow> (nat list \<Rightarrow> int option) \<Rightarrow> int \<Rightarrow> int \<Rightarrow> nat \<Rightarrow> acct_input \<Rightarrow>
   ('a account_db_scheme sess, account) action" where
  "AcctSvc_Update c rnd jexp tz now i inp =
     bindE (Account_GetByID tz now i) (\<lambda>a.
     bindE (enc_opt c (rnd 0) (ai_auth inp) None) (\<lambda>atEnc.
     bindE (enc_opt c (rnd 1) (ai_refresh inp) (a_refresh_enc a)) (\<lambda>rtEnc.
     bindE (enc_opt c (rnd 2) (ai_session inp) (a_session_enc a)) (\<lambda>stEnc.
     let a' = edit_account jexp now atEnc rtEnc stEnc inp a in
     bindE (Account_Update a') (\<lambda>_.
     bindE (save_cookies c (rnd 3) i (ai_cookies inp)) (\<lambda>_.
     okE a'))))))"

definition AcctSvc_Restore :: "int \<Rightarrow> int \<Rightarrow> nat \<Rightarrow> ('a account_db_scheme sess, account) action" where
  "AcctSvc_Restore tz now i = bindE (Account_Restore i) (\<lambda>_. Account_GetByID tz now i)"

definition BulkDeleteByStatus :: "int \<Rightarrow> string \<Rightarrow> ('a account_db_scheme sess, nat) action" where
  "BulkDeleteByStatus now status =
     (if status = ''all'' then SoftDeleteByStatus now '''' else SoftDeleteByStatus now status)"

definition DecryptAuthToken :: "aead \<Rightarrow> account \<Rightarrow> string result" where
  "DecryptAuthToken c a = DecryptString c (a_auth_enc a)"

record account_secrets =
  sec_auth :: string
  sec_refresh :: string
  sec_session :: string

text \<open>A secret that does not decrypt is shown as empty.\<close>

definition show_secret :: "aead \<Rightarrow> string option \<Rightarrow> string" where
  "show_secret c enc =
     (case enc of None \<Rightarrow> ''''
      | Some e \<Rightarrow> if e = '''' then '''' else (case DecryptString c e of Inl _ \<Rightarrow> '''' | Inr v \<Rightarrow> v))"

definition GetSecrets :: "aead \<Rightarrow> int \<Rightarrow> int \<Rightarrow> nat \<Rightarrow> ('a account_db_scheme sess, account_secrets) action" where
  "GetSecrets c tz now i =
     bindE (Account_GetByID tz now i) (\<lambda>a.
     okE \<lparr>sec_auth = show_secret c (Some (a_auth_enc a)), sec_refresh = show_secret c (a_refresh_enc a),
          sec_session = show_secret c (a_session_enc a)\<rparr>)"

definition DecryptCookies :: "aead \<Rightarrow> nat \<Rightarrow> ('a account_db_scheme sess, string) action" where
  "DecryptCookies c i =
     bindE (GetCookies i) (\<lambda>enc. if enc = '''' then okE '''' else liftE (DecryptString c enc))"

end
