(* ===== verification/Account_Laws.thy ===== *)
theory Account_Laws
  imports Account_Pool
begin

text \<open>
  What the account pool guarantees: unique identifiers and live e-mail addresses, plausible quotas and a
  stable device identity over any run of the DAO's and the service's writes; the round trip of the stored
  secrets; and the life cycle of an account's status.
\<close>

section \<open>The invariant\<close>

definition quota_ok :: "account \<Rightarrow> bool" where
  "quota_ok a \<longleftrightarrow> - 1 \<le> a_quota_remaining a \<and> - 1 \<le> a_quota_total a \<and> a_quota_remaining a \<le> max 0 (a_quota_total a)"

definition accounts_wf :: "'a account_db_scheme \<Rightarrow> bool" where
  "accounts_wf d \<longleftrightarrow>
     distinct (map a_id (accounts d)) \<and> (\<forall>a\<in>set (accounts d). a_id a < accounts_next d) \<and>
     (\<forall>a\<in>set (accounts d). quota_ok a) \<and> distinct (live_emails (accounts d))"

lemma update_accounts_wf:
  assumes "\<And>a. a_id (f a) = a_id a" and "\<And>a. quota_ok a \<Longrightarrow> quota_ok (f a)" and "accounts_wf d"
  shows "accounts_wf (snd (update_accounts hit f d))"
proof -
  have "map (a_id \<circ> (\<lambda>a. if hit a then f a else a)) (accounts d) = map a_id (accounts d)"
    using assms(1) by simp
  then have ids: "distinct (map (a_id \<circ> (\<lambda>a. if hit a then f a else a)) (accounts d))"
    using assms(3) by (simp only: accounts_wf_def)
  show ?thesis
    using assms by (auto simp: update_accounts_def accounts_wf_def Let_def intro: ids)
qed

lemma exec_accounts_wf:
  assumes "\<And>a. a_id (f a) = a_id a" and "\<And>a. quota_ok a \<Longrightarrow> quota_ok (f a)"
  shows "preserves accounts_wf (exec_accounts hit f)"
  unfolding exec_accounts_def
  by (intro preserves_bindE preserves_stmt update_accounts_wf preserves_okE) (use assms in auto)

lemma insert_account_wf:
  assumes "accounts_wf d"
  shows "accounts_wf (snd (insert_account a d))"
  using assms by (auto simp: insert_account_def accounts_wf_def live_emails_def a_live_def quota_ok_def)

lemma delete_accounts_wf:
  assumes "accounts_wf d"
  shows "accounts_wf (snd (delete_accounts i d))"
  using assms
  by (auto simp: delete_accounts_def accounts_wf_def live_emails_def Let_def distinct_map
           intro: inj_on_subset)

lemmas quota_keeping = exec_accounts_wf preserves_intros

lemma dao_writes_wf:
  "preserves accounts_wf (Account_Create a)"
  "preserves accounts_wf (Account_Update a)"
  "preserves accounts_wf (Account_SoftDelete now i)"
  "preserves accounts_wf (Account_Restore i)"
  "preserves accounts_wf (SoftDeleteByStatus now status)"
  "preserves accounts_wf (Account_Purge i)"
  "preserves accounts_wf (MarkUsed now i today)"
  "preserves accounts_wf (SetStatus i status cu)"
  "preserves accounts_wf (ApplyRefreshResult now i atk rtk ex src)"
  "preserves accounts_wf (RecordRefreshError now i src why dead)"
  "preserves accounts_wf (ApplyQuotaResult now i rem tot rs)"
  "preserves accounts_wf (DecrQuota i n)"
proof -
  show "preserves accounts_wf (Account_Create a)"
    unfolding Account_Create_def by (intro preserves_stmt insert_account_wf)
  show "preserves accounts_wf (Account_Update a)"
    unfolding Account_Update_def by (rule exec_accounts_wf) (simp_all add: update_columns_def quota_ok_def)
  show "preserves accounts_wf (Account_SoftDelete now i)"
    unfolding Account_SoftDelete_def by (rule exec_accounts_wf) (simp_all add: quota_ok_def)
  show "preserves accounts_wf (Account_Restore i)"
    unfolding Account_Restore_def
    by (intro preserves_intros preserves_stmt update_accounts_wf) (simp_all add: quota_ok_def)
  show "preserves accounts_wf (SoftDeleteByStatus now status)"
    unfolding SoftDeleteByStatus_def
    by (intro preserves_intros preserves_stmt update_accounts_wf) (simp_all add: quota_ok_def)
  show "preserves accounts_wf (Account_Purge i)"
    unfolding Account_Purge_def
    by (intro preserves_intros preserves_stmt delete_accounts_wf) (simp_all add: accounts_wf_def)
  show "preserves accounts_wf (MarkUsed now i today)"
    unfolding MarkUsed_def by (rule exec_accounts_wf) (simp_all add: quota_ok_def)
  show "preserves accounts_wf (SetStatus i status cu)"
    unfolding SetStatus_def by (rule exec_accounts_wf) (simp_all add: quota_ok_def)
  show "preserves accounts_wf (ApplyRefreshResult now i atk rtk ex src)"
    unfolding ApplyRefreshResult_def by (intro preserves_if exec_accounts_wf) (simp_all add: quota_ok_def)
  show "preserves accounts_wf (RecordRefreshError now i src why dead)"
    unfolding RecordRefreshError_def by (intro preserves_if exec_accounts_wf) (simp_all add: quota_ok_def)
  show "preserves accounts_wf (ApplyQuotaResult now i rem tot rs)"
    unfolding ApplyQuotaResult_def by (rule exec_accounts_wf) (auto simp: quota_ok_def)
  show "preserves accounts_wf (DecrQuota i n)"
    unfolding DecrQuota_def by (intro preserves_if preserves_okE exec_accounts_wf) (auto simp: quota_ok_def)
qed

lemma reads_read_column [intro]: "reads (read_column i col)"
  unfolding read_column_def by (rule reads_stmt) (simp split: option.split)

lemma reads_GetByID [intro]: "reads (Account_GetByID tz now i)"
  unfolding Account_GetByID_def
  by (intro reads_bindE reads_mapErr reads_stmt reads_okE) (simp add: select_account_def)

lemma reads_enc_opt [intro]: "reads (enc_opt c n s old)"
  unfolding enc_opt_def by (intro reads_intros reads_liftE)

lemma identity_writes_wf:
  "preserves accounts_wf (EnsureDeviceID i dev)"
  "preserves accounts_wf (EnsureSessionID i sid)"
  unfolding EnsureDeviceID_def EnsureSessionID_def
  by (intro preserves_bindE exec_accounts_wf preserves_reads reads_read_column; simp add: quota_ok_def)+

lemma side_tables_wf:
  "preserves accounts_wf (UpsertCookies i enc)"
  "preserves accounts_wf (SetBinding now i p)"
  "preserves accounts_wf (RemoveBinding i)"
  unfolding UpsertCookies_def SetBinding_def RemoveBinding_def
  by (intro preserves_stmt; simp add: accounts_wf_def)+

lemma service_writes_wf:
  "preserves accounts_wf (AcctSvc_Create c rnd jexp tz now uuid inp)"
  "preserves accounts_wf (AcctSvc_Update c rnd jexp tz now i inp)"
  "preserves accounts_wf (AcctSvc_Restore tz now i)"
  "preserves accounts_wf (BulkDeleteByStatus now status)"
  unfolding AcctSvc_Create_def AcctSvc_Update_def AcctSvc_Restore_def BulkDeleteByStatus_def save_cookies_def Let_def
  by (intro preserves_okE preserves_failE preserves_bindE preserves_if dao_writes_wf side_tables_wf
        preserves_reads [OF reads_GetByID] preserves_reads [OF reads_liftE] preserves_reads [OF reads_enc_opt])+

section \<open>Runs of writes\<close>

text \<open>
  Every write of the DAO and of the service, with the results of its random sources as arguments of the
  operation and the cipher and decoder as parameters of the run.
\<close>

datatype acct_op =
    OCreate "nat \<Rightarrow> nat list option" int int string acct_input
  | OUpdate "nat \<Rightarrow> nat list option" int int nat acct_input
  | ODelete int nat
  | ORestore int int nat
  | OPurge nat
  | OBulkDelete int string
  | OEnsureDevice nat string
  | OEnsureSession nat string
  | OMarkUsed int nat int
  | OSetStatus nat string "int option"
  | ORefreshed int nat string string int string
  | ORefreshFailed int nat string string bool
  | OQuota int nat int int "int option"
  | ODecrQuota nat int
  | OCookies nat string
  | OBind int nat nat
  | OUnbind nat

fun acct_exec ::
  "aead \<Rightarrow> (nat list \<Rightarrow> int option) \<Rightarrow> acct_op \<Rightarrow> 'a account_db_scheme sess \<Rightarrow> 'a account_db_scheme sess" where
  "acct_exec c jexp (OCreate rnd tz now uuid inp) s = snd (AcctSvc_Create c rnd jexp tz now uuid inp s)"
| "acct_exec c jexp (OUpdate rnd tz now i inp) s = snd (AcctSvc_Update c rnd jexp tz now i inp s)"
| "acct_exec c jexp (ODelete now i) s = snd (Account_SoftDelete now i s)"
| "acct_exec c jexp (ORestore tz now i) s = snd (AcctSvc_Restore tz now i s)"
| "acct_exec c jexp (OPurge i) s = snd (Account_Purge i s)"
| "acct_exec c jexp (OBulkDelete now status) s = snd (BulkDeleteByStatus now status s)"
| "acct_exec c jexp (OEnsureDevice i dev) s = snd (EnsureDeviceID i dev s)"
| "acct_exec c jexp (OEnsureSession i sid) s = snd (EnsureSessionID i sid s)"
| "acct_exec c jexp (OMarkUsed now i today) s = snd (MarkUsed now i today s)"
| "acct_exec c jexp (OSetStatus i status cu) s = snd (SetStatus i status cu s)"
| "acct_exec c jexp (ORefreshed now i atk rtk ex src) s = snd (ApplyRefreshResult now i atk rtk ex src s)"
| "acct_exec c jexp (ORefreshFailed now i src why dead) s = snd (RecordRefreshError now i src why dead s)"
| "acct_exec c jexp (OQuota now i rem tot rs) s = snd (ApplyQuotaResult now i rem tot rs s)"
| "acct_exec c jexp (ODecrQuota i n) s = snd (DecrQuota i n s)"
| "acct_exec c jexp (OCookies i enc) s = snd (UpsertCookies i enc s)"
| "acct_exec c jexp (OBind now i p) s = snd (SetBinding now i p s)"
| "acct_exec c jexp (OUnbind i) s = snd (RemoveBinding i s)"

lemmas acct_writes_wf = dao_writes_wf identity_writes_wf side_tables_wf service_writes_wf

lemma acct_exec_wf: "accounts_wf (fst s) \<Longrightarrow> accounts_wf (fst (acct_exec c jexp a s))"
  by (cases a) (simp_all add: acct_writes_wf [THEN preserves_snd])

interpretation acct_runs: inv_system "acct_exec c jexp" "\<lambda>_ _. True" "\<lambda>s. accounts_wf (fst s)"
  by unfold_locales (rule acct_exec_wf)

lemma admissible_True: "admissible_run (\<lambda>_ _. True) step as s"
  by (induction as arbitrary: s) auto

lemma accounts_wf_run: "accounts_wf (fst s) \<Longrightarrow> accounts_wf (fst (fold (acct_exec c jexp) as s))"
  by (rule acct_runs.run_inv [OF _ admissible_True])

text \<open>
  C39. The pool stays well-formed over any run of account writes (creations, edits, deletions, restores,
  purges, refresh results and failures, quota probes, uses) under any driver faults: account ids are unique
  and below the next id, no two live accounts share an e-mail address, and a known remaining quota never
  exceeds the known total.
\<close>

theorem accounts_stay_wf:
  assumes "accounts_wf d"
  shows "accounts_wf (fst (fold (acct_exec c jexp) ops (d, faults)))"
  using accounts_wf_run [of "(d, faults)"] assms by simp

definition demo_account :: account where
  "demo_account =
     \<lparr>a_id = 1, a_email = ''a@x'', a_auth_enc = ''AA=='', a_refresh_enc = None, a_session_enc = None,
      a_expires = Some 10000, a_oai_session = '''', a_oai_device = '''', a_client_id = default_client_id,
      a_chatgpt_id = '''', a_type = ''codex'', a_plan = ''plus'', a_daily_quota = 100,
      a_status = StatusHealthy, a_cooldown = None, a_last_used = None, a_used_count = 0, a_used_date = None,
      a_last_refresh = None, a_refresh_source = '''', a_refresh_error = '''',
      a_quota_remaining = -1, a_quota_total = -1, a_quota_reset = None, a_quota_updated = None,
      a_notes = '''', a_deleted_at = None, a_has_rt = False, a_has_st = False\<rparr>"

definition demo_pool :: account_db where
  "demo_pool =
     \<lparr>locks = Map.empty, buckets = Map.empty, accounts = [demo_account], accounts_next = 2,
      cookies = Map.empty, bindings = [], snapshots = []\<rparr>"

text \<open>A toy AEAD: the text followed by one check byte.\<close>

definition demo_aead :: aead where
  "demo_aead =
     \<lparr>NonceSize = 1, Overhead = 1, Seal = (\<lambda>n p. p @ [7]),
      Open = (\<lambda>n c. if c \<noteq> [] \<and> last c = 7 then Some (butlast c) else None)\<rparr>"

lemma demo_pool_wf: "accounts_wf demo_pool"
  by (simp add: accounts_wf_def demo_pool_def demo_account_def live_emails_def a_live_def quota_ok_def)

theorem accounts_stay_wf_witness:
  "accounts_wf (fst (fold (acct_exec demo_aead (\<lambda>_. None))
     [ODecrQuota 1 3, OQuota 5000 1 4 2 None, ODelete 6000 1, ORestore 0 7000 1, OPurge 1] (demo_pool, [DOk, DLost])))"
  by (rule accounts_stay_wf) (rule demo_pool_wf)

section \<open>Identity\<close>

text \<open>
  The device (or session) column of an account changes only while it is empty, except by an edit. The two
  \<open>Ensure\<close> operations share one shape.
\<close>

definition col_of :: "(account \<Rightarrow> string) \<Rightarrow> nat \<Rightarrow> 'a account_db_scheme \<Rightarrow> string option" where
  "col_of col i d = map_option col (find (\<lambda>a. a_id a = i) (accounts d))"

lemma find_map_same:
  assumes "\<And>a. a_id (f a) = a_id a"
  shows "find (\<lambda>a. a_id a = i) (map (\<lambda>a. if hit a then f a else a) as) =
         map_option (\<lambda>a. if hit a then f a else a) (find (\<lambda>a. a_id a = i) as)"
  using assms by (induction as) auto

lemma col_of_update:
  assumes "\<And>a. a_id (f a) = a_id a" and "\<And>a. hit a \<Longrightarrow> col a = v \<Longrightarrow> col (f a) = v"
    and "col_of col i d = Some v"
  shows "col_of col i (snd (update_accounts hit f d)) = Some v"
proof -
  from assms(3) obtain a where a: "find (\<lambda>a. a_id a = i) (accounts d) = Some a" "col a = v"
    by (auto simp: col_of_def)
  then show ?thesis
    using assms(2) [of a] by (simp add: col_of_def update_accounts_def Let_def find_map_same [OF assms(1)])
qed

lemma col_of_exec:
  assumes "\<And>a. a_id (f a) = a_id a" and "\<And>a. hit a \<Longrightarrow> col a = v \<Longrightarrow> col (f a) = v"
  shows "preserves (\<lambda>d. col_of col i d = Some v) (exec_accounts hit f)"
  unfolding exec_accounts_def
  by (intro preserves_bindE preserves_stmt col_of_update preserves_okE) (use assms in auto)

definition keeps_identity :: "acct_op \<Rightarrow> bool" where
  "keeps_identity a = (case a of OUpdate _ _ _ _ _ \<Rightarrow> False | OPurge _ \<Rightarrow> False | _ \<Rightarrow> True)"

text \<open>An insertion goes behind the existing rows, so it does not change what a lookup finds.\<close>

lemma col_of_insert: "col_of col i d = Some v \<Longrightarrow> col_of col i (snd (insert_account a d)) = Some v"
  by (auto simp: col_of_def insert_account_def find_snoc)

lemma device_writes:
  fixes P :: "'a account_db_scheme \<Rightarrow> bool"
  assumes v: "v \<noteq> ''''" and P: "P = (\<lambda>d. col_of a_oai_device i d = Some v)"
  shows "preserves P (AcctSvc_Create c rnd jexp tz now uuid inp)"
    and "preserves P (Account_SoftDelete now j)"
    and "preserves P (AcctSvc_Restore tz now j)"
    and "preserves P (BulkDeleteByStatus now st)"
    and "preserves P (EnsureDeviceID j dev)"
    and "preserves P (EnsureSessionID j sid)"
    and "preserves P (MarkUsed now j today)"
    and "preserves P (SetStatus j st cu)"
    and "preserves P (ApplyRefreshResult now j atk rtk ex src)"
    and "preserves P (RecordRefreshError now j src why dead)"
    and "preserves P (ApplyQuotaResult now j rem tot rs)"
    and "preserves P (DecrQuota j n)"
    and "preserves P (UpsertCookies j enc)" and "preserves P (SetBinding now j p)" and "preserves P (RemoveBinding j)"
proof -
  have upd: "preserves P (exec_accounts hit f)" if "\<And>a. a_id (f a) = a_id a" "\<And>a. a_oai_device (f a) = a_oai_device a" for hit f
    unfolding P by (rule col_of_exec) (simp_all add: that)
  have stm: "preserves P (stmt (update_accounts hit f))" if "\<And>a. a_id (f a) = a_id a" "\<And>a. a_oai_device (f a) = a_oai_device a" for hit f
    unfolding P by (intro preserves_stmt col_of_update) (simp_all add: that)
  show side: "preserves P (UpsertCookies j enc)" "preserves P (SetBinding now j p)" "preserves P (RemoveBinding j)" for j enc now p
    unfolding UpsertCookies_def SetBinding_def RemoveBinding_def P by (intro preserves_stmt; simp add: col_of_def)+
  have ins: "preserves P (Account_Create a)" for a
    unfolding Account_Create_def P by (intro preserves_stmt col_of_insert)
  show "preserves P (AcctSvc_Create c rnd jexp tz now uuid inp)"
    unfolding AcctSvc_Create_def save_cookies_def
    by (intro preserves_okE preserves_failE preserves_bindE preserves_if side ins
          preserves_reads [OF reads_GetByID] preserves_reads [OF reads_liftE] preserves_reads [OF reads_enc_opt])
  show "preserves P (AcctSvc_Restore tz now j)"
    unfolding AcctSvc_Restore_def Account_Restore_def
    by (intro preserves_okE preserves_failE preserves_bindE preserves_if preserves_reads [OF reads_GetByID] stm) simp_all
  show "preserves P (BulkDeleteByStatus now st)"
    unfolding BulkDeleteByStatus_def SoftDeleteByStatus_def by (intro preserves_if stm) simp_all
  show "preserves P (EnsureDeviceID j dev)"
    unfolding EnsureDeviceID_def P
    by (intro preserves_bindE preserves_reads [OF reads_read_column] col_of_exec) (use v in auto)
  show "preserves P (EnsureSessionID j sid)"
    unfolding EnsureSessionID_def by (intro preserves_bindE preserves_reads [OF reads_read_column] upd) simp_all
  show "preserves P (ApplyRefreshResult now j atk rtk ex src)"
    unfolding ApplyRefreshResult_def by (intro preserves_if upd) simp_all
  show "preserves P (RecordRefreshError now j src why dead)"
    unfolding RecordRefreshError_def by (intro preserves_if upd) simp_all
  show "preserves P (DecrQuota j n)"
    unfolding DecrQuota_def by (intro preserves_if preserves_okE upd) simp_all
  show "preserves P (Account_SoftDelete now j)" "preserves P (MarkUsed now j today)" "preserves P (SetStatus j st cu)"
    "preserves P (ApplyQuotaResult now j rem tot rs)"
    unfolding Account_SoftDelete_def MarkUsed_def SetStatus_def ApplyQuotaResult_def by (intro upd; simp)+
qed

lemma device_exec:
  assumes "keeps_identity a" and "v \<noteq> ''''" and "col_of a_oai_device i (fst s) = Some v"
  shows "col_of a_oai_device i (fst (acct_exec c jexp a s)) = Some v"
  using assms(1,3)
  by (cases a) (simp_all add: keeps_identity_def device_writes [OF assms(2) refl, THEN preserves_snd])

lemma device_run:
  assumes "list_all keeps_identity ops" and "v \<noteq> ''''" and "col_of a_oai_device i (fst s) = Some v"
  shows "col_of a_oai_device i (fst (fold (acct_exec c jexp) ops s)) = Some v"
  using assms(1,3)
proof (induction ops arbitrary: s)
  case (Cons a ops)
  then have "col_of a_oai_device i (fst (acct_exec c jexp a s)) = Some v"
    by (intro device_exec [OF _ assms(2)]) simp_all
  with Cons show ?case by simp
qed simp

lemma EnsureDeviceID_column:
  assumes "EnsureDeviceID i dev s = (Inr v, s')"
  shows "col_of a_oai_device i (fst s') = Some v"
  using assms
  by (auto simp: EnsureDeviceID_def read_column_def col_of_def elim!: bindE_InrE stmt_InrE split: option.splits)

text \<open>
  The device identity of an account is fixed once: whatever two schedulers draw, once
  \<open>EnsureDeviceID\<close> has returned a device id, every later call returns the same one, over any account
  writes in between other than an administrator's edit or purge and under any driver faults.
\<close>

theorem device_id_stable:
  assumes "EnsureDeviceID i dev s = (Inr v, s1)" and "v \<noteq> ''''"
    and "list_all keeps_identity ops"
    and "EnsureDeviceID i dev' (fold (acct_exec c jexp) ops s1) = (Inr v', s2)"
  shows "v' = v"
proof -
  have "col_of a_oai_device i (fst s1) = Some v" by (rule EnsureDeviceID_column [OF assms(1)])
  then have "col_of a_oai_device i (fst (fold (acct_exec c jexp) ops s1)) = Some v"
    by (rule device_run [OF assms(3,2)])
  from preserves_snd [OF device_writes(5) [OF assms(2) refl], OF this, of i dev'] assms(4)
  have "col_of a_oai_device i (fst s2) = Some v" by simp
  with EnsureDeviceID_column [OF assms(4)] show ?thesis by simp
qed

theorem device_id_stable_witness:
  "fst (EnsureDeviceID 1 ''dev-b'' (fold (acct_exec demo_aead (\<lambda>_. None)) [OMarkUsed 5000 1 0, OEnsureDevice 1 ''dev-c'']
     (snd (EnsureDeviceID 1 ''dev-a'' (demo_pool, []))))) = Inr ''dev-a''"
proof -
  let ?s1 = "snd (EnsureDeviceID 1 ''dev-a'' (demo_pool, []))"
  let ?ops = "[OMarkUsed 5000 1 0, OEnsureDevice 1 ''dev-c'']"
  let ?run = "EnsureDeviceID 1 ''dev-b'' (fold (acct_exec demo_aead (\<lambda>_. None)) ?ops ?s1)"
  note [simp] = EnsureDeviceID_def exec_accounts_def bindE_def update_accounts_def demo_pool_def demo_account_def
    live_id_def a_live_def live_emails_def okE_def read_column_def MarkUsed_def
  have 1: "EnsureDeviceID 1 ''dev-a'' (demo_pool, []) = (Inr ''dev-a'', ?s1)" by simp
  have 2: "\<exists>v. ?run = (Inr v, snd ?run)" by simp
  then obtain v where v: "?run = (Inr v, snd ?run)" ..
  have "v = ''dev-a''" by (rule device_id_stable [OF 1 _ _ v]) (simp_all add: keeps_identity_def)
  with v show ?thesis by (metis fst_conv)
qed

section \<open>Secrets\<close>

definition good_nonces :: "aead \<Rightarrow> (nat \<Rightarrow> nat list option) \<Rightarrow> bool" where
  "good_nonces c rnd \<longleftrightarrow> 0 < NonceSize c \<and> (\<forall>k n. rnd k = Some n \<longrightarrow> length n = NonceSize c \<and> (\<forall>b\<in>set n. b < 256))"

lemma b64_encode_Nil: "b64_encode al bs = [] \<longleftrightarrow> bs = []"
  by (cases "(al, bs)" rule: b64_encode.cases) auto

lemma encrypted_decrypts:
  assumes "aead_ok c" and "good_nonces c rnd" and "EncryptString c (rnd k) p = Inr e"
  shows "DecryptString c e = Inr p \<and> e \<noteq> ''''"
proof -
  obtain n where n: "rnd k = Some n" using assms(3) by (auto simp: EncryptString_def Encrypt_def split: option.splits)
  then have g: "length n = NonceSize c" "\<forall>b\<in>set n. b < 256" "n \<noteq> []"
    using assms(2) by (fastforce simp: good_nonces_def)+
  from decrypt_encrypt [OF assms(1) g(1,2), of p] assms(3) n have "DecryptString c e = Inr p" by auto
  moreover have "e \<noteq> ''''" using assms(3) g(3) by (auto simp: EncryptString_def Encrypt_def n b64_encode_Nil)
  ultimately show ?thesis by blast
qed

lemma enc_opt_Inr:
  assumes "enc_opt c n s old w = (Inr v, w')"
  shows "w' = w \<and> (if s = '''' then v = old else \<exists>e. EncryptString c n s = Inr e \<and> v = Some e)"
  using assms by (auto simp: enc_opt_def okE_def bindE_def liftE_def split: if_splits sum.splits)

lemma shown_secret:
  assumes "aead_ok c" and "good_nonces c rnd" and "enc_opt c (rnd k) s None w = (Inr v, w')"
  shows "show_secret c v = s"
  using enc_opt_Inr [OF assms(3)] encrypted_decrypts [OF assms(1,2), of k s]
  by (auto simp: show_secret_def split: if_splits)

lemma UpsertCookies_frame: "accounts (fst (snd (UpsertCookies i enc s))) = accounts (fst s)"
  using stmt_db [of "\<lambda>d. (Inr (), d\<lparr>cookies := (cookies d)(i \<mapsto> enc)\<rparr>)" s] by (auto simp: UpsertCookies_def)

lemma save_cookies_frame:
  assumes "save_cookies c n i p s = (r, s')"
  shows "accounts (fst s') = accounts (fst s)"
  using assms UpsertCookies_frame [of i _ s]
  by (auto simp: save_cookies_def okE_def bindE_def liftE_def split: if_splits sum.splits) (metis snd_conv)+

lemma GetByID_Inr:
  assumes "Account_GetByID tz now i s = (Inr a, s')"
  shows "\<exists>row. find (live_id i) (accounts (fst s)) = Some row \<and> a = fill tz now row \<and> fst s' = fst s"
  using assms
  by (auto simp: Account_GetByID_def select_account_def okE_def
           elim!: bindE_InrE stmt_InrE dest!: mapErr_InrD split: option.splits)

lemma fill_secrets [simp]:
  "a_auth_enc (fill tz now a) = a_auth_enc a" "a_refresh_enc (fill tz now a) = a_refresh_enc a"
  "a_session_enc (fill tz now a) = a_session_enc a" "a_id (fill tz now a) = a_id a"
  by (simp_all add: fill_def Let_def)

lemma insert_account_Inr:
  assumes "insert_account a d = (Inr i, d')"
  shows "i = accounts_next d \<and> (\<exists>r. accounts d' = accounts d @ [r] \<and> a_auth_enc r = a_auth_enc a \<and>
     a_refresh_enc r = a_refresh_enc a \<and> a_session_enc r = a_session_enc a)"
  using assms by (auto simp: insert_account_def split: if_splits)

text \<open>
  Stored secrets come back: whatever account an administrator creates, reading its secrets for the edit
  dialog afterwards shows exactly the access, refresh and session tokens that were entered (an absent one as
  empty), for a cipher that keeps the AEAD contract and nonces of its size.
\<close>

theorem secrets_roundtrip:
  assumes "accounts_wf (fst s)" and "aead_ok c" and "good_nonces c rnd"
    and "AcctSvc_Create c rnd jexp tz now uuid inp s = (Inr a, s')"
  shows "fst (GetSecrets c tz' now' (a_id a) (fst s', [])) =
    Inr \<lparr>sec_auth = ai_auth inp, sec_refresh = ai_refresh inp, sec_session = ai_session inp\<rparr>"
proof -
  from assms(4) obtain atk rt st i s1 s2 s3 s4 s5
    where atk: "EncryptString c (rnd 0) (ai_auth inp) = Inr atk"
      and rt: "enc_opt c (rnd 1) (ai_refresh inp) None s1 = (Inr rt, s2)"
      and st: "enc_opt c (rnd 2) (ai_session inp) None s2 = (Inr st, s3)"
      and ins: "Account_Create (new_account jexp now uuid atk rt st inp) s3 = (Inr i, s4)"
      and ck: "save_cookies c (rnd 3) i (ai_cookies inp) s4 = (Inr (), s5)"
      and get: "Account_GetByID tz now i s5 = (Inr a, s')" and s1: "s1 = s"
    by (auto simp: AcctSvc_Create_def failE_def liftE_Inr split: if_splits elim!: bindE_InrE)
  have s3: "s3 = s" using enc_opt_Inr [OF rt] enc_opt_Inr [OF st] s1 by simp
  obtain row where row: "find (live_id i) (accounts (fst s5)) = Some row" "a = fill tz now row" "fst s' = fst s5"
    using GetByID_Inr [OF get] by blast
  have "insert_account (new_account jexp now uuid atk rt st inp) (fst s) = (Inr i, fst s4)"
    using ins by (auto simp: Account_Create_def s3 elim!: stmt_InrE)
  then have acc: "i = accounts_next (fst s)"
    "\<exists>r. accounts (fst s4) = accounts (fst s) @ [r] \<and> a_auth_enc r = atk \<and> a_refresh_enc r = rt \<and> a_session_enc r = st"
    using insert_account_Inr by (force simp: new_account_def)+
  have "find (live_id i) (accounts (fst s)) = None"
    using assms(1) acc(1) by (fastforce simp: find_None_iff accounts_wf_def live_id_def)
  then have vals: "a_auth_enc row = atk" "a_refresh_enc row = rt" "a_session_enc row = st"
    using row(1) acc(2) save_cookies_frame [OF ck] by (auto simp: find_snoc split: if_splits)
  have "live_id i row" using row(1) by (auto simp: find_Some_iff)
  then have "a_id a = i" by (simp add: row(2) live_id_def)
  moreover have "show_secret c (Some atk) = ai_auth inp"
    using encrypted_decrypts [OF assms(2,3) atk] by (simp add: show_secret_def)
  ultimately show ?thesis
    using shown_secret [OF assms(2,3) rt] shown_secret [OF assms(2,3) st] row vals
    by (simp add: GetSecrets_def Account_GetByID_def select_account_def bindE_def mapErr_def okE_def)
qed

definition demo_input :: acct_input where
  "demo_input =
     \<lparr>ai_email = ''b@x'', ai_auth = ''tok'', ai_refresh = ''rt'', ai_session = '''', ai_expires = Some 9000,
      ai_oai_session = '''', ai_oai_device = '''', ai_client_id = '''', ai_chatgpt_id = '''', ai_type = '''',
      ai_plan = '''', ai_daily_quota = 0, ai_status = '''', ai_notes = '''', ai_cookies = ''ck''\<rparr>"

lemma demo_aead_ok: "aead_ok demo_aead"
  by (auto simp: aead_ok_def demo_aead_def)

theorem secrets_roundtrip_witness:
  "\<exists>a s'. AcctSvc_Create demo_aead (\<lambda>_. Some [9]) (\<lambda>_. None) 0 1000 ''u'' demo_input (demo_pool, []) = (Inr a, s') \<and>
     fst (GetSecrets demo_aead 0 2000 (a_id a) (fst s', [])) =
       Inr \<lparr>sec_auth = ''tok'', sec_refresh = ''rt'', sec_session = ''''\<rparr>"
proof -
  let ?r = "AcctSvc_Create demo_aead (\<lambda>_. Some [9]) (\<lambda>_. None) 0 1000 ''u'' demo_input (demo_pool, [])"
  have "\<exists>a. fst ?r = Inr a"
    by (simp add: AcctSvc_Create_def demo_input_def bindE_def liftE_def EncryptString_def Encrypt_def enc_opt_def okE_def
        Account_Create_def insert_account_def demo_pool_def demo_account_def live_emails_def a_live_def new_account_def
        save_cookies_def UpsertCookies_def Account_GetByID_def select_account_def live_id_def mapErr_def)
  then obtain a where r: "?r = (Inr a, snd ?r)" by (metis prod.collapse)
  have "good_nonces demo_aead (\<lambda>_. Some [9])" by (simp add: good_nonces_def demo_aead_def)
  from secrets_roundtrip [OF _ demo_aead_ok this r, of 0 2000] r demo_pool_wf
  show ?thesis unfolding demo_input_def by (metis acct_input.simps fst_conv snd_conv)
qed

end
