(* ===== verification/Proxy_Pool.thy ===== *)
theory Proxy_Pool
  imports Account_Laws
begin

text \<open>
  The pool of outbound proxies (internal/proxy): the table and its DAO, the service with the batch import of
  proxy lines, the allocator that leases a proxy for one request, and the bookkeeping of the prober. The
  parser of URLs (\<open>net/url\<close>) is a parameter of the import.
\<close>

section \<open>Table\<close>

record proxy =
  p_id :: nat
  p_scheme :: string
  p_host :: string
  p_port :: int
  p_username :: string
  p_password_enc :: string
  p_country :: string
  p_isp :: string
  p_health :: int
  p_last_probe :: "int option"
  p_last_used :: "int option"
  p_last_error :: string
  p_enabled :: bool
  p_remark :: string
  p_deleted_at :: "int option"

record pool_db = account_db +
  proxies :: "proxy list"
  proxies_next :: nat

definition p_live :: "proxy \<Rightarrow> bool" where
  "p_live p \<longleftrightarrow> p_deleted_at p = None"

section \<open>URLs\<close>

text \<open>The digit loop of \<open>itoa\<close>, which fills its buffer from the right.\<close>

fun itoa_digits :: "nat \<Rightarrow> string \<Rightarrow> string" where
  "itoa_digits n buf = (if n = 0 then buf else itoa_digits (n div 10) (digit_char (n mod 10) # buf))"

declare itoa_digits.simps [simp del]

definition itoa :: "int \<Rightarrow> string" where
  "itoa i =
     (if i = 0 then ''0''
      else let neg = i < 0; j = (if neg then wrap64 (- i) else i);
               buf = (if j > 0 then itoa_digits (nat j) [] else []) in
           if neg then CHR ''-'' # buf else buf)"

definition host_port :: "string \<Rightarrow> int \<Rightarrow> string" where
  "host_port h port = h @ '':'' @ itoa port"

definition URLWithPassword :: "proxy \<Rightarrow> string \<Rightarrow> string" where
  "URLWithPassword p password =
     (if p_username p = '''' then p_scheme p @ ''://'' @ host_port (p_host p) (p_port p)
      else if password = '''' then p_scheme p @ ''://'' @ p_username p @ ''@'' @ host_port (p_host p) (p_port p)
      else p_scheme p @ ''://'' @ p_username p @ '':'' @ password @ ''@'' @ host_port (p_host p) (p_port p))"

lemma itoa_digits_dec: "0 < n \<Longrightarrow> itoa_digits n buf = dec_nat n @ buf"
proof (induction n arbitrary: buf rule: dec_nat.induct)
  case (1 n)
  show ?case
  proof (cases "n < 10")
    case True
    then show ?thesis using 1(2) by (simp add: itoa_digits.simps [of n] itoa_digits.simps [of 0] dec_nat.simps [of n])
  next
    case False
    then show ?thesis using 1(1) by (simp add: itoa_digits.simps [of n] dec_nat.simps [of n])
  qed
qed

text \<open>\<open>itoa\<close> prints what \<open>strconv.Itoa\<close> prints, except for the smallest integer.\<close>

lemma itoa_dec_int:
  assumes "in_i64 i" and "i \<noteq> - (2 ^ 63)"
  shows "itoa i = dec_int i"
proof (cases "i < 0")
  case True
  then have "in_i64 (- i)" using assms by (auto simp: in_i64_def)
  then show ?thesis using True by (simp add: itoa_def dec_int_def Let_def itoa_digits_dec)
next
  case False
  have "dec_nat 0 = ''0''" by code_simp
  with False show ?thesis by (simp add: itoa_def dec_int_def Let_def itoa_digits_dec)
qed

section \<open>DAO\<close>

definition update_proxies ::
  "(proxy \<Rightarrow> bool) \<Rightarrow> (proxy \<Rightarrow> proxy) \<Rightarrow> 'a pool_db_scheme \<Rightarrow> unit result \<times> 'a pool_db_scheme" where
  "update_proxies hit f d = (Inr (), d\<lparr>proxies := map (\<lambda>p. if hit p then f p else p) (proxies d)\<rparr>)"

definition live_proxy :: "nat \<Rightarrow> proxy \<Rightarrow> bool" where
  "live_proxy i p \<longleftrightarrow> p_id p = i \<and> p_live p"

definition insert_proxy :: "proxy \<Rightarrow> 'a pool_db_scheme \<Rightarrow> nat result \<times> 'a pool_db_scheme" where
  "insert_proxy p d =
     (Inr (proxies_next d),
      d\<lparr>proxies := proxies d @ [p\<lparr>p_id := proxies_next d, p_last_probe := None, p_last_used := None,
                                   p_last_error := '''', p_deleted_at := None\<rparr>],
        proxies_next := proxies_next d + 1\<rparr>)"

definition Proxy_Create :: "proxy \<Rightarrow> ('a pool_db_scheme sess, nat) action" where
  "Proxy_Create p = stmt (insert_proxy p)"

definition select_proxy :: "(proxy \<Rightarrow> bool) \<Rightarrow> ('a pool_db_scheme sess, proxy) action" where
  "select_proxy P = mapErr (\<lambda>e. if e = ENoRows then ErrNotFound else e)
     (stmt (\<lambda>d. (case find P (proxies d) of None \<Rightarrow> Inl ENoRows | Some p \<Rightarrow> Inr p, d)))"

definition Proxy_GetByID :: "nat \<Rightarrow> ('a pool_db_scheme sess, proxy) action" where
  "Proxy_GetByID i = select_proxy (live_proxy i)"

definition Proxy_List :: "nat \<Rightarrow> nat \<Rightarrow> ('a pool_db_scheme sess, proxy list \<times> nat) action" where
  "Proxy_List offset limit =
     bindE (stmt (\<lambda>d. (Inr (length (filter p_live (proxies d))), d))) (\<lambda>total.
     bindE (stmt (\<lambda>d. (Inr (page offset limit (rev (sort_key p_id (filter p_live (proxies d))))), d))) (\<lambda>rows.
     okE (rows, total)))"

definition ListAllEnabled :: "('a pool_db_scheme sess, proxy list) action" where
  "ListAllEnabled = stmt (\<lambda>d. (Inr (sort_key p_id (filter (\<lambda>p. p_live p \<and> p_enabled p) (proxies d))), d))"

definition proxy_columns :: "proxy \<Rightarrow> proxy \<Rightarrow> proxy" where
  "proxy_columns p old =
     old\<lparr>p_scheme := p_scheme p, p_host := p_host p, p_port := p_port p, p_username := p_username p,
         p_password_enc := p_password_enc p, p_country := p_country p, p_isp := p_isp p,
         p_enabled := p_enabled p, p_remark := p_remark p\<rparr>"

definition Proxy_Update :: "proxy \<Rightarrow> ('a pool_db_scheme sess, unit) action" where
  "Proxy_Update p = stmt (update_proxies (live_proxy (p_id p)) (proxy_columns p))"

definition Proxy_SoftDelete :: "int \<Rightarrow> nat \<Rightarrow> ('a pool_db_scheme sess, unit) action" where
  "Proxy_SoftDelete now i = stmt (update_proxies (\<lambda>p. p_id p = i) (\<lambda>p. p\<lparr>p_deleted_at := Some (datetime now)\<rparr>))"

definition endpoint :: "proxy \<Rightarrow> string \<times> string \<times> int \<times> string" where
  "endpoint p = (p_scheme p, p_host p, p_port p, p_username p)"

definition FindByEndpoint ::
  "string \<Rightarrow> string \<Rightarrow> int \<Rightarrow> string \<Rightarrow> ('a pool_db_scheme sess, proxy) action" where
  "FindByEndpoint scheme host port username =
     select_proxy (\<lambda>p. endpoint p = (scheme, host, port, username) \<and> p_live p)"

definition UpdateHealth :: "int \<Rightarrow> nat \<Rightarrow> int \<Rightarrow> string \<Rightarrow> ('a pool_db_scheme sess, unit) action" where
  "UpdateHealth now i score lastErr =
     stmt (update_proxies (\<lambda>p. p_id p = i)
       (\<lambda>p. p\<lparr>p_health := score, p_last_probe := Some (datetime now), p_last_error := lastErr\<rparr>))"

text \<open>The order of the candidates is total: the id is its last key.\<close>

definition candidate :: "proxy \<Rightarrow> bool" where
  "candidate p \<longleftrightarrow> p_live p \<and> p_enabled p \<and> p_health p > 0"

definition candidate_key :: "proxy \<Rightarrow> int \<times> nat \<times> int \<times> nat" where
  "candidate_key p =
     (- p_health p, case p_last_used p of None \<Rightarrow> (0, 0, p_id p) | Some t \<Rightarrow> (1, t, p_id p))"

definition ListRuntimeCandidates :: "int \<Rightarrow> ('a pool_db_scheme sess, proxy list) action" where
  "ListRuntimeCandidates limit =
     (let n = nat (if limit \<le> 0 then 64 else limit) in
      stmt (\<lambda>d. (Inr (take n (sort_key candidate_key (filter candidate (proxies d)))), d)))"

definition TouchLastUsed :: "int \<Rightarrow> nat \<Rightarrow> ('a pool_db_scheme sess, unit) action" where
  "TouchLastUsed now i =
     stmt (update_proxies (live_proxy i) (\<lambda>p. p\<lparr>p_last_used := Some (datetime now)\<rparr>))"

definition DeductHealthOnRuntimeFailure ::
  "nat \<Rightarrow> int \<Rightarrow> string \<Rightarrow> ('a pool_db_scheme sess, unit) action" where
  "DeductHealthOnRuntimeFailure i deduct lastErr =
     (let deduct = (if deduct \<le> 0 then 20 else deduct) in
      stmt (update_proxies (live_proxy i)
        (\<lambda>p. p\<lparr>p_health := (if p_health p > deduct then p_health p - deduct else 0), p_last_error := lastErr\<rparr>)))"

section \<open>Service\<close>

record proxy_input =
  pi_scheme :: string
  pi_host :: string
  pi_port :: int
  pi_username :: string
  pi_password :: string
  pi_country :: string
  pi_isp :: string
  pi_enabled :: bool
  pi_remark :: string

text \<open>Encrypting a password; an empty one leaves the stored text alone.\<close>

definition enc_password :: "aead \<Rightarrow> nat list option \<Rightarrow> string \<Rightarrow> string \<Rightarrow> ('w, string) action" where
  "enc_password c nonce password old =
     (if password = '''' then okE old else liftE (EncryptString c nonce password))"

definition ProxySvc_Create ::
  "aead \<Rightarrow> nat list option \<Rightarrow> proxy_input \<Rightarrow> ('a pool_db_scheme sess, proxy) action" where
  "ProxySvc_Create c nonce inp =
     (let scheme = (if pi_scheme inp = '''' then ''http'' else pi_scheme inp) in
      if pi_host inp = '''' \<or> pi_port inp = 0 then failE (EMsg ''host and port must not be empty'')
      else
        bindE (enc_password c nonce (pi_password inp) '''') (\<lambda>enc.
        bindE (Proxy_Create
          \<lparr>p_id = 0, p_scheme = scheme, p_host = pi_host inp, p_port = pi_port inp, p_username = pi_username inp,
           p_password_enc = enc, p_country = pi_country inp, p_isp = pi_isp inp, p_health = 100,
           p_last_probe = None, p_last_used = None, p_last_error = '''', p_enabled = pi_enabled inp,
           p_remark = pi_remark inp, p_deleted_at = None\<rparr>) (\<lambda>i.
        Proxy_GetByID i)))"

definition ProxySvc_Update ::
  "aead \<Rightarrow> nat list option \<Rightarrow> nat \<Rightarrow> proxy_input \<Rightarrow> ('a pool_db_scheme sess, proxy) action" where
  "ProxySvc_Update c nonce i inp =
     bindE (Proxy_GetByID i) (\<lambda>p.
     let p = p\<lparr>p_scheme := or_default (pi_scheme inp) (p_scheme p), p_host := or_default (pi_host inp) (p_host p),
               p_port := (if pi_port inp \<noteq> 0 then pi_port inp else p_port p), p_username := pi_username inp,
               p_country := pi_country inp, p_isp := pi_isp inp, p_enabled := pi_enabled inp,
               p_remark := pi_remark inp\<rparr> in
     bindE (enc_password c nonce (pi_password inp) (p_password_enc p)) (\<lambda>enc.
     let p = p\<lparr>p_password_enc := enc\<rparr> in
     bindE (Proxy_Update p) (\<lambda>_. okE p)))"

definition DecryptPassword :: "aead \<Rightarrow> proxy \<Rightarrow> string result" where
  "DecryptPassword c p = (if p_password_enc p = '''' then Inr '''' else DecryptString c (p_password_enc p))"

definition BuildURL :: "aead \<Rightarrow> proxy \<Rightarrow> string result" where
  "BuildURL c p = (case DecryptPassword c p of Inl e \<Rightarrow> Inl e | Inr pw \<Rightarrow> Inr (URLWithPassword p pw))"

section \<open>Batch import\<close>

record url =
  u_scheme :: string
  u_hostname :: string
  u_port :: string
  u_user :: "(string \<times> string option) option"

record import_defaults =
  idf_enabled :: bool
  idf_country :: string
  idf_isp :: string
  idf_remark :: string
  idf_overwrite :: bool

datatype line_status = Created | Updated | Skipped | Invalid

record line_result =
  lr_line :: nat
  lr_raw :: string
  lr_status :: line_status
  lr_id :: nat

text \<open>\<open>maskPassword\<close> cuts at the first \<open>@\<close>.\<close>

definition maskPassword :: "string \<Rightarrow> string" where
  "maskPassword line =
     (let (head, rest) = (case Index line ''://'' of None \<Rightarrow> ('''', line)
                          | Some i \<Rightarrow> (take (i + 3) line, drop (i + 3) line)) in
      case Index rest ''@'' of
        None \<Rightarrow> line
      | Some at_pos \<Rightarrow>
          (case Index (take at_pos rest) '':'' of
             None \<Rightarrow> line
           | Some colon \<Rightarrow> head @ take colon (take at_pos rest) @ '':***'' @ drop at_pos rest))"

definition parseProxyLine :: "(string \<Rightarrow> url option) \<Rightarrow> string \<Rightarrow> proxy_input result" where
  "parseProxyLine url_parse line =
     (let trim = TrimSpace line in
      if trim = '''' then Inl (EMsg ''empty line'')
      else
        let trim = (if Index trim ''://'' = None then ''http://'' @ trim else trim) in
        case url_parse trim of
          None \<Rightarrow> Inl (EMsg ''malformed URL'')
        | Some u \<Rightarrow>
            (let scheme = ToLower (u_scheme u) in
             if scheme \<noteq> ''http'' \<and> scheme \<noteq> ''https'' \<and> scheme \<noteq> ''socks5'' \<and> scheme \<noteq> ''socks5h''
             then Inl (EMsg ''unsupported scheme'')
             else if u_hostname u = '''' then Inl (EMsg ''missing host'')
             else if u_port u = '''' then Inl (EMsg ''missing port'')
             else case Atoi (u_port u) of
                    None \<Rightarrow> Inl (EMsg ''bad port'')
                  | Some port \<Rightarrow>
                      if port < 1 \<or> port > 65535 then Inl (EMsg ''bad port'')
                      else Inr \<lparr>pi_scheme = scheme, pi_host = u_hostname u, pi_port = port,
                                pi_username = (case u_user u of None \<Rightarrow> '''' | Some (n, _) \<Rightarrow> n),
                                pi_password = (case u_user u of Some (_, Some pw) \<Rightarrow> pw | _ \<Rightarrow> ''''),
                                pi_country = '''', pi_isp = '''', pi_enabled = False, pi_remark = ''''\<rparr>))"

definition with_defaults :: "import_defaults \<Rightarrow> proxy_input \<Rightarrow> proxy_input" where
  "with_defaults df inp =
     inp\<lparr>pi_enabled := idf_enabled df, pi_country := or_default (pi_country inp) (idf_country df),
         pi_isp := or_default (pi_isp inp) (idf_isp df), pi_remark := or_default (pi_remark inp) (idf_remark df)\<rparr>"

definition overwrite_columns :: "proxy_input \<Rightarrow> proxy \<Rightarrow> proxy" where
  "overwrite_columns inp p =
     p\<lparr>p_scheme := pi_scheme inp, p_host := pi_host inp, p_port := pi_port inp, p_username := pi_username inp,
       p_country := pi_country inp, p_isp := pi_isp inp, p_enabled := pi_enabled inp, p_remark := pi_remark inp\<rparr>"

definition import_line ::
  "(string \<Rightarrow> url option) \<Rightarrow> aead \<Rightarrow> nat list option \<Rightarrow> import_defaults \<Rightarrow> nat \<Rightarrow> string \<Rightarrow>
   ('a pool_db_scheme sess, line_result) action" where
  "import_line url_parse c nonce df no line =
     (let r = (\<lambda>st i. \<lparr>lr_line = no, lr_raw = maskPassword line, lr_status = st, lr_id = i\<rparr>) in
      case parseProxyLine url_parse line of
        Inl _ \<Rightarrow> okE (r Invalid 0)
      | Inr inp0 \<Rightarrow>
          (let inp = with_defaults df inp0 in
           catchE (FindByEndpoint (pi_scheme inp) (pi_host inp) (pi_port inp) (pi_username inp)) (\<lambda>found.
           case found of
             Inr ex \<Rightarrow>
               if \<not> idf_overwrite df then okE (r Skipped (p_id ex))
               else catchE (enc_password c nonce (pi_password inp) (p_password_enc ex)) (\<lambda>enc.
                 case enc of
                   Inl _ \<Rightarrow> okE (r Invalid 0)
                 | Inr pw \<Rightarrow>
                     catchE (Proxy_Update ((overwrite_columns inp ex)\<lparr>p_password_enc := pw\<rparr>)) (\<lambda>u.
                     case u of Inl _ \<Rightarrow> okE (r Invalid 0) | Inr _ \<Rightarrow> okE (r Updated (p_id ex))))
           | Inl e \<Rightarrow>
               if e \<noteq> ErrNotFound then okE (r Invalid 0)
               else catchE (ProxySvc_Create c nonce inp) (\<lambda>p.
                 case p of Inl _ \<Rightarrow> okE (r Invalid 0) | Inr p \<Rightarrow> okE (r Created (p_id p))))))"

text \<open>\<open>strings.ReplaceAll(text, "\r\n", "\n")\<close>.\<close>

fun unix_lines :: "string \<Rightarrow> string" where
  "unix_lines (a # b # s) =
     (if byte_val a = 13 \<and> byte_val b = 10 then b # unix_lines s else a # unix_lines (b # s))"
| "unix_lines s = s"

definition is_comment :: "string \<Rightarrow> bool" where
  "is_comment line \<longleftrightarrow> line = '''' \<or> HasPrefix line ''#'' \<or> HasPrefix line ''//''"

fun import_lines ::
  "(string \<Rightarrow> url option) \<Rightarrow> aead \<Rightarrow> (nat \<Rightarrow> nat list option) \<Rightarrow> import_defaults \<Rightarrow> nat \<Rightarrow> string list \<Rightarrow>
   ('a pool_db_scheme sess, line_result list) action" where
  "import_lines url_parse c rnd df no [] = okE []"
| "import_lines url_parse c rnd df no (raw # raws) =
     (let line = TrimSpace raw in
      if is_comment line then import_lines url_parse c rnd df (no + 1) raws
      else bindE (import_line url_parse c (rnd no) df no line) (\<lambda>r.
           bindE (import_lines url_parse c rnd df (no + 1) raws) (\<lambda>rs. okE (r # rs))))"

definition ImportBatch ::
  "(string \<Rightarrow> url option) \<Rightarrow> aead \<Rightarrow> (nat \<Rightarrow> nat list option) \<Rightarrow> string \<Rightarrow> import_defaults \<Rightarrow>
   ('a pool_db_scheme sess, line_result list) action" where
  "ImportBatch url_parse c rnd txt df = import_lines url_parse c rnd df 1 (split_on (CHR 10) (unix_lines txt))"

section \<open>The allocator\<close>

text \<open>
  A lease carries the lock it owns and the two \<open>sync.Once\<close> flags. \<open>now\<close> is the instant of the call,
  \<open>uuid k\<close> the token drawn for the k-th candidate.
\<close>

record proxy_lease =
  pl_proxy :: nat
  pl_url :: string
  pl_key :: string
  pl_token :: string
  pl_failed :: bool
  pl_released :: bool

definition lease_key :: "nat \<Rightarrow> string" where "lease_key i = ''proxy:lease:'' @ dec_nat i"

fun lease_from ::
  "aead \<Rightarrow> int \<Rightarrow> int \<Rightarrow> (nat \<Rightarrow> string) \<Rightarrow> nat \<Rightarrow> proxy list \<Rightarrow> ('a pool_db_scheme sess, proxy_lease option) action" where
  "lease_from c ttl now uuid k [] = okE None"
| "lease_from c ttl now uuid k (p # ps) =
     catchE (Acquire now (lease_key (p_id p)) (uuid k) ttl) (\<lambda>acq.
     case acq of
       Inl e \<Rightarrow> if e = ErrNotAcquired then lease_from c ttl now uuid (k + 1) ps else failE e
     | Inr _ \<Rightarrow>
         (case BuildURL c p of
            Inl e \<Rightarrow> cleanup_fail (Release now (lease_key (p_id p)) (uuid k)) e
          | Inr u \<Rightarrow>
              catchE (TouchLastUsed now (p_id p)) (\<lambda>t.
              case t of
                Inl e \<Rightarrow> cleanup_fail (Release now (lease_key (p_id p)) (uuid k)) e
              | Inr _ \<Rightarrow> okE (Some \<lparr>pl_proxy = p_id p, pl_url = u, pl_key = lease_key (p_id p),
                                    pl_token = uuid k, pl_failed = False, pl_released = False\<rparr>))))"

text \<open>\<open>NewAllocator\<close> replaces a time to live that is not positive.\<close>

definition allocator_ttl :: "int \<Rightarrow> int" where
  "allocator_ttl ttl = (if ttl \<le> 0 then 180 * 1000 else ttl)"

definition Allocator_Lease ::
  "aead \<Rightarrow> int \<Rightarrow> int \<Rightarrow> (nat \<Rightarrow> string) \<Rightarrow> ('a pool_db_scheme sess, proxy_lease option) action" where
  "Allocator_Lease c ttl now uuid =
     bindE (ListRuntimeCandidates 64) (\<lambda>ps. lease_from c (allocator_ttl ttl) now uuid 0 ps)"

text \<open>Releasing and reporting return the lease with its flag set.\<close>

definition Lease_Release ::
  "int \<Rightarrow> proxy_lease \<Rightarrow> 'a pool_db_scheme sess \<Rightarrow> (unit result \<times> proxy_lease) \<times> 'a pool_db_scheme sess" where
  "Lease_Release now l s =
     (if pl_key l = '''' \<or> pl_token l = '''' \<or> pl_released l then ((Inr (), l), s)
      else let (r, s') = Release now (pl_key l) (pl_token l) s in ((r, l\<lparr>pl_released := True\<rparr>), s'))"

definition failure_summary :: "string \<Rightarrow> string" where
  "failure_summary summary =
     take 255 (let t = TrimSpace summary in if t = '''' then ''runtime proxy failure'' else t)"

definition Lease_MarkFailure ::
  "string \<Rightarrow> proxy_lease \<Rightarrow> 'a pool_db_scheme sess \<Rightarrow> (unit result \<times> proxy_lease) \<times> 'a pool_db_scheme sess" where
  "Lease_MarkFailure summary l s =
     (if pl_proxy l = 0 \<or> pl_failed l then ((Inr (), l), s)
      else let (r, s') = DeductHealthOnRuntimeFailure (pl_proxy l) 20 (failure_summary summary) s in
           ((r, l\<lparr>pl_failed := True\<rparr>), s'))"

section \<open>The prober's verdict\<close>

text \<open>
  \<open>applyResult\<close>: the score computed from the row as it was when the probe began, written back
  unconditionally; its error is only logged.
\<close>

definition applyResult :: "int \<Rightarrow> proxy \<Rightarrow> bool \<Rightarrow> string \<Rightarrow> 'a pool_db_scheme sess \<Rightarrow> 'a pool_db_scheme sess" where
  "applyResult now pr probe_ok err s =
     (let score = (if probe_ok then min 100 (p_health pr + 10) else max 0 (p_health pr - 20));
          lastErr = (if probe_ok then '''' else take 200 err) in
      snd (UpdateHealth now (p_id pr) score lastErr s))"

end
