(* ===== verification/Scheduler.thy ===== *)
theory Scheduler
  imports Proxy_Laws
begin

text \<open>
  The account scheduler (internal/scheduler): picking an account for a request under its lock, the queue of
  requests that find none, the release of a lease, and the status changes reported by the gateway. One
  attempt happens at one instant \<open>now\<close> (milliseconds); the queue's clock counts nanoseconds. The random
  tokens and identifiers of an attempt are in \<open>draws\<close>.
\<close>

section \<open>Configuration\<close>

record sched_config =
  LockTTLSec :: int
  MinIntervalSec :: int
  DailyUsageRatio :: rat
  Cooldown429Sec :: int
  WarnedPauseHours :: int

definition New_config :: "sched_config \<Rightarrow> sched_config" where
  "New_config c =
     c\<lparr>LockTTLSec := (if LockTTLSec c \<le> 0 then 180 else LockTTLSec c),
       MinIntervalSec := (if MinIntervalSec c \<le> 0 then 5 else MinIntervalSec c),
       DailyUsageRatio := (if DailyUsageRatio c \<le> 0 then rnd64 (8/10) else DailyUsageRatio c),
       Cooldown429Sec := (if Cooldown429Sec c \<le> 0 then 300 else Cooldown429Sec c)\<rparr>"

text \<open>The run-time callbacks: absent, or the value they return now.\<close>

record runtime_params =
  rt_DailyUsageRatio :: "rat option"
  rt_Cooldown429Sec :: "int option"
  rt_WarnedPauseHrs :: "int option"
  rt_QueueWaitSec :: "int option"

record scheduler =
  sch_cfg :: sched_config
  sch_rt :: runtime_params

definition New :: "sched_config \<Rightarrow> scheduler" where
  "New cfg = \<lparr>sch_cfg = New_config cfg,
     sch_rt = \<lparr>rt_DailyUsageRatio = None, rt_Cooldown429Sec = None, rt_WarnedPauseHrs = None, rt_QueueWaitSec = None\<rparr>\<rparr>"

definition dailyUsageRatio :: "scheduler \<Rightarrow> rat" where
  "dailyUsageRatio s =
     (case rt_DailyUsageRatio (sch_rt s) of
        Some v \<Rightarrow> if v > 0 \<and> v \<le> 1 then v else DailyUsageRatio (sch_cfg s)
      | None \<Rightarrow> DailyUsageRatio (sch_cfg s))"

text \<open>Durations in milliseconds.\<close>

definition cooldown429 :: "scheduler \<Rightarrow> int" where
  "cooldown429 s =
     (case rt_Cooldown429Sec (sch_rt s) of
        Some v \<Rightarrow> if v > 0 then v * 1000 else Cooldown429Sec (sch_cfg s) * 1000
      | None \<Rightarrow> Cooldown429Sec (sch_cfg s) * 1000)"

definition warnedPause :: "scheduler \<Rightarrow> int" where
  "warnedPause s =
     (case rt_WarnedPauseHrs (sch_rt s) of
        Some v \<Rightarrow> if v > 0 then v * 3600000 else WarnedPauseHours (sch_cfg s) * 3600000
      | None \<Rightarrow> WarnedPauseHours (sch_cfg s) * 3600000)"

definition queueWait :: "scheduler \<Rightarrow> int" where
  "queueWait s =
     (case rt_QueueWaitSec (sch_rt s) of
        Some v \<Rightarrow> if v \<ge> 0 then v * 1000 else 120 * 1000
      | None \<Rightarrow> 120 * 1000)"

section \<open>Leases\<close>

record lease =
  ls_account :: account
  ls_auth :: string
  ls_proxy_url :: string
  ls_proxy_id :: nat
  ls_device :: string
  ls_session :: string
  ls_proxy_lease :: "proxy_lease option"
  ls_key :: string
  ls_token :: string

record draws =
  dr_token :: string
  dr_device :: string
  dr_session :: string
  dr_proxy :: "nat \<Rightarrow> string"

definition acct_key :: "nat \<Rightarrow> string" where "acct_key i = ''acct:lock:'' @ dec_nat i"

definition isRuntimeProxyModel :: "string \<Rightarrow> bool" where
  "isRuntimeProxyModel modelType \<longleftrightarrow> modelType = ''chat'' \<or> modelType = ''image''"

text \<open>
  The stored identity, or a fresh one: kept when it is there, fixed in the table when that succeeds, used
  for this request only otherwise. The account in hand learns what was fixed.
\<close>

definition ensure_identity ::
  "(nat \<Rightarrow> string \<Rightarrow> ('w, string) action) \<Rightarrow> nat \<Rightarrow> string \<Rightarrow> string \<Rightarrow> ('w, string \<times> bool) action" where
  "ensure_identity ensure i cur gen =
     (if cur \<noteq> '''' then okE (cur, False)
      else catchE (ensure i gen) (\<lambda>r.
        case r of Inr fixed \<Rightarrow> if fixed \<noteq> '''' then okE (fixed, True) else okE (gen, False) | Inl _ \<Rightarrow> okE (gen, False)))"

text \<open>
  The bound proxy of an account. A failed query leaves the zero binding, whose proxy id is 0.
\<close>

definition bound_proxy :: "aead \<Rightarrow> nat \<Rightarrow> ('a pool_db_scheme sess, string \<times> nat) action" where
  "bound_proxy c i =
     catchE (GetBinding i) (\<lambda>b.
     let pid = (case b of Inl _ \<Rightarrow> Some 0 | Inr None \<Rightarrow> None | Inr (Some b) \<Rightarrow> Some (b_proxy b)) in
     case pid of
       None \<Rightarrow> okE ('''', 0)
     | Some pid \<Rightarrow>
         catchE (Proxy_GetByID pid) (\<lambda>p.
         case p of
           Inl _ \<Rightarrow> okE ('''', 0)
         | Inr p \<Rightarrow>
             if p_enabled p then (case BuildURL c p of Inl _ \<Rightarrow> okE ('''', 0) | Inr u \<Rightarrow> okE (u, p_id p))
             else okE ('''', 0)))"

text \<open>
  What follows once the lock is held and the token decrypted. An error that is wrapped with \<open>%w\<close> is the
  same for \<open>errors.Is\<close>, so it is passed on as it is.
\<close>

definition prepare_lease ::
  "aead \<Rightarrow> int \<Rightarrow> int \<Rightarrow> draws \<Rightarrow> account \<Rightarrow> string \<Rightarrow> string \<Rightarrow> ('a pool_db_scheme sess, lease) action" where
  "prepare_lease c ttl now dr acc modelType authToken =
     (let key = acct_key (a_id acc); token = dr_token dr in
      bindE (ensure_identity EnsureDeviceID (a_id acc) (a_oai_device acc) (dr_device dr)) (\<lambda>dev.
      bindE (ensure_identity EnsureSessionID (a_id acc) (a_oai_session acc) (dr_session dr)) (\<lambda>sid.
      let acc' = acc\<lparr>a_oai_device := (if snd dev then fst dev else a_oai_device acc),
                     a_oai_session := (if snd sid then fst sid else a_oai_session acc)\<rparr>;
          mk = (\<lambda>u pid pl. \<lparr>ls_account = acc', ls_auth = authToken, ls_proxy_url = u, ls_proxy_id = pid,
                  ls_device = fst dev, ls_session = fst sid, ls_proxy_lease = pl, ls_key = key, ls_token = token\<rparr>) in
      if isRuntimeProxyModel modelType then
        catchE (Allocator_Lease c ttl now (dr_proxy dr)) (\<lambda>r.
          case r of
            Inl e \<Rightarrow> cleanup_fail (Release now key token) e
          | Inr None \<Rightarrow> okE (mk '''' 0 None)
          | Inr (Some pl) \<Rightarrow> okE (mk (pl_url pl) (pl_proxy pl) (Some pl)))
      else
        bindE (bound_proxy c (a_id acc)) (\<lambda>up. okE (mk (fst up) (snd up) None)))))"

definition tryLock ::
  "aead \<Rightarrow> scheduler \<Rightarrow> int \<Rightarrow> draws \<Rightarrow> account \<Rightarrow> string \<Rightarrow> ('a pool_db_scheme sess, lease) action" where
  "tryLock c sch now dr acc modelType =
     (let key = acct_key (a_id acc); token = dr_token dr; ttl = LockTTLSec (sch_cfg sch) * 1000 in
      bindE (Acquire now key token ttl) (\<lambda>_.
      case DecryptAuthToken c acc of
        Inl e \<Rightarrow> cleanup_fail (Release now key token) e
      | Inr authToken \<Rightarrow> prepare_lease c ttl now dr acc modelType authToken))"

section \<open>One attempt\<close>

text \<open>The interval and daily-quota guards of the candidate loop.\<close>

definition ready :: "scheduler \<Rightarrow> int \<Rightarrow> int \<Rightarrow> account \<Rightarrow> bool" where
  "ready sch tz now acc \<longleftrightarrow>
     (case a_last_used acc of None \<Rightarrow> True | Some t \<Rightarrow> \<not> now - t < MinIntervalSec (sch_cfg sch) * 1000) \<and>
     (a_daily_quota acc > 0 \<longrightarrow>
        (let usedToday = (if a_used_date acc = Some (local_day tz now) then a_used_count acc else 0);
             mx = to_i64 (rnd64 (rnd64 (of_int (a_daily_quota acc)) * dailyUsageRatio sch)) in
         \<not> (mx > 0 \<and> usedToday \<ge> mx)))"

text \<open>A candidate that is busy, or fails in any other way, is passed over.\<close>

fun try_candidates ::
  "aead \<Rightarrow> scheduler \<Rightarrow> int \<Rightarrow> int \<Rightarrow> (nat \<Rightarrow> draws) \<Rightarrow> string \<Rightarrow> account list \<Rightarrow> ('a pool_db_scheme sess, lease) action" where
  "try_candidates c sch tz now drs modelType [] = failE ErrNoAvailable"
| "try_candidates c sch tz now drs modelType (acc # accs) =
     (if \<not> ready sch tz now acc then try_candidates c sch tz now drs modelType accs
      else catchE (tryLock c sch now (drs (a_id acc)) acc modelType) (\<lambda>r.
        case r of Inr l \<Rightarrow> okE l | Inl e \<Rightarrow> try_candidates c sch tz now drs modelType accs))"

definition tryDispatchOnce ::
  "aead \<Rightarrow> scheduler \<Rightarrow> scan \<Rightarrow> int \<Rightarrow> int \<Rightarrow> (nat \<Rightarrow> draws) \<Rightarrow> string \<Rightarrow> ('a pool_db_scheme sess, lease) action" where
  "tryDispatchOnce c sch scan tz now drs modelType =
     bindE (ListDispatchable scan tz now 30) (\<lambda>candidates.
     if candidates = [] then failE ErrNoAvailable
     else try_candidates c sch tz now drs modelType candidates)"

section \<open>The queue\<close>

text \<open>
  What surrounds the attempts of one request, by attempt number: the draws, the duration of the attempt,
  the delay of the timer beyond the requested wait, whether the context is done first, and what the other
  requests do to the shared servers during the wait.
\<close>

record ('w) world =
  w_draws :: "nat \<Rightarrow> nat \<Rightarrow> draws"
  w_dur :: "nat \<Rightarrow> nat"
  w_late :: "nat \<Rightarrow> nat"
  w_cancelled :: "nat \<Rightarrow> bool"
  w_others :: "nat \<Rightarrow> 'w \<Rightarrow> 'w"

definition minBackoff :: int where "minBackoff = 200000000"
definition maxBackoff :: int where "maxBackoff = 2000000000"

definition next_backoff :: "int \<Rightarrow> int" where
  "next_backoff b = (let b = b + b div 2 in if b > maxBackoff then maxBackoff else b)"

definition ms_of :: "int \<Rightarrow> int" where "ms_of t = t div 1000000"

text \<open>The loop returns its result and the instant at which it returns.\<close>

function dispatch_loop ::
  "aead \<Rightarrow> scheduler \<Rightarrow> scan \<Rightarrow> int \<Rightarrow> string \<Rightarrow> 'a pool_db_scheme sess world \<Rightarrow> int \<Rightarrow> nat \<Rightarrow> int \<Rightarrow> int \<Rightarrow>
   'a pool_db_scheme sess \<Rightarrow> lease result \<times> int \<times> 'a pool_db_scheme sess" where
  "dispatch_loop c sch scan tz modelType w deadline k backoff now s =
     (let (r, s1) = tryDispatchOnce c sch scan tz (ms_of now) (w_draws w k) modelType s;
          now1 = now + int (w_dur w k) in
      case r of
        Inr l \<Rightarrow> (Inr l, now1, s1)
      | Inl e \<Rightarrow>
          if e \<noteq> ErrNoAvailable then (Inl e, now1, s1)
          else if \<not> now1 < deadline then (Inl ErrNoAvailable, now1, s1)
          else
            let wait = (if deadline - now1 < backoff then deadline - now1 else backoff) in
            if wait \<le> 0 then (Inl ErrNoAvailable, now1, s1)
            else if w_cancelled w k then (Inl ErrCtxDone, now1, s1)
            else dispatch_loop c sch scan tz modelType w deadline (k + 1) (next_backoff backoff)
                   (now1 + wait + int (w_late w k)) (w_others w k s1))"
  by pat_completeness auto

termination
  by (relation "measure (\<lambda>(c, sch, scan, tz, modelType, w, deadline, k, backoff, now, s). nat (deadline - now))")
     (auto split: if_splits)

declare dispatch_loop.simps [simp del]

definition Dispatch ::
  "aead \<Rightarrow> scheduler \<Rightarrow> scan \<Rightarrow> int \<Rightarrow> string \<Rightarrow> 'a pool_db_scheme sess world \<Rightarrow> int \<Rightarrow>
   'a pool_db_scheme sess \<Rightarrow> lease result \<times> int \<times> 'a pool_db_scheme sess" where
  "Dispatch c sch scan tz modelType w now s =
     dispatch_loop c sch scan tz modelType w (now + queueWait sch * 1000000) 0 minBackoff now s"

section \<open>Release and status reports\<close>

text \<open>
  \<open>releaseFunc\<close>: the use is recorded, the proxy given back, the lock released; every step is tried and
  the errors are joined. The lease keeps its proxy lease's flag.
\<close>

definition errs_of :: "unit result \<Rightarrow> go_err list" where
  "errs_of r = (case r of Inl e \<Rightarrow> [e] | Inr _ \<Rightarrow> [])"

definition Sched_Release ::
  "int \<Rightarrow> int \<Rightarrow> lease \<Rightarrow> 'a pool_db_scheme sess \<Rightarrow> (go_err list \<times> lease) \<times> 'a pool_db_scheme sess" where
  "Sched_Release tz now l s =
     (let (r1, s1) = MarkUsed now (a_id (ls_account l)) (local_day tz now) s;
          (r2, pl, s2) = (case ls_proxy_lease l of
             None \<Rightarrow> (Inr (), None, s1)
           | Some p \<Rightarrow> (case Lease_Release now p s1 of ((r, p'), s2) \<Rightarrow> (r, Some p', s2)));
          (r3, s3) = Release now (ls_key l) (ls_token l) s2 in
      ((errs_of r1 @ errs_of r2 @ errs_of r3, l\<lparr>ls_proxy_lease := pl\<rparr>), s3))"

definition MarkProxyFailure ::
  "string \<Rightarrow> lease \<Rightarrow> 'a pool_db_scheme sess \<Rightarrow> (unit result \<times> lease) \<times> 'a pool_db_scheme sess" where
  "MarkProxyFailure summary l s =
     (case ls_proxy_lease l of
        None \<Rightarrow> ((Inr (), l), s)
      | Some p \<Rightarrow> (case Lease_MarkFailure summary p s of ((r, p'), s') \<Rightarrow> ((r, l\<lparr>ls_proxy_lease := Some p'\<rparr>), s')))"

text \<open>Errors of the status reports are ignored.\<close>

definition MarkRateLimited :: "scheduler \<Rightarrow> int \<Rightarrow> nat \<Rightarrow> 'a account_db_scheme sess \<Rightarrow> 'a account_db_scheme sess" where
  "MarkRateLimited sch now i s = snd (SetStatus i StatusThrottled (Some (now + cooldown429 sch)) s)"

definition MarkWarned :: "scheduler \<Rightarrow> int \<Rightarrow> nat \<Rightarrow> 'a account_db_scheme sess \<Rightarrow> 'a account_db_scheme sess" where
  "MarkWarned sch now i s = snd (SetStatus i StatusWarned (Some (now + warnedPause sch)) s)"

definition MarkDead :: "nat \<Rightarrow> 'a account_db_scheme sess \<Rightarrow> 'a account_db_scheme sess" where
  "MarkDead i s = snd (SetStatus i StatusDead None s)"

definition RestoreHealthy :: "nat \<Rightarrow> 'a account_db_scheme sess \<Rightarrow> 'a account_db_scheme sess" where
  "RestoreHealthy i s = snd (SetStatus i StatusHealthy None s)"

end
