(* ===== verification/Scheduler_Laws.thy ===== *)
theory Scheduler_Laws
  imports Scheduler "HOL-Library.Multiset"
begin

text \<open>
  What the scheduler guarantees: a dispatched account is eligible and locked for the request, nobody else
  gets it until it is released or its lock expires, the queue answers within its deadline, and what becomes
  of an account that the upstream throttles.
\<close>

section \<open>Frames: what leaves the locks alone\<close>

definition lock_free :: "('a redis_db_scheme sess, 'b) action \<Rightarrow> bool" where
  "lock_free m \<longleftrightarrow> (\<forall>s. locks (fst (snd (m s))) = locks (fst s))"

definition locked :: "string \<Rightarrow> string \<Rightarrow> int \<Rightarrow> 'a redis_db_scheme \<Rightarrow> bool" where
  "locked k t later d \<longleftrightarrow> redis_get later k d = Some t"

lemma lock_free_stmt: "(\<And>d. locks (snd (f d)) = locks d) \<Longrightarrow> lock_free (stmt f)"
  unfolding lock_free_def using stmt_db [of f] by metis

lemma lock_free_okE: "lock_free (okE x)" and lock_free_failE: "lock_free (failE e)"
  by (simp_all add: lock_free_def okE_def failE_def)

lemma lock_free_reads: "reads m \<Longrightarrow> lock_free m"
  by (simp add: lock_free_def reads_def)

lemma lock_free_snd: "lock_free m \<Longrightarrow> locks (fst (snd (m s))) = locks (fst s)"
  unfolding lock_free_def by blast

lemma lock_free_bindE:
  assumes "lock_free m" and "\<And>x. lock_free (f x)"
  shows "lock_free (bindE m f)"
  unfolding lock_free_def
proof
  fix s
  obtain r s1 where m: "m s = (r, s1)" by (rule prod.exhaust)
  have "locks (fst s1) = locks (fst s)" using lock_free_snd [OF assms(1), of s] m by simp
  moreover have "locks (fst (snd (f x s1))) = locks (fst s1)" for x by (rule lock_free_snd [OF assms(2)])
  ultimately show "locks (fst (snd (bindE m f s))) = locks (fst s)" by (cases r) (simp_all add: bindE_def m)
qed

lemma lock_free_if: "(c \<Longrightarrow> lock_free a) \<Longrightarrow> (\<not> c \<Longrightarrow> lock_free b) \<Longrightarrow> lock_free (if c then a else b)"
  by simp

lemma lock_free_runTx:
  assumes "lock_free m"
  shows "lock_free (runTx m)"
  unfolding lock_free_def
proof
  fix s
  have "locks (fst (snd (runTx m s))) = locks (fst s)"
  proof (rule runTx_preserves)
    show "locks d' = locks (fst s)" if "m (fst s, fs) = (Inr x, (d', fs'))" for fs x d' fs'
      using lock_free_snd [OF assms, of "(fst s, fs)"] that by simp
  qed simp
  then show "locks (fst (snd (runTx m s))) = locks (fst s)" .
qed

lemma lock_free_catchE:
  assumes "lock_free m" and "\<And>x. lock_free (k x)"
  shows "lock_free (catchE m k)"
  unfolding lock_free_def
proof
  fix s
  obtain r s1 where m: "m s = (r, s1)" by (rule prod.exhaust)
  have "locks (fst s1) = locks (fst s)" using lock_free_snd [OF assms(1), of s] m by simp
  then show "locks (fst (snd (catchE m k s))) = locks (fst s)"
    using lock_free_snd [OF assms(2), of r s1] by (simp add: catchE_def m)
qed

lemmas lock_free_intros =
  lock_free_okE lock_free_failE lock_free_bindE lock_free_if lock_free_runTx lock_free_catchE

lemma lock_free_exec_accounts: "lock_free (exec_accounts hit f)"
  unfolding exec_accounts_def
  by (intro lock_free_intros lock_free_stmt) (simp add: update_accounts_def Let_def)

lemma lock_free_accounts:
  "lock_free (Account_Create a)" "lock_free (Account_Update a)" "lock_free (Account_SoftDelete now i)"
  "lock_free (Account_Restore i)" "lock_free (SoftDeleteByStatus now st)" "lock_free (Account_Purge i)"
  "lock_free (EnsureDeviceID i dev)" "lock_free (EnsureSessionID i sid)" "lock_free (MarkUsed now i today)"
  "lock_free (SetStatus i st cu)" "lock_free (ApplyRefreshResult now i atk rtk ex src)"
  "lock_free (RecordRefreshError now i src why dead)" "lock_free (ApplyQuotaResult now i rem tot rs)"
  "lock_free (DecrQuota i n)" "lock_free (UpsertCookies i enc)" "lock_free (SetBinding now i p)"
  "lock_free (RemoveBinding i)"
proof -
  have st: "lock_free (stmt (update_accounts hit f))" for hit f
    by (intro lock_free_stmt) (simp add: update_accounts_def Let_def)
  show "lock_free (UpsertCookies i enc)" "lock_free (SetBinding now i p)" "lock_free (RemoveBinding i)"
    unfolding UpsertCookies_def SetBinding_def RemoveBinding_def by (intro lock_free_stmt; simp)+
  show "lock_free (Account_Create a)"
    unfolding Account_Create_def by (intro lock_free_stmt) (simp add: insert_account_def)
  show "lock_free (Account_Purge i)"
    unfolding Account_Purge_def by (intro lock_free_intros lock_free_stmt) (simp_all add: delete_accounts_def Let_def)
  show "lock_free (Account_Restore i)" "lock_free (SoftDeleteByStatus now st)"
    unfolding Account_Restore_def SoftDeleteByStatus_def by (intro lock_free_intros st)+
  show "lock_free (EnsureDeviceID i dev)" "lock_free (EnsureSessionID i sid)"
    unfolding EnsureDeviceID_def EnsureSessionID_def
    by (intro lock_free_intros lock_free_exec_accounts lock_free_reads reads_read_column)+
  show "lock_free (Account_Update a)" "lock_free (Account_SoftDelete now i)" "lock_free (MarkUsed now i today)"
    "lock_free (SetStatus i st cu)" "lock_free (ApplyRefreshResult now i atk rtk ex src)"
    "lock_free (RecordRefreshError now i src why dead)" "lock_free (ApplyQuotaResult now i rem tot rs)"
    "lock_free (DecrQuota i n)"
    unfolding Account_Update_def Account_SoftDelete_def MarkUsed_def SetStatus_def ApplyRefreshResult_def
      RecordRefreshError_def ApplyQuotaResult_def DecrQuota_def
    by (intro lock_free_intros lock_free_exec_accounts)+
qed

lemma lock_free_account_service:
  "lock_free (AcctSvc_Create c rnd jexp tz now uuid inp)"
  "lock_free (AcctSvc_Update c rnd jexp tz now i inp)"
  "lock_free (AcctSvc_Restore tz now i)"
  "lock_free (BulkDeleteByStatus now st)"
  unfolding AcctSvc_Create_def AcctSvc_Update_def AcctSvc_Restore_def BulkDeleteByStatus_def save_cookies_def Let_def
  by (intro lock_free_intros lock_free_accounts
        lock_free_reads [OF reads_GetByID] lock_free_reads [OF reads_liftE] lock_free_reads [OF reads_enc_opt])+

lemma acct_exec_locks: "locks (fst (acct_exec c jexp a s)) = locks (fst s)"
  by (cases a) (simp_all add: lock_free_accounts [THEN lock_free_snd] lock_free_account_service [THEN lock_free_snd])

lemma lock_free_update_proxies: "lock_free (stmt (update_proxies hit f))"
  by (intro lock_free_stmt) simp

lemma lock_free_proxies:
  "lock_free (TouchLastUsed now i)" "lock_free (UpdateHealth now i sc e)"
  "lock_free (DeductHealthOnRuntimeFailure i k e)"
  unfolding TouchLastUsed_def UpdateHealth_def DeductHealthOnRuntimeFailure_def Let_def
  by (rule lock_free_update_proxies)+

lemma reads_GetBinding: "reads (GetBinding i)"
  unfolding GetBinding_def by (rule reads_stmt) simp

lemma reads_ListRuntimeCandidates: "reads (ListRuntimeCandidates k)"
  unfolding ListRuntimeCandidates_def Let_def by (rule reads_stmt) simp

lemma lock_free_bound_proxy: "lock_free (bound_proxy c i)"
  unfolding bound_proxy_def Let_def
  by (intro lock_free_catchE lock_free_reads [OF reads_GetBinding])
     (auto intro!: lock_free_intros lock_free_reads [OF reads_Proxy_GetByID] split: sum.split option.split)

lemma lock_free_ensure_identity:
  "(\<And>i g. lock_free (ensure i g)) \<Longrightarrow> lock_free (ensure_identity ensure i cur gen)"
  unfolding ensure_identity_def by (auto intro!: lock_free_intros split: sum.split)

section \<open>Frames: whose lock survives what\<close>

lemma locked_lock_free: "lock_free m \<Longrightarrow> preserves (locked k t later) m"
  by (simp add: preserves_def locked_def redis_get_def lock_free_def)

lemma locked_Acquire:
  assumes "now \<le> later"
  shows "preserves (locked k t later) (Acquire now k' t' ttl)"
  unfolding preserves_def locked_def
proof (intro allI impI)
  fix s :: "'a redis_db_scheme sess" assume h: "redis_get later k (fst s) = Some t"
  obtain r s' where run: "Acquire now k' t' ttl s = (r, s')" by (rule prod.exhaust)
  have "redis_get now k (fst s) = Some t" by (rule redis_lock.expiry [OF h assms])
  then have "redis_get later k (fst s') = redis_get later k (fst s)"
    using redis_lock.acquire_keeps [OF run, of k later] by (cases "k = k'") auto
  then show "redis_get later k (fst (snd (Acquire now k' t' ttl s))) = Some t" using h run by simp
qed

lemma locked_Release:
  assumes "now \<le> later" and "t' \<noteq> t \<or> k' \<noteq> k"
  shows "preserves (locked k t later) (Release now k' t')"
  unfolding preserves_def locked_def
proof (intro allI impI)
  fix s :: "'a redis_db_scheme sess" assume h: "redis_get later k (fst s) = Some t"
  obtain r s' where run: "Release now k' t' s = (r, s')" by (rule prod.exhaust)
  have "redis_get now k (fst s) = Some t" by (rule redis_lock.expiry [OF h assms(1)])
  then have "redis_get later k (fst s') = redis_get later k (fst s)"
    using redis_lock.release_keeps [OF run, of k later] assms(2) by (cases "k = k'") auto
  then show "redis_get later k (fst (snd (Release now k' t' s))) = Some t" using h run by simp
qed

lemma locked_cleanup:
  assumes "now \<le> later" and "t' \<noteq> t \<or> k' \<noteq> k"
  shows "preserves (locked k t later) (cleanup_fail (Release now k' t') e)"
  unfolding cleanup_fail_def by (intro preserves_catchE locked_Release [OF assms] preserves_failE)

lemma locked_lease_from:
  assumes "now \<le> later" and "\<And>j. lease_key j \<noteq> k"
  shows "preserves (locked k t later) (lease_from c ttl now uuid i ps)"
proof (induction ps arbitrary: i)
  case (Cons p ps)
  show ?case
    by (auto intro!: preserves_catchE preserves_if preserves_okE preserves_failE Cons locked_Acquire [OF assms(1)]
        locked_cleanup [OF assms(1)] locked_lock_free [OF lock_free_proxies(1)] simp: assms(2) assms(2) [THEN not_sym] split: sum.split)
qed (simp add: preserves_okE)

lemma locked_Allocator:
  assumes "now \<le> later" and "\<And>j. lease_key j \<noteq> k"
  shows "preserves (locked k t later) (Allocator_Lease c ttl now uuid)"
  unfolding Allocator_Lease_def
  by (intro preserves_bindE locked_lock_free [OF lock_free_reads [OF reads_ListRuntimeCandidates]] locked_lease_from [OF assms])

lemma keys_disjoint [simp]: "lease_key j \<noteq> acct_key i" "acct_key i \<noteq> lease_key j"
  by (simp_all add: lease_key_def acct_key_def)

lemma acct_key_inj: "acct_key i = acct_key j \<Longrightarrow> i = j"
  by (simp add: acct_key_def dec_nat_inj)

text \<open>The part of \<open>tryLock\<close> behind the account's lock keeps every account lock it does not own.\<close>

lemma locked_tryLock:
  assumes "now \<le> later" and "dr_token dr \<noteq> t"
  shows "preserves (locked (acct_key i) t later) (tryLock c sch now dr acc modelType)"
  unfolding tryLock_def prepare_lease_def Let_def
  by (intro preserves_bindE locked_Acquire [OF assms(1)])
     (auto intro!: preserves_bindE preserves_if preserves_okE preserves_catchE locked_Allocator [OF assms(1)]
        locked_cleanup [OF assms(1)] locked_lock_free [OF lock_free_bound_proxy]
        locked_lock_free [OF lock_free_ensure_identity] lock_free_accounts
        simp: assms(2) assms(2) [THEN not_sym] split: sum.split option.split)

lemma locked_try_candidates:
  assumes "now \<le> later" and "\<And>j. dr_token (drs j) \<noteq> t"
  shows "preserves (locked (acct_key i) t later) (try_candidates c sch tz now drs modelType accs)"
  by (induction accs)
     (auto intro!: preserves_failE preserves_if preserves_catchE preserves_okE locked_tryLock [OF assms(1)]
        simp: assms(2) assms(2) [THEN not_sym] split: sum.split)

lemma reads_ListDispatchable: "reads (ListDispatchable scan tz now n)"
  unfolding ListDispatchable_def by (intro reads_bindE reads_stmt reads_okE) simp

lemma locked_tryDispatchOnce:
  assumes "now \<le> later" and "\<And>j. dr_token (drs j) \<noteq> t"
  shows "preserves (locked (acct_key i) t later) (tryDispatchOnce c sch scan tz now drs modelType)"
  unfolding tryDispatchOnce_def
  by (intro preserves_bindE preserves_if preserves_failE locked_try_candidates assms
        locked_lock_free [OF lock_free_reads [OF reads_ListDispatchable]])

section \<open>What a dispatch hands out\<close>

lemma cleanup_fail_Inr [simp]: "cleanup_fail m e s \<noteq> (Inr x, s')"
  by (auto simp: cleanup_fail_def catchE_def failE_def split: prod.splits)

lemma prepare_lease_Inr:
  assumes "prepare_lease c ttl now dr acc modelType auth s = (Inr l, s')" and "now \<le> later"
    and "locked (acct_key i) t later (fst s)"
  shows "locked (acct_key i) t later (fst s')" and "a_id (ls_account l) = a_id acc" and "ls_auth l = auth"
    and "ls_key l = acct_key (a_id acc)" and "ls_token l = dr_token dr"
proof -
  from assms(1) obtain dev s2 sid s3
    where 2: "ensure_identity EnsureDeviceID (a_id acc) (a_oai_device acc) (dr_device dr) s = (Inr dev, s2)"
    and 3: "ensure_identity EnsureSessionID (a_id acc) (a_oai_session acc) (dr_session dr) s2 = (Inr sid, s3)"
    and last: "s' = snd (Allocator_Lease c ttl now (dr_proxy dr) s3) \<or> s' = snd (bound_proxy c (a_id acc) s3)"
    and l: "a_id (ls_account l) = a_id acc \<and> ls_auth l = auth \<and> ls_key l = acct_key (a_id acc) \<and> ls_token l = dr_token dr"
    by (auto simp: prepare_lease_def Let_def catchE_def okE_def elim!: bindE_InrE
        split: sum.splits if_splits option.splits prod.splits)
  show "a_id (ls_account l) = a_id acc" "ls_auth l = auth" "ls_key l = acct_key (a_id acc)" "ls_token l = dr_token dr"
    using l by simp_all
  have "locked (acct_key i) t later (fst s2)"
    by (rule preservesD [OF locked_lock_free [OF lock_free_ensure_identity] 2 assms(3)]) (rule lock_free_accounts)
  then have h3: "locked (acct_key i) t later (fst s3)"
    by (rule preservesD [OF locked_lock_free [OF lock_free_ensure_identity] 3, rotated]) (rule lock_free_accounts)
  show "locked (acct_key i) t later (fst s')"
    using last preserves_snd [OF locked_Allocator [OF assms(2)] h3] preserves_snd [OF locked_lock_free [OF lock_free_bound_proxy] h3]
    by auto
qed

text \<open>It succeeds only on a free account.\<close>

lemma tryLock_free:
  assumes "tryLock c sch now dr acc modelType s = (Inr l, s')"
  shows "redis_get now (acct_key (a_id acc)) (fst s) = None \<and> a_id (ls_account l) = a_id acc"
proof -
  from assms obtain u s1 where acq: "Acquire now (acct_key (a_id acc)) (dr_token dr) (LockTTLSec (sch_cfg sch) * 1000) s = (Inr u, s1)"
    by (auto simp: tryLock_def Let_def elim!: bindE_InrE)
  moreover have "a_id (ls_account l) = a_id acc"
    using assms
    by (auto simp: tryLock_def prepare_lease_def Let_def catchE_def okE_def elim!: bindE_InrE
        split: sum.splits if_splits option.splits prod.splits)
  ultimately show ?thesis using redis_lock.acquire_free [OF acq] by simp
qed

lemma tryLock_Inr:
  assumes "tryLock c sch now dr acc modelType s = (Inr l, s')"
    and "now \<le> later" and "later < now + LockTTLSec (sch_cfg sch) * 1000"
  shows "redis_get now (acct_key (a_id acc)) (fst s) = None \<and> a_id (ls_account l) = a_id acc \<and>
    DecryptAuthToken c acc = Inr (ls_auth l) \<and> ls_key l = acct_key (a_id acc) \<and> ls_token l = dr_token dr \<and>
    redis_get later (acct_key (a_id acc)) (fst s') = Some (dr_token dr)"
proof -
  let ?ttl = "LockTTLSec (sch_cfg sch) * 1000"
  from assms(1) obtain u s1 auth where acq: "Acquire now (acct_key (a_id acc)) (dr_token dr) ?ttl s = (Inr u, s1)"
    and auth: "DecryptAuthToken c acc = Inr auth"
    and prep: "prepare_lease c ?ttl now dr acc modelType auth s1 = (Inr l, s')"
    by (auto simp: tryLock_def Let_def elim!: bindE_InrE split: sum.splits)
  have "locked (acct_key (a_id acc)) (dr_token dr) later (fst s1)"
    unfolding locked_def by (rule redis_lock.acquire_holds [OF acq assms(2,3)])
  from prepare_lease_Inr [OF prep assms(2) this] redis_lock.acquire_free [OF acq] auth
  show ?thesis by (simp add: locked_def)
qed

text \<open>A successful scan locked one of its ready candidates.\<close>

lemma try_candidates_Inr:
  assumes "try_candidates c sch tz now drs modelType accs s = (Inr l, s')"
  shows "\<exists>acc\<in>set accs. \<exists>s1. ready sch tz now acc \<and> tryLock c sch now (drs (a_id acc)) acc modelType s1 = (Inr l, s')"
  using assms
proof (induction accs arbitrary: s)
  case (Cons a accs)
  show ?case
  proof (cases "ready sch tz now a")
    case True
    obtain r s1 where t: "tryLock c sch now (drs (a_id a)) a modelType s = (r, s1)" by (rule prod.exhaust)
    show ?thesis
    proof (cases r)
      case (Inl e)
      then show ?thesis using Cons True t by (auto simp: catchE_def)
    next
      case (Inr l')
      then have "tryLock c sch now (drs (a_id a)) a modelType s = (Inr l, s')"
        using Cons.prems True t by (simp add: catchE_def okE_def)
      then show ?thesis using True by (intro bexI [of _ a] exI [of _ s]) auto
    qed
  qed (use Cons in auto)
qed (simp add: failE_def)

lemma ready_fill [simp]: "ready sch tz now (fill tz now a) = ready sch tz now a"
  by (simp add: ready_def fill_def Let_def)

lemma ListDispatchable_Inr:
  assumes "ListDispatchable scan tz now n s = (Inr accs, s')"
  shows "accs = map (fill tz now) (take n (sort_key dispatch_key (scan (filter (dispatchable now) (accounts (fst s))))))"
  using assms by (auto simp: ListDispatchable_def okE_def elim!: bindE_InrE stmt_InrE)

lemma tryDispatchOnce_Inr:
  assumes scan: "mset (scan (filter (dispatchable now) (accounts (fst s)))) = mset (filter (dispatchable now) (accounts (fst s)))"
    and run: "tryDispatchOnce c sch scan tz now drs modelType s = (Inr l, s')"
  shows "\<exists>row\<in>set (accounts (fst s)). \<exists>s1. dispatchable now row \<and> ready sch tz now row \<and>
    tryLock c sch now (drs (a_id row)) (fill tz now row) modelType s1 = (Inr l, s')"
proof -
  from run obtain accs s1 where ls: "ListDispatchable scan tz now 30 s = (Inr accs, s1)"
    and tr: "try_candidates c sch tz now drs modelType accs s1 = (Inr l, s')"
    by (auto simp: tryDispatchOnce_def failE_def elim!: bindE_InrE split: if_splits)
  from try_candidates_Inr [OF tr] obtain acc s2 where acc: "acc \<in> set accs" "ready sch tz now acc"
    "tryLock c sch now (drs (a_id acc)) acc modelType s2 = (Inr l, s')" by blast
  from acc(1) obtain row where row: "acc = fill tz now row"
      "row \<in> set (take 30 (sort_key dispatch_key (scan (filter (dispatchable now) (accounts (fst s))))))"
    unfolding ListDispatchable_Inr [OF ls] by auto
  then have "row \<in> set (scan (filter (dispatchable now) (accounts (fst s))))" by (auto dest!: in_set_takeD)
  then have "row \<in> set (filter (dispatchable now) (accounts (fst s)))" using mset_eq_setD [OF scan] by blast
  then show ?thesis using acc row(1) by (intro bexI [of _ row] exI [of _ s2]) auto
qed

text \<open>
  C7. What a dispatch hands out: whatever the order in which the server reads the table, whichever other
  candidates failed and whatever the driver does, a dispatched account is a live one in a serving status, out
  of its cool-down, with an unexpired token that decrypts to the one handed out, unused for the minimal
  interval and below its daily quota; and its lock is held for this request until it expires.
\<close>

theorem dispatched_account_eligible:
  assumes "mset (scan (filter (dispatchable now) (accounts (fst s)))) = mset (filter (dispatchable now) (accounts (fst s)))"
    and "tryDispatchOnce c sch scan tz now drs modelType s = (Inr l, s')"
    and "now \<le> later" and "later < now + LockTTLSec (sch_cfg sch) * 1000"
  shows "\<exists>row\<in>set (accounts (fst s)). dispatchable now row \<and> ready sch tz now row \<and>
    a_id (ls_account l) = a_id row \<and> DecryptAuthToken c row = Inr (ls_auth l) \<and>
    ls_key l = acct_key (a_id row) \<and> redis_get later (ls_key l) (fst s') = Some (ls_token l)"
proof -
  from tryDispatchOnce_Inr [OF assms(1,2)] obtain row s1 where row: "row \<in> set (accounts (fst s))"
    "dispatchable now row" "ready sch tz now row"
    and t: "tryLock c sch now (drs (a_id row)) (fill tz now row) modelType s1 = (Inr l, s')" by blast
  from tryLock_Inr [OF t assms(3,4)] row show ?thesis
    by (intro bexI [of _ row]) (auto simp: DecryptAuthToken_def)
qed

definition demo_sched :: scheduler where
  "demo_sched = New \<lparr>LockTTLSec = 0, MinIntervalSec = 5, DailyUsageRatio = 1, Cooldown429Sec = 300, WarnedPauseHours = 24\<rparr>"

definition demo_draws :: "string \<Rightarrow> draws" where
  "demo_draws t = \<lparr>dr_token = t, dr_device = ''dev'', dr_session = ''sid'', dr_proxy = (\<lambda>_. t)\<rparr>"

text \<open>One account whose token is the base64 of the demonstration cipher's text.\<close>

definition demo_token :: string where "demo_token = b64_encode std_alphabet [1, 116, 7]"

definition demo_world :: pool_db where
  "demo_world = demo_proxies\<lparr>accounts := [demo_account\<lparr>a_auth_enc := demo_token\<rparr>]\<rparr>"

lemma demo_token_decrypts: "DecryptString demo_aead demo_token = Inr ''t''"
proof -
  have "b64_decode std_alphabet True (b64_encode std_alphabet [1, 116, 7]) = Some [1, 116, 7]"
    by (rule b64_roundtrip) simp
  moreover have "string_of [116] = ''t''" by code_simp
  ultimately show ?thesis by (simp add: DecryptString_def Decrypt_def demo_token_def demo_aead_def)
qed

definition demo_acc :: account where "demo_acc = demo_account\<lparr>a_auth_enc := demo_token\<rparr>"

lemma demo_acc_simps [simp]:
  "fill 0 5000 demo_acc = demo_acc" "a_id demo_acc = 1" "a_oai_device demo_acc = ''''" "a_oai_session demo_acc = ''''"
  "ready demo_sched 0 5000 demo_acc" "dispatchable 5000 demo_acc" "DecryptAuthToken demo_aead demo_acc = Inr ''t''"
  "a_live demo_acc" "a_email demo_acc = ''a@x''"
  by (simp_all add: demo_acc_def demo_account_def fill_def ready_def dispatchable_def DecryptAuthToken_def
      demo_token_decrypts a_live_def Let_def)

lemma demo_world_accounts: "accounts demo_world = [demo_acc]" "locks demo_world = Map.empty" "proxies demo_world = []"
  by (simp_all add: demo_world_def demo_acc_def demo_proxies_def)

lemma demo_dispatch:
  "\<exists>l s'. tryDispatchOnce demo_aead demo_sched (\<lambda>as. as) 0 5000 (\<lambda>_. demo_draws ''A'') ''chat'' (demo_world, []) = (Inr l, s') \<and>
     a_id (ls_account l) = 1 \<and> ls_token l = ''A'' \<and> ls_proxy_lease l = None"
  by (simp add: tryDispatchOnce_def ListDispatchable_def bindE_def okE_def catchE_def tryLock_def Let_def
        Acquire_clean redis_get_def demo_world_accounts prepare_lease_def ensure_identity_def
        EnsureDeviceID_def EnsureSessionID_def exec_accounts_def update_accounts_def read_column_def live_emails_def
        Allocator_Lease_def ListRuntimeCandidates_def isRuntimeProxyModel_def demo_draws_def live_id_def a_live_def)

theorem dispatched_account_eligible_witness:
  "\<exists>l s'. tryDispatchOnce demo_aead demo_sched (\<lambda>as. as) 0 5000 (\<lambda>_. demo_draws ''A'') ''chat'' (demo_world, []) = (Inr l, s') \<and>
     redis_get 184999 (ls_key l) (fst s') = Some (ls_token l)"
proof -
  obtain l s' where r: "tryDispatchOnce demo_aead demo_sched (\<lambda>as. as) 0 5000 (\<lambda>_. demo_draws ''A'') ''chat'' (demo_world, []) = (Inr l, s')"
    using demo_dispatch by blast
  from dispatched_account_eligible [OF _ r, of 184999] r show ?thesis
    by (auto simp: demo_sched_def New_def New_config_def)
qed

section \<open>One request per account\<close>

text \<open>
  What other requests, the administrator and the background tasks do to the servers, each at its instant.
\<close>

datatype sched_op =
    SDispatch "nat \<Rightarrow> draws" string
  | SRelease lease
  | SProxyFailed string lease
  | SRateLimited nat
  | SWarned nat
  | SDead nat
  | SRestore nat
  | SAccount acct_op
  | SProbed proxy bool string
  | SImport "nat \<Rightarrow> nat list option" string import_defaults

record deployment =
  su_cipher :: aead
  su_sched :: scheduler
  su_scan :: scan
  su_tz :: int
  su_json :: "nat list \<Rightarrow> int option"
  su_parse :: "string \<Rightarrow> url option"

fun sched_exec :: "deployment \<Rightarrow> int \<Rightarrow> sched_op \<Rightarrow> 'a pool_db_scheme sess \<Rightarrow> 'a pool_db_scheme sess" where
  "sched_exec u now (SDispatch drs m) s = snd (tryDispatchOnce (su_cipher u) (su_sched u) (su_scan u) (su_tz u) now drs m s)"
| "sched_exec u now (SRelease l) s = snd (Sched_Release (su_tz u) now l s)"
| "sched_exec u now (SProxyFailed msg l) s = snd (MarkProxyFailure msg l s)"
| "sched_exec u now (SRateLimited i) s = MarkRateLimited (su_sched u) now i s"
| "sched_exec u now (SWarned i) s = MarkWarned (su_sched u) now i s"
| "sched_exec u now (SDead i) s = MarkDead i s"
| "sched_exec u now (SRestore i) s = RestoreHealthy i s"
| "sched_exec u now (SAccount a) s = acct_exec (su_cipher u) (su_json u) a s"
| "sched_exec u now (SProbed p okp e) s = applyResult now p okp e s"
| "sched_exec u now (SImport rnd txt df) s = snd (ImportBatch (su_parse u) (su_cipher u) rnd txt df s)"

fun sched_run :: "deployment \<Rightarrow> (int \<times> sched_op) list \<Rightarrow> 'a pool_db_scheme sess \<Rightarrow> 'a pool_db_scheme sess" where
  "sched_run u [] s = s"
| "sched_run u ((now, a) # as) s = sched_run u as (sched_exec u now a s)"

text \<open>An operation that draws, or holds, only tokens other than \<open>t\<close>.\<close>

definition foreign :: "string \<Rightarrow> sched_op \<Rightarrow> bool" where
  "foreign t a =
     (case a of
        SDispatch drs m \<Rightarrow> (\<forall>i. dr_token (drs i) \<noteq> t)
      | SRelease l \<Rightarrow> ls_token l \<noteq> t \<and> (case ls_proxy_lease l of None \<Rightarrow> True | Some p \<Rightarrow> pl_token p \<noteq> t)
      | _ \<Rightarrow> True)"

lemma lock_free_import: "lock_free (ImportBatch up c rnd txt df)"
proof -
  have cr: "lock_free (ProxySvc_Create c n inp)" for n inp
    unfolding ProxySvc_Create_def Proxy_Create_def Let_def
    by (intro lock_free_intros lock_free_stmt lock_free_reads [OF reads_Proxy_GetByID] lock_free_reads [OF reads_enc_password])
       (simp add: insert_proxy_def)
  have line: "lock_free (import_line up c n df no l)" for n no l
    unfolding import_line_def Let_def FindByEndpoint_def Proxy_Update_def
    by (cases "parseProxyLine up l")
       (auto intro!: lock_free_intros cr lock_free_update_proxies
          lock_free_reads [OF reads_select_proxy] lock_free_reads [OF reads_enc_password] split: sum.split)
  have "lock_free (import_lines up c rnd df no raws)" for no raws
    by (induction raws arbitrary: no) (auto simp: Let_def intro!: lock_free_intros line)
  then show ?thesis by (simp add: ImportBatch_def)
qed

lemma locked_locks: "locks d' = locks d \<Longrightarrow> locked k t later d \<Longrightarrow> locked k t later d'"
  by (simp add: locked_def redis_get_def)

lemma locked_Lease_Release:
  assumes "now \<le> later" and "pl_token p \<noteq> t" and "locked k t later (fst s)" and "Lease_Release now p s = ((r, p'), s')"
  shows "locked k t later (fst s')"
  using assms preserves_snd [OF locked_Release [OF assms(1)], of "pl_token p" t "pl_key p" k s]
  by (auto simp: Lease_Release_def split: if_splits prod.splits)

lemma locked_Sched_Release:
  assumes "now \<le> later" and "foreign t (SRelease l)" and "locked k t later (fst s)"
  shows "locked k t later (fst (snd (Sched_Release tz now l s)))"
proof -
  obtain r1 s1 where 1: "MarkUsed now (a_id (ls_account l)) (local_day tz now) s = (r1, s1)" by (rule prod.exhaust)
  have h1: "locked k t later (fst s1)"
    using locked_locks [OF lock_free_snd [OF lock_free_accounts(9)] assms(3)] 1 by (metis snd_conv)
  define mid where "mid = (case ls_proxy_lease l of
             None \<Rightarrow> (Inr (), None, s1)
           | Some p \<Rightarrow> (case Lease_Release now p s1 of ((r, p'), s2) \<Rightarrow> (r, Some p', s2)))"
  obtain r2 pl s2 where 2: "mid = (r2, pl, s2)" by (cases mid) auto
  have h2: "locked k t later (fst s2)"
  proof (cases "ls_proxy_lease l")
    case None
    then show ?thesis using 2 h1 by (simp add: mid_def)
  next
    case (Some p)
    obtain r p' s3 where lr: "Lease_Release now p s1 = ((r, p'), s3)" by (metis prod.collapse)
    have "locked k t later (fst s3)"
      by (rule locked_Lease_Release [OF assms(1) _ h1 lr]) (use assms(2) Some in \<open>simp add: foreign_def\<close>)
    then show ?thesis using 2 Some lr by (simp add: mid_def)
  qed
  have "locked k t later (fst (snd (Release now (ls_key l) (ls_token l) s2)))"
    by (rule preserves_snd [OF locked_Release [OF assms(1)] h2]) (use assms(2) in \<open>simp add: foreign_def\<close>)
  moreover obtain r3 s3 where 3: "Release now (ls_key l) (ls_token l) s2 = (r3, s3)" by (rule prod.exhaust)
  ultimately show ?thesis by (simp add: Sched_Release_def 1 mid_def [symmetric] 2 3)
qed

lemma locked_exec:
  assumes "now \<le> later" and "foreign t a" and h: "locked (acct_key i) t later (fst s)"
  shows "locked (acct_key i) t later (fst (sched_exec u now a s))"
proof (cases a)
  case (SDispatch drs m)
  then show ?thesis
    using assms(2) preserves_snd [OF locked_tryDispatchOnce [OF assms(1)] h] by (simp add: foreign_def)
next
  case (SRelease l)
  then show ?thesis using locked_Sched_Release [OF assms(1)] assms(2) h by simp
next
  case (SProxyFailed msg l)
  have m: "locks (fst (snd (Lease_MarkFailure msg p s))) = locks (fst s)" for p
    using lock_free_snd [OF lock_free_proxies(3), of "pl_proxy p" 20 "failure_summary msg" s]
    by (simp add: Lease_MarkFailure_def case_prod_unfold Let_def)
  have "locks (fst (snd (MarkProxyFailure msg l s))) = locks (fst s)"
  proof (cases "ls_proxy_lease l")
    case (Some p)
    with m [of p] show ?thesis by (simp add: MarkProxyFailure_def case_prod_unfold)
  qed (simp add: MarkProxyFailure_def)
  then show ?thesis using SProxyFailed locked_locks [OF _ h] by simp
next
  case (SProbed p okp e)
  then show ?thesis
    using locked_locks [OF lock_free_snd [OF lock_free_proxies(2)] h] by (simp add: applyResult_def)
next
  case (SImport rnd lines df)
  then show ?thesis using locked_locks [OF lock_free_snd [OF lock_free_import] h] by simp
next
  case (SAccount x)
  then show ?thesis using locked_locks [OF acct_exec_locks h] by simp
qed (simp_all add: MarkRateLimited_def MarkWarned_def MarkDead_def RestoreHealthy_def
      locked_locks [OF lock_free_snd [OF lock_free_accounts(10)] h])

lemma locked_run:
  assumes "\<forall>(now, a)\<in>set as. now \<le> later \<and> foreign t a" and "locked (acct_key i) t later (fst s)"
  shows "locked (acct_key i) t later (fst (sched_run u as s))"
  using assms
proof (induction as arbitrary: s)
  case (Cons na as)
  obtain now a where na: "na = (now, a)" by (rule prod.exhaust)
  have "locked (acct_key i) t later (fst (sched_exec u now a s))"
    using Cons.prems by (intro locked_exec) (auto simp: na)
  then show ?case using Cons by (simp add: na)
qed simp

text \<open>
  C6. One request per account: from a successful dispatch until its lock expires, no later dispatch hands out
  the same account, whatever other requests, releases of other leases, status reports, account edits, probes
  and imports run in between, and however the servers fail; only the release of this very lease frees it.
\<close>

theorem one_request_per_account:
  assumes "mset (scan (filter (dispatchable now) (accounts (fst s)))) = mset (filter (dispatchable now) (accounts (fst s)))"
    and "tryDispatchOnce c sch scan tz now drs modelType s = (Inr l, s1)"
    and "\<forall>(v, a)\<in>set as. v \<le> later \<and> foreign (ls_token l) a"
    and "now \<le> later" and "later < now + LockTTLSec (sch_cfg sch) * 1000"
    and "tryDispatchOnce c' sch' scan' tz' later drs' modelType' (sched_run u as s1) = (Inr l', s2)"
    and "\<And>i. dr_token (drs' i) \<noteq> ls_token l"
  shows "a_id (ls_account l') \<noteq> a_id (ls_account l)"
proof
  assume same: "a_id (ls_account l') = a_id (ls_account l)"
  let ?i = "a_id (ls_account l)"
  have "0 < LockTTLSec (sch_cfg sch) * 1000" using assms(4,5) by simp
  from tryDispatchOnce_Inr [OF assms(1,2)] obtain row s0
    where t: "tryLock c sch now (drs (a_id row)) (fill tz now row) modelType s0 = (Inr l, s1)" by blast
  from tryLock_Inr [OF t assms(4,5)] have "locked (acct_key ?i) (ls_token l) later (fst s1)"
    by (simp add: locked_def)
  from locked_run [OF assms(3) this] have h: "locked (acct_key ?i) (ls_token l) later (fst (sched_run u as s1))" .
  from assms(6) obtain accs s3 where ls: "ListDispatchable scan' tz' later 30 (sched_run u as s1) = (Inr accs, s3)"
    and tr: "try_candidates c' sch' tz' later drs' modelType' accs s3 = (Inr l', s2)"
    by (auto simp: tryDispatchOnce_def failE_def elim!: bindE_InrE split: if_splits)
  have "locked (acct_key ?i) (ls_token l) later (fst s3)"
    using h readsD [OF reads_ListDispatchable ls] by simp
  with tr show False
  proof (induction accs arbitrary: s3)
    case Nil
    then show ?case by (simp add: failE_def)
  next
    case (Cons acc accs)
    show ?case
    proof (cases "ready sch' tz' later acc")
      case False
      then show ?thesis using Cons by simp
    next
      case True
      obtain r s4 where tl: "tryLock c' sch' later (drs' (a_id acc)) acc modelType' s3 = (r, s4)" by (rule prod.exhaust)
      have h4: "locked (acct_key ?i) (ls_token l) later (fst s4)"
        by (rule preservesD [OF locked_tryLock tl Cons.prems(2)]) (simp_all add: assms(7))
      show ?thesis
      proof (cases r)
        case (Inl e)
        then show ?thesis using Cons.prems(1) True tl Cons.IH [OF _ h4] by (simp add: catchE_def)
      next
        case (Inr l'')
        then have "l'' = l'" using Cons.prems(1) True tl by (simp add: catchE_def okE_def)
        with tl Inr have "tryLock c' sch' later (drs' (a_id acc)) acc modelType' s3 = (Inr l', s4)" by simp
        from tryLock_free [OF this] Cons.prems(2) same show ?thesis by (simp add: locked_def)
      qed
    qed
  qed
qed

definition demo_acc2 :: account where
  "demo_acc2 = demo_acc\<lparr>a_id := 2, a_email := ''b@x'', a_oai_device := ''d2'', a_oai_session := ''s2''\<rparr>"

definition demo_world2 :: pool_db where "demo_world2 = demo_world\<lparr>accounts := [demo_acc\<lparr>a_oai_device := ''d1'', a_oai_session := ''s1''\<rparr>, demo_acc2]\<rparr>"

definition demo_deploy :: deployment where
  "demo_deploy = \<lparr>su_cipher = demo_aead, su_sched = demo_sched, su_scan = (\<lambda>as. as), su_tz = 0, su_json = (\<lambda>_. None), su_parse = demo_parse\<rparr>"

lemma demo_two_dispatches:
  fixes once :: "int \<Rightarrow> string \<Rightarrow> pool_db sess \<Rightarrow> lease result \<times> pool_db sess"
  defines "once \<equiv> \<lambda>now t. tryDispatchOnce demo_aead demo_sched (\<lambda>as. as) 0 now (\<lambda>_. demo_draws t) ''video''"
  shows "\<exists>l s1 l' s2. once 5000 ''A'' (demo_world2, []) = (Inr l, s1) \<and> ls_token l = ''A'' \<and>
    once 6000 ''B'' (sched_run demo_deploy [(5500, SRateLimited 7)] s1) = (Inr l', s2)"
proof -
  have f: "fill 0 now (demo_acc\<lparr>a_oai_device := x, a_oai_session := y\<rparr>) = demo_acc\<lparr>a_oai_device := x, a_oai_session := y\<rparr>"
     "fill 0 now demo_acc2 = demo_acc2"
     "ready demo_sched 0 now (demo_acc\<lparr>a_oai_device := x, a_oai_session := y\<rparr>)" "ready demo_sched 0 now demo_acc2"
     "DecryptAuthToken demo_aead (demo_acc\<lparr>a_oai_device := x, a_oai_session := y\<rparr>) = Inr ''t''"
     "DecryptAuthToken demo_aead demo_acc2 = Inr ''t''" for now x y
    by (simp_all add: demo_acc_def demo_acc2_def demo_account_def fill_def ready_def DecryptAuthToken_def
        demo_token_decrypts Let_def)
  have g: "dispatchable 5000 (demo_acc\<lparr>a_oai_device := x, a_oai_session := y\<rparr>)" "dispatchable 5000 demo_acc2"
    "dispatchable 6000 (demo_acc\<lparr>a_oai_device := x, a_oai_session := y\<rparr>)" "dispatchable 6000 demo_acc2"
    "dispatch_key (demo_acc\<lparr>a_oai_device := x, a_oai_session := y\<rparr>) = (0, 0, 0)" "dispatch_key demo_acc2 = (0, 0, 0)"
    "a_id demo_acc2 = 2" "a_oai_device demo_acc2 = ''d2''" "a_oai_session demo_acc2 = ''s2''" "a_email demo_acc2 = ''b@x''"
    "a_live demo_acc2" "a_live (demo_acc\<lparr>a_oai_device := x, a_oai_session := y\<rparr>)" for x y
    by (simp_all add: demo_acc_def demo_acc2_def demo_account_def dispatchable_def dispatch_key_def a_live_def)
  have k: "acct_key 1 \<noteq> acct_key 2" "acct_key (Suc 0) \<noteq> acct_key 2"
    using acct_key_inj [of 1 2] by auto
  have ttl: "LockTTLSec (sch_cfg demo_sched) = 180" by (simp add: demo_sched_def New_def New_config_def)
  have b: "bindings demo_world = []" by (simp add: demo_world_def demo_proxies_def)
  show ?thesis
    using k unfolding once_def
    by (simp add: tryDispatchOnce_def ListDispatchable_def bindE_def okE_def catchE_def tryLock_def Let_def
        Acquire_clean redis_get_def demo_world2_def demo_world_accounts f g ttl b prepare_lease_def ensure_identity_def
        bound_proxy_def GetBinding_def isRuntimeProxyModel_def demo_draws_def MarkRateLimited_def SetStatus_def
        exec_accounts_def update_accounts_def live_emails_def)
qed

theorem one_request_per_account_witness:
  "\<exists>l s1 l' s2. tryDispatchOnce demo_aead demo_sched (\<lambda>as. as) 0 5000 (\<lambda>_. demo_draws ''A'') ''video'' (demo_world2, []) = (Inr l, s1) \<and>
    tryDispatchOnce demo_aead demo_sched (\<lambda>as. as) 0 6000 (\<lambda>_. demo_draws ''B'') ''video''
      (sched_run demo_deploy [(5500, SRateLimited 7)] s1) = (Inr l', s2) \<and> a_id (ls_account l') \<noteq> a_id (ls_account l)"
proof -
  obtain l s1 l' s2
    where 1: "tryDispatchOnce demo_aead demo_sched (\<lambda>as. as) 0 5000 (\<lambda>_. demo_draws ''A'') ''video'' (demo_world2, []) = (Inr l, s1)"
      and t: "ls_token l = ''A''"
      and 2: "tryDispatchOnce demo_aead demo_sched (\<lambda>as. as) 0 6000 (\<lambda>_. demo_draws ''B'') ''video''
      (sched_run demo_deploy [(5500, SRateLimited 7)] s1) = (Inr l', s2)"
    using demo_two_dispatches by blast
  have "a_id (ls_account l') \<noteq> a_id (ls_account l)"
    by (rule one_request_per_account [OF _ 1 _ _ _ 2])
       (simp_all add: foreign_def t demo_draws_def demo_sched_def New_def New_config_def)
  with 1 2 show ?thesis by blast
qed

section \<open>The queue\<close>

lemma next_backoff_pos: "0 < b \<Longrightarrow> 0 < next_backoff b"
  unfolding next_backoff_def maxBackoff_def Let_def by presburger

lemma next_backoff_max: "next_backoff b \<le> maxBackoff"
  by (simp add: next_backoff_def Let_def)

lemma dispatch_loop_time:
  assumes "dispatch_loop c sch scan tz m w deadline k backoff now s = (r, t, s')"
    and "0 < backoff" and "\<And>k. w_dur w k \<le> D" and "\<And>k. w_late w k \<le> L"
  shows "now \<le> t \<and> t \<le> max now (deadline + int L) + int D \<and> (r = Inl ErrNoAvailable \<longrightarrow> deadline \<le> t)"
  using assms
proof (induction c sch scan tz m w deadline k backoff now s rule: dispatch_loop.induct)
  case (1 c sch scan tz m w deadline k backoff now s)
  obtain r1 s1 where att: "tryDispatchOnce c sch scan tz (ms_of now) (w_draws w k) m s = (r1, s1)" by (rule prod.exhaust)
  let ?now1 = "now + int (w_dur w k)"
  have d: "?now1 \<le> now + int D" using "1.prems"(3) [of k] by simp
  show ?case
  proof (cases "r1 = Inl ErrNoAvailable \<and> ?now1 < deadline \<and> \<not> w_cancelled w k")
    case False
    have "t = ?now1 \<and> (r = Inl ErrNoAvailable \<longrightarrow> deadline \<le> t)"
      using "1.prems" False by (auto simp: dispatch_loop.simps [of c] att Let_def split: sum.splits if_splits)
    then show ?thesis using d by (auto simp: max_def)
  next
    case True
    let ?wait = "if deadline - ?now1 < backoff then deadline - ?now1 else backoff"
    have wait: "0 < ?wait" "?now1 + ?wait \<le> deadline" using True "1.prems"(2) by auto
    have "dispatch_loop c sch scan tz m w deadline (k + 1) (next_backoff backoff)
        (?now1 + ?wait + int (w_late w k)) (w_others w k s1) = (r, t, s')"
      using "1.prems"(1) True wait(1) by (simp add: dispatch_loop.simps [of c sch scan tz m w deadline k] att Let_def)
    from "1.IH" [OF refl att [symmetric] refl _ _ _ refl _ _ this next_backoff_pos [OF "1.prems"(2)] "1.prems"(3,4)] True wait
    have ih: "?now1 + ?wait + int (w_late w k) \<le> t \<and>
      t \<le> max (?now1 + ?wait + int (w_late w k)) (deadline + int L) + int D \<and> (r = Inl ErrNoAvailable \<longrightarrow> deadline \<le> t)"
      by simp
    have "int (w_late w k) \<le> int L" using "1.prems"(4) [of k] by simp
    then have "max (?now1 + ?wait + int (w_late w k)) (deadline + int L) \<le> deadline + int L" using wait(2) by simp
    then show ?thesis using ih wait by auto
  qed
qed

text \<open>
  C8. A queued request is answered in time: whatever the other requests do meanwhile, \<open>Dispatch\<close> returns, at
  the latest when the configured waiting time, one late timer and one attempt have passed; and it refuses
  for want of an account only when the whole waiting time has passed.
\<close>

theorem dispatch_answers_in_time:
  assumes "Dispatch c sch scan tz m w now s = (r, t, s')"
    and "\<And>k. w_dur w k \<le> D" and "\<And>k. w_late w k \<le> L" and "0 \<le> queueWait sch"
  shows "now \<le> t \<and> t \<le> now + queueWait sch * 1000000 + int L + int D \<and>
    (r = Inl ErrNoAvailable \<longrightarrow> now + queueWait sch * 1000000 \<le> t)"
proof -
  have "0 < minBackoff" by (simp add: minBackoff_def)
  from dispatch_loop_time [OF assms(1) [unfolded Dispatch_def] this assms(2,3)] assms(4)
  show ?thesis by (simp add: max_def)
qed

definition demo_surroundings :: "pool_db sess world" where
  "demo_surroundings =
     \<lparr>w_draws = (\<lambda>k i. demo_draws ''A''), w_dur = (\<lambda>k. 1000000), w_late = (\<lambda>k. 0),
      w_cancelled = (\<lambda>k. k = 3), w_others = (\<lambda>k s. s)\<rparr>"

theorem dispatch_answers_in_time_witness:
  "\<exists>r t s'. Dispatch demo_aead demo_sched (\<lambda>as. as) 0 ''chat'' demo_surroundings 0 (demo_proxies\<lparr>accounts := []\<rparr>, []) = (r, t, s') \<and>
     t \<le> 120001000000"
proof -
  obtain r t s' where run: "Dispatch demo_aead demo_sched (\<lambda>as. as) 0 ''chat'' demo_surroundings 0 (demo_proxies\<lparr>accounts := []\<rparr>, []) = (r, t, s')"
    by (metis prod.collapse)
  have q: "queueWait demo_sched = 120000" by (simp add: queueWait_def demo_sched_def New_def)
  have "t \<le> 0 + queueWait demo_sched * 1000000 + int 0 + int 1000000"
    using dispatch_answers_in_time [OF run, of 1000000 0] q by (simp add: demo_surroundings_def)
  then show ?thesis using run q by auto
qed

section \<open>Releasing\<close>

text \<open>
  A release gives everything back: on responsive servers the release of a held lease records the use
  (time and day's count), frees the account's lock and the proxy's, and reports no error.
\<close>

theorem release_gives_back:
  assumes "redis_get now (ls_key l) d = Some (ls_token l)" and "ls_key l = acct_key (a_id (ls_account l))"
    and "ls_proxy_lease l = Some p" and "\<not> pl_released p" and "pl_key p = lease_key (pl_proxy p)" and "pl_token p \<noteq> ''''"
    and "redis_get now (pl_key p) d = Some (pl_token p)"
    and "accounts_wf d" and "row \<in> set (accounts d)" and "a_id row = a_id (ls_account l)"
    and "a_used_date row = Some (local_day tz now)"
  shows "\<exists>l' d'. Sched_Release tz now l (d, []) = (([], l'), (d', [])) \<and>
    redis_get now (ls_key l) d' = None \<and> redis_get now (pl_key p) d' = None \<and>
    row\<lparr>a_last_used := Some (datetime now), a_used_count := a_used_count row + 1\<rparr> \<in> set (accounts d')"
proof -
  let ?f = "\<lambda>a. a\<lparr>a_last_used := Some (datetime now),
              a_used_count := (if a_used_date a = Some (local_day tz now) then a_used_count a + 1 else 1),
              a_used_date := Some (local_day tz now)\<rparr>"
  let ?rows = "map (\<lambda>a. if a_id a = a_id (ls_account l) then ?f a else a) (accounts d)"
  have "live_emails (map (\<lambda>a. if a_id a = a_id (ls_account l) then ?f a else a) xs) = live_emails xs" for xs
    by (induction xs) (simp_all add: live_emails_def a_live_def)
  then have mu: "MarkUsed now (a_id (ls_account l)) (local_day tz now) (d, []) = (Inr (), (d\<lparr>accounts := ?rows\<rparr>, []))"
    using assms(8) by (simp add: MarkUsed_def exec_accounts_def bindE_def update_accounts_def accounts_wf_def okE_def)
  have new: "?f row \<in> set ?rows" using assms(9,10) by force
  have "?f row = row\<lparr>a_last_used := Some (datetime now), a_used_count := a_used_count row + 1\<rparr>"
    using assms(11) by simp
  then have "row\<lparr>a_last_used := Some (datetime now), a_used_count := a_used_count row + 1\<rparr> \<in> set ?rows"
    using new by simp
  moreover have "pl_key p \<noteq> ''''" "ls_key l \<noteq> pl_key p" using assms(2,5) by (simp_all add: lease_key_def acct_key_def)
  ultimately show ?thesis
    using assms(1,3,4,6,7)
    by (simp add: Sched_Release_def mu Lease_Release_def Release_clean redis_get_def errs_of_def)
qed

definition demo_held :: "lease \<times> pool_db" where
  "demo_held =
     (\<lparr>ls_account = demo_acc, ls_auth = ''t'', ls_proxy_url = '''', ls_proxy_id = 3, ls_device = ''d'', ls_session = ''s'',
       ls_proxy_lease = Some (demo_lease 3), ls_key = acct_key 1, ls_token = ''A''\<rparr>,
      demo_world\<lparr>accounts := [demo_acc\<lparr>a_used_count := 4, a_used_date := Some 0\<rparr>],
                 locks := [acct_key 1 \<mapsto> (''A'', 180000), lease_key 3 \<mapsto> (''t'', 180000)]\<rparr>)"

theorem release_gives_back_witness:
  "\<exists>l' d'. Sched_Release 0 9000 (fst demo_held) (snd demo_held, []) = (([], l'), (d', [])) \<and>
    redis_get 9000 (acct_key 1) d' = None \<and> redis_get 9000 (lease_key 3) d' = None \<and>
    demo_acc\<lparr>a_used_date := Some 0, a_last_used := Some 9000, a_used_count := 5\<rparr> \<in> set (accounts d')"
proof -
  let ?row = "demo_acc\<lparr>a_used_count := 4, a_used_date := Some 0\<rparr>"
  have wf: "accounts_wf (snd demo_held)"
    by (simp add: demo_held_def accounts_wf_def demo_world_def demo_proxies_def live_emails_def quota_ok_def demo_acc_def demo_account_def)
  have "\<exists>l' d'. Sched_Release 0 9000 (fst demo_held) (snd demo_held, []) = (([], l'), (d', [])) \<and>
    redis_get 9000 (ls_key (fst demo_held)) d' = None \<and> redis_get 9000 (pl_key (demo_lease 3)) d' = None \<and>
    ?row\<lparr>a_last_used := Some (datetime 9000), a_used_count := a_used_count ?row + 1\<rparr> \<in> set (accounts d')"
    by (rule release_gives_back [OF _ _ _ _ _ _ _ wf])
       (simp_all add: demo_held_def demo_lease_def redis_get_def local_day_def)
  then show ?thesis by (simp add: demo_held_def demo_lease_def datetime_def)
qed

section \<open>Throttled accounts\<close>

text \<open>Every row of the account is throttled, and the id will not be given out again.\<close>

definition throttled :: "nat \<Rightarrow> 'a account_db_scheme \<Rightarrow> bool" where
  "throttled i d \<longleftrightarrow> i < accounts_next d \<and> (\<forall>a\<in>set (accounts d). a_id a = i \<longrightarrow> a_status a = StatusThrottled)"

text \<open>What happens without an administrator and without a further verdict of the upstream on the account.\<close>

definition automatic :: "sched_op \<Rightarrow> bool" where
  "automatic a =
     (case a of
        SWarned _ \<Rightarrow> False | SDead _ \<Rightarrow> False | SRestore _ \<Rightarrow> False
      | SAccount (OUpdate _ _ _ _ _) \<Rightarrow> False
      | SAccount (OSetStatus _ _ _) \<Rightarrow> False
      | SAccount (ORefreshFailed _ _ _ _ dead) \<Rightarrow> \<not> dead
      | _ \<Rightarrow> True)"

lemma throttled_update:
  assumes "\<And>a. a_id (f a) = a_id a" and "\<And>a. a_status a = StatusThrottled \<Longrightarrow> a_status (f a) = StatusThrottled"
    and "throttled i d"
  shows "throttled i (snd (update_accounts hit f d))"
  using assms by (auto simp: throttled_def update_accounts_def Let_def)

lemma throttled_exec:
  assumes "\<And>a. a_id (f a) = a_id a" and "\<And>a. a_status a = StatusThrottled \<Longrightarrow> a_status (f a) = StatusThrottled"
  shows "preserves (throttled i) (exec_accounts hit f)"
  unfolding exec_accounts_def
  by (intro preserves_bindE preserves_stmt throttled_update preserves_okE) (use assms in auto)

lemma revive_throttled: "revive StatusThrottled = StatusThrottled"
  by (simp add: revive_def status_defs)

lemma throttled_accounts:
  "preserves (throttled i) (Account_Create a)" "preserves (throttled i) (Account_SoftDelete now j)"
  "preserves (throttled i) (Account_Restore j)" "preserves (throttled i) (SoftDeleteByStatus now st)"
  "preserves (throttled i) (Account_Purge j)" "preserves (throttled i) (EnsureDeviceID j dev)"
  "preserves (throttled i) (EnsureSessionID j sid)" "preserves (throttled i) (MarkUsed now j today)"
  "preserves (throttled i) (ApplyRefreshResult now j atk rtk ex src)"
  "preserves (throttled i) (RecordRefreshError now j src why False)"
  "preserves (throttled i) (ApplyQuotaResult now j rem tot rs)" "preserves (throttled i) (DecrQuota j n)"
  "preserves (throttled i) (UpsertCookies j enc)" "preserves (throttled i) (SetBinding now j p)"
  "preserves (throttled i) (RemoveBinding j)" "preserves (throttled i) (SetStatus j StatusThrottled cu)"
proof -
  have st: "preserves (throttled i) (stmt (update_accounts hit f))"
    if "\<And>a. a_id (f a) = a_id a" "\<And>a. a_status (f a) = a_status a" for hit f
    by (intro preserves_stmt throttled_update) (simp_all add: that)
  show "preserves (throttled i) (UpsertCookies j enc)" "preserves (throttled i) (SetBinding now j p)"
    "preserves (throttled i) (RemoveBinding j)"
    unfolding UpsertCookies_def SetBinding_def RemoveBinding_def by (intro preserves_stmt; simp add: throttled_def)+
  show "preserves (throttled i) (Account_Create a)"
    unfolding Account_Create_def by (intro preserves_stmt) (auto simp: insert_account_def throttled_def)
  show "preserves (throttled i) (Account_Purge j)"
    unfolding Account_Purge_def
    by (intro preserves_intros preserves_stmt) (auto simp: delete_accounts_def throttled_def Let_def)
  show "preserves (throttled i) (Account_Restore j)" "preserves (throttled i) (SoftDeleteByStatus now st)"
    unfolding Account_Restore_def SoftDeleteByStatus_def by (intro preserves_intros st; simp)+
  show "preserves (throttled i) (EnsureDeviceID j dev)" "preserves (throttled i) (EnsureSessionID j sid)"
    unfolding EnsureDeviceID_def EnsureSessionID_def
    by (intro preserves_bindE preserves_reads [OF reads_read_column] throttled_exec; simp)+
  show "preserves (throttled i) (Account_SoftDelete now j)" "preserves (throttled i) (MarkUsed now j today)"
    "preserves (throttled i) (ApplyQuotaResult now j rem tot rs)" "preserves (throttled i) (DecrQuota j n)"
    "preserves (throttled i) (SetStatus j StatusThrottled cu)"
    "preserves (throttled i) (RecordRefreshError now j src why False)"
    unfolding Account_SoftDelete_def MarkUsed_def ApplyQuotaResult_def DecrQuota_def SetStatus_def RecordRefreshError_def if_False
    by (intro preserves_if preserves_okE throttled_exec; simp)+
  show "preserves (throttled i) (ApplyRefreshResult now j atk rtk ex src)"
    unfolding ApplyRefreshResult_def by (intro preserves_if throttled_exec) (simp_all add: revive_throttled)
qed

lemma throttled_reads: "reads m \<Longrightarrow> preserves (throttled i) m"
  by (rule preserves_reads)

lemma throttled_services:
  "preserves (throttled i) (AcctSvc_Create c rnd jexp tz now uuid inp)"
  "preserves (throttled i) (AcctSvc_Restore tz now j)"
  "preserves (throttled i) (BulkDeleteByStatus now st)"
  unfolding AcctSvc_Create_def AcctSvc_Restore_def BulkDeleteByStatus_def save_cookies_def Let_def
  by (intro preserves_okE preserves_failE preserves_bindE preserves_if throttled_accounts
        throttled_reads [OF reads_GetByID] throttled_reads [OF reads_liftE] throttled_reads [OF reads_enc_opt])+

lemma throttled_cong: "accounts d' = accounts d \<Longrightarrow> accounts_next d' = accounts_next d \<Longrightarrow> throttled i d \<Longrightarrow> throttled i d'"
  by (simp add: throttled_def)

lemma throttled_locks:
  "preserves (throttled i) (Acquire now k t ttl)" "preserves (throttled i) (Release now k t)"
  unfolding Acquire_def Release_def
  by (intro preserves_bindE preserves_if preserves_okE preserves_failE preserves_stmt;
      auto simp: redis_setnx_def releaseScript_def throttled_def)+

lemma throttled_proxies: "preserves (throttled i) (stmt (update_proxies hit f))"
  by (intro preserves_stmt) (simp add: update_proxies_def throttled_def)

lemma throttled_cleanup: "preserves (throttled i) (cleanup_fail (Release now k t) e)"
  unfolding cleanup_fail_def by (intro preserves_catchE throttled_locks preserves_failE)

lemma throttled_lease_from: "preserves (throttled i) (lease_from c ttl now uuid n ps)"
  by (induction ps arbitrary: n)
     (auto intro!: preserves_catchE preserves_if preserves_okE preserves_failE throttled_locks throttled_cleanup
        throttled_proxies simp: TouchLastUsed_def split: sum.split)

lemma throttled_bound_proxy: "preserves (throttled i) (bound_proxy c j)"
  unfolding bound_proxy_def Let_def
  by (auto intro!: preserves_catchE preserves_if preserves_okE throttled_reads [OF reads_GetBinding]
        throttled_reads [OF reads_Proxy_GetByID] split: sum.split option.split)

lemma throttled_ensure: "(\<And>j g. preserves (throttled i) (ensure j g)) \<Longrightarrow> preserves (throttled i) (ensure_identity ensure j cur gen)"
  unfolding ensure_identity_def by (auto intro!: preserves_catchE preserves_if preserves_okE split: sum.split)

lemma throttled_tryLock: "preserves (throttled i) (tryLock c sch now dr acc m)"
  unfolding tryLock_def prepare_lease_def Allocator_Lease_def Let_def
  by (auto intro!: preserves_bindE preserves_if preserves_okE preserves_catchE throttled_locks throttled_cleanup
      throttled_lease_from throttled_bound_proxy throttled_ensure throttled_accounts
      throttled_reads [OF reads_ListRuntimeCandidates] split: sum.split option.split)

lemma throttled_dispatch: "preserves (throttled i) (tryDispatchOnce c sch scan tz now drs m)"
proof -
  have "preserves (throttled i) (try_candidates c sch tz now drs m accs)" for accs
    by (induction accs)
       (auto intro!: preserves_failE preserves_if preserves_catchE preserves_okE throttled_tryLock split: sum.split)
  then show ?thesis
    unfolding tryDispatchOnce_def
    by (intro preserves_bindE preserves_if preserves_failE throttled_reads [OF reads_ListDispatchable])
qed

lemma throttled_import: "preserves (throttled i) (ImportBatch up c rnd tx df)"
proof -
  have cr: "preserves (throttled i) (ProxySvc_Create c n inp)" for n inp
    unfolding ProxySvc_Create_def Proxy_Create_def Let_def
    by (intro preserves_bindE preserves_if preserves_failE throttled_reads [OF reads_Proxy_GetByID]
          throttled_reads [OF reads_enc_password] preserves_stmt) (simp add: insert_proxy_def throttled_def)
  have line: "preserves (throttled i) (import_line up c n df no l)" for n no l
    unfolding import_line_def Let_def FindByEndpoint_def Proxy_Update_def
    by (cases "parseProxyLine up l")
       (auto intro!: preserves_catchE preserves_okE preserves_if cr throttled_proxies
          throttled_reads [OF reads_select_proxy] throttled_reads [OF reads_enc_password] split: sum.split)
  have "preserves (throttled i) (import_lines up c rnd df no raws)" for no raws
    by (induction raws arbitrary: no) (auto simp: Let_def intro!: preserves_okE preserves_bindE preserves_if line)
  then show ?thesis by (simp add: ImportBatch_def)
qed

lemma throttled_Lease_Release: "throttled i (fst s) \<Longrightarrow> throttled i (fst (snd (Lease_Release now p s)))"
  using preserves_snd [OF throttled_locks(2), of i s] by (simp add: Lease_Release_def case_prod_unfold Let_def)

lemma throttled_Sched_Release: "throttled i (fst s) \<Longrightarrow> throttled i (fst (snd (Sched_Release tz now l s)))"
proof -
  assume h: "throttled i (fst s)"
  obtain r1 s1 where 1: "MarkUsed now (a_id (ls_account l)) (local_day tz now) s = (r1, s1)" by (rule prod.exhaust)
  have h1: "throttled i (fst s1)" by (rule preservesD [OF throttled_accounts(8) 1 h])
  define mid where "mid = (case ls_proxy_lease l of
             None \<Rightarrow> (Inr (), None, s1)
           | Some p \<Rightarrow> (case Lease_Release now p s1 of ((r, p'), s2) \<Rightarrow> (r, Some p', s2)))"
  obtain r2 pl s2 where 2: "mid = (r2, pl, s2)" by (cases mid) auto
  have "throttled i (fst s2)"
    using 2 h1 throttled_Lease_Release [of i s1 now]
    by (auto simp: mid_def case_prod_unfold split: option.splits)
  moreover obtain r3 s3 where 3: "Release now (ls_key l) (ls_token l) s2 = (r3, s3)" by (rule prod.exhaust)
  ultimately show ?thesis
    using preservesD [OF throttled_locks(2) 3] by (simp add: Sched_Release_def 1 mid_def [symmetric] 2 3)
qed

lemma throttled_acct_exec:
  assumes "automatic (SAccount x)" and "throttled i (fst s)"
  shows "throttled i (fst (acct_exec c jexp x s))"
  using assms
  by (cases x) (simp_all add: automatic_def throttled_accounts [THEN preserves_snd] throttled_services [THEN preserves_snd])

lemma throttled_health: "preserves (throttled i) (UpdateHealth now j sc e)" "preserves (throttled i) (DeductHealthOnRuntimeFailure j k e)"
  unfolding UpdateHealth_def DeductHealthOnRuntimeFailure_def Let_def by (rule throttled_proxies)+

lemma throttled_step:
  assumes "automatic a" and h: "throttled i (fst s)"
  shows "throttled i (fst (sched_exec u now a s))"
proof (cases a)
  case (SProxyFailed msg l)
  have "throttled i (fst (snd (Lease_MarkFailure msg p s)))" for p
    using preserves_snd [OF throttled_health(2) h] h by (simp add: Lease_MarkFailure_def case_prod_unfold Let_def)
  then show ?thesis
    using SProxyFailed h by (cases "ls_proxy_lease l") (simp_all add: MarkProxyFailure_def case_prod_unfold)
next
  case (SRelease l)
  then show ?thesis using throttled_Sched_Release [OF h] by simp
next
  case (SAccount x)
  then show ?thesis using throttled_acct_exec [OF _ h] assms(1) by simp
qed (use assms(1) in \<open>simp_all add: automatic_def h MarkRateLimited_def applyResult_def Let_def
      preserves_snd [OF throttled_dispatch h] preserves_snd [OF throttled_accounts(16) h]
      preserves_snd [OF throttled_health(1) h] preserves_snd [OF throttled_import h]\<close>)

lemma throttled_run:
  assumes "\<forall>(now, a)\<in>set as. automatic a" and "throttled i (fst s)"
  shows "throttled i (fst (sched_run u as s))"
  using assms
proof (induction as arbitrary: s)
  case (Cons na as)
  obtain now a where na: "na = (now, a)" by (rule prod.exhaust)
  have "throttled i (fst (sched_exec u now a s))"
    using Cons.prems by (intro throttled_step) (auto simp: na)
  then show ?case using Cons by (simp add: na)
qed simp


lemma demo_after_429:
  "\<exists>l s'. tryDispatchOnce demo_aead demo_sched (\<lambda>as. as) 0 5000 (\<lambda>_. demo_draws ''A'') ''video''
      (sched_run demo_deploy [(3000, SAccount (OMarkUsed 3000 9 0))]
         (MarkRateLimited demo_sched 1000 2 (demo_world2\<lparr>accounts_next := 3\<rparr>, []))) = (Inr l, s')"
proof -
  let ?a1 = "demo_acc\<lparr>a_oai_device := ''d1'', a_oai_session := ''s1''\<rparr>"
  have f: "fill 0 5000 ?a1 = ?a1" "ready demo_sched 0 5000 ?a1" "DecryptAuthToken demo_aead ?a1 = Inr ''t''" "dispatchable 5000 ?a1"
    "a_live ?a1" "a_id ?a1 = 1" "a_email ?a1 = ''a@x''"
    by (simp_all add: demo_acc_def demo_account_def fill_def ready_def DecryptAuthToken_def demo_token_decrypts dispatchable_def a_live_def)
  have g: "\<not> dispatchable 5000 (demo_acc2\<lparr>a_status := StatusThrottled, a_cooldown := x\<rparr>)" "a_live (demo_acc2\<lparr>a_status := StatusThrottled, a_cooldown := x\<rparr>)"
    "a_id demo_acc2 = 2" "a_email demo_acc2 = ''b@x''" for x
    by (simp_all add: demo_acc2_def demo_acc_def demo_account_def dispatchable_def a_live_def status_defs)
  have b: "bindings demo_world = []" by (simp add: demo_world_def demo_proxies_def)
  show ?thesis
    using f g(1) [of "Some (datetime (1000 + cooldown429 demo_sched))"] g(2-4)
    by (simp add: tryDispatchOnce_def ListDispatchable_def bindE_def okE_def catchE_def tryLock_def Let_def
        Acquire_clean redis_get_def demo_world2_def demo_world_accounts b prepare_lease_def ensure_identity_def
        bound_proxy_def GetBinding_def isRuntimeProxyModel_def demo_draws_def MarkRateLimited_def SetStatus_def MarkUsed_def
        exec_accounts_def update_accounts_def live_emails_def)
qed


section \<open>A stale candidate list\<close>

text \<open>
  The candidates are read before their locks are taken. A request that read its list while the account was
  locked, and takes the lock after the other request's release, uses the account again at once: here within
  one millisecond, although the minimal interval is five seconds.
\<close>

lemma stale_list_breaks_interval:
  "\<exists>accs s1 errs l2 s2 l3 s3.
     ListDispatchable (\<lambda>as. as) 0 9000 30 (snd demo_held, []) = (Inr accs, s1) \<and>
     Sched_Release 0 9001 (fst demo_held) s1 = ((errs, l2), s2) \<and>
     try_candidates demo_aead demo_sched 0 9002 (\<lambda>_. demo_draws ''B'') ''video'' accs s2 = (Inr l3, s3) \<and>
     a_id (ls_account l3) = a_id (ls_account l2)"
proof -
  let ?row = "demo_acc\<lparr>a_used_count := 4, a_used_date := Some 0\<rparr>"
  have ratio: "dailyUsageRatio demo_sched = 1" by (simp add: dailyUsageRatio_def demo_sched_def New_def New_config_def)
  have quota: "to_i64 100 = 100" by (simp add: to_i64_def in_i64_def)
  have f: "fill 0 9000 ?row = ?row" "ready demo_sched 0 9002 ?row" "DecryptAuthToken demo_aead ?row = Inr ''t''"
    "dispatchable 9000 ?row" "a_id ?row = 1" "a_oai_device ?row = []" "a_oai_session ?row = []"
    by (simp_all add: demo_acc_def demo_account_def fill_def ready_def DecryptAuthToken_def demo_token_decrypts
        dispatchable_def a_live_def local_day_def Let_def ratio quota rnd64_int [of 100, simplified])
  have b: "bindings demo_world = []" by (simp add: demo_world_def demo_proxies_def)
  have kne: "acct_key (Suc 0) \<noteq> []" "lease_key 3 \<noteq> []" by (simp_all add: acct_key_def lease_key_def)
  show ?thesis
    using f kne
    by (simp add: ListDispatchable_def bindE_def okE_def catchE_def tryLock_def Let_def demo_held_def
        Sched_Release_def MarkUsed_def Lease_Release_def demo_lease_def Release_clean errs_of_def
        Acquire_clean redis_get_def b prepare_lease_def ensure_identity_def EnsureDeviceID_def EnsureSessionID_def
        read_column_def live_id_def
        bound_proxy_def GetBinding_def isRuntimeProxyModel_def demo_draws_def
        exec_accounts_def update_accounts_def live_emails_def)
qed

end
