(* ===== verification/Sha256.thy ===== *)
theory Sha256
  imports Md5
begin

text \<open>
  \<open>crypto/sha256\<close> (FIPS 180-4), the digest under which API keys are stored: 32-bit words with wrap-around
  addition, 64 rounds per 64-byte block over an expanded message schedule, big-endian length padding.
\<close>

text \<open>
  The constants as the standard defines them: the first 32 bits of the fractional parts of the cube roots of the
  first 64 primes and of the square roots of the first eight.
\<close>

definition root_floor :: "nat \<Rightarrow> int \<Rightarrow> int" where
  "root_floor k n = fold (\<lambda>b r. if (r + 2 ^ b) ^ k \<le> n then r + 2 ^ b else r) (rev [0..<36]) 0"

definition sha_primes :: "int list" where
  "sha_primes =
    [2, 3, 5, 7, 11, 13, 17, 19, 23, 29, 31, 37, 41, 43, 47, 53,
     59, 61, 67, 71, 73, 79, 83, 89, 97, 101, 103, 107, 109, 113, 127, 131,
     137, 139, 149, 151, 157, 163, 167, 173, 179, 181, 191, 193, 197, 199, 211, 223,
     227, 229, 233, 239, 241, 251, 257, 263, 269, 271, 277, 281, 283, 293, 307, 311]"

definition sha_K :: "u32 list" where
  "sha_K = map (\<lambda>p. word_of_int (root_floor 3 (p * 2 ^ 96))) sha_primes"

definition sha_H0 :: "u32 list" where
  "sha_H0 = map (\<lambda>p. word_of_int (root_floor 2 (p * 2 ^ 64))) (take 8 sha_primes)"

definition rotr32 :: "nat \<Rightarrow> u32 \<Rightarrow> u32" where
  "rotr32 n x = rotl32 (32 - n) x"

text \<open>The schedule, newest word first.\<close>

fun sha_schedule :: "nat \<Rightarrow> u32 list \<Rightarrow> u32 list" where
  "sha_schedule 0 ws = ws"
| "sha_schedule (Suc n) ws =
     (let w2 = ws ! 1; w15 = ws ! 14;
          s1 = rotr32 17 w2 XOR rotr32 19 w2 XOR drop_bit 10 w2;
          s0 = rotr32 7 w15 XOR rotr32 18 w15 XOR drop_bit 3 w15 in
      sha_schedule n ((s1 + ws ! 6 + s0 + ws ! 15) # ws))"

fun sha_round :: "u32 \<times> u32 \<Rightarrow> u32 list \<Rightarrow> u32 list" where
  "sha_round (k, w) [a, b, c, d, e, f, g, h] =
     (let t1 = h + (rotr32 6 e XOR rotr32 11 e XOR rotr32 25 e) + ((e AND f) XOR (NOT e AND g)) + k + w;
          t2 = (rotr32 2 a XOR rotr32 13 a XOR rotr32 22 a) + ((a AND b) XOR (a AND c) XOR (b AND c)) in
      [t1 + t2, a, b, c, d + t1, e, f, g])"
| "sha_round _ hs = hs"

definition be_word :: "nat list \<Rightarrow> u32" where
  "be_word bs = word_of_int (le_word (rev bs))"

definition sha_block :: "nat list \<Rightarrow> u32 list \<Rightarrow> u32 list" where
  "sha_block blk hs =
     (let ws = rev (sha_schedule 48 (rev (map be_word (chunks 4 blk)))) in
      map2 (+) hs (fold sha_round (zip sha_K ws) hs))"

definition sha_pad :: "nat list \<Rightarrow> nat list" where
  "sha_pad bs = bs @ [128] @ replicate ((119 - length bs mod 64) mod 64) 0 @ rev (le_bytes 8 (8 * int (length bs)))"

definition Sum256 :: "nat list \<Rightarrow> nat list" where
  "Sum256 bs = concat (map (\<lambda>w. rev (le_bytes 4 (uint w))) (fold sha_block (chunks 64 (sha_pad bs)) sha_H0))"

lemma length_sha_round: "length hs = 8 \<Longrightarrow> length (sha_round kw hs) = 8"
  by (cases "(kw, hs)" rule: sha_round.cases) (auto simp: Let_def)

lemma length_fold_sha_round: "length hs = 8 \<Longrightarrow> length (fold sha_round kws hs) = 8"
  by (induction kws arbitrary: hs) (auto simp: length_sha_round)

lemma length_sha_block: "length hs = 8 \<Longrightarrow> length (sha_block b hs) = 8"
  by (simp add: sha_block_def Let_def length_fold_sha_round)

lemma length_fold_sha_block: "length hs = 8 \<Longrightarrow> length (fold sha_block bs hs) = 8"
  by (induction bs arbitrary: hs) (auto simp: length_sha_block)

lemma length_Sum256: "length (Sum256 bs) = 32"
proof -
  have "length (concat (map (\<lambda>w. rev (le_bytes 4 (uint w))) ws)) = 4 * length ws" for ws :: "u32 list"
    by (induction ws) (auto simp: le_bytes_def)
  moreover have "length sha_H0 = 8" by (simp add: sha_H0_def sha_primes_def)
  ultimately show ?thesis by (simp add: Sum256_def length_fold_sha_block)
qed

end
