(* ===== verification/Go_Json.thy ===== *)
theory Go_Json
  imports Go_Base Complex_Main
begin

text \<open>
  Go's \<open>encoding/json\<close> as far as the code uses it: the decoder into \<open>interface{}\<close> and into
  \<open>[]string\<close>, the encoder of a list of strings. Texts are byte strings; the decoder replaces invalid UTF-8 by
  U+FFFD, joins surrogate escapes, keeps the last of several members with one name, limits the nesting to
  10000 and rejects numbers beyond the range of a float64. The parser recurses on fuel; twice the length of
  the text is enough (\<open>parse_fuel\<close>).
\<close>

section \<open>UTF-8\<close>

definition cont :: "char \<Rightarrow> bool" where
  "cont c \<longleftrightarrow> 128 \<le> byte_val c \<and> byte_val c \<le> 191"

text \<open>The bounds of the second byte (\<open>acceptRanges\<close> of \<open>unicode/utf8\<close>) and the width by the first byte.\<close>

definition second_ok :: "nat \<Rightarrow> nat \<Rightarrow> bool" where
  "second_ok b0 b1 \<longleftrightarrow>
     (if b0 = 224 then 160 \<le> b1 \<and> b1 \<le> 191
      else if b0 = 237 then 128 \<le> b1 \<and> b1 \<le> 159
      else if b0 = 240 then 144 \<le> b1 \<and> b1 \<le> 191
      else if b0 = 244 then 128 \<le> b1 \<and> b1 \<le> 143
      else 128 \<le> b1 \<and> b1 \<le> 191)"

definition width_of :: "nat \<Rightarrow> nat" where
  "width_of b0 =
     (if b0 < 128 then 1 else if b0 < 194 then 0 else if b0 < 224 then 2 else if b0 < 240 then 3
      else if b0 < 245 then 4 else 0)"

text \<open>The width of the rune a text begins with; 0 for an invalid sequence.\<close>

definition rune_len :: "string \<Rightarrow> nat" where
  "rune_len s =
     (case s of [] \<Rightarrow> 0
      | b # bs \<Rightarrow>
          (let n = width_of (byte_val b) in
           if n \<le> 1 then n
           else if length s < n then 0
           else if second_ok (byte_val b) (byte_val (bs ! 0)) \<and> list_all cont (take (n - 2) (drop 1 bs)) then n
           else 0))"

text \<open>\<open>utf8.EncodeRune\<close> of a code point below U+110000 that is no surrogate.\<close>

definition encode_rune :: "nat \<Rightarrow> string" where
  "encode_rune u =
     (if u < 128 then [char_of u]
      else if u < 2048 then [char_of (192 + u div 64), char_of (128 + u mod 64)]
      else if u < 65536 then
        [char_of (224 + u div 4096), char_of (128 + u div 64 mod 64), char_of (128 + u mod 64)]
      else [char_of (240 + u div 262144), char_of (128 + u div 4096 mod 64),
            char_of (128 + u div 64 mod 64), char_of (128 + u mod 64)])"

definition rune_error :: string where "rune_error = encode_rune 0xFFFD"

text \<open>A text as its runes; an invalid byte stands alone.\<close>

fun runes :: "string \<Rightarrow> string option list" where
  "runes [] = []"
| "runes (b # bs) =
     (if rune_len (b # bs) = 0 then None # runes bs
      else Some (take (rune_len (b # bs)) (b # bs)) # runes (drop (rune_len (b # bs) - 1) bs))"

definition valid_utf8 :: "string \<Rightarrow> bool" where
  "valid_utf8 s \<longleftrightarrow> None \<notin> set (runes s)"

definition to_valid :: "string \<Rightarrow> string" where
  "to_valid s = concat (map (\<lambda>r. case r of None \<Rightarrow> rune_error | Some x \<Rightarrow> x) (runes s))"

section \<open>Values\<close>

datatype json = JNull | JBool bool | JNum string | JStr string | JArr "json list" | JObj "(string \<times> json) list"

text \<open>A Go map has the last of several members with the same name.\<close>

definition members :: "(string \<times> json) list \<Rightarrow> string \<Rightarrow> json option" where
  "members kvs = map_of (rev kvs)"

section \<open>Strings\<close>

fun getu4 :: "string \<Rightarrow> (nat \<times> string) option" where
  "getu4 (a # b # c # d # rest) =
     (case (hex_val a, hex_val b, hex_val c, hex_val d) of
        (Some p, Some q, Some r, Some s) \<Rightarrow> Some (((p * 16 + q) * 16 + r) * 16 + s, rest)
      | _ \<Rightarrow> None)"
| "getu4 _ = None"

definition simple_escape :: "char \<Rightarrow> char option" where
  "simple_escape c =
     (if c = CHR 0x22 \<or> c = CHR 0x5C \<or> c = CHR ''/'' then Some c
      else if c = CHR ''b'' then Some (CHR 0x08) else if c = CHR ''f'' then Some (CHR 0x0C)
      else if c = CHR ''n'' then Some (CHR 0x0A) else if c = CHR ''r'' then Some (CHR 0x0D)
      else if c = CHR ''t'' then Some (CHR 0x09) else None)"

text \<open>
  The rune of an escape \<open>\u\<close> and what follows it: a high surrogate joins with a low one that is escaped
  next, any other surrogate is an error rune.
\<close>

definition low_surrogate :: "string \<Rightarrow> (nat \<times> string) option" where
  "low_surrogate r =
     (case r of
        a # b # r2 \<Rightarrow>
          if a = CHR 0x5C \<and> b = CHR ''u'' then
            (case getu4 r2 of
               None \<Rightarrow> None
             | Some (v, r6) \<Rightarrow> if 0xDC00 \<le> v \<and> v < 0xE000 then Some (v, r6) else None)
          else None
      | _ \<Rightarrow> None)"

definition escaped_rune :: "nat \<Rightarrow> string \<Rightarrow> string \<times> string" where
  "escaped_rune u r =
     (if 0xD800 \<le> u \<and> u < 0xDC00 then
        (case low_surrogate r of
           Some (v, r6) \<Rightarrow> (encode_rune (0x10000 + (u - 0xD800) * 1024 + (v - 0xDC00)), r6)
         | None \<Rightarrow> (rune_error, r))
      else if 0xDC00 \<le> u \<and> u < 0xE000 then (rune_error, r)
      else (encode_rune u, r))"

lemma getu4_length: "getu4 s = Some (u, r) \<Longrightarrow> length s = length r + 4"
  by (induction s rule: getu4.induct) (auto split: option.splits)

lemma low_surrogate_length: "low_surrogate r = Some (v, r') \<Longrightarrow> length r' < length r"
  by (auto simp: low_surrogate_def split: list.splits if_splits option.splits dest!: getu4_length)

lemma escaped_rune_length: "escaped_rune u r = (e, r') \<Longrightarrow> length r' \<le> length r"
  by (auto simp: escaped_rune_def split: if_splits option.splits dest!: low_surrogate_length)

text \<open>The text after an opening quote, up to the closing one.\<close>

function str_body :: "string \<Rightarrow> (string \<times> string) option" where
  "str_body [] = None"
| "str_body (c # cs) =
     (if c = CHR 0x22 then Some ([], cs)
      else if c = CHR 0x5C then
        (case cs of
           [] \<Rightarrow> None
         | e # r \<Rightarrow>
             if e = CHR ''u'' then
               (case getu4 r of
                  None \<Rightarrow> None
                | Some (u, r4) \<Rightarrow>
                    map_option (\<lambda>(t, rest). (fst (escaped_rune u r4) @ t, rest)) (str_body (snd (escaped_rune u r4))))
             else
               (case simple_escape e of
                  None \<Rightarrow> None
                | Some x \<Rightarrow> map_option (\<lambda>(t, rest). (x # t, rest)) (str_body r)))
      else if byte_val c < 32 then None
      else if rune_len (c # cs) = 0 then map_option (\<lambda>(t, rest). (rune_error @ t, rest)) (str_body cs)
      else map_option (\<lambda>(t, rest). (take (rune_len (c # cs)) (c # cs) @ t, rest))
             (str_body (drop (rune_len (c # cs) - 1) cs)))"
  by pat_completeness auto

termination
proof (relation "measure length", goal_cases)
  case (2 c cs e r a u r4)
  then show ?case
    using getu4_length escaped_rune_length [of u r4 "fst (escaped_rune u r4)" "snd (escaped_rune u r4)"]
    by (fastforce dest!: getu4_length)
qed auto

declare str_body.simps [simp del]

section \<open>Numbers\<close>

text \<open>An optional sign, an integer part without leading zeros, a fraction, an exponent.\<close>

definition digits :: "string \<Rightarrow> string \<times> string" where
  "digits s = (takeWhile is_digit s, dropWhile is_digit s)"

definition int_part :: "string \<Rightarrow> (string \<times> string) option" where
  "int_part s =
     (case s of
        [] \<Rightarrow> None
      | c # cs \<Rightarrow> if c = CHR ''0'' then Some ([c], cs) else if is_digit c then Some (digits s) else None)"

definition frac_part :: "string \<Rightarrow> (string \<times> string) option" where
  "frac_part s =
     (case s of
        [] \<Rightarrow> Some ([], [])
      | c # cs \<Rightarrow>
          if c = CHR ''.'' then (if fst (digits cs) = [] then None else Some (c # fst (digits cs), snd (digits cs)))
          else Some ([], s))"

definition exp_part :: "string \<Rightarrow> (string \<times> string) option" where
  "exp_part s =
     (case s of
        [] \<Rightarrow> Some ([], [])
      | c # cs \<Rightarrow>
          if c = CHR ''e'' \<or> c = CHR ''E'' then
            (let (sg, ds) = (case cs of [] \<Rightarrow> ([], [])
                             | d # r \<Rightarrow> if d = CHR ''+'' \<or> d = CHR ''-'' then ([d], r) else ([], cs)) in
             if fst (digits ds) = [] then None else Some (c # sg @ fst (digits ds), snd (digits ds)))
          else Some ([], s))"

definition number :: "string \<Rightarrow> (string \<times> string) option" where
  "number s =
     (let (sg, s1) = (case s of [] \<Rightarrow> ([], []) | c # cs \<Rightarrow> if c = CHR ''-'' then ([c], cs) else ([], s)) in
      Option.bind (int_part s1) (\<lambda>(i, s2).
      Option.bind (frac_part s2) (\<lambda>(f, s3).
      Option.bind (exp_part s3) (\<lambda>(x, s4). Some (sg @ i @ f @ x, s4)))))"

text \<open>The magnitude of a literal, and whether a float64 can hold it.\<close>

definition nat_of :: "string \<Rightarrow> nat" where
  "nat_of s = (case parse_digits 0 (filter is_digit s) of None \<Rightarrow> 0 | Some n \<Rightarrow> n)"

definition magnitude :: "string \<Rightarrow> rat" where
  "magnitude lit =
     (let m = takeWhile (\<lambda>c. c \<noteq> CHR ''e'' \<and> c \<noteq> CHR ''E'') lit;
          x = dropWhile (\<lambda>c. c \<noteq> CHR ''e'' \<and> c \<noteq> CHR ''E'') lit;
          fraction = drop 1 (dropWhile (\<lambda>c. c \<noteq> CHR ''.'') m);
          v = of_nat (nat_of m) / 10 ^ length fraction in
      if CHR ''-'' \<in> set x then v / 10 ^ nat_of x else v * 10 ^ nat_of x)"

definition float_range :: "string \<Rightarrow> bool" where
  "float_range lit \<longleftrightarrow> magnitude lit < 2 ^ 1024 - 2 ^ 970"

section \<open>The parser\<close>

definition json_ws :: "char \<Rightarrow> bool" where
  "json_ws c \<longleftrightarrow> byte_val c \<in> {9, 10, 13, 32}"

definition skip_ws :: "string \<Rightarrow> string" where
  "skip_ws s = dropWhile json_ws s"

definition max_depth :: nat where "max_depth = 10000"

definition keyword :: "string \<Rightarrow> (json \<times> string) option" where
  "keyword s =
     (if HasPrefix s ''null'' then Some (JNull, drop 4 s)
      else if HasPrefix s ''true'' then Some (JBool True, drop 4 s)
      else if HasPrefix s ''false'' then Some (JBool False, drop 5 s)
      else map_option (\<lambda>(l, r). (JNum l, r)) (number s))"

text \<open>\<open>p_elems\<close> and \<open>p_members\<close> read what follows an opening bracket that is not closed at once.\<close>

fun p_value :: "nat \<Rightarrow> nat \<Rightarrow> string \<Rightarrow> (json \<times> string) option"
  and p_elems :: "nat \<Rightarrow> nat \<Rightarrow> string \<Rightarrow> (json list \<times> string) option"
  and p_members :: "nat \<Rightarrow> nat \<Rightarrow> string \<Rightarrow> ((string \<times> json) list \<times> string) option"
where
  "p_value 0 d s = None"
| "p_value (Suc n) d s =
     (case skip_ws s of
        [] \<Rightarrow> None
      | c # cs \<Rightarrow>
          if c = CHR 0x22 then map_option (\<lambda>(t, r). (JStr t, r)) (str_body cs)
          else if c = CHR ''['' then
            (if d = 0 then None
             else case skip_ws cs of
                    [] \<Rightarrow> None
                  | e # r \<Rightarrow> if e = CHR '']'' then Some (JArr [], r)
                             else map_option (\<lambda>(xs, r). (JArr xs, r)) (p_elems n (d - 1) (e # r)))
          else if c = CHR ''{'' then
            (if d = 0 then None
             else case skip_ws cs of
                    [] \<Rightarrow> None
                  | e # r \<Rightarrow> if e = CHR ''}'' then Some (JObj [], r)
                             else map_option (\<lambda>(xs, r). (JObj xs, r)) (p_members n (d - 1) (e # r)))
          else keyword (c # cs))"
| "p_elems 0 d s = None"
| "p_elems (Suc n) d s =
     (case p_value n d s of
        None \<Rightarrow> None
      | Some (v, r) \<Rightarrow>
          (case skip_ws r of
             [] \<Rightarrow> None
           | c # cs \<Rightarrow> if c = CHR '']'' then Some ([v], cs)
                       else if c = CHR '','' then map_option (\<lambda>(vs, r). (v # vs, r)) (p_elems n d cs)
                       else None))"
| "p_members 0 d s = None"
| "p_members (Suc n) d s =
     (case skip_ws s of
        [] \<Rightarrow> None
      | q # qs \<Rightarrow>
          if q \<noteq> CHR 0x22 then None
          else case str_body qs of
                 None \<Rightarrow> None
               | Some (k, r) \<Rightarrow>
                   (case skip_ws r of
                      [] \<Rightarrow> None
                    | e # r1 \<Rightarrow>
                        if e \<noteq> CHR '':'' then None
                        else case p_value n d r1 of
                               None \<Rightarrow> None
                             | Some (v, r2) \<Rightarrow>
                                 (case skip_ws r2 of
                                    [] \<Rightarrow> None
                                  | c # cs \<Rightarrow>
                                      if c = CHR ''}'' then Some ([(k, v)], cs)
                                      else if c = CHR '','' then map_option (\<lambda>(vs, r). ((k, v) # vs, r)) (p_members n d cs)
                                      else None)))"

definition fuel_for :: "string \<Rightarrow> nat" where "fuel_for s = 2 * length s + 2"

text \<open>A whole text: one value between white space.\<close>

definition json_parse :: "string \<Rightarrow> json option" where
  "json_parse s =
     (case p_value (fuel_for s) max_depth s of
        None \<Rightarrow> None
      | Some (v, r) \<Rightarrow> if skip_ws r = [] then Some v else None)"

section \<open>Unmarshal\<close>

fun numbers_fit :: "json \<Rightarrow> bool" where
  "numbers_fit (JNum l) = float_range l"
| "numbers_fit (JArr xs) = list_all numbers_fit xs"
| "numbers_fit (JObj kvs) = list_all (\<lambda>(k, v). numbers_fit v) kvs"
| "numbers_fit _ = True"

text \<open>\<open>Unmarshal\<close> into a \<open>map[string]interface{}\<close> and into a \<open>[]string\<close>; a null leaves the zero value.\<close>

definition unmarshal_map :: "string \<Rightarrow> (string \<Rightarrow> json option) option" where
  "unmarshal_map s =
     (case json_parse s of
        Some (JObj kvs) \<Rightarrow> if numbers_fit (JObj kvs) then Some (members kvs) else None
      | Some JNull \<Rightarrow> Some (\<lambda>_. None)
      | _ \<Rightarrow> None)"

fun strings_of :: "json list \<Rightarrow> string list option" where
  "strings_of [] = Some []"
| "strings_of (v # vs) =
     (case (v, strings_of vs) of
        (JStr t, Some ts) \<Rightarrow> Some (t # ts)
      | (JNull, Some ts) \<Rightarrow> Some ([] # ts)
      | _ \<Rightarrow> None)"

definition unmarshal_strings :: "string \<Rightarrow> string list option" where
  "unmarshal_strings s =
     (case json_parse s of
        Some (JArr vs) \<Rightarrow> strings_of vs
      | Some JNull \<Rightarrow> Some []
      | _ \<Rightarrow> None)"

section \<open>Marshal of a list of strings\<close>

definition html_safe :: "nat \<Rightarrow> bool" where
  "html_safe b \<longleftrightarrow> 32 \<le> b \<and> b \<noteq> 34 \<and> b \<noteq> 38 \<and> b \<noteq> 60 \<and> b \<noteq> 62 \<and> b \<noteq> 92"

definition escape_ascii :: "nat \<Rightarrow> string" where
  "escape_ascii b =
     (if html_safe b then [char_of b]
      else if b = 34 \<or> b = 92 then [CHR 0x5C, char_of b]
      else if b = 8 then [CHR 0x5C, CHR ''b''] else if b = 12 then [CHR 0x5C, CHR ''f'']
      else if b = 10 then [CHR 0x5C, CHR ''n''] else if b = 13 then [CHR 0x5C, CHR ''r'']
      else if b = 9 then [CHR 0x5C, CHR ''t'']
      else [CHR 0x5C, CHR ''u'', CHR ''0'', CHR ''0''] @ hex_byte b)"

definition line_separator :: string where "line_separator = encode_rune 0x2028"
definition paragraph_separator :: string where "paragraph_separator = encode_rune 0x2029"

definition quote_rune :: "string option \<Rightarrow> string" where
  "quote_rune r =
     (case r of
        None \<Rightarrow> CHR 0x5C # ''ufffd''
      | Some x \<Rightarrow>
          if length x = 1 then escape_ascii (byte_val (hd x))
          else if x = line_separator then CHR 0x5C # ''u2028''
          else if x = paragraph_separator then CHR 0x5C # ''u2029''
          else x)"

definition quote :: "string \<Rightarrow> string" where
  "quote s = CHR 0x22 # concat (map quote_rune (runes s)) @ [CHR 0x22]"

fun join_with :: "char \<Rightarrow> string list \<Rightarrow> string" where
  "join_with c [] = []"
| "join_with c [x] = x"
| "join_with c (x # xs) = x @ c # join_with c xs"

definition marshal_strings :: "string list \<Rightarrow> string" where
  "marshal_strings xs = CHR ''['' # join_with CHR '','' (map quote xs) @ [CHR '']'']"

section \<open>Runes\<close>

lemma rune_len_le: "rune_len s \<le> length s"
  by (cases s) (auto simp: rune_len_def width_of_def Let_def Suc_le_eq)

lemma rune_len_take:
  assumes "rune_len s = n" and "n \<noteq> 0"
  shows "rune_len (take n s @ t) = n"
proof -
  obtain b bs where s: "s = b # bs" using assms by (cases s) (auto simp: rune_len_def)
  define w where "w = width_of (byte_val b)"
  have n: "n = w" using assms s by (auto simp: rune_len_def w_def Let_def split: if_splits)
  then obtain m where m: "n = Suc m" using assms(2) by (cases n) auto
  show ?thesis
  proof (cases "w \<le> 1")
    case True
    then have w: "w = 1" using n m by simp
    then have "take n s = [b]" using n s by simp
    with w have "w = 1" "take n s = [b]" by simp_all
    then show ?thesis using n by (simp add: rune_len_def flip: w_def)
  next
    case False
    then have len: "m \<le> length bs" and ok: "second_ok (byte_val b) (byte_val (bs ! 0))"
      "list_all cont (take (w - 2) (drop 1 bs))"
      using assms s n m by (auto simp: rune_len_def Let_def simp flip: w_def split: if_splits)
    have m1: "1 \<le> m" using False n m by simp
    have "(take m bs @ t) ! 0 = bs ! 0" using len m1 by (simp add: nth_append)
    moreover have "take (w - 2) (drop 1 (take m bs @ t)) = take (w - 2) (drop 1 bs)"
      using len m1 n m by (simp add: drop_take)
    moreover have "take n s @ t = b # take m bs @ t" using m s by simp
    moreover have "length (take m bs @ t) \<ge> m" using len by simp
    ultimately show ?thesis using False ok n m by (simp add: rune_len_def Let_def flip: w_def)
  qed
qed

lemma runes_Some:
  assumes "Some x \<in> set (runes s)"
  shows "x \<noteq> [] \<and> rune_len (x @ t) = length x"
  using assms
proof (induction s rule: runes.induct)
  case (2 b bs)
  let ?n = "rune_len (b # bs)"
  show ?case
  proof (cases "?n = 0")
    case False
    then have "x = take ?n (b # bs) \<or> Some x \<in> set (runes (drop (?n - 1) bs))" using 2(3) by auto
    then show ?thesis
    proof
      assume x: "x = take ?n (b # bs)"
      then have "length x = ?n" using rune_len_le [of "b # bs"] by simp
      then show ?thesis using rune_len_take [OF refl False, of t] x False by auto
    next
      assume "Some x \<in> set (runes (drop (?n - 1) bs))"
      then show ?thesis using 2(2) False by simp
    qed
  qed (use 2 in simp)
qed simp

lemma to_valid_id: "valid_utf8 s \<Longrightarrow> to_valid s = s"
proof (induction s rule: runes.induct)
  case (2 b bs)
  let ?n = "rune_len (b # bs)"
  have n: "?n \<noteq> 0" using 2(3) by (auto simp: valid_utf8_def split: if_splits)
  then obtain m where m: "?n = Suc m" by (cases ?n) auto
  have "valid_utf8 (drop (?n - 1) bs)" using 2(3) n by (simp add: valid_utf8_def)
  then have "to_valid (drop m bs) = drop m bs" using 2(2) n m by simp
  then show ?case using m by (simp add: to_valid_def)
qed (simp add: to_valid_def)

section \<open>Reading a quoted string\<close>

lemma hex_val_digit: "n < 16 \<Longrightarrow> hex_val (hex_digit n) = Some n"
  by (auto simp: hex_val_def hex_digit_def Let_def)

lemma byte_val_eq: "byte_val c = byte_val d \<longleftrightarrow> c = d"
  by (auto simp: byte_val_def)

lemma char_of_byte_val [simp]: "char_of (byte_val c) = c"
  by (simp add: byte_val_def)

abbreviation rune_val :: "string option \<Rightarrow> string" where
  "rune_val r \<equiv> (case r of None \<Rightarrow> rune_error | Some x \<Rightarrow> x)"

lemma str_body_plain:
  assumes "x \<noteq> []" and "rune_len (x @ t) = length x" and "byte_val (hd x) \<ge> 32"
    and "hd x \<noteq> CHR 0x22" and "hd x \<noteq> CHR 0x5C"
  shows "str_body (x @ t) = map_option (\<lambda>(u, r). (x @ u, r)) (str_body t)"
proof -
  obtain c cs where x: "x = c # cs" using assms(1) by (cases x) auto
  show ?thesis using assms by (simp add: x str_body.simps(2) [of c])
qed

lemma str_body_escape:
  assumes "simple_escape e = Some x" and "e \<noteq> CHR ''u''"
  shows "str_body (CHR 0x5C # e # t) = map_option (\<lambda>(u, r). (x # u, r)) (str_body t)"
  using assms by (simp add: str_body.simps(2))

lemma str_body_unicode:
  assumes "getu4 r = Some (u, t)" and "\<not> (0xD800 \<le> u \<and> u < 0xE000)"
  shows "str_body (CHR 0x5C # CHR ''u'' # r) = map_option (\<lambda>(v, r). (encode_rune u @ v, r)) (str_body t)"
  using assms by (auto simp add: str_body.simps(2) [of "CHR 0x5C"] escaped_rune_def)

lemma rune_len_ascii: "rune_len (c # t) = Suc 0 \<longleftrightarrow> byte_val c < 128"
  by (auto simp: rune_len_def width_of_def Let_def split: if_splits)

lemma str_body_ascii:
  assumes "byte_val c < 128"
  shows "str_body (escape_ascii (byte_val c) @ t) = map_option (\<lambda>(u, r). (c # u, r)) (str_body t)"
proof (cases "html_safe (byte_val c)")
  case True
  have ne: "c \<noteq> CHR 0x22" "c \<noteq> CHR 0x5C"
    using True by (auto simp: html_safe_def byte_val_def)
  have "32 \<le> byte_val c" using True by (simp add: html_safe_def)
  then show ?thesis using str_body_plain [of "[c]" t] assms True ne
    by (simp add: escape_ascii_def rune_len_ascii)
next
  case False
  show ?thesis
  proof (cases "byte_val c \<in> {34, 92, 8, 12, 10, 13, 9}")
    case True
    then have "c \<in> {CHR 0x22, CHR 0x5C, CHR 0x08, CHR 0x0C, CHR 0x0A, CHR 0x0D, CHR 0x09}"
      by (auto simp flip: byte_val_eq) (simp_all add: byte_val_def)
    then show ?thesis using False
      by (auto simp: escape_ascii_def byte_val_def html_safe_def) (simp_all add: str_body_escape simple_escape_def)
  next
    case 2: False
    let ?b = "byte_val c"
    have e: "escape_ascii ?b = [CHR 0x5C, CHR ''u'', CHR ''0'', CHR ''0''] @ hex_byte ?b"
      using 2 False by (simp add: escape_ascii_def)
    have h0: "hex_val CHR ''0'' = Some 0" by (simp add: hex_val_def byte_val_def)
    have "getu4 (CHR ''0'' # CHR ''0'' # hex_digit (?b div 16) # hex_digit (?b mod 16) # t) = Some (?b, t)"
      using assms by (simp add: h0 hex_val_digit)
    moreover have "encode_rune ?b = [c]" using assms by (simp add: encode_rune_def)
    ultimately show ?thesis using assms str_body_unicode [of _ ?b t] by (simp add: e hex_byte_def)
  qed
qed

lemma str_body_rune:
  assumes "r \<in> set (runes s)"
  shows "str_body (quote_rune r @ t) = map_option (\<lambda>(u, rest). (rune_val r @ u, rest)) (str_body t)"
proof (cases r)
  case None
  have "getu4 (''fffd'' @ t) = Some (0xFFFD, t)" by (simp add: hex_val_def byte_val_def)
  from str_body_unicode [OF this] show ?thesis by (simp add: None quote_rune_def rune_error_def)
next
  case (Some x)
  have x: "x \<noteq> []" "rune_len (x @ u) = length x" for u using runes_Some assms Some by blast+
  show ?thesis
  proof (cases "length x = 1")
    case True
    then obtain c where c: "x = [c]" by (cases x) auto
    with x(2) [of "[]"] have "byte_val c < 128" by (simp add: rune_len_ascii)
    then show ?thesis using str_body_ascii [of c t] by (simp add: Some quote_rune_def c)
  next
    case False
    have u4: "getu4 (''2028'' @ t) = Some (0x2028, t)" "getu4 (''2029'' @ t) = Some (0x2029, t)"
      by (simp_all add: hex_val_def byte_val_def)
    obtain c cs where c: "x = c # cs" using x(1) by (cases x) auto
    have "\<not> byte_val c < 128" using False x(2) [of "[]"] rune_len_ascii [of c cs] by (auto simp: c)
    then have h: "32 \<le> byte_val (hd x)" "hd x \<noteq> CHR 0x22" "hd x \<noteq> CHR 0x5C"
      by (auto simp: c byte_val_def)
    show ?thesis
      using str_body_plain [OF x(1) x(2) [of t] h] str_body_unicode [OF u4(1)] str_body_unicode [OF u4(2)] False
      by (simp add: Some quote_rune_def line_separator_def paragraph_separator_def)
  qed
qed

lemma str_body_runes:
  assumes "set rs \<subseteq> set (runes s)"
  shows "str_body (concat (map quote_rune rs) @ CHR 0x22 # t) = Some (concat (map rune_val rs), t)"
  using assms
proof (induction rs)
  case Nil
  show ?case by (simp add: str_body.simps(2))
next
  case (Cons r rs)
  then have "str_body (quote_rune r @ (concat (map quote_rune rs) @ CHR 0x22 # t)) = Some (rune_val r @ concat (map rune_val rs), t)"
    using str_body_rune [of r s "concat (map quote_rune rs) @ CHR 0x22 # t"] by simp
  then show ?case by simp
qed

lemma str_body_quote: "str_body (tl (quote s) @ t) = Some (to_valid s, t)"
  using str_body_runes [of "runes s" s t] by (simp add: quote_def to_valid_def)

section \<open>Encoding and decoding a list of strings\<close>

lemma skip_ws_Cons: "\<not> json_ws c \<Longrightarrow> skip_ws (c # s) = c # s"
  by (simp add: skip_ws_def)

lemma json_ws_facts [simp]:
  "\<not> json_ws CHR 0x22" "\<not> json_ws CHR ''['' " "\<not> json_ws CHR '']''" "\<not> json_ws CHR '',''"
  by (simp_all add: json_ws_def byte_val_def)

lemma p_value_quote: "p_value (Suc n) d (quote s @ t) = Some (JStr (to_valid s), t)"
proof -
  have q: "quote s @ t = CHR 0x22 # (tl (quote s) @ t)" by (simp add: quote_def)
  show ?thesis unfolding q using str_body_quote [of s t] by (simp add: skip_ws_Cons)
qed

lemma p_elems_quotes:
  assumes "xs \<noteq> []" and "length xs < n"
  shows "p_elems n d (join_with CHR '','' (map quote xs) @ CHR '']'' # t) = Some (map (\<lambda>x. JStr (to_valid x)) xs, t)"
  using assms
proof (induction xs arbitrary: n)
  case (Cons x xs)
  then obtain m where n: "n = Suc (Suc m)" by (metis Suc_less_eq2 length_Cons less_imp_Suc_add add_Suc)
  show ?case
  proof (cases xs)
    case Nil
    then show ?thesis using p_value_quote [of m d x "CHR '']'' # t"] by (simp add: n skip_ws_Cons)
  next
    case (Cons y ys)
    let ?rest = "join_with CHR '','' (map quote xs) @ CHR '']'' # t"
    have "p_elems (Suc m) d ?rest = Some (map (\<lambda>x. JStr (to_valid x)) xs, t)"
      using Cons.IH [of "Suc m"] Cons.prems n Cons by simp
    then show ?thesis using p_value_quote [of m d x "CHR '','' # ?rest"] by (simp add: n skip_ws_Cons Cons)
  qed
qed simp

lemma strings_of_JStr: "strings_of (map (\<lambda>x. JStr (f x)) xs) = Some (map f xs)"
  by (induction xs) auto

lemma join_with_Cons: "join_with c (x # xs) = x @ (if xs = [] then [] else c # join_with c xs)"
  by (cases xs) auto

lemma length_join: "length xs \<le> length (join_with c (map quote xs))"
  by (induction xs) (auto simp: quote_def join_with_Cons)

lemma join_quote_Cons: "xs \<noteq> [] \<Longrightarrow> \<exists>r. join_with c (map quote xs) = CHR 0x22 # r"
  by (cases xs) (auto simp: quote_def join_with_Cons)

text \<open>Reading back a written list gives the list, with invalid UTF-8 replaced.\<close>

lemma unmarshal_marshal: "unmarshal_strings (marshal_strings xs) = Some (map to_valid xs)"
proof (cases "xs = []")
  case True
  have "p_value (Suc n) 10000 ''[]'' = Some (JArr [], [])" for n by (simp add: skip_ws_Cons)
  from this [of 5] show ?thesis
    by (simp add: True unmarshal_strings_def marshal_strings_def json_parse_def fuel_for_def max_depth_def skip_ws_def)
next
  case False
  let ?j = "join_with CHR '','' (map quote xs)"
  obtain r where r: "?j = CHR 0x22 # r" using join_quote_Cons [OF False] by blast
  define k where "k = 2 * length (marshal_strings xs) + 1"
  have len: "length xs < k" using length_join [of xs "CHR '',''"] by (simp add: k_def marshal_strings_def)
  have "p_value (Suc k) max_depth (marshal_strings xs) = Some (JArr (map (\<lambda>x. JStr (to_valid x)) xs), [])"
    using p_elems_quotes [OF False len, of 9999 "[]"] r
    by (simp add: marshal_strings_def skip_ws_Cons max_depth_def del: p_elems.simps)
  moreover have "fuel_for (marshal_strings xs) = Suc k" by (simp add: fuel_for_def k_def)
  ultimately have "p_value (fuel_for (marshal_strings xs)) max_depth (marshal_strings xs) =
      Some (JArr (map (\<lambda>x. JStr (to_valid x)) xs), [])" by simp
  then show ?thesis by (simp add: unmarshal_strings_def json_parse_def strings_of_JStr skip_ws_def)
qed

section \<open>Enough fuel\<close>

lemma skip_ws_length: "length (skip_ws s) \<le> length s"
  by (simp add: skip_ws_def length_dropWhile_le)

lemma skip_ws_ConsD: "skip_ws s = c # cs \<Longrightarrow> length cs < length s"
  using skip_ws_length [of s] by simp

lemma str_body_length: "str_body s = Some (t, r) \<Longrightarrow> length r < length s"
proof (induction s arbitrary: t r rule: str_body.induct)
  case (2 c cs)
  show ?case
  proof (cases "c = CHR 0x22 \<or> c = CHR 0x5C")
    case False
    then show ?thesis using 2 by (fastforce simp: str_body.simps(2) [of c] split: if_splits)
  next
    case True
    show ?thesis
    proof (cases "c = CHR 0x22")
      case True
      then show ?thesis using 2(5) by (simp add: str_body.simps(2))
    next
      case False
      with True have c: "c = CHR 0x5C" by simp
      with 2(5) obtain e u where cs: "cs = e # u" by (cases cs) (auto simp: str_body.simps(2))
      show ?thesis
      proof (cases "e = CHR ''u''")
        case True
        with 2(5) c cs obtain v r4 where g: "getu4 u = Some (v, r4)"
          by (auto simp: str_body.simps(2) split: option.splits)
        have l: "length (snd (escaped_rune v r4)) < length u"
          using escaped_rune_length [of v r4 "fst (escaped_rune v r4)" "snd (escaped_rune v r4)"] getu4_length [OF g] by simp
        obtain t' where "str_body (snd (escaped_rune v r4)) = Some (t', r)"
          using 2(5) c cs True g by (auto simp: str_body.simps(2))
        then have "length r < length (snd (escaped_rune v r4))"
          using 2(1) [OF False c cs True g] by simp
        then show ?thesis using l cs by simp
      next
        case ne: False
        then show ?thesis using 2(2) [OF False c cs ne] 2(5) c cs
          by (fastforce simp: str_body.simps(2) split: option.splits)
      qed
    qed
  qed
qed (simp add: str_body.simps)

lemma number_length: "number s = Some (l, r) \<Longrightarrow> length r < length s"
proof -
  assume n: "number s = Some (l, r)"
  define s1 where "s1 = snd (case s of [] \<Rightarrow> ([], []) | c # cs \<Rightarrow> if c = CHR ''-'' then ([c], cs) else ([], s))"
  have s1: "length s1 \<le> length s" by (auto simp: s1_def split: list.splits)
  obtain i s2 f s3 x where i: "int_part s1 = Some (i, s2)" and f: "frac_part s2 = Some (f, s3)"
    and x: "exp_part s3 = Some (x, r)"
    using n unfolding number_def s1_def
    by (auto simp: Let_def Option.bind_eq_Some_conv split: list.splits if_splits)
  have "length s2 < length s1"
    using i by (auto simp: int_part_def digits_def less_Suc_eq_le length_dropWhile_le split: list.splits if_splits)
  moreover have "length s3 \<le> length s2"
    using f by (auto simp: frac_part_def digits_def le_SucI length_dropWhile_le split: list.splits if_splits)
  moreover have "length r \<le> length s3"
    using x by (auto simp: exp_part_def digits_def Let_def le_SucI length_dropWhile_le split: list.splits if_splits)
  ultimately show "length r < length s" using s1 by linarith
qed

lemma HasPrefix_length: "HasPrefix s p \<Longrightarrow> length p \<le> length s"
  by (metis HasPrefix_def length_take min.cobounded1 nat_le_linear)

lemma keyword_length: "keyword s = Some (v, r) \<Longrightarrow> length r < length s"
  by (auto simp: keyword_def number_length dest!: HasPrefix_length split: if_splits)

lemma parse_length:
  "p_value n d s = Some (v, r) \<Longrightarrow> length r < length s"
  "p_elems n d s = Some (vs, r) \<Longrightarrow> length r < length s"
  "p_members n d s = Some (kvs, r) \<Longrightarrow> length r < length s"
proof (induction n d s and n d s and n d s arbitrary: v r and vs r and kvs r
    rule: p_value_p_elems_p_members.induct)
  case (2 n d s)
  obtain c cs where c: "skip_ws s = c # cs" using 2(3) by (cases "skip_ws s") auto
  show ?case
  proof (cases "c = CHR 0x22 \<or> c = CHR ''['' \<or> c = CHR ''{''")
    case False
    then show ?thesis using 2(3) c keyword_length [of "c # cs" v r] skip_ws_length [of s] by simp
  next
    case True
    then show ?thesis
      using 2 c skip_ws_ConsD [OF c] skip_ws_length [of cs]
      by (auto split: list.splits if_splits dest!: str_body_length) fastforce+
  qed
next
  case (4 n d s)
  then show ?case
    by (auto split: option.splits list.splits if_splits dest!: skip_ws_ConsD) fastforce+
next
  case (6 n d s)
  then show ?case
    by (auto split: option.splits list.splits if_splits dest!: skip_ws_ConsD str_body_length) fastforce+
qed simp_all

lemma more_fuel:
  "2 * length s < n \<Longrightarrow> n \<le> m \<Longrightarrow> p_value m d s = p_value n d s"
  "2 * length s + 1 < n \<Longrightarrow> n \<le> m \<Longrightarrow> p_elems m d s = p_elems n d s"
  "2 * length s + 1 < n \<Longrightarrow> n \<le> m \<Longrightarrow> p_members m d s = p_members n d s"
proof (induction n d s and n d s and n d s arbitrary: m and m and m rule: p_value_p_elems_p_members.induct)
  case (2 n d s)
  obtain k where m: "m = Suc k" "n \<le> k" using 2(4) by (cases m) auto
  show ?case
  proof (cases "skip_ws s")
    case (Cons c cs)
    have l: "length (skip_ws cs) < length s" using skip_ws_ConsD [OF Cons] skip_ws_length [of cs] by simp
    show ?thesis
    proof (cases "skip_ws cs")
      case sk: (Cons e r)
      have "p_elems k (d - 1) (e # r) = p_elems n (d - 1) (e # r)"
        if "c = CHR ''[''" "d \<noteq> 0" "e \<noteq> CHR '']''"
      proof (rule 2(1) [OF Cons _ that(1,2) sk that(3)])
        show "c \<noteq> CHR 0x22" using that by simp
        show "2 * length (e # r) + 1 < n" using l sk 2(3) by simp
      qed (rule m(2))
      moreover have "p_members k (d - 1) (e # r) = p_members n (d - 1) (e # r)"
        if "c = CHR ''{''" "d \<noteq> 0" "e \<noteq> CHR ''}''"
      proof (rule 2(2) [OF Cons _ _ that(1,2) sk that(3)])
        show "c \<noteq> CHR 0x22" "c \<noteq> CHR ''[''" using that by simp_all
        show "2 * length (e # r) + 1 < n" using l sk 2(3) by simp
      qed (rule m(2))
      ultimately show ?thesis
        unfolding m(1) p_value.simps Cons list.case sk by (intro if_cong refl arg_cong [where f = "map_option _"]; blast)
    qed (simp add: m Cons)
  qed (simp add: m)
next
  case (4 n d s)
  obtain k where m: "m = Suc k" "n \<le> k" using 4(4) by (cases m) auto
  have v: "p_value k d s = p_value n d s" by (rule 4(1)) (use 4(3) m(2) in simp_all)
  show ?case
  proof (cases "p_value n d s")
    case (Some x)
    obtain w r where x: "x = (w, r)" by (cases x)
    have "p_elems k d cs = p_elems n d cs" if "skip_ws r = CHR '','' # cs" for cs
    proof -
      have "length cs + 1 < length s" using parse_length(1) [OF Some [unfolded x]] skip_ws_ConsD [OF that] by simp
      then show ?thesis
        by (intro 4(2) [OF Some x [symmetric] that]) (use 4(3) m(2) in simp_all)
    qed
    then show ?thesis using v Some x by (auto simp: m split: list.splits)
  qed (use v m in simp)
next
  case (6 n d s)
  obtain k where m: "m = Suc k" "n \<le> k" using 6(4) by (cases m) auto
  show ?case
  proof (cases "skip_ws s")
    case (Cons q qs)
    show ?thesis
    proof (cases "q = CHR 0x22 \<and> str_body qs \<noteq> None")
      case True
      then obtain t r where q: "q = CHR 0x22" and r: "str_body qs = Some (t, r)" by auto
      show ?thesis
      proof (cases "skip_ws r")
        case sk: (Cons e r1)
        have len: "length r1 + 2 < length s"
          using skip_ws_ConsD [OF Cons] str_body_length [OF r] skip_ws_ConsD [OF sk] by simp
        have v: "e = CHR '':'' \<Longrightarrow> p_value k d r1 = p_value n d r1"
          by (rule 6(1) [OF Cons _ r refl sk]) (use q len 6(3) m(2) in simp_all)
        have "p_members k d cs = p_members n d cs"
          if "e = CHR '':''" "p_value n d r1 = Some (w, r2)" "skip_ws r2 = CHR '','' # cs" for w r2 cs
        proof -
          have "length cs + 4 < length s"
            using parse_length(1) [OF that(2)] skip_ws_ConsD [OF that(3)] len by simp
          then show ?thesis
            by (intro 6(2) [OF Cons _ r refl sk _ that(2) refl that(3)]) (use q that(1) 6(3) m(2) in simp_all)
        qed
        then show ?thesis using v q r by (auto simp: m Cons sk split: option.splits list.splits)
      qed (simp add: m Cons q r)
    qed (auto simp: m Cons split: option.split)
  qed (simp add: m)
qed auto

text \<open>The fuel of \<open>json_parse\<close> is enough: more of it reads the same.\<close>

lemma parse_fuel: "fuel_for s \<le> n \<Longrightarrow> p_value n d s = p_value (fuel_for s) d s"
  by (rule more_fuel) (simp_all add: fuel_for_def)

end
