(* ===== verification/Api_Keys.thy ===== *)
theory Api_Keys
  imports Crypto_Box Sha256 Go_Json Sql_Tx
begin

text \<open>
  API keys (internal/apikey): the DAO, the service that creates, edits and verifies keys, and the middleware
  of the gateway. Times are milliseconds. The random bytes of a key are an argument, as are two things MySQL
  does: \<open>jn\<close> is the text a JSON column returns for a stored one, \<open>same\<close> the column's collation. Columns
  the code never reads back (created_at, updated_at) are left out.
\<close>

section \<open>Table\<close>

record api_key =
  k_id :: nat
  k_user :: nat
  k_name :: string
  k_prefix :: string
  k_hash :: string
  k_quota_limit :: int
  k_quota_used :: int
  k_models :: "string option"
  k_ips :: "string option"
  k_rpm :: int
  k_tpm :: int
  k_expires :: "int option"
  k_enabled :: bool
  k_last_used :: "int option"
  k_last_ip :: string
  k_deleted :: "int option"

record apikey_db =
  api_keys :: "api_key list"
  keys_next :: nat

definition k_live :: "api_key \<Rightarrow> bool" where "k_live k \<longleftrightarrow> k_deleted k = None"

definition InternalKeyName :: string where "InternalKeyName = ''__playground__''"

section \<open>DAO\<close>

text \<open>The insert gives every column; the index on \<open>key_hash\<close> spans deleted rows as well.\<close>

definition insert_key :: "(string \<Rightarrow> string) \<Rightarrow> api_key \<Rightarrow> apikey_db \<Rightarrow> nat result \<times> apikey_db" where
  "insert_key jn k d =
     (if k_hash k \<in> set (map k_hash (api_keys d)) then (Inl EDuplicate, d)
      else (Inr (keys_next d),
        d\<lparr>api_keys := api_keys d @ [k\<lparr>k_id := keys_next d, k_quota_used := 0,
            k_models := map_option jn (k_models k), k_ips := map_option jn (k_ips k),
            k_expires := map_option datetime (k_expires k), k_last_used := None, k_last_ip := '''',
            k_deleted := None\<rparr>],
          keys_next := keys_next d + 1\<rparr>))"

definition Key_Create :: "(string \<Rightarrow> string) \<Rightarrow> api_key \<Rightarrow> (apikey_db sess, nat) action" where
  "Key_Create jn k = stmt (insert_key jn k)"

definition select_key :: "(api_key \<Rightarrow> bool) \<Rightarrow> (apikey_db sess, api_key) action" where
  "select_key hit =
     mapErr (\<lambda>e. if e = ENoRows then ErrNotFound else e)
       (stmt (\<lambda>d. (case find hit (api_keys d) of None \<Rightarrow> Inl ENoRows | Some k \<Rightarrow> Inr k, d)))"

definition Key_GetByID :: "nat \<Rightarrow> (apikey_db sess, api_key) action" where
  "Key_GetByID i = select_key (\<lambda>k. k_id k = i \<and> k_live k)"

definition GetByHash :: "string \<Rightarrow> (apikey_db sess, api_key) action" where
  "GetByHash hash = select_key (\<lambda>k. k_hash k = hash \<and> k_enabled k \<and> k_live k)"

definition visible :: "(string \<Rightarrow> string \<Rightarrow> bool) \<Rightarrow> nat \<Rightarrow> api_key \<Rightarrow> bool" where
  "visible same userID k \<longleftrightarrow> k_user k = userID \<and> k_live k \<and> \<not> same (k_name k) InternalKeyName"

definition newest :: "api_key list \<Rightarrow> api_key list" where
  "newest ks = rev (sort_key k_id ks)"

definition Key_ListByUser ::
  "(string \<Rightarrow> string \<Rightarrow> bool) \<Rightarrow> nat \<Rightarrow> nat \<Rightarrow> nat \<Rightarrow> (apikey_db sess, api_key list \<times> nat) action" where
  "Key_ListByUser same userID offset limit =
     bindE (stmt (\<lambda>d. (Inr (length (filter (visible same userID) (api_keys d))), d))) (\<lambda>n.
     bindE (stmt (\<lambda>d. (Inr (take limit (drop offset (newest (filter (visible same userID) (api_keys d))))), d))) (\<lambda>rows.
     okE (rows, n)))"

definition CountActiveByUser :: "(string \<Rightarrow> string \<Rightarrow> bool) \<Rightarrow> nat \<Rightarrow> (apikey_db sess, nat) action" where
  "CountActiveByUser same userID = stmt (\<lambda>d. (Inr (length (filter (visible same userID) (api_keys d))), d))"

definition GetByUserAndName ::
  "(string \<Rightarrow> string \<Rightarrow> bool) \<Rightarrow> nat \<Rightarrow> string \<Rightarrow> (apikey_db sess, api_key) action" where
  "GetByUserAndName same userID name =
     mapErr (\<lambda>e. if e = ENoRows then ErrNotFound else e)
       (stmt (\<lambda>d. (case newest (filter (\<lambda>k. k_user k = userID \<and> same (k_name k) name \<and> k_live k) (api_keys d)) of
                    [] \<Rightarrow> Inl ENoRows | k # _ \<Rightarrow> Inr k, d)))"

definition update_keys ::
  "(api_key \<Rightarrow> bool) \<Rightarrow> (api_key \<Rightarrow> api_key) \<Rightarrow> apikey_db \<Rightarrow> unit result \<times> apikey_db" where
  "update_keys hit f d = (Inr (), d\<lparr>api_keys := map (\<lambda>k. if hit k then f k else k) (api_keys d)\<rparr>)"

definition key_columns :: "(string \<Rightarrow> string) \<Rightarrow> api_key \<Rightarrow> api_key \<Rightarrow> api_key" where
  "key_columns jn k old =
     old\<lparr>k_name := k_name k, k_quota_limit := k_quota_limit k, k_models := map_option jn (k_models k),
         k_ips := map_option jn (k_ips k), k_rpm := k_rpm k, k_tpm := k_tpm k,
         k_expires := map_option datetime (k_expires k), k_enabled := k_enabled k\<rparr>"

definition Key_Update :: "(string \<Rightarrow> string) \<Rightarrow> api_key \<Rightarrow> (apikey_db sess, unit) action" where
  "Key_Update jn k =
     stmt (update_keys (\<lambda>r. k_id r = k_id k \<and> k_user r = k_user k \<and> k_live r) (key_columns jn k))"

definition Key_SoftDelete :: "int \<Rightarrow> nat \<Rightarrow> nat \<Rightarrow> (apikey_db sess, unit) action" where
  "Key_SoftDelete now userID i =
     stmt (update_keys (\<lambda>r. k_id r = i \<and> k_user r = userID) (\<lambda>r. r\<lparr>k_deleted := Some (datetime now)\<rparr>))"

text \<open>The sum of a BIGINT column overflows with an error.\<close>

definition TouchUsage :: "int \<Rightarrow> nat \<Rightarrow> string \<Rightarrow> int \<Rightarrow> (apikey_db sess, unit) action" where
  "TouchUsage now i ip addUsed =
     stmt (\<lambda>d. if \<exists>r\<in>set (api_keys d). k_id r = i \<and> \<not> in_i64 (k_quota_used r + addUsed) then (Inl EOutOfRange, d)
               else update_keys (\<lambda>r. k_id r = i)
                      (\<lambda>r. r\<lparr>k_last_used := Some (datetime now), k_last_ip := ip,
                             k_quota_used := k_quota_used r + addUsed\<rparr>) d)"

section \<open>Secrets\<close>

definition base64_raw_url :: "nat list \<Rightarrow> string" where
  "base64_raw_url bs = filter (\<lambda>c. c \<noteq> CHR ''='') (b64_encode url_alphabet bs)"

definition generateSecret :: "nat list option \<Rightarrow> string result" where
  "generateSecret rnd =
     (case rnd of
        None \<Rightarrow> Inl (EMsg ''rand'')
      | Some buf \<Rightarrow> Inr (''sk-'' @ map (\<lambda>c. if c = CHR ''-'' then CHR ''x'' else if c = CHR ''_'' then CHR ''y'' else c)
                                   (base64_raw_url buf)))"

definition HashKey :: "string \<Rightarrow> string" where
  "HashKey key = EncodeToString (Sum256 (bytes_of key))"

section \<open>Service\<close>

text \<open>The settings the service asks for, when it has been given the settings service.\<close>

record key_settings =
  ks_max_per_user :: int
  ks_default_quota :: int

record create_key =
  ck_name :: string
  ck_quota :: int
  ck_models :: "string list"
  ck_ips :: "string list"
  ck_rpm :: int
  ck_tpm :: int
  ck_expires :: "int option"

record update_key =
  uk_name :: string
  uk_quota :: int
  uk_models :: "string list option"
  uk_ips :: "string list option"
  uk_rpm :: int
  uk_tpm :: int
  uk_expires :: "int option"
  uk_enabled :: "bool option"

definition jsonListNullable :: "string list \<Rightarrow> string option" where
  "jsonListNullable xs = (if xs = [] then None else Some (marshal_strings xs))"

definition new_key :: "nat \<Rightarrow> string \<Rightarrow> string \<Rightarrow> api_key" where
  "new_key userID name key =
     \<lparr>k_id = 0, k_user = userID, k_name = name, k_prefix = take 11 key, k_hash = HashKey key,
      k_quota_limit = 0, k_quota_used = 0, k_models = None, k_ips = None, k_rpm = 0, k_tpm = 0,
      k_expires = None, k_enabled = True, k_last_used = None, k_last_ip = '''', k_deleted = None\<rparr>"

definition EnsureInternalKey ::
  "(string \<Rightarrow> string) \<Rightarrow> (string \<Rightarrow> string \<Rightarrow> bool) \<Rightarrow> nat list option \<Rightarrow> nat \<Rightarrow> (apikey_db sess, api_key) action" where
  "EnsureInternalKey jn same rnd userID =
     catchE (GetByUserAndName same userID InternalKeyName) (\<lambda>r.
       case r of
         Inr k \<Rightarrow> okE k
       | Inl e \<Rightarrow>
           if e \<noteq> ErrNotFound then failE e
           else bindE (liftE (generateSecret rnd)) (\<lambda>raw.
                let k = new_key userID InternalKeyName raw in
                bindE (Key_Create jn k) (\<lambda>i. okE (k\<lparr>k_id := i\<rparr>))))"

definition key_quota :: "key_settings option \<Rightarrow> int \<Rightarrow> int" where
  "key_quota st q = (case st of None \<Rightarrow> q | Some c \<Rightarrow> if q \<le> 0 then ks_default_quota c else q)"

definition check_key_count ::
  "(string \<Rightarrow> string \<Rightarrow> bool) \<Rightarrow> key_settings option \<Rightarrow> nat \<Rightarrow> (apikey_db sess, unit) action" where
  "check_key_count same st userID =
     (case st of
        None \<Rightarrow> okE ()
      | Some c \<Rightarrow>
          if ks_max_per_user c > 0 then
            bindE (CountActiveByUser same userID) (\<lambda>n.
            if int n \<ge> ks_max_per_user c then failE ErrKeyCountLimit else okE ())
          else okE ())"

definition Key_Service_Create ::
  "(string \<Rightarrow> string) \<Rightarrow> (string \<Rightarrow> string \<Rightarrow> bool) \<Rightarrow> key_settings option \<Rightarrow> nat list option \<Rightarrow> nat \<Rightarrow> create_key \<Rightarrow>
   (apikey_db sess, string \<times> api_key) action" where
  "Key_Service_Create jn same st rnd userID inp =
     bindE (check_key_count same st userID) (\<lambda>_.
     bindE (liftE (generateSecret rnd)) (\<lambda>key.
     let k = (new_key userID (ck_name inp) key)\<lparr>k_quota_limit := key_quota st (ck_quota inp),
               k_models := jsonListNullable (ck_models inp), k_ips := jsonListNullable (ck_ips inp),
               k_rpm := ck_rpm inp, k_tpm := ck_tpm inp, k_expires := ck_expires inp\<rparr> in
     bindE (Key_Create jn k) (\<lambda>i. okE (key, k\<lparr>k_id := i\<rparr>))))"

definition edit_key :: "update_key \<Rightarrow> api_key \<Rightarrow> api_key" where
  "edit_key inp k =
     k\<lparr>k_name := (if uk_name inp \<noteq> '''' then uk_name inp else k_name k),
       k_quota_limit := (if uk_quota inp \<ge> 0 then uk_quota inp else k_quota_limit k),
       k_models := (case uk_models inp of None \<Rightarrow> k_models k | Some xs \<Rightarrow> jsonListNullable xs),
       k_ips := (case uk_ips inp of None \<Rightarrow> k_ips k | Some xs \<Rightarrow> jsonListNullable xs),
       k_rpm := (if uk_rpm inp \<ge> 0 then uk_rpm inp else k_rpm k),
       k_tpm := (if uk_tpm inp \<ge> 0 then uk_tpm inp else k_tpm k),
       k_expires := (case uk_expires inp of None \<Rightarrow> k_expires k | Some t \<Rightarrow> Some t),
       k_enabled := (case uk_enabled inp of None \<Rightarrow> k_enabled k | Some b \<Rightarrow> b)\<rparr>"

definition Key_Service_Update ::
  "(string \<Rightarrow> string) \<Rightarrow> nat \<Rightarrow> nat \<Rightarrow> update_key \<Rightarrow> (apikey_db sess, api_key) action" where
  "Key_Service_Update jn userID i inp =
     bindE (Key_GetByID i) (\<lambda>k.
     if k_user k \<noteq> userID then failE (EMsg ''forbidden'')
     else bindE (Key_Update jn (edit_key inp k)) (\<lambda>_. okE (edit_key inp k)))"

definition Key_Service_Delete :: "int \<Rightarrow> nat \<Rightarrow> nat \<Rightarrow> (apikey_db sess, unit) action" where
  "Key_Service_Delete now userID i = Key_SoftDelete now userID i"

text \<open>Every failure of the lookup, a lost connection included, is reported as an unknown key.\<close>

definition Key_Verify :: "int \<Rightarrow> string \<Rightarrow> (apikey_db sess, api_key) action" where
  "Key_Verify now key =
     (if \<not> HasPrefix key ''sk-'' then failE (EMsg ''API Key format'')
      else catchE (GetByHash (HashKey key)) (\<lambda>r.
        case r of
          Inl e \<Rightarrow> failE (EMsg ''API Key unknown or disabled'')
        | Inr k \<Rightarrow>
            if (case k_expires k of None \<Rightarrow> False | Some t \<Rightarrow> now > t) then failE (EMsg ''API Key expired'')
            else if k_quota_limit k > 0 \<and> k_quota_used k \<ge> k_quota_limit k then failE (EMsg ''API Key quota exhausted'')
            else okE k))"

definition list_allows :: "string option \<Rightarrow> string \<Rightarrow> bool" where
  "list_allows col x =
     (case col of
        None \<Rightarrow> True
      | Some t \<Rightarrow>
          if t = '''' then True
          else case unmarshal_strings t of
                 None \<Rightarrow> True
               | Some xs \<Rightarrow> if xs = [] then True else x \<in> set xs)"

definition ModelAllowed :: "api_key \<Rightarrow> string \<Rightarrow> bool" where
  "ModelAllowed k slug = list_allows (k_models k) slug"

definition IPAllowed :: "api_key \<Rightarrow> string \<Rightarrow> bool" where
  "IPAllowed k ip = list_allows (k_ips k) ip"

section \<open>Middleware\<close>

text \<open>An absent header is an empty one; \<open>query\<close> is the parameter \<open>api_key\<close>.\<close>

definition extractKey :: "string \<Rightarrow> string \<Rightarrow> bool \<Rightarrow> string" where
  "extractKey header query allowQuery =
     (if header \<noteq> '''' then
        (if HasPrefix header ''Bearer '' then TrimSpace (drop 7 header) else TrimSpace header)
      else if allowQuery then query else '''')"

datatype auth_error = missing_api_key | invalid_api_key go_err | ip_not_allowed

definition Middleware ::
  "bool \<Rightarrow> int \<Rightarrow> string \<Rightarrow> string \<Rightarrow> string \<Rightarrow> apikey_db sess \<Rightarrow> (auth_error + api_key) \<times> apikey_db sess" where
  "Middleware allowQuery now header query ip s =
     (let raw = extractKey header query allowQuery in
      if raw = '''' then (Inl missing_api_key, s)
      else case Key_Verify now raw s of
             (Inl e, s') \<Rightarrow> (Inl (invalid_api_key e), s')
           | (Inr k, s') \<Rightarrow> if \<not> IPAllowed k ip then (Inl ip_not_allowed, s') else (Inr k, s'))"

end
