(* ===== verification/Api_Key_Laws.thy ===== *)
theory Api_Key_Laws
  imports Api_Keys
begin

text \<open>
  What holds of API keys: hashes and ids stay unique and one user's operations never touch another user's
  keys, over any run of operations and driver faults; a key that was issued is accepted by the gateway with
  exactly the white lists it was created with; whom the gateway accepts; and how the reserved name gets round
  the limit on the number of keys.
\<close>

section \<open>Runs of operations\<close>

datatype key_op =
    OpCreate nat "key_settings option" "nat list option" create_key
  | OpInternal nat "nat list option"
  | OpUpdate nat nat update_key
  | OpDelete nat int nat
  | OpTouch int nat string int

fun key_step :: "(string \<Rightarrow> string) \<Rightarrow> (string \<Rightarrow> string \<Rightarrow> bool) \<Rightarrow> key_op \<Rightarrow> apikey_db sess \<Rightarrow> apikey_db sess" where
  "key_step jn same (OpCreate u st rnd inp) s = snd (Key_Service_Create jn same st rnd u inp s)"
| "key_step jn same (OpInternal u rnd) s = snd (EnsureInternalKey jn same rnd u s)"
| "key_step jn same (OpUpdate u i inp) s = snd (Key_Service_Update jn u i inp s)"
| "key_step jn same (OpDelete u now i) s = snd (Key_Service_Delete now u i s)"
| "key_step jn same (OpTouch now i ip n) s = snd (TouchUsage now i ip n s)"

definition keys_wf :: "apikey_db \<Rightarrow> bool" where
  "keys_wf d \<longleftrightarrow> distinct (map k_hash (api_keys d)) \<and> distinct (map k_id (api_keys d)) \<and>
     (\<forall>k\<in>set (api_keys d). k_id k < keys_next d)"

definition keys_of :: "nat \<Rightarrow> apikey_db \<Rightarrow> api_key list" where
  "keys_of v d = filter (\<lambda>k. k_user k = v) (api_keys d)"

text \<open>Updates that keep owner, id and hash; inserts.\<close>

lemma update_keys_wf:
  assumes "keys_wf d" and "\<And>k. k_hash (f k) = k_hash k \<and> k_id (f k) = k_id k"
  shows "keys_wf (snd (update_keys hit f d))"
proof -
  have "k_hash \<circ> (\<lambda>k. if hit k then f k else k) = k_hash" "k_id \<circ> (\<lambda>k. if hit k then f k else k) = k_id"
    using assms(2) by auto
  then show ?thesis using assms by (auto simp: update_keys_def keys_wf_def)
qed

lemma update_keys_of:
  assumes "\<And>k. k_user (f k) = k_user k" and "\<And>k. hit k \<Longrightarrow> k_user k \<noteq> v"
  shows "keys_of v (snd (update_keys hit f d)) = keys_of v d"
proof -
  have "filter (\<lambda>k. k_user k = v) (map (\<lambda>k. if hit k then f k else k) ks) = filter (\<lambda>k. k_user k = v) ks" for ks
    by (induction ks) (use assms in auto)
  then show ?thesis by (simp add: update_keys_def keys_of_def)
qed

lemma insert_key_wf: "keys_wf d \<Longrightarrow> keys_wf (snd (insert_key jn k d))"
  by (auto simp: insert_key_def keys_wf_def less_Suc_eq dest: less_imp_neq)

lemma insert_key_of: "k_user k \<noteq> v \<Longrightarrow> keys_of v (snd (insert_key jn k d)) = keys_of v d"
  by (simp add: insert_key_def keys_of_def)

lemma key_reads [intro]:
  "reads (select_key hit)" "reads (Key_GetByID i)" "reads (GetByHash h)" "reads (CountActiveByUser same u)"
  "reads (GetByUserAndName same u nm)" "reads (check_key_count same st u)"
proof -
  show sel: "reads (select_key hit)" for hit unfolding select_key_def by (intro reads_mapErr reads_stmt) simp
  show "reads (Key_GetByID i)" "reads (GetByHash h)" unfolding Key_GetByID_def GetByHash_def by (rule sel)+
  show c: "reads (CountActiveByUser same u)" for same u unfolding CountActiveByUser_def by (intro reads_stmt) simp
  show "reads (GetByUserAndName same u nm)" unfolding GetByUserAndName_def by (intro reads_mapErr reads_stmt) simp
  show "reads (check_key_count same st u)" unfolding check_key_count_def by (intro reads_intros c)
qed

lemma reads_Key_Verify: "reads (Key_Verify now key)"
  unfolding Key_Verify_def by (intro reads_intros reads_catchE key_reads)

text \<open>Any property that the two kinds of writes keep is kept by every operation.\<close>

locale key_frame =
  fixes P :: "apikey_db \<Rightarrow> bool" and owner :: "nat \<Rightarrow> bool"
  assumes insert_keeps: "owner (k_user k) \<Longrightarrow> P d \<Longrightarrow> P (snd (insert_key jn k d))"
    and update_keeps: "(\<And>k. k_user (f k) = k_user k \<and> k_hash (f k) = k_hash k \<and> k_id (f k) = k_id k) \<Longrightarrow>
      (\<And>k. hit k \<Longrightarrow> owner (k_user k)) \<Longrightarrow> P d \<Longrightarrow> P (snd (update_keys hit f d))"
begin

lemma create_keeps: "owner (k_user k) \<Longrightarrow> preserves P (Key_Create jn k)"
  unfolding Key_Create_def by (intro preserves_stmt insert_keeps)

lemma service_create_keeps: "owner u \<Longrightarrow> preserves P (Key_Service_Create jn same st rnd u inp)"
  unfolding Key_Service_Create_def Let_def
  by (intro preserves_intros preserves_reads [OF key_reads(6)] preserves_reads [OF reads_liftE] create_keeps)
    (simp add: new_key_def)

lemma ensure_keeps: "owner u \<Longrightarrow> preserves P (EnsureInternalKey jn same rnd u)"
  unfolding EnsureInternalKey_def Let_def
  by (intro preserves_catchE preserves_reads [OF key_reads(5)])
    (auto split: sum.split intro!: preserves_intros preserves_reads [OF reads_liftE] create_keeps simp: new_key_def)

lemma service_update_keeps: "owner u \<Longrightarrow> preserves P (Key_Service_Update jn u i inp)"
  unfolding Key_Service_Update_def Key_Update_def
  by (intro preserves_intros preserves_reads [OF key_reads(2)] preserves_stmt update_keeps)
    (auto simp: key_columns_def edit_key_def)

lemma service_delete_keeps: "owner u \<Longrightarrow> preserves P (Key_Service_Delete now u i)"
  unfolding Key_Service_Delete_def Key_SoftDelete_def by (intro preserves_stmt update_keeps) auto

end

interpretation wf: key_frame keys_wf "\<lambda>_. True"
  by unfold_locales (auto intro: insert_key_wf update_keys_wf)

interpretation isolated: key_frame "\<lambda>d. keys_of v d = K" "\<lambda>u. u \<noteq> v" for v K
proof
  show "keys_of v (snd (insert_key jn k d)) = K" if "k_user k \<noteq> v" "keys_of v d = K" for jn k d
    using insert_key_of [OF that(1)] that(2) by simp
  show "keys_of v (snd (update_keys hit f d)) = K"
    if "\<And>k. k_user (f k) = k_user k \<and> k_hash (f k) = k_hash k \<and> k_id (f k) = k_id k"
      "\<And>k. hit k \<Longrightarrow> k_user k \<noteq> v" "keys_of v d = K" for f hit d
    using update_keys_of [of f hit v d] that by simp
qed

lemma touch_wf: "preserves keys_wf (TouchUsage now i ip n)"
  unfolding TouchUsage_def by (intro preserves_stmt) (auto intro: update_keys_wf)

text \<open>Who acts in a step; a touch acts for the owner of the key it names.\<close>

fun acts_for :: "nat \<Rightarrow> key_op \<Rightarrow> apikey_db sess \<Rightarrow> bool" where
  "acts_for v (OpCreate u _ _ _) s = (u = v)"
| "acts_for v (OpInternal u _) s = (u = v)"
| "acts_for v (OpUpdate u _ _) s = (u = v)"
| "acts_for v (OpDelete u _ _) s = (u = v)"
| "acts_for v (OpTouch _ i _ _) s = (\<exists>k\<in>set (api_keys (fst s)). k_id k = i \<and> k_user k = v)"

lemma key_step_wf: "keys_wf (fst s) \<Longrightarrow> keys_wf (fst (key_step jn same a s))"
  by (cases a) (simp_all add: preserves_snd [OF wf.service_create_keeps] preserves_snd [OF wf.ensure_keeps]
    preserves_snd [OF wf.service_update_keeps] preserves_snd [OF wf.service_delete_keeps] preserves_snd [OF touch_wf])

lemma touch_isolated:
  assumes "\<not> (\<exists>k\<in>set (api_keys (fst s)). k_id k = i \<and> k_user k = v)"
  shows "keys_of v (fst (snd (TouchUsage now i ip n s))) = keys_of v (fst s)"
proof -
  have "filter (\<lambda>k. k_user k = v) (map (\<lambda>k. if k_id k = i then f k else k) ks) = filter (\<lambda>k. k_user k = v) ks"
    if "\<And>k. k_user (f k) = k_user k" "\<forall>k\<in>set ks. \<not> (k_id k = i \<and> k_user k = v)" for f :: "api_key \<Rightarrow> api_key" and ks
    using that(2) by (induction ks) (auto simp: that(1))
  then show ?thesis
    using stmt_db [of _ s] assms unfolding TouchUsage_def
    by (auto simp: stmt_def update_keys_def keys_of_def Let_def split: drv.split prod.split)
qed

lemma key_step_isolated:
  assumes "keys_of v (fst s) = K" and "\<not> acts_for v a s"
  shows "keys_of v (fst (key_step jn same a s)) = K"
  using assms by (cases a)
    (auto simp: touch_isolated intro: preserves_snd [OF isolated.service_create_keeps] preserves_snd [OF isolated.ensure_keeps]
      preserves_snd [OF isolated.service_update_keeps] preserves_snd [OF isolated.service_delete_keeps])

interpretation key_runs: inv_system "key_step jn same" "\<lambda>a s. True" "\<lambda>s. keys_wf (fst s)" for jn same
  by unfold_locales (rule key_step_wf)

interpretation key_isolation: inv_system "key_step jn same" "\<lambda>a s. \<not> acts_for v a s" "\<lambda>s. keys_of v (fst s) = K" for jn same v K
  by unfold_locales (rule key_step_isolated)

section \<open>The rows a key belongs to\<close>


section \<open>From issue to use\<close>

lemma list_allows_marshal:
  assumes "\<And>t. unmarshal_strings (jn t) = unmarshal_strings t" and "list_all valid_utf8 xs"
  shows "list_allows (map_option jn (jsonListNullable xs)) x \<longleftrightarrow> xs = [] \<or> x \<in> set xs"
proof (cases "xs = []")
  case False
  have u: "unmarshal_strings (jn (marshal_strings xs)) = Some xs"
    using assms unmarshal_marshal [of xs] by (simp add: list_all_iff to_valid_id map_idI)
  moreover have "unmarshal_strings [] = None"
    by (simp add: unmarshal_strings_def json_parse_def skip_ws_def fuel_for_def numeral_2_eq_2)
  ultimately have "jn (marshal_strings xs) \<noteq> []" by (metis option.distinct(1))
  then show ?thesis using u False by (simp add: list_allows_def jsonListNullable_def)
qed (simp add: list_allows_def jsonListNullable_def)

lemma generateSecret_prefix: "generateSecret rnd = Inr key \<Longrightarrow> HasPrefix key ''sk-''"
  by (auto simp: generateSecret_def HasPrefix_def split: option.splits)

lemma find_last: "P x \<Longrightarrow> \<forall>y\<in>set ys. \<not> P y \<Longrightarrow> find P (ys @ [x]) = Some x"
  by (induction ys) auto

text \<open>The row an issued key is stored in.\<close>

lemma Key_Service_Create_Inr:
  assumes "Key_Service_Create jn same st rnd userID inp s = (Inr (key, k), s1)"
  obtains row where "generateSecret rnd = Inr key" and "api_keys (fst s1) = api_keys (fst s) @ [row]"
    and "HashKey key \<notin> set (map k_hash (api_keys (fst s)))"
    and "k_id row = k_id k" and "k_user row = userID" and "k_hash row = HashKey key" and "k_enabled row"
    and "k_live row" and "k_quota_used row = 0" and "k_quota_limit row = key_quota st (ck_quota inp)"
    and "k_models row = map_option jn (jsonListNullable (ck_models inp))"
    and "k_ips row = map_option jn (jsonListNullable (ck_ips inp))"
    and "k_expires row = map_option datetime (ck_expires inp)" and "k_rpm row = ck_rpm inp" and "k_tpm row = ck_tpm inp"
    and "k_name row = ck_name inp"
proof -
  from assms [unfolded Key_Service_Create_def] obtain x :: unit and s0
    where c: "check_key_count same st userID s = (Inr x, s0)"
    and b: "bindE (liftE (generateSecret rnd)) (\<lambda>key.
       let k = (new_key userID (ck_name inp) key)\<lparr>k_quota_limit := key_quota st (ck_quota inp),
               k_models := jsonListNullable (ck_models inp), k_ips := jsonListNullable (ck_ips inp),
               k_rpm := ck_rpm inp, k_tpm := ck_tpm inp, k_expires := ck_expires inp\<rparr> in
       bindE (Key_Create jn k) (\<lambda>i. okE (key, k\<lparr>k_id := i\<rparr>))) s0 = (Inr (key, k), s1)"
    by (rule bindE_InrE)
  have s0: "fst s0 = fst s" using readsD [OF key_reads(6) c] .
  let ?k = "(new_key userID (ck_name inp) key)\<lparr>k_quota_limit := key_quota st (ck_quota inp),
               k_models := jsonListNullable (ck_models inp), k_ips := jsonListNullable (ck_ips inp),
               k_rpm := ck_rpm inp, k_tpm := ck_tpm inp, k_expires := ck_expires inp\<rparr>"
  from b have g: "generateSecret rnd = Inr key" and i: "Key_Create jn ?k s0 = (Inr (k_id k), s1)"
    by (auto simp: Let_def liftE_Inr okE_def elim!: bindE_InrE)
  from i have "insert_key jn ?k (fst s) = (Inr (k_id k), fst s1)"
    unfolding Key_Create_def by (auto elim: stmt_InrE simp: s0)
  then have fresh: "k_hash ?k \<notin> set (map k_hash (api_keys (fst s)))" and id: "k_id k = keys_next (fst s)"
    and rows: "api_keys (fst s1) = api_keys (fst s) @ [?k\<lparr>k_id := keys_next (fst s), k_quota_used := 0,
            k_models := map_option jn (k_models ?k), k_ips := map_option jn (k_ips ?k),
            k_expires := map_option datetime (k_expires ?k), k_last_used := None, k_last_ip := '''',
            k_deleted := None\<rparr>]"
    by (auto simp: insert_key_def split: if_splits dest: sym)
  from fresh id show thesis by (intro that [OF g rows]) (simp_all add: new_key_def k_live_def)
qed

text \<open>
  C17. A key that was issued and has not expired is accepted by its plain text right away, as the key of its
  owner; it may use exactly the models, and come from exactly the addresses, listed when it was created (all of
  them when none was listed).
\<close>

theorem issued_key_verifies:
  assumes "Key_Service_Create jn same st rnd userID inp s = (Inr (key, k), s1)" and "snd s1 = []"
    and "\<And>t. unmarshal_strings (jn t) = unmarshal_strings t"
    and "list_all valid_utf8 (ck_models inp)" and "list_all valid_utf8 (ck_ips inp)"
    and "\<And>t. ck_expires inp = Some t \<Longrightarrow> now \<le> datetime t"
  shows "\<exists>row. Key_Verify now key s1 = (Inr row, s1) \<and> k_id row = k_id k \<and> k_user row = userID \<and>
    (\<forall>m. ModelAllowed row m = (ck_models inp = [] \<or> m \<in> set (ck_models inp))) \<and>
    (\<forall>ip. IPAllowed row ip = (ck_ips inp = [] \<or> ip \<in> set (ck_ips inp)))"
proof -
  from Key_Service_Create_Inr [OF assms(1)] obtain row where
    g: "generateSecret rnd = Inr key" and rows: "api_keys (fst s1) = api_keys (fst s) @ [row]"
    and fresh: "HashKey key \<notin> set (map k_hash (api_keys (fst s)))"
    and row: "k_id row = k_id k" "k_user row = userID" "k_hash row = HashKey key" "k_enabled row" "k_live row"
    "k_quota_used row = 0" "k_models row = map_option jn (jsonListNullable (ck_models inp))"
    "k_ips row = map_option jn (jsonListNullable (ck_ips inp))" "k_expires row = map_option datetime (ck_expires inp)"
    by blast
  obtain d where s1: "s1 = (d, [])" using assms(2) by (cases s1) auto
  have "find (\<lambda>k. k_hash k = HashKey key \<and> k_enabled k \<and> k_live k) (api_keys d) = Some row"
    unfolding rows [unfolded s1 fst_conv] by (rule find_last) (use fresh row in \<open>auto simp: image_iff\<close>)
  then have "GetByHash (HashKey key) s1 = (Inr row, s1)"
    by (simp add: GetByHash_def select_key_def mapErr_def s1)
  moreover have "\<not> (case k_expires row of None \<Rightarrow> False | Some t \<Rightarrow> now > t)"
    using row(9) assms(6) by (cases "ck_expires inp") auto
  ultimately have "Key_Verify now key s1 = (Inr row, s1)"
    using generateSecret_prefix [OF g] row(6) by (auto simp: Key_Verify_def catchE_def okE_def)
  then show ?thesis
    using row list_allows_marshal [OF assms(3,4)] list_allows_marshal [OF assms(3,5)]
    by (auto simp: ModelAllowed_def IPAllowed_def)
qed

section \<open>Who is let in\<close>

text \<open>
  C18. The gateway lets a request in only with the plain text of a stored key that is enabled, not deleted, not
  expired and within its quota, from an address on the key's list; nothing is written.
\<close>

theorem gateway_admits_only_valid_keys:
  assumes "Middleware allowQuery now header query ip s = (Inr k, s')"
  shows "fst s' = fst s \<and> k \<in> set (api_keys (fst s)) \<and> k_hash k = HashKey (extractKey header query allowQuery) \<and>
    k_enabled k \<and> k_deleted k = None \<and> (k_expires k = None \<or> now \<le> the (k_expires k)) \<and>
    (k_quota_limit k \<le> 0 \<or> k_quota_used k < k_quota_limit k) \<and> IPAllowed k ip"
proof -
  let ?key = "extractKey header query allowQuery"
  from assms have v: "Key_Verify now ?key s = (Inr k, s')" and ip: "IPAllowed k ip"
    by (auto simp: Middleware_def Let_def split: if_splits prod.splits sum.splits)
  have d: "fst s' = fst s" using readsD [OF reads_Key_Verify v] .
  from v obtain r s1 where g: "GetByHash (HashKey ?key) s = (r, s1)"
    and k: "(case r of Inl e \<Rightarrow> failE (EMsg ''API Key unknown or disabled'')
      | Inr k \<Rightarrow> if (case k_expires k of None \<Rightarrow> False | Some t \<Rightarrow> now > t) then failE (EMsg ''API Key expired'')
          else if k_quota_limit k > 0 \<and> k_quota_used k \<ge> k_quota_limit k then failE (EMsg ''API Key quota exhausted'')
          else okE k) s1 = (Inr k, s')"
    unfolding Key_Verify_def by (auto simp: failE_def elim!: catchE_cases split: if_splits)
  then have "r = Inr k" and c: "\<not> (case k_expires k of None \<Rightarrow> False | Some t \<Rightarrow> now > t)"
    "\<not> (k_quota_limit k > 0 \<and> k_quota_used k \<ge> k_quota_limit k)"
    by (auto simp: failE_def okE_def split: sum.splits if_splits)
  with g have "stmt (\<lambda>d. (case find (\<lambda>k. k_hash k = HashKey ?key \<and> k_enabled k \<and> k_live k) (api_keys d) of
      None \<Rightarrow> Inl ENoRows | Some k \<Rightarrow> Inr k, d)) s = (Inr k, s1)"
    unfolding GetByHash_def select_key_def by (auto dest: mapErr_InrD)
  then have "find (\<lambda>k. k_hash k = HashKey ?key \<and> k_enabled k \<and> k_live k) (api_keys (fst s)) = Some k"
    by (rule stmt_InrE) (auto split: option.splits)
  then have "k \<in> set (api_keys (fst s)) \<and> k_hash k = HashKey ?key \<and> k_enabled k \<and> k_live k"
    by (auto simp: find_Some_iff)
  then show ?thesis using d ip c by (auto simp: k_live_def split: option.splits)
qed

text \<open>
  The limit on the number of keys does not see keys that carry the reserved name of the playground key,
  and nothing keeps a user from choosing it: such a creation leaves the count the limit is compared with as it was.
\<close>

theorem reserved_name_evades_limit:
  assumes "Key_Service_Create jn same st rnd userID inp (d, []) = (Inr (key, k), s1)"
    and "ck_name inp = InternalKeyName" and "\<And>x. same x x"
  shows "length (filter (visible same userID) (api_keys (fst s1))) = length (filter (visible same userID) (api_keys d)) \<and>
    check_key_count same st userID (fst s1, []) = (Inr (), (fst s1, []))"
proof -
  from Key_Service_Create_Inr [OF assms(1)] obtain row where
    rows: "api_keys (fst s1) = api_keys d @ [row]" and "k_name row = ck_name inp" by auto
  then have n: "length (filter (visible same userID) (api_keys (fst s1))) = length (filter (visible same userID) (api_keys d))"
    using assms(2,3) by (simp add: visible_def)
  from assms(1) have "\<exists>s0. check_key_count same st userID (d, []) = (Inr (), s0)"
    unfolding Key_Service_Create_def by (auto elim!: bindE_InrE)
  then show ?thesis using n
    by (auto simp: check_key_count_def CountActiveByUser_def bindE_def okE_def failE_def split: option.splits if_splits)
qed

section \<open>Witnesses\<close>

definition demo_input :: create_key where
  "demo_input = \<lparr>ck_name = ''ci'', ck_quota = 0, ck_models = [''gpt-5''], ck_ips = [], ck_rpm = 60, ck_tpm = 0, ck_expires = Some 5000\<rparr>"

definition no_keys :: apikey_db where "no_keys = \<lparr>api_keys = [], keys_next = 1\<rparr>"

definition demo_secret :: string where "demo_secret = ''sk-BQID''"

lemma demo_generated: "generateSecret (Some [5, 2, 3]) = Inr demo_secret"
  unfolding demo_secret_def by code_simp

lemma demo_header: "extractKey (''Bearer '' @ demo_secret) '''' False = demo_secret"
  unfolding demo_secret_def by code_simp

lemma demo_prefix: "HasPrefix demo_secret ''sk-''" "demo_secret \<noteq> ''''"
  by (simp_all add: demo_secret_def HasPrefix_def)

definition demo_key :: api_key where
  "demo_key = (new_key 7 ''ci'' demo_secret)\<lparr>k_id := 1, k_models := jsonListNullable [''gpt-5''], k_rpm := 60, k_expires := Some 5000\<rparr>"

definition demo_keys :: apikey_db where
  "demo_keys = snd (insert_key id (demo_key\<lparr>k_id := 0\<rparr>) no_keys)"

lemma demo_create:
  "Key_Service_Create id (=) None (Some [5, 2, 3]) 7 demo_input (no_keys, []) = (Inr (demo_secret, demo_key), (demo_keys, []))"
  by (simp add: Key_Service_Create_def check_key_count_def demo_generated liftE_def bindE_def okE_def Key_Create_def
      insert_key_def no_keys_def demo_key_def demo_keys_def demo_input_def new_key_def key_quota_def jsonListNullable_def datetime_def)

lemma demo_utf8: "list_all valid_utf8 (ck_models demo_input)" "list_all valid_utf8 (ck_ips demo_input)"
  by (simp_all add: demo_input_def valid_utf8_def rune_len_def width_of_def byte_val_def)

theorem issued_key_verifies_witness:
  "\<exists>row. Key_Verify 4000 demo_secret (demo_keys, []) = (Inr row, (demo_keys, [])) \<and> k_user row = 7 \<and>
     ModelAllowed row ''gpt-5'' \<and> \<not> ModelAllowed row ''o3'' \<and> IPAllowed row ''10.0.0.1''"
proof -
  have t: "ck_expires demo_input = Some t \<Longrightarrow> 4000 \<le> datetime t" for t
    by (auto simp: demo_input_def datetime_def)
  have "\<exists>row. Key_Verify 4000 demo_secret (demo_keys, []) = (Inr row, (demo_keys, [])) \<and> k_id row = k_id demo_key \<and> k_user row = 7 \<and>
    (\<forall>m. ModelAllowed row m = (ck_models demo_input = [] \<or> m \<in> set (ck_models demo_input))) \<and>
    (\<forall>ip. IPAllowed row ip = (ck_ips demo_input = [] \<or> ip \<in> set (ck_ips demo_input)))"
  proof (rule issued_key_verifies [OF demo_create _ _ demo_utf8 t])
    show "snd (demo_keys, [] :: drv list) = []" by (rule snd_conv)
    show "unmarshal_strings (id x) = unmarshal_strings x" for x by (simp only: id_apply)
  qed
  then obtain row where v: "Key_Verify 4000 demo_secret (demo_keys, []) = (Inr row, (demo_keys, []))" and u: "k_user row = 7"
    and m: "\<And>m. ModelAllowed row m = (ck_models demo_input = [] \<or> m \<in> set (ck_models demo_input))"
    and i: "\<And>ip. IPAllowed row ip = (ck_ips demo_input = [] \<or> ip \<in> set (ck_ips demo_input))" by blast
  have "ModelAllowed row ''gpt-5''" "\<not> ModelAllowed row ''o3''" "IPAllowed row ''10.0.0.1''"
    unfolding m i by (simp_all add: demo_input_def)
  with v u show ?thesis by blast
qed


theorem gateway_admits_only_valid_keys_witness:
  "k_hash demo_key = HashKey (extractKey (''Bearer '' @ demo_secret) '''' False) \<and> IPAllowed demo_key ''10.0.0.1''"
proof -
  have "find (\<lambda>k. k_hash k = HashKey demo_secret \<and> k_enabled k \<and> k_live k) (api_keys demo_keys) = Some demo_key"
    by (simp add: demo_keys_def insert_key_def no_keys_def demo_key_def new_key_def k_live_def datetime_def jsonListNullable_def)
  then have "GetByHash (HashKey demo_secret) (demo_keys, []) = (Inr demo_key, (demo_keys, []))"
    by (simp add: GetByHash_def select_key_def mapErr_def)
  then have "Key_Verify 4000 demo_secret (demo_keys, []) = (Inr demo_key, (demo_keys, []))"
    by (simp add: Key_Verify_def catchE_def okE_def demo_prefix) (simp add: demo_key_def new_key_def)
  moreover have "IPAllowed demo_key ''10.0.0.1''"
    by (simp add: IPAllowed_def list_allows_def demo_key_def new_key_def)
  ultimately have "Middleware False 4000 (''Bearer '' @ demo_secret) '''' ''10.0.0.1'' (demo_keys, [])
      = (Inr demo_key, (demo_keys, []))"
    unfolding Middleware_def demo_header Let_def by (simp add: demo_prefix)
  from gateway_admits_only_valid_keys [OF this] show ?thesis by simp
qed

theorem reserved_name_evades_limit_witness:
  "length (filter (visible (=) 7) (api_keys (snd (insert_key id (demo_key\<lparr>k_name := InternalKeyName, k_id := 0\<rparr>) no_keys)))) = 0"
proof -
  let ?inp = "demo_input\<lparr>ck_name := InternalKeyName\<rparr>"
  let ?st = "Some \<lparr>ks_max_per_user = 1, ks_default_quota = 0\<rparr>"
  have "Key_Service_Create id (=) ?st (Some [5, 2, 3]) 7 ?inp (no_keys, []) =
      (Inr (demo_secret, demo_key\<lparr>k_name := InternalKeyName\<rparr>), (snd (insert_key id (demo_key\<lparr>k_name := InternalKeyName, k_id := 0\<rparr>) no_keys), []))"
    by (simp add: Key_Service_Create_def check_key_count_def CountActiveByUser_def demo_generated liftE_def bindE_def okE_def Key_Create_def
      insert_key_def no_keys_def demo_key_def demo_input_def new_key_def key_quota_def jsonListNullable_def)
  from reserved_name_evades_limit [OF this] show ?thesis by (simp add: no_keys_def)
qed

end
