(* ===== verification/Channel_Router.thy ===== *)
theory Channel_Router
  imports Complex_Main Crypto_Box Sql_Tx "HOL-Library.Product_Lexorder"
begin

text \<open>
  External channels (internal/channel): the tables of channels and model mappings, the service that edits
  them and records their health, and the router that turns a local model into an ordered list of candidates.
  A ratio is a float64 given by its value, a time is in milliseconds; \<open>jn\<close> is what a JSON column returns for
  a stored text. The display fields (masked key, extra_json) are computed by \<open>decorate\<close>.
\<close>

section \<open>Tables\<close>

record channel =
  ch_id :: nat
  ch_name :: string
  ch_type :: string
  ch_base_url :: string
  ch_key_enc :: string
  ch_key_masked :: string
  ch_enabled :: bool
  ch_priority :: int
  ch_weight :: int
  ch_timeout :: int
  ch_ratio :: rat
  ch_extra :: "string option"
  ch_extra_json :: string
  ch_status :: string
  ch_fail_count :: int
  ch_test_at :: "int option"
  ch_test_ok :: "bool option"
  ch_test_error :: string
  ch_remark :: string
  ch_deleted :: "int option"

record model_mapping =
  mp_id :: nat
  mp_channel :: nat
  mp_local :: string
  mp_upstream :: string
  mp_modality :: string
  mp_enabled :: bool
  mp_priority :: int

record channel_db =
  channels :: "channel list"
  channels_next :: nat
  mappings :: "model_mapping list"
  mappings_next :: nat

definition TypeOpenAI :: string where "TypeOpenAI = ''openai''"
definition TypeGemini :: string where "TypeGemini = ''gemini''"
definition ModalityText :: string where "ModalityText = ''text''"
definition ModalityImage :: string where "ModalityImage = ''image''"
definition ModalityVideo :: string where "ModalityVideo = ''video''"
definition ch_healthy :: string where "ch_healthy = ''healthy''"
definition ch_unhealthy :: string where "ch_unhealthy = ''unhealthy''"

definition ch_live :: "channel \<Rightarrow> bool" where "ch_live c \<longleftrightarrow> ch_deleted c = None"

section \<open>DAO\<close>

definition insert_channel :: "(string \<Rightarrow> string) \<Rightarrow> channel \<Rightarrow> channel_db \<Rightarrow> nat result \<times> channel_db" where
  "insert_channel jn c d =
     (Inr (channels_next d),
      d\<lparr>channels := channels d @ [c\<lparr>ch_id := channels_next d, ch_key_masked := '''', ch_extra := map_option jn (ch_extra c),
          ch_extra_json := '''', ch_fail_count := 0, ch_test_at := None, ch_test_ok := None, ch_test_error := '''',
          ch_deleted := None\<rparr>],
        channels_next := channels_next d + 1\<rparr>)"

definition update_channels :: "(channel \<Rightarrow> bool) \<Rightarrow> (channel \<Rightarrow> channel) \<Rightarrow> (channel_db sess, unit) action" where
  "update_channels hit f =
     stmt (\<lambda>d. (Inr (), d\<lparr>channels := map (\<lambda>c. if hit c then f c else c) (channels d)\<rparr>))"

definition Channel_Create :: "(string \<Rightarrow> string) \<Rightarrow> channel \<Rightarrow> (channel_db sess, nat) action" where
  "Channel_Create jn c = stmt (insert_channel jn c)"

definition Channel_Update :: "(string \<Rightarrow> string) \<Rightarrow> channel \<Rightarrow> (channel_db sess, unit) action" where
  "Channel_Update jn c =
     update_channels (\<lambda>r. ch_id r = ch_id c \<and> ch_live r)
       (\<lambda>r. r\<lparr>ch_name := ch_name c, ch_type := ch_type c, ch_base_url := ch_base_url c, ch_key_enc := ch_key_enc c,
              ch_enabled := ch_enabled c, ch_priority := ch_priority c, ch_weight := ch_weight c,
              ch_timeout := ch_timeout c, ch_ratio := ch_ratio c, ch_extra := map_option jn (ch_extra c),
              ch_remark := ch_remark c\<rparr>)"

definition Channel_SoftDelete :: "int \<Rightarrow> nat \<Rightarrow> (channel_db sess, unit) action" where
  "Channel_SoftDelete now i = update_channels (\<lambda>r. ch_id r = i) (\<lambda>r. r\<lparr>ch_deleted := Some (datetime now)\<rparr>)"

definition Channel_GetByID :: "nat \<Rightarrow> (channel_db sess, channel) action" where
  "Channel_GetByID i =
     mapErr (\<lambda>e. if e = ENoRows then ErrNotFound else e)
       (stmt (\<lambda>d. (case find (\<lambda>c. ch_id c = i \<and> ch_live c) (channels d) of None \<Rightarrow> Inl ENoRows | Some c \<Rightarrow> Inr c, d)))"

definition by_priority :: "channel list \<Rightarrow> channel list" where
  "by_priority = sort_key (\<lambda>c. (ch_priority c, ch_id c))"

definition Channel_List :: "nat \<Rightarrow> nat \<Rightarrow> (channel_db sess, channel list \<times> nat) action" where
  "Channel_List offset limit =
     bindE (stmt (\<lambda>d. (Inr (length (filter ch_live (channels d))), d))) (\<lambda>n.
     bindE (stmt (\<lambda>d. (Inr (take limit (drop offset (by_priority (filter ch_live (channels d))))), d))) (\<lambda>rows.
     okE (rows, n)))"

definition Channel_ListEnabled :: "(channel_db sess, channel list) action" where
  "Channel_ListEnabled = stmt (\<lambda>d. (Inr (by_priority (filter (\<lambda>c. ch_live c \<and> ch_enabled c) (channels d))), d))"

definition truncateErr :: "string \<Rightarrow> nat \<Rightarrow> string" where
  "truncateErr s n = (if length s \<le> n then s else take n s)"

definition Channel_UpdateHealth ::
  "int \<Rightarrow> nat \<Rightarrow> bool \<Rightarrow> string \<Rightarrow> int \<Rightarrow> string \<Rightarrow> (channel_db sess, unit) action" where
  "Channel_UpdateHealth now i ok errMsg failCount status =
     update_channels (\<lambda>r. ch_id r = i)
       (\<lambda>r. r\<lparr>ch_test_at := Some (datetime now), ch_test_ok := Some ok, ch_test_error := truncateErr errMsg 500,
              ch_fail_count := failCount, ch_status := status\<rparr>)"

text \<open>The foreign key asks for the channel's row, the unique index for one mapping per channel, model and modality.\<close>

definition mp_key :: "model_mapping \<Rightarrow> nat \<times> string \<times> string" where
  "mp_key m = (mp_channel m, mp_local m, mp_modality m)"

definition insert_mapping :: "model_mapping \<Rightarrow> channel_db \<Rightarrow> nat result \<times> channel_db" where
  "insert_mapping m d =
     (if mp_channel m \<notin> set (map ch_id (channels d)) then (Inl (EMsg ''foreign key''), d)
      else if mp_key m \<in> set (map mp_key (mappings d)) then (Inl EDuplicate, d)
      else (Inr (mappings_next d),
            d\<lparr>mappings := mappings d @ [m\<lparr>mp_id := mappings_next d\<rparr>], mappings_next := mappings_next d + 1\<rparr>))"

definition DAO_CreateMapping :: "model_mapping \<Rightarrow> (channel_db sess, nat) action" where
  "DAO_CreateMapping m = stmt (insert_mapping m)"

definition DAO_UpdateMapping :: "model_mapping \<Rightarrow> (channel_db sess, unit) action" where
  "DAO_UpdateMapping m =
     stmt (\<lambda>d. let rows = map (\<lambda>r. if mp_id r = mp_id m
                  then r\<lparr>mp_local := mp_local m, mp_upstream := mp_upstream m, mp_modality := mp_modality m,
                         mp_enabled := mp_enabled m, mp_priority := mp_priority m\<rparr> else r) (mappings d) in
               if distinct (map mp_key rows) then (Inr (), d\<lparr>mappings := rows\<rparr>) else (Inl EDuplicate, d))"

definition DAO_DeleteMapping :: "nat \<Rightarrow> (channel_db sess, unit) action" where
  "DAO_DeleteMapping i = stmt (\<lambda>d. (Inr (), d\<lparr>mappings := filter (\<lambda>r. mp_id r \<noteq> i) (mappings d)\<rparr>))"

definition DeleteMappingsByChannel :: "nat \<Rightarrow> (channel_db sess, unit) action" where
  "DeleteMappingsByChannel cid = stmt (\<lambda>d. (Inr (), d\<lparr>mappings := filter (\<lambda>r. mp_channel r \<noteq> cid) (mappings d)\<rparr>))"

definition ListMappingsByChannel :: "nat \<Rightarrow> (channel_db sess, model_mapping list) action" where
  "ListMappingsByChannel cid =
     stmt (\<lambda>d. (Inr (sort_key (\<lambda>m. (mp_priority m, mp_id m)) (filter (\<lambda>m. mp_channel m = cid) (mappings d))), d))"

text \<open>The join of the routing query, with its three-part order.\<close>

definition routable :: "string \<Rightarrow> string \<Rightarrow> model_mapping \<times> channel \<Rightarrow> bool" where
  "routable localModel modality mc \<longleftrightarrow>
     mp_local (fst mc) = localModel \<and> mp_modality (fst mc) = modality \<and> mp_enabled (fst mc) \<and>
     ch_enabled (snd mc) \<and> ch_live (snd mc)"

definition joined :: "channel_db \<Rightarrow> (model_mapping \<times> channel) list" where
  "joined d = [(m, c). m \<leftarrow> mappings d, c \<leftarrow> channels d, ch_id c = mp_channel m]"

definition route_order :: "model_mapping \<times> channel \<Rightarrow> int \<times> int \<times> nat" where
  "route_order mc = (ch_priority (snd mc), mp_priority (fst mc), mp_id (fst mc))"

definition ResolveByLocalModel :: "string \<Rightarrow> string \<Rightarrow> (channel_db sess, (model_mapping \<times> channel) list) action" where
  "ResolveByLocalModel localModel modality =
     stmt (\<lambda>d. (Inr (sort_key route_order (filter (routable localModel modality) (joined d))), d))"

section \<open>Service\<close>

record channel_input =
  ci_name :: string
  ci_type :: string
  ci_base_url :: string
  ci_api_key :: string
  ci_enabled :: bool
  ci_priority :: int
  ci_weight :: int
  ci_timeout :: int
  ci_ratio :: rat
  ci_extra :: string
  ci_remark :: string

definition validType :: "string \<Rightarrow> bool" where
  "validType t \<longleftrightarrow> t = TypeOpenAI \<or> t = TypeGemini"

definition validModality :: "string \<Rightarrow> bool" where
  "validModality m \<longleftrightarrow> m = ModalityText \<or> m = ModalityImage \<or> m = ModalityVideo"

definition maskKey :: "string \<Rightarrow> string" where
  "maskKey s =
     (if length s \<le> 8 then replicate (length s) CHR ''*''
      else take 4 s @ ''****'' @ drop (length s - 4) s)"

definition DecryptKey :: "aead \<Rightarrow> channel \<Rightarrow> string result" where
  "DecryptKey a c = (if ch_key_enc c = '''' then Inr '''' else DecryptString a (ch_key_enc c))"

definition decorate :: "aead \<Rightarrow> channel \<Rightarrow> channel" where
  "decorate a c =
     c\<lparr>ch_key_masked := (if ch_key_enc c = '''' then ch_key_masked c
                         else case DecryptString a (ch_key_enc c) of Inl _ \<Rightarrow> ''(invalid)'' | Inr pt \<Rightarrow> maskKey pt),
       ch_extra_json := (case ch_extra c of None \<Rightarrow> ch_extra_json c | Some x \<Rightarrow> x)\<rparr>"

definition ChannelSvc_Get :: "aead \<Rightarrow> nat \<Rightarrow> (channel_db sess, channel) action" where
  "ChannelSvc_Get a i = bindE (Channel_GetByID i) (\<lambda>c. okE (decorate a c))"

definition ChannelSvc_List :: "aead \<Rightarrow> nat \<Rightarrow> nat \<Rightarrow> (channel_db sess, channel list \<times> nat) action" where
  "ChannelSvc_List a offset limit = bindE (Channel_List offset limit) (\<lambda>(rows, n). okE (map (decorate a) rows, n))"

definition nullable :: "string \<Rightarrow> string option" where
  "nullable s = (if s = '''' then None else Some s)"

definition new_channel :: "string \<Rightarrow> channel_input \<Rightarrow> channel" where
  "new_channel enc inp =
     \<lparr>ch_id = 0, ch_name = ci_name inp, ch_type = ci_type inp, ch_base_url = ci_base_url inp, ch_key_enc = enc,
      ch_key_masked = '''', ch_enabled = ci_enabled inp,
      ch_priority = (if ci_priority inp < 0 then 100 else ci_priority inp),
      ch_weight = (if ci_weight inp \<le> 0 then 1 else ci_weight inp),
      ch_timeout = (if ci_timeout inp \<le> 0 then 120 else ci_timeout inp),
      ch_ratio = (if ci_ratio inp \<le> 0 then 1 else ci_ratio inp),
      ch_extra = nullable (ci_extra inp), ch_extra_json = '''', ch_status = ch_healthy, ch_fail_count = 0,
      ch_test_at = None, ch_test_ok = None, ch_test_error = '''', ch_remark = ci_remark inp, ch_deleted = None\<rparr>"

definition ChannelSvc_Create ::
  "aead \<Rightarrow> (string \<Rightarrow> string) \<Rightarrow> nat list option \<Rightarrow> channel_input \<Rightarrow> (channel_db sess, channel) action" where
  "ChannelSvc_Create a jn nonce inp =
     (if TrimSpace (ci_name inp) = '''' then failE (EMsg ''name'')
      else if \<not> validType (ci_type inp) then failE (EMsg ''type'')
      else if TrimSpace (ci_base_url inp) = '''' then failE (EMsg ''base_url'')
      else if TrimSpace (ci_api_key inp) = '''' then failE (EMsg ''api_key'')
      else bindE (liftE (EncryptString a nonce (ci_api_key inp))) (\<lambda>enc.
           bindE (Channel_Create jn (new_channel enc inp)) (\<lambda>i. ChannelSvc_Get a i)))"

definition edit_channel :: "string \<Rightarrow> channel_input \<Rightarrow> channel \<Rightarrow> channel" where
  "edit_channel enc inp c =
     c\<lparr>ch_name := (if ci_name inp \<noteq> '''' then ci_name inp else ch_name c),
       ch_type := (if ci_type inp \<noteq> '''' then ci_type inp else ch_type c),
       ch_base_url := (if ci_base_url inp \<noteq> '''' then ci_base_url inp else ch_base_url c),
       ch_key_enc := enc,
       ch_enabled := ci_enabled inp,
       ch_priority := (if ci_priority inp \<ge> 0 then ci_priority inp else ch_priority c),
       ch_weight := (if ci_weight inp > 0 then ci_weight inp else ch_weight c),
       ch_timeout := (if ci_timeout inp > 0 then ci_timeout inp else ch_timeout c),
       ch_ratio := (if ci_ratio inp > 0 then ci_ratio inp else ch_ratio c),
       ch_extra := nullable (ci_extra inp), ch_remark := ci_remark inp\<rparr>"

definition ChannelSvc_Update ::
  "aead \<Rightarrow> (string \<Rightarrow> string) \<Rightarrow> nat list option \<Rightarrow> nat \<Rightarrow> channel_input \<Rightarrow> (channel_db sess, channel) action" where
  "ChannelSvc_Update a jn nonce i inp =
     bindE (Channel_GetByID i) (\<lambda>c.
     if ci_type inp \<noteq> '''' \<and> \<not> validType (ci_type inp) then failE (EMsg ''type'')
     else bindE (if ci_api_key inp = '''' then okE (ch_key_enc c) else liftE (EncryptString a nonce (ci_api_key inp))) (\<lambda>enc.
          bindE (Channel_Update jn (edit_channel enc inp c)) (\<lambda>_. ChannelSvc_Get a i)))"

definition ChannelSvc_Delete :: "int \<Rightarrow> nat \<Rightarrow> (channel_db sess, unit) action" where
  "ChannelSvc_Delete now i = Channel_SoftDelete now i"

record mapping_input =
  mi_channel :: nat
  mi_local :: string
  mi_upstream :: string
  mi_modality :: string
  mi_enabled :: bool
  mi_priority :: int

definition modality_of :: "mapping_input \<Rightarrow> string" where
  "modality_of inp = (if mi_modality inp = '''' then ModalityText else mi_modality inp)"

definition ChannelSvc_CreateMapping :: "mapping_input \<Rightarrow> (channel_db sess, model_mapping) action" where
  "ChannelSvc_CreateMapping inp =
     (if mi_channel inp = 0 then failE (EMsg ''channel_id'')
      else if TrimSpace (mi_local inp) = '''' then failE (EMsg ''local_model'')
      else if TrimSpace (mi_upstream inp) = '''' then failE (EMsg ''upstream_model'')
      else if \<not> validModality (modality_of inp) then failE (EMsg ''modality'')
      else let m = \<lparr>mp_id = 0, mp_channel = mi_channel inp, mp_local = mi_local inp, mp_upstream = mi_upstream inp,
                    mp_modality = modality_of inp, mp_enabled = mi_enabled inp,
                    mp_priority = (if mi_priority inp < 0 then 100 else mi_priority inp)\<rparr> in
           bindE (DAO_CreateMapping m) (\<lambda>i. okE (m\<lparr>mp_id := i\<rparr>)))"

text \<open>An update writes the priority as it is given and returns a mapping without its channel.\<close>

definition ChannelSvc_UpdateMapping :: "nat \<Rightarrow> mapping_input \<Rightarrow> (channel_db sess, model_mapping) action" where
  "ChannelSvc_UpdateMapping i inp =
     (if \<not> validModality (modality_of inp) then failE (EMsg ''modality'')
      else let m = \<lparr>mp_id = i, mp_channel = 0, mp_local = mi_local inp, mp_upstream = mi_upstream inp,
                    mp_modality = modality_of inp, mp_enabled = mi_enabled inp, mp_priority = mi_priority inp\<rparr> in
           bindE (DAO_UpdateMapping m) (\<lambda>_. okE m))"

text \<open>The new count and status are computed from the row in the caller's hands.\<close>

definition health_after :: "bool \<Rightarrow> int \<Rightarrow> string \<Rightarrow> int \<times> string" where
  "health_after ok failCount status =
     (if ok then (0, ch_healthy)
      else (failCount + 1, if failCount + 1 \<ge> 3 then ch_unhealthy else status))"

definition MarkHealth :: "int \<Rightarrow> channel \<Rightarrow> bool \<Rightarrow> string \<Rightarrow> (channel_db sess, unit) action" where
  "MarkHealth now c ok errMsg =
     (case health_after ok (ch_fail_count c) (ch_status c) of
        (n, st) \<Rightarrow> Channel_UpdateHealth now (ch_id c) ok errMsg n st)"

section \<open>Router\<close>

record adapter_params =
  ap_base_url :: string
  ap_key :: string
  ap_timeout :: int
  ap_extra :: string

datatype adapter = OpenAI_Adapter adapter_params | Gemini_Adapter adapter_params

definition adapter_New :: "string \<Rightarrow> adapter_params \<Rightarrow> adapter result" where
  "adapter_New typ p =
     (if typ = ''openai'' then Inr (OpenAI_Adapter p)
      else if typ = ''gemini'' then Inr (Gemini_Adapter p)
      else Inl (EMsg ''adapter: unsupported type''))"

record route =
  rt_channel :: channel
  rt_mapping :: model_mapping
  rt_upstream :: string
  rt_adapter :: adapter

definition params_of :: "string \<Rightarrow> channel \<Rightarrow> adapter_params" where
  "params_of key c =
     \<lparr>ap_base_url = ch_base_url c, ap_key = key, ap_timeout = ch_timeout c,
      ap_extra = (case ch_extra c of None \<Rightarrow> '''' | Some x \<Rightarrow> x)\<rparr>"

text \<open>A row whose key does not decrypt, or whose type is unknown, is passed over.\<close>

definition mk_route :: "aead \<Rightarrow> model_mapping \<times> channel \<Rightarrow> route option" where
  "mk_route a mc =
     (case DecryptKey a (snd mc) of
        Inl _ \<Rightarrow> None
      | Inr key \<Rightarrow>
          (case adapter_New (ch_type (snd mc)) (params_of key (snd mc)) of
             Inl _ \<Rightarrow> None
           | Inr ad \<Rightarrow> Some \<lparr>rt_channel = snd mc, rt_mapping = fst mc, rt_upstream = mp_upstream (fst mc), rt_adapter = ad\<rparr>))"

definition Resolve :: "aead \<Rightarrow> string \<Rightarrow> string \<Rightarrow> (channel_db sess, route list) action" where
  "Resolve a localModel modality =
     bindE (ResolveByLocalModel localModel modality) (\<lambda>mws.
     if mws = [] then failE ErrNoRoute
     else let routes = List.map_filter (mk_route a) mws in
          if routes = [] then failE ErrNoRoute
          else okE (filter (\<lambda>r. ch_status (rt_channel r) \<noteq> ch_unhealthy) routes @
                    filter (\<lambda>r. ch_status (rt_channel r) = ch_unhealthy) routes))"

definition BuildAdapter :: "aead \<Rightarrow> nat \<Rightarrow> (channel_db sess, adapter \<times> channel) action" where
  "BuildAdapter a i =
     bindE (Channel_GetByID i) (\<lambda>c.
     case DecryptKey a c of
       Inl e \<Rightarrow> failE e
     | Inr key \<Rightarrow> bindE (liftE (adapter_New (ch_type c) (params_of key c))) (\<lambda>ad. okE (ad, c)))"

text \<open>The connection test of the admin handler: \<open>ping\<close> is what the adapter's probe returns.\<close>

definition Channel_Test ::
  "aead \<Rightarrow> (adapter \<Rightarrow> string option) \<Rightarrow> int \<Rightarrow> nat \<Rightarrow> (channel_db sess, bool \<times> string) action" where
  "Channel_Test a ping now i =
     bindE (BuildAdapter a i) (\<lambda>(ad, c).
     case ping ad of
       Some msg \<Rightarrow> catchE (MarkHealth now c False msg) (\<lambda>_. okE (False, msg))
     | None \<Rightarrow> catchE (MarkHealth now c True '''') (\<lambda>_. okE (True, '''')))"

end
