(* ===== verification/Channel_Laws.thy ===== *)
theory Channel_Laws
  imports Channel_Router
begin

text \<open>
  What holds of the channels: the router's candidates are exactly the usable rows, the healthy ones first and
  each group by priority; a channel becomes unhealthy with the third failure in a row and healthy with the
  first success, when the reports come one after the other; and overlapping reports lose failures.
\<close>

section \<open>Routing\<close>

definition route_rank :: "route \<Rightarrow> bool \<times> int \<times> int \<times> nat" where
  "route_rank r = (ch_status (rt_channel r) = ch_unhealthy, route_order (rt_mapping r, rt_channel r))"

lemma mk_route_order: "mk_route a mc = Some r \<Longrightarrow> route_order (rt_mapping r, rt_channel r) = route_order mc"
  by (auto simp: mk_route_def route_order_def split: sum.splits)

lemma map_filter_order:
  assumes "sorted (map route_order mcs)"
  shows "sorted (map (\<lambda>r. route_order (rt_mapping r, rt_channel r)) (List.map_filter (mk_route a) mcs))"
  using assms
proof (induction mcs)
  case (Cons mc mcs)
  have "route_order mc \<le> route_order (rt_mapping r, rt_channel r)" if r: "r \<in> set (List.map_filter (mk_route a) mcs)" for r
  proof -
    from r obtain mc' where "mc' \<in> set mcs" "mk_route a mc' = Some r"
      by (auto simp: List.map_filter_def)
    with Cons.prems mk_route_order [OF this(2)] show ?thesis by simp
  qed
  with Cons show ?case
    by (auto simp: List.map_filter_simps mk_route_order split: option.splits)
qed (simp add: List.map_filter_simps)

lemma healthy_first_sorted:
  assumes "sorted (map (\<lambda>r. route_order (rt_mapping r, rt_channel r)) rs)"
  shows "sorted (map route_rank (filter (\<lambda>r. ch_status (rt_channel r) \<noteq> ch_unhealthy) rs @
     filter (\<lambda>r. ch_status (rt_channel r) = ch_unhealthy) rs))"
proof -
  have "sorted (map route_rank (filter (\<lambda>r. (ch_status (rt_channel r) = ch_unhealthy) = b) rs))" for b
    using assms by (induction rs) (auto simp: route_rank_def)
  from this [of False] this [of True] show ?thesis by (auto simp: sorted_append route_rank_def)
qed

text \<open>
  C28. The router returns exactly the enabled mappings of the model and modality whose channel is live and
  enabled, has a key that decrypts and a known type; the channels that are not unhealthy come first, each group
  ordered by channel priority, mapping priority and id; and it reports that there is no route only when there
  is none.
\<close>

theorem routes_exact:
  assumes "Resolve a localModel modality (d, []) = (r, s)"
  shows "s = (d, []) \<and>
    (case r of
       Inr rs \<Rightarrow> sorted (map route_rank rs) \<and> rs \<noteq> [] \<and>
         set rs = {rt. \<exists>mc\<in>set (joined d). routable localModel modality mc \<and> mk_route a mc = Some rt}
     | Inl e \<Rightarrow> e = ErrNoRoute \<and> {rt. \<exists>mc\<in>set (joined d). routable localModel modality mc \<and> mk_route a mc = Some rt} = {})"
proof -
  define mws where "mws = sort_key route_order (filter (routable localModel modality) (joined d))"
  define rs where "rs = List.map_filter (mk_route a) mws"
  let ?out = "filter (\<lambda>r. ch_status (rt_channel r) \<noteq> ch_unhealthy) rs @ filter (\<lambda>r. ch_status (rt_channel r) = ch_unhealthy) rs"
  have set_rs: "set rs = {rt. \<exists>mc\<in>set (joined d). routable localModel modality mc \<and> mk_route a mc = Some rt}"
  proof -
    have "x \<in> set (List.map_filter f xs) \<longleftrightarrow> (\<exists>y\<in>set xs. f y = Some x)" for x :: route and f and xs :: "(model_mapping \<times> channel) list"
      by (induction xs) (auto simp: List.map_filter_simps split: option.splits)
    then show ?thesis unfolding rs_def mws_def by auto blast
  qed
  have "sorted (map route_order mws)" by (simp add: mws_def)
  then have "sorted (map (\<lambda>r. route_order (rt_mapping r, rt_channel r)) rs)" unfolding rs_def by (rule map_filter_order)
  then have sorted: "sorted (map route_rank ?out)" by (rule healthy_first_sorted)
  have set_out: "set ?out = set rs" by auto
  have run: "Resolve a localModel modality (d, []) = (if rs = [] then Inl ErrNoRoute else Inr ?out, (d, []))"
  proof -
    have q: "ResolveByLocalModel localModel modality (d, []) = (Inr mws, (d, []))"
      by (simp add: ResolveByLocalModel_def mws_def)
    show ?thesis unfolding Resolve_def bindE_def q
      by (cases "mws = []") (simp_all add: rs_def okE_def failE_def Let_def List.map_filter_simps)
  qed
  show ?thesis
  proof (cases "rs = []")
    case True
    then show ?thesis using assms run set_rs by auto
  next
    case False
    then have "?out \<noteq> []" using set_out by (metis set_empty)
    then show ?thesis using assms run False sorted set_out set_rs by auto
  qed
qed

section \<open>Health\<close>

text \<open>A report after the previous one is complete: the row is read anew.\<close>

definition report_health :: "nat \<Rightarrow> int \<Rightarrow> bool \<Rightarrow> channel_db sess \<Rightarrow> channel_db sess" where
  "report_health i now ok s = snd (bindE (Channel_GetByID i) (\<lambda>c. MarkHealth now c ok ''probe'') s)"

definition failures_in_a_row :: "bool list \<Rightarrow> nat" where
  "failures_in_a_row oks = length (takeWhile Not (rev oks))"

definition channel_row :: "nat \<Rightarrow> channel_db \<Rightarrow> channel option" where
  "channel_row i d = find (\<lambda>c. ch_id c = i \<and> ch_live c) (channels d)"

lemma find_map_id:
  assumes "\<And>c. ch_id (f c) = ch_id c \<and> ch_live (f c) = ch_live c"
  shows "find (\<lambda>c. ch_id c = i \<and> ch_live c) (map (\<lambda>c. if ch_id c = j then f c else c) cs) =
    map_option (\<lambda>c. if ch_id c = j then f c else c) (find (\<lambda>c. ch_id c = i \<and> ch_live c) cs)"
  using assms by (induction cs) auto

lemma MarkHealth_row:
  assumes "channel_row i d = Some row" and "ch_id c = i" and "health_after ok (ch_fail_count c) (ch_status c) = (n, st)"
  shows "\<exists>d'. MarkHealth now c ok msg (d, []) = (Inr (), (d', [])) \<and>
    channel_row i d' = Some (row\<lparr>ch_test_at := Some (datetime now), ch_test_ok := Some ok,
        ch_test_error := truncateErr msg 500, ch_fail_count := n, ch_status := st\<rparr>)"
proof -
  have "ch_id row = i" using assms(1) by (auto simp: channel_row_def find_Some_iff)
  let ?f = "\<lambda>r. r\<lparr>ch_test_at := Some (datetime now), ch_test_ok := Some ok,
      ch_test_error := truncateErr msg 500, ch_fail_count := n, ch_status := st\<rparr>"
  have "find (\<lambda>c. ch_id c = i \<and> ch_live c) (map (\<lambda>r. if ch_id r = i then ?f r else r) (channels d)) = Some (?f row)"
    using find_map_id [of ?f i i "channels d"] assms(1) \<open>ch_id row = i\<close> by (simp add: channel_row_def ch_live_def)
  then show ?thesis using assms(2,3)
    by (simp add: MarkHealth_def Channel_UpdateHealth_def update_channels_def channel_row_def)
qed

lemma report_health_row:
  assumes "channel_row i d = Some row" and "health_after ok (ch_fail_count row) (ch_status row) = (n, st)"
  shows "\<exists>d' row'. report_health i now ok (d, []) = (d', []) \<and> channel_row i d' = Some row' \<and>
    ch_fail_count row' = n \<and> ch_status row' = st"
proof -
  have id: "ch_id row = i" using assms(1) by (auto simp: channel_row_def find_Some_iff)
  from MarkHealth_row [OF assms(1) id assms(2)] obtain d' where
    d': "MarkHealth now row ok ''probe'' (d, []) = (Inr (), (d', []))"
    "channel_row i d' = Some (row\<lparr>ch_test_at := Some (datetime now), ch_test_ok := Some ok,
        ch_test_error := truncateErr ''probe'' 500, ch_fail_count := n, ch_status := st\<rparr>)" by blast
  have "Channel_GetByID i (d, []) = (Inr row, (d, []))"
    using assms(1) by (simp add: Channel_GetByID_def mapErr_def channel_row_def)
  then have "report_health i now ok (d, []) = (d', [])" by (simp add: report_health_def bindE_def d'(1))
  with d'(2) show ?thesis by auto
qed

text \<open>
  When the reports of a channel come one after the other, the stored count is the number of failures since
  the last success, and the channel is unhealthy exactly when there were three or more of them in a row.
\<close>

theorem three_failures_in_a_row:
  assumes "channel_row i d = Some row" and "ch_fail_count row = 0" and "ch_status row = ch_healthy"
  shows "\<exists>d' row'. fold (report_health i now) oks (d, []) = (d', []) \<and> channel_row i d' = Some row' \<and>
    ch_fail_count row' = int (failures_in_a_row oks) \<and>
    ch_status row' = (if failures_in_a_row oks \<ge> 3 then ch_unhealthy else ch_healthy)"
proof (induction oks rule: rev_induct)
  case Nil
  then show ?case using assms by (simp add: failures_in_a_row_def)
next
  case (snoc ok oks)
  then obtain d' row' where IH: "fold (report_health i now) oks (d, []) = (d', [])" "channel_row i d' = Some row'"
    "ch_fail_count row' = int (failures_in_a_row oks)"
    "ch_status row' = (if failures_in_a_row oks \<ge> 3 then ch_unhealthy else ch_healthy)" by blast
  define n st where "n = fst (health_after ok (ch_fail_count row') (ch_status row'))"
    and "st = snd (health_after ok (ch_fail_count row') (ch_status row'))"
  have "health_after ok (ch_fail_count row') (ch_status row') = (n, st)" by (simp add: n_def st_def)
  from report_health_row [OF IH(2) this, of now] obtain d2 row2 where
    d2: "report_health i now ok (d', []) = (d2, [])" "channel_row i d2 = Some row2" "ch_fail_count row2 = n" "ch_status row2 = st"
    by blast
  have "failures_in_a_row (oks @ [ok]) = (if ok then 0 else failures_in_a_row oks + 1)"
    by (simp add: failures_in_a_row_def)
  then have "n = int (failures_in_a_row (oks @ [ok]))"
    "st = (if failures_in_a_row (oks @ [ok]) \<ge> 3 then ch_unhealthy else ch_healthy)"
    by (auto simp: n_def st_def health_after_def IH(3,4))
  with d2 IH(1) show ?case by auto
qed

text \<open>
  Reports that overlap lose failures: any number of requests that took the channel's row from the router
  before one of them failed leave a count of one, so the channel stays healthy however many of them fail.
\<close>

theorem overlapping_failures_lost:
  assumes "channel_row i d = Some row" and "ch_fail_count row = 0" and "ch_status row = ch_healthy"
  shows "\<exists>d' row'. fold (\<lambda>msg s. snd (MarkHealth now row False msg s)) (msg # msgs) (d, []) = (d', []) \<and>
    channel_row i d' = Some row' \<and> ch_fail_count row' = 1 \<and> ch_status row' = ch_healthy"
proof -
  have id: "ch_id row = i" using assms(1) by (auto simp: channel_row_def find_Some_iff)
  have h: "health_after False (ch_fail_count row) (ch_status row) = (1, ch_healthy)"
    by (simp add: health_after_def assms)
  have step: "\<exists>d' r'. fold (\<lambda>msg s. snd (MarkHealth now row False msg s)) ms (d0, []) = (d', []) \<and> channel_row i d' = Some r' \<and>
      (ms \<noteq> [] \<longrightarrow> ch_fail_count r' = 1 \<and> ch_status r' = ch_healthy)" if "channel_row i d0 = Some r0" for ms d0 r0
    using that
  proof (induction ms arbitrary: d0 r0)
    case (Cons m ms)
    from MarkHealth_row [OF Cons.prems id h, of now m] obtain d1 where
      d1: "MarkHealth now row False m (d0, []) = (Inr (), (d1, []))"
      "channel_row i d1 = Some (r0\<lparr>ch_test_at := Some (datetime now), ch_test_ok := Some False,
        ch_test_error := truncateErr m 500, ch_fail_count := 1, ch_status := ch_healthy\<rparr>)" by blast
    from Cons.IH [OF d1(2)] show ?case
      by (cases ms) (auto simp: d1)
  qed auto
  from step [OF assms(1), of "msg # msgs"] show ?thesis by auto
qed

section \<open>Witnesses\<close>

definition demo_channel :: channel where
  "demo_channel = \<lparr>ch_id = 4, ch_name = ''relay'', ch_type = ''openai'', ch_base_url = ''https://relay/v1/chat/completions'',
     ch_key_enc = '''', ch_key_masked = '''', ch_enabled = True, ch_priority = 100, ch_weight = 1, ch_timeout = 120, ch_ratio = 2,
     ch_extra = None, ch_extra_json = '''', ch_status = ch_healthy, ch_fail_count = 0, ch_test_at = None, ch_test_ok = None,
     ch_test_error = '''', ch_remark = '''', ch_deleted = None\<rparr>"

definition demo_channels :: channel_db where
  "demo_channels = \<lparr>channels = [demo_channel], channels_next = 5,
     mappings = [\<lparr>mp_id = 9, mp_channel = 4, mp_local = ''gpt-5'', mp_upstream = ''gpt-5-pro'', mp_modality = ''text'',
                  mp_enabled = True, mp_priority = 0\<rparr>], mappings_next = 10\<rparr>"

lemma demo_row: "channel_row 4 demo_channels = Some demo_channel"
  by (simp add: channel_row_def demo_channels_def demo_channel_def ch_live_def)

theorem three_failures_in_a_row_witness:
  "\<exists>d' row'. fold (report_health 4 0) [False, False, True, False, False, False] (demo_channels, []) = (d', []) \<and>
     channel_row 4 d' = Some row' \<and> ch_fail_count row' = 3 \<and> ch_status row' = ch_unhealthy"
  using three_failures_in_a_row [OF demo_row, of 0 "[False, False, True, False, False, False]"]
  by (simp add: demo_channel_def failures_in_a_row_def)

theorem overlapping_failures_lost_witness:
  "\<exists>d' row'. fold (\<lambda>msg s. snd (MarkHealth 0 demo_channel False msg s)) [''timeout'', ''timeout'', ''timeout''] (demo_channels, []) = (d', []) \<and>
     channel_row 4 d' = Some row' \<and> ch_fail_count row' = 1 \<and> ch_status row' = ch_healthy"
  using overlapping_failures_lost [OF demo_row, of 0 "''timeout''" "[''timeout'', ''timeout'']"]
  by (simp add: demo_channel_def)

theorem routes_exact_witness:
  "\<exists>rs. fst (Resolve \<lparr>NonceSize = 12, Overhead = 16, Seal = (\<lambda>n p. p), Open = (\<lambda>n c. None)\<rparr> ''gpt-5'' ''text'' (demo_channels, [])) = Inr rs \<and> rs \<noteq> []"
proof -
  let ?a = "\<lparr>NonceSize = 12, Overhead = 16, Seal = (\<lambda>n p. p), Open = (\<lambda>n c. None)\<rparr>"
  obtain r s where run: "Resolve ?a ''gpt-5'' ''text'' (demo_channels, []) = (r, s)" by (cases "Resolve ?a ''gpt-5'' ''text'' (demo_channels, [])")
  have "\<exists>mc\<in>set (joined demo_channels). routable ''gpt-5'' ''text'' mc \<and> mk_route ?a mc \<noteq> None"
    by (simp add: joined_def demo_channels_def demo_channel_def routable_def ch_live_def mk_route_def DecryptKey_def adapter_New_def)
  then show ?thesis using routes_exact [OF run] run by (cases r) auto
qed

end
