(* ===== verification/Delta_Extractor.thy ===== *)
theory Delta_Extractor
  imports Go_Json
begin

text \<open>
  Reading the answer of chatgpt.com (internal/gateway/delta.go and the two loops of chat.go): the extractor
  turns one frame of the event stream into text for the user, the loops forward it piece by piece or collect
  it. An event carries its data and possibly a read error; a chunk written to the client is its role, its
  text and its finish reason.
\<close>

section \<open>The extractor\<close>

record extractor =
  x_last_full :: string
  x_cur_p :: string
  x_recipient :: string

definition new_extractor :: extractor where
  "new_extractor = \<lparr>x_last_full = '''', x_cur_p = '''', x_recipient = ''''\<rparr>"

definition isDone :: "string \<Rightarrow> bool" where
  "isDone data \<longleftrightarrow> TrimSpace data = ''[DONE]''"

text \<open>Type assertions on the members of a decoded object.\<close>

definition str_of :: "json option \<Rightarrow> string option" where
  "str_of v = (case v of Some (JStr s) \<Rightarrow> Some s | _ \<Rightarrow> None)"

definition str_or_empty :: "json option \<Rightarrow> string" where
  "str_or_empty v = (case str_of v of None \<Rightarrow> '''' | Some s \<Rightarrow> s)"

definition obj_of :: "json option \<Rightarrow> (string \<Rightarrow> json option) option" where
  "obj_of v = (case v of Some (JObj kvs) \<Rightarrow> Some (members kvs) | _ \<Rightarrow> None)"

definition arr_of :: "json option \<Rightarrow> json list option" where
  "arr_of v = (case v of Some (JArr xs) \<Rightarrow> Some xs | _ \<Rightarrow> None)"

definition thoughts_path :: string where "thoughts_path = ''/message/content/thoughts''"
definition parts_path :: string where "parts_path = ''/message/content/parts/0''"
definition status_path :: string where "status_path = ''/message/status''"
definition finished :: string where "finished = ''finished_successfully''"

text \<open>The patches of one frame, in order; the path is inherited from patch to patch.\<close>

fun patches :: "json list \<Rightarrow> string \<Rightarrow> string \<Rightarrow> string \<times> bool \<times> string" where
  "patches [] recipient p = ('''', False, p)"
| "patches (item # items) recipient p =
     (case obj_of (Some item) of
        None \<Rightarrow> patches items recipient p
      | Some m \<Rightarrow>
          (let subP = str_or_empty (m ''p''); subO = str_or_empty (m ''o'');
               p' = (if subP \<noteq> '''' then subP else p);
               (t, fin, q) = patches items recipient p' in
           if HasPrefix p' thoughts_path then (t, fin, q)
           else if p' = status_path then (t, str_of (m ''v'') = Some finished \<or> fin, q)
           else if (p' = '''' \<or> p' = parts_path) \<and> (subO = '''' \<or> subO = ''append'') \<and> recipient = ''all''
           then (str_or_empty (m ''v'') @ t, fin, q)
           else (t, fin, q)))"

text \<open>The text of a message that carries its parts in full.\<close>

definition first_part :: "(string \<Rightarrow> json option) \<Rightarrow> string option" where
  "first_part msg =
     (case obj_of (msg ''content'') of
        None \<Rightarrow> None
      | Some content \<Rightarrow>
          (case arr_of (content ''parts'') of
             Some (v # _) \<Rightarrow> str_of (Some v)
           | _ \<Rightarrow> None))"

definition set_recipient :: "(string \<Rightarrow> json option) \<Rightarrow> extractor \<Rightarrow> extractor" where
  "set_recipient msg x =
     (case str_of (msg ''recipient'') of
        None \<Rightarrow> x
      | Some r \<Rightarrow> if r \<noteq> '''' then x\<lparr>x_recipient := r\<rparr> else x)"

definition from_string :: "string \<Rightarrow> extractor \<Rightarrow> (string \<times> bool) \<times> extractor" where
  "from_string s x =
     (if x_recipient x \<noteq> ''all'' then (('''', x_cur_p x = status_path \<and> s = finished), x)
      else if x_cur_p x = status_path \<and> s = finished then (('''', True), x)
      else if x_cur_p x = '''' \<or> x_cur_p x = parts_path then ((s, False), x)
      else (('''', False), x))"

definition from_object :: "(string \<Rightarrow> json option) \<Rightarrow> extractor \<Rightarrow> (string \<times> bool) \<times> extractor" where
  "from_object m x =
     (case obj_of (m ''message'') of
        None \<Rightarrow> (('''', False), x)
      | Some msg \<Rightarrow>
          (let x1 = set_recipient msg x in
           case first_part msg of
             None \<Rightarrow> (('''', False), x1)
           | Some cur \<Rightarrow>
               (let x2 = x1\<lparr>x_last_full := cur\<rparr>; final = (str_or_empty (msg ''status'') = finished) in
                if cur \<noteq> '''' \<and> x_recipient x2 = ''all'' then ((cur, final), x2) else (('''', final), x2))))"

text \<open>The older protocol: a full text at the top level, of which the new part is given out.\<close>

definition from_legacy :: "(string \<Rightarrow> json option) \<Rightarrow> extractor \<Rightarrow> (string \<times> bool) \<times> extractor" where
  "from_legacy raw x =
     (case obj_of (raw ''message'') of
        None \<Rightarrow> (('''', False), x)
      | Some msg \<Rightarrow>
          (let x1 = set_recipient msg x in
           case first_part msg of
             None \<Rightarrow> (('''', False), x1)
           | Some cur \<Rightarrow>
               (let delta = (if HasPrefix cur (x_last_full x1) then drop (length (x_last_full x1)) cur else cur);
                    x2 = x1\<lparr>x_last_full := cur\<rparr>; final = (str_or_empty (msg ''status'') = finished) in
                if x_recipient x2 \<noteq> ''all'' then (('''', final), x2) else ((delta, final), x2))))"

definition Extract :: "string \<Rightarrow> extractor \<Rightarrow> (string \<times> bool) \<times> extractor" where
  "Extract data x0 =
     (let x = (if x_recipient x0 = '''' then x0\<lparr>x_recipient := ''all''\<rparr> else x0) in
      if isDone data then (('''', True), x)
      else case unmarshal_map data of
             None \<Rightarrow> (('''', False), x)
           | Some raw \<Rightarrow>
               if str_or_empty (raw ''type'') = ''message_stream_complete'' then (('''', True), x)
               else
                 let x1 = (case str_of (raw ''p'') of None \<Rightarrow> x | Some p \<Rightarrow> x\<lparr>x_cur_p := p\<rparr>) in
                 if HasPrefix (x_cur_p x1) thoughts_path then (('''', False), x1)
                 else case raw ''v'' of
                        None \<Rightarrow> (('''', False), x1)
                      | Some (JStr s) \<Rightarrow> from_string s x1
                      | Some (JArr items) \<Rightarrow>
                          (let (t, fin, p) = patches items (x_recipient x1) (x_cur_p x1) in
                           ((t, fin), x1\<lparr>x_cur_p := p\<rparr>))
                      | Some (JObj kvs) \<Rightarrow> from_object (members kvs) x1
                      | Some _ \<Rightarrow> from_legacy raw x1)"

section \<open>Silent rejections and empty answers\<close>

definition quoted :: "string \<Rightarrow> string" where
  "quoted s = CHR 0x22 # s @ [CHR 0x22]"

definition isSilentRejection :: "string \<Rightarrow> bool" where
  "isSilentRejection s \<longleftrightarrow>
     Contains s (quoted ''is_visually_hidden_from_conversation'' @ '': true'') \<and>
     Contains s (quoted ''role'' @ '': '' @ quoted ''system'') \<and>
     Contains s (quoted ''end_turn'' @ '': true'')"

text \<open>The four messages for the user, in UTF-8.\<close>

definition notice_free_rejected :: string where
  "notice_free_rejected = map char_of
    [228, 184, 138, 230, 184, 184, 230, 163, 128, 230, 181, 139, 229, 136, 176, 229, 189, 147, 229, 137, 141, 232, 180, 166,
     229, 143, 183, 228, 184, 186, 229, 133, 141, 232, 180, 185, 231, 137, 136, 40, 99, 104, 97, 116, 103, 112, 116, 45,
     102, 114, 101, 101, 97, 99, 99, 111, 117, 110, 116, 41, 44, 229, 183, 178, 233, 157, 153, 233, 187, 152, 230, 139,
     146, 231, 187, 157, 230, 156, 172, 230, 172, 161, 232, 175, 183, 230, 177, 130, 227, 128, 130, 232, 175, 183, 232, 129,
     148, 231, 179, 187, 231, 174, 161, 231, 144, 134, 229, 145, 152, 230, 155, 180, 230, 141, 162, 32, 67, 104, 97, 116,
     71, 80, 84, 32, 80, 108, 117, 115, 32, 47, 32, 84, 101, 97, 109, 32, 232, 180, 166, 229, 143, 183, 229, 144,
     142, 229, 134, 141, 232, 175, 149, 227, 128, 130 :: nat]"

definition notice_rejected :: string where
  "notice_rejected = map char_of
    [228, 184, 138, 230, 184, 184, 229, 183, 178, 230, 142, 165, 229, 143, 151, 232, 175, 183, 230, 177, 130, 228, 189, 134,
     233, 157, 153, 233, 187, 152, 231, 187, 136, 230, 173, 162, 229, 175, 185, 232, 175, 157, 40, 229, 184, 184, 232, 167,
     129, 228, 186, 142, 232, 180, 166, 229, 143, 183, 232, 162, 171, 233, 153, 144, 230, 181, 129, 230, 136, 150, 232, 167,
     166, 229, 143, 145, 229, 134, 133, 229, 174, 185, 229, 174, 161, 230, 160, 184, 41, 44, 232, 175, 183, 231, 168, 141,
     229, 144, 142, 233, 135, 141, 232, 175, 149, 44, 232, 139, 165, 228, 187, 141, 229, 164, 177, 232, 180, 165, 232, 175,
     183, 230, 155, 180, 230, 141, 162, 230, 168, 161, 229, 158, 139, 230, 136, 150, 232, 180, 166, 229, 143, 183, 227, 128,
     130 :: nat]"

definition notice_free_empty :: string where
  "notice_free_empty = map char_of
    [229, 189, 147, 229, 137, 141, 232, 180, 166, 229, 143, 183, 228, 184, 186, 32, 67, 104, 97, 116, 71, 80, 84, 32,
     229, 133, 141, 232, 180, 185, 231, 137, 136, 44, 228, 184, 138, 230, 184, 184, 230, 156, 170, 228, 186, 167, 229, 135,
     186, 229, 134, 133, 229, 174, 185, 227, 128, 130, 232, 175, 183, 230, 155, 180, 230, 141, 162, 32, 80, 108, 117, 115,
     47, 84, 101, 97, 109, 32, 232, 180, 166, 229, 143, 183, 229, 144, 142, 229, 134, 141, 232, 175, 149, 227, 128, 130 :: nat]"

definition notice_empty_answer :: string where
  "notice_empty_answer = map char_of
    [228, 184, 138, 230, 184, 184, 230, 156, 170, 228, 186, 167, 229, 135, 186, 229, 155, 158, 231, 173, 148, 229, 134, 133,
     229, 174, 185, 44, 229, 143, 175, 232, 131, 189, 232, 167, 166, 229, 143, 145, 228, 186, 134, 229, 134, 133, 229, 174,
     185, 229, 174, 161, 230, 160, 184, 230, 136, 150, 232, 180, 166, 229, 143, 183, 232, 162, 171, 228, 184, 180, 230, 151,
     182, 233, 153, 144, 230, 181, 129, 44, 232, 175, 183, 231, 168, 141, 229, 144, 142, 233, 135, 141, 232, 175, 149, 227,
     128, 130 :: nat]"

definition emptyReplyMessage :: "bool \<Rightarrow> bool \<Rightarrow> string" where
  "emptyReplyMessage freeAccount silentlyRejected =
     (if silentlyRejected \<and> freeAccount then notice_free_rejected
      else if silentlyRejected then notice_rejected
      else if freeAccount then notice_free_empty
      else notice_empty_answer)"

section \<open>The loops\<close>

record sse_event =
  ev_data :: string
  ev_err :: bool

record chunk =
  cm_role :: string
  cm_content :: string
  cm_finish :: "string option"

text \<open>The pieces of text that come out of a stream, the number of events and whether one was a rejection.\<close>

fun consume :: "sse_event list \<Rightarrow> extractor \<Rightarrow> string list \<times> nat \<times> bool" where
  "consume [] x = ([], 0, False)"
| "consume (ev # evs) x =
     (if ev_err ev then ([], 0, False)
      else if ev_data ev = '''' then consume evs x
      else
        (let ((delta, final), x') = Extract (ev_data ev) x;
             (ds, n, rej) = (if final then ([], 0, False) else consume evs x') in
         (if delta \<noteq> '''' then delta # ds else ds, n + 1, isSilentRejection (ev_data ev) \<or> rej)))"

definition tokens_of :: "string \<Rightarrow> nat" where
  "tokens_of s = (length s + 3) div 4"

definition content_chunk :: "string \<Rightarrow> chunk" where
  "content_chunk t = \<lparr>cm_role = '''', cm_content = t, cm_finish = None\<rparr>"

text \<open>The chunks written to the client, and the completion tokens that will be billed.\<close>

definition streamOpenAI :: "bool \<Rightarrow> sse_event list \<Rightarrow> chunk list \<times> nat" where
  "streamOpenAI freeAccount evs =
     (let (ds, n, rej) = consume evs new_extractor; t = concat ds in
      ([\<lparr>cm_role = ''assistant'', cm_content = '''', cm_finish = None\<rparr>] @ map content_chunk ds @
       (if t = '''' \<and> n > 0 then [content_chunk (emptyReplyMessage freeAccount rej)] else []) @
       [\<lparr>cm_role = '''', cm_content = '''', cm_finish = Some ''stop''\<rparr>],
       tokens_of t))"

definition collectOpenAI :: "bool \<Rightarrow> sse_event list \<Rightarrow> string \<times> nat" where
  "collectOpenAI freeAccount evs =
     (let (ds, n, rej) = consume evs new_extractor;
          t = (if concat ds = '''' \<and> n > 0 then emptyReplyMessage freeAccount rej else concat ds) in
      (t, tokens_of t))"

end
