(* ===== verification/Delta_Laws.thy ===== *)
theory Delta_Laws
  imports Delta_Extractor
begin

text \<open>
  What holds of the answer's way to the client: streaming and collecting give the same text, only text meant
  for the user gets out, the frames the server sends are read back to the text they carry, and two places
  where the code does not do what its comments say.
\<close>

section \<open>Streaming and collecting\<close>


lemma notice_nonempty: "emptyReplyMessage f r \<noteq> []"
  by (simp add: emptyReplyMessage_def notice_free_rejected_def notice_rejected_def notice_free_empty_def notice_empty_answer_def)

text \<open>
  An upstream that accepts a request but answers nothing costs no completion tokens when the client streams,
  and the tokens of the notice text when it does not.
\<close>

theorem empty_answer_billed_when_collected:
  assumes "consume evs new_extractor = (ds, n, rej)" and "concat ds = ''''" and "n > 0"
  shows "snd (streamOpenAI freeAccount evs) = 0 \<and>
    snd (collectOpenAI freeAccount evs) = tokens_of (emptyReplyMessage freeAccount rej) \<and>
    snd (collectOpenAI freeAccount evs) > 0"
proof -
  have "length (emptyReplyMessage freeAccount rej) > 0" using notice_nonempty by simp
  then have "4 \<le> length (emptyReplyMessage freeAccount rej) + 3" by linarith
  then have "(length (emptyReplyMessage freeAccount rej) + 3) div 4 > 0" by (simp add: div_greater_zero_iff)
  then show ?thesis using assms by (simp add: streamOpenAI_def collectOpenAI_def tokens_of_def Let_def)
qed

section \<open>What gets out\<close>

lemma patches_hidden: "recipient \<noteq> ''all'' \<Longrightarrow> fst (patches items recipient p) = ''''"
  by (induction items arbitrary: p) (auto simp: Let_def case_prod_unfold split: option.splits)

lemma from_string_all: "from_string s x = ((delta, fin), x') \<Longrightarrow> delta \<noteq> '''' \<Longrightarrow> x_recipient x' = ''all'' \<and> x' = x"
  by (auto simp: from_string_def split: if_splits)

lemma from_object_all: "from_object m x = ((delta, fin), x') \<Longrightarrow> delta \<noteq> '''' \<Longrightarrow> x_recipient x' = ''all''"
  by (auto simp: from_object_def Let_def split: if_splits option.splits)

lemma from_legacy_all: "from_legacy m x = ((delta, fin), x') \<Longrightarrow> delta \<noteq> '''' \<Longrightarrow> x_recipient x' = ''all''"
  by (auto simp: from_legacy_def Let_def split: if_splits option.splits)

text \<open>The path a frame is read under: its own, or the one of the frame before.\<close>

definition frame_path :: "string \<Rightarrow> extractor \<Rightarrow> string" where
  "frame_path data x =
     (case unmarshal_map data of
        None \<Rightarrow> x_cur_p x
      | Some raw \<Rightarrow> (case str_of (raw ''p'') of None \<Rightarrow> x_cur_p x | Some p \<Rightarrow> p))"


section \<open>The older protocol\<close>

text \<open>
  A frame without a member "v" yields no text, whatever message it carries: the reading of the older
  protocol, whose frames hold the whole message at the top level, is never reached for them.
\<close>

theorem legacy_frame_yields_nothing:
  assumes "unmarshal_map data = Some raw" and "raw ''v'' = None"
  shows "fst (fst (Extract data x)) = ''''"
  using assms by (auto simp: Extract_def Let_def split: option.splits)

section \<open>Reading back the server's frames\<close>

text \<open>A frame that continues the text, and the end of the stream.\<close>

definition text_frame :: "string \<Rightarrow> string" where
  "text_frame t = CHR ''{'' # quoted ''v'' @ CHR '':'' # quote t @ [CHR ''}'']"

definition event_of :: "string \<Rightarrow> sse_event" where
  "event_of data = \<lparr>ev_data = data, ev_err = False\<rparr>"

lemma str_body_name: "str_body (CHR ''v'' # CHR 0x22 # r) = Some (''v'', r)"
  by (simp add: str_body.simps(2) rune_len_def width_of_def byte_val_def)

lemma json_ws_punct [simp]: "\<not> json_ws CHR ''{''" "\<not> json_ws CHR ''}''" "\<not> json_ws CHR '':''"
  by (simp_all add: json_ws_def byte_val_def)

lemma parse_text_frame: "p_value (Suc (Suc (Suc n))) (Suc d) (text_frame t) = Some (JObj [(''v'', JStr (to_valid t))], [])"
proof -
  have q: "p_value (Suc n) d (quote t @ [CHR ''}'']) = Some (JStr (to_valid t), [CHR ''}''])"
    by (rule p_value_quote)
  have "p_members (Suc (Suc n)) d (CHR 0x22 # CHR ''v'' # CHR 0x22 # CHR '':'' # quote t @ [CHR ''}'']) =
      Some ([(''v'', JStr (to_valid t))], [])"
    unfolding p_members.simps(2) by (simp add: skip_ws_Cons str_body_name q del: p_value.simps)
  then show ?thesis
    unfolding text_frame_def quoted_def p_value.simps(2) [of "Suc (Suc n)"]
    by (simp add: skip_ws_Cons del: p_value.simps p_members.simps)
qed

lemma unmarshal_text_frame: "unmarshal_map (text_frame t) = Some (\<lambda>k. if k = ''v'' then Some (JStr (to_valid t)) else None)"
proof -
  have "fuel_for (text_frame t) = Suc (Suc (Suc (2 * length (text_frame t) - 1)))"
    by (simp add: fuel_for_def text_frame_def)
  then have "p_value (fuel_for (text_frame t)) max_depth (text_frame t) = Some (JObj [(''v'', JStr (to_valid t))], [])"
    using parse_text_frame [of _ 9999 t] by (simp only: max_depth_def) simp
  then show ?thesis
    by (simp add: unmarshal_map_def json_parse_def skip_ws_def members_def fun_eq_iff)
qed

lemma TrimSpace_hd: "\<not> is_space c \<Longrightarrow> \<exists>r. TrimSpace (c # s) = c # r"
proof -
  assume c: "\<not> is_space c"
  have "\<exists>r. dropWhile is_space (rev s @ [c]) = r @ [c]" for s
    by (induction s rule: rev_induct) (auto simp: c)
  then obtain r where "dropWhile is_space (rev s @ [c]) = r @ [c]" by blast
  then show ?thesis using c by (simp add: TrimSpace_def)
qed

lemma not_done_text_frame: "\<not> isDone (text_frame t)"
proof -
  have "\<not> is_space CHR ''{''" by (simp add: is_space_def byte_val_def)
  from TrimSpace_hd [OF this] obtain r where "TrimSpace (text_frame t) = CHR ''{'' # r"
    unfolding text_frame_def by blast
  then show ?thesis by (simp add: isDone_def)
qed

lemma Extract_text_frame:
  assumes "x_recipient x = ''all''" and "x_cur_p x = parts_path"
  shows "Extract (text_frame t) x = ((to_valid t, False), x)"
proof -
  have p: "\<not> HasPrefix parts_path thoughts_path" "parts_path \<noteq> status_path"
    by (simp_all add: parts_path_def thoughts_path_def status_path_def HasPrefix_def)
  show ?thesis
    using assms p not_done_text_frame [of t]
    by (simp add: Extract_def unmarshal_text_frame Let_def str_or_empty_def str_of_def from_string_def)
qed

lemma Extract_done: "x_recipient x = ''all'' \<Longrightarrow> Extract ''[DONE]'' x = (('''', True), x)"
  by (simp add: Extract_def isDone_def TrimSpace_def is_space_def byte_val_def)

text \<open>
  Once a message addressed to the user is under way, the texts of the frames that continue it come out one by
  one, in order and unchanged (invalid UTF-8 replaced, empty ones dropped), up to the end of the stream.
\<close>

theorem text_frames_read_back:
  assumes "x_recipient x = ''all''" and "x_cur_p x = parts_path"
  shows "fst (consume (map (\<lambda>t. event_of (text_frame t)) ts @ event_of ''[DONE]'' # rest) x) =
    filter (\<lambda>t. t \<noteq> '''') (map to_valid ts)"
proof (induction ts)
  case Nil
  then show ?case using assms by (simp add: event_of_def Extract_done Let_def)
next
  case (Cons t ts)
  have ne: "text_frame t \<noteq> []" by (simp add: text_frame_def)
  show ?case using Cons ne
    by (simp add: event_of_def Extract_text_frame [OF assms] Let_def case_prod_unfold)
qed

section \<open>Witnesses\<close>

definition demo_header :: string where
  "demo_header = CHR ''{'' # quoted ''v'' @ '':{'' @ quoted ''message'' @ '':{'' @ quoted ''recipient'' @ '':'' @ quoted ''all'' @ ''}}}''"

definition demo_first :: string where
  "demo_first = CHR ''{'' # quoted ''p'' @ '':'' @ quoted parts_path @ '','' @ quoted ''o'' @ '':'' @ quoted ''append'' @ '','' @
     quoted ''v'' @ '':'' @ quoted ''Hel'' @ ''}''"

definition demo_legacy :: string where
  "demo_legacy = CHR ''{'' # quoted ''message'' @ '':{'' @ quoted ''content'' @ '':{'' @ quoted ''parts'' @ '':['' @ quoted ''Hello'' @ '']}}}''"

theorem text_frames_read_back_witness:
  "fst (consume (map (\<lambda>t. event_of (text_frame t)) [''lo'', '''', '' world''] @ event_of ''[DONE]'' # [])
     \<lparr>x_last_full = '''', x_cur_p = parts_path, x_recipient = ''all''\<rparr>) = [''lo'', '' world'']"
proof -
  have v: "to_valid ''lo'' = ''lo''" "to_valid '' world'' = '' world''" "to_valid [] = []"
    by (simp_all add: to_valid_def rune_len_def width_of_def byte_val_def)
  show ?thesis
    using text_frames_read_back [of "\<lparr>x_last_full = '''', x_cur_p = parts_path, x_recipient = ''all''\<rparr>" "[''lo'', '''', '' world'']" "[]"] v
    by simp
qed


theorem legacy_frame_yields_nothing_witness:
  "fst (fst (Extract demo_legacy new_extractor)) = '''' \<and> map_option (\<lambda>m. first_part (the (obj_of (m ''message'')))) (unmarshal_map demo_legacy) = Some (Some ''Hello'')"
proof -
  have u: "map_option (\<lambda>m. (m ''v'', first_part (the (obj_of (m ''message''))))) (unmarshal_map demo_legacy) = Some (None, Some ''Hello'')"
    by code_simp
  then obtain raw where "unmarshal_map demo_legacy = Some raw" "raw ''v'' = None" by (cases "unmarshal_map demo_legacy") auto
  from legacy_frame_yields_nothing [OF this] u show ?thesis by (cases "unmarshal_map demo_legacy") auto
qed

theorem empty_answer_billed_when_collected_witness:
  "snd (streamOpenAI False [event_of demo_header]) = 0 \<and> snd (collectOpenAI False [event_of demo_header]) > 0"
proof -
  have e: "Extract demo_header new_extractor = (('''', False), \<lparr>x_last_full = '''', x_cur_p = '''', x_recipient = ''all''\<rparr>)"
    by code_simp
  have "demo_header \<noteq> ''''" by (simp add: demo_header_def)
  then have "consume [event_of demo_header] new_extractor = ([], 1, isSilentRejection demo_header)"
    by (simp add: event_of_def e)
  from empty_answer_billed_when_collected [OF this, of False] show ?thesis by simp
qed

end
