(* ===== verification/Gateway_Chat.thy ===== *)
theory Gateway_Chat
  imports Billing_Pricing Billing_Holds Scheduler_Laws Api_Keys Channel_Router Delta_Extractor
begin

text \<open>
  The chat endpoint (internal/gateway/chat.go and chat_channel.go): admission, the hold on the user's credits,
  the call through an external channel or through an account of the pool, and the settlement. The components'
  tables are disjoint and no statement spans two of them, so each component has its own session, and with it
  its own driver outcomes. What the network answers is an argument: the replies of chatgpt.com and of the
  channels' adapters. Texts of error messages and the log are left out; a reply to the client is its status
  and code, its chunks, or its content.
\<close>

section \<open>State\<close>

record usage_log =
  ul_user :: nat
  ul_key :: nat
  ul_model :: nat
  ul_account :: nat
  ul_request :: string
  ul_type :: string
  ul_in :: int
  ul_out :: int
  ul_images :: int
  ul_cost :: int
  ul_status :: string
  ul_code :: string

record gateway =
  gw_billing :: "billing_db sess"
  gw_pool :: "unit pool_db_scheme sess"
  gw_keys :: "apikey_db sess"
  gw_channels :: "channel_db sess"
  gw_catalog :: "unit catalog"
  gw_usage :: "usage_log list"

text \<open>Running an action on one component.\<close>

definition on_billing :: "(billing_db sess, 'b) action \<Rightarrow> (gateway, 'b) action" where
  "on_billing m g = (case m (gw_billing g) of (r, s) \<Rightarrow> (r, g\<lparr>gw_billing := s\<rparr>))"

definition on_pool :: "(unit pool_db_scheme sess, 'b) action \<Rightarrow> (gateway, 'b) action" where
  "on_pool m g = (case m (gw_pool g) of (r, s) \<Rightarrow> (r, g\<lparr>gw_pool := s\<rparr>))"

definition on_keys :: "(apikey_db sess, 'b) action \<Rightarrow> (gateway, 'b) action" where
  "on_keys m g = (case m (gw_keys g) of (r, s) \<Rightarrow> (r, g\<lparr>gw_keys := s\<rparr>))"

definition on_channels :: "(channel_db sess, 'b) action \<Rightarrow> (gateway, 'b) action" where
  "on_channels m g = (case m (gw_channels g) of (r, s) \<Rightarrow> (r, g\<lparr>gw_channels := s\<rparr>))"

definition on_catalog :: "(unit catalog, 'b) action \<Rightarrow> (gateway, 'b) action" where
  "on_catalog m g = (case m (gw_catalog g) of (r, s) \<Rightarrow> (r, g\<lparr>gw_catalog := s\<rparr>))"

section \<open>Requests and replies\<close>

record chat_message =
  msg_role :: string
  msg_content :: string

record chat_request =
  cq_model :: string
  cq_messages :: "chat_message list"
  cq_stream :: bool
  cq_temperature :: rat
  cq_top_p :: rat
  cq_max_tokens :: int

datatype reply =
    R_error int string
  | R_stream "chunk list"
  | R_json string string int
  | R_images

text \<open>\<open>int\<close> is 64 bits wide.\<close>

definition roughEstimateTokens :: "chat_message list \<Rightarrow> int" where
  "roughEstimateTokens msgs = (\<Sum>m\<leftarrow>msgs. int ((length (msg_content m) + 3) div 4) + 4) + 2"

definition mapUpstreamModelSlug :: "string \<Rightarrow> string" where
  "mapUpstreamModelSlug s = (if s = ''gpt-5'' then ''gpt-5-3'' else s)"

section \<open>Upstream errors\<close>

datatype up_error = UpstreamError int string | OtherError string

definition isProxyTransportError :: "up_error \<Rightarrow> bool" where
  "isProxyTransportError e =
     (case e of
        UpstreamError _ _ \<Rightarrow> False
      | OtherError m \<Rightarrow>
          (let msg = ToLower (TrimSpace m) in
           msg \<noteq> '''' \<and>
           (\<exists>needle\<in>set [''invalid proxy url'', ''unsupported proxy scheme'', ''dial proxy'',
              ''tls handshake to https proxy'', ''proxyconnect'', ''proxy connect'']. Contains msg needle)))"

definition truncate_text :: "string \<Rightarrow> nat \<Rightarrow> string" where
  "truncate_text s n = (if length s \<le> n then s else take n s @ ''...'')"

definition proxyFailureSummary :: "string \<Rightarrow> string" where
  "proxyFailureSummary m = truncate_text (TrimSpace m) 255"

text \<open>The result of marking the proxy is dropped; the lease keeps its flag.\<close>

definition markProxyFailureIfNeeded :: "up_error \<Rightarrow> lease \<Rightarrow> gateway \<Rightarrow> lease \<times> gateway" where
  "markProxyFailureIfNeeded e l g =
     (case e of
        UpstreamError _ _ \<Rightarrow> (l, g)
      | OtherError m \<Rightarrow>
          if ls_proxy_id l = 0 \<or> \<not> isProxyTransportError e then (l, g)
          else (case MarkProxyFailure (proxyFailureSummary m) l (gw_pool g) of
                  ((_, l'), s) \<Rightarrow> (l', g\<lparr>gw_pool := s\<rparr>)))"

section \<open>The network\<close>

record requirements =
  cr_token :: string
  cr_persona :: string
  cr_pow_required :: bool

definition IsFreeAccount :: "requirements \<Rightarrow> bool" where
  "IsFreeAccount cr \<longleftrightarrow> cr_persona cr = ''chatgpt-freeaccount''"

record fchat_opts =
  fo_model :: string
  fo_messages :: "chat_message list"
  fo_chat_token :: string
  fo_proof_token :: string
  fo_conduit :: string

text \<open>
  What chatgpt.com answers: whether a client can be built for a lease and its cookies, the requirements, the
  proof of work (\<open>None\<close>: not in time), the conduit, the stream. \<open>ad_chunk\<close> is a piece of a
  channel's answer, with the completion tokens it reports.
\<close>

record upstream =
  up_new :: "lease \<Rightarrow> string \<Rightarrow> up_error option"
  up_requirements :: "lease \<Rightarrow> up_error + requirements"
  up_proof :: "requirements \<Rightarrow> string option"
  up_prepare :: "fchat_opts \<Rightarrow> up_error + string"
  up_stream :: "fchat_opts \<Rightarrow> up_error + sse_event list"

record ad_chunk =
  ac_delta :: string
  ac_finish :: string
  ac_usage :: "int option"
  ac_err :: bool

text \<open>The readings of the clock, by the place that takes them (milliseconds; nanoseconds for the dispatch).\<close>

datatype moment =
    M_lookup | M_rpm | M_channel_rpm | M_tpm | M_dispatch | M_status | M_health nat | M_touch | M_adjust | M_release

record chat_env =
  ce_clock :: "moment \<Rightarrow> int"
  ce_zone :: int
  ce_ref :: string
  ce_channel_ref :: string
  ce_ip :: string
  ce_group :: "(rat \<times> int \<times> int) option"
  ce_world :: "unit pool_db_scheme sess world"
  ce_upstream :: upstream
  ce_adapter :: "route \<Rightarrow> chat_request \<Rightarrow> string + ad_chunk list"

text \<open>What the handler was built with; \<open>rd\<close> is the arithmetic of the limiter's script.\<close>

record chat_handler =
  ch_cipher :: aead
  ch_sched :: scheduler
  ch_scan :: scan
  ch_rd :: "rat \<Rightarrow> rat"
  ch_has_images :: bool

section \<open>Holding credits\<close>

text \<open>A reserved limit: an error of the limiter lets the request through.\<close>

definition refused :: "(bool \<times> rat) result \<Rightarrow> bool" where
  "refused r = (case r of Inr (ok, _) \<Rightarrow> \<not> ok | Inl _ \<Rightarrow> False)"

definition est_tokens :: "chat_request \<Rightarrow> int" where
  "est_tokens q = (if cq_max_tokens q \<le> 0 then 2048 else cq_max_tokens q)"

definition fail_log :: "string \<Rightarrow> usage_log \<Rightarrow> usage_log" where
  "fail_log code rec = rec\<lparr>ul_status := ''failed'', ul_code := code\<rparr>"

text \<open>The token limit and the pre-deduction, the same on both ways: a refusal, or the held estimate.\<close>

definition hold_credits ::
  "chat_handler \<Rightarrow> chat_env \<Rightarrow> api_key \<Rightarrow> model_row \<Rightarrow> chat_request \<Rightarrow> rat \<Rightarrow> int \<Rightarrow> string \<Rightarrow> gateway \<Rightarrow>
   ((int \<times> string) + int) \<times> gateway" where
  "hold_credits h e ak m q ratio tpmCap refID g =
     (let promptTokens = roughEstimateTokens (cq_messages q);
          estCost = EstimateChat (Some m) promptTokens (cq_max_tokens q) ratio;
          (r, g1) = on_pool (AllowTPM (ch_rd h) (ce_clock e M_tpm) (k_id ak) tpmCap (wrap64 (promptTokens + est_tokens q))) g in
      if refused r then (Inl (429, ''rate_limit_tpm''), g1)
      else case on_billing (PreDeduct (k_user ak) (k_id ak) estCost refID ''chat prepay'') g1 of
             (Inl err, g2) \<Rightarrow>
               (if err = ErrInsufficient then (Inl (402, ''insufficient_balance''), g2) else (Inl (500, ''billing_error''), g2))
           | (Inr _, g2) \<Rightarrow> (Inr estCost, g2))"

definition refund_hold :: "api_key \<Rightarrow> int \<Rightarrow> string \<Rightarrow> gateway \<Rightarrow> gateway" where
  "refund_hold ak estCost refID g =
     snd (on_billing (Refund (k_user ak) (k_id ak) estCost refID ''chat refund'') g)"

text \<open>
  The settlement of a call that was answered: the actual cost, the key's usage, the tokens beyond the
  estimate, the log.
\<close>

definition settle_call ::
  "chat_handler \<Rightarrow> chat_env \<Rightarrow> api_key \<Rightarrow> model_row \<Rightarrow> chat_request \<Rightarrow> rat \<Rightarrow> int \<Rightarrow> string \<Rightarrow> int \<Rightarrow> int \<Rightarrow>
   usage_log \<Rightarrow> gateway \<Rightarrow> usage_log \<times> gateway" where
  "settle_call h e ak m q ratio tpmCap refID estCost completionTokens rec g =
     (let promptTokens = roughEstimateTokens (cq_messages q);
          actual = ComputeChatCost (Some m) promptTokens completionTokens ratio;
          g1 = snd (on_billing (Settle (k_user ak) (k_id ak) estCost actual refID ''chat settle'') g);
          g2 = snd (on_keys (TouchUsage (ce_clock e M_touch) (k_id ak) (ce_ip e) actual) g1);
          diff = wrap64 (wrap64 (promptTokens + completionTokens) - wrap64 (promptTokens + est_tokens q));
          g3 = (if diff > 0
                then g2\<lparr>gw_pool := AdjustTPM (ch_rd h) (ce_clock e M_adjust) (k_id ak) tpmCap diff (gw_pool g2)\<rparr>
                else g2) in
      (rec\<lparr>ul_status := ''success'', ul_in := promptTokens, ul_out := completionTokens, ul_cost := actual\<rparr>, g3))"

section \<open>Through a channel\<close>

text \<open>The pieces up to an error: the text, the tokens last reported, the finish reason.\<close>

fun read_chunks :: "ad_chunk list \<Rightarrow> int \<Rightarrow> string \<Rightarrow> string list \<times> int \<times> string" where
  "read_chunks [] n fin = ([], n, fin)"
| "read_chunks (c # cs) n fin =
     (if ac_err c then ([], n, fin)
      else
        (let n' = (case ac_usage c of None \<Rightarrow> n | Some u \<Rightarrow> u);
             fin' = (if ac_finish c \<noteq> '''' then ac_finish c else fin);
             (ds, k, f) = read_chunks cs n' fin' in
         (if ac_delta c \<noteq> '''' then ac_delta c # ds else ds, k, f)))"

definition channel_tokens :: "int \<Rightarrow> string \<Rightarrow> int" where
  "channel_tokens n t = (if n \<le> 0 then int (tokens_of t) else n)"

definition streamChannel :: "ad_chunk list \<Rightarrow> reply \<times> int" where
  "streamChannel cs =
     (let (ds, n, fin) = read_chunks cs 0 ''stop'' in
      (R_stream ([\<lparr>cm_role = ''assistant'', cm_content = '''', cm_finish = None\<rparr>] @ map content_chunk ds @
         [\<lparr>cm_role = '''', cm_content = '''', cm_finish = Some fin\<rparr>]), channel_tokens n (concat ds)))"

definition collectChannel :: "ad_chunk list \<Rightarrow> reply \<times> int" where
  "collectChannel cs =
     (let (ds, n, fin) = read_chunks cs 0 ''stop''; k = channel_tokens n (concat ds) in
      (R_json (concat ds) fin k, k))"

text \<open>The first candidate that answers; every failure is recorded, and what the recording returns is dropped.\<close>

fun try_routes ::
  "chat_env \<Rightarrow> chat_request \<Rightarrow> nat \<Rightarrow> route list \<Rightarrow> gateway \<Rightarrow> (route \<times> ad_chunk list) option \<times> gateway" where
  "try_routes e q k [] g = (None, g)"
| "try_routes e q k (rt # rts) g =
     (case ce_adapter e rt q of
        Inl msg \<Rightarrow> try_routes e q (k + 1) rts (snd (on_channels (MarkHealth (ce_clock e (M_health k)) (rt_channel rt) False msg) g))
      | Inr cs \<Rightarrow> (Some (rt, cs), snd (on_channels (MarkHealth (ce_clock e (M_health k)) (rt_channel rt) True '''') g)))"

definition channel_ratio :: "channel \<Rightarrow> rat" where
  "channel_ratio c = (if ch_ratio c \<le> 0 then 1 else ch_ratio c)"

text \<open>\<open>None\<close>: the model has no route (or the lookup failed), and the caller falls back to the account pool.\<close>

definition dispatchChatToChannel ::
  "chat_handler \<Rightarrow> chat_env \<Rightarrow> api_key \<Rightarrow> model_row \<Rightarrow> chat_request \<Rightarrow> usage_log \<Rightarrow> rat \<Rightarrow> int \<Rightarrow> int \<Rightarrow> gateway \<Rightarrow>
   (reply \<times> usage_log) option \<times> gateway" where
  "dispatchChatToChannel h e ak m q rec0 ratio rpmCap tpmCap g =
     (case on_channels (Resolve (ch_cipher h) (m_slug m) ModalityText) g of
        (Inl _, g1) \<Rightarrow> (None, g1)
      | (Inr routes, g1) \<Rightarrow>
          if routes = [] then (None, g1)
          else
            let refID = ce_channel_ref e; rec = rec0\<lparr>ul_request := refID, ul_model := m_id m\<rparr>;
                (lim, g2) = on_pool (AllowRPM (ch_rd h) (ce_clock e M_channel_rpm) (k_id ak) rpmCap) g1 in
            if refused lim then (Some (R_error 429 ''rate_limit_rpm'', fail_log ''rate_limit_rpm'' rec), g2)
            else
              (case hold_credits h e ak m q ratio tpmCap refID g2 of
                 (Inl (http, code), g3) \<Rightarrow> (Some (R_error http code, fail_log code rec), g3)
               | (Inr estCost, g3) \<Rightarrow>
                   (case try_routes e q 0 routes g3 of
                      (None, g4) \<Rightarrow>
                        (Some (R_error 502 ''upstream_error'', fail_log ''upstream_error'' rec), refund_hold ak estCost refID g4)
                    | (Some (rt, cs), g4) \<Rightarrow>
                        let (rep, k) = (if cq_stream q then streamChannel cs else collectChannel cs);
                            (rec', g5) = settle_call h e ak m q (rnd64 (ratio * channel_ratio (rt_channel rt))) tpmCap refID estCost k rec g4 in
                        (Some (rep, rec'), g5))))"

section \<open>Through an account\<close>

text \<open>
  How a call through an account ends before its settlement: refused with a status and a code, or answered
  with a reply and its completion tokens. What has to be released comes with it.
\<close>

type_synonym served = "((int \<times> string) + (reply \<times> int)) \<times> lease"

text \<open>\<open>handleUpstreamErr\<close>: the proxy, then the account; a refusal of the upstream's kind marks the account.\<close>

definition handleUpstreamErr :: "chat_handler \<Rightarrow> chat_env \<Rightarrow> up_error \<Rightarrow> lease \<Rightarrow> gateway \<Rightarrow> served \<times> gateway" where
  "handleUpstreamErr h e err l g =
     (let (l', g1) = markProxyFailureIfNeeded err l g;
          i = a_id (ls_account l');
          g2 = (case err of
                  UpstreamError st _ \<Rightarrow>
                    if st = 429 then g1\<lparr>gw_pool := MarkRateLimited (ch_sched h) (ce_clock e M_status) i (gw_pool g1)\<rparr>
                    else if st = 401 \<or> st = 403 then g1\<lparr>gw_pool := MarkDead i (gw_pool g1)\<rparr>
                    else g1
                | OtherError _ \<Rightarrow> g1) in
      ((Inl (502, ''upstream_error''), l'), g2))"

definition pow_failure :: "chat_handler \<Rightarrow> chat_env \<Rightarrow> string \<Rightarrow> lease \<Rightarrow> gateway \<Rightarrow> served \<times> gateway" where
  "pow_failure h e code l g =
     ((Inl (503, code), l),
      g\<lparr>gw_pool := MarkWarned (ch_sched h) (ce_clock e M_status) (a_id (ls_account l)) (gw_pool g)\<rparr>)"

text \<open>The model the upstream is asked for: a free account always asks for \<open>auto\<close>.\<close>

definition upstream_model :: "model_row \<Rightarrow> requirements \<Rightarrow> string" where
  "upstream_model m cr =
     (let s = mapUpstreamModelSlug (if m_upstream_slug m = '''' then ''auto'' else m_upstream_slug m) in
      if IsFreeAccount cr \<and> s \<noteq> ''auto'' then ''auto'' else s)"

text \<open>With the requirements and the proof in hand: the conduit, which may fail, and the answer.\<close>

definition converse ::
  "chat_handler \<Rightarrow> chat_env \<Rightarrow> model_row \<Rightarrow> chat_request \<Rightarrow> requirements \<Rightarrow> string \<Rightarrow> lease \<Rightarrow> gateway \<Rightarrow> served \<times> gateway" where
  "converse h e m q cr proof l g =
     (let opts = \<lparr>fo_model = upstream_model m cr, fo_messages = cq_messages q, fo_chat_token = cr_token cr,
                  fo_proof_token = proof, fo_conduit = ''''\<rparr>;
          (conduit, l1, g1) = (case up_prepare (ce_upstream e) opts of
             Inl err \<Rightarrow> (case markProxyFailureIfNeeded err l g of (l', g') \<Rightarrow> ('''', l', g'))
           | Inr c \<Rightarrow> (c, l, g)) in
      case up_stream (ce_upstream e) (opts\<lparr>fo_conduit := conduit\<rparr>) of
        Inl err \<Rightarrow> handleUpstreamErr h e err l1 g1
      | Inr evs \<Rightarrow>
          if cq_stream q
          then (case streamOpenAI (IsFreeAccount cr) evs of (cs, k) \<Rightarrow> ((Inr (R_stream cs, int k), l1), g1))
          else (case collectOpenAI (IsFreeAccount cr) evs of (t, k) \<Rightarrow> ((Inr (R_json t ''stop'' (int k), int k), l1), g1)))"

definition serve_lease ::
  "chat_handler \<Rightarrow> chat_env \<Rightarrow> model_row \<Rightarrow> chat_request \<Rightarrow> lease \<Rightarrow> gateway \<Rightarrow> served \<times> gateway" where
  "serve_lease h e m q l g =
     (let (ck, g1) = on_pool (DecryptCookies (ch_cipher h) (a_id (ls_account l))) g;
          cookies_text = (case ck of Inl _ \<Rightarrow> '''' | Inr s \<Rightarrow> s);
          up = ce_upstream e in
      case up_new up l cookies_text of
        Some err \<Rightarrow> (case markProxyFailureIfNeeded err l g1 of (l', g2) \<Rightarrow> ((Inl (500, ''upstream_init_error''), l'), g2))
      | None \<Rightarrow>
          (case up_requirements up l of
             Inl err \<Rightarrow> handleUpstreamErr h e err l g1
           | Inr cr \<Rightarrow>
               if cr_pow_required cr then
                 (case up_proof up cr of
                    None \<Rightarrow> pow_failure h e ''pow_timeout'' l g1
                  | Some p \<Rightarrow> if p = '''' then pow_failure h e ''pow_failed'' l g1 else converse h e m q cr p l g1)
               else converse h e m q cr '''' l g1))"

text \<open>The errors of the release are dropped.\<close>

definition release_lease :: "chat_env \<Rightarrow> lease \<Rightarrow> gateway \<Rightarrow> gateway" where
  "release_lease e l g = g\<lparr>gw_pool := snd (Sched_Release (ce_zone e) (ce_clock e M_release) l (gw_pool g))\<rparr>"

definition chat_through_account ::
  "chat_handler \<Rightarrow> chat_env \<Rightarrow> api_key \<Rightarrow> model_row \<Rightarrow> chat_request \<Rightarrow> usage_log \<Rightarrow> rat \<Rightarrow> int \<Rightarrow> gateway \<Rightarrow>
   (reply \<times> usage_log) \<times> gateway" where
  "chat_through_account h e ak m q rec ratio tpmCap g =
     (let refID = ce_ref e in
      case hold_credits h e ak m q ratio tpmCap refID g of
        (Inl (http, code), g1) \<Rightarrow> ((R_error http code, fail_log code rec), g1)
      | (Inr estCost, g1) \<Rightarrow>
          (case Dispatch (ch_cipher h) (ch_sched h) (ch_scan h) (ce_zone e) ''chat'' (ce_world e) (ce_clock e M_dispatch) (gw_pool g1) of
             (Inl _, _, s) \<Rightarrow>
               ((R_error 503 ''no_account_available'', fail_log ''no_account_available'' rec),
                refund_hold ak estCost refID (g1\<lparr>gw_pool := s\<rparr>))
           | (Inr l, _, s) \<Rightarrow>
               let rec1 = rec\<lparr>ul_account := a_id (ls_account l)\<rparr>;
                   ((res, l'), g2) = serve_lease h e m q l (g1\<lparr>gw_pool := s\<rparr>) in
               case res of
                 Inl (http, code) \<Rightarrow>
                   ((R_error http code, fail_log code rec1), release_lease e l' (refund_hold ak estCost refID g2))
               | Inr (rep, k) \<Rightarrow>
                   let (rec2, g3) = settle_call h e ak m q ratio tpmCap refID estCost k rec1 g2 in
                   ((rep, rec2), release_lease e l' g3)))"

section \<open>The endpoint\<close>

text \<open>The multiplier and limits of the user's group; the key's own limits come first.\<close>

definition call_ratio :: "chat_env \<Rightarrow> rat" where
  "call_ratio e = (case ce_group e of None \<Rightarrow> 1 | Some (ratio, rpm, tpm) \<Rightarrow> ratio)"

definition rpm_cap :: "chat_env \<Rightarrow> api_key \<Rightarrow> int" where
  "rpm_cap e ak = (case ce_group e of None \<Rightarrow> k_rpm ak | Some (ratio, rpm, tpm) \<Rightarrow> if k_rpm ak = 0 then rpm else k_rpm ak)"

definition tpm_cap :: "chat_env \<Rightarrow> api_key \<Rightarrow> int" where
  "tpm_cap e ak = (case ce_group e of None \<Rightarrow> k_tpm ak | Some (ratio, rpm, tpm) \<Rightarrow> if k_tpm ak = 0 then tpm else k_tpm ak)"

definition new_log :: "chat_env \<Rightarrow> api_key \<Rightarrow> usage_log" where
  "new_log e ak =
     \<lparr>ul_user = k_user ak, ul_key = k_id ak, ul_model = 0, ul_account = 0, ul_request = ce_ref e, ul_type = ''chat'',
      ul_in = 0, ul_out = 0, ul_images = 0, ul_cost = 0, ul_status = '''', ul_code = ''''\<rparr>"

text \<open>A chat model that is allowed, enabled and within the request limit.\<close>

definition chat_model_call ::
  "chat_handler \<Rightarrow> chat_env \<Rightarrow> api_key \<Rightarrow> model_row \<Rightarrow> chat_request \<Rightarrow> usage_log \<Rightarrow> gateway \<Rightarrow> (reply \<times> usage_log) \<times> gateway" where
  "chat_model_call h e ak m q rec0 g =
     (let rec = rec0\<lparr>ul_model := m_id m\<rparr>;
          (lim, g1) = on_pool (AllowRPM (ch_rd h) (ce_clock e M_rpm) (k_id ak) (rpm_cap e ak)) g in
      if refused lim then ((R_error 429 ''rate_limit_rpm'', fail_log ''rate_limit_rpm'' rec), g1)
      else case dispatchChatToChannel h e ak m q rec (call_ratio e) (rpm_cap e ak) (tpm_cap e ak) g1 of
             (Some out, g2) \<Rightarrow> (out, g2)
           | (None, g2) \<Rightarrow> chat_through_account h e ak m q rec (call_ratio e) (tpm_cap e ak) g2)"

text \<open>
  The handler after authentication and decoding. A model of images is handed to the image handler, which is
  not part of this model (\<open>R_images\<close>). The deferred write of the log comes last.
\<close>

definition write_log :: "usage_log \<Rightarrow> gateway \<Rightarrow> gateway" where
  "write_log rec g =
     g\<lparr>gw_usage := gw_usage g @ [if ul_status rec = '''' then rec\<lparr>ul_status := ''failed''\<rparr> else rec]\<rparr>"

definition chat_body :: "chat_handler \<Rightarrow> chat_env \<Rightarrow> api_key \<Rightarrow> chat_request \<Rightarrow> gateway \<Rightarrow> (reply \<times> usage_log) \<times> gateway" where
  "chat_body h e ak q g =
     (let rec = new_log e ak in
      if \<not> ModelAllowed ak (cq_model q) then ((R_error 403 ''model_not_allowed'', fail_log ''model_not_allowed'' rec), g)
      else case on_catalog (BySlug (ce_clock e M_lookup) (cq_model q)) g of
             (Inl _, g1) \<Rightarrow> ((R_error 400 ''model_not_found'', fail_log ''model_not_found'' rec), g1)
           | (Inr m, g1) \<Rightarrow>
               if \<not> m_enabled m then ((R_error 400 ''model_not_found'', fail_log ''model_not_found'' rec), g1)
               else if m_type m = ''image'' then
                 (if ch_has_images h then ((R_images, rec), g1)
                  else ((R_error 501 ''image_not_wired'', fail_log ''image_not_wired'' rec), g1))
               else chat_model_call h e ak m q rec g1)"

definition ChatCompletions :: "chat_handler \<Rightarrow> chat_env \<Rightarrow> api_key \<Rightarrow> chat_request \<Rightarrow> gateway \<Rightarrow> reply \<times> gateway" where
  "ChatCompletions h e ak q g = (case chat_body h e ak q g of ((rep, rec), g') \<Rightarrow> (rep, write_log rec g'))"

end
