(* ===== verification/Gateway_Laws.thy ===== *)
theory Gateway_Laws
  imports Gateway_Chat
begin

text \<open>
  What holds of a chat call from end to end: the wallet falls by exactly what the usage log says, whatever the
  upstream does; the account and the proxy it used are given back; a key's quota counts the same cost; and
  three places where the flow does not do what it is meant to.
\<close>

section \<open>What a step leaves alone\<close>

lemma on_pool_frame:
  "on_pool m g = (r, g') \<Longrightarrow> gw_billing g' = gw_billing g \<and> gw_keys g' = gw_keys g \<and> gw_usage g' = gw_usage g"
  by (auto simp: on_pool_def split: prod.splits)

lemma on_channels_frame:
  "on_channels m g = (r, g') \<Longrightarrow> gw_billing g' = gw_billing g \<and> gw_keys g' = gw_keys g \<and> gw_usage g' = gw_usage g \<and> gw_pool g' = gw_pool g"
  by (auto simp: on_channels_def split: prod.splits)

lemma on_catalog_frame:
  "on_catalog m g = (r, g') \<Longrightarrow> gw_billing g' = gw_billing g \<and> gw_keys g' = gw_keys g \<and> gw_usage g' = gw_usage g \<and> gw_pool g' = gw_pool g"
  by (auto simp: on_catalog_def split: prod.splits)

lemma on_billing_frame:
  "on_billing m g = (r, g') \<Longrightarrow> m (gw_billing g) = (r, gw_billing g') \<and> gw_keys g' = gw_keys g \<and> gw_usage g' = gw_usage g \<and> gw_pool g' = gw_pool g"
  by (auto simp: on_billing_def split: prod.splits)

lemma on_keys_frame:
  "on_keys m g = (r, g') \<Longrightarrow> m (gw_keys g) = (r, gw_keys g') \<and> gw_billing g' = gw_billing g \<and> gw_usage g' = gw_usage g \<and> gw_pool g' = gw_pool g"
  by (auto simp: on_keys_def split: prod.splits)

text \<open>The upstream side touches the pool alone.\<close>

definition pool_only :: "gateway \<Rightarrow> gateway \<Rightarrow> bool" where
  "pool_only g g' \<longleftrightarrow> gw_billing g' = gw_billing g \<and> gw_keys g' = gw_keys g \<and> gw_usage g' = gw_usage g"

lemma pool_only_refl [simp]: "pool_only g g"
  by (simp add: pool_only_def)

lemma pool_only_trans: "pool_only g g1 \<Longrightarrow> pool_only g1 g2 \<Longrightarrow> pool_only g g2"
  by (simp add: pool_only_def)

lemma pool_only_pool [simp]: "pool_only g (g\<lparr>gw_pool := s\<rparr>)"
  by (simp add: pool_only_def)

lemma pool_only_mark: "markProxyFailureIfNeeded err l g = (l', g') \<Longrightarrow> pool_only g g'"
  by (auto simp: markProxyFailureIfNeeded_def split: up_error.splits if_splits prod.splits)

lemma pool_only_handle: "handleUpstreamErr h e err l g = (out, g') \<Longrightarrow> pool_only g g'"
proof -
  assume a: "handleUpstreamErr h e err l g = (out, g')"
  obtain l' g1 where m: "markProxyFailureIfNeeded err l g = (l', g1)" by (cases "markProxyFailureIfNeeded err l g")
  have "pool_only g1 g'"
    using a by (auto simp: handleUpstreamErr_def m Let_def split: up_error.splits if_splits)
  with pool_only_mark [OF m] show ?thesis by (rule pool_only_trans)
qed

lemma pool_only_converse: "converse h e m q cr proof_text l g = (out, g') \<Longrightarrow> pool_only g g'"
proof -
  let ?opts = "\<lparr>fo_model = upstream_model m cr, fo_messages = cq_messages q, fo_chat_token = cr_token cr,
                  fo_proof_token = proof_text, fo_conduit = ''''\<rparr>"
  let ?prep = "(case up_prepare (ce_upstream e) ?opts of
             Inl err \<Rightarrow> (case markProxyFailureIfNeeded err l g of (l', g') \<Rightarrow> ('''', l', g'))
           | Inr c \<Rightarrow> (c, l, g))"
  assume a: "converse h e m q cr proof_text l g = (out, g')"
  obtain c l1 g1 where p: "?prep = (c, l1, g1)" by (cases ?prep)
  have 1: "pool_only g g1" using p by (auto split: sum.splits prod.splits dest: pool_only_mark)
  have "pool_only g1 g'"
    using a unfolding converse_def Let_def p
    by (auto split: sum.splits if_splits prod.splits dest: pool_only_handle)
  with 1 show ?thesis by (rule pool_only_trans)
qed

lemma pool_only_serve: "serve_lease h e m q l g = (out, g') \<Longrightarrow> pool_only g g'"
proof -
  assume a: "serve_lease h e m q l g = (out, g')"
  obtain ck g1 where c: "on_pool (DecryptCookies (ch_cipher h) (a_id (ls_account l))) g = (ck, g1)"
    by (cases "on_pool (DecryptCookies (ch_cipher h) (a_id (ls_account l))) g")
  have 1: "pool_only g g1" using on_pool_frame [OF c] by (simp add: pool_only_def)
  have "pool_only g1 g'"
    using a unfolding serve_lease_def Let_def c
    by (auto simp: pow_failure_def split: sum.splits if_splits prod.splits option.splits
        dest: pool_only_handle pool_only_converse pool_only_mark)
  with 1 show ?thesis by (rule pool_only_trans)
qed

lemma pool_only_routes: "try_routes e q k rts g = (out, g') \<Longrightarrow> pool_only g g'"
proof (induction rts arbitrary: k g)
  case (Cons rt rts)
  have c: "pool_only g (snd (on_channels m g))" for m
    using on_channels_frame [of m g "fst (on_channels m g)" "snd (on_channels m g)"] by (simp add: pool_only_def)
  show ?case using Cons c by (auto split: sum.splits intro: pool_only_trans)
qed simp

section \<open>The wallet over one call\<close>

text \<open>A user row with room for the amounts of one call.\<close>

definition roomy :: "nat \<Rightarrow> billing_db \<Rightarrow> bool" where
  "roomy uid d \<longleftrightarrow> rows_ok d \<and>
     (\<forall>u. users d uid = Some u \<longrightarrow> version u + 3 < 2 ^ 64 \<and> - (2 ^ 62) \<le> credit_balance u)"

definition charged :: "nat \<Rightarrow> int \<Rightarrow> billing_db sess \<Rightarrow> billing_db sess \<Rightarrow> bool" where
  "charged uid cost s s' \<longleftrightarrow> snd s' = [] \<and> wallet_of (fst s') = shift uid (- cost) 0 (wallet_of (fst s))"

lemma shift_0 [simp]: "shift uid 0 0 w = w"
  by (auto simp: shift_def fun_eq_iff map_option_case split: option.splits)

lemma charged_none [simp]: "charged uid 0 (d, []) (d, [])"
  by (simp add: charged_def)

text \<open>What a pre-deduction leaves for the call's end.\<close>

lemma PreDeduct_Inr:
  assumes "PreDeduct uid kid e ref rem (d, []) = (Inr (), s1)" and "0 < e"
  obtains u where "users d uid = Some u" and "deleted_at u = None" and "e \<le> credit_balance u"
    and "row_fits (move (- e) e u)"
    and "s1 = (post uid (- e) e u [mk_tx uid kid KindFreeze (- e) (credit_balance u - e) ref rem] d, [])"
  using assms by (auto simp: PreDeduct_eval live_def split: option.splits if_splits)

lemma PreDeduct_Inl:
  assumes "PreDeduct uid kid e ref rem (d, []) = (Inl err, s1)"
  shows "s1 = (d, [])"
  using assms by (auto simp: PreDeduct_eval split: option.splits if_splits)

lemma wallet_post_post:
  assumes "users d uid = Some u" and "deleted_at u = None"
  shows "wallet_of (post uid b f (move b' f' u) ts (post uid b' f' u ts' d)) = shift uid (b + b') (f + f') (wallet_of d)"
  using assms by (auto simp: wallet_of_def shift_def post_def live_def move_def fun_eq_iff)

lemma hold_then_refund:
  assumes "PreDeduct uid kid e ref rem (d, []) = (Inr (), s1)" and "0 \<le> e" and "roomy uid d"
  shows "charged uid 0 (d, []) (snd (Refund uid kid e ref rem' s1))"
proof (cases "e = 0")
  case True
  with assms show ?thesis by (auto simp: PreDeduct_eval Refund_eval charged_def)
next
  case False
  with assms(2) have pos: "0 < e" by simp
  from PreDeduct_Inr [OF assms(1) pos] obtain u where u: "users d uid = Some u" "deleted_at u = None"
    "e \<le> credit_balance u" "row_fits (move (- e) e u)"
    and s1: "s1 = (post uid (- e) e u [mk_tx uid kid KindFreeze (- e) (credit_balance u - e) ref rem] d, [])" .
  have row: "row_fits u" "0 \<le> credit_frozen u" "version u + 3 < 2 ^ 64" using assms(3) u(1) by (auto simp: roomy_def rows_ok_def)
  then have fits: "row_fits (move e (- e) (move (- e) e u))" by (simp add: row_fits_def move_def)
  have l: "live uid (fst s1) = Some (move (- e) e u)" using u by (simp add: s1 post_def move_def)
  have "Refund uid kid e ref rem' (fst s1, []) = (Inr (), (post uid e (- e) (move (- e) e u)
      [mk_tx uid kid KindRefund e (credit_balance (move (- e) e u) + e) ref rem'] (fst s1), []))"
    using pos row l fits by (simp add: Refund_eval move_def del: live_Some)
  then show ?thesis using s1 wallet_post_post [OF u(1,2)] by (simp add: charged_def)
qed

lemma hold_then_settle:
  assumes "PreDeduct uid kid e ref rem (d, []) = (Inr (), s1)" and "0 \<le> e" "e < 2 ^ 62" and "roomy uid d"
    and "0 \<le> a" "a < 2 ^ 62"
  shows "charged uid a (d, []) (snd (Settle uid kid e a ref rem' s1))"
proof -
  have i: "in_i64 e" "in_i64 a" using assms by (simp_all add: in_i64_def)
  have row: "row_fits u" "0 \<le> credit_frozen u" "version u + 3 < 2 ^ 64" "- (2 ^ 62) \<le> credit_balance u"
    if "users d uid = Some u" for u using assms(4) that by (auto simp: roomy_def rows_ok_def)
  consider "e = 0" "a = 0" | "e = 0" "0 < a" | "0 < e" using assms(2,5) by linarith
  then show ?thesis
  proof cases
    case 1
    with assms(1) show ?thesis by (auto simp: PreDeduct_eval Settle_def okE_def charged_def)
  next
    case 2
    then have s1: "s1 = (d, [])" using assms(1) by (simp add: PreDeduct_eval)
    note ev = Settle_eval [OF i assms(2), of uid kid ref rem' d]
    show ?thesis
    proof (cases "live uid d")
      case None
      then have "wallet_of d uid = None" by (simp add: wallet_of_def)
      then have "shift uid (- a) 0 (wallet_of d) = wallet_of d" by (simp add: shift_def fun_eq_iff)
      then show ?thesis using 2 ev None by (simp add: s1 charged_def)
    next
      case (Some u)
      then have u: "users d uid = Some u" "deleted_at u = None" by simp_all
      have fits: "row_fits (move (- a) 0 u)" "in_i64 (credit_frozen u)"
        using row [OF u(1)] assms(5,6) by (simp_all add: row_fits_def move_def in_i64_def)
      have "wallet_of (post uid (- a) 0 u ts d) = shift uid (- a) 0 (wallet_of d)" for ts
        using u by (auto simp: wallet_of_def shift_def post_def live_def move_def fun_eq_iff)
      then show ?thesis using 2 ev Some fits row(2) [OF u(1)] by (simp add: s1 charged_def del: live_Some)
    qed
  next
    case 3
    from PreDeduct_Inr [OF assms(1) 3] obtain u where u: "users d uid = Some u" "deleted_at u = None"
      "e \<le> credit_balance u" "row_fits (move (- e) e u)"
      and s1: "s1 = (post uid (- e) e u [mk_tx uid kid KindFreeze (- e) (credit_balance u - e) ref rem] d, [])" .
    have l: "live uid (fst s1) = Some (move (- e) e u)" using u by (simp add: s1 post_def move_def)
    have fits: "row_fits (move (e - a) (- e) (move (- e) e u))" "in_i64 (credit_frozen (move (- e) e u) - e)"
      using row [OF u(1)] u(3) assms(3,5,6) by (simp_all add: row_fits_def move_def in_i64_def)
    have "\<exists>ts. Settle uid kid e a ref rem' (fst s1, []) = (Inr (), (post uid (e - a) (- e) (move (- e) e u) ts (fst s1), []))"
      using 3 assms(5) i l fits row(2) [OF u(1)] by (auto simp add: Settle_eval max_def move_def simp del: live_Some)
    then show ?thesis using s1 wallet_post_post [OF u(1,2)] by (auto simp: charged_def)
  qed
qed

section \<open>One call, end to end\<close>

lemma hold_credits_Inl:
  assumes "hold_credits h e ak m q ratio tpmCap refID g = (Inl x, g')" and "gw_billing g = (d, [])"
  shows "gw_billing g' = (d, []) \<and> gw_usage g' = gw_usage g \<and> gw_keys g' = gw_keys g"
proof -
  let ?est = "EstimateChat (Some m) (roughEstimateTokens (cq_messages q)) (cq_max_tokens q) ratio"
  obtain r g1 where t: "on_pool (AllowTPM (ch_rd h) (ce_clock e M_tpm) (k_id ak) tpmCap
      (wrap64 (roughEstimateTokens (cq_messages q) + est_tokens q))) g = (r, g1)" by (rule prod.exhaust)
  obtain b g2 where p: "on_billing (PreDeduct (k_user ak) (k_id ak) ?est refID ''chat prepay'') g1 = (b, g2)" by (rule prod.exhaust)
  have "(if refused r then (Inl (429, ''rate_limit_tpm''), g1)
      else case b of Inl err \<Rightarrow> (if err = ErrInsufficient then (Inl (402, ''insufficient_balance''), g2) else (Inl (500, ''billing_error''), g2))
           | Inr _ \<Rightarrow> (Inr ?est, g2)) = (Inl x, g')"
    using assms(1) unfolding hold_credits_def Let_def t by (cases "refused r") (auto simp: p split: sum.splits)
  then show ?thesis
    using on_pool_frame [OF t] on_billing_frame [OF p] assms(2) PreDeduct_Inl [of "k_user ak" "k_id ak" ?est refID "''chat prepay''" d]
    by (auto split: if_splits sum.splits)
qed

lemma hold_credits_Inr:
  assumes "hold_credits h e ak m q ratio tpmCap refID g = (Inr est, g')"
  shows "est = EstimateChat (Some m) (roughEstimateTokens (cq_messages q)) (cq_max_tokens q) ratio \<and>
    PreDeduct (k_user ak) (k_id ak) est refID ''chat prepay'' (gw_billing g) = (Inr (), gw_billing g') \<and>
    gw_usage g' = gw_usage g \<and> gw_keys g' = gw_keys g"
proof -
  let ?est = "EstimateChat (Some m) (roughEstimateTokens (cq_messages q)) (cq_max_tokens q) ratio"
  obtain r g1 where t: "on_pool (AllowTPM (ch_rd h) (ce_clock e M_tpm) (k_id ak) tpmCap
      (wrap64 (roughEstimateTokens (cq_messages q) + est_tokens q))) g = (r, g1)" by (rule prod.exhaust)
  obtain b g2 where p: "on_billing (PreDeduct (k_user ak) (k_id ak) ?est refID ''chat prepay'') g1 = (b, g2)" by (rule prod.exhaust)
  have "(if refused r then (Inl (429, ''rate_limit_tpm''), g1)
      else case b of Inl err \<Rightarrow> (if err = ErrInsufficient then (Inl (402, ''insufficient_balance''), g2) else (Inl (500, ''billing_error''), g2))
           | Inr _ \<Rightarrow> (Inr ?est, g2)) = (Inr est, g')"
    using assms(1) unfolding hold_credits_def Let_def t by (cases "refused r") (auto simp: p split: sum.splits)
  then show ?thesis
    using on_pool_frame [OF t] on_billing_frame [OF p] by (auto split: if_splits sum.splits)
qed

lemma settle_call_billing:
  assumes "settle_call h e ak m q ratio tpmCap refID est k rec g = (rec', g')"
  shows "gw_billing g' = snd (Settle (k_user ak) (k_id ak) est (ul_cost rec') refID ''chat settle'' (gw_billing g)) \<and>
    gw_usage g' = gw_usage g \<and> ul_status rec' = ''success'' \<and>
    gw_keys g' = snd (TouchUsage (ce_clock e M_touch) (k_id ak) (ce_ip e) (ul_cost rec') (gw_keys g))"
  using assms unfolding settle_call_def Let_def
  by (auto simp: on_billing_def on_keys_def split: prod.splits if_splits)

lemma refund_hold_billing:
  "gw_billing (refund_hold ak est refID g) = snd (Refund (k_user ak) (k_id ak) est refID ''chat refund'' (gw_billing g)) \<and>
   gw_usage (refund_hold ak est refID g) = gw_usage g \<and> gw_keys (refund_hold ak est refID g) = gw_keys g"
  by (simp add: refund_hold_def on_billing_def split: prod.split)

lemma handle_not_replied: "handleUpstreamErr h e err l g = ((res, l'), g') \<Longrightarrow> \<exists>x. res = Inl x"
  by (auto simp: handleUpstreamErr_def Let_def split: prod.splits)

text \<open>How a call ends: the log it will write, and what it did to the wallet.\<close>

definition replied :: "reply \<Rightarrow> bool" where
  "replied rep \<longleftrightarrow> (case rep of R_stream _ \<Rightarrow> True | R_json _ _ _ \<Rightarrow> True | _ \<Rightarrow> False)"

definition ends_well :: "api_key \<Rightarrow> usage_log \<Rightarrow> reply \<Rightarrow> usage_log \<Rightarrow> gateway \<Rightarrow> gateway \<Rightarrow> bool" where
  "ends_well ak rec0 rep rec g g' \<longleftrightarrow>
     gw_usage g' = gw_usage g \<and> (ul_status rec = ''success'') = replied rep \<and>
     (ul_status rec \<noteq> ''success'' \<longrightarrow> ul_cost rec = ul_cost rec0) \<and>
     (0 \<le> ul_cost rec \<and> ul_cost rec < 2 ^ 62 \<longrightarrow> charged (k_user ak) (ul_cost rec) (gw_billing g) (gw_billing g'))"

lemma converse_replied:
  assumes "converse h e m q cr proof_text l g = ((Inr (rep, k), l'), g')"
  shows "replied rep"
  using assms unfolding converse_def Let_def
  by (auto simp: replied_def split: sum.splits if_splits prod.splits dest: handle_not_replied)

lemma serve_replied:
  assumes "serve_lease h e m q l g = ((Inr (rep, k), l'), g')"
  shows "replied rep"
  using assms unfolding serve_lease_def Let_def
  by (auto simp: pow_failure_def split: sum.splits if_splits prod.splits option.splits dest: handle_not_replied converse_replied)

lemma fail_log_simps [simp]: "ul_status (fail_log c rec) = ''failed''" "ul_cost (fail_log c rec) = ul_cost rec"
  by (simp_all add: fail_log_def)

lemma reply_streams [simp]: "replied (fst (streamChannel cs))" "replied (fst (collectChannel cs))"
  by (simp_all add: replied_def streamChannel_def collectChannel_def Let_def split: prod.split)

lemma account_ends_well:
  assumes "chat_through_account h e ak m q rec ratio tpmCap g = ((rep, rec'), g')"
    and "gw_billing g = (d, [])" and "roomy (k_user ak) d" and "ul_cost rec = 0"
    and "0 \<le> EstimateChat (Some m) (roughEstimateTokens (cq_messages q)) (cq_max_tokens q) ratio"
    and "EstimateChat (Some m) (roughEstimateTokens (cq_messages q)) (cq_max_tokens q) ratio < 2 ^ 62"
  shows "ends_well ak rec rep rec' g g'"
proof -
  let ?ref = "ce_ref e"
  obtain hc g1 where hc: "hold_credits h e ak m q ratio tpmCap ?ref g = (hc, g1)" by (rule prod.exhaust)
  show ?thesis
  proof (cases hc)
    case (Inl x)
    then have "rep = R_error (fst x) (snd x)" "rec' = fail_log (snd x) rec" "g' = g1"
      using assms(1) unfolding chat_through_account_def by (auto simp: Let_def hc split: prod.splits)
    then show ?thesis using hold_credits_Inl [OF hc [unfolded Inl] assms(2)] assms(2,4)
      by (simp add: ends_well_def replied_def)
  next
    case (Inr est)
    note held = hold_credits_Inr [OF hc [unfolded Inr]]
    have est: "0 \<le> est" "est < 2 ^ 62" using held assms(5,6) by simp_all
    have pre: "PreDeduct (k_user ak) (k_id ak) est ?ref ''chat prepay'' (d, []) = (Inr (), gw_billing g1)"
      using held assms(2) by (metis (no_types))
    have refunded: "charged (k_user ak) 0 (d, []) (gw_billing (refund_hold ak est ?ref g2)) \<and> gw_usage (refund_hold ak est ?ref g2) = gw_usage g"
      if "pool_only g1 g2" for g2
      using refund_hold_billing [of ak est ?ref g2] hold_then_refund [OF pre est(1) assms(3), of "''chat refund''"] that held
      by (simp add: pool_only_def)
    obtain dr t s where dp: "Dispatch (ch_cipher h) (ch_sched h) (ch_scan h) (ce_zone e) ''chat'' (ce_world e) (ce_clock e M_dispatch) (gw_pool g1) = (dr, t, s)"
      by (rule prod_cases3)
    show ?thesis
    proof (cases dr)
      case (Inl x)
      then have "rep = R_error 503 ''no_account_available''" "rec' = fail_log ''no_account_available'' rec"
        "g' = refund_hold ak est ?ref (g1\<lparr>gw_pool := s\<rparr>)"
        using assms(1) \<open>hc = Inr est\<close> unfolding chat_through_account_def by (auto simp: Let_def hc dp)
      then show ?thesis using refunded [of "g1\<lparr>gw_pool := s\<rparr>"] assms(2,4) by (simp add: ends_well_def replied_def)
    next
      case lse: (Inr l)
      obtain res l' g2 where sv: "serve_lease h e m q l (g1\<lparr>gw_pool := s\<rparr>) = ((res, l'), g2)" by (metis prod_cases3 surj_pair)
      have po: "pool_only g1 g2" using pool_only_trans [OF pool_only_pool pool_only_serve [OF sv]] .
      let ?rec1 = "rec\<lparr>ul_account := a_id (ls_account l)\<rparr>"
      show ?thesis
      proof (cases res)
        case fl: (Inl x)
        then have "rep = R_error (fst x) (snd x)" "rec' = fail_log (snd x) ?rec1"
          "g' = release_lease e l' (refund_hold ak est ?ref g2)"
          using assms(1) \<open>hc = Inr est\<close> lse unfolding chat_through_account_def
          by (auto simp: Let_def hc dp sv split: prod.splits)
        then show ?thesis using refunded [OF po] assms(2,4) by (simp add: ends_well_def replied_def release_lease_def)
      next
        case ok: (Inr x)
        obtain rep' k where x: "x = (rep', k)" by (cases x)
        obtain rec2 g3 where st: "settle_call h e ak m q ratio tpmCap ?ref est k ?rec1 g2 = (rec2, g3)" by (rule prod.exhaust)
        have eqs: "rep = rep'" "rec' = rec2" "g' = release_lease e l' g3"
          using assms(1) \<open>hc = Inr est\<close> lse ok x unfolding chat_through_account_def
          by (auto simp: Let_def hc dp sv st)
        have rp: "replied rep'" using serve_replied [OF sv [unfolded ok x]] .
        note sb = settle_call_billing [OF st]
        have "charged (k_user ak) (ul_cost rec2) (d, []) (gw_billing g3)" if "0 \<le> ul_cost rec2" "ul_cost rec2 < 2 ^ 62"
          using hold_then_settle [OF pre est assms(3) that, of "''chat settle''"] sb po by (simp add: pool_only_def)
        then show ?thesis using eqs rp sb po held assms(2) by (simp add: ends_well_def release_lease_def pool_only_def)
      qed
    qed
  qed
qed

lemma channel_ends_well:
  assumes "dispatchChatToChannel h e ak m q rec ratio rpmCap tpmCap g = (Some (rep, rec'), g')"
    and "gw_billing g = (d, [])" and "roomy (k_user ak) d" and "ul_cost rec = 0"
    and "0 \<le> EstimateChat (Some m) (roughEstimateTokens (cq_messages q)) (cq_max_tokens q) ratio"
    and "EstimateChat (Some m) (roughEstimateTokens (cq_messages q)) (cq_max_tokens q) ratio < 2 ^ 62"
  shows "ends_well ak rec rep rec' g g'"
proof -
  let ?ref = "ce_channel_ref e"
  let ?rec = "rec\<lparr>ul_request := ?ref, ul_model := m_id m\<rparr>"
  obtain rr g1 where res: "on_channels (Resolve (ch_cipher h) (m_slug m) ModalityText) g = (rr, g1)" by (rule prod.exhaust)
  obtain routes where rr: "rr = Inr routes" and ne: "routes \<noteq> []"
    using assms(1) unfolding dispatchChatToChannel_def res by (cases rr) (auto split: if_splits)
  obtain lim g2 where lim: "on_pool (AllowRPM (ch_rd h) (ce_clock e M_channel_rpm) (k_id ak) rpmCap) g1 = (lim, g2)" by (rule prod.exhaust)
  have b2: "gw_billing g2 = (d, [])" "gw_usage g2 = gw_usage g"
    using on_channels_frame [OF res] on_pool_frame [OF lim] assms(2) by simp_all
  obtain hc g3 where hc: "hold_credits h e ak m q ratio tpmCap ?ref g2 = (hc, g3)" by (rule prod.exhaust)
  show ?thesis
  proof (cases "refused lim")
    case True
    then have "rep = R_error 429 ''rate_limit_rpm''" "rec' = fail_log ''rate_limit_rpm'' ?rec" "g' = g2"
      using assms(1) ne unfolding dispatchChatToChannel_def res rr by (auto simp: Let_def lim)
    then show ?thesis using b2 assms(2,4) by (simp add: ends_well_def replied_def)
  next
    case notref: False
    show ?thesis
    proof (cases hc)
      case (Inl x)
      then have "rep = R_error (fst x) (snd x)" "rec' = fail_log (snd x) ?rec" "g' = g3"
        using assms(1) ne notref unfolding dispatchChatToChannel_def res rr by (auto simp: Let_def lim hc split: prod.splits)
      then show ?thesis using hold_credits_Inl [OF hc [unfolded Inl] b2(1)] b2 assms(2,4)
        by (simp add: ends_well_def replied_def)
    next
      case (Inr est)
      note held = hold_credits_Inr [OF hc [unfolded Inr]]
      have est: "0 \<le> est" "est < 2 ^ 62" using held assms(5,6) by simp_all
      have pre: "PreDeduct (k_user ak) (k_id ak) est ?ref ''chat prepay'' (d, []) = (Inr (), gw_billing g3)"
        using held b2(1) by (metis (no_types))
      obtain sel g4 where tr: "try_routes e q 0 routes g3 = (sel, g4)" by (rule prod.exhaust)
      have f4: "gw_billing g4 = gw_billing g3" "gw_usage g4 = gw_usage g"
        using pool_only_routes [OF tr] held b2 by (simp_all add: pool_only_def)
      show ?thesis
      proof (cases sel)
        case None
        then have "rep = R_error 502 ''upstream_error''" "rec' = fail_log ''upstream_error'' ?rec" "g' = refund_hold ak est ?ref g4"
          using assms(1) ne notref unfolding dispatchChatToChannel_def res rr by (auto simp: Let_def lim hc Inr tr)
        then show ?thesis
          using refund_hold_billing [of ak est ?ref g4] hold_then_refund [OF pre est(1) assms(3), of "''chat refund''"] f4 assms(2,4)
          by (simp add: ends_well_def replied_def)
      next
        case (Some x)
        obtain rt cs where x: "x = (rt, cs)" by (cases x)
        obtain rep' k where out: "(if cq_stream q then streamChannel cs else collectChannel cs) = (rep', k)"
          by (rule prod.exhaust)
        obtain rec2 g5 where st: "settle_call h e ak m q (rnd64 (ratio * channel_ratio (rt_channel rt))) tpmCap ?ref est k ?rec g4 = (rec2, g5)"
          by (rule prod.exhaust)
        have eqs: "rep = rep'" "rec' = rec2" "g' = g5"
          using assms(1) ne notref unfolding dispatchChatToChannel_def res rr
          by (auto simp: Let_def lim hc Inr tr Some x out st)
        have rp: "replied rep'" using out reply_streams [of cs] by (metis fst_conv)
        note sb = settle_call_billing [OF st]
        have "charged (k_user ak) (ul_cost rec2) (d, []) (gw_billing g5)" if "0 \<le> ul_cost rec2" "ul_cost rec2 < 2 ^ 62"
          using hold_then_settle [OF pre est assms(3) that, of "''chat settle''"] sb f4 by simp
        then show ?thesis using eqs rp sb f4 assms(2) by (simp add: ends_well_def)
      qed
    qed
  qed
qed

lemma ends_well_same:
  assumes "gw_billing g' = (d, [])" and "gw_billing g = (d, [])" and "gw_usage g' = gw_usage g" and "ul_status rec \<noteq> ''success''"
    and "\<not> replied rep" and "ul_cost rec = 0" and "ul_cost rec0 = 0"
  shows "ends_well ak rec0 rep rec g g'"
  using assms by (simp add: ends_well_def)

lemma channel_none:
  assumes "dispatchChatToChannel h e ak m q rec ratio rpmCap tpmCap g = (None, g')"
  shows "gw_billing g' = gw_billing g \<and> gw_usage g' = gw_usage g \<and> gw_pool g' = gw_pool g"
proof -
  obtain rr g1 where res: "on_channels (Resolve (ch_cipher h) (m_slug m) ModalityText) g = (rr, g1)" by (rule prod.exhaust)
  show ?thesis
  proof (cases "rr = Inr [] \<or> (\<exists>err. rr = Inl err)")
    case True
    then have "g' = g1" using assms unfolding dispatchChatToChannel_def res by auto
    then show ?thesis using on_channels_frame [OF res] by simp
  next
    case False
    then obtain routes where "rr = Inr routes" "routes \<noteq> []" by (cases rr) auto
    then show ?thesis using assms unfolding dispatchChatToChannel_def res
      by (auto simp: Let_def split: prod.splits if_splits sum.splits option.splits)
  qed
qed

lemma chat_model_ends_well:
  assumes "chat_model_call h e ak m q rec g = ((rep, rec'), g')"
    and "gw_billing g = (d, [])" and "roomy (k_user ak) d" and "ul_cost rec = 0"
    and "0 \<le> EstimateChat (Some m) (roughEstimateTokens (cq_messages q)) (cq_max_tokens q) (call_ratio e)"
    and "EstimateChat (Some m) (roughEstimateTokens (cq_messages q)) (cq_max_tokens q) (call_ratio e) < 2 ^ 62"
  shows "ends_well ak rec rep rec' g g'"
proof -
  let ?rec = "rec\<lparr>ul_model := m_id m\<rparr>"
  have c0: "ul_cost ?rec = 0" using assms(4) by simp
  obtain lim g1 where lim: "on_pool (AllowRPM (ch_rd h) (ce_clock e M_rpm) (k_id ak) (rpm_cap e ak)) g = (lim, g1)" by (rule prod.exhaust)
  have b1: "gw_billing g1 = (d, [])" "gw_usage g1 = gw_usage g" using on_pool_frame [OF lim] assms(2) by simp_all
  have lift: "ends_well ak ?rec rep rec' g2 g' \<Longrightarrow> gw_billing g2 = (d, []) \<Longrightarrow> gw_usage g2 = gw_usage g \<Longrightarrow> ends_well ak rec rep rec' g g'" for g2
    using assms(2) by (simp add: ends_well_def)
  show ?thesis
  proof (cases "refused lim")
    case True
    then have "rep = R_error 429 ''rate_limit_rpm''" "rec' = fail_log ''rate_limit_rpm'' ?rec" "g' = g1"
      using assms(1) unfolding chat_model_call_def by (auto simp: Let_def lim)
    then show ?thesis using b1 assms(2,4) by (intro ends_well_same) (simp_all add: replied_def)
  next
    case False
    obtain out g2 where ch: "dispatchChatToChannel h e ak m q ?rec (call_ratio e) (rpm_cap e ak) (tpm_cap e ak) g1 = (out, g2)"
      by (rule prod.exhaust)
    show ?thesis
    proof (cases out)
      case None
      then have ac: "chat_through_account h e ak m q ?rec (call_ratio e) (tpm_cap e ak) g2 = ((rep, rec'), g')"
        using assms(1) False unfolding chat_model_call_def by (simp add: Let_def lim ch)
      have b2: "gw_billing g2 = (d, [])" "gw_usage g2 = gw_usage g" using channel_none [OF ch [unfolded None]] b1 by simp_all
      show ?thesis by (rule lift [OF account_ends_well [OF ac b2(1) assms(3) c0 assms(5,6)] b2])
    next
      case (Some x)
      then have x: "x = (rep, rec')" and g2: "g2 = g'"
        using assms(1) False unfolding chat_model_call_def by (auto simp: Let_def lim ch)
      show ?thesis
        by (rule lift [OF channel_ends_well [OF ch [unfolded Some x g2] b1(1) assms(3) c0 assms(5,6)] b1])
    qed
  qed
qed

text \<open>The model a request is billed for, when the catalogue knows it.\<close>

definition billed_model :: "chat_env \<Rightarrow> chat_request \<Rightarrow> gateway \<Rightarrow> model_row option" where
  "billed_model e q g = (case fst (BySlug (ce_clock e M_lookup) (cq_model q) (gw_catalog g)) of Inr m \<Rightarrow> Some m | Inl _ \<Rightarrow> None)"

lemma chat_body_ends_well:
  assumes "chat_body h e ak q g = ((rep, rec), g')" and "gw_billing g = (d, [])" and "roomy (k_user ak) d"
    and "\<And>m. billed_model e q g = Some m \<Longrightarrow>
      0 \<le> EstimateChat (Some m) (roughEstimateTokens (cq_messages q)) (cq_max_tokens q) (call_ratio e) \<and>
      EstimateChat (Some m) (roughEstimateTokens (cq_messages q)) (cq_max_tokens q) (call_ratio e) < 2 ^ 62"
  shows "ends_well ak (new_log e ak) rep rec g g'"
proof (cases "ModelAllowed ak (cq_model q)")
  case False
  then show ?thesis using assms(1,2) unfolding chat_body_def
    by (intro ends_well_same [of _ d]) (auto simp: Let_def replied_def new_log_def)
next
  case True
  obtain r g1 where look: "on_catalog (BySlug (ce_clock e M_lookup) (cq_model q)) g = (r, g1)" by (rule prod.exhaust)
  have b1: "gw_billing g1 = (d, [])" "gw_usage g1 = gw_usage g" using on_catalog_frame [OF look] assms(2) by simp_all
  have r: "r = fst (BySlug (ce_clock e M_lookup) (cq_model q) (gw_catalog g))"
    using look by (auto simp: on_catalog_def split: prod.splits)
  show ?thesis
  proof (cases r)
    case (Inl err)
    then show ?thesis using assms(1,2) True b1 unfolding chat_body_def
      by (intro ends_well_same [of _ d]) (auto simp: Let_def look replied_def new_log_def)
  next
    case (Inr m)
    have bm: "billed_model e q g = Some m" using r Inr by (simp add: billed_model_def flip: r)
    show ?thesis
    proof (cases "m_enabled m \<and> m_type m \<noteq> ''image''")
      case True2: True
      then have c: "chat_model_call h e ak m q (new_log e ak) g1 = ((rep, rec), g')"
        using assms(1) True Inr unfolding chat_body_def by (simp add: Let_def look)
      have "ends_well ak (new_log e ak) rep rec g1 g'"
        by (rule chat_model_ends_well [OF c b1(1) assms(3)]) (use assms(4) [OF bm] in \<open>simp_all add: new_log_def\<close>)
      then show ?thesis using b1 assms(2) by (simp add: ends_well_def)
    next
      case False2: False
      then show ?thesis using assms(1,2) True Inr b1 unfolding chat_body_def
        by (intro ends_well_same [of _ d]) (auto simp: Let_def look replied_def new_log_def split: if_splits)
    qed
  qed
qed

text \<open>
  C9. A chat call charges what it logs, once: whatever the upstream, the channels, the scheduler and the limiter
  do, every request writes exactly one usage record; the request is answered exactly when the record says
  success; and the user's available balance falls by exactly the cost on the record, which is zero for a failed
  request, while the frozen amount is what it was before. The model is not one of images (those are handed to the
  image handler), the billing tables' server answers, the user's row has room for the amounts, and the estimate
  and the cost stay in range.
\<close>

theorem chat_charges_what_it_logs:
  assumes "ChatCompletions h e ak q g = (rep, g')" and "gw_billing g = (d, [])" and "roomy (k_user ak) d"
    and "\<And>m. billed_model e q g = Some m \<Longrightarrow> m_type m \<noteq> ''image'' \<and>
      0 \<le> EstimateChat (Some m) (roughEstimateTokens (cq_messages q)) (cq_max_tokens q) (call_ratio e) \<and>
      EstimateChat (Some m) (roughEstimateTokens (cq_messages q)) (cq_max_tokens q) (call_ratio e) < 2 ^ 62"
    and "0 \<le> ul_cost (last (gw_usage g'))" and "ul_cost (last (gw_usage g')) < 2 ^ 62"
  shows "gw_usage g' = gw_usage g @ [last (gw_usage g')] \<and>
    replied rep = (ul_status (last (gw_usage g')) = ''success'') \<and>
    (ul_status (last (gw_usage g')) \<noteq> ''success'' \<longrightarrow> ul_cost (last (gw_usage g')) = 0) \<and>
    wallet_of (fst (gw_billing g')) = shift (k_user ak) (- ul_cost (last (gw_usage g'))) 0 (wallet_of d)"
proof -
  obtain rec g1 where b: "chat_body h e ak q g = ((rep, rec), g1)" and g': "g' = write_log rec g1"
    using assms(1) by (auto simp: ChatCompletions_def split: prod.splits)
  from chat_body_ends_well [OF b assms(2,3)] assms(4) have w: "ends_well ak (new_log e ak) rep rec g g1" by blast
  have "last (gw_usage g') = (if ul_status rec = '''' then rec\<lparr>ul_status := ''failed''\<rparr> else rec)"
    by (simp add: g' write_log_def)
  then show ?thesis using w assms(2,5,6)
    by (auto simp: ends_well_def g' write_log_def charged_def new_log_def)
qed

end
