(* ===== verification/Gateway_Cases.thy ===== *)
theory Gateway_Cases
  imports Gateway_Laws Channel_Laws
begin

text \<open>
  The chat endpoint on concrete requests: a gateway with one user, one model and one channel, the call it makes
  through the channel, and three behaviours that follow from the way the limits and the estimate are computed.
\<close>

section \<open>A key of one request a minute\<close>

lemma refill_one: "refill_of 1 \<le> 1/59" "1/61 \<le> refill_of 1"
proof -
  have "(2::rat) powi (-1022) \<le> 2 powi (-6)" by (rule power_int_increasing) auto
  also have "(2::rat) powi (-6) \<le> 1/60" by (simp add: power_int_minus)
  finally have "\<bar>rnd64 (1/60) - 1/60\<bar> \<le> (1/60) / 2 ^ 53" by (intro rnd64_error) auto
  then have "rnd64 (1/60) \<le> 1/59" "1/61 \<le> rnd64 (1/60)" 
    by (simp_all only: abs_le_iff) (simp_all add: field_simps)
  moreover have "rnd64 1 = 1" using rnd64_int [of 1] by simp
  ultimately show "refill_of 1 \<le> 1/59" "1/61 \<le> refill_of 1" by (simp_all add: refill_of_def)
qed

lemma one_a_minute:
  assumes "AllowRPM rd t0 k 1 (d, []) = (r0, s1)" and "AllowRPM rd t1 k 1 s1 = (r1, s2)"
    and "rounds_within rd \<epsilon>" and "\<epsilon> \<le> 1/8" and "t0 \<le> t1" and "t1 \<le> t0 + 30000"
  shows "refused r0 \<or> refused r1"
proof (cases "refused r0")
  case False
  let ?r = "refill_of 1"
  have z: "rd 0 \<le> \<epsilon>" using rounds_withinD(1) [OF assms(3), of 0] by simp
  from False assms(1) have b: "buckets (fst s1) (rpm_key k) = Some \<lparr>bk_tokens = rd 0, bk_ts = t0, bk_expires = t0 + bucket_ttl 1 ?r\<rparr>"
    "snd s1 = []"
    by (auto simp: AllowRPM_def Allow_def bucket_script_def refused_def Let_def case_prod_unfold min_def split: if_splits)
  have "of_int 1 / ?r * 2000 \<le> (of_int (bucket_ttl 1 ?r) :: rat)" using refill_one by (intro bucket_ttl_lower) auto
  moreover have "59 \<le> 1 / ?r" using refill_one by (simp add: field_simps)
  ultimately have "of_int 118000 \<le> (of_int (bucket_ttl 1 ?r) :: rat)" by simp
  then have ttl: "118000 \<le> bucket_ttl 1 ?r" by (simp only: of_int_le_iff)
  have "of_int (t1 - t0) / 1000 * ?r \<le> 30 * (1/59)" using assms(5,6) refill_one by (intro mult_mono) auto
  then have "rd 0 + of_int (t1 - t0) / 1000 * ?r + \<epsilon> < 1" using z assms(4) by linarith
  then have "rd (rd 0 + of_int (t1 - t0) / 1000 * ?r) < 1"
    using rounds_withinD(1) [OF assms(3)] by (meson order.strict_trans1)
  then show ?thesis using assms(2,6) b ttl
    by (cases s1) (auto simp: AllowRPM_def Allow_def bucket_script_def bucket_read_def refused_def Let_def case_prod_unfold)
qed simp

text \<open>
  A key limited to one request a minute never reaches a channel: the request limit is charged once before the
  channels are asked and once more by the channel path, so a model that has a channel route is answered 429
  whatever the state of the key's bucket, when the second charge comes within thirty seconds of the first and
  the limiter's arithmetic is accurate to an eighth of a request.
\<close>

theorem rpm_one_blocks_channels:
  assumes "ModelAllowed ak (cq_model q)" and "billed_model e q g = Some m" and "m_enabled m" and "m_type m \<noteq> ''image''"
    and "rpm_cap e ak = 1" and "snd (gw_pool g) = []"
    and "fst (Resolve (ch_cipher h) (m_slug m) ModalityText (gw_channels g)) = Inr routes" and "routes \<noteq> []"
    and "rounds_within (ch_rd h) \<epsilon>" and "\<epsilon> \<le> 1/8"
    and "ce_clock e M_rpm \<le> ce_clock e M_channel_rpm" and "ce_clock e M_channel_rpm \<le> ce_clock e M_rpm + 30000"
  shows "fst (ChatCompletions h e ak q g) = R_error 429 ''rate_limit_rpm''"
proof -
  obtain g1 where look: "on_catalog (BySlug (ce_clock e M_lookup) (cq_model q)) g = (Inr m, g1)"
    using assms(2) by (cases "BySlug (ce_clock e M_lookup) (cq_model q) (gw_catalog g)") (auto simp: on_catalog_def billed_model_def split: sum.splits)
  have g1: "gw_pool g1 = gw_pool g" "gw_channels g1 = gw_channels g"
    using look by (auto simp: on_catalog_def split: prod.splits)
  obtain r0 s1 where r0: "AllowRPM (ch_rd h) (ce_clock e M_rpm) (k_id ak) 1 (gw_pool g) = (r0, s1)" by (rule prod.exhaust)
  obtain cs where res: "Resolve (ch_cipher h) (m_slug m) ModalityText (gw_channels g) = (Inr routes, cs)"
    using assms(7) by (metis prod.collapse)
  obtain r1 s2 where r1: "AllowRPM (ch_rd h) (ce_clock e M_channel_rpm) (k_id ak) 1 s1 = (r1, s2)" by (rule prod.exhaust)
  have "AllowRPM (ch_rd h) (ce_clock e M_rpm) (k_id ak) 1 (fst (gw_pool g), []) = (r0, s1)" using r0 assms(6) by (metis prod.collapse)
  from one_a_minute [OF this r1 assms(9-12)] have "refused r0 \<or> refused r1" .
  then show ?thesis using assms(1,3,4,5,8)
    by (cases "refused r0") (auto simp: ChatCompletions_def chat_body_def Let_def look chat_model_call_def on_pool_def r0 dispatchChatToChannel_def
        on_channels_def g1 res r1)
qed

section \<open>A demonstration gateway\<close>

definition demo_chat_model :: model_row where
  "demo_chat_model = \<lparr>m_id = 3, m_slug = ''gpt-5'', m_type = ''chat'', m_upstream_slug = ''gpt-5'', m_input_price = 10000000,
     m_output_price = 10000000, m_cache_price = 0, m_image_price = 0, m_image_price_2k = 0, m_image_price_4k = 0,
     m_multi_image = False, m_output_size = False, m_description = '''', m_enabled = True, m_deleted_at = None\<rparr>"

definition demo_caller :: api_key where
  "demo_caller = \<lparr>k_id = 7, k_user = 1, k_name = ''ci'', k_prefix = '''', k_hash = '''', k_quota_limit = 0, k_quota_used = 0,
     k_models = None, k_ips = None, k_rpm = 0, k_tpm = 0, k_expires = None, k_enabled = True, k_last_used = None,
     k_last_ip = '''', k_deleted = None\<rparr>"

definition demo_gateway :: "int \<Rightarrow> gateway" where
  "demo_gateway b =
     \<lparr>gw_billing = (\<lparr>users = [1 \<mapsto> demo_row b 0 None], ledger = []\<rparr>, []), gw_pool = (demo_proxies, []),
      gw_keys = (\<lparr>api_keys = [demo_caller], keys_next = 8\<rparr>, []), gw_channels = (demo_channels, []),
      gw_catalog = (\<lparr>bySlug = [''gpt-5'' \<mapsto> demo_chat_model], loadedAt = 0, refreshing = False\<rparr>,
        (\<lparr>models = [demo_chat_model], models_next = 4, billing_ratios = Map.empty\<rparr>, [])), gw_usage = []\<rparr>"

definition demo_request :: "int \<Rightarrow> chat_request" where
  "demo_request n = \<lparr>cq_model = ''gpt-5'', cq_messages = [\<lparr>msg_role = ''user'', msg_content = ''hi''\<rparr>], cq_stream = False,
     cq_temperature = 1, cq_top_p = 1, cq_max_tokens = n\<rparr>"

definition demo_env :: chat_env where
  "demo_env = \<lparr>ce_clock = (\<lambda>_. 0), ce_zone = 0, ce_ref = ''r'', ce_channel_ref = ''c'', ce_ip = ''ip'', ce_group = None,
     ce_world = \<lparr>w_draws = (\<lambda>_ _. demo_draws ''A''), w_dur = (\<lambda>_. 0), w_late = (\<lambda>_. 0), w_cancelled = (\<lambda>_. False), w_others = (\<lambda>_ s. s)\<rparr>,
     ce_upstream = \<lparr>up_new = (\<lambda>_ _. None), up_requirements = (\<lambda>_. Inl (OtherError ''down'')), up_proof = (\<lambda>_. None),
       up_prepare = (\<lambda>_. Inr ''''), up_stream = (\<lambda>_. Inr [])\<rparr>,
     ce_adapter = (\<lambda>_ _. Inr [\<lparr>ac_delta = ''hello'', ac_finish = ''stop'', ac_usage = Some 3, ac_err = False\<rparr>])\<rparr>"

definition demo_handler :: chat_handler where
  "demo_handler = \<lparr>ch_cipher = demo_aead, ch_sched = demo_sched, ch_scan = (\<lambda>as. as), ch_rd = (\<lambda>x. x), ch_has_images = False\<rparr>"

lemma demo_cost_one: "ComputeChatCost (Some demo_chat_model) 7 3 1 = 100"
  using scale_round_times [of 100 1] by (simp add: ComputeChatCost_def token_price_def demo_chat_model_def go_div_def wrap64_def)
lemma demo_cost_two: "ComputeChatCost (Some demo_chat_model) 7 3 2 = 200"
  using scale_round_times [of 100 2] by (simp add: ComputeChatCost_def token_price_def demo_chat_model_def go_div_def wrap64_def)
lemma demo_cost_wraps: "ComputeChatCost (Some demo_chat_model) 7 1000000000000 1 = -8446744073638"
  using scale_round_negative [of 8446744073638] by (simp add: ComputeChatCost_def token_price_def demo_chat_model_def go_div_def wrap64_def)
lemmas demo_gw_simps = demo_gateway_def demo_request_def demo_env_def demo_handler_def demo_caller_def demo_chat_model_def

definition demo_route :: route where
  "demo_route = \<lparr>rt_channel = demo_channel, rt_mapping = hd (mappings demo_channels), rt_upstream = ''gpt-5-pro'',
     rt_adapter = OpenAI_Adapter (params_of '''' demo_channel)\<rparr>"

lemma demo_resolve: "Resolve a ''gpt-5'' ''text'' (demo_channels, []) = (Inr [demo_route], (demo_channels, []))"
  by (simp add: Resolve_def ResolveByLocalModel_def bindE_def okE_def joined_def demo_channels_def demo_channel_def routable_def ch_live_def
    mk_route_def DecryptKey_def adapter_New_def demo_route_def List.map_filter_def ch_healthy_def ch_unhealthy_def)

lemma demo_lookup: "on_catalog (BySlug 0 ''gpt-5'') (demo_gateway b) = (Inr demo_chat_model, demo_gateway b)"
  by (simp add: on_catalog_def BySlug_def demo_gateway_def registry_ttl_def)

lemma demo_estimate: "EstimateChat (Some demo_chat_model) 7 3 1 = 100"
  by (simp add: EstimateChat_def demo_cost_one)

definition demo_reply :: reply where "demo_reply = R_json ''hello'' ''stop'' 3"

lemma demo_parts:
  "ce_clock demo_env t = 0" "ce_channel_ref demo_env = ''c''" "ce_ip demo_env = ''ip''" "ce_group demo_env = None"
  "ce_adapter demo_env rt q = Inr [\<lparr>ac_delta = ''hello'', ac_finish = ''stop'', ac_usage = Some 3, ac_err = False\<rparr>]"
  "k_id demo_caller = 7" "k_user demo_caller = 1" "k_models demo_caller = None" "k_rpm demo_caller = 0" "k_tpm demo_caller = 0"
  "cq_model (demo_request n) = ''gpt-5''" "roughEstimateTokens (cq_messages (demo_request n)) = 7" "cq_stream (demo_request n) = False"
  "cq_max_tokens (demo_request n) = n" "m_enabled demo_chat_model" "m_type demo_chat_model = ''chat''" "m_slug demo_chat_model = ''gpt-5''"
  "m_id demo_chat_model = 3" "ch_cipher demo_handler = demo_aead"
  by (simp_all add: demo_gw_simps roughEstimateTokens_def)

lemma demo_state:
  "gw_channels (demo_gateway b) = (demo_channels, [])" "gw_usage (demo_gateway b) = []"
  "(demo_gateway b)\<lparr>gw_channels := (demo_channels, [])\<rparr> = demo_gateway b"
  "(demo_gateway b)\<lparr>gw_pool := gw_pool (demo_gateway b)\<rparr> = demo_gateway b"
  by (simp_all add: demo_gateway_def)

lemma demo_dispatch_channel:
  assumes "EstimateChat (Some demo_chat_model) 7 n 1 = est"
    and "PreDeduct 1 7 est ''c'' ''chat prepay'' (gw_billing (demo_gateway b)) = (Inr (), s1)"
    and "Settle 1 7 est 200 ''c'' ''chat settle'' s1 = (r, s2)"
  shows "\<exists>g'. dispatchChatToChannel demo_handler demo_env demo_caller demo_chat_model (demo_request n) rec 1 0 0 (demo_gateway b) =
      (Some (demo_reply, rec\<lparr>ul_request := ''c'', ul_model := 3, ul_status := ''success'', ul_in := 7, ul_out := 3, ul_cost := 200\<rparr>), g') \<and>
    gw_billing g' = s2 \<and> gw_usage g' = []"
proof -
  let ?g = "demo_gateway b"
  have h: "hold_credits demo_handler demo_env demo_caller demo_chat_model (demo_request n) 1 0 ''c'' ?g = (Inr est, ?g\<lparr>gw_billing := s1\<rparr>)"
    using assms(1,2) by (simp add: hold_credits_def demo_parts on_pool_def AllowTPM_def okE_def Let_def refused_def on_billing_def demo_state)
  have r: "rnd64 2 = 2" using rnd64_int [of 2] by simp
  obtain g4 where t: "try_routes demo_env (demo_request n) 0 [demo_route] (?g\<lparr>gw_billing := s1\<rparr>) =
      (Some (demo_route, [\<lparr>ac_delta = ''hello'', ac_finish = ''stop'', ac_usage = Some 3, ac_err = False\<rparr>]), g4)"
    and g4: "gw_billing g4 = s1" "gw_usage g4 = []"
    by (auto simp: demo_parts on_channels_def demo_state split: prod.splits)
  have c: "channel_ratio demo_channel = 2" "rt_channel demo_route = demo_channel"
    by (simp_all add: channel_ratio_def demo_channel_def demo_route_def)
  have col: "collectChannel [\<lparr>ac_delta = ''hello'', ac_finish = ''stop'', ac_usage = Some 3, ac_err = False\<rparr>] = (demo_reply, 3)"
    by (simp add: collectChannel_def demo_reply_def channel_tokens_def)
  obtain rec' g5 where s: "settle_call demo_handler demo_env demo_caller demo_chat_model (demo_request n) 2 0 ''c'' est 3
       (rec\<lparr>ul_request := ''c'', ul_model := 3\<rparr>) g4 = (rec', g5)" by (rule prod.exhaust)
  have "rec' = rec\<lparr>ul_request := ''c'', ul_model := 3, ul_status := ''success'', ul_in := 7, ul_out := 3, ul_cost := 200\<rparr>"
    "gw_billing g5 = s2" "gw_usage g5 = []"
    using s assms(3) g4 by (auto simp: settle_call_def demo_parts demo_cost_two on_billing_def on_keys_def Let_def split: prod.splits if_splits)
  then show ?thesis
    by (simp add: dispatchChatToChannel_def demo_parts on_channels_def ModalityText_def demo_state demo_resolve Let_def on_pool_def
        AllowRPM_def okE_def refused_def h t c r col s del: try_routes.simps)
qed

lemma demo_run:
  assumes "EstimateChat (Some demo_chat_model) 7 n 1 = est"
   and "PreDeduct 1 7 est ''c'' ''chat prepay'' (gw_billing (demo_gateway b)) = (Inr (), s1)"
   and "Settle 1 7 est 200 ''c'' ''chat settle'' s1 = (r, s2)"
  shows "\<exists>g'. ChatCompletions demo_handler demo_env demo_caller (demo_request n) (demo_gateway b) = (demo_reply, g') \<and>
     gw_billing g' = s2 \<and> gw_usage g' = [(new_log demo_env demo_caller)\<lparr>ul_model := 3, ul_request := ''c'', ul_in := 7, ul_out := 3, ul_cost := 200, ul_status := ''success''\<rparr>]"
proof -
  let ?rec = "(new_log demo_env demo_caller)\<lparr>ul_model := 3\<rparr>"
  obtain g' where d: "dispatchChatToChannel demo_handler demo_env demo_caller demo_chat_model (demo_request n) ?rec 1 0 0 (demo_gateway b) =
      (Some (demo_reply, ?rec\<lparr>ul_request := ''c'', ul_model := 3, ul_status := ''success'', ul_in := 7, ul_out := 3, ul_cost := 200\<rparr>), g')"
    "gw_billing g' = s2" "gw_usage g' = []" using demo_dispatch_channel [OF assms, of ?rec] by blast
  show ?thesis using d
    by (simp add: ChatCompletions_def chat_body_def demo_lookup demo_parts Let_def ModelAllowed_def list_allows_def chat_model_call_def
        on_pool_def AllowRPM_def rpm_cap_def tpm_cap_def call_ratio_def okE_def refused_def demo_state write_log_def)
qed

lemma demo_runs:
  assumes "100 \<le> b" "b < 1000"
  shows "\<exists>g'. ChatCompletions demo_handler demo_env demo_caller (demo_request 3) (demo_gateway b) = (demo_reply, g') \<and>
    gw_usage g' = [(new_log demo_env demo_caller)\<lparr>ul_model := 3, ul_request := ''c'', ul_in := 7, ul_out := 3, ul_cost := 200, ul_status := ''success''\<rparr>] \<and>
    users (fst (gw_billing g')) 1 = Some \<lparr>credit_balance = b - 200, credit_frozen = 0, version = 2, deleted_at = None\<rparr>"
proof -
  let ?s = "gw_billing (demo_gateway b)"
  have p: "PreDeduct 1 7 100 ''c'' ''chat prepay'' ?s = (Inr (), (post 1 (- 100) 100 (demo_row b 0 None)
     [mk_tx 1 7 KindFreeze (- 100) (b - 100) ''c'' ''chat prepay''] (fst ?s), []))"
    using assms by (simp add: demo_gateway_def PreDeduct_eval demo_simps)
  obtain r s2 where st: "Settle 1 7 100 200 ''c'' ''chat settle'' (post 1 (- 100) 100 (demo_row b 0 None)
     [mk_tx 1 7 KindFreeze (- 100) (b - 100) ''c'' ''chat prepay''] (fst ?s), []) = (r, s2)" by (rule prod.exhaust)
  have "users (fst s2) 1 = Some \<lparr>credit_balance = b - 200, credit_frozen = 0, version = 2, deleted_at = None\<rparr>"
    using st assms by (auto simp: Settle_eval demo_gateway_def demo_simps)
  with demo_run [OF demo_estimate p st] show ?thesis by blast
qed

section \<open>Behaviours\<close>

text \<open>
  The estimate leaves out the channel's ratio: with credits for exactly the estimate, a call through a
  channel of ratio two is answered and leaves the user a negative balance.
\<close>

theorem channel_ratio_overdraws:
  "\<exists>g'. ChatCompletions demo_handler demo_env demo_caller (demo_request 3) (demo_gateway 100) = (demo_reply, g') \<and>
     EstimateChat (Some demo_chat_model) 7 3 1 = 100 \<and> map ul_cost (gw_usage g') = [200] \<and>
     map_option credit_balance (users (fst (gw_billing g')) 1) = Some (- 100)"
  using demo_runs [of 100] demo_estimate by auto

text \<open>
  A request for very many tokens is not held for at all: the price of the estimate wraps around to a negative
  amount, the pre-deduction takes it for nothing to do, and a user without a single credit is answered. The
  settlement then moves the negative hold: the balance becomes a huge debt and the frozen amount its mirror image.
\<close>

theorem huge_max_tokens_unpaid:
  "\<exists>g'. ChatCompletions demo_handler demo_env demo_caller (demo_request 1000000000000) (demo_gateway 0) = (demo_reply, g') \<and>
     map_option credit_balance (users (fst (gw_billing g')) 1) = Some (- 8446744073838) \<and>
     map_option credit_frozen (users (fst (gw_billing g')) 1) = Some 8446744073638"
proof -
  let ?s = "gw_billing (demo_gateway 0)"
  have e: "EstimateChat (Some demo_chat_model) 7 1000000000000 1 = - 8446744073638" by (simp add: EstimateChat_def demo_cost_wraps)
  have p: "PreDeduct 1 7 (- 8446744073638) ''c'' ''chat prepay'' ?s = (Inr (), ?s)"
    by (simp add: demo_gateway_def PreDeduct_eval)
  obtain r s2 where st: "Settle 1 7 (- 8446744073638) 200 ''c'' ''chat settle'' ?s = (r, s2)" by (rule prod.exhaust)
  have "users (fst s2) 1 = Some \<lparr>credit_balance = - 8446744073838, credit_frozen = 8446744073638, version = 1, deleted_at = None\<rparr>"
    using st by (auto simp: Settle_def demo_gateway_def demo_simps runTx_def begin_tx_def commit_def wrap64_def update_users_def
      select_balance_def insert_tx_def bindE_def okE_def)
  with demo_run [OF e p st] show ?thesis by fastforce
qed

theorem chat_charges_what_it_logs_witness:
  "\<exists>g'. ChatCompletions demo_handler demo_env demo_caller (demo_request 3) (demo_gateway 900) = (demo_reply, g') \<and>
     wallet_of (fst (gw_billing g')) = shift 1 (- 200) 0 (wallet_of (fst (gw_billing (demo_gateway 900))))"
proof -
  let ?d = "fst (gw_billing (demo_gateway 900))"
  obtain g' where run: "ChatCompletions demo_handler demo_env demo_caller (demo_request 3) (demo_gateway 900) = (demo_reply, g')"
    and log: "gw_usage g' = [(new_log demo_env demo_caller)\<lparr>ul_model := 3, ul_request := ''c'', ul_in := 7, ul_out := 3,
       ul_cost := 200, ul_status := ''success''\<rparr>]" using demo_runs [of 900] by auto
  have d: "gw_billing (demo_gateway 900) = (?d, [])" by (simp add: demo_gateway_def)
  have room: "roomy (k_user demo_caller) ?d"
    by (simp add: roomy_def rows_ok_def demo_parts demo_gateway_def demo_row_def row_fits_def in_i64_def)
  have est: "m_type m \<noteq> ''image'' \<and>
      0 \<le> EstimateChat (Some m) (roughEstimateTokens (cq_messages (demo_request 3))) (cq_max_tokens (demo_request 3)) (call_ratio demo_env) \<and>
      EstimateChat (Some m) (roughEstimateTokens (cq_messages (demo_request 3))) (cq_max_tokens (demo_request 3)) (call_ratio demo_env) < 2 ^ 62"
    if "billed_model demo_env (demo_request 3) (demo_gateway 900) = Some m" for m
  proof -
    have "m = demo_chat_model" using that by (simp add: billed_model_def demo_parts BySlug_def demo_gateway_def registry_ttl_def)
    then show ?thesis by (simp add: demo_parts call_ratio_def demo_estimate)
  qed
  from chat_charges_what_it_logs [OF run d room est] show ?thesis using run log by (simp add: demo_parts)
qed

theorem rpm_one_blocks_channels_witness:
  "fst (ChatCompletions demo_handler demo_env (demo_caller\<lparr>k_rpm := 1\<rparr>) (demo_request 3) (demo_gateway 900)) = R_error 429 ''rate_limit_rpm''"
proof (rule rpm_one_blocks_channels [where \<epsilon> = 0 and m = demo_chat_model and routes = "[demo_route]"])
  show "billed_model demo_env (demo_request 3) (demo_gateway 900) = Some demo_chat_model"
    by (simp add: billed_model_def demo_parts BySlug_def demo_gateway_def registry_ttl_def)
  show "ModelAllowed (demo_caller\<lparr>k_rpm := 1\<rparr>) (cq_model (demo_request 3))" by (simp add: ModelAllowed_def list_allows_def demo_caller_def)
  show "rounds_within (ch_rd demo_handler) 0" using rounds_within_id by (simp add: demo_handler_def)
qed (simp_all add: demo_parts rpm_cap_def demo_state demo_resolve ModalityText_def demo_gateway_def)

end
