(* ===== verification/Image_Tasks.thy ===== *)
theory Image_Tasks
  imports Sql_Tx Go_Json
begin

text \<open>
  The table of image tasks (internal/image/dao.go and model.go) and what a task tells its user about progress and
  billing (task_meta.go). \<open>jn\<close> is the text a JSON column returns for a stored text, \<open>like\<close> MySQL's pattern match
  \<open>'%keyword%'\<close> in the column's collation; a nil slice is the empty list. Times are in milliseconds. The
  labels and notes shown beside a phase are left out.
\<close>

section \<open>Tasks\<close>

definition StatusQueued :: string where "StatusQueued = ''queued''"
definition StatusDispatched :: string where "StatusDispatched = ''dispatched''"
definition StatusRunning :: string where "StatusRunning = ''running''"
definition StatusSuccess :: string where "StatusSuccess = ''success''"
definition StatusFailed :: string where "StatusFailed = ''failed''"

definition StorageModeLocal :: string where "StorageModeLocal = ''local''"
definition StorageModeCloud :: string where "StorageModeCloud = ''cloud''"

lemmas task_words = StatusQueued_def StatusDispatched_def StatusRunning_def StatusSuccess_def StatusFailed_def
  StorageModeLocal_def StorageModeCloud_def

definition NormalizeStorageMode :: "string \<Rightarrow> string" where
  "NormalizeStorageMode mode = (if mode = StorageModeCloud then StorageModeCloud else StorageModeLocal)"

record task =
  it_id :: nat
  it_task :: string
  it_user :: nat
  it_key :: nat
  it_model :: nat
  it_account :: nat
  it_prompt :: string
  it_n :: int
  it_size :: string
  it_upscale :: string
  it_storage :: string
  it_status :: string
  it_conversation :: string
  it_files :: "string option"
  it_urls :: "string option"
  it_thumbs :: "string option"
  it_ref_count :: int
  it_ref_urls :: "string option"
  it_ref_thumbs :: "string option"
  it_error :: string
  it_estimated :: int
  it_cost :: int
  it_created :: int
  it_started :: "int option"
  it_finished :: "int option"
  it_deleted :: "int option"

record task_db =
  tasks :: "task list"
  tasks_next :: nat

text \<open>The server's clock, in whole seconds.\<close>

definition sql_now_ms :: "int \<Rightarrow> int" where "sql_now_ms now = now div 1000 * 1000"

section \<open>Helpers\<close>

definition nullEmpty :: "string \<Rightarrow> string \<Rightarrow> string" where
  "nullEmpty s fallback = (if s = '''' then fallback else s)"

definition nullJSON :: "string \<Rightarrow> string option" where
  "nullJSON b = (if b = '''' then None else Some b)"

definition truncate_bytes :: "string \<Rightarrow> nat \<Rightarrow> string" where
  "truncate_bytes s mx = (if length s \<le> mx then s else take mx s)"

text \<open>\<open>json.Marshal\<close> of a slice of strings.\<close>

definition marshal_slice :: "string list \<Rightarrow> string" where
  "marshal_slice xs = (if xs = [] then ''null'' else marshal_strings xs)"

text \<open>
  Decoding a column drops the error: a text that is not JSON or not an array leaves the slice empty, an element
  that is not a string leaves the empty string in its place.
\<close>

definition decode_slice :: "string option \<Rightarrow> string list" where
  "decode_slice col =
     (case col of
        None \<Rightarrow> []
      | Some t \<Rightarrow> (case json_parse t of Some (JArr vs) \<Rightarrow> map (\<lambda>v. case v of JStr s \<Rightarrow> s | _ \<Rightarrow> '''') vs | _ \<Rightarrow> []))"

definition DecodeFileIDs :: "task \<Rightarrow> string list" where "DecodeFileIDs t = decode_slice (it_files t)"
definition DecodeResultURLs :: "task \<Rightarrow> string list" where "DecodeResultURLs t = decode_slice (it_urls t)"
definition DecodeThumbURLs :: "task \<Rightarrow> string list" where "DecodeThumbURLs t = decode_slice (it_thumbs t)"
definition DecodeReferenceURLs :: "task \<Rightarrow> string list" where "DecodeReferenceURLs t = decode_slice (it_ref_urls t)"
definition DecodeReferenceThumbURLs :: "task \<Rightarrow> string list" where "DecodeReferenceThumbURLs t = decode_slice (it_ref_thumbs t)"

section \<open>DAO\<close>

definition insert_task :: "(string \<Rightarrow> string) \<Rightarrow> int \<Rightarrow> task \<Rightarrow> task_db \<Rightarrow> nat result \<times> task_db" where
  "insert_task jn now t d =
     (if it_task t \<in> it_task ` set (tasks d) then (Inl EDuplicate, d)
      else (Inr (tasks_next d),
            d\<lparr>tasks := tasks d @
                 [t\<lparr>it_id := tasks_next d, it_upscale := '''', it_storage := NormalizeStorageMode (it_storage t),
                    it_status := nullEmpty (it_status t) StatusQueued,
                    it_files := map_option jn (it_files t), it_urls := map_option jn (it_urls t), it_thumbs := map_option jn (it_thumbs t),
                    it_ref_urls := map_option jn (it_ref_urls t), it_ref_thumbs := map_option jn (it_ref_thumbs t),
                    it_created := sql_now_ms now, it_started := None, it_finished := None, it_deleted := None\<rparr>],
              tasks_next := tasks_next d + 1\<rparr>))"

definition Task_Create :: "(string \<Rightarrow> string) \<Rightarrow> int \<Rightarrow> task \<Rightarrow> (task_db sess, task) action" where
  "Task_Create jn now t = bindE (stmt (insert_task jn now t)) (\<lambda>i. okE (t\<lparr>it_id := i\<rparr>))"

definition update_tasks :: "(task \<Rightarrow> bool) \<Rightarrow> (task \<Rightarrow> task) \<Rightarrow> task_db \<Rightarrow> nat result \<times> task_db" where
  "update_tasks hit f d =
     (Inr (length (filter (\<lambda>t. hit t \<and> f t \<noteq> t) (tasks d))), d\<lparr>tasks := map (\<lambda>t. if hit t then f t else t) (tasks d)\<rparr>)"

definition exec_tasks :: "(task \<Rightarrow> bool) \<Rightarrow> (task \<Rightarrow> task) \<Rightarrow> (task_db sess, unit) action" where
  "exec_tasks hit f = bindE (stmt (update_tasks hit f)) (\<lambda>_. okE ())"

definition MarkRunning :: "int \<Rightarrow> string \<Rightarrow> nat \<Rightarrow> (task_db sess, unit) action" where
  "MarkRunning now taskID accountID =
     exec_tasks (\<lambda>t. it_task t = taskID \<and> it_status t \<in> {StatusQueued, StatusDispatched})
       (\<lambda>t. t\<lparr>it_status := StatusRunning, it_account := accountID, it_started := Some (sql_now_ms now)\<rparr>)"

definition SetAccount :: "string \<Rightarrow> nat \<Rightarrow> (task_db sess, unit) action" where
  "SetAccount taskID accountID = exec_tasks (\<lambda>t. it_task t = taskID) (\<lambda>t. t\<lparr>it_account := accountID\<rparr>)"

definition MarkSuccess ::
  "(string \<Rightarrow> string) \<Rightarrow> int \<Rightarrow> string \<Rightarrow> string \<Rightarrow> string list \<Rightarrow> string list \<Rightarrow> string list \<Rightarrow> string \<Rightarrow> int \<Rightarrow>
   (task_db sess, unit) action" where
  "MarkSuccess jn now taskID convID fileIDs resultURLs thumbURLs storageMode creditCost =
     exec_tasks (\<lambda>t. it_task t = taskID)
       (\<lambda>t. t\<lparr>it_status := StatusSuccess, it_conversation := convID, it_files := Some (jn (marshal_slice fileIDs)),
              it_urls := Some (jn (marshal_slice resultURLs)), it_thumbs := Some (jn (marshal_slice thumbURLs)),
              it_storage := NormalizeStorageMode storageMode, it_cost := creditCost, it_finished := Some (sql_now_ms now)\<rparr>)"

text \<open>A nil slice leaves the column NULL.\<close>

definition UpdateReferences :: "(string \<Rightarrow> string) \<Rightarrow> string \<Rightarrow> string list option \<Rightarrow> string list option \<Rightarrow> (task_db sess, unit) action" where
  "UpdateReferences jn taskID urls thumbs =
     exec_tasks (\<lambda>t. it_task t = taskID)
       (\<lambda>t. t\<lparr>it_ref_urls := map_option (\<lambda>xs. jn (marshal_strings xs)) urls, it_ref_thumbs := map_option (\<lambda>xs. jn (marshal_strings xs)) thumbs\<rparr>)"

definition UpdateCost :: "string \<Rightarrow> int \<Rightarrow> (task_db sess, unit) action" where
  "UpdateCost taskID cost = exec_tasks (\<lambda>t. it_task t = taskID) (\<lambda>t. t\<lparr>it_cost := cost\<rparr>)"

definition MarkFailed :: "int \<Rightarrow> string \<Rightarrow> string \<Rightarrow> (task_db sess, unit) action" where
  "MarkFailed now taskID errorCode =
     exec_tasks (\<lambda>t. it_task t = taskID)
       (\<lambda>t. t\<lparr>it_status := StatusFailed, it_error := truncate_bytes errorCode 500, it_finished := Some (sql_now_ms now)\<rparr>)"

definition it_live :: "task \<Rightarrow> bool" where "it_live t \<longleftrightarrow> it_deleted t = None"

definition Task_Get :: "string \<Rightarrow> (task_db sess, task) action" where
  "Task_Get taskID =
     mapErr (\<lambda>e. if e = ENoRows then ErrNotFound else e)
       (stmt (\<lambda>d. (case find (\<lambda>t. it_task t = taskID \<and> it_live t) (tasks d) of None \<Rightarrow> Inl ENoRows | Some t \<Rightarrow> Inr t, d)))"

record task_filter =
  tf_user :: nat
  tf_status :: string
  tf_keyword :: string
  tf_since :: "int option"
  tf_until :: "int option"

definition in_period :: "task_filter \<Rightarrow> task \<Rightarrow> bool" where
  "in_period f t \<longleftrightarrow>
     (case tf_since f of None \<Rightarrow> True | Some s \<Rightarrow> s \<le> it_created t) \<and> (case tf_until f of None \<Rightarrow> True | Some u \<Rightarrow> it_created t < u)"

definition user_match :: "(string \<Rightarrow> string \<Rightarrow> bool) \<Rightarrow> nat \<Rightarrow> task_filter \<Rightarrow> task \<Rightarrow> bool" where
  "user_match like userID f t \<longleftrightarrow>
     it_user t = userID \<and> it_live t \<and> (tf_status f \<noteq> '''' \<longrightarrow> it_status t = tf_status f) \<and>
     (tf_keyword f \<noteq> '''' \<longrightarrow> like (it_prompt t) (tf_keyword f)) \<and> in_period f t"

text \<open>\<open>ORDER BY id DESC LIMIT ? OFFSET ?\<close>\<close>

definition page :: "int \<Rightarrow> int \<Rightarrow> task list \<Rightarrow> task list" where
  "page limit offset ts = take (nat limit) (drop (nat offset) (rev (sort_key it_id ts)))"

definition ListByUserFiltered ::
  "(string \<Rightarrow> string \<Rightarrow> bool) \<Rightarrow> nat \<Rightarrow> task_filter \<Rightarrow> int \<Rightarrow> int \<Rightarrow> (task_db sess, task list \<times> nat) action" where
  "ListByUserFiltered like userID f limit0 offset0 =
     (let limit = (if limit0 \<le> 0 then 20 else limit0); offset = max 0 offset0 in
      bindE (stmt (\<lambda>d. (Inr (length (filter (user_match like userID f) (tasks d))), d))) (\<lambda>total.
      bindE (stmt (\<lambda>d. (Inr (page limit offset (filter (user_match like userID f) (tasks d))), d))) (\<lambda>ts.
      okE (ts, total))))"

text \<open>
  The administrator's list joins the owner's address and the model's slug, empty when the row is gone. A negative
  offset is a syntax error of the statement.
\<close>

definition admin_match :: "(string \<Rightarrow> string \<Rightarrow> bool) \<Rightarrow> (nat \<Rightarrow> string option) \<Rightarrow> task_filter \<Rightarrow> task \<Rightarrow> bool" where
  "admin_match like email f t \<longleftrightarrow>
     it_live t \<and> (tf_user f > 0 \<longrightarrow> it_user t = tf_user f) \<and> (tf_status f \<noteq> '''' \<longrightarrow> it_status t = tf_status f) \<and>
     (tf_keyword f \<noteq> '''' \<longrightarrow>
        like (it_prompt t) (tf_keyword f) \<or> (case email (it_user t) of None \<Rightarrow> False | Some m \<Rightarrow> like m (tf_keyword f))) \<and>
     in_period f t"

definition ListAdmin ::
  "(string \<Rightarrow> string \<Rightarrow> bool) \<Rightarrow> (nat \<Rightarrow> string option) \<Rightarrow> (nat \<Rightarrow> string option) \<Rightarrow> task_filter \<Rightarrow> int \<Rightarrow> int \<Rightarrow>
   (task_db sess, (task \<times> string \<times> string) list \<times> nat) action" where
  "ListAdmin like email slug f limit0 offset =
     (let limit = (if limit0 \<le> 0 then 20 else limit0); or_empty = (\<lambda>x. case x of None \<Rightarrow> '''' | Some s \<Rightarrow> s) in
      bindE (stmt (\<lambda>d. (Inr (length (filter (admin_match like email f) (tasks d))), d))) (\<lambda>total.
      bindE (stmt (\<lambda>d. (if offset < 0 then Inl EDriver
                        else Inr (map (\<lambda>t. (t, or_empty (email (it_user t)), or_empty (slug (it_model t))))
                               (page limit offset (filter (admin_match like email f) (tasks d)))), d))) (\<lambda>ts.
      okE (ts, total))))"

definition SoftDeleteByUser :: "int \<Rightarrow> string \<Rightarrow> nat \<Rightarrow> (task_db sess, unit) action" where
  "SoftDeleteByUser now taskID userID =
     bindE (stmt (update_tasks (\<lambda>t. it_task t = taskID \<and> it_user t = userID \<and> it_live t) (\<lambda>t. t\<lparr>it_deleted := Some (sql_now_ms now)\<rparr>)))
       (\<lambda>n. if n = 0 then failE ErrNotFound else okE ())"

section \<open>Progress\<close>

record progress =
  pg_phase :: string
  pg_estimated :: int
  pg_count :: nat
  pg_billing :: string

definition taskActualCount :: "task \<Rightarrow> nat" where
  "taskActualCount t = max (length (DecodeResultURLs t)) (max (length (DecodeFileIDs t)) (length (DecodeThumbURLs t)))"

definition taskPhaseMeta :: "string \<Rightarrow> string" where
  "taskPhaseMeta s =
     (if s = StatusQueued then ''queued'' else if s = StatusDispatched then ''preparing''
      else if s = StatusRunning then ''generating'' else if s = StatusSuccess then ''completed''
      else if s = StatusFailed then ''failed'' else ''unknown'')"

definition taskBillingMeta :: "task \<Rightarrow> nat \<Rightarrow> string" where
  "taskBillingMeta t actualCount =
     (let requested = (if it_n t \<le> 0 then 1 else it_n t) in
      if it_status t \<in> {StatusQueued, StatusDispatched, StatusRunning} then ''pending''
      else if it_status t = StatusFailed then (if it_estimated t > 0 then ''refunded'' else ''free'')
      else if it_status t = StatusSuccess then
        (if actualCount > 0 \<and> int actualCount < requested then (if it_cost t > 0 then ''settled_partial'' else ''free'')
         else if it_cost t > 0 then ''settled'' else ''free'')
      else if it_cost t > 0 then ''settled'' else ''unknown'')"

definition BuildTaskProgressMeta :: "task option \<Rightarrow> progress" where
  "BuildTaskProgressMeta x =
     (case x of
        None \<Rightarrow> \<lparr>pg_phase = ''unknown'', pg_estimated = 0, pg_count = 0, pg_billing = ''unknown''\<rparr>
      | Some t \<Rightarrow>
          \<lparr>pg_phase = taskPhaseMeta (it_status t), pg_estimated = it_estimated t, pg_count = taskActualCount t,
           pg_billing = taskBillingMeta t (taskActualCount t)\<rparr>)"

section \<open>Columns read back\<close>

lemma strings_of_values: "strings_of vs = Some xs \<Longrightarrow> map (\<lambda>v. case v of JStr s \<Rightarrow> s | _ \<Rightarrow> '''') vs = xs"
proof (induction vs arbitrary: xs)
  case (Cons v vs)
  then show ?case by (auto split: json.splits option.splits)
qed simp

lemma decode_slice_unmarshal: "unmarshal_strings t = Some xs \<Longrightarrow> decode_slice (Some t) = xs"
  by (auto simp: decode_slice_def unmarshal_strings_def strings_of_values split: option.splits json.splits)

lemma unmarshal_null: "unmarshal_strings ''null'' = Some []"
proof -
  have "p_value (Suc n) d ''null'' = Some (JNull, [])" for n d by (simp add: skip_ws_def json_ws_def keyword_def byte_val_def HasPrefix_def)
  from this [of 9 10000] show ?thesis
    by (simp add: unmarshal_strings_def json_parse_def fuel_for_def max_depth_def skip_ws_def)
qed

lemma decode_marshal_slice:
  assumes "list_all valid_utf8 xs" and "\<And>x. unmarshal_strings (jn x) = unmarshal_strings x"
  shows "decode_slice (Some (jn (marshal_slice xs))) = xs"
proof -
  have "map to_valid xs = xs" using assms(1) by (induction xs) (auto simp: to_valid_id)
  then have "unmarshal_strings (jn (marshal_slice xs)) = Some xs"
    using assms(2) unmarshal_marshal [of xs] by (auto simp: marshal_slice_def unmarshal_null)
  then show ?thesis by (rule decode_slice_unmarshal)
qed

end
