(* ===== verification/Image_Runner.thy ===== *)
theory Image_Runner
  imports Image_Tasks Gateway_Chat
begin

text \<open>
  The image runner (internal/image/runner.go): one attempt through an account of the pool, the retries over
  several accounts, the parallel batches of a request for several images, the archiving of the images and the
  writing of the task. What chatgpt.com answers, the image store and the cloud store are arguments; the messages
  of errors and the log are left out. The attempts of a batch run concurrently: they are taken in the order in
  which their results arrive, and what they do to the pool in between belongs to their \<open>world\<close>.
\<close>

section \<open>Data\<close>

record source_image =
  si_index :: nat
  si_name :: string
  si_data :: string
  si_type :: string

record ref_image =
  ri_data :: string
  ri_name :: string
  ri_type :: string

record run_options =
  op_task :: string
  op_upstream :: string
  op_prompt :: string
  op_size :: string
  op_n :: int
  op_attempts :: int
  op_timeout :: int
  op_poll_wait :: int
  op_refs :: "ref_image list"

record run_result =
  rs_status :: string
  rs_conv :: string
  rs_account :: nat
  rs_files :: "string list"
  rs_urls :: "string list"
  rs_thumbs :: "string list"
  rs_types :: "string list"
  rs_storage :: string
  rs_code :: string
  rs_attempts :: nat
  rs_archive :: "source_image list"
  rs_quota :: "(nat \<times> nat) list"

definition new_result :: "string \<Rightarrow> run_result" where
  "new_result mode =
     \<lparr>rs_status = StatusFailed, rs_conv = '''', rs_account = 0, rs_files = [], rs_urls = [], rs_thumbs = [], rs_types = [],
      rs_storage = mode, rs_code = ''unknown'', rs_attempts = 0, rs_archive = [], rs_quota = []\<rparr>"

definition trimRunResultImages :: "int \<Rightarrow> run_result \<Rightarrow> run_result" where
  "trimRunResultImages mx r =
     (if mx \<le> 0 then r
      else r\<lparr>rs_files := take (nat mx) (rs_files r), rs_urls := take (nat mx) (rs_urls r),
             rs_types := take (nat mx) (rs_types r), rs_archive := take (nat mx) (rs_archive r)\<rparr>)"

definition runResultImageCount :: "run_result \<Rightarrow> nat" where
  "runResultImageCount r =
     max (max (max (length (rs_files r)) (length (rs_urls r))) (length (rs_thumbs r))) (length (rs_archive r))"

definition quotaImageCount :: "string list \<Rightarrow> string list \<Rightarrow> int \<Rightarrow> nat" where
  "quotaImageCount fileIDs signedURLs fallback =
     (if fileIDs \<noteq> [] then length fileIDs else if signedURLs \<noteq> [] then length signedURLs
      else if fallback > 0 then nat fallback else 1)"

section \<open>The retry policy\<close>

definition maxAttemptWindow :: "int \<Rightarrow> nat" where
  "maxAttemptWindow maxAttempts = nat (if maxAttempts < 2 then 2 else maxAttempts)"

definition retryLimit :: "int \<Rightarrow> string \<Rightarrow> int" where
  "retryLimit maxAttempts0 code =
     (let maxAttempts = (if maxAttempts0 \<le> 0 then 1 else maxAttempts0) in
      if code = ''upstream_error'' then 2
      else if code \<in> {''auth_required'', ''rate_limited'', ''network_transient''} \<and> maxAttempts < 2 then 2
      else maxAttempts)"

definition isRetryableImageFailure :: "string \<Rightarrow> bool" where
  "isRetryableImageFailure code \<longleftrightarrow>
     code \<in> {''rate_limited'', ''no_available_account'', ''auth_required'', ''network_transient'', ''upstream_error''}"

definition copyRunResultState :: "run_result \<Rightarrow> run_result \<Rightarrow> run_result" where
  "copyRunResultState dst src =
     dst\<lparr>rs_conv := rs_conv src, rs_account := rs_account src, rs_files := rs_files src, rs_urls := rs_urls src,
         rs_thumbs := rs_thumbs src, rs_types := rs_types src, rs_archive := rs_archive src, rs_quota := []\<rparr>"

text \<open>An attempt: whether it succeeded, its code, and its result.\<close>

type_synonym 'w attempt = "run_options \<Rightarrow> run_result \<Rightarrow> 'w \<Rightarrow> (bool \<times> string \<times> run_result) \<times> 'w"

primrec retry_from ::
  "nat \<Rightarrow> (nat \<Rightarrow> 'w attempt) \<Rightarrow> (nat \<Rightarrow> bool) \<Rightarrow> run_options \<Rightarrow> nat \<Rightarrow> run_result \<Rightarrow> 'w \<Rightarrow> (bool \<times> run_result) \<times> 'w" where
  "retry_from 0 once cancelled opt attempt r w = ((False, r), w)"
| "retry_from (Suc k) once cancelled opt attempt r0 w =
     (let r = r0\<lparr>rs_attempts := attempt\<rparr> in
      if cancelled attempt then ((False, r\<lparr>rs_code := ''unknown''\<rparr>), w)
      else
        let ((ok, code, ar), w1) = once attempt opt (new_result (rs_storage r)) w;
            r1 = copyRunResultState r ar in
        if ok then ((True, r1), w1)
        else
          let status = (if code \<noteq> '''' then code else if rs_code ar \<noteq> '''' then rs_code ar else ''unknown'');
              r2 = r1\<lparr>rs_code := status\<rparr> in
          if \<not> isRetryableImageFailure status then ((False, r2), w1)
          else if int attempt \<ge> retryLimit (op_attempts opt) status then ((False, r2), w1)
          else retry_from k once cancelled opt (attempt + 1) r2 w1)"

definition runWithRetry ::
  "(nat \<Rightarrow> 'w attempt) \<Rightarrow> (nat \<Rightarrow> bool) \<Rightarrow> run_options \<Rightarrow> run_result \<Rightarrow> 'w \<Rightarrow> (bool \<times> run_result) \<times> 'w" where
  "runWithRetry once cancelled opt r w = retry_from (maxAttemptWindow (op_attempts opt)) once cancelled opt 1 r w"

section \<open>Several images\<close>

text \<open>
  The world of a run: what each attempt of each goroutine of each batch is, whether the context is done before it,
  and whether it is done after a batch.
\<close>

record 'w run_world =
  rw_once :: "nat \<Rightarrow> nat \<Rightarrow> nat \<Rightarrow> 'w attempt"
  rw_cancelled :: "nat \<Rightarrow> nat \<Rightarrow> nat \<Rightarrow> bool"
  rw_batch_done :: "nat \<Rightarrow> bool"

primrec runBatch ::
  "'w run_world \<Rightarrow> nat \<Rightarrow> string \<Rightarrow> run_options \<Rightarrow> nat \<Rightarrow> 'w \<Rightarrow> (bool \<times> run_result) list \<times> 'w" where
  "runBatch rw b mode subOpt 0 w = ([], w)"
| "runBatch rw b mode subOpt (Suc k) w =
     (let ((ok, sub), w1) = runWithRetry (rw_once rw b k) (rw_cancelled rw b k) subOpt (new_result mode) w;
          sub' = (if ok then trimRunResultImages (op_n subOpt) sub else sub);
          (srs, w2) = runBatch rw b mode subOpt k w1 in
      ((ok, sub') # srs, w2))"

definition subImageCount :: "run_result \<Rightarrow> nat" where
  "subImageCount sr = max (max (length (rs_files sr)) (length (rs_urls sr))) (length (rs_archive sr))"

fun add_quota :: "nat \<Rightarrow> nat \<Rightarrow> (nat \<times> nat) list \<Rightarrow> (nat \<times> nat) list" where
  "add_quota i n [] = [(i, n)]"
| "add_quota i n ((j, m) # qs) = (if i = j then (j, m + n) # qs else (j, m) # add_quota i n qs)"

text \<open>What has been gathered: the result, the number of goroutines that succeeded, the last error code.\<close>

type_synonym gathered = "run_result \<times> nat \<times> string"

definition gather :: "bool \<times> run_result \<Rightarrow> gathered \<Rightarrow> gathered" where
  "gather sr acc =
     (case (sr, acc) of ((ok, sub), (r0, succ, lastCode)) \<Rightarrow>
        let r = r0\<lparr>rs_attempts := rs_attempts r0 + rs_attempts sub\<rparr> in
        if \<not> ok then (r, succ, rs_code sub)
        else if subImageCount sub = 0 then (r, succ, ''invalid_response'')
        else
          let base = runResultImageCount r in
          (r\<lparr>rs_files := rs_files r @ rs_files sub, rs_urls := rs_urls r @ rs_urls sub, rs_types := rs_types r @ rs_types sub,
             rs_archive := rs_archive r @ map (\<lambda>img. img\<lparr>si_index := base + si_index img\<rparr>) (rs_archive sub),
             rs_conv := (if rs_conv r = '''' then rs_conv sub else rs_conv r),
             rs_account := (if rs_account r = 0 then rs_account sub else rs_account r),
             rs_quota := (if rs_account sub > 0 then add_quota (rs_account sub) (subImageCount sub) (rs_quota r) else rs_quota r)\<rparr>,
           succ + 1, lastCode))"

primrec batches ::
  "nat \<Rightarrow> 'w run_world \<Rightarrow> nat \<Rightarrow> string \<Rightarrow> run_options \<Rightarrow> nat \<Rightarrow> gathered \<Rightarrow> 'w \<Rightarrow> gathered \<times> 'w" where
  "batches 0 rw b mode subOpt n acc w = (acc, w)"
| "batches (Suc k) rw b mode subOpt n acc w =
     (if n \<le> runResultImageCount (fst acc) then (acc, w)
      else
        let (srs, w1) = runBatch rw b mode subOpt (n - runResultImageCount (fst acc)) w;
            acc1 = fold gather srs acc in
        if rw_batch_done rw b then (acc1, w1) else batches k rw (b + 1) mode subOpt n acc1 w1)"

definition runParallel :: "'w run_world \<Rightarrow> string \<Rightarrow> run_options \<Rightarrow> run_result \<Rightarrow> 'w \<Rightarrow> run_result \<times> 'w" where
  "runParallel rw mode opt r0 w =
     (let n = nat (op_n opt);
          subOpt = opt\<lparr>op_n := 1, op_task := ''''\<rparr>;
          maxBatches = max n (maxAttemptWindow (op_attempts opt));
          ((r1, succ, lastCode), w1) = batches maxBatches rw 1 mode subOpt n (r0\<lparr>rs_quota := []\<rparr>, 0, '''') w;
          r2 = (if length (rs_archive r1) > 1 then r1\<lparr>rs_archive := sort_key si_index (rs_archive r1)\<rparr> else r1);
          r3 = (if runResultImageCount r2 > n then trimRunResultImages (op_n opt) r2 else r2) in
      if runResultImageCount r3 \<ge> n then (r3\<lparr>rs_status := StatusSuccess, rs_code := ''''\<rparr>, w1)
      else if succ > 0 then (r3\<lparr>rs_code := ''invalid_response''\<rparr>, w1)
      else (r3\<lparr>rs_code := (if lastCode = '''' then ''unknown'' else lastCode)\<rparr>, w1))"

section \<open>Archiving\<close>

text \<open>
  What the runner was built with: the scheduler's parts, the local store (whether the images could be saved), the
  storage mode of the settings, whether a cloud uploader can be built, the upload channel of its configuration
  when that is supported, and the network: an upload's address, a thumbnail, a download.
\<close>

record image_runner =
  rn_cipher :: aead
  rn_sched :: scheduler
  rn_scan :: scan
  rn_zone :: int
  rn_jn :: "string \<Rightarrow> string"
  rn_files :: "(string \<Rightarrow> source_image list \<Rightarrow> bool) option"
  rn_mode :: string
  rn_uploader :: bool
  rn_channel :: "string option"
  rn_upload :: "source_image \<Rightarrow> string \<Rightarrow> string option"
  rn_thumb :: "string \<Rightarrow> (string \<times> string) option"
  rn_download :: "string \<Rightarrow> (string \<times> string) option"
  rn_poll_sec :: int

definition storageMode :: "image_runner \<Rightarrow> string" where
  "storageMode rn = NormalizeStorageMode (rn_mode rn)"

definition cloudUploadChannels :: "image_runner \<Rightarrow> string list" where
  "cloudUploadChannels rn =
     (if rn_channel rn = Some ''huggingface'' then [''huggingface''] else [''telegram'', ''huggingface''])"

fun uploadCloudImage :: "image_runner \<Rightarrow> source_image \<Rightarrow> string list \<Rightarrow> string option" where
  "uploadCloudImage rn src [] = None"
| "uploadCloudImage rn src (ch # chs) =
     (case rn_upload rn src ch of Some u \<Rightarrow> Some u | None \<Rightarrow> uploadCloudImage rn src chs)"

definition buildCloudThumbSource :: "image_runner \<Rightarrow> string \<Rightarrow> source_image \<Rightarrow> source_image option" where
  "buildCloudThumbSource rn taskID src =
     map_option (\<lambda>(data, ct). \<lparr>si_index = si_index src, si_name = ''tmp_'' @ taskID @ ''_'' @ dec_nat (si_index src),
                               si_data = data, si_type = ct\<rparr>) (rn_thumb rn (si_data src))"

definition thumb_url :: "image_runner \<Rightarrow> string \<Rightarrow> source_image \<Rightarrow> string" where
  "thumb_url rn taskID src =
     (case buildCloudThumbSource rn taskID src of
        None \<Rightarrow> ''''
      | Some th \<Rightarrow> (case uploadCloudImage rn th (cloudUploadChannels rn) of None \<Rightarrow> '''' | Some u \<Rightarrow> u))"

fun upload_all :: "image_runner \<Rightarrow> string \<Rightarrow> source_image list \<Rightarrow> (string list \<times> string list) option" where
  "upload_all rn taskID [] = Some ([], [])"
| "upload_all rn taskID (src # srcs) =
     (case uploadCloudImage rn (src\<lparr>si_name := taskID @ ''_'' @ dec_nat (si_index src)\<rparr>) (cloudUploadChannels rn) of
        None \<Rightarrow> None
      | Some u \<Rightarrow>
          map_option (\<lambda>(us, ts). (u # us, thumb_url rn taskID src # ts)) (upload_all rn taskID srcs))"

definition uploadCloudImages :: "image_runner \<Rightarrow> string \<Rightarrow> source_image list \<Rightarrow> run_result \<Rightarrow> run_result option" where
  "uploadCloudImages rn taskID images r =
     (if \<not> rn_uploader rn \<or> images = [] then None
      else map_option (\<lambda>(us, ts). r\<lparr>rs_urls := us, rs_thumbs := ts\<rparr>) (upload_all rn taskID images))"

fun download_from :: "image_runner \<Rightarrow> string list \<Rightarrow> nat \<Rightarrow> string list \<Rightarrow> source_image list option" where
  "download_from rn types idx [] = Some []"
| "download_from rn types idx (u # us) =
     (case rn_download rn u of
        None \<Rightarrow> None
      | Some (data, ct) \<Rightarrow>
          map_option (\<lambda>imgs. \<lparr>si_index = idx, si_name = '''', si_data = data,
              si_type = (if ct = '''' \<and> idx < length types then types ! idx else ct)\<rparr> # imgs)
            (download_from rn types (idx + 1) us))"

definition downloadArchiveImages :: "image_runner \<Rightarrow> run_result \<Rightarrow> source_image list option" where
  "downloadArchiveImages rn r = (if rs_urls r = [] then None else download_from rn (rs_types r) 0 (rs_urls r))"

definition archiveSourceImages :: "image_runner \<Rightarrow> run_result \<Rightarrow> source_image list option" where
  "archiveSourceImages rn r = (if rs_archive r \<noteq> [] then Some (rs_archive r) else downloadArchiveImages rn r)"

text \<open>Whether the archiving succeeded, and the result with the addresses to show.\<close>

definition archiveResultImages :: "image_runner \<Rightarrow> string \<Rightarrow> run_result \<Rightarrow> bool \<times> run_result" where
  "archiveResultImages rn taskID r0 =
     (let r = r0\<lparr>rs_storage := storageMode rn\<rparr> in
      if rs_storage r = StorageModeCloud then
        (case archiveSourceImages rn r of
           None \<Rightarrow> (False, r)
         | Some images \<Rightarrow> (case uploadCloudImages rn taskID images r of None \<Rightarrow> (False, r) | Some r' \<Rightarrow> (True, r')))
      else
        (case rn_files rn of
           None \<Rightarrow> (True, r)
         | Some save \<Rightarrow>
             if taskID = '''' then (True, r)
             else (case archiveSourceImages rn r of
                     None \<Rightarrow> (False, r)
                   | Some images \<Rightarrow> (images \<noteq> [] \<and> save taskID images, r))))"

text \<open>Images of an external channel; \<open>None\<close>: they could not be archived.\<close>

definition ArchiveExternalImages ::
  "image_runner \<Rightarrow> string \<Rightarrow> string list \<Rightarrow> source_image list \<Rightarrow> run_result option" where
  "ArchiveExternalImages rn taskID urls inlineImages =
     (let r = (new_result (storageMode rn))\<lparr>rs_status := StatusSuccess, rs_code := ''''\<rparr> in
      case (if urls = [] then Some [] else downloadArchiveImages rn ((new_result '''')\<lparr>rs_urls := urls\<rparr>)) of
        None \<Rightarrow> None
      | Some downloaded \<Rightarrow>
          let base = length downloaded;
              images = downloaded @ map (\<lambda>(k, src). src\<lparr>si_index := base + k\<rparr>) (List.enumerate 0 inlineImages) in
          if images = [] then None
          else
            let r1 = r\<lparr>rs_archive := images,
                       rs_urls := map (\<lambda>k. if k < length urls then urls ! k else ''inline://image/'' @ dec_nat k) [0..<length images]\<rparr> in
            case archiveResultImages rn taskID r1 of (ok, r2) \<Rightarrow> if ok then Some r2 else None)"

section \<open>One attempt\<close>

record sse_result =
  ss_conv :: string
  ss_files :: "string list"
  ss_sediments :: "string list"

datatype poll_status = PollStatusSuccess | PollStatusTimeout | PollStatusError

record image_conv =
  ic_prompt :: string
  ic_size :: string
  ic_model :: string
  ic_chat_token :: string
  ic_proof :: string
  ic_conduit :: string
  ic_refs :: "string list"

text \<open>What chatgpt.com answers during one attempt.\<close>

record image_upstream =
  iu_new :: "lease \<Rightarrow> up_error option"
  iu_requirements :: "lease \<Rightarrow> up_error + requirements"
  iu_proof :: "requirements \<Rightarrow> string option"
  iu_upload :: "nat \<Rightarrow> ref_image \<Rightarrow> up_error + string"
  iu_prepare :: "image_conv \<Rightarrow> up_error + string"
  iu_stream :: "image_conv \<Rightarrow> up_error + sse_result"
  iu_poll :: "string \<Rightarrow> int \<Rightarrow> int \<Rightarrow> poll_status \<times> string list \<times> string list"
  iu_url :: "string \<Rightarrow> string \<Rightarrow> up_error + string"
  iu_fetch :: "string \<Rightarrow> up_error + (string \<times> string)"

record attempt_env =
  ae_world :: "unit pool_db_scheme sess world"
  ae_dispatch :: int
  ae_mark :: int
  ae_release :: int
  ae_up :: image_upstream

text \<open>The same classification as in the chat endpoint, but the message is cut without a mark.\<close>

definition image_proxy_mark :: "up_error \<Rightarrow> lease \<Rightarrow> unit pool_db_scheme sess \<Rightarrow> lease \<times> unit pool_db_scheme sess" where
  "image_proxy_mark e l s =
     (case e of
        UpstreamError _ _ \<Rightarrow> (l, s)
      | OtherError m \<Rightarrow>
          if ls_proxy_id l = 0 \<or> \<not> isProxyTransportError e then (l, s)
          else (case MarkProxyFailure (truncate_bytes (TrimSpace m) 255) l s of ((_, l'), s') \<Rightarrow> (l', s')))"

definition classifyUpstream :: "up_error \<Rightarrow> string" where
  "classifyUpstream e =
     (case e of
        UpstreamError st _ \<Rightarrow>
          if st = 429 then ''rate_limited'' else if st = 401 \<or> st = 403 then ''auth_required'' else ''upstream_error''
      | OtherError msg \<Rightarrow>
          if Contains msg ''deadline exceeded'' then ''poll_timeout''
          else if Contains msg ''EOF'' \<or> Contains (ToLower msg) ''connection reset'' \<or>
                  Contains (ToLower msg) ''connection refused'' \<or> Contains (ToLower msg) ''broken pipe''
          then ''network_transient''
          else ''upstream_error'')"

definition markAccountFailure :: "image_runner \<Rightarrow> int \<Rightarrow> nat \<Rightarrow> string \<Rightarrow> unit pool_db_scheme sess \<Rightarrow> unit pool_db_scheme sess" where
  "markAccountFailure rn now i code s =
     (if i = 0 then s
      else if code = ''rate_limited'' then MarkRateLimited (rn_sched rn) now i s
      else if code = ''auth_required'' then MarkDead i s
      else s)"

text \<open>The loop strips the scheme prefixes one after another.\<close>

definition strip_scheme :: "string \<Rightarrow> string option" where
  "strip_scheme ref =
     (if HasPrefix ref ''file-service://'' then Some (drop 15 ref)
      else if HasPrefix ref ''sediment://'' then Some (drop 11 ref)
      else if HasPrefix ref ''sed:'' then Some (drop 4 ref)
      else None)"

lemma strip_scheme_shorter: "strip_scheme ref = Some r \<Longrightarrow> length r < length ref"
  by (cases ref) (auto simp: strip_scheme_def HasPrefix_def split: if_splits)

function strip_all :: "string \<Rightarrow> string" where
  "strip_all ref =
     (case strip_scheme ref of None \<Rightarrow> TrimSpace ref | Some r \<Rightarrow> if r = '''' then '''' else strip_all r)"
  by auto

termination strip_all
  by (relation "measure length") (auto intro: strip_scheme_shorter)

declare strip_all.simps [simp del]

definition normalizeImageFileRefID :: "string \<Rightarrow> string" where
  "normalizeImageFileRefID ref = strip_all (TrimSpace ref)"

definition referenceUploadFileIDSet :: "string list \<Rightarrow> string set" where
  "referenceUploadFileIDSet ups = set (filter (\<lambda>i. i \<noteq> '''') (map normalizeImageFileRefID ups))"

definition filterOutReferenceFileIDs :: "string list \<Rightarrow> string set \<Rightarrow> string list" where
  "filterOutReferenceFileIDs fileRefs refSet =
     filter (\<lambda>ref. \<not> (normalizeImageFileRefID ref \<noteq> '''' \<and> normalizeImageFileRefID ref \<in> refSet)) fileRefs"

text \<open>The references polled are added unless they are there already.\<close>

fun add_new :: "string list \<Rightarrow> string list \<Rightarrow> string list" where
  "add_new seen [] = seen"
| "add_new seen (x # xs) = add_new (if x \<in> set seen then seen else seen @ [x]) xs"

text \<open>The parts of an attempt after the account is leased: a code or a value, with the lease and the pool.\<close>

type_synonym 'b leased = "(string + 'b) \<times> lease \<times> unit pool_db_scheme sess"

definition upstream_failed ::
  "image_runner \<Rightarrow> attempt_env \<Rightarrow> up_error \<Rightarrow> lease \<Rightarrow> unit pool_db_scheme sess \<Rightarrow> 'b leased" where
  "upstream_failed rn e err l s =
     (let (l1, s1) = image_proxy_mark err l s; code = classifyUpstream err in
      (Inl code, l1, markAccountFailure rn (ae_mark e) (a_id (ls_account l1)) code s1))"

fun upload_references ::
  "image_runner \<Rightarrow> attempt_env \<Rightarrow> nat \<Rightarrow> ref_image list \<Rightarrow> lease \<Rightarrow> unit pool_db_scheme sess \<Rightarrow> string list leased" where
  "upload_references rn e idx [] l s = (Inr [], l, s)"
| "upload_references rn e idx (r # rs) l s =
     (case iu_upload (ae_up e) idx r of
        Inl err \<Rightarrow>
          (case upstream_failed rn e err l s of (code, l1, s1) \<Rightarrow>
             (Inl (case code of Inl c \<Rightarrow> if c \<in> {''auth_required'', ''rate_limited'', ''network_transient''} then c else ''upstream_error''
                   | Inr (_ :: unit) \<Rightarrow> ''upstream_error''), l1, s1))
      | Inr f \<Rightarrow>
          (case upload_references rn e (idx + 1) rs l s of (out, l1, s1) \<Rightarrow>
             ((case out of Inl c \<Rightarrow> Inl c | Inr fs \<Rightarrow> Inr (f # fs)), l1, s1)))"

text \<open>The addresses of the references: those obtained with their references, and the code of the failures.\<close>

fun sign_refs ::
  "attempt_env \<Rightarrow> string \<Rightarrow> string list \<Rightarrow> string \<Rightarrow> lease \<Rightarrow> unit pool_db_scheme sess \<Rightarrow>
   (string list \<times> string list \<times> string) \<times> lease \<times> unit pool_db_scheme sess" where
  "sign_refs e conv [] code l s = (([], [], code), l, s)"
| "sign_refs e conv (ref # refs) code l s =
     (case iu_url (ae_up e) conv ref of
        Inl err \<Rightarrow>
          (let (l1, s1) = image_proxy_mark err l s; c = classifyUpstream err in
           sign_refs e conv refs (if code = '''' \<or> c \<in> {''auth_required'', ''rate_limited''} then c else code) l1 s1)
      | Inr u \<Rightarrow>
          (case sign_refs e conv refs code l s of ((us, rs, c), l1, s1) \<Rightarrow> ((u # us, ref # rs, c), l1, s1)))"

fun fetch_images ::
  "attempt_env \<Rightarrow> nat \<Rightarrow> string list \<Rightarrow> lease \<Rightarrow> unit pool_db_scheme sess \<Rightarrow> source_image list leased" where
  "fetch_images e idx [] l s = (Inr [], l, s)"
| "fetch_images e idx (u # us) l s =
     (case iu_fetch (ae_up e) u of
        Inl err \<Rightarrow> (case image_proxy_mark err l s of (l1, s1) \<Rightarrow> (Inl ''archive_failed'', l1, s1))
      | Inr (body, ct) \<Rightarrow>
          (case fetch_images e (idx + 1) us l s of (out, l1, s1) \<Rightarrow>
             ((case out of Inl c \<Rightarrow> Inl c
               | Inr imgs \<Rightarrow> Inr (\<lparr>si_index = idx, si_name = '''', si_data = body, si_type = (if ct = '''' then ''image/png'' else ct)\<rparr> # imgs)),
              l1, s1)))"

text \<open>From the references to the images: their addresses and, with a store, their bytes.\<close>

definition collect_images ::
  "image_runner \<Rightarrow> attempt_env \<Rightarrow> string \<Rightarrow> string list \<Rightarrow> run_result \<Rightarrow> lease \<Rightarrow> unit pool_db_scheme sess \<Rightarrow> run_result leased" where
  "collect_images rn e conv fileRefs r l s =
     (if fileRefs = [] then (Inl ''upstream_error'', l, s)
      else
        case sign_refs e conv fileRefs '''' l s of ((urls, refs, code), l1, s1) \<Rightarrow>
          if urls = [] then
            (if code \<in> {''auth_required'', ''rate_limited'', ''network_transient''}
             then (Inl code, l1, markAccountFailure rn (ae_mark e) (a_id (ls_account l1)) code s1)
             else (Inl ''download_failed'', l1, s1))
          else
            (case rn_files rn of
               None \<Rightarrow> (Inr (r\<lparr>rs_files := refs, rs_urls := urls, rs_types := replicate (length urls) ''image/png''\<rparr>), l1, s1)
             | Some _ \<Rightarrow>
                 (case fetch_images e 0 urls l1 s1 of (out, l2, s2) \<Rightarrow>
                    ((case out of Inl c \<Rightarrow> Inl c
                      | Inr imgs \<Rightarrow> Inr (r\<lparr>rs_files := refs, rs_urls := urls, rs_types := map si_type imgs, rs_archive := imgs\<rparr>)), l2, s2))))"

text \<open>The references of the stream without the uploaded ones, completed by polling when they are too few.\<close>

definition gather_refs :: "attempt_env \<Rightarrow> run_options \<Rightarrow> string list \<Rightarrow> string \<Rightarrow> sse_result \<Rightarrow> string + string list" where
  "gather_refs e opt uploads conv sr =
     (let refSet = referenceUploadFileIDSet uploads;
          fileRefs = filterOutReferenceFileIDs (ss_files sr @ map (\<lambda>x. ''sed:'' @ x) (ss_sediments sr)) refSet in
      if int (length fileRefs) \<ge> op_n opt then Inr fileRefs
      else
        case iu_poll (ae_up e) conv (op_n opt) (op_poll_wait opt) of (status, fids, sids) \<Rightarrow>
          (case status of
             PollStatusSuccess \<Rightarrow>
               Inr (filterOutReferenceFileIDs (add_new (add_new fileRefs fids) (map (\<lambda>x. ''sed:'' @ x) sids)) refSet)
           | PollStatusTimeout \<Rightarrow> Inl ''poll_timeout''
           | PollStatusError \<Rightarrow> Inl ''upstream_error''))"

definition image_model :: "run_options \<Rightarrow> requirements \<Rightarrow> string" where
  "image_model opt cr =
     (if op_upstream opt \<noteq> '''' \<and> op_upstream opt \<noteq> ''auto'' \<and> \<not> IsFreeAccount cr then op_upstream opt else ''auto'')"

text \<open>The conversation. A result in progress comes along, because a failure after the stream keeps its conversation.\<close>

definition image_converse ::
  "image_runner \<Rightarrow> attempt_env \<Rightarrow> run_options \<Rightarrow> requirements \<Rightarrow> string \<Rightarrow> string list \<Rightarrow> run_result \<Rightarrow> lease \<Rightarrow>
   unit pool_db_scheme sess \<Rightarrow> run_result \<times> run_result leased" where
  "image_converse rn e opt cr proof_text uploads r l s =
     (let conv_opt = \<lparr>ic_prompt = op_prompt opt, ic_size = op_size opt, ic_model = image_model opt cr, ic_chat_token = cr_token cr,
                      ic_proof = proof_text, ic_conduit = '''', ic_refs = uploads\<rparr>;
          (prep, l1, s1) = (case iu_prepare (ae_up e) conv_opt of
             Inr ct \<Rightarrow> (Inr ct, l, s)
           | Inl err \<Rightarrow>
               (let (l', s') = image_proxy_mark err l s; code = classifyUpstream err in
                if code \<in> {''auth_required'', ''rate_limited''}
                then (Inl code, l', markAccountFailure rn (ae_mark e) (a_id (ls_account l')) code s')
                else (Inr '''', l', s'))) in
      case prep of
        Inl code \<Rightarrow> (r, (Inl code, l1, s1))
      | Inr ct \<Rightarrow>
          (case iu_stream (ae_up e) (conv_opt\<lparr>ic_conduit := ct\<rparr>) of
             Inl err \<Rightarrow> (r, upstream_failed rn e err l1 s1)
           | Inr sr \<Rightarrow>
               (let r1 = (if ss_conv sr \<noteq> '''' then r\<lparr>rs_conv := ss_conv sr\<rparr> else r) in
                (r1, case gather_refs e opt uploads (ss_conv sr) sr of
                       Inl code \<Rightarrow> (Inl code, l1, s1)
                     | Inr fileRefs \<Rightarrow> collect_images rn e (ss_conv sr) fileRefs r1 l1 s1))))"

definition warn_account :: "image_runner \<Rightarrow> attempt_env \<Rightarrow> string \<Rightarrow> lease \<Rightarrow> unit pool_db_scheme sess \<Rightarrow> 'b leased" where
  "warn_account rn e code l s = (Inl code, l, MarkWarned (rn_sched rn) (ae_mark e) (a_id (ls_account l)) s)"

definition prove_work ::
  "image_runner \<Rightarrow> attempt_env \<Rightarrow> requirements \<Rightarrow> lease \<Rightarrow> unit pool_db_scheme sess \<Rightarrow> string leased" where
  "prove_work rn e cr l s =
     (if \<not> cr_pow_required cr then (Inr '''', l, s)
      else case iu_proof (ae_up e) cr of
             None \<Rightarrow> warn_account rn e ''pow_timeout'' l s
           | Some p \<Rightarrow> if p = '''' then warn_account rn e ''pow_failed'' l s else (Inr p, l, s))"

definition with_lease ::
  "image_runner \<Rightarrow> attempt_env \<Rightarrow> run_options \<Rightarrow> run_result \<Rightarrow> lease \<Rightarrow> unit pool_db_scheme sess \<Rightarrow> run_result \<times> run_result leased" where
  "with_lease rn e opt r l s =
     (case iu_new (ae_up e) l of
        Some err \<Rightarrow> (r, case image_proxy_mark err l s of (l1, s1) \<Rightarrow> (Inl ''unknown'', l1, s1))
      | None \<Rightarrow>
          (case iu_requirements (ae_up e) l of
             Inl err \<Rightarrow> (r, upstream_failed rn e err l s)
           | Inr cr \<Rightarrow>
               (case prove_work rn e cr l s of
                  (Inl code, l1, s1) \<Rightarrow> (r, (Inl code, l1, s1))
                | (Inr p, l1, s1) \<Rightarrow>
                    (case upload_references rn e 0 (op_refs opt) l1 s1 of
                       (Inl code, l2, s2) \<Rightarrow> (r, (Inl code, l2, s2))
                     | (Inr uploads, l2, s2) \<Rightarrow> image_converse rn e opt cr p uploads r l2 s2))))"

type_synonym image_st = "task_db sess \<times> unit pool_db_scheme sess"

definition runOnce :: "image_runner \<Rightarrow> attempt_env \<Rightarrow> image_st attempt" where
  "runOnce rn e opt r st =
     (case st of (ts, s) \<Rightarrow>
        case Dispatch (rn_cipher rn) (rn_sched rn) (rn_scan rn) (rn_zone rn) ''image'' (ae_world e) (ae_dispatch e) s of
          (Inl err, _, s1) \<Rightarrow>
            ((False, if err = ErrNoAvailable then ''no_available_account'' else ''unknown'', r), (ts, s1))
        | (Inr l, _, s1) \<Rightarrow>
            let i = a_id (ls_account l); r1 = r\<lparr>rs_account := i\<rparr>;
                ts1 = (if op_task opt \<noteq> '''' then snd (SetAccount (op_task opt) i ts) else ts);
                (r2, out, l1, s2) = with_lease rn e opt r1 l s1;
                s3 = snd (Sched_Release (rn_zone rn) (ae_release e) l1 s2) in
            ((case out of Inl code \<Rightarrow> (False, code, r2) | Inr r3 \<Rightarrow> (True, '''', r3)), (ts1, s3)))"

section \<open>The run\<close>

definition normalizeOptions :: "image_runner \<Rightarrow> run_options \<Rightarrow> run_options" where
  "normalizeOptions rn opt =
     opt\<lparr>op_attempts := (if op_attempts opt \<le> 0 then 1 else op_attempts opt),
         op_timeout := (if op_timeout opt \<le> 0 then 360000 else op_timeout opt),
         op_poll_wait := (if op_poll_wait opt \<le> 0 then (if rn_poll_sec rn \<le> 0 then 120 else rn_poll_sec rn) * 1000 else op_poll_wait opt),
         op_upstream := (if op_upstream opt = '''' then ''auto'' else op_upstream opt),
         op_n := (if op_n opt \<le> 0 then 1 else op_n opt)\<rparr>"

definition archived :: "image_runner \<Rightarrow> run_options \<Rightarrow> run_result \<Rightarrow> run_result" where
  "archived rn opt r =
     (case archiveResultImages rn (op_task opt) r of
        (ok, r') \<Rightarrow> if ok then r' else r'\<lparr>rs_status := StatusFailed, rs_code := ''archive_failed''\<rparr>)"

definition single_run :: "image_runner \<Rightarrow> 'w run_world \<Rightarrow> run_options \<Rightarrow> run_result \<Rightarrow> 'w \<Rightarrow> run_result \<times> 'w" where
  "single_run rn rw opt r w =
     (case runWithRetry (rw_once rw 0 0) (rw_cancelled rw 0 0) opt r w of
        ((ok, r1), w1) \<Rightarrow>
          if \<not> ok then (r1, w1)
          else
            let r2 = trimRunResultImages (op_n opt) r1 in
            if int (runResultImageCount r2) < op_n opt
            then (r2\<lparr>rs_status := StatusFailed, rs_code := ''invalid_response''\<rparr>, w1)
            else
              (case archiveResultImages rn (op_task opt) r2 of
                 (ok', r3) \<Rightarrow>
                   if ok' then (r3\<lparr>rs_quota := [(rs_account r3, quotaImageCount (rs_files r3) (rs_urls r3) (op_n opt))],
                                   rs_status := StatusSuccess, rs_code := ''''\<rparr>, w1)
                   else (r3\<lparr>rs_status := StatusFailed, rs_code := ''archive_failed''\<rparr>, w1)))"

definition parallel_run :: "image_runner \<Rightarrow> 'w run_world \<Rightarrow> run_options \<Rightarrow> run_result \<Rightarrow> 'w \<Rightarrow> run_result \<times> 'w" where
  "parallel_run rn rw opt r w =
     (case runParallel rw (storageMode rn) opt r w of
        (r1, w1) \<Rightarrow> (if rs_status r1 = StatusSuccess then archived rn opt r1 else r1, w1))"

text \<open>The quota used: what the run recorded, or everything on its account.\<close>

definition quota_used :: "run_options \<Rightarrow> run_result \<Rightarrow> (nat \<times> nat) list" where
  "quota_used opt r =
     (if rs_quota r = [] \<and> rs_account r > 0
      then [(rs_account r, quotaImageCount (rs_files r) (rs_urls r) (op_n opt))] else rs_quota r)"

definition decr_quota :: "nat \<times> nat \<Rightarrow> unit pool_db_scheme sess \<Rightarrow> unit pool_db_scheme sess" where
  "decr_quota q s = (if fst q = 0 \<or> snd q = 0 then s else snd (DecrQuota (fst q) (int (snd q)) s))"

definition persist :: "image_runner \<Rightarrow> int \<Rightarrow> run_options \<Rightarrow> run_result \<Rightarrow> image_st \<Rightarrow> image_st" where
  "persist rn now opt r st =
     (if op_task opt = '''' then st
      else case st of (ts, s) \<Rightarrow>
        if rs_status r = StatusSuccess then
          (case MarkSuccess (rn_jn rn) now (op_task opt) (rs_conv r) (rs_files r) (rs_urls r) (rs_thumbs r) (rs_storage r) 0 ts of
             (Inr _, ts1) \<Rightarrow> (ts1, fold decr_quota (quota_used opt r) s)
           | (Inl _, ts1) \<Rightarrow> (ts1, s))
        else (snd (MarkFailed now (op_task opt) (rs_code r) ts), s))"

definition Run :: "image_runner \<Rightarrow> image_st run_world \<Rightarrow> int \<Rightarrow> int \<Rightarrow> run_options \<Rightarrow> image_st \<Rightarrow> run_result \<times> image_st" where
  "Run rn rw start stop opt0 st =
     (let opt = normalizeOptions rn opt0;
          r = new_result (storageMode rn);
          st1 = (if op_task opt \<noteq> '''' then (snd (MarkRunning start (op_task opt) 0 (fst st)), snd st) else st);
          (r1, st2) = (if op_n opt > 1 then parallel_run rn rw opt r st1 else single_run rn rw opt r st1) in
      (r1, persist rn stop opt r1 st2))"

text \<open>The world in which every attempt goes to the upstream.\<close>

definition real_world ::
  "image_runner \<Rightarrow> (nat \<Rightarrow> nat \<Rightarrow> nat \<Rightarrow> attempt_env) \<Rightarrow> (nat \<Rightarrow> nat \<Rightarrow> nat \<Rightarrow> bool) \<Rightarrow> (nat \<Rightarrow> bool) \<Rightarrow> image_st run_world" where
  "real_world rn env cancelled batch_done =
     \<lparr>rw_once = (\<lambda>b g k. runOnce rn (env b g k)), rw_cancelled = cancelled, rw_batch_done = batch_done\<rparr>"

end
