(* ===== verification/Image_Proxy.thy ===== *)
theory Image_Proxy
  imports Image_Tasks Sha256
begin

text \<open>
  Signed addresses of images (internal/imageproxy/imageproxy.go) and the endpoint that serves them
  (internal/gateway/images_proxy.go) through a cache of image bytes (images_proxy_cache.go). The process's secret,
  the stores, the fetching of a cloud image and the tables of media types are arguments; a map is an association
  list, visited in its order.
\<close>

section \<open>Signatures\<close>

text \<open>\<open>crypto/hmac\<close> over SHA-256, with a block of 64 bytes.\<close>

definition hmac_key :: "nat list \<Rightarrow> nat list" where
  "hmac_key k = (let k' = (if length k > 64 then Sum256 k else k) in k' @ replicate (64 - length k') 0)"

definition xor_byte :: "nat \<Rightarrow> nat \<Rightarrow> nat" where
  "xor_byte a b = unat ((of_nat a :: 8 word) XOR of_nat b)"

definition hmac256 :: "nat list \<Rightarrow> nat list \<Rightarrow> nat list" where
  "hmac256 k m =
     Sum256 (map (xor_byte 92) (hmac_key k) @ Sum256 (map (xor_byte 54) (hmac_key k) @ m))"

definition ResourceOriginal :: string where "ResourceOriginal = ''original''"
definition ResourceThumb :: string where "ResourceThumb = ''thumb''"
definition ResourceReference :: string where "ResourceReference = ''reference''"
definition ResourceReferenceThumb :: string where "ResourceReferenceThumb = ''reference_thumb''"

lemmas resource_words = ResourceOriginal_def ResourceThumb_def ResourceReference_def ResourceReferenceThumb_def

definition NormalizeResource :: "string \<Rightarrow> string" where
  "NormalizeResource r =
     (if r = ResourceThumb then ResourceThumb else if r = ResourceReference then ResourceReference
      else if r = ResourceReferenceThumb then ResourceReferenceThumb else ResourceOriginal)"

definition resourcePath :: "string \<Rightarrow> string" where
  "resourcePath r =
     (if NormalizeResource r = ResourceThumb then ''/p/thumb''
      else if NormalizeResource r = ResourceReference then ''/p/ref''
      else if NormalizeResource r = ResourceReferenceThumb then ''/p/ref-thumb''
      else ''/p/img'')"

definition signed_text :: "string \<Rightarrow> int \<Rightarrow> string \<Rightarrow> int \<Rightarrow> string" where
  "signed_text taskID idx res expMs =
     taskID @ ''|'' @ dec_int idx @ ''|'' @ NormalizeResource res @ ''|'' @ dec_int expMs"

definition computeSig :: "nat list \<Rightarrow> string \<Rightarrow> int \<Rightarrow> string \<Rightarrow> int \<Rightarrow> string" where
  "computeSig secret taskID idx res expMs =
     take 24 (EncodeToString (hmac256 secret (map byte_val (signed_text taskID idx res expMs))))"

text \<open>Durations and instants in milliseconds.\<close>

definition DefaultTTL :: int where "DefaultTTL = 24 * 60 * 60 * 1000"

definition expiry :: "int \<Rightarrow> int \<Rightarrow> int" where
  "expiry now ttl = now + (if ttl \<le> 0 then DefaultTTL else ttl)"

definition BuildImageProxyURL :: "nat list \<Rightarrow> int \<Rightarrow> string \<Rightarrow> int \<Rightarrow> string \<Rightarrow> int \<Rightarrow> string" where
  "BuildImageProxyURL secret now taskID idx res ttl =
     resourcePath res @ ''/'' @ taskID @ ''/'' @ dec_int idx @ ''?exp='' @ dec_int (expiry now ttl) @
     ''&sig='' @ computeSig secret taskID idx res (expiry now ttl)"

definition Verify_image :: "nat list \<Rightarrow> int \<Rightarrow> string \<Rightarrow> int \<Rightarrow> string \<Rightarrow> int \<Rightarrow> string \<Rightarrow> bool" where
  "Verify_image secret now taskID idx res expMs sig \<longleftrightarrow>
     \<not> expMs < now \<and> sig = computeSig secret taskID idx res expMs"

section \<open>The cache\<close>

record cached_image =
  ci_body :: string
  ci_type :: string
  ci_expires :: int
  ci_stored :: int

record image_cache =
  ic_ttl :: int
  ic_max :: nat
  ic_items :: "(string \<times> cached_image) list"

definition newImageProxyCache :: "int \<Rightarrow> int \<Rightarrow> image_cache" where
  "newImageProxyCache ttl maxEntries =
     \<lparr>ic_ttl = (if ttl \<le> 0 then 30 * 60 * 1000 else ttl), ic_max = nat (if maxEntries \<le> 0 then 64 else maxEntries), ic_items = []\<rparr>"

definition cache_get :: "int \<Rightarrow> string \<Rightarrow> image_cache \<Rightarrow> (string \<times> string) option \<times> image_cache" where
  "cache_get now key c =
     (case map_of (ic_items c) key of
        None \<Rightarrow> (None, c)
      | Some item \<Rightarrow>
          if \<not> ci_expires item > now then (None, c\<lparr>ic_items := filter (\<lambda>(k, _). k \<noteq> key) (ic_items c)\<rparr>)
          else (Some (ci_body item, ci_type item), c))"

text \<open>The entry stored first; of several, the first visited.\<close>

fun oldest :: "(string \<times> cached_image) list \<Rightarrow> string \<times> int \<Rightarrow> string \<times> int" where
  "oldest [] best = best"
| "oldest ((k, item) # items) (key, stored) =
     oldest items (if key = '''' \<or> ci_stored item < stored then (k, ci_stored item) else (key, stored))"

lemma oldest_in: "fst (oldest items best) \<in> insert (fst best) (fst ` set items)"
  by (induction items best rule: oldest.induct) (auto split: if_splits)

lemma length_without:
  assumes "k \<in> fst ` set items"
  shows "length (filter (\<lambda>(j, _). j \<noteq> k) items) < length items"
proof -
  obtain i where "(k, i) \<in> set items" using assms by auto
  then show ?thesis by (rule length_filter_less) simp
qed

function evict_over :: "nat \<Rightarrow> (string \<times> cached_image) list \<Rightarrow> (string \<times> cached_image) list" where
  "evict_over mx items =
     (if length items \<le> mx then items
      else
        let key = fst (oldest items ('''', 0)) in
        if key = '''' then items else evict_over mx (filter (\<lambda>(k, _). k \<noteq> key) items))"
  by auto

termination evict_over
proof (relation "measure (\<lambda>(mx, items). length items)", goal_cases)
  case (2 mx items key)
  then have "key \<in> fst ` set items" using oldest_in [of items "('''', 0)"] by simp
  then show ?case by (simp add: length_without)
qed simp

declare evict_over.simps [simp del]

definition evictLocked :: "int \<Rightarrow> image_cache \<Rightarrow> image_cache" where
  "evictLocked now c = c\<lparr>ic_items := evict_over (ic_max c) (filter (\<lambda>(_, i). ci_expires i > now) (ic_items c))\<rparr>"

definition cache_set :: "int \<Rightarrow> string \<Rightarrow> string \<Rightarrow> string \<Rightarrow> image_cache \<Rightarrow> image_cache" where
  "cache_set now key body ct c =
     evictLocked now
       (c\<lparr>ic_items := (key, \<lparr>ci_body = body, ci_type = ct, ci_expires = now + ic_ttl c, ci_stored = now\<rparr>) #
                      filter (\<lambda>(k, _). k \<noteq> key) (ic_items c)\<rparr>)"

section \<open>The endpoint\<close>

text \<open>
  The stores and the network: reading a task's image of a kind from the local store (\<open>None\<close>: no store; an error,
  absent, or its bytes), fetching a cloud image (an error, or its status, bytes up to the limit and type), the type
  of bytes by their content, the extension of a media type.
\<close>

record image_files =
  if_local :: "(string \<Rightarrow> string \<Rightarrow> nat \<Rightarrow> unit + (string \<times> string) option) option"
  if_fetch :: "string \<Rightarrow> (int \<times> string \<times> string) option"
  if_detect :: "string \<Rightarrow> string"
  if_extension :: "string \<Rightarrow> string option"

definition max_cloud_image :: nat where "max_cloud_image = 16 * 1024 * 1024"

definition readLocalProxyImage :: "image_files \<Rightarrow> task \<Rightarrow> nat \<Rightarrow> string \<Rightarrow> unit + (string \<times> string) option" where
  "readLocalProxyImage f t idx res =
     (case if_local f of None \<Rightarrow> Inr None | Some rd \<Rightarrow> rd (NormalizeResource res) (it_task t) idx)"

definition readCloudProxyImage :: "image_files \<Rightarrow> task \<Rightarrow> nat \<Rightarrow> string \<Rightarrow> unit + (string \<times> string) option" where
  "readCloudProxyImage f t idx res =
     (let r = NormalizeResource res in
      if r \<noteq> ResourceReference \<and> r \<noteq> ResourceOriginal then Inr None
      else
        let urls = (if r = ResourceReference then DecodeReferenceURLs t else DecodeResultURLs t) in
        if idx \<ge> length urls then Inr None
        else if TrimSpace (urls ! idx) = '''' then Inr None
        else case if_fetch f (TrimSpace (urls ! idx)) of
               None \<Rightarrow> Inl ()
             | Some (st, body, ct0) \<Rightarrow>
                 if st \<ge> 400 then Inl ()
                 else if length body > max_cloud_image then Inl ()
                 else let ct = TrimSpace ct0 in Inr (Some (body, if ct = '''' \<and> body \<noteq> '''' then if_detect f body else ct)))"

definition cache_key :: "string \<Rightarrow> nat \<Rightarrow> string \<Rightarrow> string" where
  "cache_key taskID idx res = taskID @ '':'' @ dec_int (int idx) @ '':'' @ NormalizeResource res"

datatype load_error = NotFound | LoadFailed

definition loadProxyImage ::
  "image_files \<Rightarrow> int \<Rightarrow> int \<Rightarrow> task \<Rightarrow> nat \<Rightarrow> string \<Rightarrow> image_cache \<Rightarrow> (load_error + (string \<times> string)) \<times> image_cache" where
  "loadProxyImage f now1 now2 t idx res c =
     (let key = cache_key (it_task t) idx res in
      case cache_get now1 key c of
        (Some hit, c1) \<Rightarrow> (Inr hit, c1)
      | (None, c1) \<Rightarrow>
          (let found = (case readLocalProxyImage f t idx res of
              Inl _ \<Rightarrow> Inl LoadFailed
            | Inr (Some x) \<Rightarrow> Inr x
            | Inr None \<Rightarrow>
                if NormalizeStorageMode (it_storage t) \<noteq> StorageModeCloud then Inl NotFound
                else (case readCloudProxyImage f t idx res of Inl _ \<Rightarrow> Inl LoadFailed | Inr None \<Rightarrow> Inl NotFound | Inr (Some x) \<Rightarrow> Inr x)) in
           case found of Inl err \<Rightarrow> (Inl err, c1) | Inr (body, ct) \<Rightarrow> (Inr (body, ct), cache_set now2 key body ct c1)))"

definition buildDownloadFileName :: "image_files \<Rightarrow> string \<Rightarrow> nat \<Rightarrow> string \<Rightarrow> string" where
  "buildDownloadFileName f taskID idx ct =
     (let mediaType = TrimSpace (hd (split_on (CHR '';'') ct));
          ext = (if mediaType = '''' then ''png'' else case if_extension f mediaType of None \<Rightarrow> ''png'' | Some x \<Rightarrow> x) in
      taskID @ ''-'' @ dec_int (int idx + 1) @ ''.'' @ ext)"

datatype proxy_reply =
    P_status int
  | P_image string string string

record proxy_request =
  px_task :: string
  px_idx :: string
  px_exp :: string
  px_sig :: string
  px_download :: bool

text \<open>\<open>writeImageResponse\<close>: the disposition, the type, the bytes.\<close>

definition writeImageResponse :: "image_files \<Rightarrow> string \<Rightarrow> string \<Rightarrow> string \<Rightarrow> bool \<Rightarrow> proxy_reply" where
  "writeImageResponse f ct0 fileName body download =
     (let ct1 = TrimSpace ct0;
          ct2 = (if ct1 = '''' \<and> body \<noteq> '''' then if_detect f body else ct1);
          ct = (if ct2 = '''' then ''image/png'' else ct2);
          disp = (if \<not> download then ''inline'' else if fileName = '''' then ''attachment''
                  else ''attachment; filename='' @ [CHR 34] @ fileName @ [CHR 34]) in
      P_image disp ct body)"

text \<open>Three clock readings: the verification, the cache's lookup and store.\<close>

definition serveProxyImage ::
  "nat list \<Rightarrow> image_files \<Rightarrow> int \<Rightarrow> int \<Rightarrow> int \<Rightarrow> string \<Rightarrow> proxy_request \<Rightarrow> task_db sess \<Rightarrow> image_cache \<Rightarrow>
   proxy_reply \<times> task_db sess \<times> image_cache" where
  "serveProxyImage secret f now now1 now2 res0 q ts c =
     (if px_task q = '''' \<or> px_idx q = '''' \<or> px_exp q = '''' \<or> px_sig q = '''' then (P_status 400, ts, c)
      else case Atoi (px_idx q) of
        None \<Rightarrow> (P_status 400, ts, c)
      | Some idx \<Rightarrow>
          if idx < 0 \<or> idx > 64 then (P_status 400, ts, c)
          else case Atoi (px_exp q) of
            None \<Rightarrow> (P_status 400, ts, c)
          | Some expMs \<Rightarrow>
              let res = NormalizeResource res0 in
              if \<not> Verify_image secret now (px_task q) idx res expMs (px_sig q) then (P_status 403, ts, c)
              else case Task_Get (px_task q) ts of
                (Inl _, ts1) \<Rightarrow> (P_status 404, ts1, c)
              | (Inr t, ts1) \<Rightarrow>
                  (case loadProxyImage f now1 now2 t (nat idx) res c of
                     (Inl NotFound, c1) \<Rightarrow> (P_status 404, ts1, c1)
                   | (Inl LoadFailed, c1) \<Rightarrow> (P_status 502, ts1, c1)
                   | (Inr (body, ct0), c1) \<Rightarrow>
                       let ct = (if ct0 = '''' then ''image/png'' else ct0) in
                       (writeImageResponse f ct (if px_download q then buildDownloadFileName f (px_task q) (nat idx) ct else '''') body (px_download q),
                        ts1, c1)))"

end
