(* ===== verification/Image_Requests.thy ===== *)
theory Image_Requests
  imports Image_Runner Image_Proxy Crypto_Box
begin

text \<open>
  What the image endpoints (internal/gateway/images.go, image_channel.go) compute from a request and from an answer:
  the number of images and the size, the prompt, the reference images, the answer of a channel and the data of
  the response. Decoding an image's header, converting HEIC and fetching an address are arguments.
\<close>

section \<open>Count, size, prompt\<close>

definition normalizeImageCountByModel :: "model_row \<Rightarrow> int \<Rightarrow> int" where
  "normalizeImageCountByModel m n0 =
     (let n1 = (if n0 \<le> 0 then 1 else n0); n2 = (if n1 > 4 then 4 else n1) in
      if \<not> m_multi_image m then 1 else n2)"

definition normalizeImageSize :: "string \<Rightarrow> string" where
  "normalizeImageSize sz = (if sz = '''' then ''1024x1024'' else sz)"

definition normalizeImageRequestByModel :: "model_row \<Rightarrow> int \<Rightarrow> string \<Rightarrow> int \<times> string" where
  "normalizeImageRequestByModel m n sz =
     (normalizeImageCountByModel m n, if \<not> m_output_size m then '''' else normalizeImageSize sz)"

definition normalizeLocalImageRequestByModel :: "model_row \<Rightarrow> int \<Rightarrow> string \<Rightarrow> int \<times> string" where
  "normalizeLocalImageRequestByModel m n sz = (normalizeImageCountByModel m n, normalizeImageSize sz)"

text \<open>Go's remainder has the sign of the dividend.\<close>

definition go_rem :: "int \<Rightarrow> int \<Rightarrow> int" where
  "go_rem a b = a - b * go_div a b"

lemma go_rem_eq: "b \<noteq> 0 \<Longrightarrow> go_rem a b = sgn a * (\<bar>a\<bar> mod \<bar>b\<bar>)"
  by (simp add: go_rem_def go_div_def minus_mult_div_eq_mod [symmetric] sgn_if abs_if algebra_simps)

lemma go_rem_less: "b \<noteq> 0 \<Longrightarrow> \<bar>go_rem a b\<bar> < \<bar>b\<bar>"
  by (simp add: go_rem_eq abs_mult sgn_if)

function gcd_loop :: "int \<Rightarrow> int \<Rightarrow> int" where
  "gcd_loop a b = (if b = 0 then a else gcd_loop b (go_rem a b))"
  by auto

termination gcd_loop
  by (relation "measure (\<lambda>(a, b). nat \<bar>b\<bar>)") (auto dest: go_rem_less)

declare gcd_loop.simps [simp del]

definition gcdInt :: "int \<Rightarrow> int \<Rightarrow> int" where
  "gcdInt a b = \<bar>gcd_loop a b\<bar>"

definition canonicalImageAspectRatios :: "(int \<times> int) list" where
  "canonicalImageAspectRatios =
     [(1, 1), (5, 4), (9, 16), (16, 9), (4, 3), (3, 2), (4, 5), (3, 4), (2, 3), (21, 9)]"

definition ratio_text :: "int \<times> int \<Rightarrow> string" where
  "ratio_text r = dec_int (fst r) @ '':'' @ dec_int (snd r)"

definition aspectRatioFromImageSize :: "string \<Rightarrow> string" where
  "aspectRatioFromImageSize sz =
     (case split_on CHR ''x'' (TrimSpace (ToLower sz)) of
        [a, b] \<Rightarrow>
          (case (Atoi (TrimSpace a), Atoi (TrimSpace b)) of
             (Some w, Some h) \<Rightarrow>
               if w \<le> 0 \<or> h \<le> 0 then ''''
               else (case find (\<lambda>(rw, rh). wrap64 (w * rh) = wrap64 (h * rw)) canonicalImageAspectRatios of
                       Some r \<Rightarrow> ratio_text r
                     | None \<Rightarrow> if gcdInt w h \<le> 0 then '''' else ratio_text (go_div w (gcdInt w h), go_div h (gcdInt w h)))
           | _ \<Rightarrow> '''')
      | _ \<Rightarrow> '''')"

text \<open>
  The pattern of an aspect-ratio prefix, piece by piece: its classes are disjoint from what follows them, so the
  greedy match is the only one. Without regard to case, \<open>k\<close> also stands for the Kelvin sign and \<open>s\<close> for the long s.
\<close>

definition re_space :: "char \<Rightarrow> bool" where
  "re_space c \<longleftrightarrow> byte_val c \<in> {9, 10, 12, 13, 32}"

definition eat_char :: "char \<Rightarrow> string \<Rightarrow> string option" where
  "eat_char c s =
     (if s \<noteq> '''' \<and> lower_char (hd s) = c then Some (tl s)
      else if c = CHR ''k'' \<and> HasPrefix s (utf [226, 132, 170]) then Some (drop 3 s)
      else if c = CHR ''s'' \<and> HasPrefix s (utf [197, 191]) then Some (drop 2 s)
      else None)"

fun eat_word :: "string \<Rightarrow> string \<Rightarrow> string option" where
  "eat_word [] s = Some s"
| "eat_word (c # cs) s = (case eat_char c s of None \<Rightarrow> None | Some s' \<Rightarrow> eat_word cs s')"

definition eat_some :: "(char \<Rightarrow> bool) \<Rightarrow> string \<Rightarrow> string option" where
  "eat_some P s = (if s \<noteq> '''' \<and> P (hd s) then Some (dropWhile P s) else None)"

definition eat_any :: "(char \<Rightarrow> bool) \<Rightarrow> string \<Rightarrow> string option" where
  "eat_any P s = Some (dropWhile P s)"

definition ratio_prefix :: "string \<Rightarrow> string option" where
  "ratio_prefix s =
     fold (\<lambda>eat r. Option.bind r eat)
       [eat_any re_space, eat_word ''make'', eat_some re_space, eat_word ''the'', eat_some re_space, eat_word ''aspect'',
        eat_some re_space, eat_word ''ratio'', eat_some re_space, eat_some is_digit, eat_any re_space, eat_word '':'',
        eat_any re_space, eat_some is_digit, eat_any re_space, eat_word '','', eat_any re_space] (Some s)"

definition applyImageSizeRatioPrefix :: "string \<Rightarrow> string \<Rightarrow> string" where
  "applyImageSizeRatioPrefix prompt sz =
     (let ratio = aspectRatioFromImageSize sz in
      if ratio = '''' then prompt
      else
        let body = (case ratio_prefix prompt of None \<Rightarrow> prompt | Some rest \<Rightarrow> rest) in
        ''Make the aspect ratio '' @ ratio @ '' , '' @ TrimSpace body)"

text \<open>The hint words for text in an image (the Chinese ones in UTF-8).\<close>

definition textHintKeywords :: "string list" where
  "textHintKeywords =
     map utf
       [[230, 150, 135, 229, 173, 151],
        [229, 175, 185, 232, 175, 157],
        [229, 143, 176, 232, 175, 141],
        [230, 151, 129, 231, 153, 189],
        [230, 160, 135, 232, 175, 173],
        [229, 173, 151, 229, 185, 149],
        [230, 160, 135, 233, 162, 152],
        [230, 150, 135, 230, 161, 136],
        [230, 139, 155, 231, 137, 140],
        [230, 168, 170, 229, 185, 133],
        [230, 181, 183, 230, 138, 165, 230, 150, 135, 229, 173, 151],
        [229, 188, 185, 229, 185, 149],
        [230, 176, 148, 230, 179, 161],
        [229, 173, 151, 228, 189, 147]] @
     [''text:'', ''caption'', ''subtitle'', ''title:'', ''label'', ''banner'', ''poster text'']"

definition quote_pairs :: "(string \<times> string) list" where
  "quote_pairs =
     [([CHR 34], [CHR 34]), ([CHR 39], [CHR 39]),
      (utf [226, 128, 156], utf [226, 128, 157]),
      (utf [226, 128, 152], utf [226, 128, 153]),
      (utf [227, 128, 140], utf [227, 128, 141]),
      (utf [227, 128, 142], utf [227, 128, 143])]"

definition claritySuffix :: string where
  "claritySuffix = [CHR 10, CHR 10] @ ''clean readable Chinese text, prioritize text clarity over image details''"

definition quotes_text :: "string \<Rightarrow> string \<times> string \<Rightarrow> bool" where
  "quotes_text prompt pr =
     (case Index prompt (fst pr) of
        None \<Rightarrow> False
      | Some i \<Rightarrow> (case Index (drop (i + length (fst pr)) prompt) (snd pr) of None \<Rightarrow> False | Some e \<Rightarrow> e \<ge> 2))"

definition maybeAppendClaritySuffix :: "string \<Rightarrow> string" where
  "maybeAppendClaritySuffix prompt =
     (let need = list_ex (\<lambda>kw. Contains (ToLower prompt) (ToLower kw)) textHintKeywords \<or> list_ex (quotes_text prompt) quote_pairs in
      if need \<and> \<not> Contains prompt (TrimSpace claritySuffix) then prompt @ claritySuffix else prompt)"

definition extractLastUserPrompt :: "chat_message list \<Rightarrow> string" where
  "extractLastUserPrompt msgs =
     (case find (\<lambda>m. msg_role m = ''user'' \<and> TrimSpace (msg_content m) \<noteq> '''') (rev msgs) of
        None \<Rightarrow> '''' | Some m \<Rightarrow> msg_content m)"

section \<open>Reference images\<close>

definition maxReferenceImageBytes :: nat where "maxReferenceImageBytes = 20 * 1024 * 1024"
definition maxReferenceImages :: nat where "maxReferenceImages = 4"

text \<open>
  The format and positive dimensions of an image (\<open>image.DecodeConfig\<close> with the registered decoders), the HEIC
  converter (\<open>heif-convert\<close>), and the fetching of an address: status, at most one byte more than the limit, the last
  element of the path, the declared type.
\<close>

record image_codecs =
  cd_format :: "string \<Rightarrow> string option"
  cd_heic :: "string \<Rightarrow> string option"
  cd_fetch :: "string \<Rightarrow> (int \<times> string \<times> string \<times> string) option"

definition normalizeReferenceImageContentType :: "image_codecs \<Rightarrow> string \<Rightarrow> string option" where
  "normalizeReferenceImageContentType cd data =
     (case cd_format cd data of
        None \<Rightarrow> None
      | Some f \<Rightarrow>
          let k = ToLower (TrimSpace f) in
          if k = ''png'' then Some ''image/png'' else if k = ''jpeg'' then Some ''image/jpeg''
          else if k = ''webp'' then Some ''image/webp'' else None)"

definition isHEIFBrand :: "string \<Rightarrow> bool" where
  "isHEIFBrand b \<longleftrightarrow>
     ToLower (TrimSpace b) \<in> {''heic'', ''heix'', ''hevc'', ''hevx'', ''heim'', ''heis'', ''hevm'', ''hevs'', ''mif1'', ''msf1''}"

definition box_size :: "string \<Rightarrow> nat" where
  "box_size data = fold (\<lambda>c n. n * 256 + byte_val c) (take 4 data) 0"

text \<open>The brands stand in steps of four bytes from the eighth on, within the box.\<close>

definition hasHEIFFileTypeBox :: "string \<Rightarrow> bool" where
  "hasHEIFFileTypeBox data \<longleftrightarrow>
     length data \<ge> 16 \<and> take 4 (drop 4 data) = ''ftyp'' \<and>
     (let n = (if box_size data = 0 \<or> box_size data > length data then length data else box_size data) in
      list_ex (\<lambda>k. isHEIFBrand (take 4 (drop (8 + 4 * k) data))) [0..<(n - 8) div 4])"

text \<open>\<open>filepath.Base\<close> and \<open>filepath.Ext\<close> on Unix.\<close>

definition path_base :: "string \<Rightarrow> string" where
  "path_base p =
     (if p = '''' then ''.''
      else
        let q = rev (dropWhile (\<lambda>c. c = CHR ''/'') (rev p)) in
        if q = '''' then ''/'' else last (split_on CHR ''/'' q))"

definition path_ext :: "string \<Rightarrow> string" where
  "path_ext p =
     (let r = takeWhile (\<lambda>c. c \<noteq> CHR ''.'' \<and> c \<noteq> CHR ''/'') (rev p) in
      if length r < length p \<and> rev p ! length r = CHR ''.'' then CHR ''.'' # rev r else '''')"

definition isHEICReferenceImage :: "string \<Rightarrow> string \<Rightarrow> string \<Rightarrow> bool" where
  "isHEICReferenceImage data declared fileName \<longleftrightarrow>
     hasHEIFFileTypeBox data \<or> ToLower (TrimSpace declared) \<in> {''image/heic'', ''image/heif''} \<or>
     ToLower (path_ext (TrimSpace fileName)) \<in> {''.heic'', ''.heif''}"

definition normalizeConvertedReferenceImageName :: "string \<Rightarrow> string \<Rightarrow> string" where
  "normalizeConvertedReferenceImageName fileName ext0 =
     (let ext = (if TrimSpace ext0 = '''' then ''.jpg'' else TrimSpace ext0);
          base = TrimSpace (path_base fileName) in
      if base = '''' \<or> base = ''.'' then ''reference'' @ ext
      else
        let name = TrimSpace (take (length base - length (path_ext base)) base) in
        (if name = '''' \<or> name = ''.'' then ''reference'' else name) @ ext)"

definition normalizeReferenceImageInput :: "image_codecs \<Rightarrow> string \<Rightarrow> string \<Rightarrow> string \<Rightarrow> ref_image option" where
  "normalizeReferenceImageInput cd data fileName declared =
     (let baseName = TrimSpace (path_base fileName) in
      case normalizeReferenceImageContentType cd data of
        Some ct \<Rightarrow> Some \<lparr>ri_data = data, ri_name = baseName, ri_type = ct\<rparr>
      | None \<Rightarrow>
          if \<not> isHEICReferenceImage data declared baseName then None
          else (case cd_heic cd data of
                  None \<Rightarrow> None
                | Some conv \<Rightarrow>
                    if conv = '''' \<or> length conv > maxReferenceImageBytes then None
                    else (case normalizeReferenceImageContentType cd conv of
                            None \<Rightarrow> None
                          | Some ct \<Rightarrow> Some \<lparr>ri_data = conv, ri_name = normalizeConvertedReferenceImageName baseName ''.jpg'', ri_type = ct\<rparr>)))"

definition b64_bytes :: "string \<Rightarrow> string option" where
  "b64_bytes s =
     (case b64_decode std_alphabet True s of
        Some bs \<Rightarrow> Some (map char_of bs)
      | None \<Rightarrow> map_option (map char_of) (b64_decode url_alphabet True s))"

text \<open>The bytes, name and declared type of a data address, a fetched address, or plain base64.\<close>

definition fetchReferenceBytes :: "image_codecs \<Rightarrow> string \<Rightarrow> (string \<times> string \<times> string) option" where
  "fetchReferenceBytes cd s =
     (let low = ToLower s in
      if HasPrefix low ''data:'' then
        (case Index s '','' of
           None \<Rightarrow> None
         | Some comma \<Rightarrow>
             let meta = drop 5 (take comma s); payload = drop (comma + 1) s;
                 ct = TrimSpace (hd (split_on CHR '';'' meta)) in
             if Contains (ToLower meta) '';base64'' then map_option (\<lambda>b. (b, '''', ct)) (b64_bytes payload)
             else Some (payload, '''', ct))
      else if HasPrefix low ''http://'' \<or> HasPrefix low ''https://'' then
        (case cd_fetch cd s of
           None \<Rightarrow> None
         | Some (st, body, name, ct) \<Rightarrow> if st \<ge> 400 then None else Some (body, name, ct))
      else map_option (\<lambda>b. (b, '''', '''')) (b64_bytes s))"

definition decode_reference :: "image_codecs \<Rightarrow> string \<Rightarrow> ref_image option" where
  "decode_reference cd s0 =
     (let s = TrimSpace s0 in
      if s = '''' then None
      else case fetchReferenceBytes cd s of
             None \<Rightarrow> None
           | Some (data, name, ct) \<Rightarrow>
               if data = '''' \<or> length data > maxReferenceImageBytes then None
               else normalizeReferenceImageInput cd data name ct)"

definition decodeReferenceInputs :: "image_codecs \<Rightarrow> string list \<Rightarrow> ref_image list option" where
  "decodeReferenceInputs cd inputs =
     (if length inputs > maxReferenceImages then None else those (map (decode_reference cd) inputs))"

definition referenceSourceImages :: "ref_image list \<Rightarrow> source_image list" where
  "referenceSourceImages refs =
     map (\<lambda>(i, ref). \<lparr>si_index = i, si_name = ri_name ref, si_data = ri_data ref, si_type = ri_type ref\<rparr>) (enumerate 0 refs)"

section \<open>A channel's answer\<close>

record ad_image_result =
  ad_urls :: "string list"
  ad_b64s :: "string list"

definition actualCount :: "ad_image_result \<Rightarrow> nat" where
  "actualCount r = length (ad_urls r) + length (ad_b64s r)"

definition trimAdapterImageResult :: "ad_image_result \<Rightarrow> nat \<Rightarrow> ad_image_result" where
  "trimAdapterImageResult r mx =
     (if mx = 0 then r
      else if length (ad_urls r) \<ge> mx then \<lparr>ad_urls = take mx (ad_urls r), ad_b64s = []\<rparr>
      else \<lparr>ad_urls = ad_urls r, ad_b64s = take (mx - length (ad_urls r)) (ad_b64s r)\<rparr>)"

definition appendAdapterImageResult :: "ad_image_result \<Rightarrow> ad_image_result \<Rightarrow> ad_image_result" where
  "appendAdapterImageResult dst src = \<lparr>ad_urls = ad_urls dst @ ad_urls src, ad_b64s = ad_b64s dst @ ad_b64s src\<rparr>"

record image_request =
  iq_model :: string
  iq_prompt :: string
  iq_n :: int
  iq_size :: string
  iq_format :: string
  iq_references :: "string list"

datatype ad_error = ReferencesUnsupported | AdapterError string

definition error_text :: "ad_error \<Rightarrow> string" where
  "error_text e = (case e of ReferencesUnsupported \<Rightarrow> ''adapter: image references unsupported'' | AdapterError m \<Rightarrow> m)"

definition expectedImageCount :: "image_request \<Rightarrow> nat" where
  "expectedImageCount q = (if iq_n q \<le> 0 then 1 else nat (iq_n q))"

definition mismatch :: "nat \<Rightarrow> nat \<Rightarrow> ad_error" where
  "mismatch expected got =
     AdapterError (''image response count mismatch: requested '' @ dec_nat expected @ '' images, got '' @ dec_nat got)"

text \<open>\<open>gen\<close> is the adapter's call, by the number of the attempt.\<close>

primrec generate_from ::
  "nat \<Rightarrow> (nat \<Rightarrow> image_request \<Rightarrow> ad_error + ad_image_result) \<Rightarrow> nat \<Rightarrow> image_request \<Rightarrow> nat \<Rightarrow> ad_image_result \<Rightarrow> ad_error \<Rightarrow>
   ad_error + ad_image_result" where
  "generate_from 0 gen expected q attempt combined lastErr =
     (if actualCount combined > 0 then Inl (mismatch expected (actualCount combined)) else Inl lastErr)"
| "generate_from (Suc k) gen expected q attempt combined lastErr =
     (if expected \<le> actualCount combined then Inr (trimAdapterImageResult combined expected)
      else
        let remaining = expected - actualCount combined in
        case gen attempt (q\<lparr>iq_n := int remaining\<rparr>) of
          Inr r \<Rightarrow>
            if actualCount r > 0 then
              (let combined' = appendAdapterImageResult combined (trimAdapterImageResult r remaining) in
               if actualCount combined' \<ge> expected then Inr (trimAdapterImageResult combined' expected)
               else generate_from k gen expected q (attempt + 1) combined' (mismatch expected (actualCount combined')))
            else generate_from k gen expected q (attempt + 1) combined (AdapterError ''empty image response'')
        | Inl err \<Rightarrow>
            if err = ReferencesUnsupported then Inl err
            else generate_from k gen expected q (attempt + 1) combined err)"

definition imageGenerateWithRetry ::
  "(nat \<Rightarrow> image_request \<Rightarrow> ad_error + ad_image_result) \<Rightarrow> image_request \<Rightarrow> ad_error + ad_image_result" where
  "imageGenerateWithRetry gen q =
     (let expected = expectedImageCount q in
      generate_from (max expected 2) gen expected q 1 \<lparr>ad_urls = [], ad_b64s = []\<rparr> (AdapterError ''''))"

fun pickImageRoute ::
  "(route \<Rightarrow> nat \<Rightarrow> image_request \<Rightarrow> ad_error + ad_image_result) \<Rightarrow> image_request \<Rightarrow> route list \<Rightarrow>
   (route \<times> ad_image_result) option \<times> (route \<times> ad_error) list" where
  "pickImageRoute gen q [] = (None, [])"
| "pickImageRoute gen q (rt # rts) =
     (case imageGenerateWithRetry (gen rt) q of
        Inr r \<Rightarrow> (Some (rt, r), [])
      | Inl e \<Rightarrow> (case pickImageRoute gen q rts of (sel, fails) \<Rightarrow> (sel, (rt, e) # fails)))"

definition decode_inline :: "nat \<Rightarrow> string \<Rightarrow> source_image option" where
  "decode_inline idx raw =
     (let payload0 = TrimSpace raw;
          (ct, payload) =
            (case Index payload0 '','' of
               None \<Rightarrow> (''image/png'', payload0)
             | Some k \<Rightarrow>
                 let before = take k payload0; after = drop (k + 1) payload0 in
                 if \<not> HasPrefix (ToLower before) ''data:'' then (''image/png'', payload0)
                 else
                   let meta = (if HasPrefix before ''data:'' then drop 5 before else before) in
                   case Index meta '';'' of
                     None \<Rightarrow> (''image/png'', after)
                   | Some j \<Rightarrow> (if TrimSpace (take j meta) \<noteq> '''' then TrimSpace (take j meta) else ''image/png'', after)) in
      map_option (\<lambda>bs. \<lparr>si_index = idx, si_name = '''', si_data = map char_of bs, si_type = ct\<rparr>) (b64_decode std_alphabet True payload))"

definition decodeChannelInlineImages :: "string list \<Rightarrow> nat \<Rightarrow> source_image list option" where
  "decodeChannelInlineImages b64s startIndex = those (map (\<lambda>(i, raw). decode_inline (startIndex + i) raw) (enumerate 0 b64s))"

text \<open>Which adapters take references: the OpenAI ones whose address ends in \<open>/responses\<close>; \<open>upath\<close> is the path of a parsed URL.\<close>

definition endpointPath :: "(string \<Rightarrow> string option) \<Rightarrow> string \<Rightarrow> string" where
  "endpointPath upath base =
     (let trim = (\<lambda>s. ToLower (rev (dropWhile (\<lambda>c. c = CHR ''/'') (rev s)))) in
      case upath base of Some p \<Rightarrow> if p \<noteq> '''' then trim p else trim base | None \<Rightarrow> trim base)"

definition SupportsImageReferences :: "(string \<Rightarrow> string option) \<Rightarrow> adapter \<Rightarrow> bool" where
  "SupportsImageReferences upath a =
     (case a of OpenAI_Adapter p \<Rightarrow> HasSuffix (endpointPath upath (ap_base_url p)) ''/responses'' | Gemini_Adapter _ \<Rightarrow> False)"

definition filterReferenceCapableImageRoutes :: "(string \<Rightarrow> string option) \<Rightarrow> route list \<Rightarrow> route list" where
  "filterReferenceCapableImageRoutes upath rts = filter (\<lambda>rt. SupportsImageReferences upath (rt_adapter rt)) rts"

section \<open>The response\<close>

record image_data =
  im_url :: string
  im_thumb :: string
  im_file :: string

text \<open>\<open>sign\<close> builds the signed address of an image by task, index and kind.\<close>

definition buildAPIImageData ::
  "(string \<Rightarrow> nat \<Rightarrow> string \<Rightarrow> string) \<Rightarrow> string \<Rightarrow> string \<Rightarrow> string list \<Rightarrow> string list \<Rightarrow> string list \<Rightarrow> image_data list" where
  "buildAPIImageData sign taskID mode0 urls thumbs files =
     (let cnt = max (max (length urls) (length thumbs)) (length files);
          cloud = (NormalizeStorageMode mode0 = StorageModeCloud) in
      map (\<lambda>i.
          let u = (if cloud then (if i < length urls then TrimSpace (urls ! i) else '''') else sign taskID i ResourceOriginal);
              th = (if cloud then (let t = (if i < length thumbs then TrimSpace (thumbs ! i) else '''') in if t = '''' then u else t)
                    else sign taskID i ResourceThumb);
              f = (if i < length files then (let x = files ! i in if HasPrefix x ''sed:'' then drop 4 x else x) else '''') in
          \<lparr>im_url = u, im_thumb = th, im_file = f\<rparr>) [0..<cnt])"

definition imageResponseAccounting :: "model_row \<Rightarrow> image_data list \<Rightarrow> rat \<Rightarrow> string \<Rightarrow> nat \<times> int" where
  "imageResponseAccounting m data ratio sz =
     (if data = [] then (0, 0) else (length data, ComputeImageCost (Some m) (int (length data)) ratio sz))"

end
