(* ===== verification/Gateway_Images.thy ===== *)
theory Gateway_Images
  imports Image_Requests Gateway_Laws
begin

text \<open>
  The image endpoints (internal/gateway/images.go and image_channel.go): generation, edits, the chat endpoint's hand-over for
  image models, and the query of a task. The state is the chat endpoint's with the task table beside it. The runner,
  the task table and the channels are taken as configured. What the channels' adapters answer and whether a reference
  image could be stored or uploaded are arguments; texts of error messages are left out.
\<close>

section \<open>State and surroundings\<close>

type_synonym image_gw = "gateway \<times> task_db sess"

definition on_tasks :: "(task_db sess, 'b) action \<Rightarrow> (image_gw, 'b) action" where
  "on_tasks m st = (case m (snd st) of (r, ts) \<Rightarrow> (r, (fst st, ts)))"

definition on_gw :: "(gateway, 'b) action \<Rightarrow> (image_gw, 'b) action" where
  "on_gw m st = (case m (fst st) of (r, g) \<Rightarrow> (r, (g, snd st)))"

text \<open>Readings of the clock for the task's row, the addresses' expiry and the run.\<close>

datatype task_moment = T_create | T_fail | T_success | T_start | T_stop | T_sign

record image_env =
  ie_call :: chat_env
  ie_times :: "task_moment \<Rightarrow> int"
  ie_task :: string
  ie_channel_task :: string
  ie_world :: "image_st run_world"
  ie_mode :: string
  ie_generate :: "route \<Rightarrow> nat \<Rightarrow> image_request \<Rightarrow> ad_error + ad_image_result"

text \<open>
  What the handler was built with: the base handler, the runner, the process's secret, the local store for references
  (\<open>None\<close>: none) and the upload of a reference for a channel.
\<close>

record images_handler =
  ih_base :: chat_handler
  ih_runner :: image_runner
  ih_secret :: "nat list"
  ih_save_refs :: "(string \<Rightarrow> source_image list \<Rightarrow> bool) option"
  ih_ref_upload :: "source_image \<Rightarrow> string option"
  ih_codecs :: image_codecs
  ih_upath :: "string \<Rightarrow> string option"

datatype image_reply =
    IR_error int string
  | IR_images string "image_data list"
  | IR_chat string

record gen_request =
  gq_model :: string
  gq_prompt :: string
  gq_n :: int
  gq_size :: string
  gq_format :: string
  gq_refs :: "string list"

definition sign_url :: "images_handler \<Rightarrow> image_env \<Rightarrow> string \<Rightarrow> nat \<Rightarrow> string \<Rightarrow> string" where
  "sign_url h e taskID idx res = BuildImageProxyURL (ih_secret h) (ie_times e T_sign) taskID (int idx) res DefaultTTL"

definition new_image_log :: "image_env \<Rightarrow> api_key \<Rightarrow> usage_log" where
  "new_image_log e ak = (new_log (ie_call e) ak)\<lparr>ul_type := ''image''\<rparr>"

section \<open>Holding and giving back\<close>

text \<open>A price of zero holds nothing.\<close>

definition image_hold :: "api_key \<Rightarrow> int \<Rightarrow> string \<Rightarrow> string \<Rightarrow> image_gw \<Rightarrow> (int \<times> string) option \<times> image_gw" where
  "image_hold ak cost refID rem st =
     (if cost \<le> 0 then (None, st)
      else case on_gw (on_billing (PreDeduct (k_user ak) (k_id ak) cost refID rem)) st of
             (Inl err, st1) \<Rightarrow>
               (Some (if err = ErrInsufficient then (402, ''insufficient_balance'') else (500, ''billing_error'')), st1)
           | (Inr _, st1) \<Rightarrow> (None, st1))"

definition image_refund :: "api_key \<Rightarrow> int \<Rightarrow> string \<Rightarrow> string \<Rightarrow> image_gw \<Rightarrow> image_gw" where
  "image_refund ak cost refID rem st =
     (if cost = 0 then st else snd (on_gw (on_billing (Refund (k_user ak) (k_id ak) cost refID rem)) st))"

definition image_settle :: "image_env \<Rightarrow> api_key \<Rightarrow> bool \<Rightarrow> int \<Rightarrow> int \<Rightarrow> string \<Rightarrow> string \<Rightarrow> image_gw \<Rightarrow> image_gw" where
  "image_settle e ak due cost actual refID rem st =
     (let st1 = (if due then snd (on_gw (on_billing (Settle (k_user ak) (k_id ak) cost actual refID rem)) st) else st) in
      snd (on_gw (on_keys (TouchUsage (ce_clock (ie_call e) M_touch) (k_id ak) (ce_ip (ie_call e)) actual)) st1))"

definition mark_failed :: "image_env \<Rightarrow> string \<Rightarrow> string \<Rightarrow> image_gw \<Rightarrow> image_gw" where
  "mark_failed e taskID code st = snd (on_tasks (MarkFailed (ie_times e T_fail) taskID code) st)"

section \<open>The task's row and its references\<close>

definition new_task :: "api_key \<Rightarrow> model_row \<Rightarrow> string \<Rightarrow> string \<Rightarrow> int \<Rightarrow> string \<Rightarrow> string \<Rightarrow> nat \<Rightarrow> int \<Rightarrow> task" where
  "new_task ak m taskID prompt n sz mode refCount cost =
     \<lparr>it_id = 0, it_task = taskID, it_user = k_user ak, it_key = k_id ak, it_model = m_id m, it_account = 0, it_prompt = prompt,
      it_n = n, it_size = sz, it_upscale = '''', it_storage = mode, it_status = StatusDispatched, it_conversation = '''', it_files = None,
      it_urls = None, it_thumbs = None, it_ref_count = int refCount, it_ref_urls = None, it_ref_thumbs = None, it_error = '''',
      it_estimated = cost, it_cost = 0, it_created = 0, it_started = None, it_finished = None, it_deleted = None\<rparr>"

text \<open>The uploads of the references: the first that fails ends them; a thumbnail that fails is left empty.\<close>

fun upload_refs :: "image_runner \<Rightarrow> string \<Rightarrow> source_image list \<Rightarrow> (string list \<times> string list) option" where
  "upload_refs rn taskID [] = Some ([], [])"
| "upload_refs rn taskID (src # srcs) =
     (case uploadCloudImage rn (src\<lparr>si_name := taskID @ ''_ref_'' @ dec_nat (si_index src)\<rparr>) (cloudUploadChannels rn) of
        None \<Rightarrow> None
      | Some u \<Rightarrow>
          let th = (case rn_thumb rn (si_data src) of
                      None \<Rightarrow> ''''
                    | Some (data, ct) \<Rightarrow>
                        (case uploadCloudImage rn \<lparr>si_index = si_index src, si_name = ''tmp_'' @ taskID @ ''_ref_'' @ dec_nat (si_index src),
                                                   si_data = data, si_type = ct\<rparr> (cloudUploadChannels rn) of
                           None \<Rightarrow> '''' | Some t \<Rightarrow> t)) in
          map_option (\<lambda>(us, ts). (u # us, th # ts)) (upload_refs rn taskID srcs))"

definition archiveCloudTaskReferences :: "images_handler \<Rightarrow> string \<Rightarrow> source_image list \<Rightarrow> (image_gw, unit) action" where
  "archiveCloudTaskReferences h taskID refs st =
     (if \<not> rn_uploader (ih_runner h) then (Inl EDriver, st)
      else if refs = [] then (Inr (), st)
      else case upload_refs (ih_runner h) taskID refs of
             None \<Rightarrow> (Inl EDriver, st)
           | Some (us, ts) \<Rightarrow> on_tasks (UpdateReferences (rn_jn (ih_runner h)) taskID (Some us) (Some ts)) st)"

definition archiveTaskReferences :: "images_handler \<Rightarrow> string \<Rightarrow> string \<Rightarrow> ref_image list \<Rightarrow> (image_gw, unit) action" where
  "archiveTaskReferences h taskID mode refs st =
     (if taskID = '''' \<or> refs = [] then (Inr (), st)
      else if NormalizeStorageMode mode = StorageModeCloud then archiveCloudTaskReferences h taskID (referenceSourceImages refs) st
      else (case ih_save_refs h of
              None \<Rightarrow> (Inr (), st)
            | Some save \<Rightarrow> if save taskID (referenceSourceImages refs) then (Inr (), st) else (Inl EDriver, st)))"

text \<open>Creating the row and keeping the references: a refusal, or nothing.\<close>

definition open_task ::
  "images_handler \<Rightarrow> image_env \<Rightarrow> task \<Rightarrow> ref_image list \<Rightarrow> (image_gw \<Rightarrow> image_gw) \<Rightarrow> image_gw \<Rightarrow> (int \<times> string \<times> string) option \<times> image_gw" where
  "open_task h e t refs refund st =
     (case on_tasks (Task_Create (rn_jn (ih_runner h)) (ie_times e T_create) t) st of
        (Inl _, st1) \<Rightarrow> (Some (500, ''internal_error'', ''billing_error''), refund st1)
      | (Inr _, st1) \<Rightarrow>
          (case archiveTaskReferences h (it_task t) (it_storage t) refs st1 of
             (Inl _, st2) \<Rightarrow> (Some (502, ''archive_failed'', ''archive_failed''), mark_failed e (it_task t) ''archive_failed'' (refund st2))
           | (Inr _, st2) \<Rightarrow> (None, st2)))"

section \<open>Through a channel\<close>

definition upload_for_channel :: "images_handler \<Rightarrow> ref_image list \<Rightarrow> string list option" where
  "upload_for_channel h refs =
     (if \<not> rn_uploader (ih_runner h) then None else those (map (ih_ref_upload h) (referenceSourceImages refs)))"

datatype channel_refusal = NoReferenceRoute | UploadFailed

definition buildChannelImageRequest ::
  "images_handler \<Rightarrow> route list \<Rightarrow> gen_request \<Rightarrow> ref_image list \<Rightarrow> channel_refusal + (image_request \<times> route list)" where
  "buildChannelImageRequest h routes q refs =
     (let ir = \<lparr>iq_model = gq_model q, iq_prompt = gq_prompt q, iq_n = gq_n q, iq_size = gq_size q, iq_format = gq_format q, iq_references = []\<rparr> in
      if refs = [] then Inr (ir, routes)
      else
        let filtered = filterReferenceCapableImageRoutes (ih_upath h) routes in
        if filtered = [] then Inl NoReferenceRoute
        else (case upload_for_channel h refs of
                None \<Rightarrow> Inl UploadFailed
              | Some urls \<Rightarrow> Inr (ir\<lparr>iq_references := urls\<rparr>, filtered)))"

fun mark_failures :: "image_env \<Rightarrow> nat \<Rightarrow> (route \<times> ad_error) list \<Rightarrow> image_gw \<Rightarrow> image_gw" where
  "mark_failures e k [] st = st"
| "mark_failures e k ((rt, err) # fs) st =
     mark_failures e (k + 1) fs
       (snd (on_gw (on_channels (MarkHealth (ce_clock (ie_call e) (M_health k)) (rt_channel rt) False (error_text err))) st))"

text \<open>The images of the answer, archived: the result, or nothing when that failed.\<close>

definition archive_channel :: "images_handler \<Rightarrow> string \<Rightarrow> ad_image_result \<Rightarrow> run_result option" where
  "archive_channel h taskID r =
     (case decodeChannelInlineImages (ad_b64s r) (length (ad_urls r)) of
        None \<Rightarrow> None
      | Some inline_images \<Rightarrow> ArchiveExternalImages (ih_runner h) taskID (ad_urls r) inline_images)"

text \<open>After the channel answered: the row, the settlement, the response.\<close>

definition finish_channel ::
  "images_handler \<Rightarrow> image_env \<Rightarrow> api_key \<Rightarrow> model_row \<Rightarrow> gen_request \<Rightarrow> rat \<Rightarrow> int \<Rightarrow> string \<Rightarrow> route \<Rightarrow> ad_image_result \<Rightarrow> usage_log \<Rightarrow>
   image_gw \<Rightarrow> (image_reply \<times> usage_log) \<times> image_gw" where
  "finish_channel h e ak m q ratio cost refID rt r rec st =
     (let taskID = ie_channel_task e; rn = ih_runner h;
          refund = image_refund ak cost refID ''image refund'';
          actualN = actualCount r;
          finalCost = ComputeImageCost (Some m) (int actualN) (rnd64 (ratio * channel_ratio (rt_channel rt))) (gq_size q) in
      if actualN = 0 then
        ((IR_error 502 ''upstream_error'', fail_log ''upstream_error'' rec), mark_failed e taskID ''upstream_error'' (refund st))
      else case archive_channel h taskID r of
        None \<Rightarrow> ((IR_error 502 ''archive_failed'', fail_log ''archive_failed'' rec), mark_failed e taskID ''archive_failed'' (refund st))
      | Some arch \<Rightarrow>
          (case on_tasks (MarkSuccess (rn_jn rn) (ie_times e T_success) taskID '''' [] (rs_urls arch) (rs_thumbs arch) (rs_storage arch) finalCost) st of
             (Inl _, st1) \<Rightarrow> ((IR_error 500 ''internal_error'', fail_log ''billing_error'' rec), refund st1)
           | (Inr _, st1) \<Rightarrow>
               ((IR_images taskID (buildAPIImageData (sign_url h e) taskID (rs_storage arch) (rs_urls arch) (rs_thumbs arch) []),
                 rec\<lparr>ul_status := ''success'', ul_model := m_id m, ul_images := int actualN, ul_cost := finalCost\<rparr>),
                image_settle e ak (finalCost > 0) cost finalCost refID ''image settle'' st1)))"

definition dispatchImageToChannel ::
  "images_handler \<Rightarrow> image_env \<Rightarrow> api_key \<Rightarrow> model_row \<Rightarrow> gen_request \<Rightarrow> ref_image list \<Rightarrow> usage_log \<Rightarrow> rat \<Rightarrow> image_gw \<Rightarrow>
   (image_reply \<times> usage_log) option \<times> image_gw" where
  "dispatchImageToChannel h e ak m q refs rec0 ratio st =
     (case on_gw (on_channels (Resolve (ch_cipher (ih_base h)) (m_slug m) ModalityImage)) st of
        (Inl _, st1) \<Rightarrow> (None, st1)
      | (Inr routes, st1) \<Rightarrow>
          if routes = [] then (None, st1)
          else
            (case buildChannelImageRequest h routes q refs of
               Inl NoReferenceRoute \<Rightarrow> (Some (IR_error 502 ''image_reference_unsupported'', fail_log ''image_reference_unsupported'' rec0), st1)
             | Inl UploadFailed \<Rightarrow> (Some (IR_error 502 ''image_reference_upload_error'', fail_log ''image_reference_upload_error'' rec0), st1)
             | Inr (ir, rts) \<Rightarrow>
                 let refID = ce_channel_ref (ie_call e); rec = rec0\<lparr>ul_request := refID\<rparr>; taskID = ie_channel_task e;
                     cost = ComputeImageCost (Some m) (gq_n q) ratio (gq_size q) in
                 case image_hold ak cost refID ''image prepay'' st1 of
                   (Some (http, code), st2) \<Rightarrow> (Some (IR_error http code, fail_log code rec), st2)
                 | (None, st2) \<Rightarrow>
                     let refund = image_refund ak cost refID ''image refund'' in
                     (case open_task h e (new_task ak m taskID (gq_prompt q) (gq_n q) (gq_size q) (NormalizeStorageMode (ie_mode e)) (length refs) cost)
                             refs refund st2 of
                        (Some (http, code, logged), st3) \<Rightarrow> (Some (IR_error http code, fail_log logged rec), st3)
                      | (None, st3) \<Rightarrow>
                          (case pickImageRoute (ie_generate e) ir rts of
                             (sel, fails) \<Rightarrow>
                               let st4 = mark_failures e 0 fails st3 in
                               (case sel of
                                  None \<Rightarrow>
                                    (Some (IR_error 502 ''upstream_error'', fail_log ''upstream_error'' rec),
                                     mark_failed e taskID ''upstream_error'' (refund st4))
                                | Some (rt, r) \<Rightarrow>
                                    let st5 = snd (on_gw (on_channels (MarkHealth (ce_clock (ie_call e) (M_health (length fails))) (rt_channel rt) True '''')) st4);
                                        (out, st6) = finish_channel h e ak m q ratio cost refID rt r rec st5 in
                                    (Some out, st6))))))"

section \<open>Through the runner\<close>

definition run_on :: "images_handler \<Rightarrow> image_env \<Rightarrow> run_options \<Rightarrow> image_gw \<Rightarrow> run_result \<times> image_gw" where
  "run_on h e opt st =
     (case Run (ih_runner h) (ie_world e) (ie_times e T_start) (ie_times e T_stop) opt (snd st, gw_pool (fst st)) of
        (r, (ts, s)) \<Rightarrow> (r, ((fst st)\<lparr>gw_pool := s\<rparr>, ts)))"

definition run_options_for :: "model_row \<Rightarrow> string \<Rightarrow> string \<Rightarrow> string \<Rightarrow> int \<Rightarrow> int \<Rightarrow> ref_image list \<Rightarrow> run_options" where
  "run_options_for m taskID prompt sz n attempts refs =
     \<lparr>op_task = taskID, op_upstream = m_upstream_slug m, op_prompt = maybeAppendClaritySuffix (applyImageSizeRatioPrefix prompt sz),
      op_size = sz, op_n = n, op_attempts = attempts, op_timeout = 0, op_poll_wait = 0, op_refs = refs\<rparr>"

definition ifEmpty :: "string \<Rightarrow> string \<Rightarrow> string" where
  "ifEmpty s fallback = (if s = '''' then fallback else s)"

definition run_failure :: "run_result \<Rightarrow> int \<times> string" where
  "run_failure r =
     (if rs_code r = ''no_available_account'' \<or> rs_code r = ''rate_limited'' then 503 else 502, ifEmpty (rs_code r) ''upstream_error'')"

text \<open>
  The part that generation and edits share: the hold, the row, the run, the settlement. The remarks of the ledger begin
  with \<open>what\<close>; the attempts differ.
\<close>

definition image_through_runner ::
  "images_handler \<Rightarrow> image_env \<Rightarrow> api_key \<Rightarrow> model_row \<Rightarrow> string \<Rightarrow> string \<Rightarrow> int \<Rightarrow> string \<Rightarrow> int \<Rightarrow> ref_image list \<Rightarrow> usage_log \<Rightarrow> rat \<Rightarrow>
   image_gw \<Rightarrow> (image_reply \<times> usage_log) \<times> image_gw" where
  "image_through_runner h e ak m what prompt n sz attempts refs rec ratio st =
     (let refID = ce_ref (ie_call e); taskID = ie_task e; cost = ComputeImageCost (Some m) n ratio sz in
      case image_hold ak cost refID (what @ '' prepay'') st of
        (Some (http, code), st1) \<Rightarrow> ((IR_error http code, fail_log code rec), st1)
      | (None, st1) \<Rightarrow>
          let refund = image_refund ak cost refID (what @ '' refund'') in
          (case open_task h e (new_task ak m taskID prompt n sz (NormalizeStorageMode (ie_mode e)) (length refs) cost) refs refund st1 of
             (Some (http, code, logged), st2) \<Rightarrow> ((IR_error http code, fail_log logged rec), st2)
           | (None, st2) \<Rightarrow>
               (case run_on h e (run_options_for m taskID prompt sz n attempts refs) st2 of
                  (r, st3) \<Rightarrow>
                    let rec1 = rec\<lparr>ul_account := rs_account r\<rparr> in
                    if rs_status r \<noteq> StatusSuccess then
                      (case run_failure r of (http, code) \<Rightarrow> ((IR_error http code, fail_log code rec1), refund st3))
                    else
                      let data = buildAPIImageData (sign_url h e) taskID (rs_storage r) (rs_urls r) (rs_thumbs r) (rs_files r);
                          (actualN, actualCost) = imageResponseAccounting m data ratio sz in
                      if actualN = 0 then
                        ((IR_error 502 ''upstream_error'', fail_log ''upstream_error'' rec1), mark_failed e taskID ''upstream_error'' (refund st3))
                      else
                        let st4 = image_settle e ak (cost > 0) cost actualCost refID (what @ '' settle'') st3;
                            st5 = snd (on_tasks (UpdateCost taskID actualCost) st4) in
                        ((IR_images taskID data, rec1\<lparr>ul_status := ''success'', ul_images := int actualN, ul_cost := actualCost\<rparr>), st5))))"

section \<open>The endpoints\<close>

text \<open>What both endpoints check first: the key's models, the model, its type; and the request limit.\<close>

definition admit_model :: "image_env \<Rightarrow> api_key \<Rightarrow> string \<Rightarrow> image_gw \<Rightarrow> ((int \<times> string) + model_row) \<times> image_gw" where
  "admit_model e ak slug st =
     (if \<not> ModelAllowed ak slug then (Inl (403, ''model_not_allowed''), st)
      else case on_gw (on_catalog (BySlug (ce_clock (ie_call e) M_lookup) slug)) st of
             (Inl _, st1) \<Rightarrow> (Inl (400, ''model_not_found''), st1)
           | (Inr m, st1) \<Rightarrow>
               if \<not> m_enabled m then (Inl (400, ''model_not_found''), st1)
               else if m_type m \<noteq> ''image'' then (Inl (400, ''model_type_mismatch''), st1)
               else (Inr m, st1))"

definition limit_requests :: "images_handler \<Rightarrow> image_env \<Rightarrow> api_key \<Rightarrow> image_gw \<Rightarrow> bool \<times> image_gw" where
  "limit_requests h e ak st =
     (case on_gw (on_pool (AllowRPM (ch_rd (ih_base h)) (ce_clock (ie_call e) M_rpm) (k_id ak) (rpm_cap (ie_call e) ak))) st of
        (r, st1) \<Rightarrow> (refused r, st1))"

definition generations_body :: "images_handler \<Rightarrow> image_env \<Rightarrow> api_key \<Rightarrow> gen_request \<Rightarrow> image_gw \<Rightarrow> (image_reply \<times> usage_log) \<times> image_gw" where
  "generations_body h e ak q st =
     (let rec0 = new_image_log e ak in
      case admit_model e ak (gq_model q) st of
        (Inl (http, code), st1) \<Rightarrow> ((IR_error http code, fail_log code rec0), st1)
      | (Inr m, st1) \<Rightarrow>
          let rec = rec0\<lparr>ul_model := m_id m\<rparr>; n = normalizeImageCountByModel m (gq_n q); ratio = call_ratio (ie_call e) in
          (case limit_requests h e ak st1 of
             (True, st2) \<Rightarrow> ((IR_error 429 ''rate_limit_rpm'', fail_log ''rate_limit_rpm'' rec), st2)
           | (False, st2) \<Rightarrow>
               (case decodeReferenceInputs (ih_codecs h) (gq_refs q) of
                  None \<Rightarrow> ((IR_error 400 ''invalid_reference_image'', fail_log ''invalid_request_error'' rec), st2)
                | Some refs \<Rightarrow>
                    (case normalizeImageRequestByModel m n (gq_size q) of
                       (cn, csz) \<Rightarrow>
                         case dispatchImageToChannel h e ak m (q\<lparr>gq_n := cn, gq_size := csz\<rparr>) refs rec ratio st2 of
                           (Some out, st3) \<Rightarrow> (out, st3)
                         | (None, st3) \<Rightarrow>
                             (case normalizeLocalImageRequestByModel m n (gq_size q) of
                                (locN, locSz) \<Rightarrow>
                                  image_through_runner h e ak m ''image'' (gq_prompt q) locN locSz (if refs \<noteq> [] then 1 else 2) refs rec ratio st3)))))"

definition image_log_written :: "(image_reply \<times> usage_log) \<times> image_gw \<Rightarrow> image_reply \<times> image_gw" where
  "image_log_written out = (case out of ((rep, rec), (g, ts)) \<Rightarrow> (rep, (write_log rec g, ts)))"

text \<open>An empty prompt is refused before a usage record exists; the model has a default.\<close>

definition ImageGenerations :: "images_handler \<Rightarrow> image_env \<Rightarrow> api_key \<Rightarrow> gen_request \<Rightarrow> image_gw \<Rightarrow> image_reply \<times> image_gw" where
  "ImageGenerations h e ak q st =
     (if TrimSpace (gq_prompt q) = '''' then (IR_error 400 ''invalid_request_error'', st)
      else image_log_written (generations_body h e ak (if gq_model q = '''' then q\<lparr>gq_model := ''gpt-image-2''\<rparr> else q) st))"

text \<open>
  The edits of a multipart form: its fields, with \<open>n\<close> as \<open>fmt.Sscanf\<close> read it (\<open>None\<close>: absent or unreadable), and the
  files under a name with their name, bytes and declared type. The files of the named fields come first, then those of
  the fields \<open>image_\<dots>\<close> in the order of a map; a file with a name and size seen before is skipped.
\<close>

record edit_file =
  ef_name :: string
  ef_data :: "string option"
  ef_size :: nat
  ef_type :: string

record edit_form =
  em_prompt :: string
  em_model :: string
  em_n :: "int option"
  em_size :: string
  em_files :: "(string \<times> edit_file list) list"

fun add_files :: "edit_file list \<Rightarrow> edit_file list \<Rightarrow> edit_file list" where
  "add_files out [] = out"
| "add_files out (f # fs) =
     add_files (if (ef_name f, ef_size f) \<in> (\<lambda>x. (ef_name x, ef_size x)) ` set out then out else out @ [f]) fs"

definition collectEditFiles :: "(string \<times> edit_file list) list \<Rightarrow> edit_file list" where
  "collectEditFiles form =
     fold (\<lambda>fs out. add_files out fs)
       (map (\<lambda>key. case map_of form key of None \<Rightarrow> [] | Some fs \<Rightarrow> fs) [''image'', ''image[]'', ''images'', ''images[]'', ''mask''] @
        map snd (filter (\<lambda>(k, _). HasPrefix k ''image_'') form)) []"

definition edit_reference :: "image_codecs \<Rightarrow> edit_file \<Rightarrow> ref_image option" where
  "edit_reference cd f =
     (case ef_data f of
        None \<Rightarrow> None
      | Some data \<Rightarrow>
          if data = '''' \<or> length data > maxReferenceImageBytes then None
          else normalizeReferenceImageInput cd data (ef_name f) (ef_type f))"

definition clamp_count :: "int option \<Rightarrow> int" where
  "clamp_count n = (case n of None \<Rightarrow> 1 | Some v \<Rightarrow> if v < 1 then 1 else if v > 4 then 4 else v)"

definition edits_body :: "images_handler \<Rightarrow> image_env \<Rightarrow> api_key \<Rightarrow> edit_form \<Rightarrow> ref_image list \<Rightarrow> image_gw \<Rightarrow> (image_reply \<times> usage_log) \<times> image_gw" where
  "edits_body h e ak em refs st =
     (let rec0 = new_image_log e ak; model = (if em_model em = '''' then ''gpt-image-2'' else em_model em); prompt = TrimSpace (em_prompt em) in
      case admit_model e ak model st of
        (Inl (http, code), st1) \<Rightarrow> ((IR_error http code, fail_log code rec0), st1)
      | (Inr m, st1) \<Rightarrow>
          let rec = rec0\<lparr>ul_model := m_id m\<rparr>; n = normalizeImageCountByModel m (clamp_count (em_n em)); ratio = call_ratio (ie_call e) in
          (case limit_requests h e ak st1 of
             (True, st2) \<Rightarrow> ((IR_error 429 ''rate_limit_rpm'', fail_log ''rate_limit_rpm'' rec), st2)
           | (False, st2) \<Rightarrow>
               (case normalizeImageRequestByModel m n (em_size em) of
                  (cn, csz) \<Rightarrow>
                    case dispatchImageToChannel h e ak m
                           \<lparr>gq_model = model, gq_prompt = prompt, gq_n = cn, gq_size = csz, gq_format = ''url'', gq_refs = []\<rparr> refs rec ratio st2 of
                      (Some out, st3) \<Rightarrow> (out, st3)
                    | (None, st3) \<Rightarrow>
                        (case normalizeLocalImageRequestByModel m n (em_size em) of
                           (locN, locSz) \<Rightarrow> image_through_runner h e ak m ''image-edit'' prompt locN locSz 1 refs rec ratio st3))))"

definition ImageEdits :: "images_handler \<Rightarrow> image_env \<Rightarrow> api_key \<Rightarrow> edit_form \<Rightarrow> image_gw \<Rightarrow> image_reply \<times> image_gw" where
  "ImageEdits h e ak em st =
     (if TrimSpace (em_prompt em) = '''' then (IR_error 400 ''invalid_request_error'', st)
      else
        let files = collectEditFiles (em_files em) in
        if files = [] \<or> length files > maxReferenceImages then (IR_error 400 ''invalid_request_error'', st)
        else case those (map (edit_reference (ih_codecs h)) files) of
               None \<Rightarrow> (IR_error 400 ''invalid_reference_image'', st)
             | Some refs \<Rightarrow> image_log_written (edits_body h e ak em refs st))"

text \<open>
  The hand-over from the chat endpoint: one image for the last message of the user, the answer as Markdown. The row is created
  without looking whether that worked.
\<close>

definition markdown :: "image_data list \<Rightarrow> string" where
  "markdown data = drop 2 (concat (map (\<lambda>d. [CHR 10, CHR 10] @ ''![generated]('' @ im_url d @ '')'') data))"

definition handleChatAsImage ::
  "images_handler \<Rightarrow> image_env \<Rightarrow> api_key \<Rightarrow> model_row \<Rightarrow> chat_request \<Rightarrow> usage_log \<Rightarrow> image_gw \<Rightarrow> (image_reply \<times> usage_log) \<times> image_gw" where
  "handleChatAsImage h e ak m q rec0 st =
     (let rec = rec0\<lparr>ul_model := m_id m, ul_type := ''image''\<rparr>; prompt = extractLastUserPrompt (cq_messages q); ratio = call_ratio (ie_call e) in
      if TrimSpace prompt = '''' then ((IR_error 400 ''invalid_request_error'', fail_log ''invalid_request_error'' rec), st)
      else case limit_requests h e ak st of
        (True, st1) \<Rightarrow> ((IR_error 429 ''rate_limit_rpm'', fail_log ''rate_limit_rpm'' rec), st1)
      | (False, st1) \<Rightarrow>
          let sz = ''1024x1024''; cost = ComputeImageCost (Some m) 1 ratio sz; refID = ce_ref (ie_call e); taskID = ie_task e in
          (case image_hold ak cost refID ''chat->image prepay'' st1 of
             (Some (http, code), st2) \<Rightarrow> ((IR_error http code, fail_log code rec), st2)
           | (None, st2) \<Rightarrow>
               let st3 = snd (on_tasks (Task_Create (rn_jn (ih_runner h)) (ie_times e T_create)
                               (new_task ak m taskID prompt 1 sz (NormalizeStorageMode (ie_mode e)) 0 cost)) st2) in
               (case run_on h e (run_options_for m taskID prompt sz 1 2 []) st3 of
                  (r, st4) \<Rightarrow>
                    let rec1 = rec\<lparr>ul_account := rs_account r\<rparr> in
                    if rs_status r \<noteq> StatusSuccess then
                      (case run_failure r of (http, code) \<Rightarrow>
                         ((IR_error http code, fail_log code rec1), image_refund ak cost refID ''chat->image refund'' st4))
                    else
                      let st5 = image_settle e ak (cost > 0) cost cost refID ''chat->image settle'' st4;
                          st6 = snd (on_tasks (UpdateCost taskID cost) st5) in
                      ((IR_chat (markdown (buildAPIImageData (sign_url h e) taskID (rs_storage r) (rs_urls r) (rs_thumbs r) (rs_files r))),
                        rec1\<lparr>ul_status := ''success'', ul_cost := cost, ul_images := (if rs_urls r = [] then 1 else int (length (rs_urls r)))\<rparr>), st6))))"

text \<open>A task shown to its owner: the row with its progress and its images' addresses, or a status.\<close>

definition ImageTask :: "images_handler \<Rightarrow> image_env \<Rightarrow> api_key \<Rightarrow> string \<Rightarrow> image_gw \<Rightarrow> ((int \<times> string) + (task \<times> progress \<times> image_data list)) \<times> image_gw" where
  "ImageTask h e ak taskID st =
     (if taskID = '''' then (Inl (400, ''invalid_request_error''), st)
      else case on_tasks (Task_Get taskID) st of
        (Inl err, st1) \<Rightarrow> (Inl (if err = ErrNotFound then (404, ''not_found'') else (500, ''internal_error'')), st1)
      | (Inr t, st1) \<Rightarrow>
          if it_user t \<noteq> k_user ak then (Inl (404, ''not_found''), st1)
          else (Inr (t, BuildTaskProgressMeta (Some t),
                     buildAPIImageData (sign_url h e) (it_task t) (it_storage t) (DecodeResultURLs t) (DecodeThumbURLs t) (DecodeFileIDs t)), st1))"

end
