(* ===== verification/Image_Run_Laws.thy ===== *)
theory Image_Run_Laws
  imports Image_Runner
begin

text \<open>
  What the image runner promises. The contract of an attempt (a successful one brings as many addresses as file
  references, at least one, and its archive in order) is a locale, interpreted on the attempt of the code; the
  retries, the batches and the run are studied in it.
\<close>

section \<open>The contract of an attempt\<close>

definition delivers :: "bool \<Rightarrow> run_result \<Rightarrow> bool" where
  "delivers arch r \<longleftrightarrow>
     length (rs_urls r) = length (rs_files r) \<and> rs_thumbs r = [] \<and>
     map si_index (rs_archive r) = [0..<if arch then length (rs_files r) else 0]"

lemma delivers_archive: "delivers arch r \<Longrightarrow> length (rs_archive r) = (if arch then length (rs_files r) else 0)"
  unfolding delivers_def by (metis length_map length_upt diff_zero)

lemma delivers_count: "delivers arch r \<Longrightarrow> runResultImageCount r = length (rs_files r)"
  using delivers_archive [of arch r] by (simp add: delivers_def runResultImageCount_def)

lemma delivers_sub_count: "delivers arch r \<Longrightarrow> subImageCount r = length (rs_files r)"
  using delivers_archive [of arch r] by (simp add: delivers_def subImageCount_def)

lemma delivers_new [simp]: "delivers arch (new_result mode)"
  by (simp add: delivers_def new_result_def)

lemma take_upt_min: "take n [0..<m] = [0..<min m n]"
  by (cases "n \<le> m") (simp_all add: take_upt min_def)

lemma delivers_trim: "delivers arch r \<Longrightarrow> delivers arch (trimRunResultImages n r)"
  by (auto simp: delivers_def trimRunResultImages_def take_map [symmetric] take_upt_min)

lemma trim_files: "0 < n \<Longrightarrow> rs_files (trimRunResultImages n r) = take (nat n) (rs_files r)"
  by (simp add: trimRunResultImages_def)

lemma delivers_copy [simp]:
  "delivers arch (copyRunResultState dst src) = delivers arch src" "rs_files (copyRunResultState dst src) = rs_files src"
  by (simp_all add: delivers_def copyRunResultState_def)

locale image_attempt =
  fixes once :: "nat \<Rightarrow> nat \<Rightarrow> nat \<Rightarrow> 'w attempt"
    and arch :: bool
  assumes ok: "once b g k opt (new_result mode) w = ((True, c, r), w') \<Longrightarrow> delivers arch r \<and> rs_files r \<noteq> []"
begin

lemma retry_ok:
  "retry_from n (once b g) cancelled opt k r w = ((True, r'), w') \<Longrightarrow> delivers arch r' \<and> rs_files r' \<noteq> []"
proof (induction n arbitrary: k r w)
  case (Suc n)
  obtain ok' code ar w1 where o: "once b g k opt (new_result (rs_storage r)) w = ((ok', code, ar), w1)" by (metis prod.exhaust)
  show ?case
  proof (cases "\<not> cancelled k \<and> ok'")
    case True
    with Suc.prems o have "r' = copyRunResultState (r\<lparr>rs_attempts := k\<rparr>) ar" by (simp add: Let_def)
    moreover have "delivers arch ar \<and> rs_files ar \<noteq> []" using ok [of b g k opt "rs_storage r" w code ar w1] o True by simp
    ultimately show ?thesis by simp
  next
    case False
    with Suc.prems o show ?thesis
      by (auto simp: Let_def split: if_splits dest: Suc.IH)
  qed
qed simp

text \<open>Every result a batch gathers carries exactly one image.\<close>

definition one_image :: "bool \<times> run_result \<Rightarrow> bool" where
  "one_image sr \<longleftrightarrow> (fst sr \<longrightarrow> delivers arch (snd sr) \<and> length (rs_files (snd sr)) = 1)"

lemma batch_one_image:
  assumes "runBatch rw b mode opt n w = (srs, w')" and "rw_once rw = once" and "op_n opt = 1"
  shows "list_all one_image srs \<and> length srs = n"
  using assms(1)
proof (induction n arbitrary: w srs w')
  case (Suc n)
  obtain ok' sub w1 where s: "runWithRetry (rw_once rw b n) (rw_cancelled rw b n) opt (new_result mode) w = ((ok', sub), w1)" by (metis prod.exhaust)
  obtain srs' w2 where b: "runBatch rw b mode opt n w1 = (srs', w2)" by (rule prod.exhaust)
  have "srs = (ok', if ok' then trimRunResultImages 1 sub else sub) # srs'" using Suc.prems s b assms(3) by (auto simp: Let_def)
  moreover have "one_image (ok', if ok' then trimRunResultImages 1 sub else sub)"
  proof (cases ok')
    case True
    with s have "retry_from (maxAttemptWindow (op_attempts opt)) (once b n) (rw_cancelled rw b n) opt 1 (new_result mode) w = ((True, sub), w1)"
      by (simp add: runWithRetry_def assms(2))
    from retry_ok [OF this] show ?thesis using True by (cases "rs_files sub") (auto simp: one_image_def delivers_trim trim_files)
  qed (simp add: one_image_def)
  ultimately show ?case using Suc.IH [OF b] by simp
qed simp

lemma gather_delivers:
  assumes "one_image sr" and "delivers arch r"
  shows "delivers arch (fst (gather sr (r, sc, lc))) \<and>
    length (rs_files (fst (gather sr (r, sc, lc)))) = length (rs_files r) + (if fst sr then 1 else 0) \<and>
    rs_status (fst (gather sr (r, sc, lc))) = rs_status r"
proof (cases sr)
  case (Pair ok' sub)
  show ?thesis
  proof (cases ok')
    case True
    with assms(1) Pair have d: "delivers arch sub" "length (rs_files sub) = 1" by (simp_all add: one_image_def)
    then have "map si_index (rs_archive sub) = (if arch then [0] else [])" by (simp add: delivers_def)
    moreover have "runResultImageCount (r\<lparr>rs_attempts := a\<rparr>) = length (rs_files r)" for a
      using delivers_count [OF assms(2)] by (simp add: runResultImageCount_def)
    ultimately show ?thesis
      using True Pair d assms(2) delivers_sub_count [OF d(1)]
      by (auto simp: gather_def Let_def delivers_def comp_def map_eq_Cons_conv)
  next
    case False
    then show ?thesis using Pair assms(2) by (simp add: gather_def Let_def delivers_def)
  qed
qed

lemma fold_gather_delivers:
  assumes "list_all one_image srs" and "delivers arch r"
  shows "delivers arch (fst (fold gather srs (r, sc, lc))) \<and>
    length (rs_files (fst (fold gather srs (r, sc, lc)))) \<le> length (rs_files r) + length srs \<and>
    rs_status (fst (fold gather srs (r, sc, lc))) = rs_status r"
  using assms
proof (induction srs arbitrary: r sc lc)
  case (Cons sr srs)
  obtain r1 sc1 lc1 where g: "gather sr (r, sc, lc) = (r1, sc1, lc1)" by (metis prod.exhaust)
  have s: "one_image sr" using Cons.prems(1) by simp
  have "delivers arch r1" "length (rs_files r1) \<le> length (rs_files r) + 1" "rs_status r1 = rs_status r"
    using gather_delivers [OF s Cons.prems(2), of sc lc] g by (auto split: if_splits)
  with Cons.IH [of r1 sc1 lc1] Cons.prems(1) g show ?case by auto
qed simp

lemma batches_deliver:
  assumes "batches k rw b mode opt n (r, sc, lc) w = ((r', sc', lc'), w')" and "rw_once rw = once" and "op_n opt = 1"
    and "delivers arch r" and "length (rs_files r) \<le> n"
  shows "delivers arch r' \<and> length (rs_files r') \<le> n \<and> rs_status r' = rs_status r"
  using assms(1,4,5)
proof (induction k arbitrary: b r sc lc w)
  case (Suc k)
  have cnt: "runResultImageCount r = length (rs_files r)" using Suc.prems(2) by (rule delivers_count)
  obtain srs w1 where bt: "runBatch rw b mode opt (n - length (rs_files r)) w = (srs, w1)" by (rule prod.exhaust)
  obtain r1 sc1 lc1 where f: "fold gather srs (r, sc, lc) = (r1, sc1, lc1)" by (metis prod.exhaust)
  have o: "list_all one_image srs" "length srs = n - length (rs_files r)" using batch_one_image [OF bt assms(2,3)] by auto
  have d1: "delivers arch r1" "length (rs_files r1) \<le> n" "rs_status r1 = rs_status r"
    using fold_gather_delivers [OF o(1) Suc.prems(2), of sc lc] f o(2) Suc.prems(3) by auto
  show ?case
  proof (cases "n \<le> length (rs_files r) \<or> rw_batch_done rw b")
    case True
    then show ?thesis using Suc.prems cnt bt f d1 by (auto simp: Let_def split: if_splits)
  next
    case False
    then have "batches k rw (b + 1) mode opt n (r1, sc1, lc1) w1 = ((r', sc', lc'), w')"
      using Suc.prems(1) cnt bt f by (simp add: Let_def)
    from Suc.IH [OF this d1(1,2)] d1(3) show ?thesis by simp
  qed
qed simp

lemma parallel_delivers:
  assumes "runParallel rw mode opt r w = (r', w')" and "rw_once rw = once" and "0 < op_n opt"
    and "delivers arch r" and "rs_files r = []" and "rs_status r \<noteq> StatusSuccess" and "rs_status r' = StatusSuccess"
  shows "delivers arch r' \<and> length (rs_files r') = nat (op_n opt)"
proof -
  let ?n = "nat (op_n opt)"
  obtain r1 sc lc w1 where b: "batches (max ?n (maxAttemptWindow (op_attempts opt))) rw 1 mode (opt\<lparr>op_n := 1, op_task := ''''\<rparr>) ?n
      (r\<lparr>rs_quota := []\<rparr>, 0, '''') w = ((r1, sc, lc), w1)" by (metis prod.exhaust)
  have "delivers arch (r\<lparr>rs_quota := []\<rparr>)" using assms(4) by (simp add: delivers_def)
  from batches_deliver [OF b assms(2) _ this] have d1: "delivers arch r1" "length (rs_files r1) \<le> ?n" "rs_status r1 \<noteq> StatusSuccess"
    using assms(5,6) by simp_all
  have srt: "sort_key si_index (rs_archive r1) = rs_archive r1"
    using d1(1) by (intro sort_key_id_if_sorted) (simp add: delivers_def)
  have "r' = (if ?n \<le> length (rs_files r1) then r1\<lparr>rs_status := StatusSuccess, rs_code := ''''\<rparr>
     else if 0 < sc then r1\<lparr>rs_code := ''invalid_response''\<rparr> else r1\<lparr>rs_code := (if lc = '''' then ''unknown'' else lc)\<rparr>)"
    using assms(1) d1(2) delivers_count [OF d1(1)] unfolding runParallel_def Let_def b prod.case
    by (simp add: srt split: if_splits)
  then show ?thesis using assms(7) d1 by (auto simp: delivers_def split: if_splits)
qed

end

section \<open>The code's attempt keeps the contract\<close>

lemma sign_refs_shape:
  "sign_refs e conv refs code l s = ((us, rs, c), l', s') \<Longrightarrow> length us = length rs \<and> set rs \<subseteq> set refs"
proof (induction refs arbitrary: code l s us rs c l' s')
  case (Cons ref refs)
  show ?case
  proof (cases "iu_url (ae_up e) conv ref")
    case (Inl err)
    then show ?thesis using Cons.prems by (auto simp: Let_def split: prod.splits dest: Cons.IH)
  next
    case (Inr u)
    obtain us' rs' c' l1 s1 where t: "sign_refs e conv refs code l s = ((us', rs', c'), l1, s1)" by (metis prod.exhaust)
    then have "us = u # us'" "rs = ref # rs'" "c = c'" "l' = l1" "s' = s1" using Cons.prems Inr by simp_all
    with Cons.IH [OF t] show ?thesis by auto
  qed
qed simp

lemma fetch_images_index:
  "fetch_images e idx us l s = (Inr imgs, l', s') \<Longrightarrow> map si_index imgs = [idx..<idx + length us]"
proof (induction us arbitrary: idx imgs)
  case (Cons u us)
  obtain body ct where f: "iu_fetch (ae_up e) u = Inr (body, ct)"
    using Cons.prems by (auto split: sum.splits prod.splits)
  obtain out l1 s1 where t: "fetch_images e (idx + 1) us l s = (out, l1, s1)" by (metis prod.exhaust)
  from Cons.prems f t obtain imgs' where o: "out = Inr imgs'" and i: "imgs = \<lparr>si_index = idx, si_name = '''', si_data = body,
      si_type = (if ct = '''' then ''image/png'' else ct)\<rparr> # imgs'" and "l1 = l'" "s1 = s'"
    by (auto split: sum.splits)
  then show ?case using Cons.IH [of "idx + 1" imgs'] t by (simp add: upt_conv_Cons del: upt_Suc)
qed simp

lemma collect_images_delivers:
  assumes "collect_images rn e conv refs r l s = (Inr r', l', s')" and "rs_thumbs r = []" and "rs_archive r = []"
  shows "delivers (rn_files rn \<noteq> None) r' \<and> rs_files r' \<noteq> [] \<and> set (rs_files r') \<subseteq> set refs"
proof -
  obtain us rs c l1 s1 where t: "sign_refs e conv refs '''' l s = ((us, rs, c), l1, s1)" by (metis prod.exhaust)
  note sh = sign_refs_shape [OF t]
  have ne: "us \<noteq> []" using assms(1) t by (auto simp: collect_images_def split: if_splits)
  show ?thesis
  proof (cases "rn_files rn")
    case None
    then have "r' = r\<lparr>rs_files := rs, rs_urls := us, rs_types := replicate (length us) ''image/png''\<rparr>"
      using assms(1) t ne by (simp add: collect_images_def split: if_splits)
    then show ?thesis using assms(2,3) sh ne None by (auto simp: delivers_def)
  next
    case (Some save)
    obtain out l2 s2 where f: "fetch_images e 0 us l1 s1 = (out, l2, s2)" by (metis prod.exhaust)
    from assms(1) t ne Some f obtain imgs where o: "out = Inr imgs"
      and r': "r' = r\<lparr>rs_files := rs, rs_urls := us, rs_types := map si_type imgs, rs_archive := imgs\<rparr>"
      by (auto simp: collect_images_def split: if_splits sum.splits)
    have "map si_index imgs = [0..<length us]" using fetch_images_index [OF f [unfolded o]] by simp
    then show ?thesis using assms(2) sh ne Some r' by (auto simp: delivers_def)
  qed
qed

lemma image_converse_success:
  assumes "image_converse rn e opt cr p uploads r l s = (r2, Inr r', l', s')"
  shows "\<exists>sr refs l1 s1. gather_refs e opt uploads (ss_conv sr) sr = Inr refs \<and>
    collect_images rn e (ss_conv sr) refs (if ss_conv sr \<noteq> '''' then r\<lparr>rs_conv := ss_conv sr\<rparr> else r) l1 s1 = (Inr r', l', s')"
proof -
  define conv_opt where "conv_opt = \<lparr>ic_prompt = op_prompt opt, ic_size = op_size opt, ic_model = image_model opt cr,
    ic_chat_token = cr_token cr, ic_proof = p, ic_conduit = '''', ic_refs = uploads\<rparr>"
  obtain prep l1 s1 where pr: "(case iu_prepare (ae_up e) conv_opt of
             Inr ct \<Rightarrow> (Inr ct, l, s)
           | Inl err \<Rightarrow>
               (let (l', s') = image_proxy_mark err l s; code = classifyUpstream err in
                if code \<in> {''auth_required'', ''rate_limited''}
                then (Inl code, l', markAccountFailure rn (ae_mark e) (a_id (ls_account l')) code s')
                else (Inr '''', l', s'))) = (prep, l1, s1)" by (rule prod_cases3)
  note ic = assms [unfolded image_converse_def conv_opt_def [symmetric] Let_def [of conv_opt] pr, unfolded Let_def prod.case]
  obtain ct where ct: "prep = Inr ct" using ic by (cases prep) auto
  obtain sr where sr: "iu_stream (ae_up e) (conv_opt\<lparr>ic_conduit := ct\<rparr>) = Inr sr"
    using ic ct by (cases "iu_stream (ae_up e) (conv_opt\<lparr>ic_conduit := ct\<rparr>)") (auto simp: upstream_failed_def Let_def split: prod.splits)
  obtain refs where refs: "gather_refs e opt uploads (ss_conv sr) sr = Inr refs"
    using ic unfolding ct sr sum.case by (cases "gather_refs e opt uploads (ss_conv sr) sr") simp_all
  have "collect_images rn e (ss_conv sr) refs (if ss_conv sr \<noteq> '''' then r\<lparr>rs_conv := ss_conv sr\<rparr> else r) l1 s1 = (Inr r', l', s')"
    using ic unfolding ct sr refs sum.case by (rule Pair_inject)
  with refs show ?thesis by blast
qed

text \<open>A successful attempt went through the conversation; what it returns comes from the gathered references.\<close>

lemma runOnce_success:
  assumes "runOnce rn e opt r st = ((True, c, r'), st')"
  obtains uploads l0 s0 l1 s1 sr refs r1 l2 s2 l3 s3 where
    "upload_references rn e 0 (op_refs opt) l0 s0 = (Inr uploads, l1, s1)"
    and "gather_refs e opt uploads (ss_conv sr) sr = Inr refs"
    and "collect_images rn e (ss_conv sr) refs r1 l2 s2 = (Inr r', l3, s3)"
    and "rs_thumbs r1 = rs_thumbs r" and "rs_archive r1 = rs_archive r"
proof -
  obtain ts s where st: "st = (ts, s)" by (cases st)
  obtain dr t s1 where d: "Dispatch (rn_cipher rn) (rn_sched rn) (rn_scan rn) (rn_zone rn) ''image'' (ae_world e) (ae_dispatch e) s = (dr, t, s1)"
    by (metis prod.exhaust)
  obtain l where dr: "dr = Inr l" using assms by (cases dr) (auto simp: runOnce_def st d)
  let ?r1 = "r\<lparr>rs_account := a_id (ls_account l)\<rparr>"
  obtain r2 out l1 s2 where w: "with_lease rn e opt ?r1 l s1 = (r2, out, l1, s2)" by (metis prod.exhaust)
  have out: "out = Inr r'" using assms by (auto simp: runOnce_def st d dr Let_def w split: sum.splits)
  obtain cr where n: "iu_new (ae_up e) l = None" and cr: "iu_requirements (ae_up e) l = Inr cr"
    using w out by (auto simp: with_lease_def upstream_failed_def Let_def split: option.splits sum.splits prod.splits)
  obtain pw lp sp where pw: "prove_work rn e cr l s1 = (pw, lp, sp)" by (metis prod.exhaust)
  obtain p where p: "pw = Inr p" using w out by (cases pw) (auto simp: with_lease_def n cr pw)
  obtain up lu su where up: "upload_references rn e 0 (op_refs opt) lp sp = (up, lu, su)" by (metis prod.exhaust)
  obtain uploads where u: "up = Inr uploads" using w out by (cases up) (auto simp: with_lease_def n cr pw p up)
  have ic: "image_converse rn e opt cr p uploads ?r1 lu su = (r2, Inr r', l1, s2)"
    using w out by (simp add: with_lease_def n cr pw p up u)
  from image_converse_success [OF ic] obtain sr refs lc sc where g: "gather_refs e opt uploads (ss_conv sr) sr = Inr refs"
    and c: "collect_images rn e (ss_conv sr) refs (if ss_conv sr \<noteq> '''' then ?r1\<lparr>rs_conv := ss_conv sr\<rparr> else ?r1) lc sc = (Inr r', l1, s2)"
    by blast
  show ?thesis by (rule that [OF up [unfolded u] g c]) simp_all
qed

lemma runOnce_delivers:
  assumes "runOnce rn e opt (new_result mode) st = ((True, c, r'), st')"
  shows "delivers (rn_files rn \<noteq> None) r' \<and> rs_files r' \<noteq> []"
  using assms
proof (rule runOnce_success)
  fix sr refs r1 l2 s2 l3 s3
  assume "collect_images rn e (ss_conv sr) refs r1 l2 s2 = (Inr r', l3, s3)" "rs_thumbs r1 = rs_thumbs (new_result mode)"
    "rs_archive r1 = rs_archive (new_result mode)"
  then show ?thesis using collect_images_delivers by (fastforce simp: new_result_def)
qed

interpretation runs: image_attempt "\<lambda>b g k. runOnce rn (env b g k)" "rn_files rn \<noteq> None"
  for rn env
  by unfold_locales (rule runOnce_delivers)

section \<open>Archiving keeps the images\<close>

definition shows_all :: "nat \<Rightarrow> run_result \<Rightarrow> bool" where
  "shows_all n r \<longleftrightarrow> length (rs_files r) = n \<and> length (rs_urls r) = n \<and> (rs_thumbs r = [] \<or> length (rs_thumbs r) = n)"

lemma upload_all_length: "upload_all rn t imgs = Some (us, ts) \<Longrightarrow> length us = length imgs \<and> length ts = length imgs"
  by (induction imgs arbitrary: us ts) (auto split: option.splits)

lemma download_from_length: "download_from rn types k us = Some imgs \<Longrightarrow> length imgs = length us"
  by (induction us arbitrary: k imgs) (auto split: option.splits)

lemma archive_source_length:
  assumes "archiveSourceImages rn r = Some imgs" and "delivers arch r"
  shows "length imgs = length (rs_files r)"
  using assms delivers_archive [OF assms(2)]
  by (auto simp: archiveSourceImages_def downloadArchiveImages_def delivers_def dest!: download_from_length split: if_splits)

lemma archive_shows:
  assumes "archiveResultImages rn t r = (True, r')" and "delivers arch r"
  shows "shows_all (length (rs_files r)) r' \<and> rs_files r' = rs_files r \<and> rs_account r' = rs_account r \<and> rs_attempts r' = rs_attempts r \<and>
    rs_status r' = rs_status r \<and> rs_code r' = rs_code r"
proof (cases "storageMode rn = StorageModeCloud")
  case True
  let ?r = "r\<lparr>rs_storage := storageMode rn\<rparr>"
  have d: "delivers arch ?r" using assms(2) by (simp add: delivers_def)
  from assms(1) True obtain imgs r1 where i: "archiveSourceImages rn ?r = Some imgs" and u: "uploadCloudImages rn t imgs ?r = Some r1" and "r' = r1"
    by (auto simp: archiveResultImages_def Let_def split: option.splits)
  from u obtain us ts where "upload_all rn t imgs = Some (us, ts)" and r1: "r1 = ?r\<lparr>rs_urls := us, rs_thumbs := ts\<rparr>"
    by (auto simp: uploadCloudImages_def split: if_splits)
  from upload_all_length [OF this(1)] archive_source_length [OF i d] r1 \<open>r' = r1\<close> show ?thesis by (simp add: shows_all_def)
next
  case False
  then have "r' = r\<lparr>rs_storage := storageMode rn\<rparr>"
    using assms(1) by (auto simp: archiveResultImages_def Let_def split: option.splits if_splits)
  then show ?thesis using assms(2) by (simp add: shows_all_def delivers_def)
qed

lemma archive_fields:
  assumes "archiveResultImages rn t r = (ok, r')"
  shows "rs_account r' = rs_account r \<and> rs_attempts r' = rs_attempts r \<and> rs_status r' = rs_status r"
proof (cases "storageMode rn = StorageModeCloud")
  case True
  then show ?thesis using assms
    by (auto simp: archiveResultImages_def uploadCloudImages_def Let_def split: option.splits if_splits)
next
  case False
  then show ?thesis using assms by (auto simp: archiveResultImages_def Let_def split: option.splits if_splits)
qed

section \<open>How often an attempt is made\<close>

lemma retry_attempts:
  "retry_from n once cancelled opt k r w = ((ok, r'), w') \<Longrightarrow> rs_attempts r' \<le> max (rs_attempts r) (k + n - 1)"
proof (induction n arbitrary: k r w)
  case (Suc n)
  obtain ok' code ar w1 where o: "once k opt (new_result (rs_storage r)) w = ((ok', code, ar), w1)" by (metis prod.exhaust)
  show ?case
  proof (cases "cancelled k \<or> ok' \<or> \<not> isRetryableImageFailure (if code \<noteq> '''' then code else if rs_code ar \<noteq> '''' then rs_code ar else ''unknown'') \<or>
      retryLimit (op_attempts opt) (if code \<noteq> '''' then code else if rs_code ar \<noteq> '''' then rs_code ar else ''unknown'') \<le> int k")
    case True
    then show ?thesis using Suc.prems o by (auto simp: Let_def copyRunResultState_def split: if_splits)
  next
    case False
    let ?c = "if code \<noteq> '''' then code else if rs_code ar \<noteq> '''' then rs_code ar else ''unknown''"
    have "retry_from n once cancelled opt (k + 1) (copyRunResultState (r\<lparr>rs_attempts := k\<rparr>) ar\<lparr>rs_code := ?c\<rparr>) w1 = ((ok, r'), w')"
      using Suc.prems o False by (simp add: Let_def)
    from Suc.IH [OF this] show ?thesis by (simp add: copyRunResultState_def)
  qed
qed simp

lemma runWithRetry_attempts:
  assumes "runWithRetry once cancelled opt (new_result mode) w = ((ok, r'), w')"
  shows "rs_attempts r' \<le> maxAttemptWindow (op_attempts opt)"
  using retry_attempts [OF assms [unfolded runWithRetry_def]] by (simp add: new_result_def)

lemma gather_attempts: "rs_attempts (fst (gather sr acc)) = rs_attempts (fst acc) + rs_attempts (snd sr)"
  by (cases sr; cases acc) (simp add: gather_def Let_def)

lemma fold_gather_attempts:
  "list_all (\<lambda>sr. rs_attempts (snd sr) \<le> m) srs \<Longrightarrow> rs_attempts (fst (fold gather srs acc)) \<le> rs_attempts (fst acc) + length srs * m"
proof (induction srs arbitrary: acc)
  case (Cons sr srs)
  then have "rs_attempts (fst (fold gather srs (gather sr acc))) \<le> rs_attempts (fst (gather sr acc)) + length srs * m" by simp
  then show ?case using Cons.prems by (simp add: gather_attempts)
qed simp

lemma runBatch_attempts:
  "runBatch rw b mode opt n w = (srs, w') \<Longrightarrow>
     list_all (\<lambda>sr. rs_attempts (snd sr) \<le> maxAttemptWindow (op_attempts opt)) srs \<and> length srs = n"
proof (induction n arbitrary: w srs w')
  case (Suc n)
  obtain ok sub w1 where s: "runWithRetry (rw_once rw b n) (rw_cancelled rw b n) opt (new_result mode) w = ((ok, sub), w1)" by (metis prod.exhaust)
  obtain srs' w2 where t: "runBatch rw b mode opt n w1 = (srs', w2)" by (rule prod.exhaust)
  have "srs = (ok, if ok then trimRunResultImages (op_n opt) sub else sub) # srs'" using Suc.prems s t by (auto simp: Let_def)
  then show ?case using Suc.IH [OF t] runWithRetry_attempts [OF s] by (simp add: trimRunResultImages_def)
qed simp

lemma batches_attempts:
  "batches k rw b mode opt n acc w = (acc', w') \<Longrightarrow>
     rs_attempts (fst acc') \<le> rs_attempts (fst acc) + k * (n * maxAttemptWindow (op_attempts opt))"
proof (induction k arbitrary: b acc w)
  case (Suc k)
  let ?W = "maxAttemptWindow (op_attempts opt)" and ?m = "n - runResultImageCount (fst acc)"
  obtain srs w1 where t: "runBatch rw b mode opt ?m w = (srs, w1)" by (rule prod.exhaust)
  note bt = runBatch_attempts [OF t]
  have "length srs * ?W \<le> n * ?W" using bt by (intro mult_right_mono) auto
  then have a: "rs_attempts (fst (fold gather srs acc)) \<le> rs_attempts (fst acc) + n * ?W"
    using fold_gather_attempts [of ?W srs acc] bt by linarith
  show ?case
  proof (cases "n \<le> runResultImageCount (fst acc) \<or> rw_batch_done rw b")
    case True
    then show ?thesis using Suc.prems t a by (auto simp: Let_def split: if_splits)
  next
    case False
    then have "batches k rw (b + 1) mode opt n (fold gather srs acc) w1 = (acc', w')" using Suc.prems t by (simp add: Let_def)
    from Suc.IH [OF this] a show ?thesis by simp
  qed
qed simp

lemma runParallel_attempts:
  assumes "runParallel rw mode opt r w = (r', w')"
  shows "rs_attempts r' \<le> rs_attempts r +
    max (nat (op_n opt)) (maxAttemptWindow (op_attempts opt)) * (nat (op_n opt) * maxAttemptWindow (op_attempts opt))"
proof -
  let ?n = "nat (op_n opt)"
  obtain r1 sc lc w1 where b: "batches (max ?n (maxAttemptWindow (op_attempts opt))) rw 1 mode (opt\<lparr>op_n := 1, op_task := ''''\<rparr>) ?n
      (r\<lparr>rs_quota := []\<rparr>, 0, '''') w = ((r1, sc, lc), w1)" by (metis prod.exhaust)
  have "rs_attempts r' = rs_attempts r1"
    using assms unfolding runParallel_def Let_def b prod.case by (auto simp: trimRunResultImages_def split: if_splits)
  then show ?thesis using batches_attempts [OF b] by simp
qed

section \<open>Quota\<close>

lemma add_quota_sum: "sum_list (map snd (add_quota i n qs)) = sum_list (map snd qs) + n"
  by (induction i n qs rule: add_quota.induct) auto

definition quota_within :: "run_result \<Rightarrow> bool" where
  "quota_within r \<longleftrightarrow> sum_list (map snd (rs_quota r)) \<le> length (rs_files r)"

context image_attempt
begin

lemma gather_quota:
  assumes "one_image sr" and "quota_within r"
  shows "quota_within (fst (gather sr (r, sc, lc)))"
proof (cases sr)
  case (Pair ok' sub)
  have "subImageCount sub = length (rs_files sub)" if ok' using assms(1) Pair that delivers_sub_count by (auto simp: one_image_def)
  then show ?thesis using assms(2) Pair by (auto simp: gather_def Let_def quota_within_def add_quota_sum)
qed

lemma fold_gather_quota:
  "list_all one_image srs \<Longrightarrow> quota_within r \<Longrightarrow> quota_within (fst (fold gather srs (r, sc, lc)))"
proof (induction srs arbitrary: r sc lc)
  case (Cons sr srs)
  obtain r1 sc1 lc1 where g: "gather sr (r, sc, lc) = (r1, sc1, lc1)" by (metis prod.exhaust)
  then show ?case using Cons gather_quota [of sr r sc lc] by simp
qed simp

lemma batches_quota:
  assumes "batches k rw b mode opt n (r, sc, lc) w = ((r', sc', lc'), w')" and "rw_once rw = once" and "op_n opt = 1"
    and "quota_within r"
  shows "quota_within r'"
  using assms(1,4)
proof (induction k arbitrary: b r sc lc w)
  case (Suc k)
  obtain srs w1 where bt: "runBatch rw b mode opt (n - runResultImageCount r) w = (srs, w1)" by (rule prod.exhaust)
  obtain r1 sc1 lc1 where f: "fold gather srs (r, sc, lc) = (r1, sc1, lc1)" by (metis prod.exhaust)
  have q: "quota_within r1"
    using fold_gather_quota [of srs r sc lc] batch_one_image [OF bt assms(2,3)] Suc.prems(2) f by simp
  show ?case
  proof (cases "n \<le> runResultImageCount r \<or> rw_batch_done rw b")
    case True
    then show ?thesis using Suc.prems bt f q by (auto simp: Let_def split: if_splits)
  next
    case False
    then have "batches k rw (b + 1) mode opt n (r1, sc1, lc1) w1 = ((r', sc', lc'), w')"
      using Suc.prems(1) bt f by (simp add: Let_def)
    from Suc.IH [OF this q] show ?thesis .
  qed
qed simp

lemma parallel_quota:
  assumes "runParallel rw mode opt r w = (r', w')" and "rw_once rw = once" and "0 < op_n opt" and "delivers arch r" and "rs_files r = []"
  shows "quota_within r'"
proof -
  let ?n = "nat (op_n opt)"
  obtain r1 sc lc w1 where b: "batches (max ?n (maxAttemptWindow (op_attempts opt))) rw 1 mode (opt\<lparr>op_n := 1, op_task := ''''\<rparr>) ?n
      (r\<lparr>rs_quota := []\<rparr>, 0, '''') w = ((r1, sc, lc), w1)" by (metis prod.exhaust)
  have d: "delivers arch (r\<lparr>rs_quota := []\<rparr>)" using assms(4) by (simp add: delivers_def)
  from batches_deliver [OF b assms(2) _ this] have d1: "delivers arch r1" "length (rs_files r1) \<le> ?n" using assms(5) by simp_all
  have q: "quota_within r1" using batches_quota [OF b assms(2)] by (simp add: quota_within_def)
  have srt: "sort_key si_index (rs_archive r1) = rs_archive r1"
    using d1(1) by (intro sort_key_id_if_sorted) (simp add: delivers_def)
  have "rs_quota r' = rs_quota r1 \<and> rs_files r' = rs_files r1"
    using assms(1) d1(2) delivers_count [OF d1(1)] unfolding runParallel_def Let_def b prod.case
    by (auto simp: srt split: if_splits)
  with q show ?thesis by (simp add: quota_within_def)
qed

end

section \<open>A run\<close>

definition asked :: "run_options \<Rightarrow> nat" where
  "asked opt = nat (if op_n opt \<le> 0 then 1 else op_n opt)"

lemma normalized:
  "nat (op_n (normalizeOptions rn opt)) = asked opt" "0 < op_n (normalizeOptions rn opt)"
  "op_task (normalizeOptions rn opt) = op_task opt"
  "maxAttemptWindow (op_attempts (normalizeOptions rn opt)) = maxAttemptWindow (op_attempts opt)"
  by (simp_all add: normalizeOptions_def asked_def maxAttemptWindow_def)

lemma single_run_success:
  assumes "single_run rn (real_world rn env cancelled fin) opt (new_result mode) w = (r, w')" and "rs_status r = StatusSuccess" and "op_n opt = 1"
  shows "shows_all 1 r \<and> quota_within r"
proof -
  obtain ok r1 w1 where t: "runWithRetry (rw_once (real_world rn env cancelled fin) 0 0) (cancelled 0 0) opt (new_result mode) w = ((ok, r1), w1)"
    by (metis prod.exhaust)
  have st: "rs_status r1 \<noteq> StatusSuccess"
  proof -
    have "retry_from n once c opt k r0 w = ((ok, r1), w1) \<Longrightarrow> rs_status r1 = rs_status r0" for n once c k r0 and w :: "image_st"
    proof (induction n arbitrary: k r0 w)
      case (Suc n)
      then show ?case by (auto simp: Let_def copyRunResultState_def split: if_splits prod.splits)
    qed simp
    from this [OF t [unfolded runWithRetry_def]] show ?thesis by (simp add: new_result_def task_words)
  qed
  have ok: "ok" using assms(1,2) t st by (cases ok) (auto simp: single_run_def real_world_def)
  have "retry_from (maxAttemptWindow (op_attempts opt)) (\<lambda>k. runOnce rn (env 0 0 k)) (cancelled 0 0) opt 1 (new_result mode) w = ((True, r1), w1)"
    using t ok by (simp add: runWithRetry_def real_world_def)
  from runs.retry_ok [where env = env and b = 0 and g = 0, OF this] have d: "delivers (rn_files rn \<noteq> None) r1" "rs_files r1 \<noteq> []" by auto
  let ?r2 = "trimRunResultImages 1 r1"
  have d2: "delivers (rn_files rn \<noteq> None) ?r2" "length (rs_files ?r2) = 1"
    using delivers_trim [OF d(1), of 1] d(2) by (cases "rs_files r1"; simp add: trim_files)+
  have c2: "runResultImageCount ?r2 = 1" using delivers_count [OF d2(1)] d2(2) by simp
  obtain ok' r3 where a: "archiveResultImages rn (op_task opt) ?r2 = (ok', r3)" by (rule prod.exhaust)
  have r: "ok'" "r = r3\<lparr>rs_quota := [(rs_account r3, quotaImageCount (rs_files r3) (rs_urls r3) (op_n opt))], rs_status := StatusSuccess, rs_code := ''''\<rparr>"
    using assms t ok c2 a by (auto simp: single_run_def real_world_def Let_def task_words split: if_splits)
  from archive_shows [OF a [unfolded this(1) [THEN eqTrueI]] d2(1)] d2(2) have "shows_all 1 r3" "rs_files r3 \<noteq> []" by auto
  then show ?thesis using r(2) by (auto simp: shows_all_def quota_within_def quotaImageCount_def)
qed

lemma parallel_run_success:
  assumes "parallel_run rn (real_world rn env cancelled fin) opt (new_result mode) w = (r, w')" and "rs_status r = StatusSuccess" and "1 < op_n opt"
  shows "shows_all (nat (op_n opt)) r \<and> quota_within r"
proof -
  let ?rw = "real_world rn env cancelled fin"
  obtain r1 w1 where p: "runParallel ?rw (storageMode rn) opt (new_result mode) w = (r1, w1)" by (rule prod.exhaust)
  have rw: "rw_once ?rw = (\<lambda>b g k. runOnce rn (env b g k))" by (simp add: real_world_def)
  obtain ok r2 where a: "archiveResultImages rn (op_task opt) r1 = (ok, r2)" by (rule prod.exhaust)
  have s1: "rs_status r1 = StatusSuccess" "ok" "r = r2"
    using assms(1,2) p a by (auto simp: parallel_run_def archived_def task_words split: if_splits)
  have n: "0 < op_n opt" "rs_files (new_result mode) = []" "rs_status (new_result mode) \<noteq> StatusSuccess"
    using assms(3) by (simp_all add: new_result_def task_words)
  have d: "delivers (rn_files rn \<noteq> None) r1" "length (rs_files r1) = nat (op_n opt)"
    using runs.parallel_delivers [OF p rw n(1) delivers_new n(2,3) s1(1)] by auto
  have q: "quota_within r1" using runs.parallel_quota [OF p rw n(1) delivers_new n(2)] .
  have "rs_quota r2 = rs_quota r1"
    using a by (auto simp: archiveResultImages_def uploadCloudImages_def Let_def split: option.splits if_splits)
  with archive_shows [OF a [unfolded s1(2) [THEN eqTrueI]] d(1)] d(2) q s1(3) show ?thesis by (simp add: quota_within_def)
qed

lemma Run_success:
  assumes "Run rn (real_world rn env cancelled fin) start stop opt st = (r, st')" and "rs_status r = StatusSuccess"
  shows "shows_all (asked opt) r \<and> quota_within r"
proof -
  let ?o = "normalizeOptions rn opt" and ?rw = "real_world rn env cancelled fin"
  let ?st = "if op_task ?o \<noteq> '''' then (snd (MarkRunning start (op_task ?o) 0 (fst st)), snd st) else st"
  obtain w where run: "(if op_n ?o > 1 then parallel_run rn ?rw ?o (new_result (storageMode rn)) ?st
      else single_run rn ?rw ?o (new_result (storageMode rn)) ?st) = (r, w)"
    using assms(1) by (auto simp: Run_def Let_def split: prod.splits)
  show ?thesis
  proof (cases "op_n ?o > 1")
    case True
    then show ?thesis using parallel_run_success [of rn env cancelled fin ?o] run assms(2) normalized(1) by metis
  next
    case False
    then have one: "op_n ?o = 1" using normalized(2) [of rn opt] by simp
    then have "asked opt = 1" using normalized(1) [of rn opt] by simp
    then show ?thesis using single_run_success [OF _ assms(2) one] run False by (metis (no_types, lifting))
  qed
qed

lemma Run_attempts:
  assumes "Run rn rw start stop opt st = (r, st')"
  shows "rs_attempts r \<le>
    (if asked opt = 1 then maxAttemptWindow (op_attempts opt)
     else max (asked opt) (maxAttemptWindow (op_attempts opt)) * (asked opt * maxAttemptWindow (op_attempts opt)))"
proof -
  let ?o = "normalizeOptions rn opt"
  let ?st = "if op_task ?o \<noteq> '''' then (snd (MarkRunning start (op_task ?o) 0 (fst st)), snd st) else st"
  obtain w where run: "(if op_n ?o > 1 then parallel_run rn rw ?o (new_result (storageMode rn)) ?st
      else single_run rn rw ?o (new_result (storageMode rn)) ?st) = (r, w)"
    using assms(1) by (auto simp: Run_def Let_def split: prod.splits)
  show ?thesis
  proof (cases "op_n ?o > 1")
    case True
    obtain r1 w1 where p: "runParallel rw (storageMode rn) ?o (new_result (storageMode rn)) ?st = (r1, w1)" by (rule prod.exhaust)
    obtain ok r2 where a: "archiveResultImages rn (op_task ?o) r1 = (ok, r2)" by (rule prod.exhaust)
    have "rs_attempts r = rs_attempts r1"
      using run True p a archive_fields [OF a] by (auto simp: parallel_run_def archived_def split: if_splits)
    moreover have "asked opt \<noteq> 1" using True normalized(1) [of rn opt] by linarith
    ultimately show ?thesis using runParallel_attempts [OF p] normalized by (simp add: new_result_def)
  next
    case False
    then have one: "asked opt = 1" using normalized(1,2) [of rn opt] by linarith
    obtain ok r1 w1 where t: "runWithRetry (rw_once rw 0 0) (rw_cancelled rw 0 0) ?o (new_result (storageMode rn)) ?st = ((ok, r1), w1)"
      by (metis prod.exhaust)
    obtain ok2 r2 where a: "archiveResultImages rn (op_task ?o) (trimRunResultImages (op_n ?o) r1) = (ok2, r2)" by (rule prod.exhaust)
    have "rs_attempts r2 = rs_attempts r1" using archive_fields [OF a] by (simp add: trimRunResultImages_def)
    then have "rs_attempts r = rs_attempts r1"
      using run False t a by (auto simp: single_run_def Let_def trimRunResultImages_def split: if_splits)
    then show ?thesis using runWithRetry_attempts [OF t] one normalized(4) by simp
  qed
qed

end
