(* ===== verification/Gateway_Image_Laws.thy ===== *)
theory Gateway_Image_Laws
  imports Gateway_Images Image_Run_Laws
begin

text \<open>
  The image endpoints from end to end: a channel returns exactly the images asked for, a run of the pool too, and over
  a whole call the user's balance falls by exactly the price its one usage record shows.
\<close>

section \<open>The images of a channel\<close>

lemma trim_count: "0 < mx \<Longrightarrow> actualCount (trimAdapterImageResult r mx) = min (actualCount r) mx"
  by (auto simp: trimAdapterImageResult_def actualCount_def)

lemma append_count: "actualCount (appendAdapterImageResult a b) = actualCount a + actualCount b"
  by (simp add: appendAdapterImageResult_def actualCount_def)

lemma generate_exact:
  "generate_from k gen expected q a combined err = Inr r \<Longrightarrow> 0 < expected \<Longrightarrow> actualCount r = expected"
proof (induction k arbitrary: a combined err)
  case 0
  then show ?case by (simp split: if_splits)
next
  case (Suc k)
  show ?case
  proof (cases "expected \<le> actualCount combined")
    case True
    then show ?thesis using Suc.prems by (auto simp: trim_count)
  next
    case False
    show ?thesis
    proof (cases "gen a (q\<lparr>iq_n := int (expected - actualCount combined)\<rparr>)")
      case (Inl e)
      then show ?thesis using Suc False by (auto simp: Let_def split: if_splits)
    next
      case (Inr x)
      then show ?thesis using Suc False by (auto simp: Let_def trim_count split: if_splits)
    qed
  qed
qed

lemma channel_exact: "imageGenerateWithRetry gen q = Inr r \<Longrightarrow> actualCount r = expectedImageCount q"
  unfolding imageGenerateWithRetry_def Let_def by (erule generate_exact) (auto simp: expectedImageCount_def)

lemma pick_exact:
  "pickImageRoute gen q rts = (Some (rt, r), fails) \<Longrightarrow> rt \<in> set rts \<and> actualCount r = expectedImageCount q"
  by (induction rts arbitrary: fails) (auto split: sum.splits prod.splits dest: channel_exact)

lemma count_range: "1 \<le> normalizeImageCountByModel m n" "normalizeImageCountByModel m n \<le> 4"
  by (auto simp: normalizeImageCountByModel_def Let_def)

lemma count_idem [simp]: "normalizeImageCountByModel m (normalizeImageCountByModel m n) = normalizeImageCountByModel m n"
  by (auto simp: normalizeImageCountByModel_def Let_def)

lemma length_data: "length (buildAPIImageData sign t mode us ths fs) = max (max (length us) (length ths)) (length fs)"
  by (simp add: buildAPIImageData_def Let_def)

section \<open>What leaves the money alone\<close>

definition same_money :: "image_gw \<Rightarrow> image_gw \<Rightarrow> bool" where
  "same_money st st' \<longleftrightarrow> gw_billing (fst st') = gw_billing (fst st) \<and> gw_usage (fst st') = gw_usage (fst st)"

lemma same_money_refl [simp]: "same_money st st"
  by (simp add: same_money_def)

lemma same_money_trans: "same_money a b \<Longrightarrow> same_money b c \<Longrightarrow> same_money a c"
  by (simp add: same_money_def)

lemma same_money_tasks [simp]: "same_money st (snd (on_tasks m st))"
  by (auto simp: same_money_def on_tasks_def split: prod.split)

lemma same_money_gw [simp]:
  "same_money st (snd (on_gw (on_channels a) st))" "same_money st (snd (on_gw (on_pool b) st))" "same_money st (snd (on_gw (on_catalog c) st))"
  by (auto simp: same_money_def on_gw_def on_channels_def on_pool_def on_catalog_def split: prod.split)

lemma same_money_keys: "same_money st (snd (on_gw (on_keys k) st))"
  by (auto simp: same_money_def on_gw_def on_keys_def split: prod.split)

lemma same_money_failed [simp]: "same_money st (mark_failed e t c st)"
  by (simp add: mark_failed_def)

lemma same_money_failures: "same_money st (mark_failures e k fs st)"
proof (induction fs arbitrary: k st)
  case (Cons f fs)
  obtain rt err where f: "f = (rt, err)" by (rule prod.exhaust)
  show ?case unfolding f mark_failures.simps by (rule same_money_trans [OF same_money_gw(1) Cons.IH])
qed simp

lemma same_money_run: "run_on h e opt st = (r, st') \<Longrightarrow> same_money st st'"
  by (auto simp: run_on_def same_money_def split: prod.splits)

lemma same_money_eqs: "on_tasks m st = (r, st') \<Longrightarrow> same_money st st'" "on_gw (on_channels a) st = (r1, st') \<Longrightarrow> same_money st st'"
  "on_gw (on_pool b) st = (r2, st') \<Longrightarrow> same_money st st'" "on_gw (on_catalog c) st = (r3, st') \<Longrightarrow> same_money st st'"
  using same_money_tasks [of st m] same_money_gw [of st] by (metis snd_conv)+

lemma same_money_archive: "archiveTaskReferences h t mode refs st = (r, st') \<Longrightarrow> same_money st st'"
  by (auto simp: archiveTaskReferences_def archiveCloudTaskReferences_def split: if_splits option.splits prod.splits dest: same_money_eqs)

section \<open>Hold, refund, settle\<close>

lemma hold_none:
  assumes "image_hold ak cost ref rem st = (None, st')" and "gw_billing (fst st) = (d, [])" and "0 \<le> cost"
  shows "PreDeduct (k_user ak) (k_id ak) cost ref rem (d, []) = (Inr (), gw_billing (fst st')) \<and> gw_usage (fst st') = gw_usage (fst st)"
proof (cases "cost = 0")
  case True
  then show ?thesis using assms by (simp add: image_hold_def PreDeduct_eval)
next
  case False
  obtain r g1 where p: "on_billing (PreDeduct (k_user ak) (k_id ak) cost ref rem) (fst st) = (r, g1)" by (rule prod.exhaust)
  then show ?thesis using False assms on_billing_frame [OF p] by (auto simp: image_hold_def on_gw_def split: sum.splits)
qed

lemma hold_some:
  assumes "image_hold ak cost ref rem st = (Some x, st')" and "gw_billing (fst st) = (d, [])"
  shows "gw_billing (fst st') = (d, []) \<and> gw_usage (fst st') = gw_usage (fst st)"
proof -
  obtain r g1 where p: "on_billing (PreDeduct (k_user ak) (k_id ak) cost ref rem) (fst st) = (r, g1)" by (rule prod.exhaust)
  then show ?thesis using assms on_billing_frame [OF p] PreDeduct_Inl [of "k_user ak" "k_id ak" cost ref rem d]
    by (auto simp: image_hold_def on_gw_def split: sum.splits if_splits)
qed

lemma refund_charges:
  assumes "PreDeduct (k_user ak) (k_id ak) cost ref rem (d, []) = (Inr (), gw_billing (fst st1))" and "0 \<le> cost" and "roomy (k_user ak) d"
    and "same_money st1 st2"
  shows "charged (k_user ak) 0 (d, []) (gw_billing (fst (image_refund ak cost ref rem' st2))) \<and>
    gw_usage (fst (image_refund ak cost ref rem' st2)) = gw_usage (fst st1)"
proof -
  have b: "gw_billing (fst st2) = gw_billing (fst st1)" "gw_usage (fst st2) = gw_usage (fst st1)" using assms(4) by (simp_all add: same_money_def)
  obtain r g where p: "on_billing (Refund (k_user ak) (k_id ak) cost ref rem') (fst st2) = (r, g)" by (rule prod.exhaust)
  show ?thesis
  proof (cases "cost = 0")
    case True
    then have "gw_billing (fst st1) = (d, [])" using assms(1) by (simp add: PreDeduct_eval)
    then show ?thesis using b True by (simp add: image_refund_def)
  next
    case False
    then show ?thesis using hold_then_refund [OF assms(1,2,3), of rem'] on_billing_frame [OF p] b by (simp add: image_refund_def on_gw_def p)
  qed
qed

lemma settle_charges:
  assumes "PreDeduct (k_user ak) (k_id ak) cost ref rem (d, []) = (Inr (), gw_billing (fst st1))" and "0 \<le> cost" "cost < 2 ^ 62" and "roomy (k_user ak) d"
    and "same_money st1 st2" and "0 \<le> actual" "actual < 2 ^ 62" and "\<not> due \<Longrightarrow> cost = 0 \<and> actual = 0"
  shows "charged (k_user ak) actual (d, []) (gw_billing (fst (image_settle e ak due cost actual ref rem' st2))) \<and>
    gw_usage (fst (image_settle e ak due cost actual ref rem' st2)) = gw_usage (fst st1)"
proof -
  have b: "gw_billing (fst st2) = gw_billing (fst st1)" "gw_usage (fst st2) = gw_usage (fst st1)" using assms(5) by (simp_all add: same_money_def)
  define st3 where "st3 = (if due then snd (on_gw (on_billing (Settle (k_user ak) (k_id ak) cost actual ref rem')) st2) else st2)"
  have "charged (k_user ak) actual (d, []) (gw_billing (fst st3)) \<and> gw_usage (fst st3) = gw_usage (fst st1)"
  proof (cases due)
    case True
    obtain r g where p: "on_billing (Settle (k_user ak) (k_id ak) cost actual ref rem') (fst st2) = (r, g)" by (rule prod.exhaust)
    then show ?thesis using True hold_then_settle [OF assms(1-4,6,7), of rem'] on_billing_frame [OF p] b by (simp add: st3_def on_gw_def)
  next
    case False
    with assms(8) have z: "cost = 0" "actual = 0" by simp_all
    then have "gw_billing (fst st1) = (d, [])" using assms(1) by (simp add: PreDeduct_eval)
    then show ?thesis using b z False by (simp add: st3_def)
  qed
  then show ?thesis using same_money_keys [of st3 "TouchUsage (ce_clock (ie_call e) M_touch) (k_id ak) (ce_ip (ie_call e)) actual"]
    unfolding image_settle_def Let_def st3_def [symmetric] by (simp add: same_money_def)
qed

section \<open>One call, end to end\<close>

definition shown :: "image_reply \<Rightarrow> bool" where
  "shown rep \<longleftrightarrow> (case rep of IR_error _ _ \<Rightarrow> False | _ \<Rightarrow> True)"

text \<open>How a call ends: what its log says, what it showed and what it did to the wallet; \<open>n\<close> images were asked for.\<close>

definition image_ends :: "api_key \<Rightarrow> int \<Rightarrow> image_reply \<Rightarrow> usage_log \<Rightarrow> image_gw \<Rightarrow> image_gw \<Rightarrow> bool" where
  "image_ends ak n rep rec st st' \<longleftrightarrow>
     gw_usage (fst st') = gw_usage (fst st) \<and> ul_status rec \<noteq> '''' \<and> (ul_status rec = ''success'') = shown rep \<and>
     (if shown rep then ul_images rec = n else ul_cost rec = 0) \<and>
     charged (k_user ak) (ul_cost rec) (gw_billing (fst st)) (gw_billing (fst st'))"

lemma failed_ends:
  assumes "gw_usage (fst st') = gw_usage (fst st)" and "charged (k_user ak) 0 (gw_billing (fst st)) (gw_billing (fst st'))"
    and "ul_cost rec = 0"
  shows "image_ends ak n (IR_error http c) (fail_log code rec) st st'"
  using assms by (simp add: image_ends_def shown_def)

lemma image_ends_lift:
  assumes "image_ends ak n rep rec st1 st'" and "same_money st st1"
  shows "image_ends ak n rep rec st st'"
  using assms by (simp add: image_ends_def same_money_def)

text \<open>Opening the task refunds when it refuses.\<close>

lemma open_task_cases:
  assumes "open_task h e t refs (image_refund ak cost ref rem') st1 = (out, st2)"
    and "PreDeduct (k_user ak) (k_id ak) cost ref rem (d, []) = (Inr (), gw_billing (fst st1))" and "0 \<le> cost" and "roomy (k_user ak) d"
  shows "(out = None \<longrightarrow> same_money st1 st2) \<and>
    (out \<noteq> None \<longrightarrow> charged (k_user ak) 0 (d, []) (gw_billing (fst st2)) \<and> gw_usage (fst st2) = gw_usage (fst st1))"
proof -
  note rf = refund_charges [OF assms(2-4)]
  obtain r1 s1 where c: "on_tasks (Task_Create (rn_jn (ih_runner h)) (ie_times e T_create) t) st1 = (r1, s1)" by (rule prod.exhaust)
  note m1 = same_money_eqs(1) [OF c]
  show ?thesis
  proof (cases r1)
    case (Inl x)
    then show ?thesis using assms(1) rf [OF m1, of rem'] by (auto simp: open_task_def c)
  next
    case (Inr x)
    obtain r2 s2 where a: "archiveTaskReferences h (it_task t) (it_storage t) refs s1 = (r2, s2)" by (rule prod.exhaust)
    have m2: "same_money st1 s2" using same_money_trans [OF m1 same_money_archive [OF a]] .
    show ?thesis using assms(1) rf [OF m2, of rem'] m2 same_money_failed [of "image_refund ak cost ref rem' s2" e "it_task t" "''archive_failed''"]
      by (cases r2) (auto simp: open_task_def c Inr a same_money_def)
  qed
qed

lemma runner_ends:
  assumes "image_through_runner h e ak m what prompt n sz attempts refs rec ratio st = ((rep, rec'), st')"
    and "gw_billing (fst st) = (d, [])" and "roomy (k_user ak) d" and "ul_cost rec = 0"
    and "ie_world e = real_world (ih_runner h) env cancelled fin" and "1 \<le> n"
    and "0 \<le> ComputeImageCost (Some m) n ratio sz" "ComputeImageCost (Some m) n ratio sz < 2 ^ 62"
  shows "image_ends ak n rep rec' st st'"
proof -
  define ref where "ref = ce_ref (ie_call e)"
  define cost where "cost = ComputeImageCost (Some m) n ratio sz"
  have pos: "0 \<le> cost" "cost < 2 ^ 62" using assms(7,8) by (simp_all add: cost_def)
  obtain hr st1 where hold: "image_hold ak cost ref (what @ '' prepay'') st = (hr, st1)" by (rule prod.exhaust)
  note def = assms(1) [unfolded image_through_runner_def Let_def, folded ref_def cost_def, unfolded hold prod.case]
  show ?thesis
  proof (cases hr)
    case (Some x)
    then show ?thesis using def hold_some [OF hold [unfolded Some] assms(2)] assms(2,4) by (auto split: prod.splits intro!: failed_ends)
  next
    case None
    note pre = hold_none [OF hold [unfolded None] assms(2) pos(1)]
    have u1: "gw_usage (fst st1) = gw_usage (fst st)" using pre by simp
    let ?t = "new_task ak m (ie_task e) prompt n sz (NormalizeStorageMode (ie_mode e)) (length refs) cost"
    obtain op st2 where op: "open_task h e ?t refs (image_refund ak cost ref (what @ '' refund'')) st1 = (op, st2)" by (rule prod.exhaust)
    note oc = open_task_cases [OF op conjunct1 [OF pre] pos(1) assms(3)]
    show ?thesis
    proof (cases op)
      case (Some x)
      then show ?thesis using def None oc u1 assms(2,4) by (auto simp: op split: prod.splits intro!: failed_ends)
    next
      case opened: None
      have m2: "same_money st1 st2" using oc opened by simp
      define opt where "opt = run_options_for m (ie_task e) prompt sz n attempts refs"
      obtain r st3 where run: "run_on h e opt st2 = (r, st3)" by (rule prod.exhaust)
      note m3 = same_money_trans [OF m2 same_money_run [OF run]]
      note rf = refund_charges [OF conjunct1 [OF pre] pos(1) assms(3) m3, of "what @ '' refund''"]
      have asked: "asked opt = nat n" using assms(6) by (simp add: asked_def opt_def run_options_for_def)
      note def2 = def [unfolded None option.case op opened prod.case, folded opt_def, unfolded run prod.case]
      show ?thesis
      proof (cases "rs_status r = StatusSuccess")
        case False
        then show ?thesis using def2 rf u1 assms(2,4) by (auto split: prod.splits intro!: failed_ends)
      next
        case True
        obtain ts s where Rn: "Run (ih_runner h) (real_world (ih_runner h) env cancelled fin) (ie_times e T_start) (ie_times e T_stop) opt (snd st2, gw_pool (fst st2)) = (r, (ts, s))"
          using run assms(5) by (auto simp: run_on_def split: prod.splits)
        have all: "shows_all (nat n) r" using Run_success [OF Rn True] asked by simp
        define data where "data = buildAPIImageData (sign_url h e) (ie_task e) (rs_storage r) (rs_urls r) (rs_thumbs r) (rs_files r)"
        have len: "length data = nat n" using all unfolding data_def length_data by (auto simp: shows_all_def)
        then have acc: "imageResponseAccounting m data ratio sz = (nat n, cost)" using assms(6) by (auto simp: imageResponseAccounting_def cost_def)
        have nz: "nat n \<noteq> 0" using assms(6) by simp
        define st4 where "st4 = image_settle e ak (0 < cost) cost cost ref (what @ '' settle'') st3"
        have eqs: "rep = IR_images (ie_task e) data" "st' = snd (on_tasks (UpdateCost (ie_task e) cost) st4)"
          "rec' = rec\<lparr>ul_account := rs_account r, ul_status := ''success'', ul_images := int (nat n), ul_cost := cost\<rparr>"
          using def2 True unfolding data_def [symmetric] acc prod.case using nz by (simp_all add: st4_def)
        have "charged (k_user ak) cost (d, []) (gw_billing (fst st4)) \<and> gw_usage (fst st4) = gw_usage (fst st1)"
          unfolding st4_def by (rule settle_charges [OF conjunct1 [OF pre] pos assms(3) m3 pos]) (use pos in simp)
        then show ?thesis using eqs u1 assms(2,6) same_money_tasks [of st4 "UpdateCost (ie_task e) cost"]
          by (simp add: image_ends_def shown_def same_money_def)
      qed
    qed
  qed
qed

text \<open>Prices a call can meet: within the range of amounts, and a channel's multiplier does not make a paid call free.\<close>

definition priced :: "images_handler \<Rightarrow> model_row \<Rightarrow> rat \<Rightarrow> channel_db sess \<Rightarrow> int \<Rightarrow> string \<Rightarrow> bool" where
  "priced h m ratio cs n sz \<longleftrightarrow>
     (let cost = ComputeImageCost (Some m) n ratio sz in
      0 \<le> cost \<and> cost < 2 ^ 62 \<and>
      (\<forall>routes. fst (Resolve (ch_cipher (ih_base h)) (m_slug m) ModalityImage cs) = Inr routes \<longrightarrow>
         (\<forall>rt\<in>set routes.
            let final = ComputeImageCost (Some m) n (rnd64 (ratio * channel_ratio (rt_channel rt))) sz in
            0 \<le> final \<and> final < 2 ^ 62 \<and> (final = 0 \<longrightarrow> cost = 0))))"

lemma buildChannelImageRequest_Inr:
  assumes "buildChannelImageRequest h routes q refs = Inr (ir, rts)"
  shows "iq_n ir = gq_n q \<and> set rts \<subseteq> set routes"
  using assms by (auto simp: buildChannelImageRequest_def filterReferenceCapableImageRoutes_def Let_def split: if_splits option.splits)

lemma finish_channel_ends:
  assumes "finish_channel h e ak m q ratio cost ref rt r rec st1 = ((rep, rec'), st')"
    and "PreDeduct (k_user ak) (k_id ak) cost ref rem (d, []) = (Inr (), gw_billing (fst st0))" and "same_money st0 st1"
    and "0 \<le> cost" "cost < 2 ^ 62" and "roomy (k_user ak) d" and "ul_cost rec = 0" and "gw_billing (fst st) = (d, [])"
    and "gw_usage (fst st0) = gw_usage (fst st)" and "int (actualCount r) = gq_n q" and "1 \<le> gq_n q"
    and "0 \<le> final" "final < 2 ^ 62" "final = 0 \<Longrightarrow> cost = 0"
    and "final = ComputeImageCost (Some m) (gq_n q) (rnd64 (ratio * channel_ratio (rt_channel rt))) (gq_size q)"
  shows "image_ends ak (gq_n q) rep rec' st st'"
proof -
  note rf = refund_charges [OF assms(2,4,6)]
  have nz: "actualCount r \<noteq> 0" using assms(10,11) by linarith
  note def = assms(1) [unfolded finish_channel_def Let_def, unfolded assms(10), folded assms(15)]
  show ?thesis
  proof (cases "archive_channel h (ie_channel_task e) r")
    case None
    have "same_money (image_refund ak cost ref ''image refund'' st1)
        (mark_failed e (ie_channel_task e) ''archive_failed'' (image_refund ak cost ref ''image refund'' st1))" by simp
    then show ?thesis using def None nz rf [OF assms(3), of "''image refund''"] assms(7-9) by (auto simp: same_money_def intro!: failed_ends)
  next
    case (Some arch)
    obtain mr st2 where ms: "on_tasks (MarkSuccess (rn_jn (ih_runner h)) (ie_times e T_success) (ie_channel_task e) '''' [] (rs_urls arch) (rs_thumbs arch) (rs_storage arch) final) st1 = (mr, st2)"
      by (rule prod.exhaust)
    have m2: "same_money st0 st2" using same_money_trans [OF assms(3) same_money_eqs(1) [OF ms]] .
    show ?thesis
    proof (cases mr)
      case (Inl x)
      then show ?thesis using def Some nz ms rf [OF m2, of "''image refund''"] assms(7-9) by (auto intro!: failed_ends)
    next
      case (Inr x)
      have "charged (k_user ak) final (d, []) (gw_billing (fst (image_settle e ak (0 < final) cost final ref ''image settle'' st2))) \<and>
          gw_usage (fst (image_settle e ak (0 < final) cost final ref ''image settle'' st2)) = gw_usage (fst st0)"
        by (rule settle_charges [OF assms(2,4,5,6) m2 assms(12,13)]) (use assms(12,14) in auto)
      then show ?thesis using def Some nz ms Inr assms(7-10) by (auto simp: image_ends_def shown_def)
    qed
  qed
qed

lemma channel_image_ends:
  assumes "dispatchImageToChannel h e ak m q refs rec ratio st = (Some (rep, rec'), st')"
    and "gw_billing (fst st) = (d, [])" and "roomy (k_user ak) d" and "ul_cost rec = 0" and "1 \<le> gq_n q"
    and "priced h m ratio (gw_channels (fst st)) (gq_n q) (gq_size q)"
  shows "image_ends ak (gq_n q) rep rec' st st'"
proof -
  define ref where "ref = ce_channel_ref (ie_call e)"
  define cost where "cost = ComputeImageCost (Some m) (gq_n q) ratio (gq_size q)"
  have pos: "0 \<le> cost" "cost < 2 ^ 62" using assms(6) by (simp_all add: priced_def cost_def Let_def)
  obtain rr st1 where res: "on_gw (on_channels (Resolve (ch_cipher (ih_base h)) (m_slug m) ModalityImage)) st = (rr, st1)" by (rule prod.exhaust)
  have m1: "same_money st st1" by (rule same_money_eqs(2) [OF res])
  have b1: "gw_billing (fst st1) = (d, [])" "gw_usage (fst st1) = gw_usage (fst st)" using m1 assms(2) by (simp_all add: same_money_def)
  obtain routes where rr: "rr = Inr routes" and ne: "routes \<noteq> []"
    using assms(1) unfolding dispatchImageToChannel_def res by (cases rr) (auto split: if_splits)
  have fr: "fst (Resolve (ch_cipher (ih_base h)) (m_slug m) ModalityImage (gw_channels (fst st))) = Inr routes"
    using res rr by (auto simp: on_gw_def on_channels_def split: prod.splits)
  note def = assms(1) [unfolded dispatchImageToChannel_def res rr prod.case sum.case]
  have e0: "image_ends ak (gq_n q) (IR_error c x) (fail_log y rec) st st1" for c x y by (rule failed_ends) (use b1 assms(2,4) in simp_all)
  show ?thesis
  proof (cases "buildChannelImageRequest h routes q refs")
    case (Inl x)
    then show ?thesis using def ne e0 by (cases x) auto
  next
    case (Inr y)
    obtain ir rts where y: "y = (ir, rts)" by (rule prod.exhaust)
    note ir = buildChannelImageRequest_Inr [OF Inr [unfolded y]]
    define rec1 where "rec1 = rec\<lparr>ul_request := ref\<rparr>"
    have c1: "ul_cost rec1 = 0" using assms(4) by (simp add: rec1_def)
    obtain hr st2 where hold: "image_hold ak cost ref ''image prepay'' st1 = (hr, st2)" by (rule prod.exhaust)
    note def2 = def [unfolded Inr y sum.case prod.case Let_def, folded ref_def cost_def, folded rec1_def, unfolded hold prod.case]
    show ?thesis
    proof (cases hr)
      case (Some x)
      then show ?thesis using def2 ne hold_some [OF hold [unfolded Some] b1(1)] b1 assms(2) c1 by (auto split: prod.splits intro!: failed_ends)
    next
      case None
      note pre = hold_none [OF hold [unfolded None] b1(1) pos(1)]
      let ?t = "new_task ak m (ie_channel_task e) (gq_prompt q) (gq_n q) (gq_size q) (NormalizeStorageMode (ie_mode e)) (length refs) cost"
      obtain op st3 where op: "open_task h e ?t refs (image_refund ak cost ref ''image refund'') st2 = (op, st3)" by (rule prod.exhaust)
      note oc = open_task_cases [OF op conjunct1 [OF pre] pos(1) assms(3)]
      have u2: "gw_usage (fst st2) = gw_usage (fst st)" using pre b1 by simp
      show ?thesis
      proof (cases op)
        case (Some x)
        then show ?thesis using def2 ne None oc u2 assms(2) c1 by (auto simp: op split: prod.splits intro!: failed_ends)
      next
        case opened: None
        obtain sel fails where pick: "pickImageRoute (ie_generate e) ir rts = (sel, fails)" by (rule prod.exhaust)
        define st4 where "st4 = mark_failures e 0 fails st3"
        have m4: "same_money st2 st4" using same_money_trans [OF _ same_money_failures, of st2 st3 e 0 fails] oc opened by (simp add: st4_def)
        note def3 = def2 [unfolded None option.case op opened prod.case pick, folded st4_def]
        show ?thesis
        proof (cases sel)
          case no: None
          show ?thesis using def3 ne no refund_charges [OF conjunct1 [OF pre] pos(1) assms(3) m4, of "''image refund''"] u2 assms(2) c1
              same_money_failed [of "image_refund ak cost ref ''image refund'' st4" e "ie_channel_task e" "''upstream_error''"]
            by (auto simp: same_money_def intro!: failed_ends)
        next
          case (Some z)
          obtain rt r where z: "z = (rt, r)" by (rule prod.exhaust)
          note px = pick_exact [OF pick [unfolded Some z]]
          define st5 where "st5 = snd (on_gw (on_channels (MarkHealth (ce_clock (ie_call e) (M_health (length fails))) (rt_channel rt) True '''')) st4)"
          have m5: "same_money st2 st5" using same_money_trans [OF m4 same_money_gw(1)] by (simp add: st5_def)
          have fin: "finish_channel h e ak m q ratio cost ref rt r rec1 st5 = ((rep, rec'), st')"
            using def3 ne unfolding Some z option.case prod.case st5_def [symmetric] by (auto split: prod.splits)
          have cnt: "int (actualCount r) = gq_n q" using px ir assms(5) by (simp add: expectedImageCount_def)
          have "rt \<in> set routes" using px ir by auto
          then have "0 \<le> final \<and> final < 2 ^ 62 \<and> (final = 0 \<longrightarrow> cost = 0)"
            if "final = ComputeImageCost (Some m) (gq_n q) (rnd64 (ratio * channel_ratio (rt_channel rt))) (gq_size q)" for final
            using assms(6) fr that by (auto simp: priced_def cost_def Let_def)
          note fp = this [OF refl]
          show ?thesis
            by (rule finish_channel_ends [OF fin conjunct1 [OF pre] m5 pos assms(3) c1 assms(2) u2 cnt assms(5) _ _ _ refl]) (use fp in simp_all)
        qed
      qed
    qed
  qed
qed

lemma channel_image_none:
  assumes "dispatchImageToChannel h e ak m q refs rec ratio st = (None, st')"
  shows "same_money st st'"
proof -
  obtain rr st1 where res: "on_gw (on_channels (Resolve (ch_cipher (ih_base h)) (m_slug m) ModalityImage)) st = (rr, st1)" by (rule prod.exhaust)
  have "st' = st1"
  proof (cases "\<exists>routes. rr = Inr routes \<and> routes \<noteq> []")
    case False
    then show ?thesis using assms unfolding dispatchImageToChannel_def res by (cases rr) auto
  next
    case True
    then obtain routes where "rr = Inr routes" "routes \<noteq> []" by blast
    then show ?thesis using assms unfolding dispatchImageToChannel_def res
      by (auto simp: Let_def split: prod.splits if_splits sum.splits option.splits channel_refusal.splits)
  qed
  then show ?thesis using same_money_eqs(2) [OF res] by simp
qed

section \<open>The endpoints\<close>

datatype image_call = Generate gen_request | Edit edit_form

fun serve_call :: "images_handler \<Rightarrow> image_env \<Rightarrow> api_key \<Rightarrow> image_call \<Rightarrow> image_gw \<Rightarrow> image_reply \<times> image_gw" where
  "serve_call h e ak (Generate q) st = ImageGenerations h e ak q st"
| "serve_call h e ak (Edit em) st = ImageEdits h e ak em st"

definition default_model :: "string \<Rightarrow> string" where
  "default_model s = (if s = '''' then ''gpt-image-2'' else s)"

fun call_model :: "image_call \<Rightarrow> string" where
  "call_model (Generate q) = default_model (gq_model q)"
| "call_model (Edit em) = default_model (em_model em)"

fun call_count :: "model_row \<Rightarrow> image_call \<Rightarrow> int" where
  "call_count m (Generate q) = normalizeImageCountByModel m (gq_n q)"
| "call_count m (Edit em) = normalizeImageCountByModel m (clamp_count (em_n em))"

fun call_size :: "image_call \<Rightarrow> string" where
  "call_size (Generate q) = gq_size q"
| "call_size (Edit em) = em_size em"

text \<open>The prices of both ways a call can take.\<close>

definition call_priced :: "images_handler \<Rightarrow> image_env \<Rightarrow> model_row \<Rightarrow> channel_db sess \<Rightarrow> image_call \<Rightarrow> bool" where
  "call_priced h e m cs c \<longleftrightarrow>
     priced h m (call_ratio (ie_call e)) cs (call_count m c) (if m_output_size m then normalizeImageSize (call_size c) else '''') \<and>
     priced h m (call_ratio (ie_call e)) cs (call_count m c) (normalizeImageSize (call_size c))"

lemma admit_model_Inr:
  assumes "admit_model e ak slug st = (r, st1)"
  shows "same_money st st1 \<and> gw_channels (fst st1) = gw_channels (fst st)"
proof -
  obtain x st2 where b: "on_gw (on_catalog (BySlug (ce_clock (ie_call e) M_lookup) slug)) st = (x, st2)" by (rule prod.exhaust)
  have "gw_channels (fst st2) = gw_channels (fst st)" using b by (auto simp: on_gw_def on_catalog_def split: prod.splits)
  then show ?thesis using assms same_money_eqs(4) [OF b] by (auto simp: admit_model_def b split: if_splits sum.splits)
qed

lemma limit_requests_frame:
  assumes "limit_requests h e ak st = (r, st1)"
  shows "same_money st st1 \<and> gw_channels (fst st1) = gw_channels (fst st)"
  using assms by (auto simp: limit_requests_def on_gw_def on_pool_def same_money_def split: prod.splits)

text \<open>After admission: the channels, then the pool.\<close>

lemma routed_ends:
  assumes "(case dispatchImageToChannel h e ak m q refs rec ratio st of
        (Some out, st3) \<Rightarrow> (out, st3)
      | (None, st3) \<Rightarrow> image_through_runner h e ak m what prompt n sz attempts refs rec ratio st3) = ((rep, rec'), st')"
    and "gw_billing (fst st) = (d, [])" and "roomy (k_user ak) d" and "ul_cost rec = 0"
    and "ie_world e = real_world (ih_runner h) env cancelled fin" and "1 \<le> n" and "gq_n q = n"
    and "priced h m ratio (gw_channels (fst st)) n (gq_size q)" and "priced h m ratio (gw_channels (fst st)) n sz"
  shows "image_ends ak n rep rec' st st'"
proof -
  obtain out st3 where d: "dispatchImageToChannel h e ak m q refs rec ratio st = (out, st3)" by (rule prod.exhaust)
  show ?thesis
  proof (cases out)
    case None
    note sm = channel_image_none [OF d [unfolded None]]
    have b3: "gw_billing (fst st3) = (d, [])" using sm assms(2) by (simp add: same_money_def)
    have "image_through_runner h e ak m what prompt n sz attempts refs rec ratio st3 = ((rep, rec'), st')"
      using assms(1) by (simp add: d None)
    from runner_ends [OF this b3 assms(3-6)] have "image_ends ak n rep rec' st3 st'" using assms(9) by (simp add: priced_def Let_def)
    then show ?thesis using sm by (rule image_ends_lift)
  next
    case (Some x)
    then have "dispatchImageToChannel h e ak m q refs rec ratio st = (Some (rep, rec'), st')" using assms(1) d by auto
    from channel_image_ends [OF this assms(2-4)] show ?thesis using assms(6-8) by simp
  qed
qed

text \<open>What a call that reaches its usage record leaves.\<close>

definition body_ends :: "api_key \<Rightarrow> (model_row \<Rightarrow> int) \<Rightarrow> model_row option \<Rightarrow> image_reply \<Rightarrow> usage_log \<Rightarrow> image_gw \<Rightarrow> image_gw \<Rightarrow> bool" where
  "body_ends ak cnt mo rep rec st st' \<longleftrightarrow>
     (case mo of None \<Rightarrow> \<not> shown rep \<and> image_ends ak 0 rep rec st st' | Some m \<Rightarrow> image_ends ak (cnt m) rep rec st st')"

lemma fail_ends_same:
  assumes "same_money st st1" and "gw_billing (fst st) = (d, [])" and "ul_cost rec = 0"
  shows "image_ends ak n (IR_error http c) (fail_log code rec) st st1"
  using assms by (intro failed_ends) (simp_all add: same_money_def)

lemma generations_end:
  assumes "generations_body h e ak q st = ((rep, rec), st')" and "gw_billing (fst st) = (d, [])" and "roomy (k_user ak) d"
    and "ie_world e = real_world (ih_runner h) env cancelled fin" and "admit_model e ak (gq_model q) st = (ad, st1)"
    and "\<And>m. ad = Inr m \<Longrightarrow> call_priced h e m (gw_channels (fst st)) (Generate q)"
  shows "body_ends ak (\<lambda>m. call_count m (Generate q)) (case ad of Inl _ \<Rightarrow> None | Inr m \<Rightarrow> Some m) rep rec st st'"
proof -
  note a1 = admit_model_Inr [OF assms(5)]
  have b1: "gw_billing (fst st1) = (d, [])" using a1 assms(2) by (simp add: same_money_def)
  have z: "ul_cost (new_image_log e ak) = 0" by (simp add: new_image_log_def new_log_def)
  show ?thesis
  proof (cases ad)
    case (Inl x)
    then show ?thesis using assms(1,5) a1 assms(2) z
      by (auto simp: generations_body_def Let_def body_ends_def shown_def split: prod.splits intro!: fail_ends_same)
  next
    case (Inr m)
    define rec1 where "rec1 = (new_image_log e ak)\<lparr>ul_model := m_id m\<rparr>"
    define n where "n = normalizeImageCountByModel m (gq_n q)"
    have z1: "ul_cost rec1 = 0" using z by (simp add: rec1_def)
    obtain lm st2 where l: "limit_requests h e ak st1 = (lm, st2)" by (rule prod.exhaust)
    note l2 = limit_requests_frame [OF l]
    have m2: "same_money st st2" using same_money_trans a1 l2 by blast
    have b2: "gw_billing (fst st2) = (d, [])" "gw_channels (fst st2) = gw_channels (fst st)" using m2 assms(2) a1 l2 by (simp_all add: same_money_def)
    note def = assms(1) [unfolded generations_body_def Let_def assms(5) Inr prod.case sum.case, folded rec1_def n_def, unfolded l]
    note pr = assms(6) [OF Inr, unfolded call_priced_def call_count.simps call_size.simps, folded n_def]
    show ?thesis
    proof (cases "lm \<or> decodeReferenceInputs (ih_codecs h) (gq_refs q) = None")
      case True
      then show ?thesis using def m2 assms(2) z1 Inr by (cases lm) (auto simp: body_ends_def intro!: fail_ends_same)
    next
      case False
      then obtain refs where refs: "decodeReferenceInputs (ih_codecs h) (gq_refs q) = Some refs" and lm: "lm = False" by auto
      have "image_ends ak n rep rec st2 st'"
        by (rule routed_ends [OF def [unfolded lm prod.case bool.case refs option.case normalizeImageRequestByModel_def normalizeLocalImageRequestByModel_def n_def count_idem, folded n_def]
              b2(1) assms(3) z1 assms(4)])
           (use pr b2 count_range(1) [of m "gq_n q"] in \<open>simp_all add: n_def split: if_splits\<close>)
      then show ?thesis using image_ends_lift [OF _ m2] Inr by (simp add: body_ends_def n_def)
    qed
  qed
qed

lemma edits_end:
  assumes "edits_body h e ak em refs st = ((rep, rec), st')" and "gw_billing (fst st) = (d, [])" and "roomy (k_user ak) d"
    and "ie_world e = real_world (ih_runner h) env cancelled fin" and "admit_model e ak (default_model (em_model em)) st = (ad, st1)"
    and "\<And>m. ad = Inr m \<Longrightarrow> call_priced h e m (gw_channels (fst st)) (Edit em)"
  shows "body_ends ak (\<lambda>m. call_count m (Edit em)) (case ad of Inl _ \<Rightarrow> None | Inr m \<Rightarrow> Some m) rep rec st st'"
proof -
  note a1 = admit_model_Inr [OF assms(5)]
  have b1: "gw_billing (fst st1) = (d, [])" using a1 assms(2) by (simp add: same_money_def)
  have z: "ul_cost (new_image_log e ak) = 0" by (simp add: new_image_log_def new_log_def)
  note edef = assms(1) [unfolded edits_body_def Let_def, folded default_model_def, unfolded assms(5) prod.case]
  show ?thesis
  proof (cases ad)
    case (Inl x)
    then show ?thesis using edef a1 assms(2) z
      by (auto simp: body_ends_def shown_def split: prod.splits intro!: fail_ends_same)
  next
    case (Inr m)
    define rec1 where "rec1 = (new_image_log e ak)\<lparr>ul_model := m_id m\<rparr>"
    define n where "n = normalizeImageCountByModel m (clamp_count (em_n em))"
    have z1: "ul_cost rec1 = 0" using z by (simp add: rec1_def)
    obtain lm st2 where l: "limit_requests h e ak st1 = (lm, st2)" by (rule prod.exhaust)
    note l2 = limit_requests_frame [OF l]
    have m2: "same_money st st2" using same_money_trans a1 l2 by blast
    have b2: "gw_billing (fst st2) = (d, [])" "gw_channels (fst st2) = gw_channels (fst st)" using m2 assms(2) a1 l2 by (simp_all add: same_money_def)
    note def = edef [unfolded Inr prod.case sum.case, folded rec1_def n_def, unfolded l]
    note pr = assms(6) [OF Inr, unfolded call_priced_def call_count.simps call_size.simps, folded n_def]
    show ?thesis
    proof (cases lm)
      case True
      then show ?thesis using def m2 assms(2) z1 Inr by (auto simp: body_ends_def intro!: fail_ends_same)
    next
      case False
      then have lm: "lm = False" by simp
      have "image_ends ak n rep rec st2 st'"
        by (rule routed_ends [OF def [unfolded lm prod.case bool.case normalizeImageRequestByModel_def normalizeLocalImageRequestByModel_def n_def count_idem, folded n_def]
              b2(1) assms(3) z1 assms(4)])
           (use pr b2 count_range(1) [of m "clamp_count (em_n em)"] in \<open>simp_all add: n_def split: if_splits\<close>)
      then show ?thesis using image_ends_lift [OF _ m2] Inr by (simp add: body_ends_def n_def)
    qed
  qed
qed

definition logged_call :: "api_key \<Rightarrow> (int \<Rightarrow> bool) \<Rightarrow> image_reply \<Rightarrow> usage_log \<Rightarrow> gateway \<Rightarrow> gateway \<Rightarrow> bool" where
  "logged_call ak cnt rep rec g g' \<longleftrightarrow>
     gw_usage g' = gw_usage g @ [rec] \<and> (ul_status rec = ''success'') = shown rep \<and>
     (if shown rep then cnt (ul_images rec) else ul_cost rec = 0) \<and>
     charged (k_user ak) (ul_cost rec) (gw_billing g) (gw_billing g')"

lemma body_logged:
  assumes "body_ends ak cnt mo rep rec (g, ts) (g1, ts')" and "g' = write_log rec g1"
  shows "logged_call ak (\<lambda>k. \<exists>m. mo = Some m \<and> k = cnt m) rep rec g g'"
proof -
  have "ul_status rec \<noteq> ''''" using assms(1) by (auto simp: body_ends_def image_ends_def split: option.splits)
  then show ?thesis using assms by (auto simp: logged_call_def body_ends_def image_ends_def write_log_def split: option.splits)
qed


end
