(* ===== verification/Image_Task_Laws.thy ===== *)
theory Image_Task_Laws
  imports Image_Run_Laws
begin

text \<open>
  What a run leaves in the task table: the row of the task is marked running,
  then success or failed as the result says, and what the row keeps of the
  result decodes to it.
\<close>

section \<open>The task's row\<close>

text \<open>A property of the world that every attempt keeps is kept by the whole run.\<close>

definition attempts_keep :: "('w \<Rightarrow> bool) \<Rightarrow> 'w run_world \<Rightarrow> bool" where
  "attempts_keep I rw \<longleftrightarrow> (\<forall>b g k opt r w. I w \<longrightarrow> I (snd (rw_once rw b g k opt r w)))"

lemma if_both: "P a \<Longrightarrow> P b \<Longrightarrow> P (if c then a else b)"
  by simp

lemma retry_keeps:
  assumes "\<And>k opt r w. I w \<Longrightarrow> I (snd (once k opt r w))" and "I w"
  shows "I (snd (retry_from n once cancelled opt k r w))"
  using assms(2)
proof (induction n arbitrary: k r w)
  case (Suc n)
  obtain x w1 where x: "once k opt (new_result (rs_storage (r\<lparr>rs_attempts := k\<rparr>))) w = (x, w1)" by (rule prod.exhaust)
  obtain ok code ar where y: "x = (ok, code, ar)" by (rule prod_cases3)
  have "I w1" using assms(1) [OF Suc.prems, of k opt "new_result (rs_storage (r\<lparr>rs_attempts := k\<rparr>))"] x by simp
  then show ?case unfolding retry_from.simps Let_def x y prod.case using Suc.prems
    by (intro if_both [where P = "\<lambda>z. I (snd z)"]) (simp_all only: snd_conv Suc.IH)
qed simp

lemma runWithRetry_keeps:
  assumes "attempts_keep I rw" and "I w"
  shows "I (snd (runWithRetry (rw_once rw b g) cancelled opt r w))"
  unfolding runWithRetry_def by (rule retry_keeps [where I = I]) (use assms in \<open>simp_all add: attempts_keep_def\<close>)

lemma runBatch_keeps:
  assumes "attempts_keep I rw" and "I w"
  shows "I (snd (runBatch rw b mode opt n w))"
  using assms(2)
proof (induction n arbitrary: w)
  case (Suc n)
  obtain x w1 where x: "runWithRetry (rw_once rw b n) (rw_cancelled rw b n) opt (new_result mode) w = (x, w1)" by (rule prod.exhaust)
  obtain ok sub where y: "x = (ok, sub)" by (rule prod.exhaust)
  note s = x [unfolded y]
  then have "I w1" using runWithRetry_keeps [OF assms(1) Suc.prems, of b n "rw_cancelled rw b n" opt "new_result mode"] by simp
  moreover obtain srs w2 where t: "runBatch rw b mode opt n w1 = (srs, w2)" by (rule prod.exhaust)
  ultimately have "I w2" using Suc.IH [of w1] by simp
  then show ?case using s t by (simp add: Let_def)
qed simp

lemma batches_keep:
  assumes "attempts_keep I rw" and "I w"
  shows "I (snd (batches k rw b mode opt n acc w))"
  using assms(2)
proof (induction k arbitrary: b acc w)
  case (Suc k)
  obtain srs w1 where t: "runBatch rw b mode opt (n - runResultImageCount (fst acc)) w = (srs, w1)" by (rule prod.exhaust)
  then have "I w1" using runBatch_keeps [OF assms(1) Suc.prems, of b mode opt "n - runResultImageCount (fst acc)"] by simp
  then show ?case using Suc.prems Suc.IH t by (simp add: Let_def)
qed simp

lemma runParallel_keeps:
  assumes "attempts_keep I rw" and "I w"
  shows "I (snd (runParallel rw mode opt r w))"
proof -
  define sub where "sub = opt\<lparr>op_n := 1, op_task := ''''\<rparr>"
  define k where "k = max (nat (op_n opt)) (maxAttemptWindow (op_attempts opt))"
  obtain x w1 where x: "batches k rw 1 mode sub (nat (op_n opt)) (r\<lparr>rs_quota := []\<rparr>, 0, '''') w = (x, w1)" by (rule prod.exhaust)
  obtain r1 succ code where y: "x = (r1, succ, code)" by (rule prod_cases3)
  have "I w1" using batches_keep [OF assms, of k 1 mode sub "nat (op_n opt)" "(r\<lparr>rs_quota := []\<rparr>, 0, '''')"] x by simp
  then show ?thesis unfolding runParallel_def Let_def sub_def [symmetric] k_def [symmetric] x y prod.case by simp
qed

lemma run_keeps:
  assumes "attempts_keep I rw" and "I w"
  shows "I (snd (if p then parallel_run rn rw opt r w else single_run rn rw opt r w))"
proof -
  obtain r1 w1 where p: "runParallel rw (storageMode rn) opt r w = (r1, w1)" by (rule prod.exhaust)
  obtain x w2 where x: "runWithRetry (rw_once rw 0 0) (rw_cancelled rw 0 0) opt r w = (x, w2)" by (rule prod.exhaust)
  obtain ok r2 where y: "x = (ok, r2)" by (rule prod.exhaust)
  have "I w1" using runParallel_keeps [OF assms, of "storageMode rn" opt r] p by simp
  moreover have "I w2" using runWithRetry_keeps [OF assms, of 0 0 "rw_cancelled rw 0 0" opt r] x by simp
  ultimately show ?thesis using p x y by (simp add: parallel_run_def single_run_def Let_def split: prod.split)
qed

definition one_row :: "string \<Rightarrow> task_db \<Rightarrow> bool" where
  "one_row taskID d \<longleftrightarrow> (\<exists>t\<in>set (tasks d). it_task t = taskID)"

lemma exec_tasks_eval: "exec_tasks hit f (d, []) = (Inr (), (d\<lparr>tasks := map (\<lambda>t. if hit t then f t else t) (tasks d)\<rparr>, []))"
  by (simp add: exec_tasks_def update_tasks_def bindE_def okE_def)

definition row_there :: "string \<Rightarrow> image_st \<Rightarrow> bool" where
  "row_there taskID st \<longleftrightarrow> snd (fst st) = [] \<and> one_row taskID (fst (fst st))"

lemma exec_keeps_row:
  assumes "snd ts = []" and "one_row taskID (fst ts)" and "\<And>t. it_task (f t) = it_task t"
  shows "snd (snd (exec_tasks hit f ts)) = [] \<and> one_row taskID (fst (snd (exec_tasks hit f ts)))"
  using assms by (cases ts) (auto simp: exec_tasks_eval one_row_def)

lemma runOnce_keeps_row:
  assumes "row_there taskID st"
  shows "row_there taskID (snd (runOnce rn e opt r st))"
proof -
  obtain ts s where st: "st = (ts, s)" by (cases st)
  have "row_there taskID (snd (SetAccount x i ts), s')" for x i s'
    using assms exec_keeps_row [of ts taskID] by (simp add: row_there_def SetAccount_def st)
  then show ?thesis using assms by (auto simp: runOnce_def st row_there_def Let_def split: prod.splits sum.splits)
qed

lemma real_world_keeps_row: "attempts_keep (row_there taskID) (real_world rn env cancelled fin)"
  by (simp add: attempts_keep_def real_world_def runOnce_keeps_row)

lemma MarkRunning_keeps_row:
  assumes "row_there taskID (ts, s)"
  shows "row_there taskID (snd (MarkRunning now x i ts), s)"
  using assms exec_keeps_row [of ts taskID] by (simp add: row_there_def MarkRunning_def)

text \<open>What the row of the task says of the result.\<close>

definition row_says :: "string \<Rightarrow> int \<Rightarrow> run_result \<Rightarrow> task \<Rightarrow> bool" where
  "row_says taskID stop r t \<longleftrightarrow>
     it_task t = taskID \<and> it_finished t = Some (sql_now_ms stop) \<and>
     (if rs_status r = StatusSuccess
      then it_status t = StatusSuccess \<and> DecodeResultURLs t = rs_urls r \<and> DecodeFileIDs t = rs_files r \<and> DecodeThumbURLs t = rs_thumbs r
      else it_status t = StatusFailed \<and> it_error t = truncate_bytes (rs_code r) 500)"

definition texts_ok :: "run_result \<Rightarrow> bool" where
  "texts_ok r \<longleftrightarrow> list_all valid_utf8 (rs_urls r @ rs_files r @ rs_thumbs r)"

lemma rows_after:
  assumes "one_row taskID d" and "\<And>t. it_task (f t) = it_task t" and "\<And>t. it_task t = taskID \<Longrightarrow> P (f t)"
    and "d' = d\<lparr>tasks := map (\<lambda>t. if it_task t = taskID then f t else t) (tasks d)\<rparr>"
  shows "(\<exists>t\<in>set (tasks d'). it_task t = taskID) \<and> (\<forall>t\<in>set (tasks d'). it_task t = taskID \<longrightarrow> P t)"
proof -
  obtain t where "t \<in> set (tasks d)" "it_task t = taskID" using assms(1) by (auto simp: one_row_def)
  then have "f t \<in> set (tasks d')" "it_task (f t) = taskID" using assms(2,4) by force+
  then show ?thesis using assms(3,4) by (auto split: if_splits)
qed

lemma persist_row:
  assumes "op_task opt \<noteq> ''''" and "row_there (op_task opt) st" and "texts_ok r"
    and "\<And>x. unmarshal_strings (rn_jn rn x) = unmarshal_strings x"
    and "persist rn stop opt r st = st'"
  shows "(\<exists>t\<in>set (tasks (fst (fst st'))). it_task t = op_task opt) \<and>
    (\<forall>t\<in>set (tasks (fst (fst st'))). it_task t = op_task opt \<longrightarrow> row_says (op_task opt) stop r t)"
proof -
  obtain d s where st: "st = ((d, []), s)" and one: "one_row (op_task opt) d"
    using assms(2) by (cases st, cases "fst st") (auto simp: row_there_def)
  have dec: "decode_slice (Some (rn_jn rn (marshal_slice xs))) = xs" if "list_all valid_utf8 xs" for xs
    using decode_marshal_slice [OF that] assms(4) .
  note decs = dec [of "rs_urls r"] dec [of "rs_files r"] dec [of "rs_thumbs r"]
  show ?thesis
  proof (cases "rs_status r = StatusSuccess")
    case True
    show ?thesis
      by (rule rows_after [OF one, where f = "\<lambda>t. t\<lparr>it_status := StatusSuccess, it_conversation := rs_conv r,
          it_files := Some (rn_jn rn (marshal_slice (rs_files r))), it_urls := Some (rn_jn rn (marshal_slice (rs_urls r))),
          it_thumbs := Some (rn_jn rn (marshal_slice (rs_thumbs r))), it_storage := NormalizeStorageMode (rs_storage r),
          it_cost := 0, it_finished := Some (sql_now_ms stop)\<rparr>"])
      (use True assms(1,3,5) decs in \<open>auto simp: st persist_def MarkSuccess_def exec_tasks_eval row_says_def texts_ok_def
          DecodeResultURLs_def DecodeFileIDs_def DecodeThumbURLs_def\<close>)
  next
    case False
    show ?thesis
      by (rule rows_after [OF one, where f = "\<lambda>t. t\<lparr>it_status := StatusFailed,
          it_error := truncate_bytes (rs_code r) 500, it_finished := Some (sql_now_ms stop)\<rparr>"])
      (use False assms(1,5) in \<open>auto simp: st persist_def MarkFailed_def exec_tasks_eval row_says_def\<close>)
  qed
qed

lemma Run_row:
  assumes "Run rn (real_world rn env cancelled fin) start stop opt st = (r, st')"
    and "op_task opt \<noteq> ''''" and "row_there (op_task opt) st" and "texts_ok r"
    and "\<And>x. unmarshal_strings (rn_jn rn x) = unmarshal_strings x"
  shows "(\<exists>t\<in>set (tasks (fst (fst st'))). it_task t = op_task opt) \<and>
    (\<forall>t\<in>set (tasks (fst (fst st'))). it_task t = op_task opt \<longrightarrow> row_says (op_task opt) stop r t)"
proof -
  define op where "op = normalizeOptions rn opt"
  define rw where "rw = real_world rn env cancelled fin"
  have task: "op_task op = op_task opt" by (simp add: op_def normalizeOptions_def)
  define st1 where "st1 = (snd (MarkRunning start (op_task op) 0 (fst st)), snd st)"
  have "row_there (op_task opt) st1"
    using MarkRunning_keeps_row [of "op_task opt" "fst st" "snd st"] assms(3) by (simp add: st1_def)
  moreover obtain r2 w where w: "(if op_n op > 1 then parallel_run rn rw op (new_result (storageMode rn)) st1
      else single_run rn rw op (new_result (storageMode rn)) st1) = (r2, w)" by (rule prod.exhaust)
  ultimately have "row_there (op_task opt) w"
    using run_keeps [OF real_world_keeps_row [of "op_task opt" rn env cancelled fin, folded rw_def], of st1 "op_n op > 1" rn op "new_result (storageMode rn)"]
    by simp
  moreover have "r2 = r \<and> persist rn stop op r2 w = st'"
  proof -
    have "(if op_task op \<noteq> '''' then (snd (MarkRunning start (op_task op) 0 (fst st)), snd st) else st) = st1"
      using assms(2) by (simp add: task st1_def)
    then show ?thesis using assms(1) w unfolding Run_def Let_def op_def [symmetric] rw_def [symmetric]
      by (simp only: prod.case prod.inject simp_thms) (elim conjE, simp only:)
  qed
  ultimately show ?thesis using persist_row [of op w r rn stop st'] assms(2,4,5) by (elim conjE) (simp add: task)
qed

end
