(* ===== verification/Image_Cases.thy ===== *)
theory Image_Cases
  imports Image_Task_Laws Scheduler_Laws
begin

text \<open>
  What a run of the image runner promises: as many images as were asked for, never one of the references the user
  sent, a bounded number of attempts, and a task row that says how the run ended. A demonstration runner with one
  account and one task shows each of them at work.
\<close>

section \<open>Reference images\<close>

lemma filtered_refs: "ref \<in> set (filterOutReferenceFileIDs refs ids) \<Longrightarrow> normalizeImageFileRefID ref = '''' \<or> normalizeImageFileRefID ref \<notin> ids"
  by (auto simp: filterOutReferenceFileIDs_def)

lemma gather_refs_filtered:
  assumes "gather_refs e opt uploads conv sr = Inr refs" and "ref \<in> set refs"
  shows "normalizeImageFileRefID ref = '''' \<or> normalizeImageFileRefID ref \<notin> referenceUploadFileIDSet uploads"
  using assms by (auto simp: gather_refs_def Let_def dest: filtered_refs split: if_splits prod.splits poll_status.splits)

lemma upload_references_results:
  "upload_references rn e k rs l s = (Inr uploads, l', s') \<Longrightarrow>
   uploads = map (\<lambda>i. case iu_upload (ae_up e) (k + i) (rs ! i) of Inr f \<Rightarrow> f | Inl _ \<Rightarrow> '''') [0..<length rs]"
proof (induction rs arbitrary: k l s uploads l' s')
  case (Cons r rs)
  obtain out l1 s1 where u: "upload_references rn e (k + 1) rs l s = (out, l1, s1)" by (rule prod_cases3)
  obtain f where f: "iu_upload (ae_up e) k r = Inr f" using Cons.prems by (cases "iu_upload (ae_up e) k r") (auto split: prod.splits)
  obtain fs where fs: "out = Inr fs" "uploads = f # fs" using Cons.prems u f by (auto split: sum.splits)
  show ?case using Cons.IH [OF u [unfolded fs]] f fs
    by (simp add: map_upt_Suc del: upt_Suc)
qed simp

text \<open>The identifier chatgpt.com gave to the reference image of a position.\<close>

definition uploaded :: "attempt_env \<Rightarrow> run_options \<Rightarrow> nat \<Rightarrow> string" where
  "uploaded e opt i = (case iu_upload (ae_up e) i (op_refs opt ! i) of Inr f \<Rightarrow> normalizeImageFileRefID f | Inl _ \<Rightarrow> '''')"

text \<open>
  C12. An attempt that succeeds returns none of the reference images its user sent: whatever prefixes the stream or the
  polled conversation writes before a file's identifier, no returned file is one of the files uploaded for this
  attempt.
\<close>

theorem references_never_returned:
  assumes "runOnce rn e opt (new_result mode) st = ((True, code, r), st')" and "f \<in> set (rs_files r)"
    and "i < length (op_refs opt)" and "uploaded e opt i \<noteq> ''''"
  shows "normalizeImageFileRefID f \<noteq> uploaded e opt i"
  using assms(1)
proof (rule runOnce_success)
  fix uploads l0 s0 l1 s1 sr refs r1 l2 s2 l3 s3
  assume u: "upload_references rn e 0 (op_refs opt) l0 s0 = (Inr uploads, l1, s1)"
    and g: "gather_refs e opt uploads (ss_conv sr) sr = Inr refs"
    and c: "collect_images rn e (ss_conv sr) refs r1 l2 s2 = (Inr r, l3, s3)"
    and n: "rs_thumbs r1 = rs_thumbs (new_result mode)" "rs_archive r1 = rs_archive (new_result mode)"
  have "f \<in> set refs" using collect_images_delivers [OF c] n assms(2) by (auto simp: new_result_def)
  moreover have "uploaded e opt i \<in> referenceUploadFileIDSet uploads"
    unfolding referenceUploadFileIDSet_def upload_references_results [OF u] using assms(3,4)
    by (auto simp: uploaded_def image_iff split: sum.splits intro!: bexI [of _ i])
  ultimately show ?thesis using gather_refs_filtered [OF g, of f] assms(4) by auto
qed

section \<open>The run\<close>

text \<open>
  C11. A run that ends in success has exactly the images asked for (one when none or fewer were asked for): that many
  files, that many addresses, and thumbnails for all of them or for none, whatever the attempts, retries and batches in between
  returned; and the quota it takes from the accounts is at most that number of images.
\<close>

theorem image_run_delivers:
  assumes "Run rn (real_world rn env cancelled fin) start stop opt st = (r, st')" and "rs_status r = StatusSuccess"
  shows "shows_all (asked opt) r \<and> quota_within r"
  using assms by (rule Run_success)

text \<open>
  A run ends after a bounded number of attempts, whatever the upstream answers: for one image no more than the
  attempt window, for n images no more than the greater of n and the window, times n times the window.
\<close>

theorem image_run_bounded:
  "rs_attempts (fst (Run rn rw start stop opt st)) \<le>
    (if asked opt = 1 then maxAttemptWindow (op_attempts opt)
     else max (asked opt) (maxAttemptWindow (op_attempts opt)) * (asked opt * maxAttemptWindow (op_attempts opt)))"
proof -
  obtain r st' where r: "Run rn rw start stop opt st = (r, st')" by (rule prod.exhaust)
  show ?thesis using Run_attempts [OF r] unfolding r fst_conv .
qed

text \<open>
  When the task table answers, the run leaves the row of its task finished: success with the result's
  addresses, files and thumbnails, read back as they were, or failed with the result's code.
\<close>

theorem image_run_finishes_task:
  assumes "Run rn (real_world rn env cancelled fin) start stop opt st = (r, st')"
    and "op_task opt \<noteq> ''''" and "row_there (op_task opt) st" and "texts_ok r"
    and "\<And>x. unmarshal_strings (rn_jn rn x) = unmarshal_strings x"
  shows "(\<exists>t\<in>set (tasks (fst (fst st'))). it_task t = op_task opt) \<and>
    (\<forall>t\<in>set (tasks (fst (fst st'))). it_task t = op_task opt \<longrightarrow> row_says (op_task opt) stop r t)"
  using assms by (rule Run_row)

text \<open>
  A rate-limited attempt is repeated on another account even when one attempt was asked for: a run for one image with at
  most one attempt, whose attempts are all answered rate-limited and none cancelled, makes two.
\<close>

theorem one_attempt_makes_two:
  assumes "\<And>k r w. \<exists>a w'. rw_once rw 0 0 k (normalizeOptions rn opt) r w = ((False, ''rate_limited'', a), w')"
    and "\<And>k. \<not> rw_cancelled rw 0 0 k" and "op_attempts opt \<le> 1" and "op_n opt \<le> 1"
  shows "rs_attempts (fst (Run rn rw start stop opt st)) = 2"
proof -
  define op where "op = normalizeOptions rn opt"
  have op: "op_attempts op = 1" "op_n op = 1" using assms(3,4) by (auto simp: op_def normalizeOptions_def)
  note once = assms(1) [folded op_def]
  have lim: "retryLimit 1 ''rate_limited'' = 2" "isRetryableImageFailure ''rate_limited''"
    by (simp_all add: retryLimit_def isRetryableImageFailure_def)
  have "rs_attempts (snd (fst (runWithRetry (rw_once rw 0 0) (rw_cancelled rw 0 0) op r w))) = 2 \<and>
    \<not> fst (fst (runWithRetry (rw_once rw 0 0) (rw_cancelled rw 0 0) op r w))" for r w
  proof -
    obtain a1 w1 where 1: "rw_once rw 0 0 1 op (new_result (rs_storage r)) w = ((False, ''rate_limited'', a1), w1)" using once by blast
    obtain a2 w2 where 2: "rw_once rw 0 0 (Suc (Suc 0)) op (new_result (rs_storage r)) w1 = ((False, ''rate_limited'', a2), w2)" using once by blast
    have "maxAttemptWindow 1 = Suc (Suc 0)" by (simp add: maxAttemptWindow_def)
    then show ?thesis using 1 2 assms(2) lim
      by (simp add: runWithRetry_def op Let_def copyRunResultState_def)
  qed
  note two = this
  define st1 where "st1 = (if op_task op \<noteq> '''' then (snd (MarkRunning start (op_task op) 0 (fst st)), snd st) else st)"
  obtain x w where x: "runWithRetry (rw_once rw 0 0) (rw_cancelled rw 0 0) op (new_result (storageMode rn)) st1 = (x, w)" by (rule prod.exhaust)
  obtain ok r where y: "x = (ok, r)" by (rule prod.exhaust)
  have "rs_attempts r = 2" "\<not> ok" using two [of "new_result (storageMode rn)" st1] by (simp_all add: x y)
  then show ?thesis using op(2) unfolding Run_def Let_def op_def [symmetric] st1_def [symmetric] single_run_def x y prod.case
    by simp
qed

section \<open>A demonstration runner\<close>

definition demo_upstream :: image_upstream where
  "demo_upstream =
     \<lparr>iu_new = (\<lambda>_. None),
      iu_requirements = (\<lambda>_. Inr \<lparr>cr_token = ''t'', cr_persona = '''', cr_pow_required = False\<rparr>),
      iu_proof = (\<lambda>_. None), iu_upload = (\<lambda>_ _. Inr ''file-up''), iu_prepare = (\<lambda>_. Inr ''''),
      iu_stream = (\<lambda>_. Inr \<lparr>ss_conv = ''c'', ss_files = [''file-service://file-up'', ''file-service://file-out''], ss_sediments = []\<rparr>),
      iu_poll = (\<lambda>_ _ _. (PollStatusTimeout, [], [])), iu_url = (\<lambda>_ _. Inr ''https://x/1''), iu_fetch = (\<lambda>_. Inr (''p'', ''''))\<rparr>"

definition demo_attempt :: attempt_env where
  "demo_attempt =
     \<lparr>ae_world = \<lparr>w_draws = (\<lambda>_ _. demo_draws ''A''), w_dur = (\<lambda>_. 0), w_late = (\<lambda>_. 0), w_cancelled = (\<lambda>_. False), w_others = (\<lambda>_ s. s)\<rparr>,
      ae_dispatch = 5000000000, ae_mark = 5000, ae_release = 6000, ae_up = demo_upstream\<rparr>"

definition demo_runner :: image_runner where
  "demo_runner =
     \<lparr>rn_cipher = demo_aead, rn_sched = demo_sched, rn_scan = (\<lambda>as. as), rn_zone = 0, rn_jn = (\<lambda>x. x), rn_files = None, rn_mode = ''local'',
      rn_uploader = False, rn_channel = None, rn_upload = (\<lambda>_ _. None), rn_thumb = (\<lambda>_. None), rn_download = (\<lambda>_. None), rn_poll_sec = 0\<rparr>"

definition demo_task :: task where
  "demo_task = \<lparr>it_id = 1, it_task = ''img_1'', it_user = 1, it_key = 7, it_model = 3, it_account = 0, it_prompt = ''a cat'', it_n = 1,
     it_size = ''1024x1024'', it_upscale = '''', it_storage = ''local'', it_status = ''dispatched'', it_conversation = '''', it_files = None,
     it_urls = None, it_thumbs = None, it_ref_count = 1, it_ref_urls = None, it_ref_thumbs = None, it_error = '''', it_estimated = 5,
     it_cost = 0, it_created = 0, it_started = None, it_finished = None, it_deleted = None\<rparr>"

definition demo_options :: run_options where
  "demo_options = \<lparr>op_task = ''img_1'', op_upstream = '''', op_prompt = ''a cat'', op_size = '''', op_n = 1, op_attempts = 1, op_timeout = 0,
     op_poll_wait = 0, op_refs = [\<lparr>ri_data = ''d'', ri_name = ''r.png'', ri_type = ''image/png''\<rparr>]\<rparr>"

definition demo_result :: run_result where
  "demo_result = (new_result ''local'')\<lparr>rs_conv := ''c'', rs_account := 1, rs_files := [''file-service://file-out''], rs_urls := [''https://x/1''],
     rs_types := [''image/png'']\<rparr>"

lemma demo_dispatch_image:
  "\<exists>l s'. Dispatch demo_aead demo_sched (\<lambda>as. as) 0 ''image'' (ae_world demo_attempt) 5000000000 (demo_world, []) = (Inr l, 5000000000, s') \<and>
     a_id (ls_account l) = 1"
  by (simp add: Dispatch_def dispatch_loop.simps demo_attempt_def ms_of_def tryDispatchOnce_def ListDispatchable_def bindE_def okE_def catchE_def tryLock_def Let_def
        Acquire_clean redis_get_def demo_world_accounts prepare_lease_def ensure_identity_def
        EnsureDeviceID_def EnsureSessionID_def exec_accounts_def update_accounts_def read_column_def live_emails_def
        Allocator_Lease_def ListRuntimeCandidates_def isRuntimeProxyModel_def demo_draws_def live_id_def a_live_def)

lemma demo_ids:
  "normalizeImageFileRefID ''file-up'' = ''file-up''" "normalizeImageFileRefID ''file-service://file-up'' = ''file-up''"
  "normalizeImageFileRefID ''file-service://file-out'' = ''file-out''"
  by (simp_all add: normalizeImageFileRefID_def strip_all.simps strip_scheme_def HasPrefix_def TrimSpace_def is_space_def byte_val_def)

lemma demo_once:
  assumes "op_task opt = t" and "op_upstream opt = ''auto''" and "op_n opt = 1" and "op_refs opt = op_refs demo_options"
  shows "\<exists>s'. runOnce demo_runner demo_attempt opt (new_result ''local'') ((d, []), (demo_world, [])) =
    ((True, '''', demo_result), (if t \<noteq> '''' then snd (SetAccount t 1 (d, [])) else (d, []), s'))"
proof -
  obtain l s1 where l: "Dispatch demo_aead demo_sched (\<lambda>as. as) 0 ''image'' (ae_world demo_attempt) 5000000000 (demo_world, []) = (Inr l, 5000000000, s1)"
    "a_id (ls_account l) = 1" using demo_dispatch_image by blast
  define r1 where "r1 = (new_result ''local'')\<lparr>rs_account := 1\<rparr>"
  have up: "ae_up demo_attempt = demo_upstream" by (simp add: demo_attempt_def)
  have ups: "upload_references demo_runner demo_attempt 0 (op_refs opt) l s1 = (Inr [''file-up''], l, s1)"
    using assms(4) by (simp add: up demo_upstream_def demo_options_def)
  have ge: "gather_refs demo_attempt opt [''file-up''] ''c''
      \<lparr>ss_conv = ''c'', ss_files = [''file-service://file-up'', ''file-service://file-out''], ss_sediments = []\<rparr> = Inr [''file-service://file-out'']"
    by (simp add: gather_refs_def referenceUploadFileIDSet_def filterOutReferenceFileIDs_def demo_ids assms(3))
  have co: "collect_images demo_runner demo_attempt ''c'' [''file-service://file-out''] (r1\<lparr>rs_conv := ''c''\<rparr>) l s1 = (Inr demo_result, l, s1)"
    by (simp add: collect_images_def up demo_upstream_def demo_runner_def r1_def demo_result_def new_result_def)
  have "snd (image_converse demo_runner demo_attempt opt \<lparr>cr_token = ''t'', cr_persona = '''', cr_pow_required = False\<rparr> '''' [''file-up''] r1 l s1) =
    (Inr demo_result, l, s1)"
    using ge co by (simp add: image_converse_def up demo_upstream_def Let_def)
  then have "snd (with_lease demo_runner demo_attempt opt r1 l s1) = (Inr demo_result, l, s1)"
    using ups by (simp add: with_lease_def up demo_upstream_def prove_work_def)
  then obtain r2 where w: "with_lease demo_runner demo_attempt opt ((new_result ''local'')\<lparr>rs_account := 1\<rparr>) l s1 = (r2, Inr demo_result, l, s1)"
    by (metis prod.collapse r1_def)
  have rn: "rn_cipher demo_runner = demo_aead" "rn_sched demo_runner = demo_sched" "rn_scan demo_runner = (\<lambda>as. as)" "rn_zone demo_runner = 0"
    "ae_dispatch demo_attempt = 5000000000" by (simp_all add: demo_runner_def demo_attempt_def)
  show ?thesis by (simp add: runOnce_def rn l Let_def w [unfolded One_nat_def] assms(1))
qed

definition demo_run_world :: "image_st run_world" where
  "demo_run_world = real_world demo_runner (\<lambda>_ _ _. demo_attempt) (\<lambda>_ _ _. False) (\<lambda>_. False)"

definition demo_image_st :: image_st where
  "demo_image_st = ((\<lparr>tasks = [demo_task], tasks_next = 2\<rparr>, []), (demo_world, []))"

lemma demo_image_run:
  "\<exists>r st'. Run demo_runner demo_run_world 5000 7000 demo_options demo_image_st = (r, st') \<and>
     rs_status r = StatusSuccess \<and> rs_files r = [''file-service://file-out''] \<and> rs_urls r = [''https://x/1''] \<and> rs_thumbs r = []"
proof -
  define op where "op = normalizeOptions demo_runner demo_options"
  have op: "op_task op = ''img_1''" "op_upstream op = ''auto''" "op_n op = 1" "op_attempts op = 1" "op_refs op = op_refs demo_options"
    by (simp_all add: op_def normalizeOptions_def demo_options_def)
  define d where "d = fst (snd (MarkRunning 5000 ''img_1'' 0 (\<lparr>tasks = [demo_task], tasks_next = 2\<rparr>, [])))"
  have st1: "(snd (MarkRunning 5000 ''img_1'' 0 (fst demo_image_st)), snd demo_image_st) = ((d, []), (demo_world, []))"
    by (simp add: d_def demo_image_st_def MarkRunning_def exec_tasks_eval)
  have mode: "storageMode demo_runner = ''local''" by (simp add: storageMode_def demo_runner_def NormalizeStorageMode_def task_words)
  obtain s' where s': "runOnce demo_runner demo_attempt op (new_result ''local'') ((d, []), (demo_world, [])) =
    ((True, '''', demo_result), (snd (SetAccount ''img_1'' 1 (d, [])), s'))" using demo_once [OF op(1,2,3,5), of d] by auto
  define ts where "ts = snd (SetAccount ''img_1'' 1 (d, []))"
  have w: "maxAttemptWindow 1 = Suc (Suc 0)" by (simp add: maxAttemptWindow_def)
  have new: "rs_storage (new_result ''local'') = ''local''" by (simp add: new_result_def)
  define r1 where "r1 = copyRunResultState ((new_result ''local'')\<lparr>rs_attempts := 1\<rparr>) demo_result"
  have rr: "runWithRetry (rw_once demo_run_world 0 0) (rw_cancelled demo_run_world 0 0) op (new_result ''local'') ((d, []), (demo_world, [])) =
    ((True, r1), (ts, s'))"
    using s' by (simp add: runWithRetry_def op w demo_run_world_def real_world_def Let_def new ts_def r1_def)
  have r1: "rs_files r1 = [''file-service://file-out'']" "rs_urls r1 = [''https://x/1'']" "rs_thumbs r1 = []"
    "trimRunResultImages 1 r1 = r1" "runResultImageCount r1 = 1"
    by (simp_all add: r1_def copyRunResultState_def demo_result_def new_result_def trimRunResultImages_def runResultImageCount_def)
  have ar: "archiveResultImages demo_runner ''img_1'' r1 = (True, r1\<lparr>rs_storage := ''local''\<rparr>)"
    by (simp add: archiveResultImages_def mode task_words) (simp add: demo_runner_def)
  define r2 where "r2 = r1\<lparr>rs_storage := ''local'', rs_quota := [(rs_account r1, 1)], rs_status := StatusSuccess, rs_code := ''''\<rparr>"
  have sr: "single_run demo_runner demo_run_world op (new_result ''local'') ((d, []), (demo_world, [])) = (r2, (ts, s'))"
    unfolding single_run_def rr prod.case op Let_def r1(4,5) ar by (simp add: r2_def quotaImageCount_def r1)
  have "Run demo_runner demo_run_world 5000 7000 demo_options demo_image_st = (r2, persist demo_runner 7000 op r2 (ts, s'))"
    unfolding Run_def Let_def op_def [symmetric] op mode st1 by (simp add: op st1 sr)
  moreover have "rs_status r2 = StatusSuccess" "rs_files r2 = [''file-service://file-out'']" "rs_urls r2 = [''https://x/1'']" "rs_thumbs r2 = []"
    by (simp_all add: r2_def r1)
  ultimately show ?thesis by blast
qed

lemma demo_image_utf8: "valid_utf8 ''https://x/1''" "valid_utf8 ''file-service://file-out''"
  by code_simp+

theorem image_run_delivers_witness:
  "shows_all 1 (fst (Run demo_runner demo_run_world 5000 7000 demo_options demo_image_st))"
proof -
  obtain r st' where r: "Run demo_runner demo_run_world 5000 7000 demo_options demo_image_st = (r, st')" "rs_status r = StatusSuccess"
    using demo_image_run by blast
  from image_run_delivers [OF r(1) [unfolded demo_run_world_def] r(2)] show ?thesis
    using r(1) by (simp add: asked_def demo_options_def)
qed

theorem image_run_finishes_task_witness:
  "\<exists>t r st'. Run demo_runner demo_run_world 5000 7000 demo_options demo_image_st = (r, st') \<and> t \<in> set (tasks (fst (fst st'))) \<and>
     it_status t = ''success'' \<and> DecodeResultURLs t = [''https://x/1''] \<and> it_finished t = Some 7000"
proof -
  obtain r st' where r: "Run demo_runner demo_run_world 5000 7000 demo_options demo_image_st = (r, st')" "rs_status r = StatusSuccess"
    "rs_files r = [''file-service://file-out'']" "rs_urls r = [''https://x/1'']" "rs_thumbs r = []"
    using demo_image_run by blast
  have there: "row_there (op_task demo_options) demo_image_st" by (simp add: row_there_def demo_image_st_def one_row_def demo_task_def demo_options_def)
  have "op_task demo_options \<noteq> ''''" "texts_ok r" "unmarshal_strings (rn_jn demo_runner x) = unmarshal_strings x" for x
    using r demo_image_utf8 by (simp_all add: demo_options_def demo_runner_def texts_ok_def)
  note fin = image_run_finishes_task [OF r(1) [unfolded demo_run_world_def] this(1) there this(2,3)]
  then obtain t where "t \<in> set (tasks (fst (fst st')))" "row_says (op_task demo_options) 7000 r t" by blast
  then show ?thesis using r by (auto simp: row_says_def task_words sql_now_ms_def)
qed

theorem references_never_returned_witness:
  "\<exists>r st'. runOnce demo_runner demo_attempt (demo_options\<lparr>op_upstream := ''auto''\<rparr>) (new_result ''local'') demo_image_st = ((True, '''', r), st') \<and>
     rs_files r = [''file-service://file-out''] \<and> normalizeImageFileRefID ''file-service://file-out'' \<noteq> ''file-up''"
proof -
  define op where "op = demo_options\<lparr>op_upstream := ''auto''\<rparr>"
  have op: "op_task op = ''img_1''" "op_upstream op = ''auto''" "op_n op = 1" "op_refs op = op_refs demo_options" "length (op_refs op) = 1"
    by (simp_all add: op_def demo_options_def)
  obtain st' where o: "runOnce demo_runner demo_attempt op (new_result ''local'') demo_image_st = ((True, '''', demo_result), st')"
    using demo_once [OF op(1-4), of "\<lparr>tasks = [demo_task], tasks_next = 2\<rparr>"] by (auto simp: demo_image_st_def SetAccount_def exec_tasks_eval)
  have u: "uploaded demo_attempt op 0 = ''file-up''"
    by (simp add: uploaded_def demo_attempt_def demo_upstream_def demo_ids)
  have "normalizeImageFileRefID ''file-service://file-out'' \<noteq> uploaded demo_attempt op 0"
    by (rule references_never_returned [OF o]) (simp_all add: op u demo_result_def demo_options_def)
  then have "normalizeImageFileRefID ''file-service://file-out'' \<noteq> ''file-up''" unfolding u .
  moreover have "rs_files demo_result = [''file-service://file-out'']" by (simp add: demo_result_def)
  ultimately show ?thesis using o [unfolded op_def] by blast
qed

theorem one_attempt_makes_two_witness:
  "rs_attempts (fst (Run demo_runner \<lparr>rw_once = (\<lambda>_ _ _ _ r w. ((False, ''rate_limited'', r), w)), rw_cancelled = (\<lambda>_ _ _. False),
     rw_batch_done = (\<lambda>_. False)\<rparr> 0 0 demo_options demo_image_st)) = 2"
proof (rule one_attempt_makes_two)
  show "\<exists>a w'. rw_once \<lparr>rw_once = (\<lambda>_ _ _ _ r w. ((False, ''rate_limited'', r), w)), rw_cancelled = (\<lambda>_ _ _. False),
     rw_batch_done = (\<lambda>_. False)\<rparr> 0 0 k (normalizeOptions demo_runner demo_options) r w = ((False, ''rate_limited'', a), w')"
    for k r and w :: image_st by (simp only: run_world.simps) blast
qed (simp_all add: demo_options_def)

end
