(* ===== verification/Gateway_Image_Cases.thy ===== *)
theory Gateway_Image_Cases
  imports Gateway_Image_Laws Gateway_Cases Image_Cases
begin

text \<open>
  The image endpoints on concrete requests: one image through a channel, and what happens when the channel's multiplier makes the image
  free.
\<close>

section \<open>A demonstration\<close>

definition demo_draw_model :: "int \<Rightarrow> model_row" where
  "demo_draw_model p = demo_chat_model\<lparr>m_id := 5, m_slug := ''gpt-image-2'', m_type := ''image'', m_image_price := p, m_image_price_2k := p,
     m_image_price_4k := p\<rparr>"

definition demo_image_channel :: "rat \<Rightarrow> channel" where
  "demo_image_channel x = demo_channel\<lparr>ch_ratio := x\<rparr>"

definition demo_image_mapping :: model_mapping where
  "demo_image_mapping = \<lparr>mp_id = 9, mp_channel = 4, mp_local = ''gpt-image-2'', mp_upstream = ''dall-e'', mp_modality = ''image'',
     mp_enabled = True, mp_priority = 0\<rparr>"

definition demo_image_channels :: "rat \<Rightarrow> channel_db" where
  "demo_image_channels x = \<lparr>channels = [demo_image_channel x], channels_next = 5, mappings = [demo_image_mapping], mappings_next = 10\<rparr>"

definition demo_image_gateway :: "int \<Rightarrow> rat \<Rightarrow> int \<Rightarrow> gateway" where
  "demo_image_gateway p x b = (demo_gateway b)\<lparr>gw_channels := (demo_image_channels x, []),
     gw_catalog := (\<lparr>bySlug = [''gpt-image-2'' \<mapsto> demo_draw_model p], loadedAt = 0, refreshing = False\<rparr>,
        (\<lparr>models = [demo_draw_model p], models_next = 6, billing_ratios = Map.empty\<rparr>, []))\<rparr>"

definition demo_images_handler :: images_handler where
  "demo_images_handler = \<lparr>ih_base = demo_handler, ih_runner = demo_runner\<lparr>rn_download := (\<lambda>_. Some (''p'', ''image/png''))\<rparr>, ih_secret = [1, 2, 3],
     ih_save_refs = None, ih_ref_upload = (\<lambda>_. None),
     ih_codecs = \<lparr>cd_format = (\<lambda>_. None), cd_heic = (\<lambda>_. None), cd_fetch = (\<lambda>_. None)\<rparr>, ih_upath = (\<lambda>_. None)\<rparr>"

definition demo_image_env :: image_env where
  "demo_image_env = \<lparr>ie_call = demo_env, ie_times = (\<lambda>_. 0), ie_task = ''img_8'', ie_channel_task = ''img_9'',
     ie_world = real_world (ih_runner demo_images_handler) (\<lambda>_ _ _. demo_attempt) (\<lambda>_ _ _. False) (\<lambda>_. False), ie_mode = ''local'',
     ie_generate = (\<lambda>_ _ _. Inr \<lparr>ad_urls = [''https://x/1''], ad_b64s = []\<rparr>)\<rparr>"

definition demo_gen :: gen_request where
  "demo_gen = \<lparr>gq_model = '''', gq_prompt = ''a cat'', gq_n = 1, gq_size = '''', gq_format = '''', gq_refs = []\<rparr>"

definition demo_image_tables :: "task_db sess" where
  "demo_image_tables = (\<lparr>tasks = [], tasks_next = 1\<rparr>, [])"

definition demo_image_route :: "rat \<Rightarrow> route" where
  "demo_image_route x = \<lparr>rt_channel = demo_image_channel x, rt_mapping = demo_image_mapping, rt_upstream = ''dall-e'',
     rt_adapter = OpenAI_Adapter (params_of '''' (demo_image_channel x))\<rparr>"

lemma demo_image_resolve: "Resolve a ''gpt-image-2'' ''image'' (demo_image_channels x, []) = (Inr [demo_image_route x], (demo_image_channels x, []))"
  by (simp add: Resolve_def ResolveByLocalModel_def bindE_def okE_def joined_def demo_image_channels_def demo_image_channel_def demo_channel_def
    demo_image_mapping_def routable_def ch_live_def mk_route_def DecryptKey_def adapter_New_def demo_image_route_def List.map_filter_def
    ch_healthy_def ch_unhealthy_def)

lemma demo_image_parts:
  "ie_call demo_image_env = demo_env" "ie_times demo_image_env t = 0" "ie_channel_task demo_image_env = ''img_9''" "ie_mode demo_image_env = ''local''"
  "ie_generate demo_image_env rt k q = Inr \<lparr>ad_urls = [''https://x/1''], ad_b64s = []\<rparr>"
  "gq_model demo_gen = ''''" "gq_prompt demo_gen = ''a cat''" "gq_n demo_gen = 1" "gq_size demo_gen = ''''" "gq_refs demo_gen = []"
  "m_enabled (demo_draw_model p)" "m_type (demo_draw_model p) = ''image''" "m_slug (demo_draw_model p) = ''gpt-image-2''" "m_id (demo_draw_model p) = 5"
  "\<not> m_output_size (demo_draw_model p)" "\<not> m_multi_image (demo_draw_model p)"
  "ih_base demo_images_handler = demo_handler"
  by (simp_all add: demo_image_env_def demo_gen_def demo_draw_model_def demo_images_handler_def demo_chat_model_def)

lemma demo_image_state:
  "gw_channels (demo_image_gateway p x b) = (demo_image_channels x, [])" "gw_usage (demo_image_gateway p x b) = []"
  "gw_billing (demo_image_gateway p x b) = gw_billing (demo_gateway b)"
  "(demo_image_gateway p x b)\<lparr>gw_channels := (demo_image_channels x, [])\<rparr> = demo_image_gateway p x b"
  "(demo_image_gateway p x b)\<lparr>gw_pool := gw_pool (demo_image_gateway p x b)\<rparr> = demo_image_gateway p x b"
  by (simp_all add: demo_image_gateway_def demo_gateway_def)

lemma demo_image_lookup: "on_catalog (BySlug 0 ''gpt-image-2'') (demo_image_gateway p x b) = (Inr (demo_draw_model p), demo_image_gateway p x b)"
  by (simp add: on_catalog_def BySlug_def demo_image_gateway_def demo_gateway_def registry_ttl_def)

lemma demo_admit:
  "admit_model demo_image_env demo_caller ''gpt-image-2'' (demo_image_gateway p x b, ts) = (Inr (demo_draw_model p), (demo_image_gateway p x b, ts))"
  by (simp add: admit_model_def ModelAllowed_def list_allows_def demo_parts demo_image_parts on_gw_def demo_image_lookup)

lemma demo_unit_price: "ResolveImageUnitPrice (Some (demo_draw_model p)) '''' = p" "ResolveImageUnitPrice (Some (demo_draw_model p)) ''1024x1024'' = p"
  by (simp_all add: ResolveImageUnitPrice_def demo_draw_model_def Let_def)

definition demo_shown :: image_reply where
  "demo_shown = IR_images ''img_9'' (buildAPIImageData (sign_url demo_images_handler demo_image_env) ''img_9'' ''local'' [''https://x/1''] [] [])"

definition demo_log :: "int \<Rightarrow> usage_log" where
  "demo_log f = (new_image_log demo_image_env demo_caller)\<lparr>ul_model := 5, ul_request := ''c'', ul_status := ''success'', ul_images := 1, ul_cost := f\<rparr>"

lemma demo_archive:
  "archive_channel demo_images_handler t \<lparr>ad_urls = [''https://x/1''], ad_b64s = []\<rparr> =
     Some ((new_result ''local'')\<lparr>rs_status := ''success'', rs_code := '''', rs_archive := [\<lparr>si_index = 0, si_name = '''', si_data = ''p'', si_type = ''image/png''\<rparr>],
       rs_urls := [''https://x/1'']\<rparr>)"
  by (simp add: archive_channel_def decodeChannelInlineImages_def ArchiveExternalImages_def downloadArchiveImages_def demo_images_handler_def
      demo_runner_def storageMode_def NormalizeStorageMode_def task_words archiveResultImages_def new_result_def)

lemma demo_pick: "pickImageRoute (ie_generate demo_image_env) \<lparr>iq_model = a, iq_prompt = b, iq_n = 1, iq_size = c, iq_format = d, iq_references = []\<rparr> [demo_image_route x] =
    (Some (demo_image_route x, \<lparr>ad_urls = [''https://x/1''], ad_b64s = []\<rparr>), [])"
  by (simp add: imageGenerateWithRetry_def expectedImageCount_def numeral_2_eq_2 actualCount_def demo_image_parts trimAdapterImageResult_def
      appendAdapterImageResult_def Let_def)

lemma demo_generation:
  assumes p: "0 < p" "ComputeImageCost (Some (demo_draw_model p)) 1 1 '''' = p"
    and f: "ComputeImageCost (Some (demo_draw_model p)) 1 (rnd64 (channel_ratio (demo_image_channel x))) '''' = f"
    and pre: "PreDeduct 1 7 p ''c'' ''image prepay'' (gw_billing (demo_gateway b)) = (Inr (), s1)"
  shows "\<exists>g' ts'. ImageGenerations demo_images_handler demo_image_env demo_caller demo_gen (demo_image_gateway p x b, demo_image_tables) =
      (demo_shown, (g', ts')) \<and> gw_usage g' = [demo_log f] \<and>
    gw_billing g' = (if f > 0 then snd (Settle 1 7 p f ''c'' ''image settle'' s1) else s1)"
proof -
  define q where "q = demo_gen\<lparr>gq_model := ''gpt-image-2''\<rparr>"
  define q' where "q' = q\<lparr>gq_n := 1, gq_size := ''''\<rparr>"
  have q': "gq_n q' = 1" "gq_size q' = ''''" "gq_prompt q' = ''a cat''" "gq_model q' = ''gpt-image-2''" "gq_format q' = ''''"
    by (simp_all add: q'_def q_def demo_gen_def)
  let ?g = "demo_image_gateway p x b" and ?h = demo_images_handler and ?e = demo_image_env
  define rec1 where "rec1 = (new_image_log ?e demo_caller)\<lparr>ul_model := 5\<rparr>"
  have hold: "image_hold demo_caller p ''c'' ''image prepay'' (?g, ts) = (None, (?g\<lparr>gw_billing := s1\<rparr>, ts))" for ts
    using p(1) pre by (simp add: image_hold_def on_gw_def on_billing_def demo_parts demo_image_state)
  obtain ts2 where op: "open_task ?h ?e (new_task demo_caller (demo_draw_model p) ''img_9'' ''a cat'' 1 '''' (NormalizeStorageMode ''local'') 0 p) [] rf
      (?g\<lparr>gw_billing := s1\<rparr>, demo_image_tables) = (None, (?g\<lparr>gw_billing := s1\<rparr>, (ts2, [])))" for rf
    by (auto simp: open_task_def on_tasks_def Task_Create_def bindE_def okE_def insert_task_def demo_image_tables_def archiveTaskReferences_def)
  obtain mr cs where mh: "MarkHealth 0 (demo_image_channel x) True '''' (demo_image_channels x, []) = (mr, cs)" by (rule prod.exhaust)
  define g5 where "g5 = (?g\<lparr>gw_billing := s1\<rparr>)\<lparr>gw_channels := cs\<rparr>"
  obtain g6 ts6 where fin: "finish_channel ?h ?e demo_caller (demo_draw_model p) q' 1 p ''c'' (demo_image_route x) \<lparr>ad_urls = [''https://x/1''], ad_b64s = []\<rparr>
      (rec1\<lparr>ul_request := ''c''\<rparr>) (g5, (ts2, [])) = ((demo_shown, demo_log f), (g6, ts6))"
    "gw_usage g6 = []" "gw_billing g6 = (if f > 0 then snd (Settle 1 7 p f ''c'' ''image settle'' s1) else s1)"
  proof -
    have rt: "rt_channel (demo_image_route x) = demo_image_channel x" by (simp add: demo_image_route_def)
    have a: "actualCount \<lparr>ad_urls = [''https://x/1''], ad_b64s = []\<rparr> = 1" by (simp add: actualCount_def)
    have log: "(rec1\<lparr>ul_request := ''c''\<rparr>)\<lparr>ul_status := ''success'', ul_model := 5, ul_images := 1, ul_cost := f\<rparr> = demo_log f"
      by (simp add: rec1_def demo_log_def)
    have g5: "gw_usage g5 = []" "gw_billing g5 = s1" by (simp_all add: g5_def demo_image_state)
    show thesis
      by (rule that [of "fst (image_settle ?e demo_caller (0 < f) p f ''c'' ''image settle'' (g5, snd (MarkSuccess (rn_jn (ih_runner ?h)) 0 ''img_9'' '''' [] [''https://x/1''] [] ''local'' f (ts2, []))))"
            "snd (image_settle ?e demo_caller (0 < f) p f ''c'' ''image settle'' (g5, snd (MarkSuccess (rn_jn (ih_runner ?h)) 0 ''img_9'' '''' [] [''https://x/1''] [] ''local'' f (ts2, []))))"])
         (use f log g5 in \<open>simp_all add: finish_channel_def rt a demo_image_parts q' demo_archive new_result_def on_tasks_def MarkSuccess_def exec_tasks_eval demo_shown_def
            image_settle_def on_gw_def on_billing_def on_keys_def demo_parts Let_def split: prod.split\<close>)
  qed
  have rt: "rt_channel (demo_image_route x) = demo_image_channel x" by (simp add: demo_image_route_def)
  have d: "dispatchImageToChannel ?h ?e demo_caller (demo_draw_model p) q' [] rec1 1 (?g, demo_image_tables) = (Some (demo_shown, demo_log f), (g6, ts6))"
    unfolding dispatchImageToChannel_def
    by (simp add: on_gw_def on_channels_def demo_image_parts demo_image_state demo_parts ModalityImage_def demo_image_resolve buildChannelImageRequest_def
        q' p(2) hold op demo_pick Let_def g5_def [symmetric] fin(1) rt mh del: pickImageRoute.simps)
  have body: "generations_body ?h ?e demo_caller q (?g, demo_image_tables) = ((demo_shown, demo_log f), (g6, ts6))"
    using d unfolding generations_body_def
    by (simp add: q_def demo_admit limit_requests_def on_gw_def on_pool_def AllowRPM_def okE_def refused_def demo_parts demo_image_parts rpm_cap_def call_ratio_def
        demo_image_state decodeReferenceInputs_def maxReferenceImages_def normalizeImageRequestByModel_def normalizeImageCountByModel_def rec1_def q'_def Let_def)
  have st: "ul_status (demo_log f) = ''success''" by (simp add: demo_log_def)
  have pr: "TrimSpace ''a cat'' \<noteq> ''''" by (simp add: TrimSpace_def is_space_def byte_val_def)
  show ?thesis using fin(2,3) body pr st by (simp add: ImageGenerations_def demo_image_parts q_def image_log_written_def write_log_def)
qed

section \<open>Behaviours\<close>

lemma demo_price: "0 < p \<Longrightarrow> p < 2 ^ 50 \<Longrightarrow> ComputeImageCost (Some (demo_draw_model p)) 1 1 '''' = p"
  "0 < p \<Longrightarrow> p < 2 ^ 50 \<Longrightarrow> ComputeImageCost (Some (demo_draw_model p)) 1 1 ''1024x1024'' = p"
  using scale_round_times [of p 1] by (simp_all add: ComputeImageCost_def demo_unit_price wrap64_def)

text \<open>A quarter of one credit rounds to nothing.\<close>

lemma quarter_of_one: "scale_round 1 (rnd64 (1/4)) = 0"
proof -
  have small: "(2::rat) powi (-1022) \<le> 1/8"
  proof -
    have "(2::rat) powi (-1022) \<le> 2 powi (-3)" by (rule power_int_increasing) auto
    then show ?thesis by (simp add: power_int_minus)
  qed
  have a: "\<bar>rnd64 (1/4) - 1/4\<bar> \<le> (1/4) / 2 ^ 53" by (rule rnd64_error) (use small in simp_all)
  then have q: "1/8 \<le> rnd64 (1/4)" "rnd64 (1/4) \<le> 3/8" by (simp_all only: abs_le_iff) (simp_all add: field_simps)
  have "\<bar>rnd64 (rnd64 (1/4)) - rnd64 (1/4)\<bar> \<le> rnd64 (1/4) / 2 ^ 53" by (rule rnd64_error) (use small q in linarith)+
  then have r: "0 \<le> rnd64 (rnd64 (1/4))" "rnd64 (rnd64 (1/4)) \<le> 7/16" using q by (simp_all only: abs_le_iff) (simp_all add: field_simps)
  have o: "rnd64 1 = 1" using rnd64_int [of 1] by simp
  define v where "v = rnd64 (rnd64 (1/4)) + 1/2"
  have v: "1/2 \<le> v" "v \<le> 15/16" using r by (simp_all add: v_def)
  have "\<bar>rnd64 v - v\<bar> \<le> v / 2 ^ 53" by (rule rnd64_error) (use small v in linarith)+
  then have "0 \<le> rnd64 v" "rnd64 v < 1" using v by (simp_all only: abs_le_iff) (simp_all add: field_simps)
  then show ?thesis by (simp add: scale_round_def o round_half_def v_def [symmetric] to_i64_nonneg floor_eq_iff)
qed

lemma demo_ratio: "0 < x \<Longrightarrow> channel_ratio (demo_image_channel x) = x"
  by (simp add: channel_ratio_def demo_image_channel_def)

lemma demo_hold:
  assumes "0 < p" "p \<le> b" "b < 1000"
  shows "PreDeduct 1 7 p ''c'' ''image prepay'' (gw_billing (demo_gateway b)) =
    (Inr (), (post 1 (- p) p (demo_row b 0 None) [mk_tx 1 7 KindFreeze (- p) (b - p) ''c'' ''image prepay''] (fst (gw_billing (demo_gateway b))), []))"
  using assms by (simp add: demo_gateway_def PreDeduct_eval demo_simps)

text \<open>
  An image made free by a channel's multiplier keeps its hold for ever: the call holds one credit, the channel's quarter of
  a credit rounds to nothing, and the settlement is skipped; the images are shown, the record says the call cost nothing, and
  the credit stays frozen.
\<close>

theorem channel_image_hold_leaks:
  "\<exists>g' ts'. ImageGenerations demo_images_handler demo_image_env demo_caller demo_gen (demo_image_gateway 1 (1/4) 10, demo_image_tables) =
      (demo_shown, (g', ts')) \<and> map ul_cost (gw_usage g') = [0] \<and> map ul_status (gw_usage g') = [''success''] \<and>
    users (fst (gw_billing g')) 1 = Some \<lparr>credit_balance = 9, credit_frozen = 1, version = 1, deleted_at = None\<rparr>"
proof -
  have f: "ComputeImageCost (Some (demo_draw_model 1)) 1 (rnd64 (channel_ratio (demo_image_channel (1/4)))) '''' = 0"
  proof -
    have a: "\<bar>rnd64 (1/4) - 1/4\<bar> \<le> (1/4) / 2 ^ 53"
    proof (rule rnd64_error)
      have "(2::rat) powi (-1022) \<le> 2 powi (-2)" by (rule power_int_increasing) auto
      then show "(2::rat) powi (-1022) \<le> 1/4" by (simp add: power_int_minus)
    qed simp
    then have "0 < rnd64 (1/4)" by (simp only: abs_le_iff) (simp add: field_simps)
    then show ?thesis using quarter_of_one by (simp add: ComputeImageCost_def demo_unit_price demo_ratio wrap64_def Let_def)
  qed
  from demo_generation [OF _ _ f demo_hold, of 10] show ?thesis
    using demo_price(1) [of 1] by (fastforce simp: demo_log_def post_def move_def demo_row_def)
qed


end
