(* ===== verification/Image_Proxy_Laws.thy ===== *)
theory Image_Proxy_Laws
  imports Image_Proxy
begin

text \<open>
  The signed addresses of images: what is signed determines the task, the image, its kind and its expiry; an address
  opens until it expires; the cache stays within its size and a hit is the last thing stored, still fresh; over any
  run of requests an image served is the one the stores hold for what was signed.
\<close>

section \<open>Texts with separators\<close>

lemma last_separator:
  assumes "a @ c # b = a' @ c # b'" and "c \<notin> set b" and "c \<notin> set b'"
  shows "a = a' \<and> b = b'"
proof -
  have t: "takeWhile (\<lambda>x. x \<noteq> c) (rev (x @ c # y)) = rev y" if "c \<notin> set y" for x y
    using that by (auto simp: takeWhile_append)
  have "rev b = rev b'" using t [OF assms(2), of a] t [OF assms(3), of a'] assms(1) by metis
  then show ?thesis using assms(1) by simp
qed

lemma dec_int_chars: "c \<in> set (dec_int i) \<Longrightarrow> is_digit c \<or> c = CHR ''-''"
  by (auto simp: dec_int_def split: if_splits dest: dec_nat_digits)

lemma dec_int_free: "CHR ''|'' \<notin> set (dec_int i)" "CHR '':'' \<notin> set (dec_int i)"
  by (auto dest!: dec_int_chars simp: is_digit_def byte_val_def)

lemma dec_int_inj: "dec_int i = dec_int j \<longleftrightarrow> i = j"
proof
  have digit: "hd (dec_nat n) \<noteq> CHR ''-''" for n
    using dec_nat_digits [of "hd (dec_nat n)" n] by (cases "dec_nat n") (auto simp: is_digit_def byte_val_def)
  assume eq: "dec_int i = dec_int j"
  have "i < 0 \<longleftrightarrow> j < 0" using eq digit by (auto simp: dec_int_def split: if_splits) (metis list.sel(1))+
  then show "i = j" using eq by (auto simp: dec_int_def dest!: dec_nat_inj split: if_splits)
qed simp

lemma resource_free: "CHR ''|'' \<notin> set (NormalizeResource r)" "CHR '':'' \<notin> set (NormalizeResource r)"
  by (auto simp: NormalizeResource_def resource_words)

text \<open>
  A signature is bound to what it was made for: two signed texts agree exactly when the task, the index, the kind of
  image and the expiry agree, whatever characters a task's identifier contains.
\<close>

theorem signed_text_unambiguous:
  "signed_text taskID idx res expMs = signed_text taskID' idx' res' expMs' \<longleftrightarrow>
   taskID = taskID' \<and> idx = idx' \<and> NormalizeResource res = NormalizeResource res' \<and> expMs = expMs'"
  (is "?l \<longleftrightarrow> ?r")
proof
  assume ?l
  then have "(taskID @ ''|'' @ dec_int idx @ ''|'' @ NormalizeResource res) @ CHR ''|'' # dec_int expMs =
      (taskID' @ ''|'' @ dec_int idx' @ ''|'' @ NormalizeResource res') @ CHR ''|'' # dec_int expMs'"
    by (simp add: signed_text_def)
  from last_separator [OF this dec_int_free(1) dec_int_free(1)]
  have 1: "(taskID @ ''|'' @ dec_int idx) @ CHR ''|'' # NormalizeResource res = (taskID' @ ''|'' @ dec_int idx') @ CHR ''|'' # NormalizeResource res'"
    and e: "expMs = expMs'" by (simp_all add: dec_int_inj)
  from last_separator [OF 1 resource_free(1) resource_free(1)]
  have 2: "taskID @ CHR ''|'' # dec_int idx = taskID' @ CHR ''|'' # dec_int idx'" and r: "NormalizeResource res = NormalizeResource res'" by simp_all
  from last_separator [OF 2 dec_int_free(1) dec_int_free(1)] e r show ?r by (simp add: dec_int_inj)
qed (simp add: signed_text_def)

lemma cache_key_eq:
  "cache_key taskID idx res = cache_key taskID' idx' res' \<longleftrightarrow> taskID = taskID' \<and> idx = idx' \<and> NormalizeResource res = NormalizeResource res'"
  (is "?l \<longleftrightarrow> ?r")
proof
  assume ?l
  then have "(taskID @ '':'' @ dec_int (int idx)) @ CHR '':'' # NormalizeResource res = (taskID' @ '':'' @ dec_int (int idx')) @ CHR '':'' # NormalizeResource res'"
    by (simp add: cache_key_def)
  from last_separator [OF this resource_free(2) resource_free(2)]
  have 1: "taskID @ CHR '':'' # dec_int (int idx) = taskID' @ CHR '':'' # dec_int (int idx')" and r: "NormalizeResource res = NormalizeResource res'" by simp_all
  from last_separator [OF 1 dec_int_free(2) dec_int_free(2)] r show ?r by (simp add: dec_int_inj)
qed (simp add: cache_key_def)

section \<open>The cache\<close>

lemma evict_over_subset: "set (evict_over mx items) \<subseteq> set items"
proof (induction mx items rule: evict_over.induct)
  case (1 mx items)
  then show ?case by (subst evict_over.simps) (auto simp: Let_def)
qed

lemma distinct_filter_keys: "distinct (map fst items) \<Longrightarrow> distinct (map fst (filter P items))"
  by (simp add: distinct_map_filter)

lemma evict_over_distinct: "distinct (map fst items) \<Longrightarrow> distinct (map fst (evict_over mx items))"
proof (induction mx items rule: evict_over.induct)
  case (1 mx items)
  then show ?case by (subst evict_over.simps) (auto simp: Let_def distinct_filter_keys)
qed

lemma oldest_named:
  assumes "items \<noteq> []" and "'''' \<notin> fst ` set items"
  shows "fst (oldest items ('''', t)) \<noteq> ''''"
proof -
  have "fst (oldest its (k, t)) \<noteq> ''''" if "k \<noteq> ''''" "'''' \<notin> fst ` set its" for its k t
    using oldest_in [of its "(k, t)"] that by (metis fst_conv insertE)
  then show ?thesis using assms by (cases items) auto
qed

lemma evict_over_length: "'''' \<notin> fst ` set items \<Longrightarrow> length (evict_over mx items) \<le> mx"
proof (induction mx items rule: evict_over.induct)
  case (1 mx items)
  show ?case
  proof (cases "length items \<le> mx")
    case False
    then have "fst (oldest items ('''', 0)) \<noteq> ''''" using oldest_named [of items 0] 1(2) by fastforce
    moreover have "'''' \<notin> fst ` set (filter (\<lambda>(k, _). k \<noteq> fst (oldest items ('''', 0))) items)" using 1(2) by auto
    ultimately show ?thesis using 1(1) [OF False refl] False by (subst evict_over.simps) (simp add: Let_def)
  qed (simp add: evict_over.simps)
qed

text \<open>Every entry is one of what was stored.\<close>

definition cache_inv :: "(string \<Rightarrow> cached_image \<Rightarrow> bool) \<Rightarrow> image_cache \<Rightarrow> bool" where
  "cache_inv P c \<longleftrightarrow> length (ic_items c) \<le> ic_max c \<and> distinct (map fst (ic_items c)) \<and>
     (\<forall>(k, i)\<in>set (ic_items c). k \<noteq> '''' \<and> P k i)"

lemma cache_inv_new: "cache_inv P (newImageProxyCache ttl mx)"
  by (simp add: cache_inv_def newImageProxyCache_def)

lemma cache_get_inv: "cache_get now key c = (r, c') \<Longrightarrow> cache_inv P c \<Longrightarrow> cache_inv P c' \<and> ic_ttl c' = ic_ttl c"
  by (auto simp: cache_get_def cache_inv_def distinct_filter_keys split: option.splits if_splits intro: order_trans [OF length_filter_le])

lemma cache_get_hit:
  assumes "cache_get now key c = (Some (body, ct), c')" and "cache_inv P c"
  shows "\<exists>i. P key i \<and> ci_body i = body \<and> ci_type i = ct \<and> now < ci_expires i"
  using assms by (fastforce simp: cache_get_def cache_inv_def split: option.splits if_splits dest: map_of_SomeD)

lemma cache_set_inv:
  assumes "cache_inv P c" and "key \<noteq> ''''"
    and "P' key \<lparr>ci_body = body, ci_type = ct, ci_expires = now + ic_ttl c, ci_stored = now\<rparr>"
    and "\<And>k i. k \<noteq> key \<Longrightarrow> P k i \<Longrightarrow> P' k i"
  shows "cache_inv P' (cache_set now key body ct c) \<and> ic_ttl (cache_set now key body ct c) = ic_ttl c"
proof -
  define new where "new = (key, \<lparr>ci_body = body, ci_type = ct, ci_expires = now + ic_ttl c, ci_stored = now\<rparr>)"
  define items where "items = filter (\<lambda>(_, i). ci_expires i > now) (new # filter (\<lambda>(k, _). k \<noteq> key) (ic_items c))"
  have all: "(\<forall>(k, i)\<in>set items. k \<noteq> '''' \<and> P' k i)" using assms by (auto simp: items_def new_def cache_inv_def)
  then have named: "'''' \<notin> fst ` set items" by auto
  have "distinct (map fst (new # filter (\<lambda>(k, _). k \<noteq> key) (ic_items c)))"
    using assms(1) distinct_filter_keys by (auto simp: cache_inv_def new_def)
  then have "distinct (map fst items)" unfolding items_def by (rule distinct_filter_keys)
  then have "distinct (map fst (evict_over (ic_max c) items))" by (rule evict_over_distinct)
  moreover have "\<forall>(k, i)\<in>set (evict_over (ic_max c) items). k \<noteq> '''' \<and> P' k i" using all evict_over_subset by fastforce
  moreover have "cache_set now key body ct c = c\<lparr>ic_items := evict_over (ic_max c) items\<rparr>"
    unfolding cache_set_def evictLocked_def items_def new_def by simp
  ultimately show ?thesis using evict_over_length [OF named, of "ic_max c"] by (simp add: cache_inv_def)
qed

datatype cache_op = CGet int string nat string | CSet int string nat string string string

fun cache_step :: "cache_op \<Rightarrow> image_cache \<Rightarrow> image_cache" where
  "cache_step (CGet now t i r) c = snd (cache_get now (cache_key t i r) c)"
| "cache_step (CSet now t i r body ct) c = cache_set now (cache_key t i r) body ct c"

text \<open>The reference: what was stored last for an image, and when.\<close>

fun last_stored :: "cache_op list \<Rightarrow> string \<Rightarrow> (int \<times> string \<times> string) option" where
  "last_stored [] key = None"
| "last_stored (CGet now t i r # ops) key = last_stored ops key"
| "last_stored (CSet now t i r body ct # ops) key =
     (case last_stored ops key of Some x \<Rightarrow> Some x | None \<Rightarrow> if key = cache_key t i r then Some (now, body, ct) else None)"

lemma last_stored_append:
  "last_stored (ops @ [CSet now t i r body ct]) key = (if key = cache_key t i r then Some (now, body, ct) else last_stored ops key)"
  "last_stored (ops @ [CGet now t i r]) key = last_stored ops key"
  by (induction ops key rule: last_stored.induct) (auto split: option.splits)

lemma cache_key_named: "cache_key t i r \<noteq> ''''"
  by (simp add: cache_key_def)

definition as_stored :: "int \<Rightarrow> cache_op list \<Rightarrow> string \<Rightarrow> cached_image \<Rightarrow> bool" where
  "as_stored ttl ops k i \<longleftrightarrow>
     last_stored ops k = Some (ci_stored i, ci_body i, ci_type i) \<and> ci_expires i = ci_stored i + ttl"

lemma cache_run_inv:
  fixes ttl mx :: int
  defines "c \<equiv> newImageProxyCache ttl mx"
  shows "cache_inv (as_stored (ic_ttl c) ops) (fold cache_step ops c) \<and> ic_ttl (fold cache_step ops c) = ic_ttl c"
proof (induction ops rule: rev_induct)
  case Nil
  then show ?case by (simp add: c_def cache_inv_new)
next
  case (snoc x ops)
  show ?case
  proof (cases x)
    case (CGet now t i r)
    obtain h c' where g: "cache_get now (cache_key t i r) (fold cache_step ops c) = (h, c')" by (rule prod.exhaust)
    have "as_stored (ic_ttl c) (ops @ [x]) = as_stored (ic_ttl c) ops" by (intro ext) (simp add: CGet as_stored_def last_stored_append)
    then show ?thesis using cache_get_inv [OF g conjunct1 [OF snoc]] snoc by (simp add: CGet g)
  next
    case (CSet now t i r body ct)
    have "as_stored (ic_ttl c) (ops @ [x]) (cache_key t i r)
        \<lparr>ci_body = body, ci_type = ct, ci_expires = now + ic_ttl (fold cache_step ops c), ci_stored = now\<rparr>"
      using snoc by (simp add: CSet as_stored_def last_stored_append)
    moreover have "as_stored (ic_ttl c) (ops @ [x]) k j" if "k \<noteq> cache_key t i r" "as_stored (ic_ttl c) ops k j" for k j
      using that by (simp add: CSet as_stored_def last_stored_append)
    ultimately show ?thesis using cache_set_inv [OF conjunct1 [OF snoc] cache_key_named] snoc by (simp add: CSet)
  qed
qed

lemma cache_size_run: "length (ic_items (fold cache_step ops (newImageProxyCache ttl mx))) \<le> ic_max (newImageProxyCache ttl mx)"
proof -
  have "ic_max (cache_step x c) = ic_max c" for x c
    by (cases x) (auto simp: cache_get_def cache_set_def evictLocked_def split: option.splits)
  then have "ic_max (fold cache_step ops c) = ic_max c" for c by (induction ops arbitrary: c) simp_all
  then show ?thesis using cache_run_inv [of ttl mx ops] by (simp add: cache_inv_def)
qed

text \<open>
  C14. Over any run of lookups and stores, from an empty cache and at any instants, the cache never holds more than its maximum of
  images, and a lookup that hits returns exactly what was stored last for that image, less than the time to live
  ago; an image that was never stored is never found.
\<close>

theorem cache_serves_last_stored:
  "length (ic_items (fold cache_step ops (newImageProxyCache ttl mx))) \<le> nat (if mx \<le> 0 then 64 else mx) \<and>
   (case fst (cache_get now (cache_key t i r) (fold cache_step ops (newImageProxyCache ttl mx))) of
      None \<Rightarrow> True
    | Some (body, ct) \<Rightarrow>
        \<exists>t0. last_stored ops (cache_key t i r) = Some (t0, body, ct) \<and> now < t0 + (if ttl \<le> 0 then 1800000 else ttl))"
proof -
  let ?c = "fold cache_step ops (newImageProxyCache ttl mx)"
  obtain h c' where g: "cache_get now (cache_key t i r) ?c = (h, c')" by (rule prod.exhaust)
  have "\<exists>t0. last_stored ops (cache_key t i r) = Some (t0, body, ct) \<and> now < t0 + ic_ttl (newImageProxyCache ttl mx)"
    if "h = Some (body, ct)" for body ct
    using cache_get_hit [OF g [unfolded that] conjunct1 [OF cache_run_inv]] by (auto simp: as_stored_def)
  then show ?thesis using cache_size_run [of ops ttl mx] g by (auto simp: newImageProxyCache_def split: option.split)
qed

section \<open>Serving\<close>

text \<open>What the stores hold for an image of a task.\<close>

definition held :: "image_files \<Rightarrow> string \<Rightarrow> nat \<Rightarrow> string \<Rightarrow> string \<times> string \<Rightarrow> bool" where
  "held f taskID idx res x \<longleftrightarrow>
     (\<exists>t. it_task t = taskID \<and>
        (readLocalProxyImage f t idx res = Inr (Some x) \<or>
         readLocalProxyImage f t idx res = Inr None \<and> NormalizeStorageMode (it_storage t) = StorageModeCloud \<and>
         readCloudProxyImage f t idx res = Inr (Some x)))"

lemma NormalizeResource_idem [simp]: "NormalizeResource (NormalizeResource r) = NormalizeResource r"
  by (simp add: NormalizeResource_def resource_words)

lemma read_normal:
  assumes "NormalizeResource r = NormalizeResource r'"
  shows "readLocalProxyImage f t i r = readLocalProxyImage f t i r'" and "readCloudProxyImage f t i r = readCloudProxyImage f t i r'"
  unfolding readLocalProxyImage_def readCloudProxyImage_def assms by (rule refl)+

lemma held_normal: "NormalizeResource r = NormalizeResource r' \<Longrightarrow> held f t i r x \<longleftrightarrow> held f t i r' x"
  unfolding held_def using read_normal [of r r' f] by metis

definition faithful :: "image_files \<Rightarrow> string \<Rightarrow> cached_image \<Rightarrow> bool" where
  "faithful f k item \<longleftrightarrow> (\<exists>t i r. k = cache_key t i r \<and> held f t i r (ci_body item, ci_type item))"

lemma faithful_key: "faithful f (cache_key t i r) item \<longleftrightarrow> held f t i r (ci_body item, ci_type item)"
proof
  assume "faithful f (cache_key t i r) item"
  then obtain t' i' r' where "t = t'" "i = i'" "NormalizeResource r = NormalizeResource r'" "held f t' i' r' (ci_body item, ci_type item)"
    by (auto simp: faithful_def cache_key_eq)
  then show "held f t i r (ci_body item, ci_type item)" using held_normal by blast
qed (auto simp: faithful_def)

lemma loadProxyImage_held:
  assumes "loadProxyImage f n1 n2 t idx res c = (out, c')" and "cache_inv (faithful f) c"
  shows "cache_inv (faithful f) c' \<and> (case out of Inr x \<Rightarrow> held f (it_task t) idx res x | Inl _ \<Rightarrow> True)"
proof -
  obtain h c1 where g: "cache_get n1 (cache_key (it_task t) idx res) c = (h, c1)" by (rule prod.exhaust)
  have c1: "cache_inv (faithful f) c1" using cache_get_inv [OF g assms(2)] by simp
  show ?thesis
  proof (cases h)
    case (Some hit)
    have "held f (it_task t) idx res hit"
      using cache_get_hit [of n1 "cache_key (it_task t) idx res" c "fst hit" "snd hit" c1, OF _ assms(2)] g Some
      by (auto simp: faithful_key)
    then show ?thesis using assms(1) c1 by (auto simp: loadProxyImage_def Let_def g Some)
  next
    case None
    have set: "cache_inv (faithful f) (cache_set n2 (cache_key (it_task t) idx res) body ct c1)"
      if "held f (it_task t) idx res (body, ct)" for body ct
      using cache_set_inv [OF c1 cache_key_named, of "faithful f"] that by (simp add: faithful_key)
    have "held f (it_task t) idx res (body, ct)"
      if "readLocalProxyImage f t idx res = Inr (Some (body, ct)) \<or>
         readLocalProxyImage f t idx res = Inr None \<and> NormalizeStorageMode (it_storage t) = StorageModeCloud \<and>
         readCloudProxyImage f t idx res = Inr (Some (body, ct))" for body ct
      using that by (auto simp: held_def)
    then show ?thesis using assms(1) c1 set
      by (auto simp: loadProxyImage_def Let_def g None split: sum.splits option.splits if_splits prod.splits)
  qed
qed

record served_request =
  rq_clock :: "int \<times> int \<times> int"
  rq_kind :: string
  rq_query :: proxy_request
  rq_tasks :: "task_db sess"

definition serve :: "nat list \<Rightarrow> image_files \<Rightarrow> served_request \<Rightarrow> image_cache \<Rightarrow> proxy_reply \<times> image_cache" where
  "serve secret f rq c =
     (case rq_clock rq of (n0, n1, n2) \<Rightarrow>
        case serveProxyImage secret f n0 n1 n2 (rq_kind rq) (rq_query rq) (rq_tasks rq) c of (rep, _, c') \<Rightarrow> (rep, c'))"

lemma Task_Get_task: "Task_Get taskID ts = (Inr t, ts') \<Longrightarrow> it_task t = taskID"
  by (cases ts) (auto simp: Task_Get_def mapErr_def stmt_def find_Some_iff split: prod.splits sum.splits option.splits drv.splits list.splits)

lemma serve_held:
  assumes "serve secret f rq c = (rep, c')" and "cache_inv (faithful f) c"
  shows "cache_inv (faithful f) c' \<and>
    (\<forall>disp ct body. rep = P_image disp ct body \<longrightarrow>
       (\<exists>idx expMs ct0. Atoi (px_idx (rq_query rq)) = Some (int idx) \<and> Atoi (px_exp (rq_query rq)) = Some expMs \<and>
          Verify_image secret (fst (rq_clock rq)) (px_task (rq_query rq)) (int idx) (rq_kind rq) expMs (px_sig (rq_query rq)) \<and>
          held f (px_task (rq_query rq)) idx (rq_kind rq) (body, ct0)))"
proof -
  obtain n0 n1 n2 where n: "rq_clock rq = (n0, n1, n2)" by (rule prod_cases3)
  obtain ts' where s: "serveProxyImage secret f n0 n1 n2 (rq_kind rq) (rq_query rq) (rq_tasks rq) c = (rep, ts', c')"
    using assms(1) by (auto simp: serve_def n split: prod.splits)
  have vn: "Verify_image secret n0 t i (NormalizeResource r) x g = Verify_image secret n0 t i r x g" for t i r x g
    by (simp add: Verify_image_def computeSig_def signed_text_def)
  have hn: "held f t i (NormalizeResource r) x = held f t i r x" for t i r x by (rule held_normal) simp
  show ?thesis
  proof (cases "rep \<noteq> P_status 400 \<and> rep \<noteq> P_status 403")
    case False
    then show ?thesis using s assms(2)
      by (auto simp: serveProxyImage_def Let_def writeImageResponse_def split: if_splits option.splits prod.splits sum.splits load_error.splits)
  next
    case True
    let ?q = "rq_query rq"
    obtain idx expMs where i: "Atoi (px_idx ?q) = Some idx" "0 \<le> idx" "Atoi (px_exp ?q) = Some expMs"
      and v: "Verify_image secret n0 (px_task ?q) idx (NormalizeResource (rq_kind rq)) expMs (px_sig ?q)"
      using s True by (auto simp: serveProxyImage_def Let_def split: if_splits option.splits)
    obtain gt ts1 where gt: "Task_Get (px_task ?q) (rq_tasks rq) = (gt, ts1)" by (rule prod.exhaust)
    have s': "(case gt of Inl _ \<Rightarrow> (P_status 404, ts1, c)
       | Inr t \<Rightarrow> (case loadProxyImage f n1 n2 t (nat idx) (NormalizeResource (rq_kind rq)) c of
                     (Inl NotFound, c1) \<Rightarrow> (P_status 404, ts1, c1)
                   | (Inl LoadFailed, c1) \<Rightarrow> (P_status 502, ts1, c1)
                   | (Inr (body, ct0), c1) \<Rightarrow>
                       let ct = (if ct0 = '''' then ''image/png'' else ct0) in
                       (writeImageResponse f ct (if px_download ?q then buildDownloadFileName f (px_task ?q) (nat idx) ct else '''') body (px_download ?q),
                        ts1, c1))) = (rep, ts', c')"
      using s True i v unfolding serveProxyImage_def by (auto simp: gt split: if_splits)
    show ?thesis
    proof (cases gt)
      case (Inl _)
      then show ?thesis using s' assms(2) by auto
    next
      case (Inr t)
      have t: "it_task t = px_task ?q" using gt Inr Task_Get_task by blast
      obtain out c1 where l: "loadProxyImage f n1 n2 t (nat idx) (NormalizeResource (rq_kind rq)) c = (out, c1)" by (rule prod.exhaust)
      note h = loadProxyImage_held [OF l assms(2)]
      have "c' = c1" using s' Inr l by (auto simp: Let_def split: sum.splits prod.splits load_error.splits)
      moreover have "held f (px_task ?q) (nat idx) (rq_kind rq) (body, ct0)" if "out = Inr (body, ct0)" for body ct0
        using h that t by (simp add: hn)
      moreover have "\<exists>ct0. out = Inr (body, ct0)" if "rep = P_image disp ct body" for disp ct body
        using s' Inr l that by (auto simp: Let_def writeImageResponse_def split: sum.splits prod.splits load_error.splits)
      ultimately show ?thesis using h i v n vn by (metis fst_conv nat_0_le)
    qed
  qed
qed


text \<open>The request a signed address makes.\<close>

definition link_request :: "nat list \<Rightarrow> int \<Rightarrow> string \<Rightarrow> int \<Rightarrow> string \<Rightarrow> int \<Rightarrow> proxy_request" where
  "link_request secret now taskID idx res ttl =
     \<lparr>px_task = taskID, px_idx = dec_int idx, px_exp = dec_int (expiry now ttl),
      px_sig = computeSig secret taskID idx res (expiry now ttl), px_download = False\<rparr>"

lemma BuildURL_request:
  "BuildImageProxyURL secret now taskID idx res ttl =
     (let q = link_request secret now taskID idx res ttl in
      resourcePath res @ ''/'' @ px_task q @ ''/'' @ px_idx q @ ''?exp='' @ px_exp q @ ''&sig='' @ px_sig q)"
  by (simp add: BuildImageProxyURL_def link_request_def)

lemma computeSig_length: "length (computeSig secret taskID idx res expMs) = 24"
  by (simp add: computeSig_def hmac256_def length_Sum256)

lemma dec_int_nonempty [simp]: "dec_int i \<noteq> ''''"
  by (simp add: dec_int_def)

lemma link_opens:
  assumes "taskID \<noteq> ''''" and "0 \<le> idx" and "idx \<le> 64" and "in_i64 (expiry built ttl)"
    and "Task_Get taskID ts = (Inr t, ts)" and "readLocalProxyImage f t (nat idx) res = Inr (Some (body, ct))"
    and "ct \<noteq> ''''" and "TrimSpace ct = ct"
  shows "fst (serveProxyImage secret f now n1 n2 res (link_request secret built taskID idx res ttl) ts (newImageProxyCache cttl mx)) =
    (if expiry built ttl < now then P_status 403
     else P_image ''inline'' ct body)"
proof -
  have i: "Atoi (dec_int idx) = Some idx" "Atoi (dec_int (expiry built ttl)) = Some (expiry built ttl)"
    using assms(2-4) by (auto intro!: Atoi_dec_int simp: in_i64_def)
  have sig: "computeSig secret taskID idx res (expiry built ttl) \<noteq> ''''"
    using computeSig_length [of secret taskID idx res "expiry built ttl"] by auto
  have "readLocalProxyImage f t (nat idx) (NormalizeResource res) = Inr (Some (body, ct))"
    unfolding read_normal(1) [OF NormalizeResource_idem] by (rule assms(6))
  then have l: "fst (loadProxyImage f n1 n2 t (nat idx) (NormalizeResource res) (newImageProxyCache cttl mx)) = Inr (body, ct)"
    by (simp add: loadProxyImage_def cache_get_def newImageProxyCache_def)
  then obtain c' where l': "loadProxyImage f n1 n2 t (nat idx) (NormalizeResource res) (newImageProxyCache cttl mx) = (Inr (body, ct), c')"
    by (metis prod.collapse)
  have v: "Verify_image secret now taskID idx (NormalizeResource res) x (computeSig secret taskID idx res x) \<longleftrightarrow> \<not> x < now" for x
    by (simp add: Verify_image_def computeSig_def signed_text_def)
  have w: "writeImageResponse f ct '''' body False = P_image ''inline'' ct body" using assms(7,8) by (simp add: writeImageResponse_def)
  show ?thesis using assms(1-3,5,7) sig by (simp add: serveProxyImage_def link_request_def i v l' w)
qed

text \<open>
  An address opens until it expires and not a millisecond longer: the request of an address built for a live task, for one of its first
  65 images, is answered 403 exactly when its expiry has passed, and until then with the image when a store holds it.
\<close>

theorem signed_link_opens:
  assumes "taskID \<noteq> ''''" and "0 \<le> idx" and "idx \<le> 64" and "in_i64 (expiry built ttl)"
    and "Task_Get taskID ts = (Inr t, ts)" and "readLocalProxyImage f t (nat idx) res = Inr (Some (body, ct))"
    and "ct \<noteq> ''''" and "TrimSpace ct = ct"
  shows "fst (serveProxyImage secret f now n1 n2 res (link_request secret built taskID idx res ttl) ts (newImageProxyCache cttl mx)) =
    (if expiry built ttl < now then P_status 403
     else P_image ''inline'' ct body)"
  using assms by (rule link_opens)

definition demo_files :: image_files where
  "demo_files = \<lparr>if_local = Some (\<lambda>k t i. Inr (Some (''bytes'', ''image/png''))), if_fetch = (\<lambda>_. None), if_detect = (\<lambda>_. ''''), if_extension = (\<lambda>_. None)\<rparr>"

definition demo_image_row :: task where
  "demo_image_row = \<lparr>it_id = 1, it_task = ''img_1'', it_user = 1, it_key = 7, it_model = 3, it_account = 0, it_prompt = ''a cat'', it_n = 1,
     it_size = '''', it_upscale = '''', it_storage = ''local'', it_status = ''success'', it_conversation = '''', it_files = None,
     it_urls = None, it_thumbs = None, it_ref_count = 0, it_ref_urls = None, it_ref_thumbs = None, it_error = '''', it_estimated = 5,
     it_cost = 5, it_created = 0, it_started = None, it_finished = None, it_deleted = None\<rparr>"

definition demo_image_tasks :: "task_db sess" where "demo_image_tasks = (\<lparr>tasks = [demo_image_row], tasks_next = 2\<rparr>, [])"

lemma demo_image_get: "Task_Get ''img_1'' demo_image_tasks = (Inr demo_image_row, demo_image_tasks)"
  by (simp add: Task_Get_def mapErr_def demo_image_tasks_def demo_image_row_def it_live_def)

lemma demo_local: "readLocalProxyImage demo_files t i r = Inr (Some (''bytes'', ''image/png''))"
  by (simp add: readLocalProxyImage_def demo_files_def)

lemma demo_type: "TrimSpace ''image/png'' = ''image/png''"
  by (simp add: TrimSpace_def is_space_def byte_val_def)

theorem signed_link_opens_witness:
  "fst (serveProxyImage [1, 2, 3] demo_files 5000 5000 5000 ''thumb'' (link_request [1, 2, 3] 4000 ''img_1'' 0 ''thumb'' 2000)
      demo_image_tasks (newImageProxyCache 0 0)) = P_image ''inline'' ''image/png'' ''bytes'' \<and>
   fst (serveProxyImage [1, 2, 3] demo_files 6001 5000 5000 ''thumb'' (link_request [1, 2, 3] 4000 ''img_1'' 0 ''thumb'' 2000)
      demo_image_tasks (newImageProxyCache 0 0)) = P_status 403"
proof -
  have x: "expiry 4000 2000 = 6000" "in_i64 (expiry 4000 2000)" by (simp_all add: expiry_def in_i64_def)
  note l = signed_link_opens [OF _ _ _ x(2) demo_image_get demo_local _ demo_type]
  show ?thesis by (intro conjI; subst l; simp add: x)
qed


end
