(* ===== verification/Image_Request_Laws.thy ===== *)
theory Image_Request_Laws
  imports Image_Requests
begin

text \<open>
  What the image endpoints compute from a request: the loop for the greatest common divisor, the aspect ratio of a size, the prompt
  that carries it exactly once, and the bounds of decoded reference images.
\<close>

section \<open>The aspect ratio\<close>

lemma gcd_loop_gcd: "\<bar>gcd_loop a b\<bar> = gcd a b"
proof (induction a b rule: gcd_loop.induct)
  case (1 a b)
  show ?case
  proof (cases "b = 0")
    case False
    have "a = go_div a b * b + go_rem a b" by (simp add: go_rem_def)
    then have "gcd b (go_rem a b) = gcd a b" by (metis gcd.commute gcd_add_mult)
    then show ?thesis using 1 False by (subst gcd_loop.simps) simp
  qed (simp add: gcd_loop.simps)
qed

definition ratio_like :: "string \<Rightarrow> bool" where
  "ratio_like r \<longleftrightarrow> (\<exists>a b. r = dec_nat a @ '':'' @ dec_nat b)"

lemma ratio_text_like: "0 \<le> a \<Longrightarrow> 0 \<le> b \<Longrightarrow> ratio_like (ratio_text (a, b))"
  by (auto simp: ratio_like_def ratio_text_def dec_int_def)

lemma aspect_ratio_like:
  assumes "aspectRatioFromImageSize sz \<noteq> ''''"
  shows "ratio_like (aspectRatioFromImageSize sz)"
proof -
  obtain a b where sp: "split_on CHR ''x'' (TrimSpace (ToLower sz)) = [a, b]"
    using assms by (auto simp: aspectRatioFromImageSize_def split: list.splits)
  obtain w h where wh: "Atoi (TrimSpace a) = Some w" "Atoi (TrimSpace b) = Some h" "0 < w" "0 < h"
    using assms by (auto simp: aspectRatioFromImageSize_def sp split: option.splits if_splits)
  define g where "g = gcdInt w h"
  define fnd where "fnd = find (\<lambda>(rw, rh). wrap64 (w * rh) = wrap64 (h * rw)) canonicalImageAspectRatios"
  have eq: "aspectRatioFromImageSize sz = (case fnd of Some r \<Rightarrow> ratio_text r | None \<Rightarrow> if g \<le> 0 then '''' else ratio_text (go_div w g, go_div h g))"
    using wh by (simp add: aspectRatioFromImageSize_def sp fnd_def g_def [symmetric] split: option.split)
  show ?thesis
  proof (cases fnd)
    case None
    then have "0 < g" using assms eq by (auto split: if_splits)
    then have "0 \<le> go_div w g" "0 \<le> go_div h g" using wh by (simp_all add: go_div_nonneg pos_imp_zdiv_nonneg_iff)
    then show ?thesis using eq None \<open>0 < g\<close> ratio_text_like by simp
  next
    case (Some r)
    then have "r \<in> set canonicalImageAspectRatios" unfolding fnd_def by (metis find_Some_iff nth_mem)
    then have "0 \<le> fst r" "0 \<le> snd r" by (auto simp: canonicalImageAspectRatios_def)
    then show ?thesis using eq Some ratio_text_like [of "fst r" "snd r"] by simp
  qed
qed

text \<open>Reading a prefix that was written.\<close>

lemma eat_number:
  assumes "c \<noteq> []" and "\<not> is_digit (hd c)"
  shows "eat_some is_digit (dec_nat n @ c) = Some c"
proof -
  have d: "\<forall>x\<in>set (dec_nat n). is_digit x" using dec_nat_digits by blast
  then have "is_digit (hd (dec_nat n))" by (cases "dec_nat n") (use dec_nat_nonempty in auto)
  moreover have "dropWhile is_digit (dec_nat n @ c) = c" using d assms by (cases c) (simp_all add: dropWhile_append2)
  ultimately show ?thesis by (simp add: eat_some_def hd_append)
qed

lemma eat_spaces: "c \<noteq> [] \<Longrightarrow> \<not> re_space (hd c) \<Longrightarrow> dropWhile re_space c = c"
  by (cases c) auto

lemma trimmed_spaces: "dropWhile re_space (TrimSpace s) = TrimSpace s"
proof (cases "TrimSpace s")
  case (Cons c cs)
  have "\<not> is_space c"
  proof
    assume c: "is_space c"
    have "TrimSpace (c # cs) = TrimSpace cs" using c by (simp add: TrimSpace_def)
    moreover have "TrimSpace (c # cs) = c # cs" using TrimSpace_idem [of s] Cons by simp
    moreover have "length (TrimSpace cs) \<le> length cs" 
      by (simp add: TrimSpace_def) (metis length_dropWhile_le length_rev order_trans)
    ultimately show False by (metis Suc_n_not_le_n length_Cons)
  qed
  then show ?thesis using Cons by (auto simp: re_space_def is_space_def)
qed simp

lemma prefix_read_back:
  assumes "ratio_like r"
  shows "ratio_prefix (''Make the aspect ratio '' @ r @ '' , '' @ TrimSpace body) = Some (TrimSpace body)"
proof -
  obtain a b where r: "r = dec_nat a @ '':'' @ dec_nat b" using assms by (auto simp: ratio_like_def)
  have digit: "\<not> re_space (hd (dec_nat n @ c))" "dec_nat n @ c \<noteq> []" for n c
    using dec_nat_digits [of "hd (dec_nat n)" n] by (cases "dec_nat n"; auto simp: is_digit_def re_space_def)+
  have sp: "dropWhile re_space (dec_nat n @ c) = dec_nat n @ c" for n c using eat_spaces [OF digit(2,1)] .
  have 1: "eat_some is_digit (dec_nat a @ '':'' @ dec_nat b @ '' , '' @ TrimSpace body) = Some ('':'' @ dec_nat b @ '' , '' @ TrimSpace body)"
    by (rule eat_number) (simp_all add: is_digit_def byte_val_def)
  have 2: "eat_some is_digit (dec_nat b @ '' , '' @ TrimSpace body) = Some ('' , '' @ TrimSpace body)"
    by (rule eat_number) (simp_all add: is_digit_def byte_val_def)
  have spaces: "re_space (CHR '' '')" "\<not> re_space (CHR '':'')" "\<not> re_space (CHR '','')" "\<not> re_space (CHR ''M'')"
    "\<not> re_space (CHR ''a'')" "\<not> re_space (CHR ''r'')" "\<not> re_space (CHR ''t'')" by (simp_all add: re_space_def byte_val_def)
  have big_m: "char_of (109::nat) = CHR ''m''" by code_simp
  show ?thesis unfolding ratio_prefix_def r using 1 2
    by (simp add: eat_any_def eat_some_def [of re_space] eat_char_def spaces byte_val_def lower_char_def big_m sp trimmed_spaces)
qed

text \<open>
  The aspect ratio is written into a prompt once: applying the prefix of a size to a prompt that already has it
  changes nothing, and a prompt with the prefix of another size has it replaced.
\<close>

theorem ratio_prefix_once:
  assumes "aspectRatioFromImageSize sz \<noteq> ''''"
  shows "applyImageSizeRatioPrefix (applyImageSizeRatioPrefix prompt sz0) sz = 
    (if aspectRatioFromImageSize sz0 = '''' then applyImageSizeRatioPrefix prompt sz
     else ''Make the aspect ratio '' @ aspectRatioFromImageSize sz @ '' , '' @
       TrimSpace (case ratio_prefix prompt of None \<Rightarrow> prompt | Some rest \<Rightarrow> rest))"
  using assms prefix_read_back [OF aspect_ratio_like]
  by (auto simp: applyImageSizeRatioPrefix_def Let_def)

theorem ratio_prefix_once_witness:
  "aspectRatioFromImageSize ''1920x1080'' \<noteq> '''' \<and>
   applyImageSizeRatioPrefix (applyImageSizeRatioPrefix ''a cat'' ''1024x1024'') ''1920x1080'' =
     ''Make the aspect ratio 16:9 , a cat''"
proof -
  have r: "aspectRatioFromImageSize ''1920x1080'' = ''16:9''" by code_simp
  have n: "aspectRatioFromImageSize ''1024x1024'' \<noteq> ''''" "ratio_prefix ''a cat'' = None" "TrimSpace ''a cat'' = ''a cat''" by code_simp+
  show ?thesis using ratio_prefix_once [of "''1920x1080''" "''a cat''" "''1024x1024''"] n by (simp add: r)
qed

end
