(* ===== verification/Go_Struct.thy ===== *)
theory Go_Struct
  imports Go_Json
begin

text \<open>
  Go's \<open>encoding/json\<close> decoding into structs: the members of an object are assigned in order to the field whose name
  is the member's, ignoring case; a null leaves a field as it was; a value of another type is an error of the whole
  decoding; members without a field are skipped. A struct is described by its fields' decoders.
\<close>

section \<open>Names\<close>

text \<open>
  \<open>foldName\<close>: ASCII letters in upper case, and the two other runes that fold to one, the long s and the Kelvin sign. No
  field name of the code contains another letter.
\<close>

fun fold_name :: "string \<Rightarrow> string" where
  "fold_name [] = []"
| "fold_name (c # cs) =
     (let (x, skip) = (if HasPrefix (c # cs) [CHR 0xC5, CHR 0xBF] then (CHR ''S'', 1)
                       else if HasPrefix (c # cs) [CHR 0xE2, CHR 0x84, CHR 0xAA] then (CHR ''K'', 2)
                       else (upper_char c, 0)) in
      x # fold_name (drop skip cs))"

section \<open>Fields\<close>

type_synonym 'b decoder = "json \<Rightarrow> 'b \<Rightarrow> 'b option"

definition dec_string :: "string decoder" where
  "dec_string v old = (case v of JStr s \<Rightarrow> Some s | JNull \<Rightarrow> Some old | _ \<Rightarrow> None)"

text \<open>An \<open>int\<close> takes a literal without fraction or exponent, in range.\<close>

definition dec_number :: "int decoder" where
  "dec_number v old = (case v of JNum l \<Rightarrow> Atoi l | JNull \<Rightarrow> Some old | _ \<Rightarrow> None)"

text \<open>A pointer: a null makes it \<open>nil\<close>, another value is decoded into what it points to, or into a new one.\<close>

definition dec_pointer :: "'b \<Rightarrow> 'b decoder \<Rightarrow> 'b option decoder" where
  "dec_pointer zero dec v old =
     (if v = JNull then Some None
      else map_option Some (dec v (case old of None \<Rightarrow> zero | Some b \<Rightarrow> b)))"

text \<open>
  A slice: a null makes it \<open>nil\<close>; an array gives its elements, each decoded over what the slice held at that place
  (a repeated member decodes over the earlier one's elements).
\<close>

fun dec_elems :: "'b \<Rightarrow> 'b decoder \<Rightarrow> json list \<Rightarrow> 'b list \<Rightarrow> 'b list option" where
  "dec_elems zero dec [] olds = Some []"
| "dec_elems zero dec (v # vs) olds =
     (case (dec v (case olds of [] \<Rightarrow> zero | b # _ \<Rightarrow> b), dec_elems zero dec vs (drop 1 olds)) of
        (Some b, Some bs) \<Rightarrow> Some (b # bs)
      | _ \<Rightarrow> None)"

definition dec_slice :: "'b \<Rightarrow> 'b decoder \<Rightarrow> 'b list decoder" where
  "dec_slice zero dec v old = (case v of JArr vs \<Rightarrow> dec_elems zero dec vs old | JNull \<Rightarrow> Some [] | _ \<Rightarrow> None)"

text \<open>A field of a record: how to read it and how to replace it.\<close>

definition field :: "('r \<Rightarrow> 'b) \<Rightarrow> (('b \<Rightarrow> 'b) \<Rightarrow> 'r \<Rightarrow> 'r) \<Rightarrow> 'b decoder \<Rightarrow> 'r decoder" where
  "field get upd dec v r = map_option (\<lambda>b. upd (\<lambda>_. b) r) (dec v (get r))"

section \<open>Structs\<close>

fun dec_members :: "(string \<times> 'r decoder) list \<Rightarrow> (string \<times> json) list \<Rightarrow> 'r \<Rightarrow> 'r option" where
  "dec_members fields [] r = Some r"
| "dec_members fields ((k, v) # kvs) r =
     (case find (\<lambda>(name, _). fold_name name = fold_name k) fields of
        None \<Rightarrow> dec_members fields kvs r
      | Some (_, dec) \<Rightarrow> (case dec v r of None \<Rightarrow> None | Some r' \<Rightarrow> dec_members fields kvs r'))"

definition dec_struct :: "(string \<times> 'r decoder) list \<Rightarrow> 'r decoder" where
  "dec_struct fields v old = (case v of JObj kvs \<Rightarrow> dec_members fields kvs old | JNull \<Rightarrow> Some old | _ \<Rightarrow> None)"

definition unmarshal_struct :: "(string \<times> 'r decoder) list \<Rightarrow> 'r \<Rightarrow> string \<Rightarrow> 'r option" where
  "unmarshal_struct fields zero s = (case json_parse s of None \<Rightarrow> None | Some v \<Rightarrow> dec_struct fields v zero)"

section \<open>Names in lower case\<close>

definition plain_char :: "char \<Rightarrow> bool" where
  "plain_char c \<longleftrightarrow> byte_val c = 95 \<or> (97 \<le> byte_val c \<and> byte_val c \<le> 122)"

definition plain_name :: "string \<Rightarrow> bool" where
  "plain_name s = list_all plain_char s"

lemma fold_name_plain: "plain_name s \<Longrightarrow> fold_name s = map upper_char s"
proof (induction s)
  case (Cons c cs)
  have "c \<noteq> CHR 0xC5" "c \<noteq> CHR 0xE2" using Cons.prems by (auto simp: plain_name_def plain_char_def byte_val_def)
  then show ?case using Cons by (simp add: HasPrefix_def plain_name_def)
qed simp

lemma upper_char_plain:
  assumes "upper_char c = upper_char d" and "plain_char c" and "plain_char d"
  shows "c = d"
proof -
  have v: "byte_val (upper_char c) = (if byte_val c = 95 then 95 else byte_val c - 32)" if "plain_char c" for c
    using that by (auto simp: upper_char_def plain_char_def)
  show ?thesis using assms v [of c] v [of d] by (auto simp: byte_val_eq [symmetric] plain_char_def split: if_splits)
qed

text \<open>Names in lower case fold to the same only when they are the same.\<close>

lemma fold_name_eq:
  assumes "plain_name a" and "plain_name b"
  shows "fold_name a = fold_name b \<longleftrightarrow> a = b"
proof -
  have "map upper_char a = map upper_char b \<Longrightarrow> a = b"
    using assms by (induction a b rule: list_induct2') (auto simp: plain_name_def dest: upper_char_plain)
  then show ?thesis using fold_name_plain assms by metis
qed

lemma find_field:
  assumes "plain_name k" and "list_all (\<lambda>(n, _). plain_name n) fields"
  shows "find (\<lambda>(name, _). fold_name name = fold_name k) fields = find (\<lambda>(name, _). name = k) fields"
  using assms(2) by (induction fields) (auto simp: fold_name_eq assms(1))

lemma dec_members_plain:
  assumes "plain_name k" and "list_all (\<lambda>(n, _). plain_name n) fields"
  shows "dec_members fields ((k, v) # kvs) r =
    (case find (\<lambda>(name, _). name = k) fields of
       None \<Rightarrow> dec_members fields kvs r
     | Some (_, dec) \<Rightarrow> (case dec v r of None \<Rightarrow> None | Some r' \<Rightarrow> dec_members fields kvs r'))"
  by (simp add: find_field [OF assms])

end
