(* ===== verification/Account_Refresh.thy ===== *)
theory Account_Refresh
  imports Account_Pool Go_Struct
begin

text \<open>
  The background workers of the account pool: the refresher of access tokens (internal/account/refresher.go) and the prober
  of image quotas (quota.go). What auth.openai.com and chatgpt.com answer is an argument, as a transport error
  with its text or a status with a body; so are the text of a JSON error and the parser of RFC 3339 times (Go's zero time,
  of the year 1, is not one of them). Of the probe's headers only those that depend on the account are kept. The answer
  is decoded as the code does. A refresh or a probe ends in one statement on the account's row, so the accounts of a
  scan, which run in parallel, are taken in the order in which they finish.
\<close>

section \<open>Texts\<close>

text \<open>The messages the code stores, as their UTF-8 bytes.\<close>

definition txt_rt_invalid :: string where
  "txt_rt_invalid = utf
    [82, 84, 32, 229, 183, 178, 229, 164, 177, 230, 149, 136, 40, 52, 48, 49, 41]"

definition txt_forbidden :: string where
  "txt_forbidden = utf
    [228, 184, 138, 230, 184, 184, 230, 139, 146, 231, 187, 157, 232, 174, 191, 233, 151, 174, 40, 52, 48, 51, 41]"

definition txt_limited :: string where
  "txt_limited = utf
    [232, 167, 166, 229, 143, 145, 233, 128, 159, 231, 142, 135, 233, 153, 144, 229, 136, 182, 40, 52, 50, 57, 41]"

definition txt_timeout :: string where
  "txt_timeout = utf
    [229, 136, 183, 230, 150, 176, 232, 175, 183, 230, 177, 130, 232, 182, 133, 230, 151, 182]"

definition txt_proxy_host :: string where
  "txt_proxy_host = utf
    [228, 187, 163, 231, 144, 134, 229, 159, 159, 229, 144, 141, 230, 151, 160, 230, 179, 149, 232, 167, 163, 230, 158, 144]"

definition txt_proxy_handshake :: string where
  "txt_proxy_handshake = utf
    [228, 187, 163, 231, 144, 134, 230, 143, 161, 230, 137, 139, 229, 164, 177, 232, 180, 165]"

definition txt_dns :: string where
  "txt_dns = utf
    [68, 78, 83, 32, 232, 167, 163, 230, 158, 144, 229, 164, 177, 232, 180, 165]"

definition txt_refused :: string where
  "txt_refused = utf
    [232, 191, 158, 230, 142, 165, 232, 162, 171, 230, 139, 146, 231, 187, 157]"

definition txt_reset :: string where
  "txt_reset = utf
    [232, 191, 158, 230, 142, 165, 232, 162, 171, 233, 135, 141, 231, 189, 174]"

definition txt_closed :: string where
  "txt_closed = utf
    [232, 191, 158, 230, 142, 165, 232, 162, 171, 229, 175, 185, 231, 171, 175, 229, 133, 179, 233, 151, 173]"

definition txt_tls :: string where
  "txt_tls = utf
    [84, 76, 83, 32, 230, 143, 161, 230, 137, 139, 229, 164, 177, 232, 180, 165]"

definition txt_st_expired :: string where
  "txt_st_expired = utf
    [83, 84, 32, 229, 183, 178, 232, 191, 135, 230, 156, 159]"

definition txt_refresh_failed :: string where
  "txt_refresh_failed = utf
    [229, 136, 183, 230, 150, 176, 229, 164, 177, 232, 180, 165, 58]"

definition txt_ellipsis :: string where
  "txt_ellipsis = utf
    [226, 128, 166]"

definition txt_st_empty :: string where
  "txt_st_empty = utf
    [83, 84, 32, 229, 183, 178, 232, 191, 135, 230, 156, 159, 230, 136, 150, 230, 151, 160, 230, 149, 136, 44, 229, 147, 141, 229, 186,
     148, 228, 184, 186, 231, 169, 186]"

definition txt_no_access :: string where
  "txt_no_access = utf
    [229, 147, 141, 229, 186, 148, 231, 188, 186, 229, 176, 145, 32, 97, 99, 99, 101, 115, 115, 84, 111, 107, 101, 110, 32, 229, 173,
     151, 230, 174, 181]"

definition txt_web_rejected :: string where
  "txt_web_rejected = utf
    [82, 84, 32, 230, 141, 162, 229, 135, 186, 231, 154, 132, 32, 65, 84, 32, 232, 162, 171, 32, 99, 104, 97, 116, 103, 112, 116, 46,
     99, 111, 109, 32, 230, 139, 146, 231, 187, 157, 40, 105, 79, 83, 32, 228, 189, 156, 231, 148, 168, 229, 159, 159, 41]"

definition txt_verify_failed :: string where
  "txt_verify_failed = utf
    [82, 84, 32, 230, 141, 162, 229, 135, 186, 231, 154, 132, 32, 65, 84, 32, 230, 160, 161, 233, 170, 140, 229, 164, 177, 232, 180,
     165, 58]"

definition txt_verify_http :: string where
  "txt_verify_http = utf
    [82, 84, 32, 230, 141, 162, 229, 135, 186, 231, 154, 132, 32, 65, 84, 32, 230, 160, 161, 233, 170, 140, 229, 164, 177, 232, 180,
     165, 40, 72, 84, 84, 80, 32]"

definition txt_need_session :: string where
  "txt_need_session = utf
    [82, 84, 32, 230, 141, 162, 229, 135, 186, 231, 154, 132, 32, 65, 84, 32, 232, 162, 171, 32, 99, 104, 97, 116, 103, 112, 116, 46,
     99, 111, 109, 32, 230, 139, 146, 231, 187, 157, 40, 105, 79, 83, 32, 228, 189, 156, 231, 148, 168, 229, 159, 159, 228, 184, 141,
     229, 133, 188, 229, 174, 185, 32, 119, 101, 98, 41, 44, 232, 175, 183, 228, 184, 186, 232, 175, 165, 232, 180, 166, 229, 143, 183,
     232, 161, 165, 229, 133, 133, 32, 83, 101, 115, 115, 105, 111, 110, 32, 84, 111, 107, 101, 110]"

definition txt_no_token :: string where
  "txt_no_token = utf
    [232, 180, 166, 229, 143, 183, 230, 151, 162, 230, 151, 160, 229, 143, 175, 231, 148, 168, 32, 82, 84, 32, 228, 185, 159, 230, 151,
     160, 229, 143, 175, 231, 148, 168, 32, 83, 84]"

definition txt_probe_expired :: string where
  "txt_probe_expired = utf
    [65, 84, 32, 229, 183, 178, 232, 191, 135, 230, 156, 159, 44, 230, 151, 160, 230, 179, 149, 230, 142, 162, 230, 181, 139, 233, 162,
     157, 229, 186, 166]"

definition txt_probe_limited :: string where
  "txt_probe_limited = utf
    [228, 184, 138, 230, 184, 184, 233, 128, 159, 231, 142, 135, 233, 153, 144, 229, 136, 182, 40, 52, 50, 57, 41]"

definition txt_probe_timeout :: string where
  "txt_probe_timeout = utf
    [230, 142, 162, 230, 181, 139, 232, 182, 133, 230, 151, 182]"

definition txt_probe_network :: string where
  "txt_probe_network = utf
    [231, 189, 145, 231, 187, 156, 228, 184, 141, 233, 128, 154]"

definition txt_probe_failed :: string where
  "txt_probe_failed = utf
    [230, 142, 162, 230, 181, 139, 229, 164, 177, 232, 180, 165, 58]"

definition txt_no_auth :: string where
  "txt_no_auth = utf
    [65, 84, 32, 232, 167, 163, 229, 175, 134, 229, 164, 177, 232, 180, 165]"

definition txt_write_failed :: string where
  "txt_write_failed = utf
    [229, 134, 153, 229, 186, 147, 229, 164, 177, 232, 180, 165, 58]"

definition trunc_text :: "string \<Rightarrow> nat \<Rightarrow> string" where
  "trunc_text s n = (if length s \<le> n then s else take n s @ txt_ellipsis)"

text \<open>What net/http puts before the reason of a failed request is cut off.\<close>

definition stripHTTPPrefix :: "string \<Rightarrow> string" where
  "stripHTTPPrefix s =
     (let s1 = (case Index s (CHR 0x22 # '': '') of
                  Some i \<Rightarrow> if 0 < i \<and> i + 3 < length s then drop (i + 3) s else s
                | None \<Rightarrow> s);
          s2 = TrimSpace s1 in
      if length s2 > 120 then take 120 s2 @ txt_ellipsis else s2)"

definition friendlyRefreshErr :: "string \<Rightarrow> string" where
  "friendlyRefreshErr s =
     (let low = ToLower s in
      if Contains low ''http=401'' \<or> Contains low ''invalid_grant'' then txt_rt_invalid
      else if Contains low ''http=403'' then txt_forbidden
      else if Contains low ''http=429'' then txt_limited
      else if Contains low ''timeout'' \<or> Contains low ''deadline exceeded'' then txt_timeout
      else if Contains low ''proxyconnect'' \<and> Contains low ''no such host'' then txt_proxy_host
      else if Contains low ''proxyconnect tcp'' then txt_proxy_handshake
      else if Contains low ''no such host'' then txt_dns
      else if Contains low ''connection refused'' then txt_refused
      else if Contains low ''connection reset'' then txt_reset
      else if Contains low ''unexpected eof'' \<or> HasSuffix low '': eof'' then txt_closed
      else if Contains low ''tls'' \<or> Contains low ''x509'' then txt_tls
      else if Contains low ''missing access_token'' \<or> Contains s txt_st_expired then stripHTTPPrefix s
      else txt_refresh_failed @ stripHTTPPrefix s)"

section \<open>The refresher's surroundings\<close>

datatype refresh_moment = R_oauth | R_token | R_write

type_synonym web_reply = "string + (int \<times> string)"

record refresh_env =
  re_oauth :: "nat \<Rightarrow> string \<Rightarrow> string \<Rightarrow> web_reply"
  re_me :: "nat \<Rightarrow> string \<Rightarrow> string + int"
  re_session :: "nat \<Rightarrow> string \<Rightarrow> web_reply"
  re_json_error :: "string \<Rightarrow> string"
  re_rfc3339 :: "string \<Rightarrow> int option"
  re_jexp :: "nat list \<Rightarrow> int option"
  re_now :: "refresh_moment \<Rightarrow> int"
  re_nonce :: "nat \<Rightarrow> nat list option"
  re_client :: string
  re_cipher :: aead

record refresh_result =
  rr_account :: nat
  rr_ok :: bool
  rr_source :: string
  rr_expires :: int
  rr_error :: string
  rr_rotated :: bool
  rr_verified :: bool
  rr_web_unauthorized :: bool

definition RefreshSourceRT :: string where "RefreshSourceRT = ''rt''"
definition RefreshSourceST :: string where "RefreshSourceST = ''st''"

section \<open>New tokens\<close>

record oauth_reply =
  or_access :: string
  or_refresh :: string
  or_expires :: int

definition oauth_fields :: "(string \<times> oauth_reply decoder) list" where
  "oauth_fields =
     [(''access_token'', field or_access or_access_update dec_string),
      (''refresh_token'', field or_refresh or_refresh_update dec_string),
      (''expires_in'', field or_expires or_expires_update dec_number)]"

text \<open>The new access token, the new refresh token if there is one, and the expiry in milliseconds.\<close>

definition rtToAT :: "refresh_env \<Rightarrow> nat \<Rightarrow> string \<Rightarrow> string \<Rightarrow> string + (string \<times> string \<times> int)" where
  "rtToAT e i refreshToken clientID =
     (case re_oauth e i refreshToken clientID of
        Inl err \<Rightarrow> Inl err
      | Inr (status, data) \<Rightarrow>
          if status \<noteq> 200 then Inl (''rt refresh http='' @ dec_int status @ '' body='' @ trunc_text data 200)
          else (case unmarshal_struct oauth_fields \<lparr>or_access = '''', or_refresh = '''', or_expires = 0\<rparr> data of
                  None \<Rightarrow> Inl (re_json_error e data)
                | Some out \<Rightarrow>
                    if or_access out = '''' then Inl ''rt refresh: missing access_token in response''
                    else Inr (or_access out, or_refresh out,
                      if or_expires out > 0 then re_now e R_oauth + wrap64 (or_expires out * 1000000000) div 1000000
                      else parseJWTExp (re_jexp e) (re_now e R_token) (or_access out))))"

record session_reply =
  sr_access :: string
  sr_expires :: string

definition session_fields :: "(string \<times> session_reply decoder) list" where
  "session_fields =
     [(''accessToken'', field sr_access sr_access_update dec_string),
      (''expires'', field sr_expires sr_expires_update dec_string)]"

definition stToAT :: "refresh_env \<Rightarrow> nat \<Rightarrow> string \<Rightarrow> string + (string \<times> int)" where
  "stToAT e i sessionToken =
     (case re_session e i sessionToken of
        Inl err \<Rightarrow> Inl err
      | Inr (status, data) \<Rightarrow>
          if status \<noteq> 200 then Inl (''st refresh http='' @ dec_int status @ '' body='' @ trunc_text data 200)
          else
            let raw = TrimSpace data in
            if raw = '''' \<or> raw = ''{}'' then Inl txt_st_empty
            else (case unmarshal_struct session_fields \<lparr>sr_access = '''', sr_expires = ''''\<rparr> raw of
                    None \<Rightarrow> Inl (re_json_error e raw)
                  | Some out \<Rightarrow>
                      if sr_access out = '''' then Inl txt_no_access
                      else
                        let t = (case (if sr_expires out \<noteq> '''' then re_rfc3339 e (sr_expires out) else None) of
                                   None \<Rightarrow> zero_time | Some t \<Rightarrow> t) in
                        Inr (sr_access out, if t = zero_time then parseJWTExp (re_jexp e) (re_now e R_token) (sr_access out) else t)))"

section \<open>Refreshing an account\<close>

text \<open>A stored secret that is present, decrypts and is not empty.\<close>

definition usable_secret :: "aead \<Rightarrow> string option \<Rightarrow> string option" where
  "usable_secret c enc =
     (case enc of
        None \<Rightarrow> None
      | Some v \<Rightarrow>
          if v = '''' then None
          else (case DecryptString c v of Inl _ \<Rightarrow> None | Inr s \<Rightarrow> if s = '''' then None else Some s))"

text \<open>
  The way over the refresh token: a token that chatgpt.com accepted, or the error so far and whether chatgpt.com
  refused the token with 401.
\<close>

definition rt_attempt :: "refresh_env \<Rightarrow> account \<Rightarrow> (string \<times> string \<times> int) + (string \<times> bool)" where
  "rt_attempt e a =
     (case usable_secret (re_cipher e) (a_refresh_enc a) of
        None \<Rightarrow> Inr ('''', False)
      | Some rt \<Rightarrow>
          (case rtToAT e (a_id a) rt (if a_client_id a = '''' then re_client e else a_client_id a) of
             Inl err \<Rightarrow> Inr (friendlyRefreshErr err, False)
           | Inr (newAT, newRT, expAt) \<Rightarrow>
               (case re_me e (a_id a) newAT of
                  Inl err \<Rightarrow> Inr (txt_verify_failed @ friendlyRefreshErr err, False)
                | Inr status \<Rightarrow>
                    if status = 200 then Inl (newAT, newRT, expAt)
                    else if status = 401 then Inr (txt_web_rejected, True)
                    else Inr (txt_verify_http @ dec_int status @ '')'', False))))"

text \<open>The way over the session token; without one the error stays as it is.\<close>

definition st_attempt :: "refresh_env \<Rightarrow> account \<Rightarrow> string \<Rightarrow> (string \<times> int) + string" where
  "st_attempt e a err =
     (case usable_secret (re_cipher e) (a_session_enc a) of
        None \<Rightarrow> Inr err
      | Some st \<Rightarrow>
          (case stToAT e (a_id a) st of
             Inl serr \<Rightarrow> Inr (if err = '''' then friendlyRefreshErr serr else err @ '' / ST:'' @ friendlyRefreshErr serr)
           | Inr found \<Rightarrow> Inl found))"

definition no_result :: "account \<Rightarrow> refresh_result" where
  "no_result a = \<lparr>rr_account = a_id a, rr_ok = False, rr_source = '''', rr_expires = zero_time, rr_error = '''',
     rr_rotated = False, rr_verified = False, rr_web_unauthorized = False\<rparr>"

definition applyRefresh ::
  "refresh_env \<Rightarrow> account \<Rightarrow> string \<Rightarrow> string \<Rightarrow> int \<Rightarrow> string \<Rightarrow> refresh_result \<Rightarrow> ('a account_db_scheme sess, refresh_result) action" where
  "applyRefresh e a newAT newRT expAt source res =
     bindE (liftE (EncryptString (re_cipher e) (re_nonce e 0) newAT)) (\<lambda>atEnc.
     bindE (if newRT \<noteq> '''' then liftE (EncryptString (re_cipher e) (re_nonce e 1) newRT) else okE '''') (\<lambda>rtEnc.
     let t = (if expAt = zero_time then parseJWTExp (re_jexp e) (re_now e R_token) newAT else expAt) in
     bindE (ApplyRefreshResult (re_now e R_write) (a_id a) atEnc rtEnc t source) (\<lambda>_.
     okE (res\<lparr>rr_ok := True, rr_source := source, rr_expires := t, rr_error := '''', rr_rotated := (rtEnc \<noteq> '''')\<rparr>))))"

text \<open>Both ways failed: the reason is recorded, an error of that is dropped.\<close>

definition give_up :: "refresh_env \<Rightarrow> account \<Rightarrow> string \<Rightarrow> bool \<Rightarrow> ('a account_db_scheme sess, refresh_result) action" where
  "give_up e a err rejected s =
     (let reason = (if rejected then (if a_session_enc a = None \<or> a_session_enc a = Some '''' then txt_need_session else err)
                    else if err = '''' then txt_no_token else err) in
      (Inr ((no_result a)\<lparr>rr_source := ''failed'', rr_error := reason, rr_web_unauthorized := rejected\<rparr>),
       snd (RecordRefreshError (re_now e R_write) (a_id a) RefreshSourceRT reason True s)))"

definition RefreshAuto :: "refresh_env \<Rightarrow> account \<Rightarrow> ('a account_db_scheme sess, refresh_result) action" where
  "RefreshAuto e a =
     (case rt_attempt e a of
        Inl (newAT, newRT, expAt) \<Rightarrow> applyRefresh e a newAT newRT expAt RefreshSourceRT ((no_result a)\<lparr>rr_verified := True\<rparr>)
      | Inr (err, rejected) \<Rightarrow>
          (case st_attempt e a err of
             Inl (newAT, expAt) \<Rightarrow> applyRefresh e a newAT '''' expAt RefreshSourceST ((no_result a)\<lparr>rr_verified := True, rr_error := err\<rparr>)
           | Inr err2 \<Rightarrow> give_up e a err2 rejected))"

definition RefreshByID :: "refresh_env \<Rightarrow> int \<Rightarrow> int \<Rightarrow> nat \<Rightarrow> ('a account_db_scheme sess, refresh_result) action" where
  "RefreshByID e tz now i = bindE (Account_GetByID tz now i) (RefreshAuto e)"

text \<open>A scan: the accounts about to expire, refreshed in the order in which they finish.\<close>

definition refresh_scan ::
  "(nat \<Rightarrow> refresh_env) \<Rightarrow> scan \<Rightarrow> scan \<Rightarrow> int \<Rightarrow> int \<Rightarrow> int \<Rightarrow> 'a account_db_scheme sess \<Rightarrow> 'a account_db_scheme sess" where
  "refresh_scan env scan finish tz now aheadSec s =
     (case ListNeedRefresh scan tz now aheadSec 256 s of
        (Inl _, s1) \<Rightarrow> s1
      | (Inr rows, s1) \<Rightarrow> fold (\<lambda>a s. snd (RefreshAuto (env (a_id a)) a s)) (finish rows) s1)"

section \<open>The quota prober\<close>

record limit_item =
  li_name :: string
  li_remaining :: "int option"
  li_reset :: string
  li_max :: "int option"
  li_cap :: "int option"
  li_total :: "int option"
  li_limit :: "int option"

definition limit_fields :: "(string \<times> limit_item decoder) list" where
  "limit_fields =
     [(''feature_name'', field li_name li_name_update dec_string),
      (''remaining'', field li_remaining li_remaining_update (dec_pointer 0 dec_number)),
      (''reset_after'', field li_reset li_reset_update dec_string),
      (''max_value'', field li_max li_max_update (dec_pointer 0 dec_number)),
      (''cap'', field li_cap li_cap_update (dec_pointer 0 dec_number)),
      (''total'', field li_total li_total_update (dec_pointer 0 dec_number)),
      (''limit'', field li_limit li_limit_update (dec_pointer 0 dec_number))]"

record init_reply =
  in_type :: string
  in_blocked :: "string list"
  in_model :: string
  in_limits :: "limit_item list"

definition no_limit_item :: limit_item where
  "no_limit_item = \<lparr>li_name = '''', li_remaining = None, li_reset = '''', li_max = None, li_cap = None, li_total = None, li_limit = None\<rparr>"

definition init_fields :: "(string \<times> init_reply decoder) list" where
  "init_fields =
     [(''type'', field in_type in_type_update dec_string),
      (''blocked_features'', field in_blocked in_blocked_update (dec_slice '''' dec_string)),
      (''default_model_slug'', field in_model in_model_update dec_string),
      (''limits_progress'', field in_limits in_limits_update (dec_slice no_limit_item (dec_struct limit_fields)))]"

definition isImageFeature :: "string \<Rightarrow> bool" where
  "isImageFeature name =
     (let n = ToLower name in
      n \<in> set [''image_gen'', ''image_generation'', ''image_edit'', ''img_gen''] \<or> Contains n ''image_gen'' \<or> Contains n ''img_gen'')"

fun pickInt :: "int option list \<Rightarrow> int option" where
  "pickInt [] = None"
| "pickInt (p # ps) = (case p of None \<Rightarrow> pickInt ps | Some v \<Rightarrow> Some v)"

text \<open>The surroundings of a probe: the answer for the token and the device, \<open>today\<close> the local day.\<close>

record probe_env =
  pe_init :: "nat \<Rightarrow> string \<Rightarrow> string \<Rightarrow> string \<Rightarrow> web_reply"
  pe_json_error :: "string \<Rightarrow> string"
  pe_rfc3339 :: "string \<Rightarrow> int option"
  pe_today :: int
  pe_now :: int
  pe_cipher :: aead
  pe_driver_text :: "go_err \<Rightarrow> string"

record probe_outcome =
  po_remaining :: int
  po_total :: int
  po_reset :: "int option"
  po_model :: string
  po_blocked :: "string list"

definition probe_item :: "probe_env \<Rightarrow> limit_item \<Rightarrow> probe_outcome \<Rightarrow> probe_outcome" where
  "probe_item e item out =
     (if \<not> isImageFeature (li_name item) then out
      else
        let out1 = (case li_remaining item of
                      None \<Rightarrow> out
                    | Some r \<Rightarrow> if po_remaining out < 0 \<or> r < po_remaining out then out\<lparr>po_remaining := r\<rparr> else out);
            out2 = (case pickInt [li_max item, li_cap item, li_total item, li_limit item] of
                      None \<Rightarrow> out1
                    | Some v \<Rightarrow> if v > po_total out1 then out1\<lparr>po_total := v\<rparr> else out1) in
        if li_reset item = '''' then out2
        else (case pe_rfc3339 e (li_reset item) of
                None \<Rightarrow> out2
              | Some t \<Rightarrow> (case po_reset out2 of
                            None \<Rightarrow> out2\<lparr>po_reset := Some t\<rparr>
                          | Some t0 \<Rightarrow> if t < t0 then out2\<lparr>po_reset := Some t\<rparr> else out2)))"

definition fallbackDeviceID :: "nat \<Rightarrow> string" where
  "fallbackDeviceID i =
     (let d = dec_nat (i mod 10 ^ 12) in ''00000000-0000-4000-8000-'' @ replicate (12 - length d) (CHR ''0'') @ d)"

definition estimate_total :: "probe_env \<Rightarrow> account \<Rightarrow> probe_outcome \<Rightarrow> probe_outcome" where
  "estimate_total e a out =
     (if po_total out \<le> 0 \<and> po_remaining out \<ge> 0 then
        let used = (if a_used_date a = Some (pe_today e) then a_used_count a else 0); n = wrap64 (used + po_remaining out) in
        if n > 0 then out\<lparr>po_total := n\<rparr> else out
      else out)"

definition doProbe :: "probe_env \<Rightarrow> account \<Rightarrow> string \<Rightarrow> string + probe_outcome" where
  "doProbe e a accessToken =
     (let dev = TrimSpace (a_oai_device a) in
      case pe_init e (a_id a) accessToken (if dev = '''' then fallbackDeviceID (a_id a) else dev) (TrimSpace (a_oai_session a)) of
        Inl err \<Rightarrow> Inl err
      | Inr (status, data) \<Rightarrow>
          if status \<noteq> 200 then Inl (''conversation/init http='' @ dec_int status @ '' body='' @ trunc_text data 200)
          else (case unmarshal_struct init_fields \<lparr>in_type = '''', in_blocked = [], in_model = '''', in_limits = []\<rparr> data of
                  None \<Rightarrow> Inl (pe_json_error e data)
                | Some p \<Rightarrow>
                    Inr (estimate_total e a
                      (fold (probe_item e) (in_limits p)
                        \<lparr>po_remaining = -1, po_total = -1, po_reset = None, po_model = in_model p, po_blocked = in_blocked p\<rparr>))))"

definition friendlyProbeErr :: "string \<Rightarrow> string" where
  "friendlyProbeErr s =
     (let low = ToLower s in
      if Contains low ''http=401'' then txt_probe_expired
      else if Contains low ''http=403'' then txt_forbidden
      else if Contains low ''http=429'' then txt_probe_limited
      else if Contains low ''timeout'' \<or> Contains low ''deadline exceeded'' then txt_probe_timeout
      else if Contains low ''connection refused'' \<or> Contains low ''no such host'' then txt_probe_network
      else txt_probe_failed @ (if length s > 160 then take 160 s @ txt_ellipsis else s))"

record quota_result =
  qr_account :: nat
  qr_ok :: bool
  qr_remaining :: int
  qr_total :: int
  qr_reset :: "int option"
  qr_model :: string
  qr_blocked :: "string list"
  qr_error :: string

definition new_quota_result :: "account \<Rightarrow> quota_result" where
  "new_quota_result a = \<lparr>qr_account = a_id a, qr_ok = False, qr_remaining = 0, qr_total = 0, qr_reset = None, qr_model = '''',
     qr_blocked = [], qr_error = ''''\<rparr>"

text \<open>The result; its error is also the returned one.\<close>

definition ProbeOne :: "probe_env \<Rightarrow> account \<Rightarrow> 'a account_db_scheme sess \<Rightarrow> quota_result \<times> 'a account_db_scheme sess" where
  "ProbeOne e a s =
     (let failed = (\<lambda>msg. ((new_quota_result a)\<lparr>qr_error := msg\<rparr>, snd (ApplyQuotaResult (pe_now e) (a_id a) (-1) (-1) None s))) in
      case DecryptString (pe_cipher e) (a_auth_enc a) of
        Inl _ \<Rightarrow> failed txt_no_auth
      | Inr tok \<Rightarrow>
          if tok = '''' then failed txt_no_auth
          else (case doProbe e a tok of
                  Inl err \<Rightarrow> failed (friendlyProbeErr err)
                | Inr p \<Rightarrow>
                    (case ApplyQuotaResult (pe_now e) (a_id a) (po_remaining p) (po_total p) (po_reset p) s of
                       (Inl err, s1) \<Rightarrow> ((new_quota_result a)\<lparr>qr_error := txt_write_failed @ pe_driver_text e err\<rparr>, s1)
                     | (Inr _, s1) \<Rightarrow>
                         ((new_quota_result a)\<lparr>qr_ok := True, qr_remaining := po_remaining p, qr_total := po_total p,
                            qr_reset := po_reset p, qr_model := po_model p, qr_blocked := po_blocked p\<rparr>, s1))))"

definition ProbeByID :: "probe_env \<Rightarrow> int \<Rightarrow> int \<Rightarrow> nat \<Rightarrow> ('a account_db_scheme sess, quota_result) action" where
  "ProbeByID e tz now i = bindE (Account_GetByID tz now i) (\<lambda>a s. (Inr (fst (ProbeOne e a s)), snd (ProbeOne e a s)))"

definition probe_scan ::
  "(nat \<Rightarrow> probe_env) \<Rightarrow> scan \<Rightarrow> scan \<Rightarrow> int \<Rightarrow> int \<Rightarrow> int \<Rightarrow> 'a account_db_scheme sess \<Rightarrow> 'a account_db_scheme sess" where
  "probe_scan env scan finish tz now minInterval s =
     (case ListNeedProbeQuota scan tz now minInterval 256 s of
        (Inl _, s1) \<Rightarrow> s1
      | (Inr rows, s1) \<Rightarrow> fold (\<lambda>a s. snd (ProbeOne (env (a_id a)) a s)) (finish rows) s1)"

end
