(* ===== verification/Account_Refresh_Laws.thy ===== *)
theory Account_Refresh_Laws
  imports Account_Refresh Account_Laws
begin

text \<open>
  What the background workers guarantee: a refresh stores only a token that chatgpt.com accepts or issued itself and
  touches only its account's row; an account that an outage kills is never refreshed again; a probe reads the
  tightest of the image limits; a failed probe makes an exhausted account due at once.
\<close>

section \<open>One statement on one row\<close>

definition write_rows :: "nat \<Rightarrow> (account \<Rightarrow> account) \<Rightarrow> account list \<Rightarrow> account list" where
  "write_rows i f as = map (\<lambda>x. if live_id i x then f x else x) as"

definition keeps_identity :: "(account \<Rightarrow> account) \<Rightarrow> bool" where
  "keeps_identity f \<longleftrightarrow> (\<forall>x. a_id (f x) = a_id x \<and> a_email (f x) = a_email x \<and> a_deleted_at (f x) = a_deleted_at x)"

lemma write_rows_id [simp]: "write_rows i (\<lambda>x. x) as = as"
  by (simp add: write_rows_def)

lemma keeps_id [simp]: "keeps_identity (\<lambda>x. x)"
  by (simp add: keeps_identity_def)

text \<open>No effect is the effect of the identity.\<close>

lemma row_effect_cases:
  assumes "fst s' = fst s \<or> fst s' = (fst s)\<lparr>accounts := write_rows i f (accounts (fst s))\<rparr>" and "keeps_identity f"
  obtains g where "g = (\<lambda>x. x) \<or> g = f" and "keeps_identity g" and "fst s' = (fst s)\<lparr>accounts := write_rows i g (accounts (fst s))\<rparr>"
proof -
  have "fst s = (fst s)\<lparr>accounts := write_rows i (\<lambda>x. x) (accounts (fst s))\<rparr>" by simp
  then show thesis using assms that [of "\<lambda>x. x"] that [of f] by (metis keeps_id)
qed

lemma write_rows_emails: "keeps_identity f \<Longrightarrow> live_emails (write_rows i f as) = live_emails as"
  by (induction as) (auto simp: live_emails_def write_rows_def keeps_identity_def a_live_def)

text \<open>Under any faults the statement had no effect or its effect; when it reports success, its effect.\<close>

lemma exec_row_effect:
  assumes "exec_accounts (live_id i) f s = (r, s')"
  shows "fst s' = fst s \<or> fst s' = (fst s)\<lparr>accounts := write_rows i f (accounts (fst s))\<rparr>"
    and "r = Inr () \<Longrightarrow> fst s' = (fst s)\<lparr>accounts := write_rows i f (accounts (fst s))\<rparr>"
proof -
  let ?u = "update_accounts (live_id i) f"
  obtain q s1 where q: "stmt ?u s = (q, s1)" by (rule prod.exhaust)
  have s1: "s' = s1" "r = Inr () \<Longrightarrow> \<exists>n. q = Inr n"
    using assms q by (auto simp: exec_accounts_def bindE_def okE_def split: sum.splits)
  have u: "snd (?u d) = d \<or> snd (?u d) = d\<lparr>accounts := write_rows i f (accounts d)\<rparr>"
    "fst (?u d) = Inr n \<Longrightarrow> snd (?u d) = d\<lparr>accounts := write_rows i f (accounts d)\<rparr>" for d n
    by (auto simp: update_accounts_def write_rows_def Let_def split: if_splits)
  show "fst s' = fst s \<or> fst s' = (fst s)\<lparr>accounts := write_rows i f (accounts (fst s))\<rparr>"
    using stmt_db [of ?u s] u(1) [of "fst s"] q s1(1) by auto
  show "fst s' = (fst s)\<lparr>accounts := write_rows i f (accounts (fst s))\<rparr>" if ok: "r = Inr ()"
  proof -
    obtain n where "stmt ?u s = (Inr n, s1)" using s1(2) [OF ok] q by auto
    then have "?u (fst s) = (Inr n, fst s1)" by (elim stmt_InrE)
    then show ?thesis using u(2) [of "fst s" n] s1(1) by simp
  qed
qed

lemma exec_row_no_faults:
  assumes "keeps_identity f" and "distinct (live_emails (accounts d))"
  shows "exec_accounts (live_id i) f (d, []) = (Inr (), (d\<lparr>accounts := write_rows i f (accounts d)\<rparr>, []))"
  using assms write_rows_emails [OF assms(1), of i "accounts d"]
  by (simp add: exec_accounts_def bindE_def okE_def update_accounts_def write_rows_def)

section \<open>What a refresh writes\<close>

text \<open>A token was issued for the account's own secrets; one from the refresh token passed the check.\<close>

definition issued :: "refresh_env \<Rightarrow> account \<Rightarrow> string \<Rightarrow> string \<Rightarrow> bool" where
  "issued e a tok newRT \<longleftrightarrow>
     (\<exists>rt t. usable_secret (re_cipher e) (a_refresh_enc a) = Some rt \<and>
        rtToAT e (a_id a) rt (if a_client_id a = '''' then re_client e else a_client_id a) = Inr (tok, newRT, t) \<and>
        re_me e (a_id a) tok = Inr 200) \<or>
     (\<exists>st t. usable_secret (re_cipher e) (a_session_enc a) = Some st \<and> stToAT e (a_id a) st = Inr (tok, t) \<and> newRT = '''')"

definition renewed :: "refresh_env \<Rightarrow> account \<Rightarrow> (account \<Rightarrow> account) \<Rightarrow> bool" where
  "renewed e a f \<longleftrightarrow>
     (\<exists>tok newRT. issued e a tok newRT \<and>
        (\<forall>x. DecryptString (re_cipher e) (a_auth_enc (f x)) = Inr tok \<and>
             (if newRT = '''' then a_refresh_enc (f x) = a_refresh_enc x
              else usable_secret (re_cipher e) (a_refresh_enc (f x)) = Some newRT) \<and>
             a_session_enc (f x) = a_session_enc x \<and> a_status (f x) = revive (a_status x)))"

definition given_up :: "refresh_env \<Rightarrow> account \<Rightarrow> (account \<Rightarrow> account) \<Rightarrow> bool" where
  "given_up e a f \<longleftrightarrow>
     (\<nexists>tok newRT. issued e a tok newRT) \<and>
     (\<forall>x. a_auth_enc (f x) = a_auth_enc x \<and> a_refresh_enc (f x) = a_refresh_enc x \<and> a_session_enc (f x) = a_session_enc x \<and>
          a_expires (f x) = a_expires x \<and>
          a_status (f x) = (case a_expires x of None \<Rightarrow> StatusDead
                            | Some t \<Rightarrow> if t > sql_now (re_now e R_write) then StatusWarned else StatusDead))"

lemma usable_secret_encrypted:
  assumes "aead_ok c" and "good_nonces c rnd" and "EncryptString c (rnd k) p = Inr v" and "p \<noteq> ''''"
  shows "usable_secret c (Some v) = Some p"
  using encrypted_decrypts [OF assms(1-3)] assms(4) by (simp add: usable_secret_def)

text \<open>Both statements of \<open>ApplyRefreshResult\<close> as one: an empty refresh token keeps the stored one.\<close>

definition renew_row :: "int \<Rightarrow> string \<Rightarrow> string \<Rightarrow> int \<Rightarrow> string \<Rightarrow> account \<Rightarrow> account" where
  "renew_row now atEnc rtEnc t src x = x\<lparr>a_auth_enc := atEnc, a_refresh_enc := (if rtEnc = '''' then a_refresh_enc x else Some rtEnc),
     a_expires := Some (datetime t), a_last_refresh := Some (datetime now), a_refresh_source := src, a_refresh_error := '''',
     a_status := revive (a_status x)\<rparr>"

lemma apply_exec: "ApplyRefreshResult now i atEnc rtEnc t src = exec_accounts (live_id i) (renew_row now atEnc rtEnc t src)"
proof -
  have "renew_row now atEnc rtEnc t src = (\<lambda>x. if rtEnc \<noteq> ''''
      then x\<lparr>a_auth_enc := atEnc, a_refresh_enc := Some rtEnc, a_expires := Some (datetime t), a_last_refresh := Some (datetime now),
             a_refresh_source := src, a_refresh_error := '''', a_status := revive (a_status x)\<rparr>
      else x\<lparr>a_auth_enc := atEnc, a_expires := Some (datetime t), a_last_refresh := Some (datetime now),
             a_refresh_source := src, a_refresh_error := '''', a_status := revive (a_status x)\<rparr>)"
    by (rule ext) (simp add: renew_row_def)
  then show ?thesis by (simp add: ApplyRefreshResult_def)
qed

lemma applyRefresh_cases:
  assumes "applyRefresh e a tok newRT t src res s = (r, s')"
  obtains (sealing) err where "s' = s" and "r = Inl err"
  | (writing) atEnc rtEnc t' q where "EncryptString (re_cipher e) (re_nonce e 0) tok = Inr atEnc"
      and "if newRT = '''' then rtEnc = '''' else EncryptString (re_cipher e) (re_nonce e 1) newRT = Inr rtEnc"
      and "exec_accounts (live_id (a_id a)) (renew_row (re_now e R_write) atEnc rtEnc t' src) s = (q, s')"
      and "\<And>x. r = Inr x \<Longrightarrow> q = Inr ()"
proof (cases "EncryptString (re_cipher e) (re_nonce e 0) tok")
  case (Inl err)
  with assms sealing [of err] show thesis by (auto simp: applyRefresh_def bindE_def liftE_def)
next
  case (Inr atEnc)
  note at0 = Inr
  let ?t = "if t = zero_time then parseJWTExp (re_jexp e) (re_now e R_token) tok else t"
  have step: thesis if rt: "(if newRT \<noteq> '''' then liftE (EncryptString (re_cipher e) (re_nonce e 1) newRT) else okE '''') s = (Inr rtEnc, s)" for rtEnc
  proof -
    obtain q s1 where q: "exec_accounts (live_id (a_id a)) (renew_row (re_now e R_write) atEnc rtEnc ?t src) s = (q, s1)" by (rule prod.exhaust)
    have a0: "liftE (EncryptString (re_cipher e) (re_nonce e 0) tok) s = (Inr atEnc, s)" by (simp add: liftE_def at0)
    have "bindE (exec_accounts (live_id (a_id a)) (renew_row (re_now e R_write) atEnc rtEnc ?t src)) (\<lambda>_. okE
        (res\<lparr>rr_ok := True, rr_source := src, rr_expires := ?t, rr_error := '''', rr_rotated := (rtEnc \<noteq> '''')\<rparr>)) s = (r, s')"
      using assms unfolding applyRefresh_def 
        bindE_Inr [of "liftE (EncryptString (re_cipher e) (re_nonce e 0) tok)" s, OF a0]
        bindE_Inr [of "if newRT \<noteq> '''' then liftE (EncryptString (re_cipher e) (re_nonce e 1) newRT) else okE ''''" s, OF rt] Let_def apply_exec .
    then have "s1 = s'" "\<And>x. r = Inr x \<Longrightarrow> q = Inr ()" using q by (auto simp: bindE_def okE_def split: sum.splits)
    then show thesis using writing [OF at0 _ q [unfolded \<open>s1 = s'\<close>]] rt by (auto simp: okE_def liftE_def split: if_splits)
  qed
  show thesis
  proof (cases "newRT = ''''")
    case True
    then show thesis using step [of "''''"] by (simp add: okE_def)
  next
    case False
    then show thesis using step sealing assms at0
      by (cases "EncryptString (re_cipher e) (re_nonce e 1) newRT") (auto simp: applyRefresh_def bindE_def liftE_def)
  qed
qed

lemma renew_row_renewed:
  assumes "issued e a tok newRT" and "aead_ok (re_cipher e)" and "good_nonces (re_cipher e) (re_nonce e)"
    and "EncryptString (re_cipher e) (re_nonce e 0) tok = Inr atEnc"
    and "if newRT = '''' then rtEnc = '''' else EncryptString (re_cipher e) (re_nonce e 1) newRT = Inr rtEnc"
  shows "renewed e a (renew_row now atEnc rtEnc t src)"
  using encrypted_decrypts [OF assms(2,3,4)] assms(1,5) encrypted_decrypts [OF assms(2,3), of 1 newRT rtEnc]
    usable_secret_encrypted [OF assms(2,3), of 1 newRT rtEnc]
  unfolding renewed_def by (intro exI [of _ tok] exI [of _ newRT]) (auto simp: renew_row_def split: if_splits)

lemma keeps_renew_row: "keeps_identity (renew_row now atEnc rtEnc t src)"
  by (simp add: keeps_identity_def renew_row_def)

text \<open>The row of a refresh that gave up.\<close>

definition given_up_row :: "refresh_env \<Rightarrow> string \<Rightarrow> account \<Rightarrow> account" where
  "given_up_row e reason x = x\<lparr>a_last_refresh := Some (datetime (re_now e R_write)), a_refresh_source := RefreshSourceRT, a_refresh_error := reason,
     a_status := (case a_expires x of None \<Rightarrow> StatusDead
                  | Some t \<Rightarrow> if t > sql_now (re_now e R_write) then StatusWarned else StatusDead)\<rparr>"

lemma give_up_exec:
  assumes "give_up e a err rejected s = (r, s')"
  obtains reason q res where "exec_accounts (live_id (a_id a)) (given_up_row e reason) s = (q, s')" and "r = Inr res" and "\<not> rr_ok res"
proof -
  obtain reason where re: "snd (RecordRefreshError (re_now e R_write) (a_id a) RefreshSourceRT reason True s) = s'"
    "\<exists>res. r = Inr res \<and> \<not> rr_ok res"
    using assms by (auto simp: give_up_def no_result_def Let_def)
  have "given_up_row e reason = (\<lambda>x. x\<lparr>a_last_refresh := Some (datetime (re_now e R_write)), a_refresh_source := RefreshSourceRT, a_refresh_error := reason,
     a_status := (case a_expires x of None \<Rightarrow> StatusDead | Some t \<Rightarrow> if t > sql_now (re_now e R_write) then StatusWarned else StatusDead)\<rparr>)"
    by (rule ext) (simp add: given_up_row_def)
  then have "snd (exec_accounts (live_id (a_id a)) (given_up_row e reason) s) = s'"
    using re(1) by (simp add: RecordRefreshError_def)
  then show thesis using re(2) that by (metis prod.collapse)
qed

lemma given_up_row_facts: "keeps_identity (given_up_row e reason)"
  "(\<nexists>tok newRT. issued e a tok newRT) \<Longrightarrow> given_up e a (given_up_row e reason)"
  by (auto simp: keeps_identity_def given_up_row_def given_up_def)

lemma attempts_issued:
  "rt_attempt e a = Inl (tok, newRT, t) \<Longrightarrow> issued e a tok newRT"
  "st_attempt e a err = Inl (tok, t) \<Longrightarrow> issued e a tok ''''"
  "rt_attempt e a = Inr x \<Longrightarrow> st_attempt e a err = Inr y \<Longrightarrow> \<not> issued e a tok newRT"
proof -
  show "issued e a tok newRT" if "rt_attempt e a = Inl (tok, newRT, t)"
    using that by (auto simp: rt_attempt_def issued_def split: option.splits sum.splits if_splits)
  show "issued e a tok ''''" if "st_attempt e a err = Inl (tok, t)"
    using that by (auto simp: st_attempt_def issued_def split: option.splits sum.splits)
  show "\<not> issued e a tok newRT" if "rt_attempt e a = Inr x" "st_attempt e a err = Inr y"
    using that by (auto simp: rt_attempt_def st_attempt_def issued_def split: option.splits sum.splits if_splits)
qed

lemma applied_effect:
  assumes "applyRefresh e a tok newRT t src res s = (r, s')" and "issued e a tok newRT"
    and "aead_ok (re_cipher e)" and "good_nonces (re_cipher e) (re_nonce e)"
  shows "\<exists>f. keeps_identity f \<and> fst s' = (fst s)\<lparr>accounts := write_rows (a_id a) f (accounts (fst s))\<rparr> \<and>
    (f = (\<lambda>x. x) \<or> renewed e a f) \<and> (\<forall>q. r = Inr q \<longrightarrow> renewed e a f)"
  using assms(1)
proof (cases rule: applyRefresh_cases)
  case (sealing err)
  then show ?thesis by (intro exI [of _ "\<lambda>x. x"]) simp
next
  case (writing atEnc rtEnc t' q)
  let ?f = "renew_row (re_now e R_write) atEnc rtEnc t' src"
  have ren: "renewed e a ?f" by (rule renew_row_renewed [OF assms(2,3,4) writing(1,2)])
  show ?thesis
  proof (cases "\<exists>x. r = Inr x")
    case True
    then have "q = Inr ()" using writing(4) by blast
    then show ?thesis using ren exec_row_effect(2) [OF writing(3)] keeps_renew_row by blast
  next
    case False
    from exec_row_effect(1) [OF writing(3)] obtain g where "g = (\<lambda>x. x) \<or> g = ?f" "keeps_identity g"
      "fst s' = (fst s)\<lparr>accounts := write_rows (a_id a) g (accounts (fst s))\<rparr>" using keeps_renew_row by (rule row_effect_cases)
    then show ?thesis using ren False by blast
  qed
qed

lemma given_up_effect:
  assumes "give_up e a err rej s = (r, s')" and "\<nexists>tok newRT. issued e a tok newRT"
  shows "\<exists>f. keeps_identity f \<and> fst s' = (fst s)\<lparr>accounts := write_rows (a_id a) f (accounts (fst s))\<rparr> \<and>
    (f = (\<lambda>x. x) \<or> given_up e a f) \<and> (\<exists>res. r = Inr res \<and> \<not> rr_ok res)"
proof -
  from assms(1) obtain reason q res where g: "exec_accounts (live_id (a_id a)) (given_up_row e reason) s = (q, s')" "r = Inr res" "\<not> rr_ok res"
    by (rule give_up_exec)
  from exec_row_effect(1) [OF g(1)] obtain h where "h = (\<lambda>x. x) \<or> h = given_up_row e reason" "keeps_identity h"
    "fst s' = (fst s)\<lparr>accounts := write_rows (a_id a) h (accounts (fst s))\<rparr>" using given_up_row_facts(1) by (rule row_effect_cases)
  then show ?thesis using given_up_row_facts(2) [OF assms(2)] g(2,3) by blast
qed

text \<open>The three ways a refresh ends.\<close>

lemma RefreshAuto_cases:
  assumes "RefreshAuto e a s = (r, s')"
  obtains (applied) tok newRT t src res where "applyRefresh e a tok newRT t src res s = (r, s')" and "issued e a tok newRT"
  | (failed) err rej where "give_up e a err rej s = (r, s')" and "\<nexists>tok newRT. issued e a tok newRT"
proof (cases "rt_attempt e a")
  case (Inl x)
  then obtain tok newRT t where "rt_attempt e a = Inl (tok, newRT, t)" by (cases x) auto
  then show thesis using applied attempts_issued(1) assms by (simp add: RefreshAuto_def)
next
  case (Inr x)
  then obtain err rej where x: "rt_attempt e a = Inr (err, rej)" by (cases x) auto
  show thesis
  proof (cases "st_attempt e a err")
    case (Inl y)
    then obtain tok t where "st_attempt e a err = Inl (tok, t)" by (cases y) auto
    then show thesis using x applied attempts_issued(2) assms by (simp add: RefreshAuto_def)
  next
    case (Inr err2)
    then show thesis using x failed attempts_issued(3) [OF x Inr] assms by (simp add: RefreshAuto_def)
  qed
qed


section \<open>Scans\<close>

text \<open>Without the cipher's contract a refresh still touches at most its own row.\<close>

lemma RefreshAuto_row:
  assumes "RefreshAuto e a s = (r, s')"
  shows "\<exists>f. keeps_identity f \<and> fst s' = (fst s)\<lparr>accounts := write_rows (a_id a) f (accounts (fst s))\<rparr>"
  using assms
proof (cases rule: RefreshAuto_cases)
  case (applied tok newRT t src res)
  from applied(1) show ?thesis
  proof (cases rule: applyRefresh_cases)
    case (sealing err)
    then show ?thesis by (intro exI [of _ "\<lambda>x. x"]) simp
  next
    case (writing atEnc rtEnc t' q)
    from exec_row_effect(1) [OF writing(3)] keeps_renew_row show ?thesis by (rule row_effect_cases) blast
  qed
next
  case (failed err rej)
  show ?thesis using given_up_effect [OF failed] by blast
qed

definition row_of :: "nat \<Rightarrow> 'a account_db_scheme \<Rightarrow> account option" where
  "row_of i d = find (\<lambda>x. a_id x = i) (accounts d)"

lemma find_write_rows:
  assumes "keeps_identity f"
  shows "find (\<lambda>x. a_id x = i) (write_rows j f as) = map_option (\<lambda>x. if live_id j x then f x else x) (find (\<lambda>x. a_id x = i) as)"
  using assms by (induction as) (auto simp: write_rows_def keeps_identity_def)

lemma RefreshAuto_other:
  assumes "a_id a \<noteq> i"
  shows "row_of i (fst (snd (RefreshAuto e a s))) = row_of i (fst s)"
proof -
  obtain f where f: "keeps_identity f" "fst (snd (RefreshAuto e a s)) = (fst s)\<lparr>accounts := write_rows (a_id a) f (accounts (fst s))\<rparr>"
    using RefreshAuto_row [of e a s] by (metis prod.collapse)
  have "map_option (\<lambda>x. if live_id (a_id a) x then f x else x) (find (\<lambda>x. a_id x = i) as) = find (\<lambda>x. a_id x = i) as" for as
    using assms by (induction as) (auto simp: live_id_def)
  then show ?thesis by (simp add: row_of_def f(2) find_write_rows [OF f(1)])
qed

lemma refreshes_other:
  "i \<notin> a_id ` set rows \<Longrightarrow> row_of i (fst (fold (\<lambda>a s. snd (RefreshAuto (env (a_id a)) a s)) rows s)) = row_of i (fst s)"
  by (induction rows arbitrary: s) (auto simp: RefreshAuto_other)

text \<open>The accounts of a scan.\<close>

definition due_rows :: "scan \<Rightarrow> int \<Rightarrow> int \<Rightarrow> int \<Rightarrow> account list \<Rightarrow> account list" where
  "due_rows scan tz now aheadSec as =
     map (fill tz now) (take 256 (sort_key (\<lambda>a. the (a_expires a)) (scan (filter (need_refresh (now + aheadSec * 1000)) as))))"

lemma ListNeedRefresh_rows:
  assumes "ListNeedRefresh scan tz now aheadSec 256 s = (r, s1)"
  shows "fst s1 = fst s \<and> (\<forall>rows. r = Inr rows \<longrightarrow> rows = due_rows scan tz now aheadSec (accounts (fst s)))"
proof -
  have "reads (ListNeedRefresh scan tz now aheadSec 256)" unfolding ListNeedRefresh_def by (intro reads_intros reads_stmt) auto
  then show ?thesis using assms readsD [of "ListNeedRefresh scan tz now aheadSec 256" s r s1]
    by (auto simp: ListNeedRefresh_def due_rows_def okE_def elim!: bindE_InrE stmt_InrE)
qed

lemma due_rows_ids:
  assumes "set (scan (filter (need_refresh (now + aheadSec * 1000)) as)) \<subseteq> set (filter (need_refresh (now + aheadSec * 1000)) as)"
    and "y \<in> set (due_rows scan tz now aheadSec as)"
  shows "\<exists>x\<in>set as. need_refresh (now + aheadSec * 1000) x \<and> y = fill tz now x"
  using assms set_take_subset [of 256 "sort_key (\<lambda>a. the (a_expires a)) (scan (filter (need_refresh (now + aheadSec * 1000)) as))"]
  by (fastforce simp: due_rows_def)

text \<open>Servers that return the rows asked for, in any order; refreshes that finish in any order.\<close>

definition reorders :: "scan \<Rightarrow> bool" where
  "reorders f \<longleftrightarrow> (\<forall>as. set (f as) = set as \<and> (distinct as \<longrightarrow> distinct (f as)))"

lemma scan_spares_dead:
  assumes "reorders scan" and "reorders finish" and "distinct (map a_id (accounts (fst s)))"
    and "row_of i (fst s) = Some x" and "a_status x = StatusDead"
  shows "row_of i (fst (refresh_scan env scan finish tz now aheadSec s)) = Some x"
proof -
  obtain r s1 where l: "ListNeedRefresh scan tz now aheadSec 256 s = (r, s1)" by (rule prod.exhaust)
  note rows = ListNeedRefresh_rows [OF l]
  have x: "x \<in> set (accounts (fst s))" "a_id x = i" using assms(4) by (auto simp: row_of_def find_Some_iff)
  have "i \<notin> a_id ` set (finish (due_rows scan tz now aheadSec (accounts (fst s))))"
  proof
    assume "i \<in> a_id ` set (finish (due_rows scan tz now aheadSec (accounts (fst s))))"
    then obtain y where y: "y \<in> set (due_rows scan tz now aheadSec (accounts (fst s)))" "a_id y = i"
      using assms(2) by (auto simp: reorders_def)
    have "set (scan as) \<subseteq> set as" for as using assms(1) by (auto simp: reorders_def)
    then obtain z where z: "z \<in> set (accounts (fst s))" "need_refresh (now + aheadSec * 1000) z" "y = fill tz now z"
      using due_rows_ids y(1) by blast
    then have "z = x" using x y(2) assms(3) by (auto simp: distinct_map dest: inj_onD)
    then show False using z(2) assms(5) by (simp add: need_refresh_def)
  qed
  then have "row_of i (fst (fold (\<lambda>a s. snd (RefreshAuto (env (a_id a)) a s)) (finish (due_rows scan tz now aheadSec (accounts (fst s)))) s1)) = Some x"
    using rows assms(4) by (simp add: refreshes_other)
  then show ?thesis using l rows assms(4) by (cases r) (auto simp: refresh_scan_def)
qed

section \<open>An outage\<close>

lemma write_rows_ids: "keeps_identity f \<Longrightarrow> map a_id (write_rows i f as) = map a_id as"
  by (induction as) (auto simp: write_rows_def keeps_identity_def)

lemma RefreshAuto_keeps:
  "map a_id (accounts (fst (snd (RefreshAuto e a s)))) = map a_id (accounts (fst s))"
  "live_emails (accounts (fst (snd (RefreshAuto e a s)))) = live_emails (accounts (fst s))"
proof -
  obtain f where f: "keeps_identity f" "fst (snd (RefreshAuto e a s)) = (fst s)\<lparr>accounts := write_rows (a_id a) f (accounts (fst s))\<rparr>"
    using RefreshAuto_row [of e a s] by (metis prod.collapse)
  show "map a_id (accounts (fst (snd (RefreshAuto e a s)))) = map a_id (accounts (fst s))"
    "live_emails (accounts (fst (snd (RefreshAuto e a s)))) = live_emails (accounts (fst s))"
    by (simp_all add: f(2) write_rows_ids [OF f(1)] write_rows_emails [OF f(1)])
qed

lemma exec_row_quiet: "exec_accounts hit f (d, []) = (q, s') \<Longrightarrow> snd s' = []"
  by (auto simp: exec_accounts_def bindE_def okE_def split: sum.splits)

lemma RefreshAuto_quiet:
  assumes "snd s = []"
  shows "snd (snd (RefreshAuto e a s)) = []"
proof -
  obtain d where s: "s = (d, [])" using assms by (cases s) auto
  obtain r s' where r: "RefreshAuto e a (d, []) = (r, s')" by (rule prod.exhaust)
  from r have "snd s' = []"
  proof (cases rule: RefreshAuto_cases)
    case (applied tok newRT t src res)
    from applied(1) show ?thesis
      by (cases rule: applyRefresh_cases) (auto dest: exec_row_quiet)
  next
    case (failed err rej)
    from failed(1) show ?thesis by (rule give_up_exec) (rule exec_row_quiet)
  qed
  then show ?thesis using r s by simp
qed

lemma refreshes_keep:
  "map a_id (accounts (fst (fold (\<lambda>a s. snd (RefreshAuto (env (a_id a)) a s)) rows s))) = map a_id (accounts (fst s))"
  "live_emails (accounts (fst (fold (\<lambda>a s. snd (RefreshAuto (env (a_id a)) a s)) rows s))) = live_emails (accounts (fst s))"
  "snd s = [] \<Longrightarrow> snd (fold (\<lambda>a s. snd (RefreshAuto (env (a_id a)) a s)) rows s) = []"
  by (induction rows arbitrary: s) (auto simp: RefreshAuto_keeps RefreshAuto_quiet)

lemma refresh_scan_ids: "map a_id (accounts (fst (refresh_scan env scan finish tz now aheadSec s))) = map a_id (accounts (fst s))"
proof -
  obtain r s1 where l: "ListNeedRefresh scan tz now aheadSec 256 s = (r, s1)" by (rule prod.exhaust)
  show ?thesis using ListNeedRefresh_rows [OF l] l by (auto simp: refresh_scan_def refreshes_keep split: sum.split)
qed

text \<open>Neither endpoint can be reached for the account.\<close>

definition unreachable :: "refresh_env \<Rightarrow> nat \<Rightarrow> bool" where
  "unreachable e i \<longleftrightarrow> (\<forall>rt c. \<exists>err. re_oauth e i rt c = Inl err) \<and> (\<forall>st. \<exists>err. re_session e i st = Inl err)"

lemma unreachable_not_issued: "unreachable e (a_id a) \<Longrightarrow> \<not> issued e a tok newRT"
proof
  assume u: "unreachable e (a_id a)" and i: "issued e a tok newRT"
  from i show False unfolding issued_def
  proof (elim disjE exE conjE)
    fix rt t assume "rtToAT e (a_id a) rt (if a_client_id a = '''' then re_client e else a_client_id a) = Inr (tok, newRT, t)"
    moreover obtain err where "re_oauth e (a_id a) rt (if a_client_id a = '''' then re_client e else a_client_id a) = Inl err"
      using u unreachable_def by metis
    ultimately show False by (simp add: rtToAT_def)
  next
    fix st t assume "stToAT e (a_id a) st = Inr (tok, t)"
    moreover obtain err where "re_session e (a_id a) st = Inl err" using u unreachable_def by metis
    ultimately show False by (simp add: stToAT_def)
  qed
qed

lemma unreachable_dies:
  assumes "unreachable e (a_id a)" and "snd s = []" and "distinct (live_emails (accounts (fst s)))"
    and "row_of (a_id a) (fst s) = Some x" and "a_live x" and "a_expires x = Some t" and "t \<le> sql_now (re_now e R_write)"
  shows "\<exists>y. row_of (a_id a) (fst (snd (RefreshAuto e a s))) = Some y \<and> a_status y = StatusDead"
proof -
  obtain d where s: "s = (d, [])" using assms(2) by (cases s) auto
  obtain r s' where r: "RefreshAuto e a s = (r, s')" by (rule prod.exhaust)
  from r obtain err rej where "give_up e a err rej s = (r, s')"
    by (cases rule: RefreshAuto_cases) (use unreachable_not_issued [OF assms(1)] in auto)
  then obtain reason q res where g: "exec_accounts (live_id (a_id a)) (given_up_row e reason) s = (q, s')" by (rule give_up_exec)
  then have "fst s' = d\<lparr>accounts := write_rows (a_id a) (given_up_row e reason) (accounts d)\<rparr>"
    using exec_row_no_faults [OF given_up_row_facts(1), of d "a_id a" e reason] assms(3) s by (metis fst_conv prod.sel snd_conv)
  then have "row_of (a_id a) (fst s') = Some (given_up_row e reason x)"
    using assms(4,5) s by (auto simp: row_of_def find_write_rows [OF given_up_row_facts(1)] live_id_def find_Some_iff)
  then show ?thesis using r assms(6,7) by (auto simp: given_up_row_def)
qed

text \<open>A later scan of the background worker, with its surroundings.\<close>

type_synonym later_scan = "(nat \<Rightarrow> refresh_env) \<times> scan \<times> scan \<times> int \<times> int \<times> int"

definition run_scan :: "later_scan \<Rightarrow> 'a account_db_scheme sess \<Rightarrow> 'a account_db_scheme sess" where
  "run_scan v s = (case v of (env, sc, fi, tz, now, ahead) \<Rightarrow> refresh_scan env sc fi tz now ahead s)"

definition honest_scan :: "later_scan \<Rightarrow> bool" where
  "honest_scan v = (case v of (env, sc, fi, tz, now, ahead) \<Rightarrow> reorders sc \<and> reorders fi)"

lemma dead_for_good:
  assumes "\<forall>v\<in>set vs. honest_scan v" and "distinct (map a_id (accounts (fst s)))" and "row_of i (fst s) = Some x" and "a_status x = StatusDead"
  shows "row_of i (fst (fold run_scan vs s)) = Some x"
  using assms
proof (induction vs arbitrary: s)
  case (Cons v vs)
  obtain env sc fi tz now ahead where v: "v = (env, sc, fi, tz, now, ahead)" by (rule prod_cases6)
  have "reorders sc" "reorders fi" using Cons.prems(1) by (simp_all add: v honest_scan_def)
  from scan_spares_dead [OF this Cons.prems(2,3,4)]
  have "row_of i (fst (run_scan v s)) = Some x" by (simp add: v run_scan_def)
  moreover have "distinct (map a_id (accounts (fst (run_scan v s))))" using Cons.prems(2) by (simp add: v run_scan_def refresh_scan_ids)
  ultimately show ?case using Cons.IH Cons.prems(1,4) by simp
qed simp

lemma due_rows_all:
  assumes "reorders scan" and "distinct (map a_id as)" and "length (filter (need_refresh (now + aheadSec * 1000)) as) \<le> 256"
  shows "set (due_rows scan tz now aheadSec as) = fill tz now ` set (filter (need_refresh (now + aheadSec * 1000)) as)"
    and "distinct (map a_id (due_rows scan tz now aheadSec as))"
proof -
  let ?n = "filter (need_refresh (now + aheadSec * 1000)) as"
  have d: "distinct as" using assms(2) by (simp add: distinct_map)
  have sc: "set (scan ?n) = set ?n" "distinct (scan ?n)" using assms(1) d by (auto simp: reorders_def)
  have "length (scan ?n) = length ?n" using sc d by (metis distinct_card distinct_filter)
  then have all: "due_rows scan tz now aheadSec as = map (fill tz now) (sort_key (\<lambda>a. the (a_expires a)) (scan ?n))"
    using assms(3) by (simp add: due_rows_def)
  show "set (due_rows scan tz now aheadSec as) = fill tz now ` set ?n" by (simp only: all set_map set_sort sc(1))
  have "inj_on a_id (set as)" using assms(2) by (simp add: distinct_map)
  then have "inj_on a_id (set (sort_key (\<lambda>a. the (a_expires a)) (scan ?n)))" using sc(1) by (auto intro: inj_on_subset)
  then show "distinct (map a_id (due_rows scan tz now aheadSec as))"
    using sc(2) by (simp add: all comp_def distinct_map)
qed

text \<open>
  An outage at the wrong moment is permanent: an account whose token has expired when a scan cannot reach the servers for it
  is marked dead, and no later scan, however many follow and with whatever network, refreshes it again, although its
  refresh and session tokens may still be good.
\<close>

theorem outage_is_permanent:
  assumes "distinct (map a_id (accounts d))" and "distinct (live_emails (accounts d))" and "reorders scan" and "reorders finish"
    and "length (filter (need_refresh (now + aheadSec * 1000)) (accounts d)) \<le> 256"
    and "x \<in> set (accounts d)" and "need_refresh (now + aheadSec * 1000) x"
    and "unreachable (env (a_id x)) (a_id x)" and "a_expires x = Some t" and "t \<le> sql_now (re_now (env (a_id x)) R_write)"
    and "\<forall>v\<in>set later. honest_scan v"
  shows "\<exists>y. row_of (a_id x) (fst (fold run_scan later (fst (refresh_scan env scan finish tz now aheadSec (d, [])), faults))) = Some y \<and>
    a_status y = StatusDead"
proof -
  let ?i = "a_id x" and ?rows = "due_rows scan tz now aheadSec (accounts d)" and ?step = "\<lambda>a s. snd (RefreshAuto (env (a_id a)) a s)"
  note rows = due_rows_all [OF assms(3,1,5), of tz]
  have "distinct (finish ?rows)" "set (finish ?rows) = set ?rows"
    using assms(4) rows(2) by (auto simp: reorders_def distinct_map)
  moreover have "inj_on a_id (set ?rows)" using rows(2) by (simp add: distinct_map)
  ultimately have dis: "distinct (map a_id (finish ?rows))" by (simp add: distinct_map)
  have "fill tz now x \<in> set (finish ?rows)" using \<open>set (finish ?rows) = set ?rows\<close> rows(1) assms(6,7) by auto
  then obtain pre post where split: "finish ?rows = pre @ fill tz now x # post" by (metis split_list)
  have ids: "?i \<notin> a_id ` set pre" "?i \<notin> a_id ` set post" using dis by (auto simp: split)
  have x0: "row_of ?i d = Some x"
  proof -
    obtain y where y: "find (\<lambda>z. a_id z = ?i) (accounts d) = Some y" using assms(6) by (cases "find (\<lambda>z. a_id z = ?i) (accounts d)") (auto simp: find_None_iff)
    then have "y \<in> set (accounts d)" "a_id y = ?i" by (auto simp: find_Some_iff)
    then show ?thesis using y assms(1,6) by (auto simp: row_of_def distinct_map dest: inj_onD)
  qed
  define s1 where "s1 = fold ?step pre (d, [])"
  have s1: "row_of ?i (fst s1) = Some x" "snd s1 = []" "distinct (live_emails (accounts (fst s1)))"
    using refreshes_other [OF ids(1), of env "(d, [])"] x0 assms(2) by (simp_all add: s1_def refreshes_keep)
  have live: "a_live x" using assms(7) by (simp add: need_refresh_def)
  obtain y where y: "row_of ?i (fst (?step (fill tz now x) s1)) = Some y" "a_status y = StatusDead"
    using unreachable_dies [of "env ?i" "fill tz now x" s1 x t] s1 live assms(8,9,10) by auto
  have scan: "refresh_scan env scan finish tz now aheadSec (d, []) = fold ?step post (?step (fill tz now x) s1)"
    by (simp add: refresh_scan_def ListNeedRefresh_def bindE_def okE_def due_rows_def [symmetric] split s1_def)
  have "row_of ?i (fst (refresh_scan env scan finish tz now aheadSec (d, []))) = Some y"
    using refreshes_other [OF ids(2), of env "?step (fill tz now x) s1"] y(1) by (simp add: scan)
  then have "row_of ?i (fst (fold run_scan later (fst (refresh_scan env scan finish tz now aheadSec (d, [])), faults))) = Some y"
    using dead_for_good [OF assms(11), of "(fst (refresh_scan env scan finish tz now aheadSec (d, [])), faults)" ?i y] assms(1) y(2)
    by (simp add: refresh_scan_ids)
  then show ?thesis using y(2) by blast
qed

section \<open>Probes\<close>

text \<open>What the limits of the image features say.\<close>

definition image_limits :: "init_reply \<Rightarrow> limit_item list" where
  "image_limits p = filter (\<lambda>l. isImageFeature (li_name l)) (in_limits p)"

definition seen_remaining :: "init_reply \<Rightarrow> int list" where
  "seen_remaining p = List.map_filter li_remaining (image_limits p)"

definition seen_totals :: "init_reply \<Rightarrow> int list" where
  "seen_totals p = List.map_filter (\<lambda>l. pickInt [li_max l, li_cap l, li_total l, li_limit l]) (image_limits p)"

definition seen_resets :: "probe_env \<Rightarrow> init_reply \<Rightarrow> int list" where
  "seen_resets e p = List.map_filter (\<lambda>l. if li_reset l = '''' then None else pe_rfc3339 e (li_reset l)) (image_limits p)"

lemma probe_skips: "fold (probe_item e) ls out = fold (probe_item e) (filter (\<lambda>l. isImageFeature (li_name l)) ls) out"
  by (induction ls arbitrary: out) (auto simp: probe_item_def)

lemma probe_total:
  assumes "\<forall>l\<in>set ls. isImageFeature (li_name l)"
  shows "po_total (fold (probe_item e) ls out) =
    fold max (List.map_filter (\<lambda>l. pickInt [li_max l, li_cap l, li_total l, li_limit l]) ls) (po_total out)"
  using assms
proof (induction ls arbitrary: out)
  case (Cons l ls)
  have "po_total (probe_item e l out) = (case pickInt [li_max l, li_cap l, li_total l, li_limit l] of None \<Rightarrow> po_total out | Some v \<Rightarrow> max v (po_total out))"
    using Cons.prems by (auto simp: probe_item_def Let_def split: option.splits if_splits)
  then show ?case using Cons by (auto simp: List.map_filter_simps simp del: pickInt.simps split: option.split)
qed (simp add: List.map_filter_simps)

lemma probe_remaining:
  assumes "\<forall>l\<in>set ls. isImageFeature (li_name l)" and "\<forall>r\<in>set (List.map_filter li_remaining ls). 0 \<le> r" and "0 \<le> po_remaining out"
  shows "po_remaining (fold (probe_item e) ls out) = fold min (List.map_filter li_remaining ls) (po_remaining out)"
  using assms
proof (induction ls arbitrary: out)
  case (Cons l ls)
  have "po_remaining (probe_item e l out) = (case li_remaining l of None \<Rightarrow> po_remaining out | Some r \<Rightarrow> min r (po_remaining out))"
    using Cons.prems by (auto simp: probe_item_def Let_def min_def split: option.splits if_splits)
  then show ?case using Cons by (auto simp: List.map_filter_simps split: option.split)
qed (simp add: List.map_filter_simps)

lemma probe_remaining_first:
  assumes "\<forall>l\<in>set ls. isImageFeature (li_name l)" and "\<forall>r\<in>set (List.map_filter li_remaining ls). 0 \<le> r" and "po_remaining out = -1"
  shows "po_remaining (fold (probe_item e) ls out) = (case List.map_filter li_remaining ls of [] \<Rightarrow> -1 | r # rs \<Rightarrow> Min (set (r # rs)))"
  using assms
proof (induction ls arbitrary: out)
  case (Cons l ls)
  have "po_remaining (probe_item e l out) = (case li_remaining l of None \<Rightarrow> -1 | Some r \<Rightarrow> r)"
    using Cons.prems by (auto simp: probe_item_def Let_def split: option.splits if_splits)
  note step = this
  have ls: "\<forall>l\<in>set ls. isImageFeature (li_name l)" "\<forall>r\<in>set (List.map_filter li_remaining ls). 0 \<le> r"
    using Cons.prems by (auto simp: List.map_filter_simps split: option.splits)
  show ?case
  proof (cases "li_remaining l")
    case None
    then show ?thesis using Cons.IH [OF ls, of "probe_item e l out"] step by (simp add: List.map_filter_simps del: list.set)
  next
    case (Some r)
    then have "0 \<le> r" using Cons.prems(2) by (simp add: List.map_filter_simps)
    then show ?thesis using probe_remaining [OF ls, of "probe_item e l out" e] step Some
      by (simp add: List.map_filter_simps Min.set_eq_fold del: list.set)
  qed
qed (simp add: List.map_filter_simps)

lemma probe_reset:
  assumes "\<forall>l\<in>set ls. isImageFeature (li_name l)"
  shows "po_reset (fold (probe_item e) ls out) =
    (case (case po_reset out of None \<Rightarrow> [] | Some t0 \<Rightarrow> [t0]) @ List.map_filter (\<lambda>l. if li_reset l = '''' then None else pe_rfc3339 e (li_reset l)) ls of
       [] \<Rightarrow> None | t # ts \<Rightarrow> Some (Min (set (t # ts))))"
  using assms
proof (induction ls arbitrary: out)
  case (Cons l ls)
  let ?r = "if li_reset l = '''' then None else pe_rfc3339 e (li_reset l)"
  have step: "po_reset (probe_item e l out) = (case ?r of None \<Rightarrow> po_reset out
      | Some t \<Rightarrow> (case po_reset out of None \<Rightarrow> Some t | Some t0 \<Rightarrow> Some (min t t0)))"
    using Cons.prems by (auto simp: probe_item_def Let_def min_def split: option.splits if_splits)
  show ?case
  proof (cases ?r)
    case None
    then show ?thesis using Cons step by (simp add: List.map_filter_simps)
  next
    case (Some t)
    have "\<forall>l\<in>set ls. isImageFeature (li_name l)" using Cons.prems by simp
    from Cons.IH [OF this, of "probe_item e l out"] show ?thesis using Some step
      by (cases "po_reset out") (simp_all add: List.map_filter_simps Min.set_eq_fold min.commute del: list.set)
  qed
qed (simp add: List.map_filter_simps split: option.split)

text \<open>
  C36. A probe reads the tightest of the image limits: of every answer that gives no negative count, the remaining number stored is the least
  that any image feature reports, the total the largest of their limits, the reset the earliest of their times, and
  the features that are not about images have no influence; without a limit the total is what was used today
  plus what remains.
\<close>

theorem probe_reads_tightest:
  assumes "pe_init e (a_id a) tok (if TrimSpace (a_oai_device a) = '''' then fallbackDeviceID (a_id a) else TrimSpace (a_oai_device a))
      (TrimSpace (a_oai_session a)) = Inr (200, data)"
    and "unmarshal_struct init_fields \<lparr>in_type = '''', in_blocked = [], in_model = '''', in_limits = []\<rparr> data = Some p"
    and "\<forall>r\<in>set (seen_remaining p). 0 \<le> r"
  shows "doProbe e a tok = Inr (estimate_total e a
    \<lparr>po_remaining = (case seen_remaining p of [] \<Rightarrow> -1 | r # rs \<Rightarrow> Min (set (r # rs))),
     po_total = Max (set (-1 # seen_totals p)),
     po_reset = (case seen_resets e p of [] \<Rightarrow> None | t # ts \<Rightarrow> Some (Min (set (t # ts)))),
     po_model = in_model p, po_blocked = in_blocked p\<rparr>)"
proof -
  define out0 where "out0 = \<lparr>po_remaining = -1, po_total = -1, po_reset = None, po_model = in_model p, po_blocked = in_blocked p\<rparr>"
  let ?out = "fold (probe_item e) (in_limits p) out0"
  have img: "?out = fold (probe_item e) (image_limits p) out0" by (simp only: probe_skips [of e "in_limits p"] image_limits_def)
  have all: "\<forall>l\<in>set (image_limits p). isImageFeature (li_name l)" by (simp add: image_limits_def)
  have rest: "po_model (fold (probe_item e) ls out) = po_model out" "po_blocked (fold (probe_item e) ls out) = po_blocked out" for ls out
    by (induction ls arbitrary: out) (auto simp: probe_item_def Let_def split: option.splits if_splits)
  have "po_remaining ?out = (case seen_remaining p of [] \<Rightarrow> -1 | r # rs \<Rightarrow> Min (set (r # rs)))"
    unfolding img seen_remaining_def
    by (rule probe_remaining_first) (use all assms(3) in \<open>auto simp: seen_remaining_def out0_def\<close>)
  moreover have "po_total ?out = Max (set (-1 # seen_totals p))"
    unfolding img probe_total [OF all] seen_totals_def by (simp add: out0_def Max.set_eq_fold del: list.set)
  moreover have "po_reset ?out = (case seen_resets e p of [] \<Rightarrow> None | t # ts \<Rightarrow> Some (Min (set (t # ts))))"
    unfolding img probe_reset [OF all] seen_resets_def by (simp add: out0_def)
  ultimately have "?out = \<lparr>po_remaining = (case seen_remaining p of [] \<Rightarrow> -1 | r # rs \<Rightarrow> Min (set (r # rs))),
     po_total = Max (set (-1 # seen_totals p)), po_reset = (case seen_resets e p of [] \<Rightarrow> None | t # ts \<Rightarrow> Some (Min (set (t # ts)))),
     po_model = in_model p, po_blocked = in_blocked p\<rparr>"
    using rest [of "in_limits p" out0] by (intro probe_outcome.equality) (simp_all add: out0_def)
  then show ?thesis using assms(1,2) by (simp add: doProbe_def Let_def out0_def)
qed

text \<open>
  A failed probe forgets when the quota returns: an account without quota that is not due, because its reset lies ahead and it was
  probed a moment ago, is due again at every later instant once a probe of it has failed, whatever the minimum
  interval between probes.
\<close>

theorem failed_probe_always_due:
  assumes "pe_init e (a_id a) tok (if TrimSpace (a_oai_device a) = '''' then fallbackDeviceID (a_id a) else TrimSpace (a_oai_device a))
      (TrimSpace (a_oai_session a)) = Inl err"
    and "DecryptString (pe_cipher e) (a_auth_enc a) = Inr tok" and "tok \<noteq> ''''"
    and "distinct (live_emails (accounts d))" and "row_of (a_id a) d = Some x" and "a_live x" and "a_status x = StatusHealthy"
    and "a_quota_remaining x = 0" and "a_expires x = Some t" and "sql_now later < t"
  shows "\<exists>y. row_of (a_id a) (fst (snd (ProbeOne e a (d, [])))) = Some y \<and> need_probe later (later - minInterval * 1000) y \<and>
    a_quota_updated y = Some (datetime (pe_now e))"
proof -
  define f :: "account \<Rightarrow> account" where "f = (\<lambda>x. x\<lparr>a_quota_remaining := (if (-1::int) < 0 then a_quota_remaining x else -1),
    a_quota_total := max (a_quota_total x) (max (if (-1::int) < 0 then 0 else -1) (if (-1::int) < 0 then 0 else -1)),
    a_quota_reset := map_option datetime None, a_quota_updated := Some (datetime (pe_now e))\<rparr>)"
  have k: "keeps_identity f" by (simp add: f_def keeps_identity_def)
  have "snd (ProbeOne e a (d, [])) = snd (exec_accounts (live_id (a_id a)) f (d, []))"
    using assms(1-3) by (simp add: ProbeOne_def doProbe_def ApplyQuotaResult_def f_def Let_def)
  then have "row_of (a_id a) (fst (snd (ProbeOne e a (d, [])))) = Some (f x)"
    using exec_row_no_faults [OF k assms(4), of "a_id a"] assms(5,6) by (auto simp: row_of_def find_write_rows [OF k] live_id_def find_Some_iff)
  then show ?thesis using assms(6-10) by (auto simp: f_def need_probe_def a_live_def)
qed

section \<open>Concrete refreshes and probes\<close>

definition demo_session_account :: account where
  "demo_session_account = demo_account\<lparr>a_session_enc := Some ''CXN0Bw=='', a_quota_remaining := 0\<rparr>"

definition demo_session_pool :: account_db where
  "demo_session_pool = demo_pool\<lparr>accounts := [demo_session_account]\<rparr>"

definition demo_session_text :: string where
  "demo_session_text = CHR ''{'' # CHR 0x22 # ''accessToken'' @ [CHR 0x22, CHR '':'', CHR 0x22] @ ''tok'' @ [CHR 0x22, CHR ''}'']"

definition demo_refresh :: refresh_env where
  "demo_refresh = \<lparr>re_oauth = (\<lambda>_ _ _. Inl ''no such host''), re_me = (\<lambda>_ _. Inr 200), re_session = (\<lambda>_ _. Inr (200, demo_session_text)),
     re_json_error = (\<lambda>_. ''json''), re_rfc3339 = (\<lambda>_. None), re_jexp = (\<lambda>_. None), re_now = (\<lambda>_. 20000), re_nonce = (\<lambda>_. Some [9]),
     re_client = '''', re_cipher = demo_aead\<rparr>"

lemma demo_session_parts:
  "usable_secret demo_aead (Some ''CXN0Bw=='') = Some ''st''"
  "TrimSpace demo_session_text = demo_session_text"
  "unmarshal_struct session_fields \<lparr>sr_access = '''', sr_expires = ''''\<rparr> demo_session_text = Some \<lparr>sr_access = ''tok'', sr_expires = ''''\<rparr>"
  by code_simp+

lemma demo_issue: "stToAT demo_refresh 1 ''st'' = Inr (''tok'', 86420000)"
  using demo_session_parts(2,3)
  by (simp add: stToAT_def demo_refresh_def parseJWTExp_def zero_time_def) (simp add: demo_session_text_def)

lemma demo_not_refreshable: "usable_secret c None = None"
  by (simp add: usable_secret_def)


definition demo_outage :: refresh_env where
  "demo_outage = demo_refresh\<lparr>re_session := (\<lambda>_ _. Inl ''connection refused'')\<rparr>"

lemma demo_reorders: "reorders (\<lambda>as. as)"
  by (simp add: reorders_def)

theorem outage_is_permanent_witness:
  "\<exists>y. row_of 1 (fst (fold run_scan [(\<lambda>_. demo_refresh, \<lambda>as. as, \<lambda>as. as, 0, 90000, 900)]
      (fst (refresh_scan (\<lambda>_. demo_outage) (\<lambda>as. as) (\<lambda>as. as) 0 20000 900 (demo_session_pool, [])), []))) = Some y \<and> a_status y = StatusDead"
proof -
  have a: "a_id demo_session_account = 1" "a_expires demo_session_account = Some 10000" "accounts demo_session_pool = [demo_session_account]"
    "need_refresh 920000 demo_session_account" "10000 \<le> sql_now (re_now demo_outage R_write)" "unreachable demo_outage 1"
    by (simp_all add: demo_session_account_def demo_account_def demo_session_pool_def need_refresh_def a_live_def status_defs demo_outage_def
        demo_refresh_def sql_now_def unreachable_def)
  show ?thesis
    using outage_is_permanent [of demo_session_pool "\<lambda>as. as" "\<lambda>as. as" 20000 900 demo_session_account "\<lambda>_. demo_outage" 10000
        "[(\<lambda>_. demo_refresh, \<lambda>as. as, \<lambda>as. as, 0, 90000, 900)]" 0 "[]"] a demo_reorders
    by (simp add: live_emails_def honest_scan_def)
qed

definition demo_probe_text :: string where
  "demo_probe_text = map (\<lambda>c. if c = CHR ''~'' then CHR 0x22 else c)
     ''{~limits_progress~:[{~feature_name~:~image_gen~,~remaining~:7,~cap~:40},{~feature_name~:~chat~,~remaining~:1},{~feature_name~:~img_gen~,~remaining~:5}]}''"

definition demo_probe :: probe_env where
  "demo_probe = \<lparr>pe_init = (\<lambda>_ _ _ _. Inr (200, demo_probe_text)), pe_json_error = (\<lambda>_. ''json''), pe_rfc3339 = (\<lambda>_. None), pe_today = 0,
     pe_now = 5000, pe_cipher = demo_aead, pe_driver_text = (\<lambda>_. ''driver'')\<rparr>"

definition demo_limits :: init_reply where
  "demo_limits = \<lparr>in_type = '''', in_blocked = [], in_model = '''', in_limits =
     [no_limit_item\<lparr>li_name := ''image_gen'', li_remaining := Some 7, li_cap := Some 40\<rparr>, no_limit_item\<lparr>li_name := ''chat'', li_remaining := Some 1\<rparr>,
      no_limit_item\<lparr>li_name := ''img_gen'', li_remaining := Some 5\<rparr>]\<rparr>"

lemma demo_probe_json:
  "json_parse demo_probe_text = Some (JObj [(''limits_progress'', JArr
     [JObj [(''feature_name'', JStr ''image_gen''), (''remaining'', JNum ''7''), (''cap'', JNum ''40'')],
      JObj [(''feature_name'', JStr ''chat''), (''remaining'', JNum ''1'')],
      JObj [(''feature_name'', JStr ''img_gen''), (''remaining'', JNum ''5'')]])])"
  by code_simp

lemma demo_digits: "Atoi ''7'' = Some 7" "Atoi ''40'' = Some 40" "Atoi ''1'' = Some 1" "Atoi ''5'' = Some 5"
  by (simp_all add: Atoi_def is_digit_def byte_val_def in_i64_def)

lemma limit_lookup:
  "dec_members limit_fields ((''feature_name'', JStr t) # kvs) r = dec_members limit_fields kvs (r\<lparr>li_name := t\<rparr>)"
  "Atoi l = Some n \<Longrightarrow> dec_members limit_fields ((''remaining'', JNum l) # kvs) r = dec_members limit_fields kvs (r\<lparr>li_remaining := Some n\<rparr>)"
  "Atoi l = Some n \<Longrightarrow> dec_members limit_fields ((''cap'', JNum l) # kvs) r = dec_members limit_fields kvs (r\<lparr>li_cap := Some n\<rparr>)"
proof -
  have plain: "list_all (\<lambda>(n, _). plain_name n) limit_fields" by (simp add: limit_fields_def plain_name_def plain_char_def byte_val_def)
  have keys: "plain_name ''feature_name''" "plain_name ''remaining''" "plain_name ''cap''"
    by (simp_all add: plain_name_def plain_char_def byte_val_def)
  have finds: "find (\<lambda>(name, _). name = ''feature_name'') limit_fields = Some (''feature_name'', field li_name li_name_update dec_string)"
    "find (\<lambda>(name, _). name = ''remaining'') limit_fields = Some (''remaining'', field li_remaining li_remaining_update (dec_pointer 0 dec_number))"
    "find (\<lambda>(name, _). name = ''cap'') limit_fields = Some (''cap'', field li_cap li_cap_update (dec_pointer 0 dec_number))"
    by (simp_all add: limit_fields_def)
  show "dec_members limit_fields ((''feature_name'', JStr t) # kvs) r = dec_members limit_fields kvs (r\<lparr>li_name := t\<rparr>)"
    unfolding dec_members_plain [OF keys(1) plain] finds by (simp add: field_def dec_string_def)
  show "dec_members limit_fields ((''remaining'', JNum l) # kvs) r = dec_members limit_fields kvs (r\<lparr>li_remaining := Some n\<rparr>)" if "Atoi l = Some n"
    unfolding dec_members_plain [OF keys(2) plain] finds using that by (simp add: field_def dec_pointer_def dec_number_def)
  show "dec_members limit_fields ((''cap'', JNum l) # kvs) r = dec_members limit_fields kvs (r\<lparr>li_cap := Some n\<rparr>)" if "Atoi l = Some n"
    unfolding dec_members_plain [OF keys(3) plain] finds using that by (simp add: field_def dec_pointer_def dec_number_def)
qed

lemma limits_lookup:
  "dec_members init_fields [(''limits_progress'', JArr vs)] r =
   map_option (\<lambda>ls. r\<lparr>in_limits := ls\<rparr>) (dec_elems no_limit_item (dec_struct limit_fields) vs (in_limits r))"
proof -
  have plain: "list_all (\<lambda>(n, _). plain_name n) init_fields" by (simp add: init_fields_def plain_name_def plain_char_def byte_val_def)
  have key: "plain_name ''limits_progress''" by (simp add: plain_name_def plain_char_def byte_val_def)
  have finds: "find (\<lambda>(name, _). name = ''limits_progress'') init_fields =
      Some (''limits_progress'', field in_limits in_limits_update (dec_slice no_limit_item (dec_struct limit_fields)))"
    by (simp add: init_fields_def)
  show ?thesis unfolding dec_members_plain [OF key plain] finds by (simp add: field_def dec_slice_def split: option.split)
qed

lemma demo_probe_parts:
  "unmarshal_struct init_fields \<lparr>in_type = [], in_blocked = [], in_model = [], in_limits = []\<rparr> demo_probe_text = Some demo_limits"
  by (simp add: unmarshal_struct_def demo_probe_json dec_struct_def limits_lookup limit_lookup demo_digits demo_limits_def del: dec_members.simps(2))

lemma demo_probe_seen:
  "seen_remaining demo_limits = [7, 5]" "seen_totals demo_limits = [40]" "seen_resets demo_probe demo_limits = []"
  "in_model demo_limits = ''''" "in_blocked demo_limits = []"
  by code_simp+

theorem probe_reads_tightest_witness:
  "\<exists>p. doProbe demo_probe demo_session_account ''tok'' = Inr p \<and> po_remaining p = 5 \<and> po_total p = 40"
proof -
  have "pe_init demo_probe i t dv sn = Inr (200, demo_probe_text)" for i t dv sn by (simp add: demo_probe_def)
  from probe_reads_tightest [OF this demo_probe_parts, of demo_session_account "''tok''"] show ?thesis
    by (simp add: demo_probe_seen estimate_total_def)
qed

theorem failed_probe_always_due_witness:
  "\<exists>y. row_of 1 (fst (snd (ProbeOne (demo_probe\<lparr>pe_init := (\<lambda>_ _ _ _. Inl ''timeout'')\<rparr>)
      (demo_session_account\<lparr>a_auth_enc := ''CXN0Bw=='', a_quota_reset := Some 9000\<rparr>)
      (demo_session_pool\<lparr>accounts := [demo_session_account\<lparr>a_auth_enc := ''CXN0Bw=='', a_quota_reset := Some 9000\<rparr>]\<rparr>, [])))) = Some y \<and>
    need_probe 6000 (6000 - 18000 * 1000) y"
proof -
  let ?a = "demo_session_account\<lparr>a_auth_enc := ''CXN0Bw=='', a_quota_reset := Some 9000\<rparr>"
  have tok: "DecryptString demo_aead ''CXN0Bw=='' = Inr ''st''" by code_simp
  have a: "a_id ?a = 1" "a_live ?a" "a_status ?a = StatusHealthy" "a_quota_remaining ?a = 0" "a_expires ?a = Some 10000" "a_auth_enc ?a = ''CXN0Bw==''"
    by (simp_all add: demo_session_account_def demo_account_def a_live_def)
  show ?thesis
    using failed_probe_always_due [of "demo_probe\<lparr>pe_init := (\<lambda>_ _ _ _. Inl ''timeout'')\<rparr>" ?a "''st''" "''timeout''"
        "demo_session_pool\<lparr>accounts := [?a]\<rparr>" ?a 10000 6000 18000] a tok
    by (auto simp: demo_probe_def row_of_def live_emails_def sql_now_def)
qed

end
