(* ===== verification/Usage_Logger.thy ===== *)
theory Usage_Logger
  imports Gateway_Chat
begin

text \<open>
  The asynchronous writer of usage records (internal/usage/logger.go) as a state machine: requests put records into a
  bounded channel, one goroutine moves them into a batch and inserts the batch when it is full, at every tick of a timer, and
  once more when the channel has been drained after \<open>Close\<close>. Which of the ready branches a \<open>select\<close> takes is not
  determined; the outcome of an insertion comes with its step. The columns have the widths of the schema, in strict
  mode: one record that does not fit refuses the whole statement.
\<close>

section \<open>Records\<close>

record usage_row = usage_log +
  ur_cache_read :: int
  ur_cache_write :: int
  ur_duration :: int
  ur_ip :: string
  ur_ua :: string
  ur_created :: int

definition in_i32 :: "int \<Rightarrow> bool" where
  "in_i32 x \<longleftrightarrow> - (2 ^ 31) \<le> x \<and> x < 2 ^ 31"

definition varchar :: "nat \<Rightarrow> string \<Rightarrow> bool" where
  "varchar n s \<longleftrightarrow> length (runes s) \<le> n"

definition usage_fits :: "usage_row \<Rightarrow> bool" where
  "usage_fits r \<longleftrightarrow>
     varchar 64 (ul_request r) \<and> varchar 16 (ul_type r) \<and> varchar 16 (ul_status r) \<and> varchar 64 (ul_code r) \<and>
     varchar 64 (ur_ip r) \<and> varchar 255 (ur_ua r) \<and>
     list_all in_i32 [ul_in r, ul_out r, ur_cache_read r, ur_cache_write r, ul_images r, ur_duration r] \<and> in_i64 (ul_cost r)"

section \<open>The writer\<close>

record log_options =
  lo_buffer :: int
  lo_batch :: int
  lo_flush :: int

datatype log_mode = Running | Draining | Stopped

record usage_logger =
  lg_opt :: log_options
  lg_ch :: "usage_row list"
  lg_batch :: "usage_row list"
  lg_closed :: bool
  lg_mode :: log_mode
  lg_table :: "usage_row list"

definition New_logger :: "log_options \<Rightarrow> usage_row list \<Rightarrow> usage_logger" where
  "New_logger opt table =
     \<lparr>lg_opt = \<lparr>lo_buffer = (if lo_buffer opt \<le> 0 then 8192 else lo_buffer opt), lo_batch = (if lo_batch opt \<le> 0 then 500 else lo_batch opt),
               lo_flush = (if lo_flush opt \<le> 0 then 200 else lo_flush opt)\<rparr>,
      lg_ch = [], lg_batch = [], lg_closed = False, lg_mode = Running, lg_table = table\<rparr>"

text \<open>A record without a time gets the present one; a full channel refuses it.\<close>

definition stamped :: "int \<Rightarrow> usage_row \<Rightarrow> usage_row" where
  "stamped now r = (if ur_created r = zero_time then r\<lparr>ur_created := now\<rparr> else r)"

definition Write_log :: "int \<Rightarrow> usage_row \<Rightarrow> usage_logger \<Rightarrow> bool \<times> usage_logger" where
  "Write_log now r lg =
     (if int (length (lg_ch lg)) < lo_buffer (lg_opt lg) then (True, lg\<lparr>lg_ch := lg_ch lg @ [stamped now r]\<rparr>) else (False, lg))"

definition bulkInsert :: "drv \<Rightarrow> usage_row list \<Rightarrow> usage_row list \<Rightarrow> bool \<times> usage_row list" where
  "bulkInsert out rows table =
     (if rows = [] then (True, table)
      else if out = DFail \<or> \<not> list_all usage_fits rows then (False, table)
      else (out = DOk, table @ rows))"

text \<open>The batch is emptied whether or not it could be inserted.\<close>

definition flush_batch :: "drv \<Rightarrow> usage_logger \<Rightarrow> usage_logger" where
  "flush_batch out lg = lg\<lparr>lg_table := snd (bulkInsert out (lg_batch lg) (lg_table lg)), lg_batch := []\<rparr>"

definition receive_row :: "drv \<Rightarrow> usage_logger \<Rightarrow> usage_logger" where
  "receive_row out lg =
     (case lg_ch lg of
        [] \<Rightarrow> lg
      | r # rest \<Rightarrow>
          let lg1 = lg\<lparr>lg_ch := rest, lg_batch := lg_batch lg @ [r]\<rparr> in
          if int (length (lg_batch lg1)) \<ge> lo_batch (lg_opt lg) then flush_batch out lg1 else lg1)"

section \<open>Steps\<close>

datatype log_event = Wrote usage_row | Refused usage_row | Received drv | Ticked drv | CloseCalled | DrainBegins | DrainEnds drv

inductive log_step :: "log_event \<Rightarrow> usage_logger \<Rightarrow> usage_logger \<Rightarrow> bool" where
  wrote: "Write_log now r lg = (True, lg') \<Longrightarrow> log_step (Wrote (stamped now r)) lg lg'"
| refused: "Write_log now r lg = (False, lg') \<Longrightarrow> log_step (Refused r) lg lg'"
| received: "lg_mode lg \<noteq> Stopped \<Longrightarrow> lg_ch lg \<noteq> [] \<Longrightarrow> log_step (Received out) lg (receive_row out lg)"
| ticked: "lg_mode lg = Running \<Longrightarrow> log_step (Ticked out) lg (flush_batch out lg)"
| close_called: "\<not> lg_closed lg \<Longrightarrow> log_step CloseCalled lg (lg\<lparr>lg_closed := True\<rparr>)"
| drain_begins: "lg_mode lg = Running \<Longrightarrow> lg_closed lg \<Longrightarrow> log_step DrainBegins lg (lg\<lparr>lg_mode := Draining\<rparr>)"
| drain_ends: "lg_mode lg = Draining \<Longrightarrow> lg_ch lg = [] \<Longrightarrow> log_step (DrainEnds out) lg ((flush_batch out lg)\<lparr>lg_mode := Stopped\<rparr>)"

inductive_cases wrote_case: "log_step (Wrote r) lg lg'"
inductive_cases received_case: "log_step (Received out) lg lg'"
inductive_cases ticked_case: "log_step (Ticked out) lg lg'"
inductive_cases drain_ends_case: "log_step (DrainEnds out) lg lg'"

inductive log_run :: "log_event list \<Rightarrow> usage_logger \<Rightarrow> usage_logger \<Rightarrow> bool" where
  run_nil: "log_run [] lg lg"
| run_snoc: "log_run evs lg lg1 \<Longrightarrow> log_step ev lg1 lg2 \<Longrightarrow> log_run (evs @ [ev]) lg lg2"

text \<open>The records that entered the channel, in order.\<close>

definition accepted :: "log_event list \<Rightarrow> usage_row list" where
  "accepted evs = concat (map (\<lambda>ev. case ev of Wrote r \<Rightarrow> [r] | _ \<Rightarrow> []) evs)"

lemma accepted_snoc: "accepted (evs @ [ev]) = accepted evs @ (case ev of Wrote r \<Rightarrow> [r] | _ \<Rightarrow> [])"
  by (simp add: accepted_def)

section \<open>Conservation\<close>

text \<open>An insertion took effect.\<close>

definition stored :: "drv \<times> usage_row list \<Rightarrow> bool" where
  "stored fl \<longleftrightarrow> fst fl \<noteq> DFail \<and> list_all usage_fits (snd fl)"

text \<open>What was accepted is what was flushed, in batches, then the batch, then the channel; the table grew by the stored batches.\<close>

definition accounted :: "usage_row list \<Rightarrow> usage_row list \<Rightarrow> (drv \<times> usage_row list) list \<Rightarrow> usage_logger \<Rightarrow> bool" where
  "accounted t0 acc fls lg \<longleftrightarrow>
     acc = concat (map snd fls) @ lg_batch lg @ lg_ch lg \<and> lg_table lg = t0 @ concat (map snd (filter stored fls)) \<and>
     list_all (\<lambda>fl. snd fl \<noteq> [] \<and> int (length (snd fl)) \<le> lo_batch (lg_opt lg)) fls \<and>
     int (length (lg_ch lg)) \<le> lo_buffer (lg_opt lg) \<and> int (length (lg_batch lg)) < lo_batch (lg_opt lg) \<and> 0 < lo_batch (lg_opt lg) \<and>
     (lg_mode lg = Stopped \<longrightarrow> lg_batch lg = [])"

lemma flush_accounted:
  assumes "acc = concat (map snd fls) @ lg_batch lg @ lg_ch lg" and "lg_table lg = t0 @ concat (map snd (filter stored fls))"
    and "list_all (\<lambda>fl. snd fl \<noteq> [] \<and> int (length (snd fl)) \<le> lo_batch (lg_opt lg)) fls"
    and "int (length (lg_ch lg)) \<le> lo_buffer (lg_opt lg)" and "int (length (lg_batch lg)) \<le> lo_batch (lg_opt lg)" and "0 < lo_batch (lg_opt lg)"
  shows "\<exists>fls'. accounted t0 acc fls' (flush_batch out lg) \<and> set fls' \<subseteq> insert (out, lg_batch lg) (set fls)"
proof (cases "lg_batch lg = []")
  case True
  then show ?thesis using assms by (intro exI [of _ fls]) (auto simp: accounted_def flush_batch_def bulkInsert_def)
next
  case False
  then show ?thesis using assms
    by (intro exI [of _ "fls @ [(out, lg_batch lg)]"]) (auto simp: accounted_def flush_batch_def bulkInsert_def stored_def)
qed

text \<open>The outcomes a run met.\<close>

definition outcomes :: "log_event list \<Rightarrow> drv list" where
  "outcomes evs = concat (map (\<lambda>ev. case ev of Received out \<Rightarrow> [out] | Ticked out \<Rightarrow> [out] | DrainEnds out \<Rightarrow> [out] | _ \<Rightarrow> []) evs)"

lemma flush_opt [simp]: "lg_opt (flush_batch out lg) = lg_opt lg" "lg_mode (flush_batch out lg) = lg_mode lg" "lg_ch (flush_batch out lg) = lg_ch lg"
  "lg_batch (flush_batch out lg) = []"
  by (simp_all add: flush_batch_def)

lemma receive_accounted:
  assumes "accounted t0 acc fls lg" and "lg_ch lg = r # rest" and "lg_mode lg \<noteq> Stopped"
  shows "\<exists>fls'. accounted t0 acc fls' (receive_row out lg) \<and> fst ` set fls' \<subseteq> insert out (fst ` set fls)"
proof -
  define lg1 where "lg1 = lg\<lparr>lg_ch := rest, lg_batch := lg_batch lg @ [r]\<rparr>"
  have a: "acc = concat (map snd fls) @ lg_batch lg1 @ lg_ch lg1" "lg_table lg1 = t0 @ concat (map snd (filter stored fls))"
    "list_all (\<lambda>fl. snd fl \<noteq> [] \<and> int (length (snd fl)) \<le> lo_batch (lg_opt lg1)) fls"
    "int (length (lg_ch lg1)) \<le> lo_buffer (lg_opt lg1)" "int (length (lg_batch lg1)) \<le> lo_batch (lg_opt lg1)" "0 < lo_batch (lg_opt lg1)"
    using assms by (auto simp: accounted_def lg1_def)
  show ?thesis
  proof (cases "int (length (lg_batch lg1)) \<ge> lo_batch (lg_opt lg)")
    case True
    then have "receive_row out lg = flush_batch out lg1" using assms(2) by (simp add: receive_row_def lg1_def)
    then show ?thesis using flush_accounted [OF a, of out] by force
  next
    case False
    then have "receive_row out lg = lg1" using assms(2) by (simp add: receive_row_def lg1_def)
    then show ?thesis using a False assms(1,3) by (intro exI [of _ fls]) (auto simp: accounted_def lg1_def)
  qed
qed

lemma step_accounted:
  assumes "log_step ev lg lg'" and "accounted t0 acc fls lg"
  shows "\<exists>fls'. accounted t0 (acc @ accepted [ev]) fls' lg' \<and> fst ` set fls' \<subseteq> fst ` set fls \<union> set (outcomes [ev])"
  using assms(1)
proof (cases rule: log_step.cases)
  case (wrote now r)
  then show ?thesis using assms(2)
    by (intro exI [of _ fls]) (auto simp: accounted_def accepted_def Write_log_def split: if_splits)
next
  case (refused now r)
  then show ?thesis using assms(2)
    by (intro exI [of _ fls]) (auto simp: accounted_def accepted_def Write_log_def split: if_splits)
next
  case (received out)
  then obtain r rest where "lg_ch lg = r # rest" by (cases "lg_ch lg") auto
  from receive_accounted [OF assms(2) this received(3), of out] show ?thesis using received
    by (auto simp: accepted_def outcomes_def)
next
  case (ticked out)
  have "\<exists>fls'. accounted t0 acc fls' (flush_batch out lg) \<and> set fls' \<subseteq> insert (out, lg_batch lg) (set fls)"
    by (rule flush_accounted) (use assms(2) in \<open>auto simp: accounted_def\<close>)
  then show ?thesis using ticked by (fastforce simp: accepted_def outcomes_def)
next
  case (drain_ends out)
  have "\<exists>fls'. accounted t0 acc fls' (flush_batch out lg) \<and> set fls' \<subseteq> insert (out, lg_batch lg) (set fls)"
    by (rule flush_accounted) (use assms(2) in \<open>auto simp: accounted_def\<close>)
  then obtain fls' where f: "accounted t0 acc fls' (flush_batch out lg)" "set fls' \<subseteq> insert (out, lg_batch lg) (set fls)" by blast
  have "accounted t0 acc fls' ((flush_batch out lg)\<lparr>lg_mode := Stopped\<rparr>)" using f(1) by (simp add: accounted_def)
  then show ?thesis using drain_ends f(2) by (fastforce simp: accepted_def outcomes_def)
qed (use assms(2) in \<open>auto intro!: exI [of _ fls] simp: accounted_def accepted_def\<close>)

lemma run_accounted:
  assumes "log_run evs lg lg'" and "accounted t0 [] [] lg"
  shows "\<exists>fls. accounted t0 (accepted evs) fls lg' \<and> fst ` set fls \<subseteq> set (outcomes evs)"
  using assms
proof (induction rule: log_run.induct)
  case (run_nil lg)
  then show ?case by (intro exI [of _ "[]"]) (simp add: accepted_def outcomes_def)
next
  case (run_snoc evs lg lg1 ev lg2)
  then obtain fls where f: "accounted t0 (accepted evs) fls lg1" "fst ` set fls \<subseteq> set (outcomes evs)" by blast
  from step_accounted [OF run_snoc.hyps(2) f(1)] obtain fls' where
    g: "accounted t0 (accepted evs @ accepted [ev]) fls' lg2" "fst ` set fls' \<subseteq> fst ` set fls \<union> set (outcomes [ev])" by blast
  have "accepted (evs @ [ev]) = accepted evs @ accepted [ev]" "set (outcomes (evs @ [ev])) = set (outcomes evs) \<union> set (outcomes [ev])"
    by (simp_all add: accepted_def outcomes_def)
  then show ?case using g(1) subset_trans [OF g(2)] f(2) by (intro exI [of _ fls']) (simp add: sup.coboundedI1)
qed

lemma new_accounted: "accounted t0 [] [] (New_logger opt t0)"
  by (simp add: accounted_def New_logger_def)


text \<open>
  After the shutdown nothing accepted before it is missing: when the writer has stopped, no insertion failed and every
  record fits its columns, the table holds the accepted records in order, each once, up to those that arrived after the
  drain.
\<close>

theorem stopped_logger_stored_all:
  assumes "log_run evs (New_logger opt t0) lg" and "lg_mode lg = Stopped" and "DFail \<notin> set (outcomes evs)" and "list_all usage_fits (accepted evs)"
  shows "lg_table lg @ lg_ch lg = t0 @ accepted evs"
proof -
  obtain fls where f: "accounted t0 (accepted evs) fls lg" "fst ` set fls \<subseteq> set (outcomes evs)"
    using run_accounted [OF assms(1) new_accounted] by blast
  have "stored fl" if "fl \<in> set fls" for fl
    using that f assms(3,4) by (auto simp: stored_def accounted_def list_all_iff)
  then have "filter stored fls = fls" by (simp add: filter_True)
  then show ?thesis using f(1) assms(2) by (simp add: accounted_def)
qed

text \<open>
  The drain ends: while the writer drains it is never stuck, and without further requests it stops after exactly as many
  steps as records were waiting, plus one.
\<close>

theorem drain_terminates:
  assumes "lg_mode lg = Draining" and "log_run evs lg lg'" and "list_all (\<lambda>ev. case ev of Wrote _ \<Rightarrow> False | Refused _ \<Rightarrow> False | CloseCalled \<Rightarrow> False | _ \<Rightarrow> True) evs"
  shows "length evs \<le> length (lg_ch lg) + 1 \<and> (length evs = length (lg_ch lg) + 1 \<longleftrightarrow> lg_mode lg' = Stopped) \<and>
    (lg_mode lg' = Draining \<longrightarrow> (\<exists>ev lg2. log_step ev lg' lg2))"
proof -
  have "(lg_mode lg' = Draining \<and> length evs + length (lg_ch lg') = length (lg_ch lg)) \<or>
      (lg_mode lg' = Stopped \<and> length evs = length (lg_ch lg) + 1)"
    using assms(2,1,3)
  proof (induction rule: log_run.induct)
    case (run_snoc evs lg lg1 ev lg2)
    from run_snoc.hyps(2) show ?case using run_snoc
      by (cases rule: log_step.cases) (auto simp: receive_row_def Let_def split: list.splits if_splits)
  qed simp
  moreover have "\<exists>ev lg2. log_step ev lg' lg2" if "lg_mode lg' = Draining"
  proof (cases "lg_ch lg' = []")
    case True
    show ?thesis using drain_ends [OF that True] by blast
  next
    case False
    show ?thesis using received [OF _ False, of DOk] that by auto
  qed
  ultimately show ?thesis by auto
qed

section \<open>Behaviours\<close>

lemma new_options:
  assumes "lo_buffer opt \<ge> 2 \<or> lo_buffer opt \<le> 0" and "lo_batch opt > 2 \<or> lo_batch opt \<le> 0"
  shows "2 \<le> lo_buffer (lg_opt (New_logger opt t0))" "2 < lo_batch (lg_opt (New_logger opt t0))"
  using assms by (auto simp: New_logger_def)

text \<open>
  One record that does not fit takes others with it: a record accepted before it in the same batch is neither stored nor
  kept for another attempt, although the database works.
\<close>

theorem bad_row_loses_batch:
  assumes "\<not> usage_fits (stamped now bad)" and "lo_buffer opt \<ge> 2 \<or> lo_buffer opt \<le> 0" and "lo_batch opt > 2 \<or> lo_batch opt \<le> 0"
  shows "\<exists>lg. log_run [Wrote (stamped now good), Wrote (stamped now bad), Received DOk, Received DOk, Ticked DOk] (New_logger opt t0) lg \<and>
    lg_table lg = t0 \<and> lg_batch lg = [] \<and> lg_ch lg = []"
proof -
  define n where "n = New_logger opt t0"
  have n: "lg_ch n = []" "lg_batch n = []" "lg_mode n = Running" "lg_table n = t0" by (simp_all add: n_def New_logger_def)
  note o = new_options [OF assms(2,3), of t0, folded n_def]
  let ?g = "stamped now good" and ?b = "stamped now bad"
  have 1: "log_step (Wrote ?g) n (n\<lparr>lg_ch := [?g]\<rparr>)" by (rule wrote) (use n o in \<open>simp add: Write_log_def\<close>)
  have 2: "log_step (Wrote ?b) (n\<lparr>lg_ch := [?g]\<rparr>) (n\<lparr>lg_ch := [?g, ?b]\<rparr>)" by (rule wrote) (use n o in \<open>simp add: Write_log_def\<close>)
  have 3: "log_step (Received DOk) (n\<lparr>lg_ch := [?g, ?b]\<rparr>) (n\<lparr>lg_ch := [?b], lg_batch := [?g]\<rparr>)"
    using received [of "n\<lparr>lg_ch := [?g, ?b]\<rparr>" DOk] n o by (simp add: receive_row_def)
  have 4: "log_step (Received DOk) (n\<lparr>lg_ch := [?b], lg_batch := [?g]\<rparr>) (n\<lparr>lg_ch := [], lg_batch := [?g, ?b]\<rparr>)"
    using received [of "n\<lparr>lg_ch := [?b], lg_batch := [?g]\<rparr>" DOk] n o by (simp add: receive_row_def)
  have 5: "log_step (Ticked DOk) (n\<lparr>lg_ch := [], lg_batch := [?g, ?b]\<rparr>) (n\<lparr>lg_ch := [], lg_table := t0, lg_batch := []\<rparr>)"
    using ticked [of "n\<lparr>lg_ch := [], lg_batch := [?g, ?b]\<rparr>" DOk] n assms(1) by (simp add: flush_batch_def bulkInsert_def)
  have "log_run ([] @ [Wrote ?g] @ [Wrote ?b] @ [Received DOk] @ [Received DOk] @ [Ticked DOk]) n (n\<lparr>lg_ch := [], lg_table := t0, lg_batch := []\<rparr>)"
    using run_snoc [OF run_snoc [OF run_snoc [OF run_snoc [OF run_snoc [OF run_nil 1] 2] 3] 4] 5] by simp
  then show ?thesis using n by (auto simp: n_def [symmetric])
qed

definition demo_row_log :: "string \<Rightarrow> usage_row" where
  "demo_row_log ua = \<lparr>ul_user = 1, ul_key = 7, ul_model = 3, ul_account = 0, ul_request = ''r'', ul_type = ''chat'', ul_in = 1, ul_out = 2, ul_images = 0,
     ul_cost = 5, ul_status = ''success'', ul_code = '''', ur_cache_read = 0, ur_cache_write = 0, ur_duration = 9, ur_ip = '''', ur_ua = ua, ur_created = 77\<rparr>"

definition demo_options :: log_options where
  "demo_options = \<lparr>lo_buffer = 0, lo_batch = 0, lo_flush = 0\<rparr>"

lemma demo_rows: "stamped now (demo_row_log ua) = demo_row_log ua" "usage_fits (demo_row_log '''')"
  by (simp_all add: stamped_def demo_row_log_def zero_time_def usage_fits_def varchar_def in_i32_def in_i64_def rune_len_def width_of_def byte_val_def numeral_2_eq_2)

lemma runes_ascii: "runes (replicate k CHR ''x'') = replicate k (Some [CHR ''x''])"
  by (induction k) (simp_all add: rune_len_def width_of_def byte_val_def)

lemma demo_long_agent: "\<not> usage_fits (demo_row_log (replicate 256 CHR ''x''))"
  by (simp add: usage_fits_def demo_row_log_def varchar_def runes_ascii del: replicate.simps)

theorem bad_row_loses_batch_witness:
  "\<exists>lg. log_run [Wrote (demo_row_log ''''), Wrote (demo_row_log (replicate 256 CHR ''x'')), Received DOk, Received DOk, Ticked DOk] (New_logger demo_options []) lg \<and>
    lg_table lg = [] \<and> lg_batch lg = [] \<and> lg_ch lg = []"
  using bad_row_loses_batch [of 0 "demo_row_log (replicate 256 CHR ''x'')" demo_options "demo_row_log ''''" "[]"] demo_long_agent
  by (simp only: demo_rows(1)) (simp add: demo_options_def)

lemma demo_shutdown:
  "log_run [Wrote (demo_row_log ''''), CloseCalled, DrainBegins, Received DOk, DrainEnds DOk] (New_logger demo_options [])
     ((New_logger demo_options [])\<lparr>lg_closed := True, lg_mode := Stopped, lg_table := [demo_row_log '''']\<rparr>)"
proof -
  let ?n = "New_logger demo_options []" and ?r = "demo_row_log ''''"
  have 1: "log_step (Wrote ?r) ?n (?n\<lparr>lg_ch := [?r]\<rparr>)"
    using wrote [of 0 ?r ?n "?n\<lparr>lg_ch := [?r]\<rparr>"] by (simp add: demo_rows(1) Write_log_def New_logger_def demo_options_def)
  have 2: "log_step CloseCalled (?n\<lparr>lg_ch := [?r]\<rparr>) (?n\<lparr>lg_ch := [?r], lg_closed := True\<rparr>)"
    using close_called [of "?n\<lparr>lg_ch := [?r]\<rparr>"] by (simp add: New_logger_def)
  have 3: "log_step DrainBegins (?n\<lparr>lg_ch := [?r], lg_closed := True\<rparr>) (?n\<lparr>lg_ch := [?r], lg_closed := True, lg_mode := Draining\<rparr>)"
    using drain_begins [of "?n\<lparr>lg_ch := [?r], lg_closed := True\<rparr>"] by (simp add: New_logger_def)
  have 4: "log_step (Received DOk) (?n\<lparr>lg_ch := [?r], lg_closed := True, lg_mode := Draining\<rparr>)
      (?n\<lparr>lg_ch := [], lg_batch := [?r], lg_closed := True, lg_mode := Draining\<rparr>)"
    using received [of "?n\<lparr>lg_ch := [?r], lg_closed := True, lg_mode := Draining\<rparr>" DOk]
    by (simp add: New_logger_def receive_row_def demo_options_def)
  have 5: "log_step (DrainEnds DOk) (?n\<lparr>lg_ch := [], lg_batch := [?r], lg_closed := True, lg_mode := Draining\<rparr>)
      (?n\<lparr>lg_closed := True, lg_mode := Stopped, lg_table := [?r]\<rparr>)"
    using drain_ends [of "?n\<lparr>lg_ch := [], lg_batch := [?r], lg_closed := True, lg_mode := Draining\<rparr>" DOk] demo_rows(2)
    by (simp add: New_logger_def flush_batch_def bulkInsert_def)
  show ?thesis using run_snoc [OF run_snoc [OF run_snoc [OF run_snoc [OF run_snoc [OF run_nil 1] 2] 3] 4] 5] by simp
qed


theorem stopped_logger_stored_all_witness:
  "lg_table ((New_logger demo_options [])\<lparr>lg_closed := True, lg_mode := Stopped, lg_table := [demo_row_log '''']\<rparr>) @ [] =
   [] @ accepted [Wrote (demo_row_log ''''), CloseCalled, DrainBegins, Received DOk, DrainEnds DOk]"
  using stopped_logger_stored_all [OF demo_shutdown] demo_rows(2) by (simp add: accepted_def outcomes_def New_logger_def)

theorem drain_terminates_witness:
  "length [DrainEnds DOk] = length (lg_ch ((New_logger demo_options [])\<lparr>lg_mode := Draining\<rparr>)) + 1"
proof -
  let ?d = "(New_logger demo_options [])\<lparr>lg_mode := Draining\<rparr>"
  have "log_step (DrainEnds DOk) ?d ((flush_batch DOk ?d)\<lparr>lg_mode := Stopped\<rparr>)" by (rule drain_ends) (simp_all add: New_logger_def)
  from run_snoc [OF run_nil this] drain_terminates [of ?d "[DrainEnds DOk]"] show ?thesis by fastforce
qed

end
