(* ===== verification/Auth_Users.thy ===== *)
theory Auth_Users
  imports Billing_Engine Account_Pool
begin

text \<open>
  The tables of users and of their groups (internal/user/dao.go, admin_dao.go) and the cache of a user's group (cache.go). The
  amounts, the version and the deletion mark of a user are the columns that the credit engine moves (\<open>users\<close> of
  Billing_Engine); the other columns are the user's profile. Texts compare as the collation says: \<open>ck\<close> gives the sort key of a
  text. The listings of credit movements are not modelled.
\<close>

section \<open>Tables\<close>

record profile =
  pr_id :: nat
  pr_email :: string
  pr_hash :: string
  pr_nickname :: string
  pr_group :: nat
  pr_role :: string
  pr_status :: string
  pr_login_at :: "int option"
  pr_login_ip :: string

record group_row =
  gr_id :: nat
  gr_name :: string
  gr_ratio :: rat
  gr_daily :: int
  gr_rpm :: int
  gr_tpm :: int
  gr_remark :: string
  gr_deleted :: "int option"

record user_db = billing_db +
  profiles :: "profile list"
  next_user :: nat
  groups :: "group_row list"
  next_group :: nat

type_synonym collation = "string \<Rightarrow> string"

text \<open>\<open>deleted_at IS NULL\<close>.\<close>

definition alive :: "'a user_db_scheme \<Rightarrow> profile \<Rightarrow> bool" where
  "alive d p = (case users d (pr_id p) of None \<Rightarrow> False | Some u \<Rightarrow> deleted_at u = None)"

section \<open>Reading users\<close>

definition not_found :: "go_err \<Rightarrow> go_err" where
  "not_found e = (if e = ENoRows then ErrNotFound else e)"

definition select_user :: "(profile \<Rightarrow> bool) \<Rightarrow> 'a user_db_scheme \<Rightarrow> profile result \<times> 'a user_db_scheme" where
  "select_user q d = (case find (\<lambda>p. q p \<and> alive d p) (profiles d) of None \<Rightarrow> (Inl ENoRows, d) | Some p \<Rightarrow> (Inr p, d))"

definition User_GetByID :: "nat \<Rightarrow> ('a user_db_scheme sess, profile) action" where
  "User_GetByID uid = mapErr not_found (stmt (select_user (\<lambda>p. pr_id p = uid)))"

definition User_GetByEmail :: "collation \<Rightarrow> string \<Rightarrow> ('a user_db_scheme sess, profile) action" where
  "User_GetByEmail ck email = mapErr not_found (stmt (select_user (\<lambda>p. ck (pr_email p) = ck email)))"

definition CountByEmail :: "collation \<Rightarrow> string \<Rightarrow> ('a user_db_scheme sess, nat) action" where
  "CountByEmail ck email = stmt (\<lambda>d. (Inr (length (filter (\<lambda>p. ck (pr_email p) = ck email \<and> alive d p) (profiles d))), d))"

definition CountAll :: "('a user_db_scheme sess, nat) action" where
  "CountAll = stmt (\<lambda>d. (Inr (length (filter (alive d) (profiles d))), d))"

section \<open>Writing users\<close>

text \<open>
  The key \<open>uk_email\<close> covers deleted rows too; InnoDB spends a number on a refused row. The new row has no frozen amount and
  version 0.
\<close>

definition insert_user :: "collation \<Rightarrow> profile \<Rightarrow> int \<Rightarrow> 'a user_db_scheme \<Rightarrow> nat result \<times> 'a user_db_scheme" where
  "insert_user ck p balance d =
     (let uid = next_user d; d1 = d\<lparr>next_user := Suc uid\<rparr> in
      if list_ex (\<lambda>q. ck (pr_email q) = ck (pr_email p)) (profiles d) then (Inl EDuplicate, d1)
      else (Inr uid, d1\<lparr>profiles := profiles d @ [p\<lparr>pr_id := uid, pr_login_at := None, pr_login_ip := ''''\<rparr>],
                        users := (users d)(uid \<mapsto> \<lparr>credit_balance = balance, credit_frozen = 0, version = 0, deleted_at = None\<rparr>)\<rparr>))"

definition User_Create :: "collation \<Rightarrow> profile \<Rightarrow> int \<Rightarrow> ('a user_db_scheme sess, nat) action" where
  "User_Create ck p balance = stmt (insert_user ck p balance)"

definition map_profile :: "nat \<Rightarrow> (profile \<Rightarrow> profile) \<Rightarrow> profile list \<Rightarrow> profile list" where
  "map_profile uid f ps = map (\<lambda>p. if pr_id p = uid then f p else p) ps"

text \<open>No condition on the deletion mark.\<close>

definition UpdateLoginInfo :: "int \<Rightarrow> nat \<Rightarrow> string \<Rightarrow> ('a user_db_scheme sess, unit) action" where
  "UpdateLoginInfo now uid ip =
     stmt (\<lambda>d. (Inr (), d\<lparr>profiles := map_profile uid (\<lambda>p. p\<lparr>pr_login_at := Some (datetime now), pr_login_ip := ip\<rparr>) (profiles d)\<rparr>))"

text \<open>
  \<open>UPDATE users SET ..., version = version + 1 WHERE id = ? AND deleted_at IS NULL\<close>: the version always changes, so
  \<open>RowsAffected\<close> counts the matched row.
\<close>

definition update_profile ::
  "nat \<Rightarrow> (profile \<Rightarrow> profile) \<Rightarrow> (user_row \<Rightarrow> user_row) \<Rightarrow> 'a user_db_scheme \<Rightarrow> nat result \<times> 'a user_db_scheme" where
  "update_profile uid f g d =
     (case users d uid of
        None \<Rightarrow> (Inr 0, d)
      | Some u \<Rightarrow>
          if deleted_at u \<noteq> None then (Inr 0, d)
          else if row_fits (u\<lparr>version := Suc (version u)\<rparr>)
               then (Inr 1, d\<lparr>profiles := map_profile uid f (profiles d), users := (users d)(uid \<mapsto> g (u\<lparr>version := Suc (version u)\<rparr>))\<rparr>)
               else (Inl EOutOfRange, d))"

record update_patch =
  up_nickname :: "string option"
  up_role :: "string option"
  up_status :: "string option"
  up_group :: "nat option"

definition patched :: "update_patch \<Rightarrow> profile \<Rightarrow> profile" where
  "patched u p =
     p\<lparr>pr_nickname := (case up_nickname u of Some v \<Rightarrow> v | None \<Rightarrow> pr_nickname p),
       pr_role := (case up_role u of Some v \<Rightarrow> v | None \<Rightarrow> pr_role p),
       pr_status := (case up_status u of Some v \<Rightarrow> v | None \<Rightarrow> pr_status p),
       pr_group := (case up_group u of Some v \<Rightarrow> v | None \<Rightarrow> pr_group p)\<rparr>"

definition User_Update :: "nat \<Rightarrow> update_patch \<Rightarrow> ('a user_db_scheme sess, nat) action" where
  "User_Update uid u =
     (if (case up_role u of Some r \<Rightarrow> r \<noteq> ''user'' \<and> r \<noteq> ''admin'' | None \<Rightarrow> False) then failE (EMsg ''invalid role'')
      else if (case up_status u of Some t \<Rightarrow> t \<noteq> ''active'' \<and> t \<noteq> ''banned'' | None \<Rightarrow> False) then failE (EMsg ''invalid status'')
      else if up_nickname u = None \<and> up_role u = None \<and> up_status u = None \<and> up_group u = None then okE 0
      else stmt (update_profile uid (patched u) (\<lambda>r. r)))"

definition User_ResetPassword :: "nat \<Rightarrow> string \<Rightarrow> ('a user_db_scheme sess, unit) action" where
  "User_ResetPassword uid hash =
     bindE (stmt (update_profile uid (\<lambda>p. p\<lparr>pr_hash := hash\<rparr>) (\<lambda>r. r))) (\<lambda>n. if n = 0 then failE ErrNotFound else okE ())"

definition User_SoftDelete :: "int \<Rightarrow> nat \<Rightarrow> ('a user_db_scheme sess, unit) action" where
  "User_SoftDelete now uid =
     bindE (stmt (update_profile uid (\<lambda>p. p\<lparr>pr_status := ''banned''\<rparr>) (\<lambda>r. r\<lparr>deleted_at := Some (datetime now)\<rparr>)))
       (\<lambda>n. if n = 0 then failE ErrNotFound else okE ())"

section \<open>Listing users\<close>

record user_filter =
  lf_keyword :: string
  lf_role :: string
  lf_status :: string
  lf_group :: nat

definition user_matches :: "collation \<Rightarrow> user_filter \<Rightarrow> profile \<Rightarrow> bool" where
  "user_matches ck f p \<longleftrightarrow>
     (lf_keyword f \<noteq> '''' \<longrightarrow> (let kw = ''%'' @ lf_keyword f @ ''%'' in sql_like kw (pr_email p) \<or> sql_like kw (pr_nickname p))) \<and>
     (lf_role f \<noteq> '''' \<longrightarrow> ck (pr_role p) = ck (lf_role f)) \<and> (lf_status f \<noteq> '''' \<longrightarrow> ck (pr_status p) = ck (lf_status f)) \<and>
     (lf_group f > 0 \<longrightarrow> pr_group p = lf_group f)"

definition User_ListPage :: "collation \<Rightarrow> user_filter \<Rightarrow> int \<Rightarrow> int \<Rightarrow> ('a user_db_scheme sess, profile list \<times> nat) action" where
  "User_ListPage ck f limit0 offset0 =
     (let limit1 = (if limit0 \<le> 0 then 20 else limit0); limit = (if limit1 > 500 then 500 else limit1);
          offset = (if offset0 < 0 then 0 else offset0);
          rows = (\<lambda>d. filter (\<lambda>p. alive d p \<and> user_matches ck f p) (profiles d)) in
      bindE (stmt (\<lambda>d. (Inr (length (rows d)), d))) (\<lambda>n.
      bindE (stmt (\<lambda>d. (Inr (page (nat offset) (nat limit) (rev (sort_key pr_id (rows d)))), d))) (\<lambda>items. okE (items, n))))"

section \<open>Groups\<close>

definition live_group :: "nat \<Rightarrow> group_row \<Rightarrow> bool" where
  "live_group gid g \<longleftrightarrow> gr_id g = gid \<and> gr_deleted g = None"

definition GetGroup :: "nat \<Rightarrow> ('a user_db_scheme sess, group_row) action" where
  "GetGroup gid =
     mapErr not_found (stmt (\<lambda>d. (case find (live_group gid) (groups d) of None \<Rightarrow> (Inl ENoRows, d) | Some g \<Rightarrow> (Inr g, d))))"

definition ListGroups :: "('a user_db_scheme sess, group_row list) action" where
  "ListGroups = stmt (\<lambda>d. (Inr (sort_key gr_id (filter (\<lambda>g. gr_deleted g = None) (groups d))), d))"

text \<open>
  \<open>dec\<close> is what the column DECIMAL(6,4) makes of a ratio, if it fits. \<open>uk_name\<close> covers deleted groups.
\<close>

definition CreateGroup :: "collation \<Rightarrow> (rat \<Rightarrow> rat option) \<Rightarrow> group_row \<Rightarrow> ('a user_db_scheme sess, nat) action" where
  "CreateGroup ck dec g =
     (if gr_name g = '''' then failE (EMsg ''group name required'')
      else let ratio = (if gr_ratio g \<le> 0 then 1 else gr_ratio g) in
        stmt (\<lambda>d. let gid = next_group d; d1 = d\<lparr>next_group := Suc gid\<rparr> in
          case dec ratio of
            None \<Rightarrow> (Inl EOutOfRange, d)
          | Some q \<Rightarrow>
              if list_ex (\<lambda>h. ck (gr_name h) = ck (gr_name g)) (groups d) then (Inl EDuplicate, d1)
              else (Inr gid, d1\<lparr>groups := groups d @ [g\<lparr>gr_id := gid, gr_ratio := q, gr_deleted := None\<rparr>]\<rparr>)))"

text \<open>An update with the values already stored changes no row, which reads as a missing one.\<close>

definition UpdateGroup :: "collation \<Rightarrow> (rat \<Rightarrow> rat option) \<Rightarrow> group_row \<Rightarrow> ('a user_db_scheme sess, unit) action" where
  "UpdateGroup ck dec g =
     bindE (stmt (\<lambda>d.
       case find (live_group (gr_id g)) (groups d) of
         None \<Rightarrow> (Inr 0, d)
       | Some old \<Rightarrow>
           (case dec (gr_ratio g) of
              None \<Rightarrow> (Inl EOutOfRange, d)
            | Some q \<Rightarrow>
                let new = g\<lparr>gr_ratio := q, gr_deleted := None\<rparr> in
                if list_ex (\<lambda>h. gr_id h \<noteq> gr_id g \<and> ck (gr_name h) = ck (gr_name g)) (groups d) then (Inl EDuplicate, d)
                else if new = old then (Inr 0, d)
                else (Inr (1::nat), d\<lparr>groups := map (\<lambda>h. if live_group (gr_id g) h then new else h) (groups d)\<rparr>))))
     (\<lambda>n. if n = 0 then failE ErrNotFound else okE ())"

definition DeleteGroup :: "int \<Rightarrow> nat \<Rightarrow> ('a user_db_scheme sess, unit) action" where
  "DeleteGroup now gid =
     (if gid = 1 then failE (EMsg ''default group cannot be deleted'')
      else bindE (stmt (\<lambda>d. (Inr (length (filter (\<lambda>p. pr_group p = gid \<and> alive d p) (profiles d))), d))) (\<lambda>used.
        if used > 0 then failE (EMsg ''group in use'')
        else bindE (stmt (\<lambda>d. if list_ex (live_group gid) (groups d)
                              then (Inr (1::nat), d\<lparr>groups := map (\<lambda>h. if live_group gid h then h\<lparr>gr_deleted := Some (datetime now)\<rparr> else h) (groups d)\<rparr>)
                              else (Inr 0, d))) (\<lambda>n. if n = 0 then failE ErrNotFound else okE ())))"

section \<open>The cache of groups\<close>

record group_cache =
  gc_ttl :: int
  gc_users :: "nat \<rightharpoonup> nat \<times> int"
  gc_groups :: "nat \<rightharpoonup> group_row \<times> int"

definition NewGroupCache :: "int \<Rightarrow> group_cache" where
  "NewGroupCache ttl = \<lparr>gc_ttl = (if ttl \<le> 0 then 30000 else ttl), gc_users = Map.empty, gc_groups = Map.empty\<rparr>"

definition fresh :: "int \<Rightarrow> int \<Rightarrow> ('b \<times> int) option \<Rightarrow> 'b option" where
  "fresh ttl now entry = (case entry of None \<Rightarrow> None | Some (v, stamp) \<Rightarrow> if now - stamp \<le> ttl then Some v else None)"

text \<open>The state is the cache with the session; a failed lookup stores nothing.\<close>

definition group_of_id :: "int \<Rightarrow> nat \<Rightarrow> (group_cache \<times> 'a user_db_scheme sess, group_row) action" where
  "group_of_id now gid = (\<lambda>(c, s).
     case fresh (gc_ttl c) now (gc_groups c gid) of
       Some g \<Rightarrow> (Inr g, (c, s))
     | None \<Rightarrow>
         (case GetGroup gid s of
            (Inl e, s1) \<Rightarrow> (Inl e, (c, s1))
          | (Inr g, s1) \<Rightarrow> (Inr g, (c\<lparr>gc_groups := (gc_groups c)(gid \<mapsto> (g, now))\<rparr>, s1))))"

definition OfUser :: "int \<Rightarrow> nat \<Rightarrow> (group_cache \<times> 'a user_db_scheme sess, group_row) action" where
  "OfUser now uid = (\<lambda>(c, s).
     case fresh (gc_ttl c) now (gc_users c uid) of
       Some gid \<Rightarrow> group_of_id now gid (c, s)
     | None \<Rightarrow>
         (case User_GetByID uid s of
            (Inl e, s1) \<Rightarrow> (Inl e, (c, s1))
          | (Inr p, s1) \<Rightarrow> group_of_id now (pr_group p) (c\<lparr>gc_users := (gc_users c)(uid \<mapsto> (pr_group p, now))\<rparr>, s1)))"

end
