(* ===== verification/Rbac.thy ===== *)
theory Rbac
  imports Prelude
begin

text \<open>
  Roles and permissions (internal/rbac): the fixed table from roles to permissions, the checks the middleware uses, and the
  tree of menus filtered for a role. The titles of the menus, which are only displayed, are left out.
\<close>

section \<open>Permissions\<close>

datatype permission =
    PermSelfProfile | PermSelfKey | PermSelfUsage | PermSelfRecharge | PermSelfImage
  | PermUserRead | PermUserWrite | PermUserCredit
  | PermKeyReadAll | PermKeyWriteAll
  | PermAccountRead | PermAccountWrite | PermProxyRead | PermProxyWrite | PermModelRead | PermModelWrite
  | PermChannelRead | PermChannelWrite
  | PermGroupWrite | PermRechargeManage
  | PermUsageReadAll | PermStatsReadAll | PermAuditRead
  | PermSystemSetting | PermSystemBackup | PermSystemImageFile

definition RoleUser :: string where "RoleUser = ''user''"
definition RoleAdmin :: string where "RoleAdmin = ''admin''"

definition rolePermissions :: "string \<rightharpoonup> permission list" where
  "rolePermissions =
     [RoleUser \<mapsto> [PermSelfProfile, PermSelfKey, PermSelfUsage, PermSelfRecharge, PermSelfImage],
      RoleAdmin \<mapsto>
        [PermSelfProfile, PermSelfKey, PermSelfUsage, PermSelfRecharge, PermSelfImage,
         PermUserRead, PermUserWrite, PermUserCredit,
         PermKeyReadAll, PermKeyWriteAll,
         PermAccountRead, PermAccountWrite,
         PermProxyRead, PermProxyWrite,
         PermModelRead, PermModelWrite,
         PermChannelRead, PermChannelWrite,
         PermGroupWrite, PermRechargeManage,
         PermUsageReadAll, PermStatsReadAll, PermAuditRead,
         PermSystemSetting, PermSystemBackup, PermSystemImageFile]]"

definition Has :: "string \<Rightarrow> permission \<Rightarrow> bool" where
  "Has role perm = (case rolePermissions role of None \<Rightarrow> False | Some ps \<Rightarrow> perm \<in> set ps)"

fun HasAny :: "string \<Rightarrow> permission list \<Rightarrow> bool" where
  "HasAny role [] = False"
| "HasAny role (p # ps) = (if Has role p then True else HasAny role ps)"

fun HasAll :: "string \<Rightarrow> permission list \<Rightarrow> bool" where
  "HasAll role [] = True"
| "HasAll role (p # ps) = (if \<not> Has role p then False else HasAll role ps)"

definition IsAdmin :: "string \<Rightarrow> bool" where
  "IsAdmin role \<longleftrightarrow> role = RoleAdmin"

lemma HasAny_ex: "HasAny role ps \<longleftrightarrow> (\<exists>p\<in>set ps. Has role p)"
  by (induction ps) auto

lemma HasAll_ball: "HasAll role ps \<longleftrightarrow> (\<forall>p\<in>set ps. Has role p)"
  by (induction ps) auto

lemma Has_admin: "Has RoleAdmin p"
  by (cases p) (simp_all add: Has_def rolePermissions_def)

lemma Has_user: "Has RoleUser p \<longleftrightarrow> p \<in> {PermSelfProfile, PermSelfKey, PermSelfUsage, PermSelfRecharge, PermSelfImage}"
  by (auto simp: Has_def rolePermissions_def RoleUser_def RoleAdmin_def)

lemma Has_known: "Has role p \<Longrightarrow> role = RoleUser \<or> role = RoleAdmin"
  by (auto simp: Has_def rolePermissions_def split: if_splits)

section \<open>Menus\<close>

datatype menu = Menu (mn_key: string) (mn_icon: string) (mn_path: string) (mn_perms: "permission list") (mn_children: "menu list")

definition menuTree :: "menu list" where
  "menuTree =
     [Menu ''personal'' ''User'' ''/personal'' []
        [Menu ''personal.dashboard'' ''House'' ''/personal/dashboard'' [PermSelfProfile] [],
         Menu ''personal.security'' ''Lock'' ''/personal/security'' [PermSelfProfile] [],
         Menu ''personal.play'' ''MagicStick'' ''/personal/play'' [PermSelfImage, PermSelfUsage] [],
         Menu ''personal.usage'' ''Histogram'' ''/personal/usage'' [PermSelfUsage] [],
         Menu ''personal.history-tasks'' ''PictureRounded'' ''/personal/history-tasks'' [PermSelfImage] [],
         Menu ''personal.billing'' ''Wallet'' ''/personal/billing'' [PermSelfRecharge] [],
         Menu ''personal.keys'' ''Key'' ''/personal/keys'' [PermSelfKey] [],
         Menu ''personal.docs'' ''Document'' ''/personal/docs'' [PermSelfUsage, PermSelfImage] []],
      Menu ''admin'' ''Setting'' ''/admin''
        [PermUserRead, PermUserWrite, PermUserCredit,
         PermKeyReadAll, PermKeyWriteAll,
         PermAccountRead, PermAccountWrite,
         PermProxyRead, PermProxyWrite,
         PermModelRead, PermModelWrite,
         PermChannelRead, PermChannelWrite,
         PermGroupWrite, PermRechargeManage,
         PermUsageReadAll, PermStatsReadAll, PermAuditRead,
         PermSystemSetting, PermSystemBackup, PermSystemImageFile]
        [Menu ''admin.dashboard'' ''House'' ''/admin/dashboard'' [] [],
         Menu ''admin.user-billing'' ''UserFilled'' '''' []
           [Menu ''admin.users'' ''UserFilled'' ''/admin/users'' [PermUserRead] [],
            Menu ''admin.credits'' ''Coin'' ''/admin/credits'' [PermUserCredit] [],
            Menu ''admin.recharges'' ''CreditCard'' ''/admin/recharges'' [PermRechargeManage] [],
            Menu ''admin.redeem-codes'' ''Ticket'' ''/admin/redeem-codes'' [PermRechargeManage] [],
            Menu ''admin.groups'' ''OfficeBuilding'' ''/admin/groups'' [PermGroupWrite] [],
            Menu ''admin.keys'' ''Key'' ''/admin/keys'' [PermKeyReadAll] []],
         Menu ''admin.models-resources'' ''Box'' '''' []
           [Menu ''admin.accounts'' ''Connection'' ''/admin/accounts'' [PermAccountRead] [],
            Menu ''admin.proxies'' ''Guide'' ''/admin/proxies'' [PermProxyRead] [],
            Menu ''admin.models'' ''Box'' ''/admin/models'' [PermModelRead, PermModelWrite] [],
            Menu ''admin.channels'' ''Share'' ''/admin/channels'' [PermChannelRead, PermChannelWrite] [],
            Menu ''admin.image-files'' ''Picture'' ''/admin/image-files'' [PermSystemImageFile] []],
         Menu ''admin.data-records'' ''DataAnalysis'' '''' []
           [Menu ''admin.usage'' ''DataAnalysis'' ''/admin/usage'' [PermUsageReadAll] [],
            Menu ''admin.request-logs'' ''Tickets'' ''/admin/request-logs'' [PermUsageReadAll] [],
            Menu ''admin.image-tasks'' ''Picture'' ''/admin/image-tasks'' [PermUsageReadAll] [],
            Menu ''admin.audit'' ''Document'' ''/admin/audit'' [PermAuditRead] [],
            Menu ''admin.backup'' ''FolderOpened'' ''/admin/backup'' [PermSystemBackup] []],
         Menu ''admin.content-system'' ''Tools'' '''' []
           [Menu ''admin.announcements'' ''Bell'' ''/admin/announcements'' [PermSystemSetting] [],
            Menu ''admin.update-logs'' ''DocumentChecked'' ''/admin/update-logs'' [PermSystemSetting] [],
            Menu ''admin.prompts'' ''Collection'' ''/admin/prompts'' [PermSystemSetting] [],
            Menu ''admin.settings'' ''Tools'' ''/admin/settings'' [PermSystemSetting] []]]]"

fun filterMenus :: "menu list \<Rightarrow> string \<Rightarrow> menu list" where
  "filterMenus [] role = []"
| "filterMenus (Menu key icon path perms children # ms) role =
     (let copied = filterMenus children role; out = filterMenus ms role in
      if children \<noteq> [] \<and> copied = [] then out
      else if perms \<noteq> [] \<and> \<not> HasAny role perms then out
      else Menu key icon path perms copied # out)"

definition MenuForRole :: "string \<Rightarrow> menu list" where
  "MenuForRole role = filterMenus menuTree role"

fun findDirectMenu :: "menu list \<Rightarrow> string \<Rightarrow> menu option" where
  "findDirectMenu [] key = None"
| "findDirectMenu (m # ms) key = (if mn_key m = key then Some m else findDirectMenu ms key)"

definition NavigationMenuForRole :: "string \<Rightarrow> menu list" where
  "NavigationMenuForRole role =
     (let menus = MenuForRole role in
      if role = RoleUser then (case findDirectMenu menus ''personal'' of Some root \<Rightarrow> mn_children root | None \<Rightarrow> menus)
      else if role = RoleAdmin then (case findDirectMenu menus ''admin'' of Some root \<Rightarrow> mn_children root | None \<Rightarrow> menus)
      else menus)"

section \<open>What a menu shows\<close>

text \<open>The pages of a forest, and those for which a role may see every entry on the way down.\<close>

fun menu_pages :: "menu list \<Rightarrow> string list" where
  "menu_pages [] = []"
| "menu_pages (Menu key icon path perms children # ms) = (if children = [] then [key] else menu_pages children) @ menu_pages ms"

fun permitted_pages :: "string \<Rightarrow> menu list \<Rightarrow> string list" where
  "permitted_pages role [] = []"
| "permitted_pages role (Menu key icon path perms children # ms) =
     (if perms \<noteq> [] \<and> (\<forall>p\<in>set perms. \<not> Has role p) then []
      else if children = [] then [key] else permitted_pages role children) @ permitted_pages role ms"

lemma menu_pages_Nil: "menu_pages ms = [] \<longleftrightarrow> ms = []"
  by (induction ms rule: menu_pages.induct) auto

lemma filterMenus_pages: "menu_pages (filterMenus ms role) = permitted_pages role ms"
proof (induction ms role rule: filterMenus.induct)
  case (2 key icon path perms children ms role)
  then show ?case using menu_pages_Nil [of "filterMenus children role"] by (auto simp: Let_def HasAny_ex)
qed simp

end
