(* ===== verification/Auth_Tokens.thy ===== *)
theory Auth_Tokens
  imports Rbac Go_Base Go_Float
begin

text \<open>
  The session tokens (pkg/jwt) and the middleware that reads them (internal/middleware/auth.go). The JWT library is a
  parameter: \<open>jw_sign\<close> renders and signs claims with HS256 under a secret, \<open>jw_parse\<close> checks a token at an
  instant, asking the caller for the key of the token's algorithm. Instants are milliseconds, durations
  nanoseconds, the dates inside a token whole seconds.
\<close>

section \<open>Claims and the library\<close>

record claims =
  cl_uid :: nat
  cl_role :: string
  cl_issuer :: string
  cl_subject :: string
  cl_aud :: "string list"
  cl_iat :: int
  cl_exp :: int
  cl_nbf :: int

record token_pair =
  tp_access :: string
  tp_refresh :: string
  tp_expires_in :: int
  tp_type :: string

record jwt_config =
  jc_secret :: string
  jc_issuer :: string
  jc_access_sec :: int
  jc_refresh_sec :: int

text \<open>\<open>ttlProvider\<close> is what the callback returns at the moment, if there is one.\<close>

record manager =
  mg_secret :: string
  mg_issuer :: string
  mg_access :: int
  mg_refresh :: int
  mg_provider :: "(int \<times> int) option"

record jwt_lib =
  jw_sign :: "string \<Rightarrow> claims \<Rightarrow> string option"
  jw_parse :: "int \<Rightarrow> (string \<Rightarrow> string option) \<Rightarrow> string \<Rightarrow> claims option"

text \<open>
  The documented behaviour of the library: a token signed with HS256 under a secret is accepted, with its claims, exactly
  from its not-before date until its expiry, by whoever answers that secret for HS256; and by nobody who answers no key. A token has
  no blanks.
\<close>

definition jwt_contract :: "jwt_lib \<Rightarrow> bool" where
  "jwt_contract lib \<longleftrightarrow>
     (\<forall>secret c tok now keyfunc. jw_sign lib secret c = Some tok \<longrightarrow>
        TrimSpace tok = tok \<and>
        (keyfunc ''HS256'' = Some secret \<longrightarrow>
           jw_parse lib now keyfunc tok = (if cl_nbf c * 1000 \<le> now \<and> now < cl_exp c * 1000 then Some c else None)) \<and>
        (keyfunc ''HS256'' = None \<longrightarrow> jw_parse lib now keyfunc tok = None))"

section \<open>Issuing and verifying\<close>

definition second_ns :: int where "second_ns = 1000000000"

definition NewManager :: "jwt_config \<Rightarrow> manager" where
  "NewManager c =
     \<lparr>mg_secret = jc_secret c, mg_issuer = jc_issuer c,
      mg_access = wrap64 (jc_access_sec c * second_ns), mg_refresh = wrap64 (jc_refresh_sec c * second_ns), mg_provider = None\<rparr>"

definition SetTTLProvider :: "int \<times> int \<Rightarrow> manager \<Rightarrow> manager" where
  "SetTTLProvider answer m = m\<lparr>mg_provider := Some answer\<rparr>"

definition currentTTLs :: "manager \<Rightarrow> int \<times> int" where
  "currentTTLs m =
     (case mg_provider m of
        None \<Rightarrow> (mg_access m, mg_refresh m)
      | Some (a, r) \<Rightarrow> (if a > 0 then wrap64 (a * second_ns) else mg_access m, if r > 0 then wrap64 (r * second_ns) else mg_refresh m))"

text \<open>\<open>Duration.Seconds\<close>, whole seconds plus the rest as floats.\<close>

definition seconds_of :: "int \<Rightarrow> rat" where
  "seconds_of d = rnd64 (of_int (go_div d second_ns) + rnd64 (of_int (d - go_div d second_ns * second_ns) / 1000000000))"

text \<open>\<open>NewNumericDate\<close> drops the part of a second.\<close>

definition numeric_date :: "int \<Rightarrow> int" where
  "numeric_date ns = ns div second_ns"

definition token_claims :: "manager \<Rightarrow> nat \<Rightarrow> string \<Rightarrow> string \<Rightarrow> int \<Rightarrow> int \<Rightarrow> claims" where
  "token_claims m userID role typ now ttl =
     \<lparr>cl_uid = userID, cl_role = role, cl_issuer = mg_issuer m, cl_subject = dec_nat userID, cl_aud = [typ],
      cl_iat = numeric_date (now * 1000000), cl_exp = numeric_date (now * 1000000 + ttl), cl_nbf = numeric_date (now * 1000000)\<rparr>"

definition signWithTTL :: "jwt_lib \<Rightarrow> manager \<Rightarrow> nat \<Rightarrow> string \<Rightarrow> string \<Rightarrow> int \<Rightarrow> int \<Rightarrow> string result" where
  "signWithTTL lib m userID role typ now ttl =
     (case jw_sign lib (mg_secret m) (token_claims m userID role typ now ttl) of
        None \<Rightarrow> Inl (EMsg ''sign'')
      | Some tok \<Rightarrow> Inr tok)"

definition Issue :: "jwt_lib \<Rightarrow> manager \<Rightarrow> int \<Rightarrow> nat \<Rightarrow> string \<Rightarrow> token_pair result" where
  "Issue lib m now userID role =
     (let (accessTTL, refreshTTL) = currentTTLs m in
      case signWithTTL lib m userID role ''access'' now accessTTL of
        Inl e \<Rightarrow> Inl e
      | Inr access \<Rightarrow>
          (case signWithTTL lib m userID role ''refresh'' now refreshTTL of
             Inl e \<Rightarrow> Inl e
           | Inr refresh \<Rightarrow>
               Inr \<lparr>tp_access = access, tp_refresh = refresh, tp_expires_in = to_i64 (seconds_of accessTTL), tp_type = ''Bearer''\<rparr>))"

text \<open>The key function answers the secret for the HMAC methods only.\<close>

definition jwt_key :: "manager \<Rightarrow> string \<Rightarrow> string option" where
  "jwt_key m alg = (if alg \<in> {''HS256'', ''HS384'', ''HS512''} then Some (mg_secret m) else None)"

definition Verify_token :: "jwt_lib \<Rightarrow> manager \<Rightarrow> int \<Rightarrow> string \<Rightarrow> claims result" where
  "Verify_token lib m now tok =
     (case jw_parse lib now (jwt_key m) tok of None \<Rightarrow> Inl (EMsg ''invalid token'') | Some c \<Rightarrow> Inr c)"

fun has_audience :: "string \<Rightarrow> string list \<Rightarrow> bool" where
  "has_audience typ [] = False"
| "has_audience typ (aud # auds) = (if aud = typ then True else has_audience typ auds)"

definition VerifyRefresh :: "jwt_lib \<Rightarrow> manager \<Rightarrow> int \<Rightarrow> string \<Rightarrow> claims result" where
  "VerifyRefresh lib m now tok =
     (case Verify_token lib m now tok of
        Inl e \<Rightarrow> Inl e
      | Inr c \<Rightarrow> if has_audience ''refresh'' (cl_aud c) then Inr c else Inl (EMsg ''not a refresh token''))"

section \<open>The middleware\<close>

text \<open>What a request's context carries; an answer ends the chain with a status.\<close>

record http_ctx =
  hx_user :: "nat option"
  hx_role :: "string option"

definition ctx0 :: http_ctx where "ctx0 = \<lparr>hx_user = None, hx_role = None\<rparr>"

definition UserID :: "http_ctx \<Rightarrow> nat" where
  "UserID c = (case hx_user c of None \<Rightarrow> 0 | Some uid \<Rightarrow> uid)"

definition Role :: "http_ctx \<Rightarrow> string" where
  "Role c = (case hx_role c of None \<Rightarrow> '''' | Some r \<Rightarrow> r)"

definition JWTAuth :: "jwt_lib \<Rightarrow> manager \<Rightarrow> int \<Rightarrow> string \<Rightarrow> http_ctx \<Rightarrow> nat + http_ctx" where
  "JWTAuth lib m now hdr c =
     (if \<not> HasPrefix hdr ''Bearer '' then Inl 401
      else case Verify_token lib m now (TrimSpace (drop 7 hdr)) of
             Inl _ \<Rightarrow> Inl 401
           | Inr cl \<Rightarrow> Inr (c\<lparr>hx_user := Some (cl_uid cl), hx_role := Some (cl_role cl)\<rparr>))"

definition RequireAdmin :: "http_ctx \<Rightarrow> nat + http_ctx" where
  "RequireAdmin c = (if \<not> IsAdmin (Role c) then Inl 403 else Inr c)"

definition RequirePerm :: "permission list \<Rightarrow> http_ctx \<Rightarrow> nat + http_ctx" where
  "RequirePerm perms c = (if UserID c = 0 then Inl 401 else if \<not> HasAny (Role c) perms then Inl 403 else Inr c)"

definition RequireAllPerms :: "permission list \<Rightarrow> http_ctx \<Rightarrow> nat + http_ctx" where
  "RequireAllPerms perms c = (if UserID c = 0 then Inl 401 else if \<not> HasAll (Role c) perms then Inl 403 else Inr c)"

section \<open>Life of a token\<close>

lemma sign_verify:
  assumes "jwt_contract lib" and "signWithTTL lib m uid role typ now ttl = Inr tok"
  shows "Verify_token lib m later tok =
    (if numeric_date (now * 1000000) * 1000 \<le> later \<and> later < numeric_date (now * 1000000 + ttl) * 1000
     then Inr (token_claims m uid role typ now ttl) else Inl (EMsg ''invalid token''))"
proof -
  have s: "jw_sign lib (mg_secret m) (token_claims m uid role typ now ttl) = Some tok"
    using assms(2) by (simp add: signWithTTL_def split: option.splits)
  have "jw_parse lib later (jwt_key m) tok =
    (if cl_nbf (token_claims m uid role typ now ttl) * 1000 \<le> later \<and> later < cl_exp (token_claims m uid role typ now ttl) * 1000
     then Some (token_claims m uid role typ now ttl) else None)"
    using assms(1) s by (simp add: jwt_contract_def jwt_key_def)
  then show ?thesis by (simp add: Verify_token_def token_claims_def)
qed

lemma Issue_Inr:
  assumes "Issue lib m now uid role = Inr pair"
  shows "signWithTTL lib m uid role ''access'' now (fst (currentTTLs m)) = Inr (tp_access pair)"
    and "signWithTTL lib m uid role ''refresh'' now (snd (currentTTLs m)) = Inr (tp_refresh pair)"
  using assms by (auto simp: Issue_def split: prod.splits sum.splits)

text \<open>The last instant a token of a whole number of seconds is good for.\<close>

lemma numeric_whole: "numeric_date (now * 1000000 + n * second_ns) = now div 1000 + n"
proof -
  have "(now * 1000000) div second_ns = now div 1000"
    using div_mult_mult2 [of 1000000 now 1000] by (simp add: second_ns_def)
  then show ?thesis by (simp add: numeric_date_def second_ns_def)
qed

lemma issued_before_now: "numeric_date (now * 1000000) * 1000 \<le> (now :: int)"
  using numeric_whole [of now 0] by (simp add: div_times_less_eq_dividend)

lemma VerifyRefresh_pair:
  assumes "jwt_contract lib" and "Issue lib m now uid role = Inr pair"
  shows "VerifyRefresh lib m later (tp_access pair) = Inl (EMsg ''not a refresh token'') \<or> VerifyRefresh lib m later (tp_access pair) = Inl (EMsg ''invalid token'')"
    and "VerifyRefresh lib m later (tp_refresh pair) = Verify_token lib m later (tp_refresh pair)"
  using sign_verify [OF assms(1) Issue_Inr(1) [OF assms(2)], of later] sign_verify [OF assms(1) Issue_Inr(2) [OF assms(2)], of later]
  by (auto simp: VerifyRefresh_def token_claims_def)

lemma JWTAuth_issued:
  assumes "jwt_contract lib" and "signWithTTL lib m uid role typ now ttl = Inr tok"
  shows "JWTAuth lib m later (''Bearer '' @ tok) c =
    (if numeric_date (now * 1000000) * 1000 \<le> later \<and> later < numeric_date (now * 1000000 + ttl) * 1000
     then Inr (c\<lparr>hx_user := Some uid, hx_role := Some role\<rparr>) else Inl 401)"
proof -
  have "TrimSpace tok = tok" using assms by (auto simp: signWithTTL_def jwt_contract_def split: option.splits)
  then show ?thesis using sign_verify [OF assms, of later] by (simp add: JWTAuth_def HasPrefix_def token_claims_def)
qed

end
