(* ===== verification/Auth_Service.thy ===== *)
theory Auth_Service
  imports Auth_Users Auth_Tokens Go_Json
begin

text \<open>
  Registration, verification codes, login and refresh (internal/auth/service.go), and the handlers that manage users
  (internal/user/handler.go, admin_handler.go, admin_group_handler.go). The state is a session of the user tables, one of the Redis
  keys of the verification codes, and one of the mail server, whose database is the mail delivered: its recipient and the
  code it carries. The optional dependencies are configured; bcrypt and the JWT library are parameters. The welcome mail, which is
  queued and may be lost, and the audit records are left out.
\<close>

section \<open>Errors\<close>

definition ErrEmailExists :: go_err where "ErrEmailExists = EMsg ''auth: email already exists''"
definition ErrInvalidCredential :: go_err where "ErrInvalidCredential = EMsg ''auth: invalid email or password''"
definition ErrUserBanned :: go_err where "ErrUserBanned = EMsg ''auth: user banned''"
definition ErrRegisterDisabled :: go_err where "ErrRegisterDisabled = EMsg ''auth: user registration is disabled''"
definition ErrEmailNotAllowed :: go_err where "ErrEmailNotAllowed = EMsg ''auth: email domain is not allowed by whitelist''"
definition ErrPasswordTooShort :: go_err where "ErrPasswordTooShort = EMsg ''auth: password too short''"
definition ErrEmailVerifyDisabled :: go_err where "ErrEmailVerifyDisabled = EMsg ''auth: email verification is disabled''"
definition ErrEmailServiceUnavailable :: go_err where "ErrEmailServiceUnavailable = EMsg ''auth: email service is unavailable''"
definition ErrEmailCodeSendFailed :: go_err where "ErrEmailCodeSendFailed = EMsg ''auth: failed to send email verification code''"
definition ErrEmailCodeRequired :: go_err where "ErrEmailCodeRequired = EMsg ''auth: email verification code is required''"
definition ErrEmailCodeInvalidOrExpired :: go_err where
  "ErrEmailCodeInvalidOrExpired = EMsg ''auth: invalid or expired email verification code''"
definition ErrEmailCodeCooldown :: go_err where "ErrEmailCodeCooldown = EMsg ''auth: email code requested too frequently''"
definition ErrEmailCodeRateLimited :: go_err where "ErrEmailCodeRateLimited = EMsg ''auth: email code request rate limit exceeded''"

section \<open>The Redis commands\<close>

text \<open>Values with an expiry, or without one after \<open>INCR\<close>; \<open>TTL\<close> answers whole seconds, rounded.\<close>

record code_db =
  co_keys :: "string \<rightharpoonup> string \<times> int option"

definition code_entry :: "int \<Rightarrow> string \<Rightarrow> 'a code_db_scheme \<Rightarrow> (string \<times> int option) option" where
  "code_entry now k d =
     (case co_keys d k of
        None \<Rightarrow> None
      | Some (v, ex) \<Rightarrow> (case ex of None \<Rightarrow> Some (v, None) | Some t \<Rightarrow> if now < t then Some (v, Some t) else None))"

definition code_get :: "int \<Rightarrow> string \<Rightarrow> 'a code_db_scheme \<Rightarrow> string option" where
  "code_get now k d = map_option fst (code_entry now k d)"

definition redis_set :: "int \<Rightarrow> string \<Rightarrow> string \<Rightarrow> int \<Rightarrow> 'a code_db_scheme \<Rightarrow> unit result \<times> 'a code_db_scheme" where
  "redis_set now k v ttl d = (Inr (), d\<lparr>co_keys := (co_keys d)(k \<mapsto> (v, Some (now + ttl)))\<rparr>)"

definition redis_del :: "string list \<Rightarrow> 'a code_db_scheme \<Rightarrow> unit result \<times> 'a code_db_scheme" where
  "redis_del ks d = (Inr (), d\<lparr>co_keys := fold (\<lambda>k m. m(k := None)) ks (co_keys d)\<rparr>)"

definition redis_ttl :: "int \<Rightarrow> string \<Rightarrow> 'a code_db_scheme \<Rightarrow> int result \<times> 'a code_db_scheme" where
  "redis_ttl now k d =
     (Inr (case code_entry now k d of None \<Rightarrow> -2 | Some (_, None) \<Rightarrow> -1 | Some (_, Some t) \<Rightarrow> (t - now + 500) div 1000), d)"

definition redis_incr :: "int \<Rightarrow> string \<Rightarrow> 'a code_db_scheme \<Rightarrow> int result \<times> 'a code_db_scheme" where
  "redis_incr now k d =
     (case code_entry now k d of
        None \<Rightarrow> (Inr 1, d\<lparr>co_keys := (co_keys d)(k \<mapsto> (''1'', None))\<rparr>)
      | Some (v, ex) \<Rightarrow>
          (case Atoi v of
             None \<Rightarrow> (Inl (EMsg ''not an integer''), d)
           | Some n \<Rightarrow>
               if \<not> in_i64 (n + 1) then (Inl (EMsg ''overflow''), d)
               else (Inr (n + 1), d\<lparr>co_keys := (co_keys d)(k \<mapsto> (dec_int (n + 1), ex))\<rparr>)))"

definition redis_expire :: "int \<Rightarrow> string \<Rightarrow> int \<Rightarrow> 'a code_db_scheme \<Rightarrow> unit result \<times> 'a code_db_scheme" where
  "redis_expire now k ttl d =
     (Inr (), case code_entry now k d of None \<Rightarrow> d | Some (v, _) \<Rightarrow> d\<lparr>co_keys := (co_keys d)(k \<mapsto> (v, Some (now + ttl)))\<rparr>)"

text \<open>The script that compares and deletes, in one step.\<close>

definition consumeRegisterEmailCodeScript :: "int \<Rightarrow> string \<Rightarrow> string \<Rightarrow> 'a code_db_scheme \<Rightarrow> int result \<times> 'a code_db_scheme" where
  "consumeRegisterEmailCodeScript now k v d =
     (if code_get now k d = Some v then (Inr 1, d\<lparr>co_keys := (co_keys d)(k := None)\<rparr>) else (Inr 0, d))"

section \<open>The environment\<close>

record bcrypt_lib =
  bc_generate :: "string \<Rightarrow> int \<Rightarrow> string option"
  bc_compare :: "string \<Rightarrow> string \<Rightarrow> bool"

text \<open>What bcrypt documents: a generated hash compares with its password.\<close>

definition bcrypt_contract :: "bcrypt_lib \<Rightarrow> bool" where
  "bcrypt_contract b \<longleftrightarrow> (\<forall>p cost h. bc_generate b p cost = Some h \<longrightarrow> bc_compare b h p)"

text \<open>The settings the service reads, and whether a mail server is configured.\<close>

record auth_env =
  ae_collation :: collation
  ae_bcrypt :: bcrypt_lib
  ae_cost :: int
  ae_jwt :: jwt_lib
  ae_manager :: manager
  ae_require_verify :: bool
  ae_mail_on :: bool
  ae_allow_register :: bool
  ae_min_password :: int
  ae_whitelist :: "string list"
  ae_default_group :: nat
  ae_signup_bonus :: int

definition NewService_cost :: "int \<Rightarrow> int" where
  "NewService_cost cost = (if cost < 4 \<or> cost > 31 then 10 else cost)"

type_synonym 'a auth_world = "'a user_db_scheme sess \<times> code_db sess \<times> (string \<times> string) list sess"

definition on_users :: "('a user_db_scheme sess, 'b) action \<Rightarrow> ('a auth_world, 'b) action" where
  "on_users m = (\<lambda>(u, c, mb). case m u of (r, u1) \<Rightarrow> (r, (u1, c, mb)))"

definition on_codes :: "(code_db sess, 'b) action \<Rightarrow> ('a auth_world, 'b) action" where
  "on_codes m = (\<lambda>(u, c, mb). case m c of (r, c1) \<Rightarrow> (r, (u, c1, mb)))"

definition on_mail :: "((string \<times> string) list sess, 'b) action \<Rightarrow> ('a auth_world, 'b) action" where
  "on_mail m = (\<lambda>(u, c, mb). case m mb of (r, mb1) \<Rightarrow> (r, (u, c, mb1)))"

text \<open>An error that is dropped.\<close>

definition ignoreE :: "('w, 'b) action \<Rightarrow> ('w, unit) action" where
  "ignoreE m = catchE m (\<lambda>_. okE ())"

section \<open>Verification codes\<close>

definition registerEmailCodeTTL :: int where "registerEmailCodeTTL = 600000"
definition registerEmailCodeCooldownTTL :: int where "registerEmailCodeCooldownTTL = 60000"
definition registerEmailCodeRateWindow :: int where "registerEmailCodeRateWindow = 600000"
definition registerEmailCodeEmailLimit :: int where "registerEmailCodeEmailLimit = 5"
definition registerEmailCodeIPLimit :: int where "registerEmailCodeIPLimit = 20"

definition normalizeEmail :: "string \<Rightarrow> string" where "normalizeEmail v = ToLower (TrimSpace v)"
definition normalizeNickname :: "string \<Rightarrow> string" where "normalizeNickname v = TrimSpace v"
definition normalizeEmailCode :: "string \<Rightarrow> string" where "normalizeEmailCode v = TrimSpace v"

definition valueKey :: "string \<Rightarrow> string" where "valueKey email = ''auth:register:email_code:value:'' @ email"
definition cooldownKey :: "string \<Rightarrow> string" where "cooldownKey email = ''auth:register:email_code:cooldown:'' @ email"
definition emailRateKey :: "string \<Rightarrow> string" where "emailRateKey email = ''auth:register:email_code:rate:email:'' @ email"
definition ipRateKey :: "string \<Rightarrow> string" where "ipRateKey ip = ''auth:register:email_code:rate:ip:'' @ TrimSpace ip"

definition registerEmailCodeKeys :: "string \<Rightarrow> string \<Rightarrow> string \<times> string \<times> string \<times> string" where
  "registerEmailCodeKeys email ip = (valueKey email, cooldownKey email, emailRateKey email, ipRateKey ip)"

text \<open>\<open>%06d\<close> of the number drawn below a million.\<close>

definition generateEmailCode :: "nat option \<Rightarrow> string result" where
  "generateEmailCode drawn =
     (case drawn of
        None \<Rightarrow> Inl (EMsg ''generate email code'')
      | Some n \<Rightarrow> let ds = dec_nat n in Inr (replicate (6 - length ds) (CHR ''0'') @ ds))"

definition after_at :: "string \<Rightarrow> string option" where
  "after_at email = (if CHR ''@'' \<in> set email then Some (rev (takeWhile (\<lambda>ch. ch \<noteq> CHR ''@'') (rev email))) else None)"

definition ensureEmailAllowed :: "auth_env \<Rightarrow> string \<Rightarrow> unit result" where
  "ensureEmailAllowed e email =
     (if ae_whitelist e \<noteq> []
      then (case after_at email of
              None \<Rightarrow> Inl ErrEmailNotAllowed
            | Some host \<Rightarrow> if host \<notin> set (ae_whitelist e) then Inl ErrEmailNotAllowed else Inr ())
      else Inr ())"

definition ensureEmailAvailable :: "auth_env \<Rightarrow> string \<Rightarrow> ('a user_db_scheme sess, unit) action" where
  "ensureEmailAvailable e email =
     bindE (CountByEmail (ae_collation e) email) (\<lambda>n. if n > 0 then failE ErrEmailExists else okE ())"

definition registerRole :: "auth_env \<Rightarrow> ('a user_db_scheme sess, string) action" where
  "registerRole e =
     bindE CountAll (\<lambda>n.
       if n = 0 then okE ''admin'' else if \<not> ae_allow_register e then failE ErrRegisterDisabled else okE ''user'')"

text \<open>The time left, rounded up to seconds; a key without one, or in its last half second, counts with the whole duration.\<close>

definition redisTTLSeconds :: "int \<Rightarrow> string \<Rightarrow> int \<Rightarrow> ('a code_db_scheme sess, int) action" where
  "redisTTLSeconds now k fallback =
     bindE (stmt (redis_ttl now k)) (\<lambda>n.
       if n = -2 then okE 0
       else let ttl = (if n \<le> 0 then fallback else n * 1000) in okE ((ttl + 999) div 1000))"

definition redisCounter :: "int \<Rightarrow> string \<Rightarrow> ('a code_db_scheme sess, int) action" where
  "redisCounter now k =
     bindE (stmt (\<lambda>d. (Inr (code_get now k d), d))) (\<lambda>v.
       case v of
         None \<Rightarrow> okE 0
       | Some x \<Rightarrow> (case Atoi x of None \<Rightarrow> failE (EMsg ''parse'') | Some n \<Rightarrow> okE n))"

text \<open>The seconds to wait go with the error into the answer; the model keeps the error.\<close>

definition ensureRegisterEmailCodeSendAllowed :: "int \<Rightarrow> string \<Rightarrow> string \<Rightarrow> ('a code_db_scheme sess, unit) action" where
  "ensureRegisterEmailCodeSendAllowed now email ip =
     bindE (redisTTLSeconds now (cooldownKey email) registerEmailCodeCooldownTTL) (\<lambda>ttlSec.
     if ttlSec > 0 then failE ErrEmailCodeCooldown
     else bindE (redisCounter now (emailRateKey email)) (\<lambda>count.
     if count \<ge> registerEmailCodeEmailLimit
     then bindE (redisTTLSeconds now (emailRateKey email) registerEmailCodeRateWindow) (\<lambda>_. failE ErrEmailCodeRateLimited)
     else bindE (redisCounter now (ipRateKey ip)) (\<lambda>ipCount.
     if ipCount \<ge> registerEmailCodeIPLimit
     then bindE (redisTTLSeconds now (ipRateKey ip) registerEmailCodeRateWindow) (\<lambda>_. failE ErrEmailCodeRateLimited)
     else okE ())))"

definition bumpRegisterEmailCodeRate :: "int \<Rightarrow> string \<Rightarrow> ('a code_db_scheme sess, unit) action" where
  "bumpRegisterEmailCodeRate now k =
     bindE (stmt (redis_incr now k)) (\<lambda>n.
     catchE (stmt (redis_ttl now k)) (\<lambda>r.
       if (case r of Inr ttl \<Rightarrow> ttl \<le> 0 | Inl _ \<Rightarrow> False) then stmt (redis_expire now k registerEmailCodeRateWindow)
       else if n = 1 then stmt (redis_expire now k registerEmailCodeRateWindow)
       else okE ()))"

text \<open>The instants of one call: of the checks, of the two writes, and of the counting.\<close>

record code_clock =
  cc_check :: int
  cc_value :: int
  cc_cooldown :: int
  cc_bump :: int

record send_result =
  sr_sent :: bool
  sr_expire_sec :: int
  sr_retry_sec :: int

definition deliver :: "string \<Rightarrow> string \<Rightarrow> ((string \<times> string) list sess, unit) action" where
  "deliver recipient code1 = stmt (\<lambda>box. (Inr (), box @ [(recipient, code1)]))"

text \<open>The checks, then the code is stored, mailed and counted.\<close>

definition Send_checks :: "auth_env \<Rightarrow> int \<Rightarrow> string \<Rightarrow> string \<Rightarrow> ('a auth_world, unit) action" where
  "Send_checks e now email ip =
     (if email = '''' then failE (EMsg ''email required'')
      else if \<not> ae_require_verify e then failE ErrEmailVerifyDisabled
      else if \<not> ae_mail_on e then failE ErrEmailServiceUnavailable
      else bindE (liftE (ensureEmailAllowed e email)) (\<lambda>_.
      bindE (on_users (ensureEmailAvailable e email)) (\<lambda>_.
      bindE (on_users (registerRole e)) (\<lambda>_.
      on_codes (ensureRegisterEmailCodeSendAllowed now email ip)))))"

definition Send_code :: "code_clock \<Rightarrow> nat option \<Rightarrow> string \<Rightarrow> string \<Rightarrow> ('a auth_world, send_result) action" where
  "Send_code t drawn email ip =
     bindE (liftE (generateEmailCode drawn)) (\<lambda>code1.
     bindE (on_codes (stmt (redis_set (cc_value t) (valueKey email) code1 registerEmailCodeTTL))) (\<lambda>_.
     catchE (on_codes (stmt (redis_set (cc_cooldown t) (cooldownKey email) ''1'' registerEmailCodeCooldownTTL))) (\<lambda>r.
     case r of
       Inl err \<Rightarrow> cleanup_fail (on_codes (stmt (redis_del [valueKey email]))) err
     | Inr _ \<Rightarrow>
         catchE (on_mail (deliver email code1)) (\<lambda>r2.
         case r2 of
           Inl _ \<Rightarrow> cleanup_fail (on_codes (stmt (redis_del [valueKey email, cooldownKey email]))) ErrEmailCodeSendFailed
         | Inr _ \<Rightarrow>
             bindE (ignoreE (on_codes (bumpRegisterEmailCodeRate (cc_bump t) (emailRateKey email)))) (\<lambda>_.
             bindE (ignoreE (on_codes (bumpRegisterEmailCodeRate (cc_bump t) (ipRateKey ip)))) (\<lambda>_.
             okE \<lparr>sr_sent = True, sr_expire_sec = registerEmailCodeTTL div 1000,
                   sr_retry_sec = registerEmailCodeCooldownTTL div 1000\<rparr>))))))"

definition SendRegisterEmailCode :: "auth_env \<Rightarrow> code_clock \<Rightarrow> nat option \<Rightarrow> string \<Rightarrow> string \<Rightarrow> ('a auth_world, send_result) action" where
  "SendRegisterEmailCode e t drawn email ip =
     bindE (Send_checks e (cc_check t) (normalizeEmail email) ip) (\<lambda>_. Send_code t drawn (normalizeEmail email) ip)"

definition verifyAndConsumeRegisterEmailCode :: "int \<Rightarrow> string \<Rightarrow> string \<Rightarrow> ('a code_db_scheme sess, unit) action" where
  "verifyAndConsumeRegisterEmailCode now email code1 =
     bindE (stmt (consumeRegisterEmailCodeScript now (valueKey email) code1)) (\<lambda>n.
       if n = 1 then okE () else failE ErrEmailCodeInvalidOrExpired)"

section \<open>Registration\<close>

text \<open>
  The checks end with the row to be inserted; between them and the insertion other requests may run. The instant is that of the
  script.
\<close>

definition Register_checks ::
  "auth_env \<Rightarrow> int \<Rightarrow> string \<Rightarrow> string \<Rightarrow> string \<Rightarrow> string \<Rightarrow> ('a auth_world, profile) action" where
  "Register_checks e now email0 password nickname0 code0 =
     (let email = normalizeEmail email0; nickname = normalizeNickname nickname0; code1 = normalizeEmailCode code0 in
      if email = '''' \<or> password = '''' then failE (EMsg ''email and password required'')
      else if ae_min_password e > 0 \<and> int (length password) < ae_min_password e then failE ErrPasswordTooShort
      else bindE (liftE (ensureEmailAllowed e email)) (\<lambda>_.
      bindE (on_users (ensureEmailAvailable e email)) (\<lambda>_.
      bindE (on_users (registerRole e)) (\<lambda>role.
      bindE (if ae_require_verify e
             then (if code1 = '''' then failE ErrEmailCodeRequired
                   else on_codes (verifyAndConsumeRegisterEmailCode now email code1))
             else okE ()) (\<lambda>_.
      case bc_generate (ae_bcrypt e) password (ae_cost e) of
        None \<Rightarrow> failE (EMsg ''bcrypt'')
      | Some hash \<Rightarrow>
          okE \<lparr>pr_id = 0, pr_email = email, pr_hash = hash, pr_nickname = nickname,
                pr_group = (if ae_default_group e > 0 then ae_default_group e else 1), pr_role = role, pr_status = ''active'',
                pr_login_at = None, pr_login_ip = ''''\<rparr>)))))"

definition Register_insert :: "auth_env \<Rightarrow> profile \<Rightarrow> ('a auth_world, profile) action" where
  "Register_insert e u =
     bindE (on_users (User_Create (ae_collation e) u 0)) (\<lambda>uid.
     bindE (if ae_signup_bonus e > 0
            then ignoreE (on_users (AdminAdjust uid 0 (ae_signup_bonus e) ''signup_bonus'' ''auto grant on register''))
            else okE ()) (\<lambda>_.
     okE (u\<lparr>pr_id := uid\<rparr>)))"

definition Register ::
  "auth_env \<Rightarrow> int \<Rightarrow> string \<Rightarrow> string \<Rightarrow> string \<Rightarrow> string \<Rightarrow> ('a auth_world, profile) action" where
  "Register e now email password nickname code0 =
     bindE (Register_checks e now email password nickname code0) (Register_insert e)"

section \<open>Login and refresh\<close>

definition invalid_credential :: "go_err \<Rightarrow> go_err" where
  "invalid_credential err = (if err = ErrNotFound then ErrInvalidCredential else err)"

definition Login :: "auth_env \<Rightarrow> int \<Rightarrow> string \<Rightarrow> string \<Rightarrow> string \<Rightarrow> ('a user_db_scheme sess, profile \<times> token_pair) action" where
  "Login e now email0 password ip =
     (let email = ToLower (TrimSpace email0) in
      bindE (mapErr invalid_credential (User_GetByEmail (ae_collation e) email)) (\<lambda>u.
      if pr_status u = ''banned'' then failE ErrUserBanned
      else if \<not> bc_compare (ae_bcrypt e) (pr_hash u) password then failE ErrInvalidCredential
      else bindE (liftE (Issue (ae_jwt e) (ae_manager e) now (pr_id u) (pr_role u))) (\<lambda>pair.
      bindE (ignoreE (UpdateLoginInfo now (pr_id u) ip)) (\<lambda>_. okE (u, pair)))))"

definition HashPassword :: "auth_env \<Rightarrow> string \<Rightarrow> string result" where
  "HashPassword e plain =
     (let least = (if ae_min_password e > 0 then ae_min_password e else 6) in
      if int (length plain) < least then Inl ErrPasswordTooShort
      else case bc_generate (ae_bcrypt e) plain (ae_cost e) of None \<Rightarrow> Inl (EMsg ''bcrypt'') | Some h \<Rightarrow> Inr h)"

definition VerifyPassword :: "auth_env \<Rightarrow> nat \<Rightarrow> string \<Rightarrow> ('a user_db_scheme sess, unit) action" where
  "VerifyPassword e userID password =
     bindE (mapErr invalid_credential (User_GetByID userID)) (\<lambda>u.
       if pr_status u = ''banned'' then failE ErrUserBanned
       else if \<not> bc_compare (ae_bcrypt e) (pr_hash u) password then failE ErrInvalidCredential
       else okE ())"

definition Refresh_tokens :: "auth_env \<Rightarrow> int \<Rightarrow> string \<Rightarrow> ('a user_db_scheme sess, token_pair) action" where
  "Refresh_tokens e now refreshToken =
     bindE (liftE (VerifyRefresh (ae_jwt e) (ae_manager e) now refreshToken)) (\<lambda>cl.
     bindE (User_GetByID (cl_uid cl)) (\<lambda>u.
       if pr_status u = ''banned'' then failE ErrUserBanned
       else liftE (Issue (ae_jwt e) (ae_manager e) now (pr_id u) (pr_role u))))"

end
