(* ===== verification/Auth_Admin.thy ===== *)
theory Auth_Admin
  imports Auth_Service
begin

text \<open>
  The handlers of a user's own account (internal/user/handler.go) and of the administration of users and groups
  (admin_handler.go, admin_group_handler.go). A handler takes the bound request and answers a value or the code of pkg/resp; the
  conditions of the \<open>binding\<close> tags are written out, with the syntax of addresses as a parameter. Audit records are left out.
\<close>

section \<open>Answers\<close>

definition CodeBadRequest :: nat where "CodeBadRequest = 40000"
definition CodeUnauthorized :: nat where "CodeUnauthorized = 40100"
definition CodeForbidden :: nat where "CodeForbidden = 40300"
definition CodeNotFound :: nat where "CodeNotFound = 40400"
definition CodeInternal :: nat where "CodeInternal = 50000"

definition statusFromCode :: "nat \<Rightarrow> nat" where
  "statusFromCode code1 =
     (if code1 = 40100 then 401 else if code1 = 40300 then 403 else if code1 = 40400 then 404 else if code1 = 42900 then 429
      else if code1 = 40200 then 402 else if code1 = 50000 \<or> code1 = 50200 then 500 else 200)"

type_synonym ('w, 'b) handler = "'w \<Rightarrow> (nat + 'b) \<times> 'w"

definition answer :: "'b \<Rightarrow> ('w, 'b) handler" where
  "answer x s = (Inr x, s)"

definition refuse :: "nat \<Rightarrow> ('w, 'b) handler" where
  "refuse code1 s = (Inl code1, s)"

text \<open>A call whose error decides the answer, or the rest of the handler.\<close>

definition calls :: "('w, 'c) action \<Rightarrow> (go_err \<Rightarrow> nat) \<Rightarrow> ('c \<Rightarrow> ('w, 'b) handler) \<Rightarrow> ('w, 'b) handler" where
  "calls m fail k s = (case m s of (Inl err, s1) \<Rightarrow> (Inl (fail err), s1) | (Inr x, s1) \<Rightarrow> k x s1)"

definition or_not_found :: "nat \<Rightarrow> go_err \<Rightarrow> nat" where
  "or_not_found code1 err = (if err = ErrNotFound then CodeNotFound else code1)"

definition rune_count :: "string \<Rightarrow> int" where
  "rune_count s = int (length (runes s))"

section \<open>A user's own account\<close>

definition Me :: "nat \<Rightarrow> ('a user_db_scheme sess, profile) handler" where
  "Me uid = (if uid = 0 then refuse CodeUnauthorized else calls (User_GetByID uid) (or_not_found CodeInternal) answer)"

definition Menu_of :: "nat \<Rightarrow> ('a user_db_scheme sess, string \<times> menu list) handler" where
  "Menu_of uid =
     (if uid = 0 then refuse CodeUnauthorized
      else calls (User_GetByID uid) (or_not_found CodeInternal) (\<lambda>u. answer (pr_role u, NavigationMenuForRole (pr_role u))))"

definition ChangePassword :: "auth_env \<Rightarrow> nat \<Rightarrow> string \<Rightarrow> string \<Rightarrow> ('a user_db_scheme sess, unit) handler" where
  "ChangePassword e uid old new =
     (if uid = 0 then refuse CodeUnauthorized
      else if old = '''' \<or> new = '''' then refuse CodeBadRequest
      else calls (VerifyPassword e uid old) (\<lambda>_. CodeForbidden) (\<lambda>_.
        if old = new then refuse CodeBadRequest
        else calls (liftE (HashPassword e new)) (\<lambda>_. CodeBadRequest) (\<lambda>hash.
          calls (User_ResetPassword uid hash) (or_not_found CodeInternal) answer)))"

section \<open>Administration of users\<close>

text \<open>
  The second confirmation: the header \<open>X-Admin-Confirm\<close>, or else the form field \<open>admin_password\<close>.
\<close>

definition confirmAdmin :: "auth_env \<Rightarrow> nat \<Rightarrow> string \<Rightarrow> string \<Rightarrow> ('a user_db_scheme sess, unit) action" where
  "confirmAdmin e actor header form =
     (let pwd = (if header = '''' then form else header) in
      if pwd = '''' then failE (EMsg ''X-Admin-Confirm header required'')
      else if actor = 0 then failE (EMsg ''not authenticated'')
      else catchE (VerifyPassword e actor pwd) (\<lambda>r. case r of Inl _ \<Rightarrow> failE (EMsg ''admin password mismatch'') | Inr _ \<Rightarrow> okE ()))"

record create_req =
  cr_email :: string
  cr_password :: string
  cr_nickname :: string
  cr_role :: string
  cr_status :: string
  cr_group :: nat
  cr_credits :: int

definition create_bound :: "(string \<Rightarrow> bool) \<Rightarrow> create_req \<Rightarrow> bool" where
  "create_bound is_email q \<longleftrightarrow> cr_email q \<noteq> '''' \<and> is_email (cr_email q) \<and> cr_password q \<noteq> '''' \<and> rune_count (cr_password q) \<ge> 6"

definition Admin_User_Create :: "auth_env \<Rightarrow> (string \<Rightarrow> bool) \<Rightarrow> nat \<Rightarrow> create_req \<Rightarrow> ('a user_db_scheme sess, profile) handler" where
  "Admin_User_Create e is_email actor q =
     (if \<not> create_bound is_email q then refuse CodeBadRequest
      else let email = ToLower (TrimSpace (cr_email q));
               role0 = ToLower (TrimSpace (cr_role q)); role = (if role0 = '''' then ''user'' else role0);
               status0 = ToLower (TrimSpace (cr_status q)); status = (if status0 = '''' then ''active'' else status0);
               groupID = (if cr_group q = 0 then 1 else cr_group q) in
        if email = '''' then refuse CodeBadRequest
        else if role \<noteq> ''user'' \<and> role \<noteq> ''admin'' then refuse CodeBadRequest
        else if status \<noteq> ''active'' \<and> status \<noteq> ''banned'' then refuse CodeBadRequest
        else calls (CountByEmail (ae_collation e) email) (\<lambda>_. CodeInternal) (\<lambda>n.
          if n > 0 then refuse CodeBadRequest
          else calls (liftE (HashPassword e (cr_password q))) (\<lambda>_. CodeBadRequest) (\<lambda>hash.
            let u = \<lparr>pr_id = 0, pr_email = email, pr_hash = hash, pr_nickname = TrimSpace (cr_nickname q), pr_group = groupID,
                     pr_role = role, pr_status = status, pr_login_at = None, pr_login_ip = ''''\<rparr> in
            calls (User_Create (ae_collation e) u 0) (\<lambda>_. CodeInternal) (\<lambda>uid.
            calls (if cr_credits q > 0 then ignoreE (AdminAdjust uid actor (cr_credits q) ''admin_create'' ''created by admin'') else okE ())
              (\<lambda>_. CodeInternal) (\<lambda>_. answer (u\<lparr>pr_id := uid\<rparr>))))))"

definition Admin_User_Get :: "nat \<Rightarrow> ('a user_db_scheme sess, profile) handler" where
  "Admin_User_Get uid = (if uid = 0 then refuse CodeBadRequest else calls (User_GetByID uid) (or_not_found CodeInternal) answer)"

definition Admin_User_Update :: "nat \<Rightarrow> nat \<Rightarrow> update_patch \<Rightarrow> ('a user_db_scheme sess, nat) handler" where
  "Admin_User_Update actor uid q =
     (if uid = 0 then refuse CodeBadRequest
      else if (case up_role q of Some r \<Rightarrow> r \<noteq> ''admin'' | None \<Rightarrow> False) \<and> uid = actor then refuse CodeBadRequest
      else calls (User_Update uid q) (\<lambda>_. CodeBadRequest) (\<lambda>n. if n = 0 then refuse CodeNotFound else answer n))"

definition Admin_User_ResetPassword :: "auth_env \<Rightarrow> nat \<Rightarrow> nat \<Rightarrow> string \<Rightarrow> string \<Rightarrow> ('a user_db_scheme sess, unit) handler" where
  "Admin_User_ResetPassword e actor uid newPassword adminPassword =
     (if uid = 0 then refuse CodeBadRequest
      else if newPassword = '''' \<or> rune_count newPassword < 6 \<or> adminPassword = '''' then refuse CodeBadRequest
      else calls (VerifyPassword e actor adminPassword) (\<lambda>_. CodeForbidden) (\<lambda>_.
        calls (liftE (HashPassword e newPassword)) (\<lambda>_. CodeBadRequest) (\<lambda>hash.
        calls (User_ResetPassword uid hash) (or_not_found CodeInternal) answer)))"

definition Admin_User_Delete :: "auth_env \<Rightarrow> int \<Rightarrow> nat \<Rightarrow> nat \<Rightarrow> string \<Rightarrow> string \<Rightarrow> ('a user_db_scheme sess, unit) handler" where
  "Admin_User_Delete e now actor uid header form =
     (if uid = 0 then refuse CodeBadRequest
      else if uid = actor then refuse CodeBadRequest
      else calls (confirmAdmin e actor header form) (\<lambda>_. CodeForbidden) (\<lambda>_.
        calls (User_SoftDelete now uid) (or_not_found CodeInternal) answer))"

record adjust_req =
  aq_delta :: int
  aq_remark :: string
  aq_ref :: string

definition adjust_bound :: "adjust_req \<Rightarrow> bool" where
  "adjust_bound q \<longleftrightarrow> aq_delta q \<noteq> 0 \<and> aq_remark q \<noteq> '''' \<and> rune_count (aq_remark q) \<le> 200"

definition Adjust :: "auth_env \<Rightarrow> nat \<Rightarrow> nat \<Rightarrow> adjust_req \<Rightarrow> string \<Rightarrow> string \<Rightarrow> ('a user_db_scheme sess, int) handler" where
  "Adjust e actor uid q header form =
     (if uid = 0 then refuse CodeBadRequest
      else if \<not> adjust_bound q then refuse CodeBadRequest
      else calls (confirmAdmin e actor header form) (\<lambda>_. CodeForbidden) (\<lambda>_.
        calls (AdminAdjust uid actor (aq_delta q) (aq_ref q) (aq_remark q))
          (\<lambda>err. if err = ErrInsufficient then CodeBadRequest else CodeInternal) answer))"

definition AdjustByUser :: "auth_env \<Rightarrow> nat \<Rightarrow> nat \<Rightarrow> adjust_req \<Rightarrow> string \<Rightarrow> string \<Rightarrow> ('a user_db_scheme sess, int) handler" where
  "AdjustByUser e actor userID q header form =
     (if userID = 0 \<or> \<not> adjust_bound q then refuse CodeBadRequest
      else calls (confirmAdmin e actor header form) (\<lambda>_. CodeForbidden) (\<lambda>_.
        calls (AdminAdjust userID actor (aq_delta q) (aq_ref q) (aq_remark q))
          (\<lambda>err. if err = ErrInsufficient then CodeBadRequest else CodeInternal) answer))"

section \<open>Administration of groups\<close>

definition group_bound :: "group_row \<Rightarrow> bool" where
  "group_bound g \<longleftrightarrow> gr_name g \<noteq> '''' \<and> 2 \<le> rune_count (gr_name g) \<and> rune_count (gr_name g) \<le> 64 \<and> gr_ratio g > 0"

definition Admin_Group_Create :: "auth_env \<Rightarrow> (rat \<Rightarrow> rat option) \<Rightarrow> group_row \<Rightarrow> ('a user_db_scheme sess, nat) handler" where
  "Admin_Group_Create e dec g =
     (if \<not> group_bound g then refuse CodeBadRequest else calls (CreateGroup (ae_collation e) dec g) (\<lambda>_. CodeBadRequest) answer)"

definition Admin_Group_Update :: "auth_env \<Rightarrow> (rat \<Rightarrow> rat option) \<Rightarrow> nat \<Rightarrow> group_row \<Rightarrow> ('a user_db_scheme sess, unit) handler" where
  "Admin_Group_Update e dec gid g =
     (if gid = 0 then refuse CodeBadRequest
      else if \<not> group_bound g then refuse CodeBadRequest
      else calls (UpdateGroup (ae_collation e) dec (g\<lparr>gr_id := gid\<rparr>)) (or_not_found CodeInternal) answer)"

definition Admin_Group_Delete :: "int \<Rightarrow> nat \<Rightarrow> ('a user_db_scheme sess, unit) handler" where
  "Admin_Group_Delete now gid =
     (if gid = 0 then refuse CodeBadRequest else calls (DeleteGroup now gid) (or_not_found CodeBadRequest) answer)"

end
