(* ===== verification/Router.thy ===== *)
theory Router
  imports Auth_Tokens
begin

text \<open>
  The table of routes (internal/server/router.go) with the middleware each handler stands behind, in the order of
  registration. The observers that wrap every route (request id, recovery, access log, CORS headers) and the front end's
  files are left out; a handler is named as in the source. A path is the concatenation of its groups' prefixes.
  The middleware of the API keys and of the playground, which end in their own components, are parameters of a request.
\<close>

section \<open>Routes\<close>

datatype guard =
    JWT | Admin | Audit | Perm "permission list" | ApiKey | PlaygroundKey | Preflight

record http_route =
  rte_method :: string
  rte_path :: string
  rte_guards :: "guard list"
  rte_handler :: string

text \<open>Which of the optional handlers are wired.\<close>

record deps =
  dp_checkin :: bool
  dp_recharge :: bool
  dp_redeem :: bool
  dp_me_usage :: bool
  dp_me_image :: bool
  dp_prompt :: bool
  dp_admin_model :: bool
  dp_account :: bool
  dp_gateway :: bool
  dp_keys :: bool
  dp_images :: bool
  dp_settings :: bool
  dp_announcement :: bool
  dp_updatelog :: bool
  dp_audit_dao :: bool
  dp_admin_user :: bool
  dp_admin_group :: bool
  dp_audit :: bool
  dp_admin_image :: bool
  dp_channel :: bool
  dp_admin_key :: bool
  dp_admin_usage :: bool
  dp_admin_recharge :: bool
  dp_admin_redeem :: bool
  dp_backup :: bool
  dp_image_files :: bool

definition route_on :: "string \<Rightarrow> string \<Rightarrow> guard list \<Rightarrow> string \<Rightarrow> http_route" where
  "route_on method path guards handler = \<lparr>rte_method = method, rte_path = path, rte_guards = guards, rte_handler = handler\<rparr>"

definition GET :: "string \<Rightarrow> guard list \<Rightarrow> string \<Rightarrow> http_route" where "GET = route_on ''GET''"
definition POST :: "string \<Rightarrow> guard list \<Rightarrow> string \<Rightarrow> http_route" where "POST = route_on ''POST''"
definition PUT :: "string \<Rightarrow> guard list \<Rightarrow> string \<Rightarrow> http_route" where "PUT = route_on ''PUT''"
definition PATCH :: "string \<Rightarrow> guard list \<Rightarrow> string \<Rightarrow> http_route" where "PATCH = route_on ''PATCH''"
definition DELETE :: "string \<Rightarrow> guard list \<Rightarrow> string \<Rightarrow> http_route" where "DELETE = route_on ''DELETE''"

definition route_group :: "string \<Rightarrow> guard list \<Rightarrow> http_route list \<Rightarrow> http_route list" where
  "route_group prefix guards rs = map (\<lambda>r. r\<lparr>rte_path := prefix @ rte_path r, rte_guards := guards @ rte_guards r\<rparr>) rs"

definition wired :: "bool \<Rightarrow> 'b list \<Rightarrow> 'b list" where
  "wired b rs = (if b then rs else [])"

section \<open>The table\<close>

definition auth_routes :: "http_route list" where
  "auth_routes =
     route_group ''/auth'' []
       [POST ''/register'' [] ''AuthH.Register'',
        POST ''/email-code/send'' [] ''AuthH.SendRegisterEmailCode'',
        POST ''/login'' [] ''AuthH.Login'',
        POST ''/refresh'' [] ''AuthH.Refresh'']"

definition authed_routes :: "deps \<Rightarrow> http_route list" where
  "authed_routes d =
     route_group '''' [JWT]
       ([GET ''/me'' [] ''UserH.Me'',
         GET ''/me/menu'' [] ''UserH.Menu'',
         POST ''/me/change-password'' [Perm [PermSelfProfile]] ''UserH.ChangePassword''] @
        wired (dp_checkin d)
          [GET ''/me/checkin'' [Perm [PermSelfProfile]] ''CheckinH.Status'',
           POST ''/me/checkin'' [Perm [PermSelfProfile]] ''CheckinH.Checkin''] @
        route_group ''/keys'' [Perm [PermSelfKey]]
          [POST '''' [] ''KeyH.Create'',
           GET '''' [] ''KeyH.List'',
           PATCH ''/:id'' [] ''KeyH.Update'',
           DELETE ''/:id'' [] ''KeyH.Delete''] @
        wired (dp_recharge d)
          (route_group ''/recharge'' [Perm [PermSelfRecharge]]
            [GET ''/packages'' [] ''RechargeH.ListPackages'',
             POST ''/orders'' [] ''RechargeH.CreateOrder'',
             GET ''/orders'' [] ''RechargeH.ListMyOrders'',
             POST ''/orders/:id/cancel'' [] ''RechargeH.CancelOrder'']) @
        wired (dp_redeem d)
          (route_group ''/recharge'' [Perm [PermSelfRecharge]]
            [POST ''/redeem-codes'' [] ''RedeemH.Redeem'']) @
        wired (dp_me_usage d)
          (route_group ''/me/usage'' [Perm [PermSelfUsage]]
            [GET ''/logs'' [] ''MeUsageH.Logs'',
             GET ''/stats'' [] ''MeUsageH.Stats'']) @
        [GET ''/me/credit-logs'' [Perm [PermSelfUsage]] ''UserH.CreditLogs''] @
        wired (dp_me_image d)
          (route_group ''/me/images'' [Perm [PermSelfImage]]
            [GET ''/tasks'' [] ''MeImageH.List'',
             GET ''/tasks/:id'' [] ''MeImageH.Get'',
             DELETE ''/tasks/:id'' [] ''MeImageH.Delete'']) @
        wired (dp_prompt d)
          (route_group ''/me/prompts'' [Perm [PermSelfImage]]
            [GET '''' [] ''PromptH.ListMe'',
             GET ''/categories'' [] ''PromptH.Categories'']) @
        wired (dp_admin_model d) [GET ''/me/models'' [] ''AdminModelH.ListEnabledForMe''] @
        wired (dp_account d)
          [GET ''/me/local-pool-quota-summary'' [Perm [PermSelfImage]] ''AccountH.LocalPoolQuotaSummary''] @
        wired (dp_gateway d \<and> dp_keys d)
          (route_group ''/me/playground'' [PlaygroundKey]
            (POST ''/chat'' [] ''GatewayH.ChatCompletions'' #
             wired (dp_images d)
               [POST ''/image'' [Preflight] ''ImagesH.ImageGenerations'',
                POST ''/image-edit'' [Preflight] ''ImagesH.ImageEdits''])))"

definition public_routes :: "deps \<Rightarrow> http_route list" where
  "public_routes d =
     route_group ''/public'' []
       (wired (dp_admin_model d) [GET ''/models'' [] ''AdminModelH.ListEnabledForPublic''] @
        wired (dp_settings d) [GET ''/site-info'' [] ''SettingsH.Public''] @
        wired (dp_announcement d) [GET ''/announcements'' [] ''AnnouncementH.ListPublic''] @
        wired (dp_updatelog d) [GET ''/update-logs'' [] ''UpdateLogH.ListPublic''] @
        wired (dp_prompt d)
          [GET ''/prompts'' [] ''PromptH.ListPublic'',
           GET ''/prompts/categories'' [] ''PromptH.Categories''] @
        wired (dp_recharge d)
          [POST ''/epay/notify'' [] ''RechargeH.EPayNotify'',
           GET ''/epay/notify'' [] ''RechargeH.EPayNotify''])"

definition adminMW :: "deps \<Rightarrow> guard list" where
  "adminMW d = [JWT, Admin] @ wired (dp_audit_dao d) [Audit]"

definition pool_routes :: "http_route list" where
  "pool_routes =
     [GET ''/ping'' [] ''ping''] @
     route_group ''/proxies'' [Perm [PermProxyRead, PermProxyWrite]]
       [POST '''' [Perm [PermProxyWrite]] ''ProxyH.Create'',
        POST ''/import'' [Perm [PermProxyWrite]] ''ProxyH.Import'',
        POST ''/probe-all'' [Perm [PermProxyWrite]] ''ProxyH.ProbeAll'',
        GET '''' [] ''ProxyH.List'',
        GET ''/:id'' [] ''ProxyH.Get'',
        POST ''/:id/probe'' [Perm [PermProxyWrite]] ''ProxyH.Probe'',
        PATCH ''/:id'' [Perm [PermProxyWrite]] ''ProxyH.Update'',
        DELETE ''/:id'' [Perm [PermProxyWrite]] ''ProxyH.Delete''] @
     route_group ''/accounts'' [Perm [PermAccountRead, PermAccountWrite]]
       [POST '''' [Perm [PermAccountWrite]] ''AccountH.Create'',
        POST ''/import'' [Perm [PermAccountWrite]] ''AccountH.Import'',
        POST ''/import-tokens'' [Perm [PermAccountWrite]] ''AccountH.ImportTokens'',
        POST ''/refresh-all'' [Perm [PermAccountWrite]] ''AccountH.RefreshAll'',
        POST ''/probe-quota-all'' [Perm [PermAccountWrite]] ''AccountH.ProbeQuotaAll'',
        POST ''/bulk-delete'' [Perm [PermAccountWrite]] ''AccountH.BulkDelete'',
        GET ''/auto-refresh'' [] ''AccountH.GetAutoRefresh'',
        PUT ''/auto-refresh'' [Perm [PermAccountWrite]] ''AccountH.SetAutoRefresh'',
        GET ''/quota-summary'' [] ''AccountH.QuotaSummary'',
        GET '''' [] ''AccountH.List'',
        GET ''/deleted'' [] ''AccountH.ListDeleted'',
        POST ''/:id/restore'' [Perm [PermAccountWrite]] ''AccountH.Restore'',
        DELETE ''/:id/purge'' [Perm [PermAccountWrite]] ''AccountH.Purge'',
        GET ''/:id'' [] ''AccountH.Get'',
        GET ''/:id/secrets'' [Perm [PermAccountWrite]] ''AccountH.GetSecrets'',
        PATCH ''/:id'' [Perm [PermAccountWrite]] ''AccountH.Update'',
        DELETE ''/:id'' [Perm [PermAccountWrite]] ''AccountH.Delete'',
        POST ''/:id/refresh'' [Perm [PermAccountWrite]] ''AccountH.Refresh'',
        POST ''/:id/probe-quota'' [Perm [PermAccountWrite]] ''AccountH.ProbeQuota'']"

definition user_routes :: "deps \<Rightarrow> http_route list" where
  "user_routes d =
     wired (dp_admin_user d)
       (route_group ''/users'' [Perm [PermUserRead, PermUserWrite]]
          [GET '''' [] ''AdminUserH.List'',
           POST '''' [Perm [PermUserWrite]] ''AdminUserH.Create'',
           GET ''/:id'' [] ''AdminUserH.Get'',
           PATCH ''/:id'' [Perm [PermUserWrite]] ''AdminUserH.Update'',
           POST ''/:id/reset-password'' [Perm [PermUserWrite]] ''AdminUserH.ResetPassword'',
           DELETE ''/:id'' [Perm [PermUserWrite]] ''AdminUserH.Delete'',
           POST ''/:id/credits/adjust'' [Perm [PermUserCredit]] ''AdminUserH.Adjust'',
           GET ''/:id/credit-logs'' [Perm [PermUsageReadAll]] ''AdminUserH.CreditLogs''] @
        route_group ''/credits'' [Perm [PermUserCredit]]
          [GET ''/summary'' [] ''AdminUserH.CreditsSummary'',
           GET ''/logs'' [] ''AdminUserH.CreditLogsGlobal'',
           POST ''/adjust'' [] ''AdminUserH.AdjustByUser'']) @
     wired (dp_admin_group d)
       (route_group ''/groups'' [Perm [PermGroupWrite]]
          [GET '''' [] ''AdminGroupH.List'',
           POST '''' [] ''AdminGroupH.Create'',
           PUT ''/:id'' [] ''AdminGroupH.Update'',
           DELETE ''/:id'' [] ''AdminGroupH.Delete'']) @
     wired (dp_audit d)
       (route_group ''/audit'' [Perm [PermAuditRead]] [GET ''/logs'' [] ''AuditH.List'']) @
     wired (dp_admin_image d) [GET ''/image-tasks'' [Perm [PermUsageReadAll]] ''AdminImageH.List'']"

definition catalog_routes :: "deps \<Rightarrow> http_route list" where
  "catalog_routes d =
     wired (dp_channel d)
       (route_group ''/channels'' [Perm [PermChannelRead, PermChannelWrite]]
          [GET '''' [] ''ChannelH.List'',
           POST '''' [Perm [PermChannelWrite]] ''ChannelH.Create'',
           GET ''/:id'' [] ''ChannelH.Get'',
           PATCH ''/:id'' [Perm [PermChannelWrite]] ''ChannelH.Update'',
           DELETE ''/:id'' [Perm [PermChannelWrite]] ''ChannelH.Delete'',
           POST ''/:id/test'' [Perm [PermChannelWrite]] ''ChannelH.Test'',
           GET ''/:id/mappings'' [] ''ChannelH.ListMappings'',
           POST ''/:id/mappings'' [Perm [PermChannelWrite]] ''ChannelH.CreateMapping''] @
        route_group ''/channel-mappings'' [Perm [PermChannelRead, PermChannelWrite]]
          [PATCH ''/:mid'' [Perm [PermChannelWrite]] ''ChannelH.UpdateMapping'',
           DELETE ''/:mid'' [Perm [PermChannelWrite]] ''ChannelH.DeleteMapping'']) @
     wired (dp_admin_model d)
       (route_group ''/models'' [Perm [PermModelRead, PermModelWrite]]
          [GET '''' [] ''AdminModelH.List'',
           POST '''' [Perm [PermModelWrite]] ''AdminModelH.Create'',
           PUT ''/:id'' [Perm [PermModelWrite]] ''AdminModelH.Update'',
           PATCH ''/:id/enabled'' [Perm [PermModelWrite]] ''AdminModelH.SetEnabled'',
           DELETE ''/:id'' [Perm [PermModelWrite]] ''AdminModelH.Delete'']) @
     wired (dp_admin_key d)
       (route_group ''/keys'' [Perm [PermKeyReadAll, PermKeyWriteAll]]
          [GET '''' [] ''AdminKeyH.List'',
           PATCH ''/:id'' [Perm [PermKeyWriteAll]] ''AdminKeyH.SetEnabled'']) @
     wired (dp_admin_usage d)
       (route_group ''/usage'' [Perm [PermUsageReadAll, PermStatsReadAll]]
          [GET ''/stats'' [] ''AdminUsageH.Stats'',
           GET ''/logs'' [] ''AdminUsageH.Logs'']) @
     wired (dp_admin_recharge d)
       (route_group ''/recharge'' [Perm [PermRechargeManage]]
          [GET ''/packages'' [] ''AdminRechargeH.ListPackages'',
           POST ''/packages'' [] ''AdminRechargeH.CreatePackage'',
           PATCH ''/packages/:id'' [] ''AdminRechargeH.UpdatePackage'',
           DELETE ''/packages/:id'' [] ''AdminRechargeH.DeletePackage'',
           GET ''/orders'' [] ''AdminRechargeH.ListOrders'',
           POST ''/orders/:id/force-paid'' [] ''AdminRechargeH.ForcePaid'']) @
     wired (dp_admin_redeem d)
       (route_group ''/redeem-codes'' [Perm [PermRechargeManage]]
          [GET '''' [] ''AdminRedeemH.List'',
           POST ''/generate'' [] ''AdminRedeemH.Generate''])"

definition system_routes :: "deps \<Rightarrow> http_route list" where
  "system_routes d =
     wired (dp_announcement d)
       (route_group ''/announcements'' [Perm [PermSystemSetting]]
          [GET '''' [] ''AnnouncementH.ListAdmin'',
           POST '''' [] ''AnnouncementH.Create'',
           PUT ''/:id'' [] ''AnnouncementH.Update'',
           DELETE ''/:id'' [] ''AnnouncementH.Delete'']) @
     wired (dp_updatelog d)
       (route_group ''/update-logs'' [Perm [PermSystemSetting]]
          [GET '''' [] ''UpdateLogH.ListAdmin'',
           POST '''' [] ''UpdateLogH.Create'',
           PUT ''/:id'' [] ''UpdateLogH.Update'',
           DELETE ''/:id'' [] ''UpdateLogH.Delete'']) @
     wired (dp_prompt d)
       (route_group ''/prompts'' [Perm [PermSystemSetting]]
          [GET '''' [] ''PromptH.ListAdmin'',
           POST '''' [] ''PromptH.Create'',
           PUT ''/:id'' [] ''PromptH.Update'',
           DELETE ''/:id'' [] ''PromptH.Delete''] @
        route_group ''/prompt-categories'' [Perm [PermSystemSetting]]
          [GET '''' [] ''PromptH.ListAdminCategories'',
           POST '''' [] ''PromptH.CreateCategory'',
           DELETE ''/:id'' [] ''PromptH.DeleteCategory'']) @
     wired (dp_settings d)
       (route_group ''/settings'' [Perm [PermSystemSetting]]
          [GET '''' [] ''SettingsH.List'',
           PUT '''' [] ''SettingsH.Update'',
           POST ''/reload'' [] ''SettingsH.Reload'',
           POST ''/test-email'' [] ''SettingsH.TestMail'']) @
     wired (dp_backup d)
       (route_group ''/system/backup'' [Perm [PermSystemBackup]]
          [GET '''' [] ''BackupH.List'',
           POST '''' [] ''BackupH.Create'',
           GET ''/:id/download'' [] ''BackupH.Download'',
           DELETE ''/:id'' [] ''BackupH.Delete'',
           POST ''/:id/restore'' [] ''BackupH.Restore'',
           POST ''/upload'' [] ''BackupH.Upload'']) @
     wired (dp_image_files d)
       (route_group ''/system/image-files'' [Perm [PermSystemImageFile]]
          [GET ''/stats'' [] ''ImageFilesH.Stats'',
           GET ''/original'' [] ''ImageFilesH.ListOriginal'',
           GET ''/thumb'' [] ''ImageFilesH.ListThumb'',
           POST ''/original/delete'' [] ''ImageFilesH.DeleteOriginal'',
           POST ''/thumb/delete'' [] ''ImageFilesH.DeleteThumb''])"

definition admin_routes :: "deps \<Rightarrow> http_route list" where
  "admin_routes d = pool_routes @ user_routes d @ catalog_routes d @ system_routes d"

definition v1_routes :: "deps \<Rightarrow> http_route list" where
  "v1_routes d =
     route_group ''/v1'' [ApiKey]
       ([GET ''/models'' [] ''GatewayH.ListModels'',
         POST ''/chat/completions'' [] ''GatewayH.ChatCompletions''] @
        wired (dp_images d)
          [POST ''/images/generations'' [] ''ImagesH.ImageGenerations'',
           POST ''/images/edits'' [] ''ImagesH.ImageEdits'',
           GET ''/images/tasks/:id'' [] ''ImagesH.ImageTask''])"

definition proxy_routes :: "deps \<Rightarrow> http_route list" where
  "proxy_routes d =
     wired (dp_images d)
       [GET ''/p/img/:task_id/:idx'' [] ''ImagesH.ImageProxy'',
        GET ''/p/thumb/:task_id/:idx'' [] ''ImagesH.ThumbProxy'',
        GET ''/p/ref/:task_id/:idx'' [] ''ImagesH.ReferenceProxy'',
        GET ''/p/ref-thumb/:task_id/:idx'' [] ''ImagesH.ReferenceThumbProxy'']"

definition New_router :: "deps \<Rightarrow> http_route list" where
  "New_router d =
     [GET ''/healthz'' [] ''healthz'', GET ''/readyz'' [] ''readyz''] @
     route_group ''/api'' []
       (auth_routes @ authed_routes d @ public_routes d @ route_group ''/admin'' (adminMW d) (admin_routes d)) @
     v1_routes d @ proxy_routes d"

section \<open>Passing the guards\<close>

text \<open>A request: its \<open>Authorization\<close> header, the instant, and what the middleware of the other components answer.\<close>

record web_request =
  wr_header :: string
  wr_now :: int
  wr_api_key :: "http_ctx \<Rightarrow> nat + http_ctx"
  wr_playground :: "nat \<Rightarrow> bool"

definition JWTAsPlaygroundKey :: "web_request \<Rightarrow> http_ctx \<Rightarrow> nat + http_ctx" where
  "JWTAsPlaygroundKey w c =
     (if UserID c = 0 then Inl 401 else if \<not> wr_playground w (UserID c) then Inl 500 else Inr c)"

definition PlaygroundImagePreflight :: "http_ctx \<Rightarrow> nat + http_ctx" where
  "PlaygroundImagePreflight c = (if UserID c = 0 then Inl 401 else Inr c)"

fun pass_guard :: "jwt_lib \<Rightarrow> manager \<Rightarrow> web_request \<Rightarrow> guard \<Rightarrow> http_ctx \<Rightarrow> nat + http_ctx" where
  "pass_guard lib m w JWT c = JWTAuth lib m (wr_now w) (wr_header w) c"
| "pass_guard lib m w Admin c = RequireAdmin c"
| "pass_guard lib m w Audit c = Inr c"
| "pass_guard lib m w (Perm ps) c = RequirePerm ps c"
| "pass_guard lib m w ApiKey c = wr_api_key w c"
| "pass_guard lib m w PlaygroundKey c = JWTAsPlaygroundKey w c"
| "pass_guard lib m w Preflight c = PlaygroundImagePreflight c"

fun pass_guards :: "jwt_lib \<Rightarrow> manager \<Rightarrow> web_request \<Rightarrow> guard list \<Rightarrow> http_ctx \<Rightarrow> nat + http_ctx" where
  "pass_guards lib m w [] c = Inr c"
| "pass_guards lib m w (g # gs) c =
     (case pass_guard lib m w g c of Inl status \<Rightarrow> Inl status | Inr c1 \<Rightarrow> pass_guards lib m w gs c1)"

text \<open>The handler of a route is reached with a context.\<close>

definition reaches :: "jwt_lib \<Rightarrow> manager \<Rightarrow> web_request \<Rightarrow> http_route \<Rightarrow> http_ctx \<Rightarrow> bool" where
  "reaches lib m w r c \<longleftrightarrow> pass_guards lib m w (rte_guards r) ctx0 = Inr c"

end
