(* ===== verification/Router_Laws.thy ===== *)
theory Router_Laws
  imports Router "HOL-Library.Sublist"
begin

text \<open>
  Who reaches which handler: what holds of every entry of the table of routes is established once, by evaluation over the
  table for any set of wired handlers, and then used with the behaviour of the guards.
\<close>

section \<open>The table\<close>

lemma list_all_group: "list_all P (route_group p gs rs) \<longleftrightarrow> list_all (\<lambda>r. P (r\<lparr>rte_path := p @ rte_path r, rte_guards := gs @ rte_guards r\<rparr>)) rs"
  by (simp add: route_group_def list_all_iff)

lemma list_all_wired: "list_all P (wired b rs) \<longleftrightarrow> (b \<longrightarrow> list_all P rs)"
  by (simp add: wired_def)

lemmas table_defs = New_router_def auth_routes_def authed_routes_def public_routes_def admin_routes_def pool_routes_def user_routes_def
  catalog_routes_def system_routes_def v1_routes_def proxy_routes_def GET_def POST_def PUT_def PATCH_def DELETE_def route_on_def

definition admin_path :: "string \<Rightarrow> bool" where
  "admin_path p \<longleftrightarrow> HasPrefix p ''/api/admin''"

text \<open>The paths open to everybody.\<close>

definition open_path :: "string \<Rightarrow> bool" where
  "open_path p \<longleftrightarrow> list_ex (HasPrefix p) [''/healthz'', ''/readyz'', ''/api/auth/'', ''/api/public/'', ''/p/'']"

definition v1_path :: "string \<Rightarrow> bool" where
  "v1_path p \<longleftrightarrow> HasPrefix p ''/v1/''"

definition self_perm :: "permission \<Rightarrow> bool" where
  "self_perm p \<longleftrightarrow> p \<in> {PermSelfProfile, PermSelfKey, PermSelfUsage, PermSelfRecharge, PermSelfImage}"

text \<open>Permissions that only read.\<close>

definition reading_perm :: "permission \<Rightarrow> bool" where
  "reading_perm p \<longleftrightarrow> p \<in> {PermUserRead, PermKeyReadAll, PermAccountRead, PermProxyRead, PermModelRead, PermChannelRead, PermUsageReadAll,
     PermStatsReadAll, PermAuditRead}"

fun self_guard :: "guard \<Rightarrow> bool" where
  "self_guard (Perm ps) = (ps \<noteq> [] \<and> list_all self_perm ps)"
| "self_guard PlaygroundKey = True"
| "self_guard Preflight = True"
| "self_guard _ = False"

fun write_guard :: "guard \<Rightarrow> bool" where
  "write_guard (Perm ps) = list_all (\<lambda>p. \<not> reading_perm p \<and> \<not> self_perm p) ps"
| "write_guard _ = False"

text \<open>An entry is open, of the gateway's API, of the administration or of a logged-in user.\<close>

definition classified :: "http_route \<Rightarrow> bool" where
  "classified r \<longleftrightarrow>
     (if open_path (rte_path r) then rte_guards r = []
      else if v1_path (rte_path r) then rte_guards r = [ApiKey]
      else if admin_path (rte_path r) then take 2 (rte_guards r) = [JWT, Admin] \<and>
        list_all (\<lambda>g. case g of Perm ps \<Rightarrow> ps \<noteq> [] | Audit \<Rightarrow> True | _ \<Rightarrow> False) (drop 2 (rte_guards r))
      else take 1 (rte_guards r) = [JWT] \<and> list_all self_guard (drop 1 (rte_guards r)))"

definition guarded_write :: "bool \<Rightarrow> http_route \<Rightarrow> bool" where
  "guarded_write audited r \<longleftrightarrow>
     (admin_path (rte_path r) \<and> rte_method r \<noteq> ''GET'' \<longrightarrow>
        list_ex write_guard (rte_guards r) \<and> (audited \<longrightarrow> List.member (rte_guards r) Audit))"

lemmas path_defs = open_path_def v1_path_def admin_path_def HasPrefix_def self_perm_def

lemma all_classified: "list_all classified (New_router d)"
  by (simp add: table_defs list_all_group list_all_wired classified_def path_defs adminMW_def wired_def)

lemma all_writes_guarded: "list_all (guarded_write (dp_audit_dao d)) (New_router d)"
  by (simp add: table_defs list_all_group list_all_wired guarded_write_def path_defs adminMW_def wired_def reading_perm_def)

section \<open>Passing the guards\<close>

lemma pass_append:
  "pass_guards lib m w (gs @ hs) c = (case pass_guards lib m w gs c of Inl status \<Rightarrow> Inl status | Inr c1 \<Rightarrow> pass_guards lib m w hs c1)"
  by (induction gs arbitrary: c) (auto split: sum.split)

text \<open>The guards after the token check only look at the context.\<close>

lemma late_guard_keeps:
  assumes "pass_guard lib m w g c = Inr c1" and "g \<noteq> JWT" and "g \<noteq> ApiKey"
  shows "c1 = c"
  using assms
  by (cases g) (auto simp: RequireAdmin_def RequirePerm_def JWTAsPlaygroundKey_def PlaygroundImagePreflight_def split: if_splits)

lemma late_guards_keep:
  assumes "pass_guards lib m w gs c = Inr c1" and "JWT \<notin> set gs" and "ApiKey \<notin> set gs"
  shows "c1 = c \<and> (\<forall>g\<in>set gs. pass_guard lib m w g c = Inr c)"
  using assms
proof (induction gs arbitrary: c)
  case (Cons g gs)
  then obtain c2 where c2: "pass_guard lib m w g c = Inr c2" "pass_guards lib m w gs c2 = Inr c1" by (auto split: sum.splits)
  have "c2 = c" using late_guard_keeps [OF c2(1)] Cons.prems(2,3) by auto
  then show ?case using Cons.IH [of c] c2 Cons.prems by auto
qed simp

lemma late_guards_pass:
  assumes "\<forall>g\<in>set gs. pass_guard lib m w g c = Inr c"
  shows "pass_guards lib m w gs c = Inr c"
  using assms by (induction gs) auto

lemma JWT_passed:
  assumes "pass_guards lib m w (JWT # gs) ctx0 = Inr c"
  obtains cl where "Verify_token lib m (wr_now w) (TrimSpace (drop 7 (wr_header w))) = Inr cl" and "HasPrefix (wr_header w) ''Bearer ''"
    and "pass_guards lib m w gs \<lparr>hx_user = Some (cl_uid cl), hx_role = Some (cl_role cl)\<rparr> = Inr c"
  using assms by (auto simp: JWTAuth_def ctx0_def split: if_splits sum.splits)

lemma entry_classified: "r \<in> set (New_router d) \<Longrightarrow> classified r"
  using all_classified by (auto simp: list_all_iff)

lemma split_prefix: "take (Suc n) xs = x # ys \<Longrightarrow> \<exists>zs. xs = x # zs \<and> take n zs = ys"
  by (cases xs) auto

lemma HasPrefix_Cons: "HasPrefix p (x # xs) \<longleftrightarrow> (case p of [] \<Rightarrow> False | y # ys \<Rightarrow> y = x \<and> HasPrefix ys xs)"
  by (cases p) (simp_all add: HasPrefix_def)

lemma open_excludes: "open_path p \<Longrightarrow> \<not> admin_path p" "v1_path p \<Longrightarrow> \<not> admin_path p" "v1_path p \<Longrightarrow> \<not> open_path p"
  by (auto simp: open_path_def admin_path_def v1_path_def HasPrefix_Cons split: list.splits)

text \<open>What stands in front of an administrator's handler.\<close>

lemma admin_guards:
  assumes "r \<in> set (New_router d)" and "admin_path (rte_path r)"
  obtains gs where "rte_guards r = JWT # Admin # gs" and "JWT \<notin> set gs" and "ApiKey \<notin> set gs"
proof -
  have "take 2 (rte_guards r) = [JWT, Admin]"
    and late: "list_all (\<lambda>g. case g of Perm ps \<Rightarrow> ps \<noteq> [] | Audit \<Rightarrow> True | _ \<Rightarrow> False) (drop 2 (rte_guards r))"
    using entry_classified [OF assms(1)] assms(2) open_excludes by (auto simp: classified_def split: if_splits)
  then obtain gs where gs: "rte_guards r = JWT # Admin # gs" by (auto simp: numeral_2_eq_2 dest!: split_prefix)
  then have "JWT \<notin> set gs" "ApiKey \<notin> set gs" using late by (auto simp: list_all_iff)
  with gs show ?thesis by (rule that)
qed

text \<open>
  C19. Administration is only for administrators: whatever handlers are wired, a handler under \<open>/api/admin\<close> is reached only with
  a token that verifies at that instant and names the role admin, and with the user of that token; a handler there that
  writes stands behind a permission that is not one of reading, held by the role of the token, and behind the audit log when
  there is one.
\<close>

theorem admin_routes_guarded:
  assumes "r \<in> set (New_router d)" and "HasPrefix (rte_path r) ''/api/admin''" and "reaches lib m w r c"
  shows "\<exists>cl. Verify_token lib m (wr_now w) (TrimSpace (drop 7 (wr_header w))) = Inr cl \<and> cl_role cl = RoleAdmin \<and>
    c = \<lparr>hx_user = Some (cl_uid cl), hx_role = Some RoleAdmin\<rparr> \<and>
    (rte_method r \<noteq> ''GET'' \<longrightarrow> (\<exists>ps. Perm ps \<in> set (rte_guards r) \<and> list_all (\<lambda>p. \<not> reading_perm p) ps \<and> HasAny (cl_role cl) ps) \<and>
      cl_uid cl \<noteq> 0 \<and> (dp_audit_dao d \<longrightarrow> Audit \<in> set (rte_guards r)))"
proof -
  have adm: "admin_path (rte_path r)" using assms(2) by (simp add: admin_path_def)
  obtain gs where gs: "rte_guards r = JWT # Admin # gs" "JWT \<notin> set gs" "ApiKey \<notin> set gs" by (rule admin_guards [OF assms(1) adm])
  obtain cl where cl: "Verify_token lib m (wr_now w) (TrimSpace (drop 7 (wr_header w))) = Inr cl"
    and late: "pass_guards lib m w (Admin # gs) \<lparr>hx_user = Some (cl_uid cl), hx_role = Some (cl_role cl)\<rparr> = Inr c"
    using assms(3) gs(1) by (auto simp: reaches_def simp del: pass_guards.simps elim: JWT_passed)
  have keep: "c = \<lparr>hx_user = Some (cl_uid cl), hx_role = Some (cl_role cl)\<rparr>" "\<forall>g\<in>set (Admin # gs). pass_guard lib m w g c = Inr c"
    using late_guards_keep [OF late] gs(2,3) by auto
  have role: "cl_role cl = RoleAdmin" using keep by (simp add: RequireAdmin_def Role_def IsAdmin_def split: if_splits)
  have "(\<exists>ps. Perm ps \<in> set (rte_guards r) \<and> list_all (\<lambda>p. \<not> reading_perm p) ps \<and> HasAny (cl_role cl) ps) \<and>
      cl_uid cl \<noteq> 0 \<and> (dp_audit_dao d \<longrightarrow> Audit \<in> set (rte_guards r))" if "rte_method r \<noteq> ''GET''"
  proof -
    have "list_ex write_guard (rte_guards r) \<and> (dp_audit_dao d \<longrightarrow> Audit \<in> set (rte_guards r))"
      using all_writes_guarded [of d] assms(1) adm that by (auto simp: list_all_iff guarded_write_def)
    moreover then obtain ps where ps: "Perm ps \<in> set gs" "list_all (\<lambda>p. \<not> reading_perm p \<and> \<not> self_perm p) ps"
      using gs(1) by (auto simp: list_ex_iff elim!: write_guard.elims(2))
    moreover have "RequirePerm ps c = Inr c" using keep(2) ps(1) by force
    ultimately show ?thesis using keep(1) gs(1)
      by (auto simp: RequirePerm_def UserID_def Role_def list_all_iff intro!: exI [of _ ps] split: if_splits)
  qed
  then show ?thesis using cl role keep(1) by blast
qed


text \<open>
  The open surface: a request without a bearer token and refused by the API key's middleware reaches exactly the health
  checks, registration and login, the public listings and notifications, and the signed images.
\<close>

theorem open_surface:
  assumes "r \<in> set (New_router d)" and "\<not> HasPrefix (wr_header w) ''Bearer ''" and "wr_api_key w ctx0 = Inl status"
  shows "(\<exists>c. reaches lib m w r c) \<longleftrightarrow>
    list_ex (HasPrefix (rte_path r)) [''/healthz'', ''/readyz'', ''/api/auth/'', ''/api/public/'', ''/p/'']"
proof (cases "open_path (rte_path r)")
  case True
  then have "rte_guards r = []" using entry_classified [OF assms(1)] by (simp add: classified_def)
  then show ?thesis using True by (simp add: reaches_def open_path_def)
next
  case False
  then have "take 1 (rte_guards r) \<in> {[JWT], [ApiKey]}"
    using entry_classified [OF assms(1)] by (auto simp: classified_def numeral_2_eq_2 dest!: split_prefix split: if_splits)
  then obtain g gs where "rte_guards r = g # gs" "g = JWT \<or> g = ApiKey" by (cases "rte_guards r") auto
  then have "\<not> reaches lib m w r c" for c using assms(2,3) by (auto simp: reaches_def JWTAuth_def)
  then show ?thesis using False by (simp add: open_path_def)
qed

section \<open>No route twice\<close>

definition route_key :: "http_route \<Rightarrow> string \<times> string" where
  "route_key r = (rte_method r, rte_path r)"

definition all_wired :: deps where
  "all_wired = \<lparr>dp_checkin = True, dp_recharge = True, dp_redeem = True, dp_me_usage = True, dp_me_image = True, dp_prompt = True,
     dp_admin_model = True, dp_account = True, dp_gateway = True, dp_keys = True, dp_images = True, dp_settings = True,
     dp_announcement = True, dp_updatelog = True, dp_audit_dao = True, dp_admin_user = True, dp_admin_group = True, dp_audit = True,
     dp_admin_image = True, dp_channel = True, dp_admin_key = True, dp_admin_usage = True, dp_admin_recharge = True,
     dp_admin_redeem = True, dp_backup = True, dp_image_files = True\<rparr>"

lemma all_wired_distinct: "distinct (map route_key (New_router all_wired))"
  by (simp add: table_defs route_group_def wired_def all_wired_def route_key_def)

text \<open>Fewer handlers give a subsequence of the same keys.\<close>

definition keys_within :: "http_route list \<Rightarrow> http_route list \<Rightarrow> bool" where
  "keys_within rs qs \<longleftrightarrow> subseq (map route_key rs) (map route_key qs)"

lemma keys_refl: "keys_within rs rs"
  by (simp add: keys_within_def)

lemma keys_append: "keys_within rs qs \<Longrightarrow> keys_within rs' qs' \<Longrightarrow> keys_within (rs @ rs') (qs @ qs')"
  by (simp add: keys_within_def list_emb_append_mono)

lemma keys_Cons: "keys_within rs qs \<Longrightarrow> keys_within (r # rs) (r # qs)"
  by (simp add: keys_within_def)

lemma keys_wired: "keys_within rs qs \<Longrightarrow> keys_within (wired b rs) (wired True qs)"
  by (simp add: keys_within_def wired_def)

lemma keys_group:
  assumes "keys_within rs qs"
  shows "keys_within (route_group p gs rs) (route_group p hs qs)"
proof -
  have k: "map route_key (route_group p gs xs) = map (\<lambda>(me, pa). (me, p @ pa)) (map route_key xs)" for gs xs
    by (simp add: route_group_def route_key_def)
  show ?thesis using assms unfolding keys_within_def k by (rule subseq_map)
qed

lemma subseq_distinct_trans: "subseq xs ys \<Longrightarrow> distinct ys \<Longrightarrow> distinct xs"
  by (auto simp: subseq_conv_nths distinct_nthsI)

lemmas keys_intros = keys_append keys_Cons keys_wired keys_group keys_refl

text \<open>
  No method and path is registered twice, whatever handlers are wired, so building the router does not panic on a duplicate.
\<close>

theorem routes_distinct: "distinct (map (\<lambda>r. (rte_method r, rte_path r)) (New_router d))"
proof -
  have "keys_within (New_router d) (New_router all_wired)"
    unfolding New_router_def auth_routes_def authed_routes_def public_routes_def admin_routes_def user_routes_def catalog_routes_def
      system_routes_def v1_routes_def proxy_routes_def
    by (intro keys_intros | simp only: all_wired_def deps.simps simp_thms)+
  then show ?thesis using subseq_distinct_trans [OF _ all_wired_distinct]
    by (simp add: keys_within_def route_key_def [abs_def])
qed

section \<open>Concrete requests\<close>

definition demo_claims :: "nat \<Rightarrow> string \<Rightarrow> claims" where
  "demo_claims uid role = \<lparr>cl_uid = uid, cl_role = role, cl_issuer = ''gpt2api'', cl_subject = dec_nat uid, cl_aud = [''access''],
     cl_iat = 10, cl_exp = 20, cl_nbf = 10\<rparr>"

definition demo_lib :: "claims \<Rightarrow> jwt_lib" where
  "demo_lib cl = \<lparr>jw_sign = (\<lambda>_ _. Some ''tok''),
     jw_parse = (\<lambda>now keyfunc tok. if tok = ''tok'' \<and> keyfunc ''HS256'' \<noteq> None then Some cl else None)\<rparr>"

definition demo_manager :: manager where
  "demo_manager = NewManager \<lparr>jc_secret = ''s'', jc_issuer = ''gpt2api'', jc_access_sec = 10, jc_refresh_sec = 100\<rparr>"

definition demo_request :: "string \<Rightarrow> web_request" where
  "demo_request hdr = \<lparr>wr_header = hdr, wr_now = 15000, wr_api_key = (\<lambda>_. Inl 401), wr_playground = (\<lambda>_. True)\<rparr>"

definition demo_admin_route :: http_route where
  "demo_admin_route = \<lparr>rte_method = ''POST'', rte_path = ''/api/admin/proxies'',
     rte_guards = [JWT, Admin, Audit, Perm [PermProxyRead, PermProxyWrite], Perm [PermProxyWrite]], rte_handler = ''ProxyH.Create''\<rparr>"

definition demo_self_route :: http_route where
  "demo_self_route = \<lparr>rte_method = ''POST'', rte_path = ''/api/me/change-password'', rte_guards = [JWT, Perm [PermSelfProfile]],
     rte_handler = ''UserH.ChangePassword''\<rparr>"

lemma demo_routes: "demo_admin_route \<in> set (New_router all_wired)" "demo_self_route \<in> set (New_router all_wired)"
  by (simp_all add: table_defs route_group_def wired_def all_wired_def adminMW_def demo_admin_route_def demo_self_route_def)

lemma demo_verify: "Verify_token (demo_lib cl) demo_manager now ''tok'' = Inr cl"
  by (simp add: Verify_token_def demo_lib_def jwt_key_def)

lemma demo_trim: "TrimSpace (drop 7 ''Bearer tok'') = ''tok''" "TrimSpace ''tok'' = ''tok''" "HasPrefix ''Bearer tok'' ''Bearer ''"
  by (simp_all add: TrimSpace_def is_space_def HasPrefix_def byte_val_def)

lemma demo_admin_reaches:
  "reaches (demo_lib (demo_claims 7 RoleAdmin)) demo_manager (demo_request ''Bearer tok'') demo_admin_route
     \<lparr>hx_user = Some 7, hx_role = Some RoleAdmin\<rparr>"
proof -
  have "pass_guard (demo_lib (demo_claims 7 RoleAdmin)) demo_manager (demo_request ''Bearer tok'') JWT ctx0 =
      Inr \<lparr>hx_user = Some 7, hx_role = Some RoleAdmin\<rparr>"
    using demo_trim(1,3) demo_verify [of "demo_claims 7 RoleAdmin"]
    by (simp only: pass_guard.simps JWTAuth_def demo_request_def web_request.simps) (simp add: ctx0_def demo_claims_def)
  then show ?thesis
    by (simp add: reaches_def demo_admin_route_def RequireAdmin_def RequirePerm_def IsAdmin_def Role_def UserID_def Has_admin)
qed

theorem admin_routes_guarded_witness:
  "\<exists>ps. Perm ps \<in> set (rte_guards demo_admin_route) \<and> list_all (\<lambda>p. \<not> reading_perm p) ps \<and> HasAny RoleAdmin ps"
proof -
  have "HasPrefix (rte_path demo_admin_route) ''/api/admin''" "rte_method demo_admin_route \<noteq> ''GET''"
    by (simp_all add: demo_admin_route_def HasPrefix_def)
  then show ?thesis using admin_routes_guarded [OF demo_routes(1) _ demo_admin_reaches] by metis
qed


theorem open_surface_witness:
  "\<not> (\<exists>c. reaches (demo_lib (demo_claims 2 RoleUser)) demo_manager (demo_request '''') demo_self_route c)"
  using open_surface [OF demo_routes(2), of "demo_request ''''" 401 "demo_lib (demo_claims 2 RoleUser)" demo_manager]
  by (simp add: demo_request_def demo_self_route_def HasPrefix_def)

end
