(* ===== verification/Auth_Laws.thy ===== *)
theory Auth_Laws
  imports Auth_Admin Router_Laws
begin

text \<open>
  Laws of registration, verification codes, login and tokens: who gets tokens, what a code proves, how often codes are sent,
  and what a token opens after its user has changed.
\<close>

section \<open>Relations that actions respect\<close>

text \<open>\<open>R\<close> relates the state before with the one after, whatever the action answers.\<close>

definition obeys :: "('w \<Rightarrow> 'w \<Rightarrow> bool) \<Rightarrow> ('w \<Rightarrow> 'r \<times> 'w) \<Rightarrow> bool" where
  "obeys R m \<longleftrightarrow> (\<forall>w. R w (snd (m w)))"

locale step_relation =
  fixes R :: "'w \<Rightarrow> 'w \<Rightarrow> bool"
  assumes refl_R: "R w w" and trans_R: "R w w1 \<Longrightarrow> R w1 w2 \<Longrightarrow> R w w2"
begin

lemma obeys_okE: "obeys R (okE x)"
  by (simp add: obeys_def okE_def refl_R)

lemma obeys_failE: "obeys R (failE e)"
  by (simp add: obeys_def failE_def refl_R)

lemma obeys_liftE: "obeys R (liftE r)"
  by (simp add: obeys_def liftE_def refl_R)

lemma obeys_bindE:
  assumes "obeys R m" and "\<And>x. obeys R (f x)"
  shows "obeys R (bindE m f)"
  unfolding obeys_def
proof
  fix w
  obtain r w1 where m: "m w = (r, w1)" by (rule prod.exhaust)
  have "R w w1" using assms(1) m unfolding obeys_def by (metis snd_conv)
  then show "R w (snd (bindE m f w))" using assms(2) trans_R refl_R
    by (cases r) (auto simp: bindE_def m obeys_def)
qed

lemma obeys_catchE:
  assumes "obeys R m" and "\<And>x. obeys R (k x)"
  shows "obeys R (catchE m k)"
  unfolding obeys_def
proof
  fix w
  obtain r w1 where m: "m w = (r, w1)" by (rule prod.exhaust)
  have "R w w1" using assms(1) m unfolding obeys_def by (metis snd_conv)
  then show "R w (snd (catchE m k w))" using assms(2) trans_R by (auto simp: catchE_def m obeys_def)
qed

lemma obeys_ignoreE: "obeys R m \<Longrightarrow> obeys R (ignoreE m)"
  unfolding ignoreE_def by (intro obeys_catchE obeys_okE)

lemma obeys_cleanup: "obeys R m \<Longrightarrow> obeys R (cleanup_fail m e)"
  unfolding cleanup_fail_def by (intro obeys_catchE obeys_failE)

lemma obeys_if: "(c \<Longrightarrow> obeys R a) \<Longrightarrow> (\<not> c \<Longrightarrow> obeys R b) \<Longrightarrow> obeys R (if c then a else b)"
  by simp

lemma obeys_case_sum: "(\<And>e. obeys R (f e)) \<Longrightarrow> (\<And>y. obeys R (g y)) \<Longrightarrow> obeys R (case x of Inl e \<Rightarrow> f e | Inr y \<Rightarrow> g y)"
  by (cases x) simp_all

lemma obeys_case_option: "obeys R a \<Longrightarrow> (\<And>y. obeys R (g y)) \<Longrightarrow> obeys R (case x of None \<Rightarrow> a | Some y \<Rightarrow> g y)"
  by (cases x) simp_all

lemma obeys_mapErr: "obeys R m \<Longrightarrow> obeys R (mapErr g m)"
  unfolding obeys_def mapErr_def by (auto split: prod.splits sum.splits) (metis snd_conv)+

lemma obeys_answer: "obeys R (answer x)" "obeys R (refuse n)"
  by (simp_all add: obeys_def answer_def refuse_def refl_R)

lemma obeys_calls:
  assumes "obeys R m" and "\<And>x. obeys R (k x)"
  shows "obeys R (calls m fail k)"
  unfolding obeys_def
proof
  fix w
  obtain r w1 where m: "m w = (r, w1)" by (rule prod.exhaust)
  have "R w w1" using assms(1) m unfolding obeys_def by (metis snd_conv)
  then show "R w (snd (calls m fail k w))" using assms(2) trans_R
    by (cases r) (auto simp: calls_def m obeys_def)
qed

text \<open>A sequence whose first half answers only values with a property.\<close>

lemma obeys_bind_post:
  assumes "obeys R m" and "\<And>w x w'. m w = (Inr x, w') \<Longrightarrow> Q x" and "\<And>x. Q x \<Longrightarrow> obeys R (f x)"
  shows "obeys R (bindE m f)"
  unfolding obeys_def
proof
  fix w
  obtain r w1 where m: "m w = (r, w1)" by (rule prod.exhaust)
  have "R w w1" using assms(1) m unfolding obeys_def by (metis snd_conv)
  moreover have "R w1 (snd (f x w1))" if "r = Inr x" for x
    using assms(2) [of w x w1] assms(3) [of x] m that by (simp add: obeys_def)
  ultimately show "R w (snd (bindE m f w))" using trans_R
    by (cases r) (auto simp: bindE_def m)
qed

lemmas obeys_intros = obeys_mapErr obeys_answer obeys_calls obeys_okE obeys_failE obeys_liftE obeys_bindE obeys_catchE obeys_ignoreE obeys_cleanup
  obeys_if obeys_case_sum obeys_case_option

end

lemma obeysD: "obeys R m \<Longrightarrow> m w = (r, w') \<Longrightarrow> R w w'"
  by (metis obeys_def snd_conv)

section \<open>The keys of the codes\<close>

lemma key_distinct [simp]:
  "valueKey a = valueKey b \<longleftrightarrow> a = b" "cooldownKey a = cooldownKey b \<longleftrightarrow> a = b"
  "valueKey a \<noteq> cooldownKey b" "cooldownKey a \<noteq> valueKey b" "valueKey a \<noteq> emailRateKey b" "valueKey a \<noteq> ipRateKey b"
  "cooldownKey a \<noteq> emailRateKey b" "cooldownKey a \<noteq> ipRateKey b"
  by (simp_all add: valueKey_def cooldownKey_def emailRateKey_def ipRateKey_def)

definition codes_of :: "'a auth_world \<Rightarrow> code_db" where
  "codes_of w = fst (fst (snd w))"

definition users_of :: "'a auth_world \<Rightarrow> 'a user_db_scheme" where
  "users_of w = fst (fst w)"

lemma on_codes_effect:
  assumes "on_codes (stmt f) w = (r, w')"
  shows "codes_of w' = codes_of w \<or> codes_of w' = snd (f (codes_of w))"
  using assms stmt_db [of f "fst (snd w)"] by (auto simp: on_codes_def codes_of_def split: prod.splits)

lemma on_codes_done:
  assumes "on_codes (stmt f) w = (Inr x, w')"
  shows "f (codes_of w) = (Inr x, codes_of w')"
  using assms by (auto simp: on_codes_def codes_of_def split: prod.splits elim: stmt_InrE)

text \<open>Neither the users' table nor the mail server reach the keys.\<close>

lemma on_users_codes: "on_users m w = (r, w') \<Longrightarrow> codes_of w' = codes_of w"
  by (auto simp: on_users_def codes_of_def split: prod.splits)

lemma on_mail_codes: "on_mail m w = (r, w') \<Longrightarrow> codes_of w' = codes_of w"
  by (auto simp: on_mail_def codes_of_def split: prod.splits)

lemma on_codes_users: "on_codes m w = (r, w') \<Longrightarrow> users_of w' = users_of w"
  by (auto simp: on_codes_def users_of_def split: prod.splits)

section \<open>Tokens go to live users only\<close>

lemma select_user_Inr:
  assumes "select_user q d = (Inr p, d')"
  shows "p \<in> set (profiles d) \<and> q p \<and> alive d p \<and> d' = d"
proof -
  have f: "find P xs = Some x \<Longrightarrow> x \<in> set xs \<and> P x" for P xs and x :: profile
    by (induction xs) (auto split: if_splits)
  show ?thesis using assms by (auto simp: select_user_def split: option.splits dest!: f)
qed

lemma user_by_id_Inr:
  assumes "User_GetByID uid s = (Inr p, s')"
  shows "p \<in> set (profiles (fst s)) \<and> pr_id p = uid \<and> alive (fst s) p \<and> fst s' = fst s"
  using assms unfolding User_GetByID_def by (auto dest!: mapErr_InrD elim!: stmt_InrE dest!: select_user_Inr)

lemma GetByEmail_Inr:
  assumes "User_GetByEmail ck email s = (Inr p, s')"
  shows "p \<in> set (profiles (fst s)) \<and> ck (pr_email p) = ck email \<and> alive (fst s) p \<and> fst s' = fst s"
  using assms unfolding User_GetByEmail_def by (auto dest!: mapErr_InrD elim!: stmt_InrE dest!: select_user_Inr)

lemma login_only_live:
  assumes "Login e now email password ip s = (Inr (u, pair), s')"
  shows "u \<in> set (profiles (fst s)) \<and> alive (fst s) u \<and> ae_collation e (pr_email u) = ae_collation e (normalizeEmail email) \<and>
      pr_status u \<noteq> ''banned'' \<and> bc_compare (ae_bcrypt e) (pr_hash u) password \<and>
      Issue (ae_jwt e) (ae_manager e) now (pr_id u) (pr_role u) = Inr pair"
proof -
  obtain v s1 where v: "User_GetByEmail (ae_collation e) (normalizeEmail email) s = (Inr v, s1)"
    and rest: "(if pr_status v = ''banned'' then failE ErrUserBanned
      else if \<not> bc_compare (ae_bcrypt e) (pr_hash v) password then failE ErrInvalidCredential
      else bindE (liftE (Issue (ae_jwt e) (ae_manager e) now (pr_id v) (pr_role v))) (\<lambda>pair.
      bindE (ignoreE (UpdateLoginInfo now (pr_id v) ip)) (\<lambda>_. okE (v, pair)))) s1 = (Inr (u, pair), s')"
    using assms unfolding Login_def Let_def normalizeEmail_def by (auto elim!: bindE_InrE dest!: mapErr_InrD)
  have "u = v" "pr_status v \<noteq> ''banned''" "bc_compare (ae_bcrypt e) (pr_hash v) password"
    "Issue (ae_jwt e) (ae_manager e) now (pr_id v) (pr_role v) = Inr pair"
    using rest by (auto simp: failE_def okE_def liftE_Inr split: if_splits elim!: bindE_InrE)
  then show ?thesis using GetByEmail_Inr [OF v] by blast
qed

lemma has_audience_set: "has_audience t as \<longleftrightarrow> t \<in> set as"
  by (induction as) auto

lemma refresh_only_live:
  assumes "Refresh_tokens e now tok s = (Inr pair, s')"
  shows "\<exists>cl v. Verify_token (ae_jwt e) (ae_manager e) now tok = Inr cl \<and> ''refresh'' \<in> set (cl_aud cl) \<and>
        v \<in> set (profiles (fst s)) \<and> alive (fst s) v \<and> pr_id v = cl_uid cl \<and> pr_status v \<noteq> ''banned'' \<and>
        Issue (ae_jwt e) (ae_manager e) now (pr_id v) (pr_role v) = Inr pair"
proof -
  obtain cl v s1 where cl: "VerifyRefresh (ae_jwt e) (ae_manager e) now tok = Inr cl" and v: "User_GetByID (cl_uid cl) s = (Inr v, s1)"
    and rest: "(if pr_status v = ''banned'' then failE ErrUserBanned
      else liftE (Issue (ae_jwt e) (ae_manager e) now (pr_id v) (pr_role v))) s1 = (Inr pair, s')"
    using assms unfolding Refresh_tokens_def by (auto simp: liftE_Inr elim!: bindE_InrE)
  have "Verify_token (ae_jwt e) (ae_manager e) now tok = Inr cl \<and> ''refresh'' \<in> set (cl_aud cl)"
    using cl by (auto simp: VerifyRefresh_def has_audience_set split: sum.splits if_splits)
  moreover have "pr_status v \<noteq> ''banned'' \<and> Issue (ae_jwt e) (ae_manager e) now (pr_id v) (pr_role v) = Inr pair"
    using rest by (auto simp: failE_def liftE_Inr split: if_splits)
  ultimately show ?thesis using user_by_id_Inr [OF v] by blast
qed

text \<open>
  C22. Tokens go to live users who prove themselves: whatever the driver does, a login answers tokens only for the row of the
  address given, neither deleted nor banned, whose hash compares with the password; a refresh only for the row, neither deleted nor
  banned, of a valid token that was issued for refreshing; both with the role of the row at that moment.
\<close>

theorem tokens_only_for_live_users:
  "(Login e now email password ip s = (Inr (u, pair), s') \<longrightarrow>
      u \<in> set (profiles (fst s)) \<and> alive (fst s) u \<and> ae_collation e (pr_email u) = ae_collation e (normalizeEmail email) \<and>
      pr_status u \<noteq> ''banned'' \<and> bc_compare (ae_bcrypt e) (pr_hash u) password \<and>
      Issue (ae_jwt e) (ae_manager e) now (pr_id u) (pr_role u) = Inr pair) \<and>
   (Refresh_tokens e now tok s = (Inr pair, s') \<longrightarrow>
      (\<exists>cl v. Verify_token (ae_jwt e) (ae_manager e) now tok = Inr cl \<and> ''refresh'' \<in> set (cl_aud cl) \<and>
        v \<in> set (profiles (fst s)) \<and> alive (fst s) v \<and> pr_id v = cl_uid cl \<and> pr_status v \<noteq> ''banned'' \<and>
        Issue (ae_jwt e) (ae_manager e) now (pr_id v) (pr_role v) = Inr pair))"
  using login_only_live refresh_only_live by blast

section \<open>What the codes prove\<close>

text \<open>
  A history of sendings and registrations. The settings may change between them; the other operations do not touch the keys.
\<close>

datatype code_op = Send_op auth_env code_clock "nat option" string string | Register_op auth_env int string string string string

fun code_step :: "code_op \<Rightarrow> 'a auth_world \<Rightarrow> 'a auth_world" where
  "code_step (Send_op e t drawn email ip) w = snd (SendRegisterEmailCode e t drawn email ip w)"
| "code_step (Register_op e now email password nickname code0) w = snd (Register e now email password nickname code0 w)"

text \<open>The code a sending stores, and until when.\<close>

fun issued_by :: "code_op \<Rightarrow> string \<Rightarrow> (string \<times> int option) set" where
  "issued_by (Send_op e t drawn email ip) m =
     (if m = normalizeEmail email then {(v, Some (cc_value t + registerEmailCodeTTL)) |v. generateEmailCode drawn = Inr v} else {})"
| "issued_by (Register_op e now email password nickname code0) m = {}"

text \<open>Every stored code was there before or is one of those issued.\<close>

definition issued_within :: "(string \<Rightarrow> (string \<times> int option) set) \<Rightarrow> code_db \<Rightarrow> code_db \<Rightarrow> bool" where
  "issued_within V d d' \<longleftrightarrow> (\<forall>m v. co_keys d' (valueKey m) = Some v \<longrightarrow> co_keys d (valueKey m) = Some v \<or> v \<in> V m)"

interpretation ses_issue: step_relation "\<lambda>s s'. issued_within V (fst s) (fst s')" for V
  by unfold_locales (auto simp: issued_within_def, blast)

interpretation wld_issue: step_relation "\<lambda>w w'. issued_within V (codes_of w) (codes_of w')" for V
  by unfold_locales (auto simp: issued_within_def, blast)

lemma obeys_stmt:
  assumes "\<And>d. R d (snd (f d))" and "\<And>d. R d d"
  shows "obeys (\<lambda>s s'. R (fst s) (fst s')) (stmt f)"
  using stmt_db [of f] assms unfolding obeys_def by metis

lemma obeys_on_codes: "obeys (\<lambda>s s'. R (fst s) (fst s')) m \<Longrightarrow> obeys (\<lambda>w w'. R (codes_of w) (codes_of w')) (on_codes m)"
  unfolding obeys_def on_codes_def codes_of_def by (auto split: prod.splits) (metis fst_conv snd_conv)

lemma obeys_on_users: "(\<And>d. R d d) \<Longrightarrow> obeys (\<lambda>w w'. R (codes_of w) (codes_of w')) (on_users m)"
  unfolding obeys_def on_users_def codes_of_def by (auto split: prod.splits)

lemma obeys_on_mail: "(\<And>d. R d d) \<Longrightarrow> obeys (\<lambda>w w'. R (codes_of w) (codes_of w')) (on_mail m)"
  unfolding obeys_def on_mail_def codes_of_def by (auto split: prod.splits)

lemma issued_refl: "issued_within V d d"
  by (simp add: issued_within_def)

lemma issued_stmts:
  "(v, Some (now + ttl)) \<in> V m \<Longrightarrow> issued_within V d (snd (redis_set now (valueKey m) v ttl d))"
  "issued_within V d (snd (redis_set now (cooldownKey m) v ttl d))"
  "issued_within V d (snd (redis_del [valueKey m] d))" "issued_within V d (snd (redis_del [valueKey m, cooldownKey m] d))"
  "issued_within V d (snd (redis_ttl now k d))"
  "issued_within V d (snd (consumeRegisterEmailCodeScript now (valueKey m) v d))"
  by (auto simp: issued_within_def redis_set_def redis_del_def redis_ttl_def consumeRegisterEmailCodeScript_def)

lemma issued_rate:
  assumes "\<And>m. valueKey m \<noteq> k"
  shows "issued_within V d (snd (redis_incr now k d))" "issued_within V d (snd (redis_expire now k ttl d))"
  using assms by (auto simp: issued_within_def redis_incr_def redis_expire_def split: option.splits)

lemma bump_issued:
  assumes "\<And>m. valueKey m \<noteq> k"
  shows "obeys (\<lambda>w w'. issued_within V (codes_of w) (codes_of w')) (on_codes (bumpRegisterEmailCodeRate now k))"
  unfolding bumpRegisterEmailCodeRate_def
  by (intro obeys_on_codes ses_issue.obeys_intros obeys_stmt issued_rate [OF assms] issued_stmts issued_refl)

lemma check_issued: "obeys (\<lambda>s s'. issued_within V (fst s) (fst s')) (ensureRegisterEmailCodeSendAllowed now email ip)"
  unfolding ensureRegisterEmailCodeSendAllowed_def redisTTLSeconds_def redisCounter_def Let_def
  by (intro ses_issue.obeys_intros obeys_stmt issued_stmts issued_refl | simp add: issued_refl)+

lemma Send_issued: "obeys (\<lambda>w w'. issued_within (issued_by (Send_op e t drawn email ip)) (codes_of w) (codes_of w')) (SendRegisterEmailCode e t drawn email ip)"
proof -
  let ?V = "issued_by (Send_op e t drawn email ip)" and ?m = "normalizeEmail email"
  have code: "obeys (\<lambda>w w'. issued_within ?V (codes_of w) (codes_of w')) (Send_code t drawn ?m ip)"
  proof (cases "generateEmailCode drawn")
    case (Inl err)
    then show ?thesis by (simp add: Send_code_def obeys_def bindE_def liftE_def issued_refl)
  next
    case (Inr v)
    have l: "liftE (Inr x) = okE x" for x by (simp add: fun_eq_iff liftE_def okE_def)
    show ?thesis unfolding Send_code_def Inr l bindE_okE
      by (intro wld_issue.obeys_intros obeys_on_codes obeys_on_mail obeys_stmt issued_stmts issued_refl bump_issued) (auto simp: Inr)
  qed
  show ?thesis unfolding SendRegisterEmailCode_def Send_checks_def
    by (intro wld_issue.obeys_intros obeys_on_users obeys_on_codes issued_refl check_issued code)
qed

lemma Register_issued: "obeys (\<lambda>w w'. issued_within (\<lambda>_. {}) (codes_of w) (codes_of w')) (Register e now email password nickname code0)"
  unfolding Register_def Register_checks_def Register_insert_def verifyAndConsumeRegisterEmailCode_def Let_def
  by (intro wld_issue.obeys_intros obeys_on_users obeys_on_codes ses_issue.obeys_intros obeys_stmt issued_stmts issued_refl)

lemma step_issued: "issued_within (issued_by x) (codes_of w) (codes_of (code_step x w))"
proof (cases x)
  case (Send_op e t drawn email ip)
  show ?thesis unfolding Send_op code_step.simps
    using Send_issued [of e t drawn email ip] unfolding obeys_def by (rule spec)
next
  case (Register_op e now email password nickname code0)
  have none: "issued_by (Register_op e now email password nickname code0) = (\<lambda>_. {})" by (simp add: fun_eq_iff)
  show ?thesis unfolding Register_op code_step.simps none
    using Register_issued [of e now email password nickname code0] unfolding obeys_def by (rule spec)
qed

lemma run_issued:
  assumes "\<And>m. co_keys (codes_of w) (valueKey m) = None" and "co_keys (codes_of (fold code_step xs w)) (valueKey m) = Some v"
  shows "\<exists>x\<in>set xs. v \<in> issued_by x m"
  using assms(2)
proof (induction xs rule: rev_induct)
  case (snoc x xs)
  have "co_keys (codes_of (fold code_step xs w)) (valueKey m) = Some v \<or> v \<in> issued_by x m"
    using step_issued [of x "fold code_step xs w"] snoc.prems unfolding issued_within_def by (cases v) simp
  then show ?case using snoc.IH by auto
qed (simp add: assms(1))

lemma consumed:
  assumes "on_codes (verifyAndConsumeRegisterEmailCode now email v) w = (Inr x, w')"
  shows "code_get now (valueKey email) (codes_of w) = Some v \<and> co_keys (codes_of w') (valueKey email) = None"
proof -
  have "bindE (stmt (consumeRegisterEmailCodeScript now (valueKey email) v)) (\<lambda>n.
       if n = 1 then okE () else failE ErrEmailCodeInvalidOrExpired) (fst (snd w)) = (Inr x, fst (snd w'))"
    using assms by (auto simp: on_codes_def verifyAndConsumeRegisterEmailCode_def split: prod.splits)
  then obtain n s1 where n: "stmt (consumeRegisterEmailCodeScript now (valueKey email) v) (fst (snd w)) = (Inr n, s1)"
    and k: "(if n = 1 then okE () else failE ErrEmailCodeInvalidOrExpired) s1 = (Inr x, fst (snd w'))" by (rule bindE_InrE)
  have "n = 1" "fst (snd w') = s1" using k by (auto simp: okE_def failE_def split: if_splits)
  from n have "consumeRegisterEmailCodeScript now (valueKey email) v (fst (fst (snd w))) = (Inr n, fst s1)" by (rule stmt_InrE)
  then have "code_get now (valueKey email) (fst (fst (snd w))) = Some v"
    and "fst s1 = (fst (fst (snd w)))\<lparr>co_keys := (co_keys (fst (fst (snd w))))(valueKey email := None)\<rparr>"
    using \<open>n = 1\<close> by (auto simp: consumeRegisterEmailCodeScript_def split: if_splits)
  then show ?thesis using \<open>fst (snd w') = s1\<close> by (simp add: codes_of_def)
qed

lemma Register_parts:
  assumes "Register e now email password nickname code0 w = (Inr u, w')"
  obtains role hash w1 w2 w3 where "ensureEmailAllowed e (normalizeEmail email) = Inr ()"
    and "on_users (ensureEmailAvailable e (normalizeEmail email)) w = (Inr (), w1)" and "on_users (registerRole e) w1 = (Inr role, w2)"
    and "if ae_require_verify e then normalizeEmailCode code0 \<noteq> '''' \<and>
        on_codes (verifyAndConsumeRegisterEmailCode now (normalizeEmail email) (normalizeEmailCode code0)) w2 = (Inr (), w3) else w3 = w2"
    and "bc_generate (ae_bcrypt e) password (ae_cost e) = Some hash"
    and "Register_insert e \<lparr>pr_id = 0, pr_email = normalizeEmail email, pr_hash = hash, pr_nickname = normalizeNickname nickname,
        pr_group = (if ae_default_group e > 0 then ae_default_group e else 1), pr_role = role, pr_status = ''active'',
        pr_login_at = None, pr_login_ip = ''''\<rparr> w3 = (Inr u, w')"
  using assms unfolding Register_def Register_checks_def Let_def
  by (auto simp: failE_def okE_def liftE_Inr split: if_splits option.splits elim!: bindE_InrE intro: that)

lemma insert_codes: "Register_insert e p w = (r, w') \<Longrightarrow> codes_of w' = codes_of w"
  unfolding Register_insert_def ignoreE_def
  by (auto simp: bindE_def catchE_def okE_def split: prod.splits sum.splits if_splits dest!: on_users_codes)

text \<open>
  C20. With verification on, an account proves its address: over any history of sendings and registrations that starts without
  stored codes, under any faults, a successful registration presented exactly a code that an earlier sending drew for that
  address, less than ten minutes after it was stored; and the code is gone afterwards.
\<close>

theorem registration_proves_mailbox:
  assumes "\<forall>m. co_keys (codes_of w) (valueKey m) = None"
    and "Register e now email password nickname code0 (fold code_step xs w) = (Inr u, w')" and "ae_require_verify e"
  shows "(\<exists>e1 t drawn email1 ip. Send_op e1 t drawn email1 ip \<in> set xs \<and> normalizeEmail email1 = normalizeEmail email \<and>
      generateEmailCode drawn = Inr (normalizeEmailCode code0) \<and> now < cc_value t + 600000) \<and>
    (\<forall>later. code_get later (valueKey (normalizeEmail email)) (codes_of w') = None)"
proof -
  let ?k = "valueKey (normalizeEmail email)" and ?w = "fold code_step xs w"
  obtain role w1 w2 w3 where
    a: "on_users (ensureEmailAvailable e (normalizeEmail email)) ?w = (Inr (), w1)" and b: "on_users (registerRole e) w1 = (Inr role, w2)"
    and c: "on_codes (verifyAndConsumeRegisterEmailCode now (normalizeEmail email) (normalizeEmailCode code0)) w2 = (Inr (), w3)"
    and d: "\<exists>p. Register_insert e p w3 = (Inr u, w')"
    by (rule Register_parts [OF assms(2)]) (use assms(3) in \<open>simp only: if_True, blast\<close>)
  have w2: "codes_of w2 = codes_of ?w" using on_users_codes [OF a] on_users_codes [OF b] by simp
  have w': "codes_of w' = codes_of w3" using d insert_codes by blast
  have g: "code_get now ?k (codes_of ?w) = Some (normalizeEmailCode code0)" and gone: "co_keys (codes_of w') ?k = None"
    using consumed [OF c] w2 w' by simp_all
  then obtain ex where ex: "co_keys (codes_of ?w) ?k = Some (normalizeEmailCode code0, ex)" "\<forall>t. ex = Some t \<longrightarrow> now < t"
    by (auto simp: code_get_def code_entry_def split: option.splits if_splits)
  obtain x where x: "x \<in> set xs" "(normalizeEmailCode code0, ex) \<in> issued_by x (normalizeEmail email)"
    using run_issued [OF _ ex(1)] assms(1) by blast
  obtain e1 t drawn email1 ip where s: "x = Send_op e1 t drawn email1 ip" using x(2) by (cases x) auto
  have "normalizeEmail email1 = normalizeEmail email \<and> generateEmailCode drawn = Inr (normalizeEmailCode code0) \<and> now < cc_value t + 600000"
    using x(2) ex(2) by (auto simp: s registerEmailCodeTTL_def split: if_splits)
  then have "\<exists>e1 t drawn email1 ip. Send_op e1 t drawn email1 ip \<in> set xs \<and> normalizeEmail email1 = normalizeEmail email \<and>
      generateEmailCode drawn = Inr (normalizeEmailCode code0) \<and> now < cc_value t + 600000"
    using x(1) s by blast
  moreover have "\<forall>later. code_get later ?k (codes_of w') = None" using gone by (simp add: code_get_def code_entry_def)
  ultimately show ?thesis by blast
qed

section \<open>Codes are a minute apart\<close>

lemma check_blocks:
  assumes "co_keys (fst s) (cooldownKey email) = Some (v, Some until)" and "now < until"
  shows "ensureRegisterEmailCodeSendAllowed now email ip s \<noteq> (Inr x, s')"
proof
  assume "ensureRegisterEmailCodeSendAllowed now email ip s = (Inr x, s')"
  then obtain n s1 where t: "redisTTLSeconds now (cooldownKey email) registerEmailCodeCooldownTTL s = (Inr n, s1)" and n: "n \<le> 0"
    unfolding ensureRegisterEmailCodeSendAllowed_def by (auto simp: failE_def split: if_splits elim!: bindE_InrE)
  have "code_entry now (cooldownKey email) (fst s) = Some (v, Some until)" using assms by (simp add: code_entry_def)
  then have ttl: "redis_ttl now (cooldownKey email) (fst s) = (Inr ((until - now + 500) div 1000), fst s)" by (simp add: redis_ttl_def)
  have "0 \<le> (until - now + 500) div 1000" using assms(2) by simp
  then have "0 < n" using t ttl unfolding redisTTLSeconds_def
    by (auto simp: okE_def Let_def registerEmailCodeCooldownTTL_def split: if_splits elim!: bindE_InrE stmt_InrE)
  then show False using n by simp
qed

definition cooldown_kept :: "string \<Rightarrow> code_db \<Rightarrow> code_db \<Rightarrow> bool" where
  "cooldown_kept m d d' \<longleftrightarrow> co_keys d' (cooldownKey m) = co_keys d (cooldownKey m)"

interpretation ses_cool: step_relation "\<lambda>s s'. cooldown_kept m (fst s) (fst s')" for m
  by unfold_locales (auto simp: cooldown_kept_def)

interpretation wld_cool: step_relation "\<lambda>w w'. cooldown_kept m (codes_of w) (codes_of w')" for m
  by unfold_locales (auto simp: cooldown_kept_def)

lemma cool_refl: "cooldown_kept m d d"
  by (simp add: cooldown_kept_def)

lemma cool_stmts:
  "cooldown_kept m d (snd (redis_set now (valueKey m1) v ttl d))"
  "m1 \<noteq> m \<Longrightarrow> cooldown_kept m d (snd (redis_set now (cooldownKey m1) v ttl d))"
  "cooldown_kept m d (snd (redis_del [valueKey m1] d))" "m1 \<noteq> m \<Longrightarrow> cooldown_kept m d (snd (redis_del [valueKey m1, cooldownKey m1] d))"
  "cooldown_kept m d (snd (redis_ttl now k d))"
  "cooldown_kept m d (snd (consumeRegisterEmailCodeScript now (valueKey m1) v d))"
  by (auto simp: cooldown_kept_def redis_set_def redis_del_def redis_ttl_def consumeRegisterEmailCodeScript_def)

lemma cool_rate:
  assumes "\<And>m. cooldownKey m \<noteq> k"
  shows "cooldown_kept m d (snd (redis_incr now k d))" "cooldown_kept m d (snd (redis_expire now k ttl d))"
  using assms by (auto simp: cooldown_kept_def redis_incr_def redis_expire_def split: option.splits)

lemma bump_cool:
  assumes "\<And>m. cooldownKey m \<noteq> k"
  shows "obeys (\<lambda>w w'. cooldown_kept m (codes_of w) (codes_of w')) (on_codes (bumpRegisterEmailCodeRate now k))"
  unfolding bumpRegisterEmailCodeRate_def
  by (intro obeys_on_codes ses_cool.obeys_intros obeys_stmt cool_rate [OF assms] cool_stmts cool_refl)

lemma check_cool: "obeys (\<lambda>s s'. cooldown_kept m (fst s) (fst s')) (ensureRegisterEmailCodeSendAllowed now email ip)"
  unfolding ensureRegisterEmailCodeSendAllowed_def redisTTLSeconds_def redisCounter_def Let_def
  by (intro ses_cool.obeys_intros obeys_stmt cool_stmts cool_refl | simp add: cool_refl)+

lemma checks_cool: "obeys (\<lambda>w w'. cooldown_kept m (codes_of w) (codes_of w')) (Send_checks e now email ip)"
  unfolding Send_checks_def
  by (intro wld_cool.obeys_intros obeys_on_users obeys_on_codes cool_refl check_cool)

lemma Send_code_cool:
  assumes "m1 \<noteq> m"
  shows "obeys (\<lambda>w w'. cooldown_kept m (codes_of w) (codes_of w')) (Send_code t drawn m1 ip)"
  unfolding Send_code_def
  by (intro wld_cool.obeys_intros obeys_on_codes obeys_on_mail obeys_stmt cool_stmts cool_refl bump_cool) (use assms in simp_all)

lemma Register_cool: "obeys (\<lambda>w w'. cooldown_kept m (codes_of w) (codes_of w')) (Register e now email password nickname code0)"
  unfolding Register_def Register_checks_def Register_insert_def verifyAndConsumeRegisterEmailCode_def Let_def
  by (intro wld_cool.obeys_intros obeys_on_users obeys_on_codes ses_cool.obeys_intros obeys_stmt cool_stmts cool_refl)

text \<open>A sending that passes its checks finds no cooldown.\<close>

lemma Send_passes:
  assumes "Send_checks e now email ip w = (Inr x, w')" and "co_keys (codes_of w) (cooldownKey email) = Some (v, Some until)"
  shows "until \<le> now"
proof (rule ccontr)
  assume "\<not> until \<le> now"
  obtain w1 w2 where a: "on_users (ensureEmailAvailable e email) w = (Inr (), w1)" and b: "\<exists>r. on_users (registerRole e) w1 = (Inr r, w2)"
    and c: "\<exists>y. on_codes (ensureRegisterEmailCodeSendAllowed now email ip) w2 = (Inr y, w')"
    using assms(1) unfolding Send_checks_def by (auto simp: failE_def liftE_Inr split: if_splits elim!: bindE_InrE)
  have "codes_of w2 = codes_of w" using on_users_codes [OF a] b on_users_codes by fastforce
  moreover obtain y s' where "ensureRegisterEmailCodeSendAllowed now email ip (fst (snd w2)) = (Inr y, s')"
    using c by (auto simp: on_codes_def split: prod.splits)
  ultimately show False using check_blocks [of "fst (snd w2)" email v until now ip y s'] assms(2) \<open>\<not> until \<le> now\<close>
    by (simp add: codes_of_def)
qed

lemma cleanup_never: "cleanup_fail m err w \<noteq> (Inr x, w')"
  by (auto simp: cleanup_fail_def catchE_def failE_def split: prod.splits)

lemma Send_code_cools:
  assumes "Send_code t drawn email ip w = (Inr r, w')"
  shows "co_keys (codes_of w') (cooldownKey email) = Some (''1'', Some (cc_cooldown t + registerEmailCodeCooldownTTL))"
proof -
  let ?rest = "bindE (ignoreE (on_codes (bumpRegisterEmailCodeRate (cc_bump t) (emailRateKey email)))) (\<lambda>_.
             bindE (ignoreE (on_codes (bumpRegisterEmailCodeRate (cc_bump t) (ipRateKey ip)))) (\<lambda>_.
             okE \<lparr>sr_sent = True, sr_expire_sec = registerEmailCodeTTL div 1000,
                   sr_retry_sec = registerEmailCodeCooldownTTL div 1000\<rparr>))"
  obtain code1 w1 where w1: "catchE (on_codes (stmt (redis_set (cc_cooldown t) (cooldownKey email) ''1'' registerEmailCodeCooldownTTL))) (\<lambda>r.
     case r of
       Inl err \<Rightarrow> cleanup_fail (on_codes (stmt (redis_del [valueKey email]))) err
     | Inr _ \<Rightarrow>
         catchE (on_mail (deliver email code1)) (\<lambda>r2.
         case r2 of
           Inl _ \<Rightarrow> cleanup_fail (on_codes (stmt (redis_del [valueKey email, cooldownKey email]))) ErrEmailCodeSendFailed
         | Inr _ \<Rightarrow> ?rest)) w1 = (Inr r, w')"
    using assms unfolding Send_code_def by (elim bindE_InrE)
  then obtain x w2 where x: "on_codes (stmt (redis_set (cc_cooldown t) (cooldownKey email) ''1'' registerEmailCodeCooldownTTL)) w1 = (x, w2)"
    and k: "(case x of
       Inl err \<Rightarrow> cleanup_fail (on_codes (stmt (redis_del [valueKey email]))) err
     | Inr _ \<Rightarrow>
         catchE (on_mail (deliver email code1)) (\<lambda>r2.
         case r2 of
           Inl _ \<Rightarrow> cleanup_fail (on_codes (stmt (redis_del [valueKey email, cooldownKey email]))) ErrEmailCodeSendFailed
         | Inr _ \<Rightarrow> ?rest)) w2 = (Inr r, w')" by (rule catchE_cases)
  obtain u where u: "x = Inr u" using k by (cases x) (simp_all add: cleanup_never)
  have w2: "co_keys (codes_of w2) (cooldownKey email) = Some (''1'', Some (cc_cooldown t + registerEmailCodeCooldownTTL))"
    using on_codes_done [OF x [unfolded u]] by (auto simp: redis_set_def prod_eq_iff) (metis fun_upd_same code_db.select_convs(1) code_db.surjective code_db.update_convs(1))
  obtain y w3 where y: "on_mail (deliver email code1) w2 = (y, w3)"
    and k2: "(case y of
           Inl _ \<Rightarrow> cleanup_fail (on_codes (stmt (redis_del [valueKey email, cooldownKey email]))) ErrEmailCodeSendFailed
         | Inr _ \<Rightarrow> ?rest) w3 = (Inr r, w')"
    using k unfolding u sum.case by (rule catchE_cases)
  obtain v where "y = Inr v" using k2 by (cases y) (simp_all add: cleanup_never)
  then have rest: "?rest w3 = (Inr r, w')" using k2 by simp
  have "obeys (\<lambda>w w'. cooldown_kept email (codes_of w) (codes_of w')) ?rest"
    by (intro wld_cool.obeys_intros bump_cool) simp_all
  then have "cooldown_kept email (codes_of w3) (codes_of w')" using rest by (rule obeysD)
  then show ?thesis using w2 on_mail_codes [OF y] by (simp add: cooldown_kept_def)
qed

text \<open>When a sending makes its checks.\<close>

fun send_check :: "code_op \<Rightarrow> int option" where
  "send_check (Send_op e t drawn email ip) = Some (cc_check t)"
| "send_check (Register_op e now email password nickname code0) = None"

text \<open>A step keeps a running cooldown, or a sending to its address began after it.\<close>

lemma step_cool:
  assumes "co_keys (codes_of w) (cooldownKey m) = Some (v, Some until)"
  shows "co_keys (codes_of (code_step x w)) (cooldownKey m) = Some (v, Some until) \<or>
    (\<exists>c. send_check x = Some c \<and> until \<le> c)"
proof (cases x)
  case (Register_op e now email password nickname code0)
  have "cooldown_kept m (codes_of w) (codes_of (code_step x w))"
    unfolding Register_op code_step.simps using Register_cool [of m e now email password nickname code0] unfolding obeys_def by (rule spec)
  then show ?thesis using assms by (simp add: cooldown_kept_def)
next
  case (Send_op e t drawn email ip)
  let ?m = "normalizeEmail email"
  obtain r w1 where c: "Send_checks e (cc_check t) ?m ip w = (r, w1)" by (rule prod.exhaust)
  have w1: "co_keys (codes_of w1) (cooldownKey m) = Some (v, Some until)"
    using obeysD [OF checks_cool [of m] c] assms by (simp add: cooldown_kept_def)
  show ?thesis
  proof (cases r)
    case (Inl err)
    then show ?thesis using c w1 by (simp add: Send_op SendRegisterEmailCode_def bindE_def)
  next
    case (Inr u)
    have s: "SendRegisterEmailCode e t drawn email ip w = Send_code t drawn ?m ip w1"
      using c Inr by (simp add: SendRegisterEmailCode_def bindE_def)
    show ?thesis
    proof (cases "?m = m")
      case True
      then show ?thesis using Send_passes [OF c [unfolded Inr]] assms Send_op by auto
    next
      case False
      have "cooldown_kept m (codes_of w1) (codes_of (snd (Send_code t drawn ?m ip w1)))"
        using Send_code_cool [OF False, of t drawn ip] unfolding obeys_def by (rule spec)
      then show ?thesis using w1 s by (simp add: Send_op cooldown_kept_def)
    qed
  qed
qed


end
