(* ===== verification/Auth_Invariant.thy ===== *)
theory Auth_Invariant
  imports Auth_Laws
begin

text \<open>
  The tables of users and groups stay well formed over any run of the operations on users, under any faults.
\<close>

section \<open>Well-formed tables\<close>

definition good_profile :: "profile \<Rightarrow> bool" where
  "good_profile p \<longleftrightarrow> pr_role p \<in> {''user'', ''admin''} \<and> pr_status p \<in> {''active'', ''banned''}"

text \<open>
  Numbers and addresses are unique, also among deleted rows; every profile has its amounts and conversely; roles and states
  are known; a deleted user is banned; amounts fit their columns.
\<close>

definition user_wf :: "collation \<Rightarrow> 'a user_db_scheme \<Rightarrow> bool" where
  "user_wf ck d \<longleftrightarrow>
     distinct (map pr_id (profiles d)) \<and> distinct (map (\<lambda>p. ck (pr_email p)) (profiles d)) \<and>
     dom (users d) = pr_id ` set (profiles d) \<and> (\<forall>p\<in>set (profiles d). pr_id p < next_user d \<and> good_profile p) \<and>
     (\<forall>p\<in>set (profiles d). \<forall>u. users d (pr_id p) = Some u \<longrightarrow> deleted_at u \<noteq> None \<longrightarrow> pr_status p = ''banned'') \<and>
     (\<forall>uid u. users d uid = Some u \<longrightarrow> row_fits u)"

lemma wf_insert:
  assumes "user_wf ck d" and "good_profile p"
  shows "user_wf ck (snd (insert_user ck p 0 d))"
proof -
  have fits: "row_fits \<lparr>credit_balance = 0, credit_frozen = 0, version = 0, deleted_at = None\<rparr>" by (simp add: row_fits_def)
  have new: "next_user d \<notin> pr_id ` set (profiles d)" using assms(1) by (auto simp: user_wf_def)
  show ?thesis
  proof (cases "list_ex (\<lambda>q. ck (pr_email q) = ck (pr_email p)) (profiles d)")
    case True
    then show ?thesis using assms(1) by (auto simp: insert_user_def Let_def user_wf_def less_SucI)
  next
    case False
    have old: "pr_id q \<noteq> next_user d" if "q \<in> set (profiles d)" for q using new that by force
    show ?thesis using False assms new old fits
      by (auto simp: insert_user_def Let_def user_wf_def good_profile_def list_ex_iff image_iff less_SucI)
  qed
qed

lemma map_profile_keys:
  assumes "\<And>p. pr_id (f p) = pr_id p \<and> pr_email (f p) = pr_email p"
  shows "map pr_id (map_profile uid f ps) = map pr_id ps" "map (\<lambda>p. ck (pr_email p)) (map_profile uid f ps) = map (\<lambda>p. ck (pr_email p)) ps"
    "pr_id ` set (map_profile uid f ps) = pr_id ` set ps"
proof -
  show k: "map pr_id (map_profile uid f ps) = map pr_id ps" "map (\<lambda>p. ck (pr_email p)) (map_profile uid f ps) = map (\<lambda>p. ck (pr_email p)) ps"
    using assms by (auto simp: map_profile_def)
  show "pr_id ` set (map_profile uid f ps) = pr_id ` set ps" using k(1) by (metis set_map)
qed

lemma in_map_profile: "q \<in> set (map_profile uid f ps) \<Longrightarrow> \<exists>p\<in>set ps. q = (if pr_id p = uid then f p else p)"
  unfolding map_profile_def set_map image_iff .

lemma wf_update:
  assumes "user_wf ck d" and "\<And>p. pr_id (f p) = pr_id p \<and> pr_email (f p) = pr_email p" and "\<And>p. good_profile p \<Longrightarrow> good_profile (f p)"
    and "\<And>u. row_fits u \<Longrightarrow> row_fits (g u)" and "\<And>u p. deleted_at u = None \<Longrightarrow> deleted_at (g u) \<noteq> None \<Longrightarrow> pr_status (f p) = ''banned''"
  shows "user_wf ck (snd (update_profile uid f g d))"
proof (cases "\<exists>u. users d uid = Some u \<and> deleted_at u = None \<and> row_fits (u\<lparr>version := Suc (version u)\<rparr>)")
  case True
  then obtain u where u: "users d uid = Some u" "deleted_at u = None" "row_fits (u\<lparr>version := Suc (version u)\<rparr>)" by blast
  let ?v = "u\<lparr>version := Suc (version u)\<rparr>"
  have d': "snd (update_profile uid f g d) = d\<lparr>profiles := map_profile uid f (profiles d), users := (users d)(uid \<mapsto> g ?v)\<rparr>"
    using u by (simp add: update_profile_def)
  have dom: "insert uid (dom (users d)) = dom (users d)" using u(1) by auto
  have row: "pr_status q = ''banned''" if q: "q \<in> set (map_profile uid f (profiles d))" and "((users d)(uid \<mapsto> g ?v)) (pr_id q) = Some x" and "deleted_at x \<noteq> None" for q x
  proof -
    obtain p where p: "p \<in> set (profiles d)" "q = (if pr_id p = uid then f p else p)" using in_map_profile [OF q] by blast
    show ?thesis
    proof (cases "pr_id p = uid")
      case True
      then have "q = f p" "pr_id q = uid" using p(2) assms(2) [of p] by simp_all
      then show ?thesis using assms(5) [of ?v p] that u(2) by simp
    next
      case False
      then show ?thesis using p that assms(1) by (auto simp: user_wf_def)
    qed
  qed
  have fits: "row_fits x" if "((users d)(uid \<mapsto> g ?v)) i = Some x" for i x
    using that assms(1) assms(4) [OF u(3)] by (auto simp: user_wf_def split: if_splits)
  have mem: "pr_id q < next_user d \<and> good_profile q" if q: "q \<in> set (map_profile uid f (profiles d))" for q
  proof -
    obtain p where p: "p \<in> set (profiles d)" "q = (if pr_id p = uid then f p else p)" using in_map_profile [OF q] by blast
    then show ?thesis using assms(1,2,3) by (auto simp: user_wf_def)
  qed
  show ?thesis unfolding d' user_wf_def
    using assms(1) map_profile_keys(1,3) [OF assms(2), of uid "profiles d"] map_profile_keys(2) [OF assms(2), of ck uid "profiles d"] row fits mem dom
    by (simp add: user_wf_def)
next
  case False
  then have "snd (update_profile uid f g d) = d" by (auto simp: update_profile_def split: option.split)
  then show ?thesis using assms(1) by simp
qed

lemma wf_login:
  assumes "user_wf ck d"
  shows "user_wf ck (d\<lparr>profiles := map_profile uid (\<lambda>p. p\<lparr>pr_login_at := t, pr_login_ip := ip\<rparr>) (profiles d)\<rparr>)"
proof -
  let ?f = "\<lambda>p. p\<lparr>pr_login_at := t, pr_login_ip := ip\<rparr>"
  have k: "\<And>p. pr_id (?f p) = pr_id p \<and> pr_email (?f p) = pr_email p" by simp
  have mem: "\<exists>p\<in>set (profiles d). pr_id q = pr_id p \<and> pr_role q = pr_role p \<and> pr_status q = pr_status p"
    if "q \<in> set (map_profile uid ?f (profiles d))" for q using in_map_profile [OF that] by force
  have "pr_id q < next_user d \<and> good_profile q" "\<forall>u. users d (pr_id q) = Some u \<longrightarrow> deleted_at u \<noteq> None \<longrightarrow> pr_status q = ''banned''"
    if q: "q \<in> set (map_profile uid ?f (profiles d))" for q
    using mem [OF q] assms by (auto simp: user_wf_def good_profile_def)
  then show ?thesis using assms map_profile_keys(1,3) [OF k, of uid "profiles d"] map_profile_keys(2) [OF k, of ck uid "profiles d"]
    by (simp add: user_wf_def)
qed

lemma wf_posted:
  assumes "user_wf ck d" and "posted uid b f txs d d'"
  shows "user_wf ck d'"
proof -
  obtain u where u: "users d uid = Some u" "deleted_at u = None" "row_fits (move b f u)"
    "d' = d\<lparr>users := (users d)(uid \<mapsto> move b f u), ledger := ledger d @ txs (credit_balance u + b)\<rparr>"
    using assms(2) by (auto simp: posted_def)
  have "insert uid (dom (users d)) = dom (users d)" using u(1) by auto
  then show ?thesis using assms(1) u by (auto simp: user_wf_def)
qed

lemma wf_groups: "user_wf ck (d\<lparr>groups := gs\<rparr>) = user_wf ck d" "user_wf ck (d\<lparr>next_group := n\<rparr>) = user_wf ck d"
  by (simp_all add: user_wf_def)

section \<open>Operations keep them\<close>

text \<open>Every value an action answers has a property.\<close>

definition answers :: "('b \<Rightarrow> bool) \<Rightarrow> ('w, 'b) action \<Rightarrow> bool" where
  "answers Q m \<longleftrightarrow> (\<forall>w x w'. m w = (Inr x, w') \<longrightarrow> Q x)"

lemma answers_okE: "Q x \<Longrightarrow> answers Q (okE x)"
  by (simp add: answers_def okE_def)

lemma answers_failE: "answers Q (failE err)"
  by (simp add: answers_def failE_def)

lemma answers_bindE: "answers P m \<Longrightarrow> (\<And>x. P x \<Longrightarrow> answers Q (f x)) \<Longrightarrow> answers Q (bindE m f)"
  unfolding answers_def by (blast elim: bindE_InrE)

lemma answers_any: "answers (\<lambda>_. True) m"
  by (simp add: answers_def)

lemma answers_if: "(c \<Longrightarrow> answers Q a) \<Longrightarrow> (\<not> c \<Longrightarrow> answers Q b) \<Longrightarrow> answers Q (if c then a else b)"
  by simp

lemma answers_on_users: "answers Q m \<Longrightarrow> answers Q (on_users m)"
  unfolding answers_def on_users_def by (auto split: prod.splits) blast

definition wf_kept :: "collation \<Rightarrow> 'a user_db_scheme \<Rightarrow> 'a user_db_scheme \<Rightarrow> bool" where
  "wf_kept ck d d' \<longleftrightarrow> (user_wf ck d \<longrightarrow> user_wf ck d')"

interpretation ses_wf: step_relation "\<lambda>s s'. wf_kept ck (fst s) (fst s')" for ck
  by unfold_locales (auto simp: wf_kept_def)

interpretation wld_wf: step_relation "\<lambda>w w'. wf_kept ck (users_of w) (users_of w')" for ck
  by unfold_locales (auto simp: wf_kept_def)

lemma kept_refl: "wf_kept ck d d"
  by (simp add: wf_kept_def)

lemma users_obey: "obeys (\<lambda>s s'. wf_kept ck (fst s) (fst s')) m \<Longrightarrow> obeys (\<lambda>w w'. wf_kept ck (users_of w) (users_of w')) (on_users m)"
  unfolding obeys_def on_users_def users_of_def by (auto split: prod.splits) (metis fst_conv snd_conv)

lemma codes_obey: "obeys (\<lambda>w w'. wf_kept ck (users_of w) (users_of w')) (on_codes m)"
  unfolding obeys_def on_codes_def users_of_def by (auto simp: kept_refl split: prod.splits)

lemma reads_obey: "reads m \<Longrightarrow> obeys (\<lambda>s s'. wf_kept ck (fst s) (fst s')) m"
  unfolding obeys_def reads_def wf_kept_def by simp

lemma stmt_obey:
  assumes "\<And>d. user_wf ck d \<Longrightarrow> user_wf ck (snd (f d))"
  shows "obeys (\<lambda>s s'. wf_kept ck (fst s) (fst s')) (stmt f)"
  by (rule obeys_stmt) (simp_all add: wf_kept_def assms)

lemma select_same: "snd (select_user q d) = d"
  by (simp add: select_user_def split: option.split)

lemma reads_users: "reads (User_GetByID uid)" "reads (User_GetByEmail ck email)" "reads (CountByEmail ck email)" "reads CountAll"
  unfolding User_GetByID_def User_GetByEmail_def CountByEmail_def CountAll_def
  by (intro reads_mapErr reads_stmt; simp add: select_same)+

lemma reads_checks: "reads (ensureEmailAvailable e email)" "reads (registerRole e)" "reads (VerifyPassword e uid pw)"
  unfolding ensureEmailAvailable_def registerRole_def VerifyPassword_def
  by (intro reads_intros reads_users reads_mapErr)+

lemma reads_confirm: "reads (confirmAdmin e actor header form)"
  unfolding confirmAdmin_def Let_def
  by (intro reads_intros reads_catchE reads_checks)

lemma adjust_obeys:
  assumes "in_i64 delta"
  shows "obeys (\<lambda>s s'. wf_kept ck (fst s) (fst s')) (AdminAdjust uid actor delta ref remark)"
  unfolding obeys_def
proof
  fix s :: "'a user_db_scheme sess"
  obtain r s' where run: "AdminAdjust uid actor delta ref remark s = (r, s')" by (rule prod.exhaust)
  have "fst s' = fst s \<or> (\<exists>b f txs. posted uid b f txs (fst s) (fst s'))" using AdminAdjust_db [OF run assms] by blast
  then show "wf_kept ck (fst s) (fst (snd (AdminAdjust uid actor delta ref remark s)))"
    using run wf_posted by (auto simp: wf_kept_def)
qed

lemma create_obeys:
  assumes "good_profile p"
  shows "obeys (\<lambda>s s'. wf_kept ck (fst s) (fst s')) (User_Create ck p 0)"
  unfolding User_Create_def by (rule stmt_obey) (rule wf_insert [OF _ assms])

lemma reset_obeys: "obeys (\<lambda>s s'. wf_kept ck (fst s) (fst s')) (User_ResetPassword uid hash)"
  unfolding User_ResetPassword_def
  by (intro ses_wf.obeys_intros stmt_obey wf_update) (simp_all add: good_profile_def)

lemma soft_delete_obeys: "obeys (\<lambda>s s'. wf_kept ck (fst s) (fst s')) (User_SoftDelete now uid)"
  unfolding User_SoftDelete_def
  by (intro ses_wf.obeys_intros stmt_obey wf_update) (simp_all add: good_profile_def row_fits_def)

lemma update_obeys: "obeys (\<lambda>s s'. wf_kept ck (fst s) (fst s')) (User_Update uid u)"
  unfolding User_Update_def
  by (intro ses_wf.obeys_intros stmt_obey wf_update) (auto simp: good_profile_def patched_def split: option.splits)

lemma login_info_obeys: "obeys (\<lambda>s s'. wf_kept ck (fst s) (fst s')) (UpdateLoginInfo now uid ip)"
  unfolding UpdateLoginInfo_def by (rule stmt_obey) (simp add: wf_login)

lemma Register_obeys:
  assumes "ae_collation e = ck" and "in_i64 (ae_signup_bonus e)"
  shows "obeys (\<lambda>w w'. wf_kept ck (users_of w) (users_of w')) (Register e now email password nickname code0)"
proof -
  have checks: "obeys (\<lambda>w w'. wf_kept ck (users_of w) (users_of w')) (Register_checks e now email password nickname code0)"
    unfolding Register_checks_def Let_def
    by (intro wld_wf.obeys_intros users_obey codes_obey reads_obey reads_checks)
  have role: "answers (\<lambda>r. r = ''user'' \<or> r = ''admin'') (registerRole e :: ('a user_db_scheme sess, string) action)"
    unfolding registerRole_def by (intro answers_bindE [OF answers_any] answers_if answers_okE answers_failE) simp_all
  have good: "answers good_profile (Register_checks e now email password nickname code0 :: ('a auth_world, profile) action)"
    unfolding Register_checks_def Let_def
    by (intro answers_if answers_failE answers_bindE [OF answers_any] answers_bindE [OF answers_on_users [OF role]])
      (auto simp: answers_def okE_def failE_def good_profile_def elim!: bindE_InrE split: option.splits if_splits)
  have insert: "obeys (\<lambda>w w'. wf_kept ck (users_of w) (users_of w')) (Register_insert e p)" if "good_profile p" for p
    unfolding Register_insert_def assms(1)
    by (intro wld_wf.obeys_intros users_obey create_obeys that adjust_obeys assms(2))
  show ?thesis unfolding Register_def
    by (rule wld_wf.obeys_bind_post [where Q = good_profile]) (use checks good insert in \<open>unfold answers_def, blast\<close>)+
qed

section \<open>Runs of operations\<close>

datatype user_op =
    U_register auth_env int string string string string
  | U_login auth_env int string string string
  | U_refresh auth_env int string
  | U_change auth_env nat string string
  | U_create auth_env "string \<Rightarrow> bool" nat create_req
  | U_update nat nat update_patch
  | U_reset auth_env nat nat string string
  | U_delete auth_env int nat nat string string
  | U_adjust auth_env nat nat adjust_req string string
  | U_group_create auth_env "rat \<Rightarrow> rat option" group_row
  | U_group_update auth_env "rat \<Rightarrow> rat option" nat group_row
  | U_group_delete int nat

text \<open>A handler on the tables, run in the whole state.\<close>

definition at_users :: "('a user_db_scheme sess \<Rightarrow> 'r \<times> 'a user_db_scheme sess) \<Rightarrow> 'a auth_world \<Rightarrow> 'a auth_world" where
  "at_users h w = (snd (h (fst w)), snd w)"

fun user_step :: "user_op \<Rightarrow> 'a auth_world \<Rightarrow> 'a auth_world" where
  "user_step (U_register e now email password nickname code0) w = snd (Register e now email password nickname code0 w)"
| "user_step (U_login e now email password ip) w = at_users (Login e now email password ip) w"
| "user_step (U_refresh e now tok) w = at_users (Refresh_tokens e now tok) w"
| "user_step (U_change e uid old new) w = at_users (ChangePassword e uid old new) w"
| "user_step (U_create e is_email actor q) w = at_users (Admin_User_Create e is_email actor q) w"
| "user_step (U_update actor uid q) w = at_users (Admin_User_Update actor uid q) w"
| "user_step (U_reset e actor uid new admin) w = at_users (Admin_User_ResetPassword e actor uid new admin) w"
| "user_step (U_delete e now actor uid header form) w = at_users (Admin_User_Delete e now actor uid header form) w"
| "user_step (U_adjust e actor uid q header form) w = at_users (Adjust e actor uid q header form) w"
| "user_step (U_group_create e dec g) w = at_users (Admin_Group_Create e dec g) w"
| "user_step (U_group_update e dec gid g) w = at_users (Admin_Group_Update e dec gid g) w"
| "user_step (U_group_delete now gid) w = at_users (Admin_Group_Delete now gid) w"

text \<open>One collation for all, and amounts that are int64.\<close>

fun user_adm :: "collation \<Rightarrow> user_op \<Rightarrow> 'a auth_world \<Rightarrow> bool" where
  "user_adm ck (U_register e now email password nickname code0) w = (ae_collation e = ck \<and> in_i64 (ae_signup_bonus e))"
| "user_adm ck (U_create e is_email actor q) w = (ae_collation e = ck \<and> in_i64 (cr_credits q))"
| "user_adm ck (U_adjust e actor uid q header form) w = in_i64 (aq_delta q)"
| "user_adm ck _ w = True"

lemma at_users_kept:
  assumes "obeys (\<lambda>s s'. wf_kept ck (fst s) (fst s')) h" and "user_wf ck (users_of w)"
  shows "user_wf ck (users_of (at_users h w))"
  using assms unfolding obeys_def wf_kept_def users_of_def at_users_def by (cases "fst w") simp

lemma Login_obeys: "obeys (\<lambda>s s'. wf_kept ck (fst s) (fst s')) (Login e now email password ip)"
  unfolding Login_def Let_def
  by (intro ses_wf.obeys_intros reads_obey reads_users login_info_obeys)

lemma Refresh_obeys: "obeys (\<lambda>s s'. wf_kept ck (fst s) (fst s')) (Refresh_tokens e now tok)"
  unfolding Refresh_tokens_def by (intro ses_wf.obeys_intros reads_obey reads_users)

lemma password_obeys:
  "obeys (\<lambda>s s'. wf_kept ck (fst s) (fst s')) (ChangePassword e uid old new)"
  "obeys (\<lambda>s s'. wf_kept ck (fst s) (fst s')) (Admin_User_ResetPassword e actor uid new admin)"
  unfolding ChangePassword_def Admin_User_ResetPassword_def
  by (intro ses_wf.obeys_intros reads_obey reads_checks reset_obeys)+

lemma Create_obeys:
  assumes "in_i64 (cr_credits q)" and "ae_collation e = ck"
  shows "obeys (\<lambda>s s'. wf_kept ck (fst s) (fst s')) (Admin_User_Create e is_email actor q)"
  unfolding Admin_User_Create_def Let_def assms(2)
  by (intro ses_wf.obeys_intros reads_obey reads_users create_obeys adjust_obeys assms(1)) (auto simp: good_profile_def)

lemma Delete_obeys: "obeys (\<lambda>s s'. wf_kept ck (fst s) (fst s')) (Admin_User_Delete e now actor uid header form)"
  unfolding Admin_User_Delete_def by (intro ses_wf.obeys_intros reads_obey reads_confirm soft_delete_obeys)

lemma Update_obeys: "obeys (\<lambda>s s'. wf_kept ck (fst s) (fst s')) (Admin_User_Update actor uid q)"
  unfolding Admin_User_Update_def by (intro ses_wf.obeys_intros update_obeys)

lemma Adjust_obeys: "in_i64 (aq_delta q) \<Longrightarrow> obeys (\<lambda>s s'. wf_kept ck (fst s) (fst s')) (Adjust e actor uid q header form)"
  unfolding Adjust_def by (intro ses_wf.obeys_intros reads_obey reads_confirm adjust_obeys)

lemma group_obeys:
  "obeys (\<lambda>s s'. wf_kept ck (fst s) (fst s')) (Admin_Group_Create e dec g)"
  "obeys (\<lambda>s s'. wf_kept ck (fst s) (fst s')) (Admin_Group_Update e dec gid g)"
  "obeys (\<lambda>s s'. wf_kept ck (fst s) (fst s')) (Admin_Group_Delete now gid)"
  unfolding Admin_Group_Create_def Admin_Group_Update_def Admin_Group_Delete_def CreateGroup_def UpdateGroup_def DeleteGroup_def Let_def
  by (intro ses_wf.obeys_intros stmt_obey; simp add: wf_groups Let_def split: option.split)+

interpretation user_runs: inv_system user_step "user_adm ck" "\<lambda>w. user_wf ck (users_of w)" for ck
proof
  fix w :: "'a auth_world" and a
  assume wf: "user_wf ck (users_of w)" and adm: "user_adm ck a w"
  show "user_wf ck (users_of (user_step a w))"
  proof (cases a)
    case (U_register e now email password nickname code0)
    then have "obeys (\<lambda>w w'. wf_kept ck (users_of w) (users_of w')) (Register e now email password nickname code0 :: ('a auth_world, profile) action)"
      using adm by (intro Register_obeys) simp_all
    then have "wf_kept ck (users_of w) (users_of (snd (Register e now email password nickname code0 w)))" unfolding obeys_def by (rule spec)
    then show ?thesis using wf U_register by (simp add: wf_kept_def)
  qed (use adm wf in \<open>simp_all add: at_users_kept Login_obeys Refresh_obeys password_obeys Create_obeys Update_obeys Delete_obeys
    Adjust_obeys group_obeys\<close>)
qed

text \<open>
  C23. The tables of users stay well formed over any run of registrations, logins, changes of passwords and of the
  administration of users and groups, under any faults: numbers and addresses stay unique, roles and states stay known, every user
  has exactly one row of amounts, which fit, and a deleted user is banned.
\<close>

theorem users_stay_wf:
  assumes "user_wf ck (users_of w)" and "admissible_run (user_adm ck) user_step ops w"
  shows "user_wf ck (users_of (fold user_step ops w))"
  using assms by (rule user_runs.run_inv)

end
