(* ===== verification/Auth_Cases.thy ===== *)
theory Auth_Cases
  imports Auth_Invariant
begin

text \<open>
  What registration, login and the administration of users come to: a registered user logs in, what stale tokens still open, two
  first users, and how old a cached group can be.
\<close>

section \<open>A registered user logs in\<close>

lemma find_snoc_only:
  assumes "\<forall>x\<in>set xs. \<not> P x" and "P y"
  shows "find P (xs @ [y]) = Some y"
  using assms by (induction xs) auto

lemma on_users_done: "on_users m w = (Inr x, w') \<Longrightarrow> m (fst w) = (Inr x, fst w')"
  by (auto simp: on_users_def split: prod.splits)

lemma on_users_reads: "reads m \<Longrightarrow> on_users m w = (r, w') \<Longrightarrow> users_of w' = users_of w"
  unfolding reads_def on_users_def users_of_def by (auto split: prod.splits) (metis fst_conv snd_conv)

lemma Create_Inr:
  assumes "User_Create ck p b s = (Inr uid, s')"
  shows "uid = next_user (fst s) \<and> (\<forall>q\<in>set (profiles (fst s)). ck (pr_email q) \<noteq> ck (pr_email p)) \<and>
    fst s' = (fst s)\<lparr>next_user := Suc uid, profiles := profiles (fst s) @ [p\<lparr>pr_id := uid, pr_login_at := None, pr_login_ip := ''''\<rparr>],
      users := (users (fst s))(uid \<mapsto> \<lparr>credit_balance = b, credit_frozen = 0, version = 0, deleted_at = None\<rparr>)\<rparr>"
proof -
  have "insert_user ck p b (fst s) = (Inr uid, fst s')" using assms unfolding User_Create_def by (rule stmt_InrE)
  then show ?thesis by (auto simp: insert_user_def Let_def list_ex_iff split: if_splits)
qed

text \<open>The bonus moves amounts only.\<close>

definition same_people :: "'a user_db_scheme \<Rightarrow> 'a user_db_scheme \<Rightarrow> bool" where
  "same_people d d' \<longleftrightarrow> profiles d' = profiles d \<and> next_user d' = next_user d \<and> (\<forall>p. alive d' p = alive d p)"

lemma posted_same:
  assumes "posted uid b f txs d d'"
  shows "same_people d d'"
proof -
  obtain u where u: "users d uid = Some u" "deleted_at u = None"
    "d' = d\<lparr>users := (users d)(uid \<mapsto> move b f u), ledger := ledger d @ txs (credit_balance u + b)\<rparr>"
    using assms by (auto simp: posted_def)
  have "alive d' p = alive d p" for p using u by (cases "pr_id p = uid") (simp_all add: alive_def)
  then show ?thesis using u(3) by (simp add: same_people_def)
qed

lemma bonus_same:
  assumes "ignoreE (on_users (AdminAdjust uid actor delta ref remark)) w = (r, w')" and "in_i64 delta"
  shows "same_people (users_of w) (users_of w')"
proof -
  obtain r1 w1 where a: "on_users (AdminAdjust uid actor delta ref remark) w = (r1, w1)" and "w' = w1"
    using assms(1) unfolding ignoreE_def by (auto simp: okE_def elim!: catchE_cases)
  obtain r2 s2 where m: "AdminAdjust uid actor delta ref remark (fst w) = (r2, s2)" by (rule prod.exhaust)
  then have "fst w1 = s2" using a by (auto simp: on_users_def split: prod.splits)
  moreover have "fst s2 = fst (fst w) \<or> (\<exists>b f txs. posted uid b f txs (fst (fst w)) (fst s2))" using AdminAdjust_db [OF m assms(2)] by blast
  then have "same_people (fst (fst w)) (fst s2)"
  proof
    assume "fst s2 = fst (fst w)"
    then show ?thesis by (simp add: same_people_def)
  qed (blast intro: posted_same)
  ultimately show ?thesis using \<open>w' = w1\<close> by (simp add: users_of_def)
qed

lemma insert_Inr:
  assumes "Register_insert e p w = (Inr u, w')" and "in_i64 (ae_signup_bonus e)" and "pr_login_at p = None" and "pr_login_ip p = ''''"
  shows "u = p\<lparr>pr_id := next_user (users_of w)\<rparr> \<and> profiles (users_of w') = profiles (users_of w) @ [u] \<and> alive (users_of w') u \<and>
    next_user (users_of w') = Suc (next_user (users_of w)) \<and>
    (\<forall>q\<in>set (profiles (users_of w)). ae_collation e (pr_email q) \<noteq> ae_collation e (pr_email p))"
proof -
  obtain uid w1 w2 where c: "on_users (User_Create (ae_collation e) p 0) w = (Inr uid, w1)"
    and b: "(if ae_signup_bonus e > 0
            then ignoreE (on_users (AdminAdjust uid 0 (ae_signup_bonus e) ''signup_bonus'' ''auto grant on register''))
            else okE ()) w1 = (Inr (), w2)" and u: "u = p\<lparr>pr_id := uid\<rparr>" "w' = w2"
    using assms(1) unfolding Register_insert_def by (auto simp: okE_def elim!: bindE_InrE)
  note cr = Create_Inr [OF on_users_done [OF c]]
  have "same_people (users_of w1) (users_of w2)"
  proof (cases "ae_signup_bonus e > 0")
    case True
    then show ?thesis using b by (intro bonus_same [OF _ assms(2)]) simp
  next
    case False
    then show ?thesis using b by (simp add: okE_def same_people_def)
  qed
  moreover have "alive (users_of w1) u" using cr u by (simp add: alive_def users_of_def)
  ultimately show ?thesis using cr u assms(3,4) by (auto simp: same_people_def users_of_def)
qed

text \<open>
  C21. A registered user logs in: after a successful registration, under whatever faults it met, a login with the same password and
  any spelling of the address that normalises to the same one succeeds as the registered user, and its access token passes the
  middleware as that user with that role until it expires.
\<close>

theorem registered_user_logs_in:
  assumes "bcrypt_contract (ae_bcrypt e)" and "jwt_contract (ae_jwt e)" and "\<forall>c. jw_sign (ae_jwt e) (mg_secret (ae_manager e)) c \<noteq> None"
    and "in_i64 (ae_signup_bonus e)" and "Register e now email password nickname code0 w = (Inr u, w')"
    and "normalizeEmail email1 = normalizeEmail email"
  shows "\<exists>pair s'. Login e later email1 password ip (users_of w', []) = (Inr (u, pair), s') \<and>
    (\<forall>t. later \<le> t \<and> t < numeric_date (later * 1000000 + fst (currentTTLs (ae_manager e))) * 1000 \<longrightarrow>
       JWTAuth (ae_jwt e) (ae_manager e) t (''Bearer '' @ tp_access pair) ctx0 = Inr \<lparr>hx_user = Some (pr_id u), hx_role = Some (pr_role u)\<rparr>)"
proof -
  obtain role hash w3 where hash: "bc_generate (ae_bcrypt e) password (ae_cost e) = Some hash"
    and ins: "Register_insert e \<lparr>pr_id = 0, pr_email = normalizeEmail email, pr_hash = hash, pr_nickname = normalizeNickname nickname,
        pr_group = (if ae_default_group e > 0 then ae_default_group e else 1), pr_role = role, pr_status = ''active'',
        pr_login_at = None, pr_login_ip = ''''\<rparr> w3 = (Inr u, w')"
    by (rule Register_parts [OF assms(5)]) blast
  note i = insert_Inr [OF ins assms(4)]
  have u: "pr_email u = normalizeEmail email" "pr_hash u = hash" "pr_status u = ''active''" using i by simp_all
  let ?ck = "ae_collation e" and ?d = "users_of w'"
  have "find (\<lambda>p. ?ck (pr_email p) = ?ck (normalizeEmail email) \<and> alive ?d p) (profiles ?d) = Some u"
    using i find_snoc_only [of "profiles (users_of w3)" "\<lambda>p. ?ck (pr_email p) = ?ck (normalizeEmail email) \<and> alive ?d p" u] u(1) by auto
  then have get: "User_GetByEmail ?ck (normalizeEmail email1) (?d, []) = (Inr u, (?d, []))"
    using assms(6) by (simp add: User_GetByEmail_def mapErr_def select_user_def)
  have cmp: "bc_compare (ae_bcrypt e) (pr_hash u) password" using assms(1) hash u(2) by (auto simp: bcrypt_contract_def)
  obtain pair where pair: "Issue (ae_jwt e) (ae_manager e) later (pr_id u) (pr_role u) = Inr pair"
  proof -
    have "\<exists>tok. signWithTTL (ae_jwt e) (ae_manager e) (pr_id u) (pr_role u) aud later ttl = Inr tok" for aud ttl
      using assms(3) by (auto simp: signWithTTL_def split: option.splits)
    then have "\<exists>pair. Issue (ae_jwt e) (ae_manager e) later (pr_id u) (pr_role u) = Inr pair"
      by (auto simp: Issue_def split: prod.split sum.split) (metis sum.distinct(1))+
    then show ?thesis using that by blast
  qed
  have "\<exists>s'. Login e later email1 password ip (?d, []) = (Inr (u, pair), s')"
    unfolding Login_def Let_def normalizeEmail_def [symmetric]
    using bindE_Inr [of "mapErr invalid_credential (User_GetByEmail ?ck (normalizeEmail email1))" "(?d, [])" u "(?d, [])"] get u(3) cmp pair
    by (simp add: mapErr_def bindE_def liftE_def ignoreE_def catchE_def okE_def UpdateLoginInfo_def)
  moreover have "JWTAuth (ae_jwt e) (ae_manager e) t (''Bearer '' @ tp_access pair) ctx0 = Inr \<lparr>hx_user = Some (pr_id u), hx_role = Some (pr_role u)\<rparr>"
    if "later \<le> t \<and> t < numeric_date (later * 1000000 + fst (currentTTLs (ae_manager e))) * 1000" for t
    using JWTAuth_issued [OF assms(2) Issue_Inr(1) [OF pair], of t ctx0] that issued_before_now [of later] by (simp add: ctx0_def)
  ultimately show ?thesis by blast
qed

section \<open>Stale tokens\<close>

lemma admin_passes:
  assumes "r \<in> set (New_router d)" and "admin_path (rte_path r)" and "uid \<noteq> 0"
    and "pass_guard lib m w JWT ctx0 = Inr \<lparr>hx_user = Some uid, hx_role = Some RoleAdmin\<rparr>"
  shows "reaches lib m w r \<lparr>hx_user = Some uid, hx_role = Some RoleAdmin\<rparr>"
proof -
  let ?c = "\<lparr>hx_user = Some uid, hx_role = Some RoleAdmin\<rparr>"
  obtain gs where gs: "rte_guards r = JWT # Admin # gs" by (rule admin_guards [OF assms(1,2)])
  have late: "list_all (\<lambda>g. case g of Perm ps \<Rightarrow> ps \<noteq> [] | Audit \<Rightarrow> True | _ \<Rightarrow> False) gs"
    using entry_classified [OF assms(1)] assms(2) open_excludes gs by (auto simp: classified_def split: if_splits)
  have "pass_guard lib m w g ?c = Inr ?c" if "g \<in> set gs" for g
    using late that assms(3) by (cases g) (auto simp: list_all_iff RequirePerm_def UserID_def Role_def HasAny_ex Has_admin neq_Nil_conv)
  moreover have "pass_guard lib m w Admin ?c = Inr ?c" by (simp add: RequireAdmin_def Role_def IsAdmin_def)
  ultimately have "pass_guards lib m w (Admin # gs) ?c = Inr ?c" by (intro late_guards_pass) auto
  then show ?thesis using gs assms(4) by (simp add: reaches_def)
qed

lemma deleted_gone:
  assumes "Admin_User_Delete e now actor uid header form s = (Inr x, s')"
  shows "\<exists>err y. User_GetByID uid s' = (Inl err, y)"
proof -
  obtain s1 where del: "User_SoftDelete now uid s1 = (Inr x, s')"
    using assms by (auto simp: Admin_User_Delete_def calls_def answer_def refuse_def split: if_splits prod.splits sum.splits)
  then obtain n s2 where n: "stmt (update_profile uid (\<lambda>p. p\<lparr>pr_status := ''banned''\<rparr>) (\<lambda>r. r\<lparr>deleted_at := Some (datetime now)\<rparr>)) s1 = (Inr n, s2)"
    and k: "(if n = 0 then failE ErrNotFound else okE ()) s2 = (Inr x, s')" unfolding User_SoftDelete_def by (rule bindE_InrE)
  have "n \<noteq> 0" "s2 = s'" using k by (auto simp: okE_def failE_def split: if_splits)
  from n have "update_profile uid (\<lambda>p. p\<lparr>pr_status := ''banned''\<rparr>) (\<lambda>r. r\<lparr>deleted_at := Some (datetime now)\<rparr>) (fst s1) = (Inr n, fst s2)"
    by (rule stmt_InrE)
  then have "fst (update_profile uid (\<lambda>p. p\<lparr>pr_status := ''banned''\<rparr>) (\<lambda>r. r\<lparr>deleted_at := Some (datetime now)\<rparr>) (fst s1)) = Inr n"
    and s': "fst s' = snd (update_profile uid (\<lambda>p. p\<lparr>pr_status := ''banned''\<rparr>) (\<lambda>r. r\<lparr>deleted_at := Some (datetime now)\<rparr>) (fst s1))"
    using \<open>s2 = s'\<close> by simp_all
  then have "\<exists>u. users (fst s') uid = Some u \<and> deleted_at u \<noteq> None"
    unfolding s' using \<open>n \<noteq> 0\<close> by (auto simp: update_profile_def split: option.splits if_splits)
  then have "\<not> alive (fst s') p" if "pr_id p = uid" for p using that by (auto simp: alive_def)
  then have "find (\<lambda>p. pr_id p = uid \<and> alive (fst s') p) (profiles (fst s')) = None" by (auto simp: find_None_iff)
  then show ?thesis
    by (auto simp: User_GetByID_def mapErr_def stmt_def select_user_def not_found_def split: prod.split drv.split)
qed

text \<open>
  C27. A deleted administrator keeps administering: after an administrator's row has been deleted no refresh gives him tokens any
  more; but each of the two tokens of his last login, presented as a bearer token while it lasts, still reaches every handler under
  \<open>/api/admin\<close>. The refresh token is one of them: the middleware does not look at the audience.
\<close>

theorem stale_tokens_still_open:
  assumes "jwt_contract (ae_jwt e)" and "Issue (ae_jwt e) (ae_manager e) now uid RoleAdmin = Inr pair"
    and "Admin_User_Delete e1 when actor uid header form s = (Inr x, s')"
    and "(tok = tp_access pair \<and> ttl = fst (currentTTLs (ae_manager e))) \<or> (tok = tp_refresh pair \<and> ttl = snd (currentTTLs (ae_manager e)))"
    and "r \<in> set (New_router d)" and "HasPrefix (rte_path r) ''/api/admin''" and "wr_header w = ''Bearer '' @ tok"
    and "now \<le> wr_now w" and "wr_now w < numeric_date (now * 1000000 + ttl) * 1000"
  shows "(\<forall>pair2 s2. Refresh_tokens e (wr_now w) tok s' \<noteq> (Inr pair2, s2)) \<and>
    reaches (ae_jwt e) (ae_manager e) w r \<lparr>hx_user = Some uid, hx_role = Some RoleAdmin\<rparr>"
proof -
  obtain aud where sgn: "signWithTTL (ae_jwt e) (ae_manager e) uid RoleAdmin aud now ttl = Inr tok"
    using Issue_Inr [OF assms(2)] assms(4) by metis
  have "uid \<noteq> 0" using assms(3) by (cases "uid = 0") (auto simp: Admin_User_Delete_def refuse_def)
  have "JWTAuth (ae_jwt e) (ae_manager e) (wr_now w) (wr_header w) ctx0 = Inr \<lparr>hx_user = Some uid, hx_role = Some RoleAdmin\<rparr>"
    unfolding assms(7) JWTAuth_issued [OF assms(1) sgn] using issued_before_now [of now] assms(8,9) by (simp add: ctx0_def)
  then have "reaches (ae_jwt e) (ae_manager e) w r \<lparr>hx_user = Some uid, hx_role = Some RoleAdmin\<rparr>"
    using admin_passes [OF assms(5) _ \<open>uid \<noteq> 0\<close>] assms(6) by (simp add: admin_path_def)
  moreover have "Refresh_tokens e (wr_now w) tok s' \<noteq> (Inr pair2, s2)" for pair2 s2
  proof
    assume "Refresh_tokens e (wr_now w) tok s' = (Inr pair2, s2)"
    then obtain cl v s1 where cl: "VerifyRefresh (ae_jwt e) (ae_manager e) (wr_now w) tok = Inr cl" and v: "User_GetByID (cl_uid cl) s' = (Inr v, s1)"
      unfolding Refresh_tokens_def by (auto simp: liftE_Inr elim!: bindE_InrE)
    have "cl_uid cl = uid" using cl sign_verify [OF assms(1) sgn, of "wr_now w"]
      by (auto simp: VerifyRefresh_def token_claims_def split: if_splits sum.splits)
    then show False using v deleted_gone [OF assms(3)] by auto
  qed
  ultimately show ?thesis by blast
qed

section \<open>Two first users\<close>

interpretation wld_users: step_relation "\<lambda>w w'. users_of w' = users_of w"
  by unfold_locales simp_all

lemma checks_parts:
  assumes "Register_checks e now email password nickname code0 w = (Inr p, w')"
  obtains w1 w2 where "on_users (ensureEmailAvailable e (normalizeEmail email)) w = (Inr (), w1)"
    and "on_users (registerRole e) w1 = (Inr (pr_role p), w2)" and "pr_login_at p = None" and "pr_login_ip p = ''''"
  using assms unfolding Register_checks_def Let_def
  by (auto simp: failE_def okE_def liftE_Inr split: if_splits option.splits elim!: bindE_InrE intro: that)

lemma checks_read: "obeys (\<lambda>w w'. users_of w' = users_of w) (Register_checks e now email password nickname code0)"
proof -
  have u: "obeys (\<lambda>w w'. users_of w' = users_of w) (on_users m)" if "reads m" for m :: "('a user_db_scheme sess, 'b) action"
    using on_users_reads [OF that] unfolding obeys_def by (metis prod.collapse)
  have c: "obeys (\<lambda>w w'. users_of w' = users_of w) (on_codes m)" for m :: "(code_db sess, 'b) action"
    using on_codes_users [of m] unfolding obeys_def by (metis prod.collapse)
  show ?thesis unfolding Register_checks_def Let_def
    by (intro wld_users.obeys_intros u c reads_checks)
qed

lemma first_role:
  assumes "registerRole e s = (Inr role, s')" and "filter (alive (fst s)) (profiles (fst s)) = []"
  shows "role = ''admin''"
  using assms by (auto simp: registerRole_def CountAll_def okE_def failE_def split: if_splits elim!: bindE_InrE stmt_InrE)

lemma checks_first:
  assumes "Register_checks e now email password nickname code0 w = (Inr p, w')" and "filter (alive (users_of w)) (profiles (users_of w)) = []"
  shows "pr_role p = ''admin'' \<and> users_of w' = users_of w \<and> pr_login_at p = None \<and> pr_login_ip p = ''''"
proof -
  obtain w1 w2 where a: "on_users (ensureEmailAvailable e (normalizeEmail email)) w = (Inr (), w1)"
    and b: "on_users (registerRole e) w1 = (Inr (pr_role p), w2)" and p: "pr_login_at p = None" "pr_login_ip p = ''''"
    by (rule checks_parts [OF assms(1)])
  have "users_of w1 = users_of w" by (rule on_users_reads [OF reads_checks(1) a])
  then have "pr_role p = ''admin''" using first_role [OF on_users_done [OF b]] assms(2) by (simp add: users_of_def)
  then show ?thesis using p obeysD [OF checks_read assms(1)] by blast
qed

text \<open>
  Two first users are both administrators: when a registration has passed its checks in an empty system and another one runs to
  its end before the first inserts its row, both accounts have the role admin; the rule that only the first user gets it is not
  kept by concurrent requests.
\<close>

theorem two_first_administrators:
  assumes "filter (alive (users_of w)) (profiles (users_of w)) = []" and "in_i64 (ae_signup_bonus e)"
    and "Register_checks e now1 email1 password1 nickname1 code1 w = (Inr p, w1)"
    and "Register e now2 email2 password2 nickname2 code2 w1 = (Inr u2, w2)"
    and "Register_insert e p w2 = (Inr u1, w3)"
  shows "pr_role u1 = ''admin'' \<and> pr_role u2 = ''admin'' \<and> pr_id u1 \<noteq> pr_id u2 \<and>
    {u1, u2} \<subseteq> set (profiles (users_of w3))"
proof -
  note c1 = checks_first [OF assms(3,1)]
  obtain p2 w4 where c: "Register_checks e now2 email2 password2 nickname2 code2 w1 = (Inr p2, w4)" and i2: "Register_insert e p2 w4 = (Inr u2, w2)"
    using assms(4) unfolding Register_def by (rule bindE_InrE)
  have "filter (alive (users_of w1)) (profiles (users_of w1)) = []" using c1 assms(1) by simp
  note c2 = checks_first [OF c this]
  note i = insert_Inr [OF i2 assms(2)] insert_Inr [OF assms(5,2)]
  show ?thesis using c1 c2 i by auto
qed

section \<open>How old a cached group can be\<close>

text \<open>
  A history of lookups, each at its instant and on the tables as they are then; whatever happened to the tables in between.
\<close>

fun lookups :: "(int \<times> nat \<times> 'a user_db_scheme \<times> drv list) list \<Rightarrow> group_cache \<Rightarrow> group_cache" where
  "lookups [] c = c"
| "lookups ((now, uid, d, faults) # rest) c = lookups rest (fst (snd (OfUser now uid (c, (d, faults)))))"

fun snapshot :: "int \<times> nat \<times> 'a user_db_scheme \<times> drv list \<Rightarrow> int \<times> 'a user_db_scheme" where
  "snapshot (now, uid, d, faults) = (now, d)"

text \<open>Every entry was true when it was stored, at one of the lookups.\<close>

definition entries_true :: "(int \<times> 'a user_db_scheme) set \<Rightarrow> group_cache \<Rightarrow> bool" where
  "entries_true H c \<longleftrightarrow>
     (\<forall>uid gid t. gc_users c uid = Some (gid, t) \<longrightarrow>
        (\<exists>d p. (t, d) \<in> H \<and> p \<in> set (profiles d) \<and> alive d p \<and> pr_id p = uid \<and> pr_group p = gid)) \<and>
     (\<forall>gid g t. gc_groups c gid = Some (g, t) \<longrightarrow> (\<exists>d. (t, d) \<in> H \<and> g \<in> set (groups d) \<and> live_group gid g))"

lemma GetGroup_Inr:
  assumes "GetGroup gid s = (Inr g, s')"
  shows "g \<in> set (groups (fst s)) \<and> live_group gid g"
proof -
  have f: "find P xs = Some x \<Longrightarrow> x \<in> set xs \<and> P x" for P xs and x :: group_row
    by (induction xs) (auto split: if_splits)
  show ?thesis using assms unfolding GetGroup_def
    by (auto dest!: mapErr_InrD elim!: stmt_InrE dest!: f split: option.splits)
qed

text \<open>The group was looked up, or stored not longer ago than the time to live.\<close>

lemma group_of_id_true:
  assumes "group_of_id now gid (c, s1) = (r, (c', s'))" and "entries_true H c" and "(now, fst s) \<in> H" and "fst s1 = fst s"
  shows "entries_true H c' \<and> gc_ttl c' = gc_ttl c \<and>
    (\<forall>g. r = Inr g \<longrightarrow> (\<exists>t d. (t, d) \<in> H \<and> (t = now \<or> now - t \<le> gc_ttl c) \<and> g \<in> set (groups d) \<and> live_group gid g))"
proof (cases "fresh (gc_ttl c) now (gc_groups c gid)")
  case (Some g)
  then obtain t where t: "gc_groups c gid = Some (g, t)" "now - t \<le> gc_ttl c" by (auto simp: fresh_def split: option.splits if_splits)
  have "r = Inr g" "c' = c" using assms(1) Some by (auto simp: group_of_id_def)
  then show ?thesis using t assms(2) unfolding entries_true_def by blast
next
  case None
  obtain x s2 where g: "GetGroup gid s1 = (x, s2)" by (rule prod.exhaust)
  show ?thesis
  proof (cases x)
    case (Inl err)
    then show ?thesis using assms(1,2) None g by (auto simp: group_of_id_def)
  next
    case (Inr y)
    then have y: "y \<in> set (groups (fst s))" "live_group gid y" using GetGroup_Inr [OF g [unfolded Inr]] assms(4) by simp_all
    have r: "r = Inr y" "c' = c\<lparr>gc_groups := (gc_groups c)(gid \<mapsto> (y, now))\<rparr>" using assms(1) None g Inr by (auto simp: group_of_id_def)
    have "entries_true H c'" using y assms(2,3) unfolding r(2) entries_true_def by (auto split: if_splits)
    then show ?thesis using y assms(3) r by auto
  qed
qed

lemma OfUser_true:
  assumes "OfUser now uid (c, s) = (r, (c', s'))" and "entries_true H c" and "(now, fst s) \<in> H"
  shows "entries_true H c' \<and> gc_ttl c' = gc_ttl c \<and>
    (\<forall>g. r = Inr g \<longrightarrow> (\<exists>t1 d1 t2 d2 p. (t1, d1) \<in> H \<and> (t2, d2) \<in> H \<and> (t1 = now \<or> now - t1 \<le> gc_ttl c) \<and>
       (t2 = now \<or> now - t2 \<le> gc_ttl c) \<and> p \<in> set (profiles d1) \<and> alive d1 p \<and> pr_id p = uid \<and>
       g \<in> set (groups d2) \<and> live_group (pr_group p) g))"
proof (cases "fresh (gc_ttl c) now (gc_users c uid)")
  case (Some gid)
  then obtain t where t: "gc_users c uid = Some (gid, t)" "now - t \<le> gc_ttl c" by (auto simp: fresh_def split: option.splits if_splits)
  have "group_of_id now gid (c, s) = (r, (c', s'))" using assms(1) Some by (simp add: OfUser_def)
  note g = group_of_id_true [OF this assms(2,3) refl]
  obtain d1 p where "(t, d1) \<in> H" "p \<in> set (profiles d1)" "alive d1 p" "pr_id p = uid" "pr_group p = gid"
    using t(1) assms(2) unfolding entries_true_def by blast
  then show ?thesis using g t(2) by blast
next
  case None
  obtain x s1 where u: "User_GetByID uid s = (x, s1)" by (rule prod.exhaust)
  show ?thesis
  proof (cases x)
    case (Inl err)
    then show ?thesis using assms(1,2) None u by (auto simp: OfUser_def)
  next
    case (Inr p)
    note p = user_by_id_Inr [OF u [unfolded Inr]]
    let ?c1 = "c\<lparr>gc_users := (gc_users c)(uid \<mapsto> (pr_group p, now))\<rparr>"
    have "group_of_id now (pr_group p) (?c1, s1) = (r, (c', s'))" using assms(1) None u Inr by (simp add: OfUser_def)
    moreover have "entries_true H ?c1" using p assms(2,3) unfolding entries_true_def by auto
    moreover have "(now, fst s1) \<in> H" using p assms(3) by simp
    ultimately have g: "entries_true H c' \<and> gc_ttl c' = gc_ttl ?c1 \<and>
      (\<forall>g. r = Inr g \<longrightarrow> (\<exists>t d. (t, d) \<in> H \<and> (t = now \<or> now - t \<le> gc_ttl ?c1) \<and> g \<in> set (groups d) \<and> live_group (pr_group p) g))"
      by (rule group_of_id_true [OF _ _ _ refl])
    then show ?thesis using p assms(3) by fastforce
  qed
qed

lemma lookups_true:
  assumes "entries_true H c" and "snapshot ` set hs \<subseteq> H"
  shows "entries_true H (lookups hs c) \<and> gc_ttl (lookups hs c) = gc_ttl c"
  using assms
proof (induction hs arbitrary: c)
  case (Cons h hs)
  obtain now uid d faults where h: "h = (now, uid, d, faults)" by (cases h)
  obtain r c' s' where ofu: "OfUser now uid (c, (d, faults)) = (r, (c', s'))" by (metis prod.exhaust)
  have "entries_true H c' \<and> gc_ttl c' = gc_ttl c" using OfUser_true [OF ofu Cons.prems(1)] Cons.prems(2) h by simp
  then show ?case using Cons.IH [of c'] Cons.prems(2) h ofu by simp
qed simp

text \<open>
  C26. A cached group is recent: over any history of lookups, whatever happened to the tables between them, the group answered was
  the live group with the number that the user's live row had, each as it stood at some lookup not longer ago than the cache's time
  to live.
\<close>

theorem cached_group_is_recent:
  assumes "OfUser now uid (lookups hs (NewGroupCache ttl), (d, faults)) = (Inr g, cs)"
  shows "\<exists>t1 d1 t2 d2 p. (t1, d1) \<in> insert (now, d) (snapshot ` set hs) \<and> (t2, d2) \<in> insert (now, d) (snapshot ` set hs) \<and>
    now - t1 \<le> (if ttl \<le> 0 then 30000 else ttl) \<and> now - t2 \<le> (if ttl \<le> 0 then 30000 else ttl) \<and>
    p \<in> set (profiles d1) \<and> alive d1 p \<and> pr_id p = uid \<and> g \<in> set (groups d2) \<and> live_group (pr_group p) g"
proof -
  let ?H = "insert (now, d) (snapshot ` set hs)" and ?c = "lookups hs (NewGroupCache ttl)" and ?ttl = "if ttl \<le> 0 then 30000 else ttl"
  have new: "entries_true ?H (NewGroupCache ttl)" "gc_ttl (NewGroupCache ttl) = ?ttl" by (simp_all add: entries_true_def NewGroupCache_def)
  have "snapshot ` set hs \<subseteq> ?H" by blast
  note c = lookups_true [OF new(1) this, unfolded new(2)]
  obtain c' s' where ofu: "OfUser now uid (?c, (d, faults)) = (Inr g, (c', s'))" using assms by (cases cs) auto
  have "(now, fst (d, faults)) \<in> ?H" by simp
  from OfUser_true [OF ofu conjunct1 [OF c] this] obtain t1 d1 t2 d2 p where
    h: "(t1, d1) \<in> ?H" "(t2, d2) \<in> ?H" "t1 = now \<or> now - t1 \<le> gc_ttl ?c" "t2 = now \<or> now - t2 \<le> gc_ttl ?c"
    "p \<in> set (profiles d1)" "alive d1 p" "pr_id p = uid" "g \<in> set (groups d2)" "live_group (pr_group p) g" by blast
  have "0 \<le> ?ttl" by simp
  then have "now - t1 \<le> ?ttl" "now - t2 \<le> ?ttl" using h(3,4) conjunct2 [OF c] by auto
  then show ?thesis using h by blast
qed

end
