(* ===== verification/Auth_Examples.thy ===== *)
theory Auth_Examples
  imports Auth_Cases
begin

text \<open>
  Concrete systems for the laws of registration and tokens: a signing library that meets its contract, one for passwords, and small
  runs evaluated with them.
\<close>

section \<open>A library that signs\<close>

text \<open>Claims as text: numbers in unary, lists after their length.\<close>

definition un :: "nat \<Rightarrow> string" where
  "un n = replicate n (CHR ''1'') @ ''0''"

fun read_un :: "string \<Rightarrow> (nat \<times> string) option" where
  "read_un [] = None"
| "read_un (x # xs) = (if x = CHR ''1'' then map_option (\<lambda>(n, r). (Suc n, r)) (read_un xs) else Some (0, xs))"

lemma read_un_un: "read_un (un n @ s) = Some (n, s)"
  by (induction n) (simp_all add: un_def)

fun read_n :: "(string \<Rightarrow> ('b \<times> string) option) \<Rightarrow> nat \<Rightarrow> string \<Rightarrow> ('b list \<times> string) option" where
  "read_n f 0 s = Some ([], s)"
| "read_n f (Suc n) s =
     (case f s of None \<Rightarrow> None | Some (x, r) \<Rightarrow> map_option (\<lambda>(xs, r). (x # xs, r)) (read_n f n r))"

definition write_list :: "('b \<Rightarrow> string) \<Rightarrow> 'b list \<Rightarrow> string" where
  "write_list f xs = un (length xs) @ concat (map f xs)"

definition read_list :: "(string \<Rightarrow> ('b \<times> string) option) \<Rightarrow> string \<Rightarrow> ('b list \<times> string) option" where
  "read_list g s = (case read_un s of None \<Rightarrow> None | Some (n, r) \<Rightarrow> read_n g n r)"

lemma read_n_write:
  assumes "\<And>x r. g (f x @ r) = Some (x, r)"
  shows "read_n g (length xs) (concat (map f xs) @ s) = Some (xs, s)"
  using assms by (induction xs) simp_all

lemma read_write_list: "(\<And>x r. g (f x @ r) = Some (x, r)) \<Longrightarrow> read_list g (write_list f xs @ s) = Some (xs, s)"
  by (simp add: read_list_def write_list_def read_un_un read_n_write)

definition write_text :: "string \<Rightarrow> string" where "write_text = write_list (\<lambda>ch. un (of_char ch))"

definition read_text :: "string \<Rightarrow> (string \<times> string) option" where
  "read_text = read_list (\<lambda>s. map_option (\<lambda>(n, r). (char_of n, r)) (read_un s))"

lemma read_write_text: "read_text (write_text t @ s) = Some (t, s)"
  unfolding read_text_def write_text_def by (rule read_write_list) (simp add: read_un_un)

definition write_int :: "int \<Rightarrow> string" where
  "write_int i = (if i < 0 then ''1'' else ''0'') @ un (nat \<bar>i\<bar>)"

fun read_int :: "string \<Rightarrow> (int \<times> string) option" where
  "read_int [] = None"
| "read_int (x # xs) = map_option (\<lambda>(n, r). (if x = CHR ''1'' then - int n else int n, r)) (read_un xs)"

lemma read_write_int: "read_int (write_int i @ s) = Some (i, s)"
  by (simp add: write_int_def read_un_un)

definition write_token :: "string \<Rightarrow> claims \<Rightarrow> string" where
  "write_token secret c =
     write_text secret @ un (cl_uid c) @ write_text (cl_role c) @ write_text (cl_issuer c) @ write_text (cl_subject c) @
     write_list write_text (cl_aud c) @ write_int (cl_iat c) @ write_int (cl_exp c) @ write_int (cl_nbf c)"

definition obindO :: "('b \<times> string) option \<Rightarrow> ('b \<Rightarrow> string \<Rightarrow> 'c option) \<Rightarrow> 'c option" where
  "obindO m f = (case m of None \<Rightarrow> None | Some (x, r) \<Rightarrow> f x r)"

definition read_token :: "string \<Rightarrow> (string \<times> claims) option" where
  "read_token s0 =
     obindO (read_text s0) (\<lambda>secret s1. obindO (read_un s1) (\<lambda>uid s2. obindO (read_text s2) (\<lambda>role s3.
     obindO (read_text s3) (\<lambda>issuer s4. obindO (read_text s4) (\<lambda>subj s5. obindO (read_list read_text s5) (\<lambda>aud s6.
     obindO (read_int s6) (\<lambda>iat s7. obindO (read_int s7) (\<lambda>expiry s8. obindO (read_int s8) (\<lambda>nbf s9.
     Some (secret, \<lparr>cl_uid = uid, cl_role = role, cl_issuer = issuer, cl_subject = subj, cl_aud = aud, cl_iat = iat, cl_exp = expiry,
       cl_nbf = nbf\<rparr>))))))))))"

lemma read_write_token: "read_token (write_token secret c) = Some (secret, c)"
  by (simp add: read_token_def write_token_def obindO_def read_write_text read_un_un read_write_list [OF read_write_text] read_write_int
      read_write_int [of _ "[]", simplified])

definition digits_only :: "string \<Rightarrow> bool" where
  "digits_only s \<longleftrightarrow> list_all (\<lambda>ch. ch \<in> {CHR ''0'', CHR ''1''}) s"

lemma digits_append [simp]: "digits_only (s @ t) \<longleftrightarrow> digits_only s \<and> digits_only t"
  by (simp add: digits_only_def)

lemma un_digits [simp]: "digits_only (un n)"
  by (simp add: digits_only_def un_def list_all_iff)

lemma list_digits: "(\<And>x. digits_only (f x)) \<Longrightarrow> digits_only (write_list f xs)"
  unfolding write_list_def digits_append by (auto simp: digits_only_def un_def list_all_iff)

lemma token_digits: "digits_only (write_token secret c)"
proof -
  have t: "digits_only (write_text s)" for s unfolding write_text_def by (rule list_digits) simp
  have i: "digits_only (write_int n)" for n unfolding write_int_def digits_append by (simp add: digits_only_def [of "''0''"] digits_only_def [of "''1''"])
  show ?thesis unfolding write_token_def digits_append by (intro conjI t i un_digits list_digits)
qed

lemma trim_digits: "digits_only s \<Longrightarrow> TrimSpace s = s"
proof -
  assume s: "digits_only s"
  have d: "dropWhile is_space t = t" if "set t \<subseteq> {CHR ''0'', CHR ''1''}" for t
    using that by (cases t) (auto simp: is_space_def byte_val_def)
  have "set s \<subseteq> {CHR ''0'', CHR ''1''}" using s by (auto simp: digits_only_def list_all_iff)
  then show ?thesis using d [of s] d [of "rev s"] by (simp add: TrimSpace_def)
qed

definition plain_jwt :: jwt_lib where
  "plain_jwt =
     \<lparr>jw_sign = (\<lambda>secret c. Some (write_token secret c)),
      jw_parse = (\<lambda>now keyfunc tok.
        case read_token tok of
          None \<Rightarrow> None
        | Some (secret, c) \<Rightarrow>
            if keyfunc ''HS256'' = Some secret \<and> cl_nbf c * 1000 \<le> now \<and> now < cl_exp c * 1000 then Some c else None)\<rparr>"

lemma plain_jwt_contract: "jwt_contract plain_jwt"
  by (auto simp: jwt_contract_def plain_jwt_def read_write_token trim_digits [OF token_digits])

definition plain_bcrypt :: bcrypt_lib where
  "plain_bcrypt = \<lparr>bc_generate = (\<lambda>p cost. if length p > 72 then None else Some (''2b:'' @ p)), bc_compare = (\<lambda>h p. h = ''2b:'' @ p)\<rparr>"

lemma plain_bcrypt_contract: "bcrypt_contract plain_bcrypt"
  by (auto simp: bcrypt_contract_def plain_bcrypt_def split: if_splits)

section \<open>A small system\<close>

definition demo_auth :: "bool \<Rightarrow> auth_env" where
  "demo_auth verify =
     \<lparr>ae_collation = ToLower, ae_bcrypt = plain_bcrypt, ae_cost = 10, ae_jwt = plain_jwt, ae_manager = demo_manager,
      ae_require_verify = verify, ae_mail_on = True, ae_allow_register = True, ae_min_password = 6, ae_whitelist = [],
      ae_default_group = 1, ae_signup_bonus = 0\<rparr>"

definition demo_users :: user_db where
  "demo_users = \<lparr>users = Map.empty, ledger = [], profiles = [], next_user = 1, groups =
     [\<lparr>gr_id = 1, gr_name = ''default'', gr_ratio = 1, gr_daily = 0, gr_rpm = 60, gr_tpm = 60000, gr_remark = '''', gr_deleted = None\<rparr>],
     next_group = 2\<rparr>"

definition demo_world :: "unit auth_world" where
  "demo_world = ((demo_users, []), (\<lparr>co_keys = Map.empty\<rparr>, []), ([], []))"

definition demo_user :: "nat \<Rightarrow> string \<Rightarrow> string \<Rightarrow> profile" where
  "demo_user uid email role =
     \<lparr>pr_id = uid, pr_email = email, pr_hash = ''2b:secret1'', pr_nickname = '''', pr_group = 1, pr_role = role, pr_status = ''active'',
      pr_login_at = None, pr_login_ip = ''''\<rparr>"

lemmas register_eval = Register_def Register_checks_def Register_insert_def ensureEmailAllowed_def ensureEmailAvailable_def registerRole_def
  CountByEmail_def CountAll_def User_Create_def insert_user_def on_users_def on_codes_def bindE_def liftE_def okE_def failE_def
  verifyAndConsumeRegisterEmailCode_def consumeRegisterEmailCodeScript_def demo_auth_def demo_world_def demo_users_def demo_user_def
  plain_bcrypt_def normalizeNickname_def normalizeEmailCode_def alive_def Let_def

lemma demo_norm: "normalizeEmail ''a@x.io'' = ''a@x.io''" "normalizeEmail '' A@x.io'' = ''a@x.io''" "normalizeEmail ''b@x.io'' = ''b@x.io''"
  "ToLower ''a@x.io'' = ''a@x.io''" "ToLower ''b@x.io'' = ''b@x.io''" "TrimSpace '''' = ''''" "TrimSpace ''000042'' = ''000042''"
  by code_simp+

lemma demo_register:
  "Register (demo_auth False) 1000 ''a@x.io'' ''secret1'' '''' '''' demo_world =
     (Inr (demo_user 1 ''a@x.io'' ''admin''),
      ((demo_users\<lparr>profiles := [demo_user 1 ''a@x.io'' ''admin''], next_user := 2,
         users := [1 \<mapsto> \<lparr>credit_balance = 0, credit_frozen = 0, version = 0, deleted_at = None\<rparr>]\<rparr>, []), snd demo_world))"
  by (simp add: register_eval demo_norm stmt_def fun_eq_iff)

section \<open>The laws on it\<close>

lemma demo_manager_ttls: "currentTTLs demo_manager = (10000000000, 100000000000)"
  by (simp add: demo_manager_def NewManager_def currentTTLs_def second_ns_def wrap64_def)

lemma demo_sizes: "in_i64 (ae_signup_bonus (demo_auth v))" "ae_bcrypt (demo_auth v) = plain_bcrypt" "ae_jwt (demo_auth v) = plain_jwt"
  "ae_manager (demo_auth v) = demo_manager"
  by (simp_all add: demo_auth_def)

theorem registered_user_logs_in_witness:
  "\<exists>pair s'. Login (demo_auth False) 5000 '' A@x.io'' ''secret1'' ''::1''
      (users_of (snd (Register (demo_auth False) 1000 ''a@x.io'' ''secret1'' '''' '''' demo_world)), []) =
      (Inr (demo_user 1 ''a@x.io'' ''admin'', pair), s') \<and>
    JWTAuth plain_jwt demo_manager 6000 (''Bearer '' @ tp_access pair) ctx0 = Inr \<lparr>hx_user = Some 1, hx_role = Some ''admin''\<rparr>"
proof -
  let ?w = "snd (Register (demo_auth False) 1000 ''a@x.io'' ''secret1'' '''' '''' demo_world)"
  have r: "Register (demo_auth False) 1000 ''a@x.io'' ''secret1'' '''' '''' demo_world = (Inr (demo_user 1 ''a@x.io'' ''admin''), ?w)"
    by (simp add: demo_register)
  have s: "\<forall>c. jw_sign plain_jwt (mg_secret demo_manager) c \<noteq> None" by (simp add: plain_jwt_def)
  have n: "normalizeEmail '' A@x.io'' = normalizeEmail ''a@x.io''" by (simp add: demo_norm)
  have e: "numeric_date (5000 * 1000000 + fst (currentTTLs demo_manager)) = 15" by (simp add: demo_manager_ttls numeric_date_def second_ns_def)
  obtain pair s' where l: "Login (demo_auth False) 5000 '' A@x.io'' ''secret1'' ''::1''
      (users_of ?w, []) = (Inr (demo_user 1 ''a@x.io'' ''admin'', pair), s')"
    and j: "\<forall>t. 5000 \<le> t \<and> t < numeric_date (5000 * 1000000 + fst (currentTTLs demo_manager)) * 1000 \<longrightarrow>
      JWTAuth plain_jwt demo_manager t (''Bearer '' @ tp_access pair) ctx0 =
      Inr \<lparr>hx_user = Some (pr_id (demo_user 1 ''a@x.io'' ''admin'')), hx_role = Some (pr_role (demo_user 1 ''a@x.io'' ''admin''))\<rparr>"
    using registered_user_logs_in [of "demo_auth False", unfolded demo_sizes, OF plain_bcrypt_contract plain_jwt_contract s demo_sizes(1) r n, of 5000 "''::1''"]
    by blast
  have "JWTAuth plain_jwt demo_manager 6000 (''Bearer '' @ tp_access pair) ctx0 = Inr \<lparr>hx_user = Some 1, hx_role = Some ''admin''\<rparr>"
    using j [rule_format, of 6000] unfolding e by (simp add: demo_user_def)
  then show ?thesis using l by blast
qed

lemma demo_checks:
  "Register_checks (demo_auth False) 1000 ''a@x.io'' ''secret1'' '''' '''' demo_world = (Inr (demo_user 0 ''a@x.io'' ''admin''), demo_world)"
  by (simp add: register_eval demo_norm stmt_def fun_eq_iff)

definition demo_world_b :: "unit auth_world" where
  "demo_world_b = snd (Register (demo_auth False) 2000 ''b@x.io'' ''secret1'' '''' '''' demo_world)"

lemma demo_register_b:
  "Register (demo_auth False) 2000 ''b@x.io'' ''secret1'' '''' '''' demo_world = (Inr (demo_user 1 ''b@x.io'' ''admin''), demo_world_b)"
  "Register_insert (demo_auth False) (demo_user 0 ''a@x.io'' ''admin'') demo_world_b =
     (Inr (demo_user 2 ''a@x.io'' ''admin''), snd (Register_insert (demo_auth False) (demo_user 0 ''a@x.io'' ''admin'') demo_world_b))"
  by (simp_all add: demo_world_b_def register_eval demo_norm stmt_def fun_eq_iff)

theorem two_first_administrators_witness:
  "{demo_user 2 ''a@x.io'' ''admin'', demo_user 1 ''b@x.io'' ''admin''} \<subseteq>
     set (profiles (users_of (snd (Register_insert (demo_auth False) (demo_user 0 ''a@x.io'' ''admin'') demo_world_b))))"
proof -
  have "filter (alive (users_of demo_world)) (profiles (users_of demo_world)) = []" by (simp add: users_of_def demo_world_def demo_users_def)
  from two_first_administrators [OF this demo_sizes(1) demo_checks demo_register_b] show ?thesis by simp
qed

lemma demo_wf: "user_wf ToLower (users_of demo_world)"
  by (simp add: user_wf_def users_of_def demo_world_def demo_users_def)

theorem users_stay_wf_witness:
  "user_wf ToLower (users_of (fold user_step [U_register (demo_auth False) 1000 ''a@x.io'' ''secret1'' '''' '''',
     U_login (demo_auth False) 2000 ''a@x.io'' ''secret1'' ''::1'', U_update 2 1 \<lparr>up_nickname = None, up_role = Some ''user'',
     up_status = Some ''banned'', up_group = None\<rparr>] demo_world))"
  by (rule users_stay_wf [OF demo_wf]) (simp add: demo_auth_def)

definition demo_pair_db :: user_db where
  "demo_pair_db = demo_users\<lparr>profiles := [demo_user 1 ''a@x.io'' ''admin'', demo_user 2 ''b@x.io'' ''admin''], next_user := 3,
     users := [1 \<mapsto> \<lparr>credit_balance = 0, credit_frozen = 0, version = 0, deleted_at = None\<rparr>,
               2 \<mapsto> \<lparr>credit_balance = 0, credit_frozen = 0, version = 0, deleted_at = None\<rparr>]\<rparr>"

lemma demo_login:
  "\<exists>pair s'. Issue plain_jwt demo_manager 5000 1 ''admin'' = Inr pair \<and>
     Login (demo_auth False) 5000 ''a@x.io'' ''secret1'' ''::1'' (demo_pair_db, []) = (Inr (demo_user 1 ''a@x.io'' ''admin'', pair), s')"
proof -
  have n: "TrimSpace ''a@x.io'' = ''a@x.io''" by code_simp
  show ?thesis
    by (simp add: Login_def n demo_norm Let_def User_GetByEmail_def mapErr_def stmt_def select_user_def demo_pair_db_def demo_users_def
        alive_def demo_user_def demo_auth_def bindE_def liftE_def okE_def failE_def ignoreE_def catchE_def UpdateLoginInfo_def
        plain_bcrypt_def Issue_def signWithTTL_def plain_jwt_def split: prod.split)
qed

theorem tokens_only_for_live_users_witness:
  "\<exists>pair. Issue plain_jwt demo_manager 5000 1 ''admin'' = Inr pair \<and> alive demo_pair_db (demo_user 1 ''a@x.io'' ''admin'')"
proof -
  obtain pair s' where l: "Login (demo_auth False) 5000 ''a@x.io'' ''secret1'' ''::1'' (demo_pair_db, []) =
      (Inr (demo_user 1 ''a@x.io'' ''admin'', pair), s')" using demo_login by blast
  from tokens_only_for_live_users [THEN conjunct1, rule_format, OF l] show ?thesis by (auto simp: demo_sizes demo_user_def)
qed

lemma demo_delete:
  "\<exists>s'. Admin_User_Delete (demo_auth False) 6000 2 1 ''secret1'' '''' (demo_pair_db, []) = (Inr (), s')"
  by (simp add: Admin_User_Delete_def calls_def confirmAdmin_def VerifyPassword_def User_SoftDelete_def answer_def User_GetByID_def mapErr_def
      stmt_def select_user_def demo_pair_db_def demo_users_def alive_def demo_user_def demo_auth_def bindE_def okE_def failE_def catchE_def
      plain_bcrypt_def update_profile_def row_fits_def Let_def)

theorem stale_tokens_still_open_witness:
  "\<exists>pair. Issue plain_jwt demo_manager 5000 1 RoleAdmin = Inr pair \<and>
     reaches plain_jwt demo_manager ((demo_request '''')\<lparr>wr_header := ''Bearer '' @ tp_refresh pair, wr_now := 100000\<rparr>) demo_admin_route
       \<lparr>hx_user = Some 1, hx_role = Some RoleAdmin\<rparr>"
proof -
  obtain pair where p: "Issue (ae_jwt (demo_auth False)) (ae_manager (demo_auth False)) 5000 1 RoleAdmin = Inr pair"
    using demo_login by (auto simp: RoleAdmin_def demo_sizes)
  obtain s' where d: "Admin_User_Delete (demo_auth False) 6000 2 1 ''secret1'' '''' (demo_pair_db, []) = (Inr (), s')" using demo_delete by blast
  let ?w = "(demo_request '''')\<lparr>wr_header := ''Bearer '' @ tp_refresh pair, wr_now := 100000\<rparr>"
  have "jwt_contract (ae_jwt (demo_auth False))" by (simp add: demo_sizes plain_jwt_contract)
  moreover have "HasPrefix (rte_path demo_admin_route) ''/api/admin''" by (simp add: demo_admin_route_def HasPrefix_def)
  moreover have "wr_now ?w < numeric_date (5000 * 1000000 + snd (currentTTLs (ae_manager (demo_auth False)))) * 1000"
    by (simp add: demo_sizes demo_manager_ttls numeric_date_def second_ns_def)
  ultimately have "reaches (ae_jwt (demo_auth False)) (ae_manager (demo_auth False)) ?w demo_admin_route \<lparr>hx_user = Some 1, hx_role = Some RoleAdmin\<rparr>"
    using stale_tokens_still_open [OF _ p d, of "tp_refresh pair" "snd (currentTTLs (ae_manager (demo_auth False)))" demo_admin_route all_wired ?w]
      demo_routes(1) by simp
  then show ?thesis using p by (auto simp: demo_sizes)
qed

theorem cached_group_is_recent_witness:
  "\<exists>p. p \<in> set (profiles demo_pair_db) \<and> pr_id p = 1 \<and> live_group (pr_group p) (hd (groups demo_users))"
proof -
  have o1: "fst (OfUser 9000 1 (lookups [(1000, 1, demo_pair_db, [])] (NewGroupCache 0), (demo_pair_db, []))) = Inr (hd (groups demo_users))"
    by (simp add: OfUser_def NewGroupCache_def fresh_def group_of_id_def User_GetByID_def GetGroup_def mapErr_def stmt_def select_user_def
        demo_pair_db_def demo_users_def alive_def demo_user_def live_group_def)
  then obtain cs where "OfUser 9000 1 (lookups [(1000, 1, demo_pair_db, [])] (NewGroupCache 0), (demo_pair_db, [])) = (Inr (hd (groups demo_users)), cs)"
    by (metis prod.collapse)
  from cached_group_is_recent [OF this] show ?thesis by auto
qed

section \<open>Codes on it\<close>

definition demo_clock :: "int \<Rightarrow> code_clock" where
  "demo_clock t = \<lparr>cc_check = t, cc_value = t, cc_cooldown = t, cc_bump = t\<rparr>"

definition demo_send :: "int \<Rightarrow> unit auth_world \<Rightarrow> send_result result \<times> unit auth_world" where
  "demo_send t = SendRegisterEmailCode (demo_auth True) (demo_clock t) (Some 42) ''a@x.io'' ''::1''"

lemma demo_sent:
  "fst (demo_send 1000 demo_world) = Inr \<lparr>sr_sent = True, sr_expire_sec = 600, sr_retry_sec = 60\<rparr>"
  by code_simp

lemma demo_sent_again:
  "fst (demo_send 700000 (fold code_step [] (snd (demo_send 1000 demo_world)))) = Inr \<lparr>sr_sent = True, sr_expire_sec = 600, sr_retry_sec = 60\<rparr>"
  by code_simp

lemma demo_registered:
  "fst (Register (demo_auth True) 5000 ''a@x.io'' ''secret1'' '''' ''000042''
     (fold code_step [Send_op (demo_auth True) (demo_clock 1000) (Some 42) ''a@x.io'' ''::1''] demo_world)) = Inr (demo_user 1 ''a@x.io'' ''admin'')"
  by code_simp

theorem registration_proves_mailbox_witness:
  "\<forall>later. code_get later (valueKey ''a@x.io'') (codes_of (snd (Register (demo_auth True) 5000 ''a@x.io'' ''secret1'' '''' ''000042''
     (fold code_step [Send_op (demo_auth True) (demo_clock 1000) (Some 42) ''a@x.io'' ''::1''] demo_world)))) = None"
proof -
  let ?r = "Register (demo_auth True) 5000 ''a@x.io'' ''secret1'' '''' ''000042''
     (fold code_step [Send_op (demo_auth True) (demo_clock 1000) (Some 42) ''a@x.io'' ''::1''] demo_world)"
  have "?r = (Inr (demo_user 1 ''a@x.io'' ''admin''), snd ?r)" using demo_registered by (metis prod.collapse)
  moreover have "\<forall>m. co_keys (codes_of demo_world) (valueKey m) = None" by (simp add: codes_of_def demo_world_def)
  moreover have "ae_require_verify (demo_auth True)" by (simp add: demo_auth_def)
  ultimately have "\<forall>later. code_get later (valueKey (normalizeEmail ''a@x.io'')) (codes_of (snd ?r)) = None"
    using registration_proves_mailbox by blast
  then show ?thesis unfolding demo_norm(1) .
qed


end
