(* ===== verification/Spec2Isabelle.thy ===== *)
theory Spec2Isabelle
  imports Billing_Holds Billing_Pricing Recharge_Runs Scheduler_Laws Api_Key_Laws Channel_Laws Delta_Laws Gateway_Cases
    Gateway_Image_Cases Image_Proxy_Laws Image_Request_Laws Account_Refresh_Laws Usage_Logger Auth_Examples
begin

text \<open>
  A verification of the core of gpt2api, a gateway that sells OpenAI-compatible calls for credits and serves them
  from a pool of ChatGPT accounts or from external channels.

  \<^bold>\<open>The program.\<close> A request carries an API key (internal/apikey). The chat endpoint (internal/gateway) checks the
  key's model list and limits (internal/ratelimit over Redis), looks the model up (internal/model), holds the
  estimated price on the user's balance (internal/billing), and calls either an external channel
  (internal/channel) or an account that the scheduler (internal/scheduler) leases under a Redis lock (pkg/lock)
  together with a proxy (internal/proxy, internal/account). The answer is decoded from the upstream's event
  stream, the hold is settled or refunded, and a usage record is written. Credits come from payments
  (internal/recharge, pkg/epay), redeem codes (internal/redeem) and daily check-ins (internal/checkin). People register and
  log in with JWTs (internal/auth, internal/user, pkg/jwt), whose roles the router's guards check (internal/server,
  internal/middleware, internal/rbac).

  \<^bold>\<open>Foundations.\<close>
  \<^item> Prelude: Go errors and results, the error-propagating bind, 64-bit integers, the locale \<open>inv_system\<close> for
    invariants of runs. Sql_Tx: a session is a database with the outcomes of the driver's next calls (done, failed,
    done but reported failed), statements, transactions with rollback, read-only and preserving actions.
  \<^item> Go_Base (strings, decimal numbers), Go_Float (float64 rounding as \<open>rnd64\<close> on rationals), Go_Json (UTF-8 and
    encoding/json: the scanner, strings with escapes, numbers, objects), Go_Struct (decoding of JSON into structs), Md5 and
    Sha256 (the digests).

  \<^bold>\<open>Components.\<close> State is a record, an operation is a function from the session to a result and a session.
  \<^item> Billing_Engine, Billing_Laws, Billing_Holds (internal/billing/engine.go, admin.go): pre-deduction, settlement,
    refund, recharge, award and redeem transactions, the admin adjustment. The ledger reconciles with the balances
    over any run; each transaction refines an abstract wallet; holds are closed without conflict; amounts stay in
    range. Billing_Pricing (pricing.go): prices with wrap-around and float rounding; the estimate covers the cost.
  \<^item> Redeem (internal/redeem), Checkin (internal/checkin): codes pay at most once, check-ins once a day.
  \<^item> Epay (pkg/epay), Recharge, Recharge_Runs (internal/recharge): signatures, notifications, orders, and the
    interleaving of handlers as an inductive step relation; an order is credited at most once.
  \<^item> Model_Catalog (internal/model): DAO, validation, the registry cache and the admin writes.
  \<^item> Redis_Lock (pkg/lock), Rate_Limit (pkg/ratelimit, internal/ratelimit): mutual exclusion until expiry, at most
    capacity plus refill is granted. Crypto_Box (pkg/crypto): base64 framing of sealed secrets.
  \<^item> Account_Pool, Account_Laws (internal/account), Proxy_Pool, Proxy_Laws (internal/proxy): tables, services,
    imports, leases of proxies. Scheduler, Scheduler_Laws (internal/scheduler): the candidate loop, the lock, the
    queue with back-off, release and status reports; one request per account, eligibility, termination in time.
  \<^item> Api_Keys, Api_Key_Laws (internal/apikey): creation, verification, allow lists, the middleware; keys of
    different users do not interfere; an issued key verifies.
  \<^item> Channel_Router, Channel_Laws (internal/channel): channels, mappings, health, routing; the router's candidates
    are exactly the routable channels in order. The adapter for a type is chosen as internal/upstream/adapter does.
  \<^item> Delta_Extractor, Delta_Laws (internal/gateway/delta.go and the reply loops of chat.go): the decoding of the
    event stream, the notices for empty answers; the streamed and the collected answer agree.
  \<^item> Gateway_Chat, Gateway_Laws, Gateway_Cases (internal/gateway/chat.go, chat_channel.go): the whole endpoint over
    the components above, each with its own session; a call charges exactly what its one usage record says.
  \<^item> Image_Tasks, Image_Task_Laws (internal/image/dao.go, model.go, task_meta.go): the task table and the progress shown of
    a task. Image_Runner, Image_Run_Laws, Image_Cases (internal/image/runner.go): leases, references, the conversation,
    retries, parallel batches, archiving; a successful run returns exactly the images asked for and never a
    reference image, its number of attempts is bounded, and its row says what happened.
  \<^item> Image_Proxy, Image_Proxy_Laws (internal/imageproxy, images_proxy.go, images_proxy_cache.go of internal/gateway): signed
    addresses over SHA-256, the bounded cache, the answer; an image is served only as signed.
  \<^item> Image_Requests, Image_Request_Laws (the pure part of internal/gateway/images.go and image_channel.go): sizes, aspect
    ratios, prompts, reference images, calls of a channel. Gateway_Images, Gateway_Image_Laws, Gateway_Image_Cases:
    the image endpoints over the runner, the channels, billing and the limiter; a call charges exactly what it logs.
  \<^item> Account_Refresh, Account_Refresh_Laws (internal/account/refresher.go, quota.go): new tokens of the pool's accounts over
    the refresh or the session token, their check, what is stored, the probe of the image quota, the scans. Only accepted
    tokens are stored; a probe reads the tightest limit; an outage at the wrong moment is permanent.
  \<^item> Usage_Logger (internal/usage/logger.go): the asynchronous writer as an inductive step relation of requests, receptions,
    ticks and the shutdown; records are conserved, the drain ends, one record that does not fit loses its batch.
  \<^item> Rbac (internal/rbac), Auth_Tokens (pkg/jwt, internal/middleware/auth.go), Router, Router_Laws (internal/server/router.go): roles,
    menus, tokens, guards, and the table of routes, over which it is proved who reaches which handler.
  \<^item> Auth_Users (the tables and DAO of internal/user), Auth_Service (internal/auth/service.go), Auth_Admin (the handlers of
    internal/user): users, groups and their cache, verification codes in Redis, registration in its two halves, login. Auth_Laws,
    Auth_Invariant, Auth_Cases, Auth_Examples: what a code proves and how often one is sent, who gets tokens, well-formed tables
    over any run, a registered user logs in, what stale tokens open, how old a cached group is; concrete libraries for the
    contracts of JWT and bcrypt. Their proofs are over relations between the states before and after (\<open>step_relation\<close>).

  \<^bold>\<open>Bounds and fuel.\<close> The dispatch loop is a function whose termination measure is the time left until its
  deadline, so a bound on its duration is a theorem. The JSON scanner runs on fuel twice the length of the text plus
  two, which is proved to be enough. The eviction of the image cache and the greatest common divisor terminate by
  measures. The batches of a run and the calls of a channel count down from the bound the code's own loop has. Everything else recurses structurally.

  \<^bold>\<open>Parameters.\<close> What is not in the repository is an argument: the AEAD cipher, the URL parser, the JSON claim of a
  JWT, the JWT library (with its documented contract: a signed token verifies exactly between its dates), bcrypt (a hash compares
  with its password), the rounding of Redis's Lua interpreter (assumed accurate to a bound where it matters), random bytes and
  identifiers, the scan order of a SELECT without ORDER BY, the text a JSON column returns, the collation of
  names and addresses, the clock readings, the parser of RFC 3339 times, the image codecs and the HEIC converter, the file and
  the object store, and what auth.openai.com, chatgpt.com and the channels answer.

  \<^bold>\<open>Not modelled.\<close> HTTP decoding and rendering, logging and the texts of error messages except where they are stored or
  tested; optional dependencies of the endpoints are taken as configured. The ChatGPT client's protocol and browser emulation and
  the channel adapters' wire formats follow services outside the repository. The account importer, settings, the usage reports and
  credit listings, the audit log, backup, image storage, announcements, prompts and update logs are storage of rows or files behind
  the guards that Router models, and gin's matching of paths is the library's.
\<close>

end
